(* ===== verification/Prelude.thy ===== *)
theory Prelude
  imports Main "HOL-Library.Word"
begin

text \<open>
  Shared vocabulary of the development: the Go values every component uses (UUIDs, instants,
  byte strings, error chains), the early-return combinator the use cases are written with, and
  the generic lemmas and collections their proofs share.

  \<^item> A \<open>uuid.UUID\<close> is sixteen bytes, here a \<open>128 word\<close>; \<open>uuid.Nil\<close> is \<open>0\<close>.
  \<^item> A \<open>time.Time\<close> is an instant, here the number of nanoseconds since the zero instant of Go
    (January 1, year 1), so \<open>t.IsZero()\<close> is \<open>t = 0\<close>, and \<open>Before\<close>, \<open>After\<close> and
    \<open>Equal\<close> are the orders of \<open>int\<close>. \<open>UTC()\<close> does not move the instant.
  \<^item> A Go \<open>string\<close> is a sequence of bytes, here a \<open>string\<close> of Isabelle, whose characters
    are bytes.
  \<^item> An \<open>error\<close> is a chain: a package-level sentinel, an error made in place, a wrapping
    \<open>fmt.Errorf\<close> with \<open>%w\<close>, an \<open>apperr.Error\<close>, or an \<open>errors.Join\<close>.
\<close>

named_theorems record_ops \<open>definitions of aggregate operations\<close>
named_theorems port_intros \<open>facts about the ports of a use case\<close>


section \<open>Identifiers, instants\<close>

type_synonym uuid = "128 word"
type_synonym gotime = int
type_synonym duration = int
type_synonym int64 = "64 word"

abbreviation uuid_nil :: uuid where
  "uuid_nil \<equiv> 0"

abbreviation (input) is_zero :: "gotime \<Rightarrow> bool" where
  "is_zero t \<equiv> t = 0"

abbreviation (input) before :: "gotime \<Rightarrow> gotime \<Rightarrow> bool" where
  "before a b \<equiv> a < b"

abbreviation (input) after :: "gotime \<Rightarrow> gotime \<Rightarrow> bool" where
  "after a b \<equiv> b < a"

text \<open>\<open>24 * time.Hour\<close> and its kin in nanoseconds.\<close>

definition hour :: duration where
  "hour = 3600 * 1000000000"


section \<open>strings.TrimSpace\<close>

text \<open>
  The UTF-8 encodings of the white-space runes of \<open>unicode.IsSpace\<close>. A rune that begins or
  ends a byte string is recognised by its encoding as a prefix or suffix, so trimming removes
  these byte sequences from either end until none matches.
\<close>

definition space_runes :: "string list" where
  "space_runes =
     [[CHR 0x20], [CHR 0x09], [CHR 0x0A], [CHR 0x0B], [CHR 0x0C], [CHR 0x0D],
      [CHR 0xC2, CHR 0x85], [CHR 0xC2, CHR 0xA0], [CHR 0xE1, CHR 0x9A, CHR 0x80],
      [CHR 0xE2, CHR 0x80, CHR 0x80], [CHR 0xE2, CHR 0x80, CHR 0x81],
      [CHR 0xE2, CHR 0x80, CHR 0x82], [CHR 0xE2, CHR 0x80, CHR 0x83],
      [CHR 0xE2, CHR 0x80, CHR 0x84], [CHR 0xE2, CHR 0x80, CHR 0x85],
      [CHR 0xE2, CHR 0x80, CHR 0x86], [CHR 0xE2, CHR 0x80, CHR 0x87],
      [CHR 0xE2, CHR 0x80, CHR 0x88], [CHR 0xE2, CHR 0x80, CHR 0x89],
      [CHR 0xE2, CHR 0x80, CHR 0x8A], [CHR 0xE2, CHR 0x80, CHR 0xA8],
      [CHR 0xE2, CHR 0x80, CHR 0xA9], [CHR 0xE2, CHR 0x80, CHR 0xAF],
      [CHR 0xE2, CHR 0x81, CHR 0x9F], [CHR 0xE3, CHR 0x80, CHR 0x80]]"

definition begins_with :: "'a list \<Rightarrow> 'a list \<Rightarrow> bool" where
  "begins_with p s \<longleftrightarrow> p \<noteq> [] \<and> take (length p) s = p"

function strip :: "'a list list \<Rightarrow> 'a list \<Rightarrow> 'a list" where
  "strip ps s =
     (case find (\<lambda>p. begins_with p s) ps of
        None \<Rightarrow> s
      | Some p \<Rightarrow> strip ps (drop (length p) s))"
  by pat_completeness auto
termination
proof (relation "measure (\<lambda>(ps, s). length s)", goal_cases)
  case 1
  show ?case by simp
next
  case (2 ps s p)
  then have "begins_with p s"
    by (auto simp: find_Some_iff)
  then have "s \<noteq> []" and "p \<noteq> []"
    by (auto simp: begins_with_def)
  then show ?case by simp
qed

declare strip.simps [simp del]

definition trim_space :: "string \<Rightarrow> string" where
  "trim_space s = rev (strip (map rev space_runes) (rev (strip space_runes s)))"

lemma find_begins_with_None:
  "find (\<lambda>p. begins_with p s) ps = None \<longleftrightarrow> (\<forall>p \<in> set ps. \<not> begins_with p s)"
  by (auto simp: find_None_iff)

lemma strip_done: "\<forall>p \<in> set ps. \<not> begins_with p (strip ps s)"
proof (induction ps s rule: strip.induct)
  case (1 ps s)
  show ?case
  proof (cases "find (\<lambda>p. begins_with p s) ps")
    case None
    then have "strip ps s = s"
      by (simp add: strip.simps [of ps s])
    with None show ?thesis
      using find_begins_with_None by metis
  next
    case (Some p)
    with "1" show ?thesis
      by (simp add: strip.simps [of ps s])
  qed
qed

lemma strip_fixpoint:
  assumes "\<forall>p \<in> set ps. \<not> begins_with p s"
  shows "strip ps s = s"
proof -
  have "find (\<lambda>p. begins_with p s) ps = None"
    using assms by (simp add: find_begins_with_None)
  then show ?thesis
    by (simp add: strip.simps [of ps s])
qed

lemma strip_suffix: "\<exists>us. s = us @ strip ps s"
proof (induction ps s rule: strip.induct)
  case (1 ps s)
  show ?case
  proof (cases "find (\<lambda>p. begins_with p s) ps")
    case None
    then show ?thesis by (simp add: strip.simps [of ps s])
  next
    case (Some p)
    with "1" obtain us where "drop (length p) s = us @ strip ps (drop (length p) s)"
      by blast
    then have "s = (take (length p) s @ us) @ strip ps (drop (length p) s)"
      by (metis append.assoc append_take_drop_id)
    moreover from Some have "strip ps s = strip ps (drop (length p) s)"
      by (simp add: strip.simps [of ps s])
    ultimately show ?thesis by metis
  qed
qed

lemma begins_with_prefix: "begins_with p u \<Longrightarrow> begins_with p (u @ v)"
  by (auto simp: begins_with_def)
     (metis append_Nil2 append_take_drop_id diff_is_0_eq' length_take min.absorb_iff2 nle_le take_all_iff)

text \<open>Trimming twice is trimming once.\<close>

lemma trim_space_idem [simp]: "trim_space (trim_space s) = trim_space s"
proof -
  let ?l = "strip space_runes s" and ?ps = "map rev space_runes"
  obtain us where us: "rev ?l = us @ strip ?ps (rev ?l)"
    using strip_suffix by blast
  then have "?l = rev (strip ?ps (rev ?l)) @ rev us"
    by (metis rev_append rev_rev_ident)
  then have "\<forall>p \<in> set space_runes. \<not> begins_with p (rev (strip ?ps (rev ?l)))"
    using strip_done [of space_runes s] begins_with_prefix by metis
  then have "strip space_runes (trim_space s) = trim_space s"
    by (simp add: trim_space_def strip_fixpoint)
  moreover have "strip ?ps (rev (trim_space s)) = rev (trim_space s)"
    by (simp add: trim_space_def strip_fixpoint strip_done)
  ultimately show ?thesis
    by (metis rev_rev_ident trim_space_def)
qed

lemma strip_Nil [simp]: "strip ps [] = []"
  by (rule strip_fixpoint) (auto simp: begins_with_def)

lemma trim_space_Nil [simp]: "trim_space [] = []"
  by (simp add: trim_space_def)

text \<open>Evaluation waits until the string is known.\<close>

lemma trim_space_code [code]:
  "trim_space [] = []"
  "trim_space (c # cs) = rev (strip (map rev space_runes) (rev (strip space_runes (c # cs))))"
  by (rule trim_space_Nil) (rule trim_space_def)


section \<open>Decimal numerals and lower case\<close>

fun show_nat :: "nat \<Rightarrow> string" where
  "show_nat n =
     (if n < 10 then [char_of (48 + n)] else show_nat (n div 10) @ [char_of (48 + n mod 10)])"

declare show_nat.simps [simp del]

definition show_int :: "int \<Rightarrow> string" where
  "show_int i = (if i < 0 then ''-'' @ show_nat (nat (- i)) else show_nat (nat i))"

text \<open>\<open>strings.ToLower\<close> on ASCII strings: the only strings the sources pass to it are literals.\<close>

definition ascii_lower_char :: "char \<Rightarrow> char" where
  "ascii_lower_char c =
     (let n = of_char c :: nat in if 65 \<le> n \<and> n \<le> 90 then char_of (n + 32) else c)"

definition ascii_lower :: "string \<Rightarrow> string" where
  "ascii_lower s = map ascii_lower_char s"


section \<open>Error chains\<close>

datatype apperr_type =
  TypeUnknown | TypeInvalidArgument | TypeUnauthorized | TypeForbidden | TypeNotFound
| TypeConflict | TypeUnavailable | TypeInternal

text \<open>
  \<open>Wrap pre e suf\<close> is \<open>fmt.Errorf\<close> with text \<open>pre\<close> before the wrapped error and \<open>suf\<close>
  after it; \<open>App\<close> is a (non-nil) \<open>*apperr.Error\<close> with its type, code, message and cause.
\<close>

datatype 'k error =
  Sentinel 'k
| Fresh string
| Wrap string "'k error" string
| App apperr_type string string "'k error option"
| Join "'k error list"

fun apperr_type_Valid :: "apperr_type \<Rightarrow> bool" where
  "apperr_type_Valid TypeUnknown = False"
| "apperr_type_Valid _ = True"

fun apperr_type_String :: "apperr_type \<Rightarrow> string" where
  "apperr_type_String TypeInvalidArgument = ''invalid_argument''"
| "apperr_type_String TypeUnauthorized = ''unauthorized''"
| "apperr_type_String TypeForbidden = ''forbidden''"
| "apperr_type_String TypeNotFound = ''not_found''"
| "apperr_type_String TypeConflict = ''conflict''"
| "apperr_type_String TypeUnavailable = ''unavailable''"
| "apperr_type_String TypeInternal = ''internal''"
| "apperr_type_String TypeUnknown = ''unknown''"

text \<open>
  The text \<open>err.Error()\<close>, from the texts of the sentinels; the cases of \<open>App\<close> are those of
  \<open>(*apperr.Error).Error\<close> (with a cause, or without), and \<open>errors.Join\<close> puts newlines between.
\<close>

fun error_text :: "('k \<Rightarrow> string) \<Rightarrow> 'k error \<Rightarrow> string" where
  "error_text txt (Sentinel s) = txt s"
| "error_text txt (Fresh m) = m"
| "error_text txt (Wrap p e q) = p @ error_text txt e @ q"
| "error_text txt (App t c m (Some e)) =
     (if c \<noteq> '''' then c @ '': '' @ m @ '': '' @ error_text txt e
      else m @ '': '' @ error_text txt e)"
| "error_text txt (App t c m None) = (if c \<noteq> '''' then c @ '': '' @ m else m)"
| "error_text txt (Join []) = ''''"
| "error_text txt (Join [e]) = error_text txt e"
| "error_text txt (Join (e # es)) = error_text txt e @ [CHR 0x0A] @ error_text txt (Join es)"

text \<open>\<open>errors.Is(err, target)\<close> for a sentinel target: some error of the chain is the target.\<close>

fun errors_is :: "'k error \<Rightarrow> 'k \<Rightarrow> bool" where
  "errors_is (Sentinel s) k = (s = k)"
| "errors_is (Fresh m) k = False"
| "errors_is (Wrap p e q) k = errors_is e k"
| "errors_is (App t c m None) k = False"
| "errors_is (App t c m (Some e)) k = errors_is e k"
| "errors_is (Join es) k = list_ex (\<lambda>e. errors_is e k) es"

text \<open>\<open>errors.As(err, &appErr)\<close>: the first application error of the chain.\<close>

fun errors_as_app :: "'k error \<Rightarrow> 'k error option" where
  "errors_as_app (Sentinel s) = None"
| "errors_as_app (Fresh m) = None"
| "errors_as_app (Wrap p e q) = errors_as_app e"
| "errors_as_app (App t c m e) = Some (App t c m e)"
| "errors_as_app (Join []) = None"
| "errors_as_app (Join (e # es)) =
     (case errors_as_app e of Some a \<Rightarrow> Some a | None \<Rightarrow> errors_as_app (Join es))"

lemma errors_as_app_is_App:
  "errors_as_app e = Some a \<Longrightarrow> \<exists>t c m u. a = App t c m u"
  by (induction e rule: errors_as_app.induct) (auto split: option.splits)


section \<open>Early returns over a state\<close>

text \<open>
  An operation with effects takes the state of the world and returns its result and the new
  state. \<open>attempt r wrap k\<close> is the Go idiom
  \<^verbatim>\<open>x, err := r; if err != nil { return wrap(err) }; k(x)\<close>.
\<close>

type_synonym ('w, 'k, 'a) result = "('k error + 'a) \<times> 'w"

definition attempt ::
  "('w, 'k, 'a) result \<Rightarrow> ('k error \<Rightarrow> 'k error) \<Rightarrow> ('a \<Rightarrow> 'w \<Rightarrow> ('w, 'k, 'b) result)
     \<Rightarrow> ('w, 'k, 'b) result" where
  "attempt r wrap k =
     (case r of (Inl e, w) \<Rightarrow> (Inl (wrap e), w) | (Inr x, w) \<Rightarrow> k x w)"

lemma attempt_simps [simp]:
  "attempt (Inl e, w) wrap k = (Inl (wrap e), w)"
  "attempt (Inr x, w) wrap k = k x w"
  by (simp_all add: attempt_def)

lemma attempt_eq_Inr:
  "attempt r wrap k = (Inr b, w') \<longleftrightarrow> (\<exists>x w. r = (Inr x, w) \<and> k x w = (Inr b, w'))"
  by (cases r; cases "fst r") (auto simp: attempt_def)

lemma attempt_eq_Inl:
  "attempt r wrap k = (Inl e, w') \<longleftrightarrow>
     (\<exists>d. r = (Inl d, w') \<and> e = wrap d) \<or> (\<exists>x w. r = (Inr x, w) \<and> k x w = (Inl e, w'))"
  by (cases r; cases "fst r") (auto simp: attempt_def)

lemma snd_attempt_keep:
  "st (snd r) = s \<Longrightarrow> (\<And>x w. r = (Inr x, w) \<Longrightarrow> st (snd (k x w)) = st w) \<Longrightarrow>
     st (snd (attempt r wrap k)) = s"
  by (cases r; cases "fst r") auto

lemma if_keep:
  "(b \<Longrightarrow> st (snd r1) = s) \<Longrightarrow> (\<not> b \<Longrightarrow> st (snd r2) = s) \<Longrightarrow> st (snd (if b then r1 else r2)) = s"
  by simp

text \<open>The two inversion rules, for proofs that start from the outcome of a use case.\<close>

lemma attempt_okE:
  assumes "attempt r wrap k = (Inr b, w')"
  obtains x w where "r = (Inr x, w)" and "k x w = (Inr b, w')"
  using assms by (auto simp: attempt_eq_Inr)

lemma attempt_errE:
  assumes "attempt r wrap k = (Inl e, w')"
  obtains (here) d where "r = (Inl d, w')" and "e = wrap d"
    | (later) x w where "r = (Inr x, w)" and "k x w = (Inl e, w')"
  using assms by (auto simp: attempt_eq_Inl)

text \<open>
  \<open>draw r k\<close> runs an operation that cannot fail (the clock, an identifier generator) and goes on
  with its value. A pure call that may fail is \<open>attempt (call, w)\<close>.
\<close>

definition draw :: "'a \<times> 'w \<Rightarrow> ('a \<Rightarrow> 'w \<Rightarrow> 'r) \<Rightarrow> 'r" where
  "draw r k = (case r of (x, w) \<Rightarrow> k x w)"

lemma draw_simps [simp]: "draw (x, w) k = k x w"
  by (simp add: draw_def)

lemma draw_eq: "draw r k = c \<longleftrightarrow> (\<exists>x w. r = (x, w) \<and> k x w = c)"
  by (cases r) simp

lemmas attempt_inv = attempt_eq_Inr attempt_eq_Inl draw_eq

lemma if_err_ok_iff [simp]:
  "(if b then (Inl e, w) else r) = (Inr x, w') \<longleftrightarrow> \<not> b \<and> r = (Inr x, w')"
  by auto


lemma failed_result: "isl (fst r) \<Longrightarrow> r = (Inl (projl (fst r)), snd r)"
  by (cases r; cases "fst r") auto

lemma ok_result: "\<not> isl (fst r) \<Longrightarrow> r = (Inr (projr (fst r)), snd r)"
  by (cases r; cases "fst r") auto


section \<open>Outcomes of operations\<close>

text \<open>
  \<open>outcome st s Q r\<close>: if \<open>r\<close> is an error, the part \<open>st\<close> of the world is still \<open>s\<close>; if it is the
  value \<open>x\<close>, then \<open>Q\<close> holds of \<open>x\<close> and the new \<open>st\<close>. The introduction rules follow the shape of a
  use case, one per combinator, so one pass over a use case shows both halves.
\<close>

named_theorems outcome_intros \<open>rules for outcomes\<close>

definition outcome ::
  "('w \<Rightarrow> 's) \<Rightarrow> 's \<Rightarrow> ('a \<Rightarrow> 's \<Rightarrow> bool) \<Rightarrow> ('w, 'k, 'a) result \<Rightarrow> bool" where
  "outcome st s Q r = (case r of (Inl e, w) \<Rightarrow> st w = s | (Inr x, w) \<Rightarrow> Q x (st w))"

lemma outcome_err: "outcome st s Q r \<Longrightarrow> r = (Inl e, w) \<Longrightarrow> st w = s"
  by (simp add: outcome_def)

lemma outcome_ok: "outcome st s Q r \<Longrightarrow> r = (Inr x, w) \<Longrightarrow> Q x (st w)"
  by (simp add: outcome_def)

lemma outcome_mono:
  "outcome st s Q r \<Longrightarrow> (\<And>x t. Q x t \<Longrightarrow> R x t) \<Longrightarrow> outcome st s R r"
  by (auto simp: outcome_def split: prod.splits sum.splits)

lemma outcome_Inl [outcome_intros]: "st w = s \<Longrightarrow> outcome st s Q (Inl e, w)"
  by (simp add: outcome_def)

lemma outcome_Inr [outcome_intros]: "Q x (st w) \<Longrightarrow> outcome st s Q (Inr x, w)"
  by (simp add: outcome_def)

lemma outcome_if [outcome_intros]:
  "(b \<Longrightarrow> outcome st s Q r1) \<Longrightarrow> (\<not> b \<Longrightarrow> outcome st s Q r2) \<Longrightarrow>
     outcome st s Q (if b then r1 else r2)"
  by simp

lemma outcome_case_option [outcome_intros]:
  "(x = None \<Longrightarrow> outcome st s Q r) \<Longrightarrow> (\<And>y. x = Some y \<Longrightarrow> outcome st s Q (f y)) \<Longrightarrow>
     outcome st s Q (case x of None \<Rightarrow> r | Some y \<Rightarrow> f y)"
  by (cases x) auto

lemma outcome_case_prod [outcome_intros]:
  "(\<And>a b. p = (a, b) \<Longrightarrow> outcome st s Q (f a b w)) \<Longrightarrow>
     outcome st s Q ((case p of (a, b) \<Rightarrow> f a b) w)"
  by (cases p) simp

lemma outcome_draw [outcome_intros]:
  "st (snd r) = s \<Longrightarrow> (\<And>x w. r = (x, w) \<Longrightarrow> st w = s \<Longrightarrow> outcome st s Q (k x w)) \<Longrightarrow>
     outcome st s Q (draw r k)"
  by (cases r) simp

text \<open>An operation that leaves \<open>st\<close> alone, then the rest; or a last operation, then a result.\<close>

lemma outcome_attempt [outcome_intros]:
  "st (snd r) = s \<Longrightarrow> (\<And>x w. r = (Inr x, w) \<Longrightarrow> st w = s \<Longrightarrow> outcome st s Q (k x w)) \<Longrightarrow>
     outcome st s Q (attempt r wrap k)"
  by (cases r; cases "fst r") (auto simp: outcome_def)

lemma outcome_attempt_last:
  "outcome st s R r \<Longrightarrow> (\<And>x w. R x (st w) \<Longrightarrow> outcome st s Q (k x w)) \<Longrightarrow>
     outcome st s Q (attempt r wrap k)"
  by (cases r; cases "fst r") (auto simp: outcome_def)


section \<open>Tables\<close>

text \<open>A property of every row of a table, or of every two, and what an update needs to keep it.\<close>

definition all_rows :: "('a \<Rightarrow> 'b \<Rightarrow> bool) \<Rightarrow> ('a \<rightharpoonup> 'b) \<Rightarrow> bool" where
  "all_rows R m \<longleftrightarrow> (\<forall>k x. m k = Some x \<longrightarrow> R k x)"

definition all_pairs :: "('a \<Rightarrow> 'b \<Rightarrow> 'a \<Rightarrow> 'b \<Rightarrow> bool) \<Rightarrow> ('a \<rightharpoonup> 'b) \<Rightarrow> bool" where
  "all_pairs R m \<longleftrightarrow> (\<forall>k x l y. m k = Some x \<longrightarrow> m l = Some y \<longrightarrow> R k x l y)"

lemma all_rowsD: "all_rows R m \<Longrightarrow> m k = Some x \<Longrightarrow> R k x"
  by (simp add: all_rows_def)

lemma all_rows_upd: "all_rows R m \<Longrightarrow> R k x \<Longrightarrow> all_rows R (m(k \<mapsto> x))"
  by (simp add: all_rows_def)

lemma all_rows_mono: "all_rows R m \<Longrightarrow> (\<And>k x. m k = Some x \<Longrightarrow> R k x \<Longrightarrow> T k x) \<Longrightarrow> all_rows T m"
  by (simp add: all_rows_def)

lemma all_pairsD: "all_pairs R m \<Longrightarrow> m k = Some x \<Longrightarrow> m l = Some y \<Longrightarrow> R k x l y"
  by (simp add: all_pairs_def)

lemma all_pairs_upd:
  "all_pairs R m \<Longrightarrow> R k x k x \<Longrightarrow>
     (\<And>l y. l \<noteq> k \<Longrightarrow> m l = Some y \<Longrightarrow> R k x l y \<and> R l y k x) \<Longrightarrow> all_pairs R (m(k \<mapsto> x))"
  by (simp add: all_pairs_def)

lemma all_rows_empty [simp]: "all_rows R Map.empty" "all_pairs Q Map.empty"
  by (simp_all add: all_rows_def all_pairs_def)


section \<open>Machines that only move forward\<close>

text \<open>
  The lifecycle contract several aggregates share: a step relation and a set of terminal states
  no step leaves. The client lemmas say that a terminal state is final for whole runs.
\<close>

locale lifecycle =
  fixes step :: "'s \<Rightarrow> 's \<Rightarrow> bool"
    and terminal :: "'s \<Rightarrow> bool"
  assumes terminal_no_step: "terminal s \<Longrightarrow> \<not> step s t"
begin

lemma terminal_stays:
  assumes "step\<^sup>*\<^sup>* s t" and "terminal s"
  shows "t = s"
  using assms by (induction rule: rtranclp_induct) (auto dest: terminal_no_step)

lemma nonterminal_before:
  assumes "step\<^sup>*\<^sup>* s t" and "s \<noteq> t"
  shows "\<not> terminal s"
  using assms terminal_stays by blast

end

text \<open>A lifecycle whose steps climb a rank cannot revisit a state, and its runs are short.\<close>

locale ranked_lifecycle = lifecycle +
  fixes rank :: "'s \<Rightarrow> nat"
  assumes rank_increases: "step s t \<Longrightarrow> rank s < rank t"
begin

lemma rank_run: "step\<^sup>+\<^sup>+ s t \<Longrightarrow> rank s < rank t"
  by (induction rule: tranclp_induct) (auto dest: rank_increases)

lemma no_cycle: "\<not> step\<^sup>+\<^sup>+ s s"
  using rank_run by blast

lemma run_length: "(step ^^ n) s t \<Longrightarrow> rank s + n \<le> rank t"
proof (induction n arbitrary: t)
  case 0
  then show ?case by simp
next
  case (Suc n)
  then obtain u where "(step ^^ n) s u" and "step u t"
    by auto
  with Suc.IH rank_increases show ?case by fastforce
qed

end

end
