(* ===== verification/Txmanager.thy ===== *)
theory Txmanager
  imports Prelude
begin

text \<open>
  The transaction manager \<open>packages/go/txmanager/manager.go\<close>: \<open>Do\<close> runs a function inside a
  transaction it begins, commits and rolls back, or inside the transaction its context already
  carries. The driver's transactions are ports; \<open>transactional\<close> states what a database promises of
  them, and \<open>tx_port\<close> what \<open>Do\<close> gives to the use cases, which \<open>Do\<close> is shown to provide.
\<close>

section \<open>Do\<close>

text \<open>A Go function with one error result returns, or panics.\<close>

datatype 'k flow = Return "'k error option" | Panic

record ('w, 'k, 'tx) tx_ops =
  Begin :: "'w \<Rightarrow> ('w, 'k, 'tx) result"
  Commit :: "'tx \<Rightarrow> 'w \<Rightarrow> 'k error option \<times> 'w"
  Rollback :: "'tx \<Rightarrow> 'w \<Rightarrow> 'k error option \<times> 'w"

text \<open>
  The context is reduced to the transaction it carries: \<open>inject\<close> makes it \<open>Some tx\<close>, and
  \<open>TxFromContext\<close> reads it.
\<close>

text \<open>The deferred function: what happens to the transaction once \<open>fn\<close> is over.\<close>

definition finish :: "('w, 'k, 'tx) tx_ops \<Rightarrow> 'tx \<Rightarrow> 'k flow \<Rightarrow> 'w \<Rightarrow> 'k flow \<times> 'w" where
  "finish m tx r w =
     (case r of
        Panic \<Rightarrow> (Panic, snd (Rollback m tx w))
      | Return (Some err) \<Rightarrow>
          (case Rollback m tx w of
             (Some rollbackErr, w) \<Rightarrow>
               (Return (Some (Join [err, Wrap ''rollback transaction: '' rollbackErr ''''])), w)
           | (None, w) \<Rightarrow> (Return (Some err), w))
      | Return None \<Rightarrow>
          (case Commit m tx w of
             (Some commitErr, w) \<Rightarrow> (Return (Some (Wrap ''commit transaction: '' commitErr '''')), w)
           | (None, w) \<Rightarrow> (Return None, w)))"

definition tx_manager_Do ::
  "('w, 'k, 'tx) tx_ops \<Rightarrow> 'tx option \<Rightarrow> ('tx option \<Rightarrow> 'w \<Rightarrow> 'k flow \<times> 'w) \<Rightarrow> 'w
     \<Rightarrow> 'k flow \<times> 'w" where
  "tx_manager_Do m ctx fn w =
     (case ctx of
        Some tx \<Rightarrow> fn ctx w
      | None \<Rightarrow>
          (case Begin m w of
             (Inl err, w) \<Rightarrow> (Return (Some (Wrap ''begin transaction: '' err '''')), w)
           | (Inr tx, w) \<Rightarrow> (case fn (Some tx) w of (r, w) \<Rightarrow> finish m tx r w)))"

lemma Do_nested: "tx_manager_Do m (Some tx) fn w = fn (Some tx) w"
  by (simp add: tx_manager_Do_def)

lemma finish_err:
  "finish m tx (Return (Some err)) w = (Return e, w') \<Longrightarrow>
     e = Some err \<or> (\<exists>rerr. e = Some (Join [err, Wrap ''rollback transaction: '' rerr '''']))"
  by (auto simp: finish_def split: prod.splits option.splits)

lemma finish_ok:
  "finish m tx r w = (Return None, w') \<Longrightarrow> r = Return None \<and> Commit m tx w = (None, w')"
  by (auto simp: finish_def split: flow.splits prod.splits option.splits)


section \<open>What a database promises\<close>

text \<open>
  \<open>stored\<close> is what a session reads. A transaction remembers what was stored when it began; a
  rollback and a failed commit bring that back, a commit keeps what the session wrote.
\<close>

locale transactional =
  fixes m :: "('w, 'k, 'tx) tx_ops"
    and stored :: "'w \<Rightarrow> 's"
    and snapshot :: "'tx \<Rightarrow> 's"
  assumes Begin_ok:
      "Begin m w = (Inr tx, w') \<Longrightarrow> stored w' = stored w \<and> snapshot tx = stored w"
    and Begin_err: "Begin m w = (Inl err, w') \<Longrightarrow> stored w' = stored w"
    and Commit_ok: "Commit m tx w = (None, w') \<Longrightarrow> stored w' = stored w"
    and Commit_err: "Commit m tx w = (Some err, w') \<Longrightarrow> stored w' = snapshot tx"
    and Rollback_restores: "Rollback m tx w = (rerr, w') \<Longrightarrow> stored w' = snapshot tx"
begin

lemma finish_restores:
  "finish m tx r w = (r', w') \<Longrightarrow> r' \<noteq> Return None \<Longrightarrow> stored w' = snapshot tx"
  by (auto simp: finish_def Commit_err dest: Rollback_restores
      split: flow.splits prod.splits option.splits)
     (metis Rollback_restores prod.collapse)

text \<open>All or nothing, whatever the function does and however it ends.\<close>

lemma Do_restores:
  assumes "tx_manager_Do m None fn w = (r, w')" and "r \<noteq> Return None"
  shows "stored w' = stored w"
proof (cases "Begin m w")
  case (Pair b w1)
  show ?thesis
  proof (cases b)
    case (Inl err)
    with Pair assms Begin_err show ?thesis by (simp add: tx_manager_Do_def)
  next
    case (Inr tx)
    obtain r2 w2 where "fn (Some tx) w1 = (r2, w2)" by fastforce
    with Pair Inr assms(1) have "finish m tx r2 w2 = (r, w')"
      by (simp add: tx_manager_Do_def)
    from finish_restores [OF this assms(2)] Begin_ok Pair Inr show ?thesis by metis
  qed
qed

lemma Do_commits:
  assumes "tx_manager_Do m None fn w = (Return None, w')"
  shows "\<exists>tx w1 w2. stored w1 = stored w \<and> fn (Some tx) w1 = (Return None, w2) \<and>
           stored w' = stored w2"
proof (cases "Begin m w")
  case (Pair b w1)
  show ?thesis
  proof (cases b)
    case (Inl err)
    with Pair assms show ?thesis by (simp add: tx_manager_Do_def)
  next
    case (Inr tx)
    obtain r2 w2 where fn: "fn (Some tx) w1 = (r2, w2)" by fastforce
    with Pair Inr assms have "finish m tx r2 w2 = (Return None, w')"
      by (simp add: tx_manager_Do_def)
    from finish_ok [OF this] fn Commit_ok Begin_ok Pair Inr show ?thesis by metis
  qed
qed

end


section \<open>What the use cases rely on\<close>

text \<open>
  The use cases pass functions that return an error or nothing and do not look at the context, so
  their port is \<open>Do\<close> on such functions, outside any transaction.
\<close>

definition as_flow :: "('w, 'k, unit) result \<Rightarrow> 'k flow \<times> 'w" where
  "as_flow r = (case r of (Inl err, w) \<Rightarrow> (Return (Some err), w) | (Inr _, w) \<Rightarrow> (Return None, w))"

lemma as_flow_None: "as_flow r = (Return None, w) \<longleftrightarrow> r = (Inr (), w)"
  by (auto simp: as_flow_def split: prod.splits sum.splits)

definition as_result :: "'k flow \<times> 'w \<Rightarrow> ('w, 'k, unit) result" where
  "as_result r =
     (case r of (Return (Some err), w) \<Rightarrow> (Inl err, w)
      | (Return None, w) \<Rightarrow> (Inr (), w)
      | (Panic, w) \<Rightarrow> (Inl (Fresh ''panic''), w))"

definition run_tx ::
  "('w, 'k, 'tx) tx_ops \<Rightarrow> ('w \<Rightarrow> ('w, 'k, unit) result) \<Rightarrow> 'w \<Rightarrow> ('w, 'k, unit) result" where
  "run_tx m f w = as_result (tx_manager_Do m None (\<lambda>_ w. as_flow (f w)) w)"

text \<open>A function that returns makes \<open>Do\<close> return, so the case of a panic does not arise.\<close>

lemma run_tx_returns: "fst (tx_manager_Do m None (\<lambda>_ w. as_flow (f w)) w) \<noteq> Panic"
  by (auto simp: tx_manager_Do_def as_flow_def finish_def
      split: prod.splits sum.splits option.splits flow.splits)

locale tx_port =
  fixes Do :: "('w \<Rightarrow> ('w, 'k, unit) result) \<Rightarrow> 'w \<Rightarrow> ('w, 'k, unit) result"
    and stored :: "'w \<Rightarrow> 's"
  assumes Do_ok: "Do f w = (Inr u, w') \<Longrightarrow>
       \<exists>w1 w2. stored w1 = stored w \<and> f w1 = (Inr (), w2) \<and> stored w' = stored w2"
    and Do_err: "Do f w = (Inl e, w') \<Longrightarrow> stored w' = stored w"
begin

text \<open>A transaction of two writes makes both or none.\<close>

lemma Do_both:
  assumes "Do (\<lambda>w. attempt (f w) g (\<lambda>_ w. attempt (h w) k (\<lambda>_ w. (Inr (), w)))) w = (r, w')"
  shows "stored w' = stored w \<or>
           (\<exists>w1 w2 w3. stored w1 = stored w \<and> f w1 = (Inr (), w2) \<and> h w2 = (Inr (), w3) \<and>
              stored w' = stored w3)"
proof (cases r)
  case (Inl e)
  with assms show ?thesis using Do_err by blast
next
  case (Inr u)
  from Do_ok [OF assms [unfolded Inr]] obtain w1 w2 where
    "stored w1 = stored w" "stored w' = stored w2"
    "attempt (f w1) g (\<lambda>_ w. attempt (h w) k (\<lambda>_ w. (Inr (), w))) = (Inr (), w2)"
    by blast
  then show ?thesis
    by (auto simp: attempt_eq_Inr)
qed

end

sublocale transactional \<subseteq> tx_port "run_tx m" stored
proof
  fix f w and u :: unit and w'
  assume "run_tx m f w = (Inr u, w')"
  then have "tx_manager_Do m None (\<lambda>_ w. as_flow (f w)) w = (Return None, w')"
    by (auto simp: run_tx_def as_result_def split: prod.splits option.splits flow.splits)
  from Do_commits [OF this] show
    "\<exists>w1 w2. stored w1 = stored w \<and> f w1 = (Inr (), w2) \<and> stored w' = stored w2"
    by (auto simp: as_flow_None)
next
  fix f w e w'
  assume "run_tx m f w = (Inl e, w')"
  then obtain r where "tx_manager_Do m None (\<lambda>_ w. as_flow (f w)) w = (r, w')" "r \<noteq> Return None"
    by (auto simp: run_tx_def as_result_def split: prod.splits option.splits flow.splits)
  from Do_restores [OF this] show "stored w' = stored w" .
qed

end
