(* ===== verification/Hiring_Application.thy ===== *)
theory Hiring_Application
  imports Prelude
begin

text \<open>
  The \<open>application\<close> package of the hiring domain (\<open>services/hiring/internal/domain/application\<close>):
  the pipeline stages and their transition table, stage transitions, reject reasons, and the
  \<open>JobApplication\<close> aggregate with its operations.
\<close>

section \<open>Sentinel errors of the hiring service\<close>

text \<open>
  The package-level sentinels of \<open>domain/application\<close>, \<open>domain/interview\<close>, \<open>domain/offer\<close>,
  \<open>domain/policy\<close> and \<open>usecase/interview/room\<close>, with the package as a prefix where two packages
  use one name.
\<close>

datatype application_sentinel =
  App_ErrNotFound | App_ErrEmptyID | App_ErrEmptyVacancyID | App_ErrEmptyCandidateID
| App_ErrEmptyActorID | App_ErrInvalidStageTransition | App_ErrTerminalStage
| ErrInvalidTransitionActor | ErrInvalidTransitionStage | ErrEmptyRejectReason

datatype interview_sentinel =
  Int_ErrNotFound | Int_ErrEmptyID | Int_ErrEmptyApplicationID | ErrStartInPast
| ErrInvalidInterval | ErrEmptyParticipants | ErrInvalidParticipant | Int_ErrInvalidStatus
| ErrInterviewCancelled | ErrNotParticipant | ErrFeedbackAlreadySubmitted | ErrEmptyInterviewerID
| ErrInvalidScore | ErrInvalidFormat | ErrInvalidParticipantRole | ErrParticipantCannotEvaluate
| ErrInvalidInterviewType

datatype offer_sentinel =
  Off_ErrNotFound | Off_ErrEmptyID | Off_ErrEmptyApplicationID | ErrInvalidCompensation
| ErrInvalidCurrency | ErrEmptyGrade | ErrInvalidExpiration | Off_ErrInvalidStatus
| ErrOfferExpired | ErrOfferNotExpired

datatype policy_sentinel = ErrNilApplication | ErrInvalidStageForOffer | ErrMissingCompletedInterview

datatype room_sentinel = ErrUnsupportedFormat | ErrEmptyOfficeLocation

datatype sentinel =
  S_app application_sentinel | S_int interview_sentinel | S_off offer_sentinel
| S_pol policy_sentinel | S_room room_sentinel

type_synonym herror = "sentinel error"


section \<open>Pipeline stages\<close>

text \<open>
  \<open>PipelineStage\<close> is a Go string type: any string can be converted to it. \<open>StageOther v\<close> stands
  for every value \<open>v\<close> that is none of the nine constants, among them the empty string a
  \<open>StageTransition\<close> starts from.
\<close>

datatype pipeline_stage =
  StageApplied | StageScreening | StageTechAssessment | StageInterview | StageOfferPending
| StageOfferAccepted | StageHired | StageRejected | StageWithdrawn | StageOther string

fun stage_String :: "pipeline_stage \<Rightarrow> string" where
  "stage_String StageApplied = ''APPLIED''"
| "stage_String StageScreening = ''SCREENING''"
| "stage_String StageTechAssessment = ''TECH_ASSESSMENT''"
| "stage_String StageInterview = ''INTERVIEW''"
| "stage_String StageOfferPending = ''OFFER_PENDING''"
| "stage_String StageOfferAccepted = ''OFFER_ACCEPTED''"
| "stage_String StageHired = ''HIRED''"
| "stage_String StageRejected = ''REJECTED''"
| "stage_String StageWithdrawn = ''WITHDRAWN''"
| "stage_String (StageOther v) = v"

definition all_stages :: "pipeline_stage list" where
  "all_stages =
     [StageApplied, StageScreening, StageTechAssessment, StageInterview, StageOfferPending,
      StageOfferAccepted, StageHired, StageRejected, StageWithdrawn]"

text \<open>The conversion \<open>PipelineStage(value)\<close>.\<close>

definition to_stage :: "string \<Rightarrow> pipeline_stage" where
  "to_stage v =
     (case find (\<lambda>s. stage_String s = v) all_stages of Some s \<Rightarrow> s | None \<Rightarrow> StageOther v)"

fun stage_Valid :: "pipeline_stage \<Rightarrow> bool" where
  "stage_Valid (StageOther v) = False"
| "stage_Valid _ = True"

fun stage_IsTerminal :: "pipeline_stage \<Rightarrow> bool" where
  "stage_IsTerminal StageHired = True"
| "stage_IsTerminal StageRejected = True"
| "stage_IsTerminal StageWithdrawn = True"
| "stage_IsTerminal _ = False"

definition stage_CanTransitionTo :: "pipeline_stage \<Rightarrow> pipeline_stage \<Rightarrow> bool" where
  "stage_CanTransitionTo s target =
     (if \<not> stage_Valid s \<or> \<not> stage_Valid target then False
      else if s = target then False
      else if stage_IsTerminal s then False
      else if target = StageRejected \<or> target = StageWithdrawn then True
      else case s of
        StageApplied \<Rightarrow> target = StageScreening
      | StageScreening \<Rightarrow> target = StageTechAssessment \<or> target = StageInterview
      | StageTechAssessment \<Rightarrow> target = StageInterview
      | StageInterview \<Rightarrow> target = StageOfferPending
      | StageOfferPending \<Rightarrow> target = StageOfferAccepted \<or> target = StageInterview
      | StageOfferAccepted \<Rightarrow> target = StageHired
      | _ \<Rightarrow> False)"

text \<open>The argument \<open>quote\<close> is the \<open>%q\<close> formatting of the error text.\<close>

definition ParseStage :: "(string \<Rightarrow> string) \<Rightarrow> string \<Rightarrow> herror + pipeline_stage" where
  "ParseStage quote value =
     (let stage = to_stage value
      in if \<not> stage_Valid stage
         then Inl (Fresh (''invalid pipeline stage: '' @ quote value))
         else Inr stage)"

lemma stage_Valid_iff: "stage_Valid s \<longleftrightarrow> s \<in> set all_stages"
  by (cases s) (auto simp: all_stages_def)

lemma to_stage_String: "stage_Valid s \<Longrightarrow> to_stage (stage_String s) = s"
  by (cases s) (simp_all add: to_stage_def all_stages_def)

lemma to_stage_valid: "stage_Valid (to_stage v) \<Longrightarrow> stage_String (to_stage v) = v"
  by (auto simp: to_stage_def find_Some_iff split: option.splits)

interpretation pipeline: lifecycle stage_CanTransitionTo stage_IsTerminal
  by unfold_locales (auto simp: stage_CanTransitionTo_def)

lemma CanTransitionTo_valid:
  "stage_CanTransitionTo s t \<Longrightarrow> stage_Valid s \<and> stage_Valid t \<and> s \<noteq> t \<and> \<not> stage_IsTerminal s"
  by (auto simp: stage_CanTransitionTo_def split: if_splits)

text \<open>The predecessors of each stage, read backwards from the transition table.\<close>

lemma into_stage:
  "\<not> stage_CanTransitionTo s StageApplied"
  "stage_CanTransitionTo s StageScreening \<longleftrightarrow> s = StageApplied"
  "stage_CanTransitionTo s StageTechAssessment \<longleftrightarrow> s = StageScreening"
  "stage_CanTransitionTo s StageInterview \<longleftrightarrow>
     s = StageScreening \<or> s = StageTechAssessment \<or> s = StageOfferPending"
  "stage_CanTransitionTo s StageOfferPending \<longleftrightarrow> s = StageInterview"
  "stage_CanTransitionTo s StageOfferAccepted \<longleftrightarrow> s = StageOfferPending"
  "stage_CanTransitionTo s StageHired \<longleftrightarrow> s = StageOfferAccepted"
  "stage_CanTransitionTo s StageRejected \<longleftrightarrow> stage_Valid s \<and> \<not> stage_IsTerminal s"
  "stage_CanTransitionTo s StageWithdrawn \<longleftrightarrow> stage_Valid s \<and> \<not> stage_IsTerminal s"
  by (cases s; simp add: stage_CanTransitionTo_def)+


section \<open>Transitions and reject reasons\<close>

record stage_transition =
  tr_ID :: uuid
  FromStage :: pipeline_stage
  ToStage :: pipeline_stage
  ChangedBy :: uuid
  ChangedAt :: gotime
  tr_Reason :: string

text \<open>The identifier \<open>uuid.New()\<close> draws is an argument.\<close>

definition NewStageTransition ::
  "uuid \<Rightarrow> pipeline_stage \<Rightarrow> pipeline_stage \<Rightarrow> uuid \<Rightarrow> string \<Rightarrow> gotime
     \<Rightarrow> herror + stage_transition" where
  "NewStageTransition fresh fromStage toStage changedBy reason now =
     (if changedBy = uuid_nil then Inl (Sentinel (S_app ErrInvalidTransitionActor))
      else if \<not> stage_Valid toStage then Inl (Sentinel (S_app ErrInvalidTransitionStage))
      else Inr \<lparr>tr_ID = fresh, FromStage = fromStage, ToStage = toStage, ChangedBy = changedBy,
                ChangedAt = now, tr_Reason = trim_space reason\<rparr>)"

definition tr_IsInitial :: "stage_transition \<Rightarrow> bool" where
  "tr_IsInitial t \<longleftrightarrow> FromStage t = StageOther '''' \<and> ToStage t = StageApplied"

definition tr_IsTerminal :: "stage_transition \<Rightarrow> bool" where
  "tr_IsTerminal t = stage_IsTerminal (ToStage t)"

datatype reject_code =
  RejectCodeNotQualified | RejectCodeAssessmentFailed | RejectCodeCultureMismatch
| RejectCodeCandidateWithdrew | RejectCodeVacancyClosed | RejectCodeOverqualified
| RejectCodeOther | RejectCodeUnknown string

fun reject_code_String :: "reject_code \<Rightarrow> string" where
  "reject_code_String RejectCodeNotQualified = ''NOT_QUALIFIED''"
| "reject_code_String RejectCodeAssessmentFailed = ''ASSESSMENT_FAILED''"
| "reject_code_String RejectCodeCultureMismatch = ''CULTURE_MISMATCH''"
| "reject_code_String RejectCodeCandidateWithdrew = ''CANDIDATE_WITHDREW''"
| "reject_code_String RejectCodeVacancyClosed = ''VACANCY_CLOSED''"
| "reject_code_String RejectCodeOverqualified = ''OVERQUALIFIED''"
| "reject_code_String RejectCodeOther = ''OTHER''"
| "reject_code_String (RejectCodeUnknown v) = v"

fun reject_code_Valid :: "reject_code \<Rightarrow> bool" where
  "reject_code_Valid (RejectCodeUnknown v) = False"
| "reject_code_Valid _ = True"

record reject_reason =
  Code :: reject_code
  Comment :: string

definition NewRejectReason :: "reject_code \<Rightarrow> string \<Rightarrow> herror + reject_reason" where
  "NewRejectReason code comment =
     (let comment = trim_space comment
      in if \<not> reject_code_Valid code \<and> comment = ''''
         then Inl (Sentinel (S_app ErrEmptyRejectReason))
         else Inr \<lparr>Code = (if \<not> reject_code_Valid code then RejectCodeOther else code),
                   Comment = comment\<rparr>)"

definition EffectiveComment :: "reject_reason \<Rightarrow> string" where
  "EffectiveComment r = (if Comment r \<noteq> '''' then Comment r else reject_code_String (Code r))"


section \<open>The aggregate\<close>

record job_application =
  app_ID :: uuid
  VacancyID :: uuid
  CandidateID :: uuid
  CurrentStage :: pipeline_stage
  app_Version :: int64
  History :: "stage_transition list"
  app_CreatedAt :: gotime
  app_UpdatedAt :: gotime

definition New_application ::
  "uuid \<Rightarrow> uuid \<Rightarrow> uuid \<Rightarrow> uuid \<Rightarrow> uuid \<Rightarrow> gotime \<Rightarrow> herror + job_application" where
  "New_application fresh appID vacancyID candidateID actorID now =
     (if appID = uuid_nil then Inl (Sentinel (S_app App_ErrEmptyID))
      else if vacancyID = uuid_nil then Inl (Sentinel (S_app App_ErrEmptyVacancyID))
      else if candidateID = uuid_nil then Inl (Sentinel (S_app App_ErrEmptyCandidateID))
      else if actorID = uuid_nil then Inl (Sentinel (S_app App_ErrEmptyActorID))
      else case NewStageTransition fresh (StageOther '''') StageApplied actorID
                  ''application submitted'' now of
        Inl err \<Rightarrow> Inl err
      | Inr initialTransition \<Rightarrow>
          Inr \<lparr>app_ID = appID, VacancyID = vacancyID, CandidateID = candidateID,
               CurrentStage = StageApplied, app_Version = 1, History = [initialTransition],
               app_CreatedAt = now, app_UpdatedAt = now\<rparr>)"

text \<open>\<open>addTransition\<close> drops the error of \<open>NewStageTransition\<close> and leaves the aggregate alone.\<close>

definition addTransition ::
  "uuid \<Rightarrow> pipeline_stage \<Rightarrow> uuid \<Rightarrow> string \<Rightarrow> gotime \<Rightarrow> job_application \<Rightarrow> job_application" where
  "addTransition fresh to by reason now a =
     (case NewStageTransition fresh (CurrentStage a) to by reason now of
        Inl _ \<Rightarrow> a
      | Inr t \<Rightarrow> a\<lparr>History := History a @ [t], CurrentStage := to,
                  app_Version := app_Version a + 1, app_UpdatedAt := now\<rparr>)"

definition ChangeStage ::
  "uuid \<Rightarrow> pipeline_stage \<Rightarrow> uuid \<Rightarrow> string \<Rightarrow> gotime \<Rightarrow> job_application
     \<Rightarrow> herror + job_application" where
  "ChangeStage fresh targetStage actorID reason now a =
     (if actorID = uuid_nil then Inl (Sentinel (S_app App_ErrEmptyActorID))
      else if \<not> stage_CanTransitionTo (CurrentStage a) targetStage
      then Inl (Wrap '''' (Sentinel (S_app App_ErrInvalidStageTransition))
                  ('': cannot transition from '' @ stage_String (CurrentStage a) @ '' to ''
                   @ stage_String targetStage))
      else Inr (addTransition fresh targetStage actorID reason now a))"

definition MarkInterview ::
  "uuid \<Rightarrow> uuid \<Rightarrow> string \<Rightarrow> gotime \<Rightarrow> job_application \<Rightarrow> herror + job_application" where
  "MarkInterview fresh actorID comment now a = ChangeStage fresh StageInterview actorID comment now a"

definition MarkOfferPending ::
  "uuid \<Rightarrow> uuid \<Rightarrow> gotime \<Rightarrow> job_application \<Rightarrow> herror + job_application" where
  "MarkOfferPending fresh actorID now a =
     ChangeStage fresh StageOfferPending actorID ''offer initiated'' now a"

definition AdvanceFromAssessment ::
  "uuid \<Rightarrow> int \<Rightarrow> uuid \<Rightarrow> gotime \<Rightarrow> job_application \<Rightarrow> herror + job_application" where
  "AdvanceFromAssessment fresh score actorID now a =
     (if CurrentStage a \<noteq> StageTechAssessment
      then Inl (Wrap '''' (Sentinel (S_app App_ErrInvalidStageTransition))
                  ('': cannot advance from assessment while in stage ''
                   @ stage_String (CurrentStage a)))
      else ChangeStage fresh StageInterview actorID
             (''assessment passed with score '' @ show_int score) now a)"

definition Reject ::
  "uuid \<Rightarrow> reject_reason \<Rightarrow> uuid \<Rightarrow> gotime \<Rightarrow> job_application \<Rightarrow> herror + job_application" where
  "Reject fresh reason actorID now a =
     (if stage_IsTerminal (CurrentStage a)
      then Inl (Wrap '''' (Sentinel (S_app App_ErrTerminalStage))
                  ('': cannot reject application in stage '' @ stage_String (CurrentStage a)))
      else ChangeStage fresh StageRejected actorID (EffectiveComment reason) now a)"

definition Withdraw ::
  "uuid \<Rightarrow> uuid \<Rightarrow> string \<Rightarrow> gotime \<Rightarrow> job_application \<Rightarrow> herror + job_application" where
  "Withdraw fresh actorID reason now a =
     (if stage_IsTerminal (CurrentStage a)
      then Inl (Wrap '''' (Sentinel (S_app App_ErrTerminalStage))
                  ('': cannot withdraw application in stage '' @ stage_String (CurrentStage a)))
      else ChangeStage fresh StageWithdrawn actorID
             (if reason = '''' then ''candidate withdrawn'' else reason) now a)"


lemmas application_ops [record_ops] =
  MarkInterview_def MarkOfferPending_def AdvanceFromAssessment_def Reject_def Withdraw_def


section \<open>Functional behaviour\<close>

lemma NewStageTransition_Inr [simp]:
  "NewStageTransition fresh s t actor reason now = Inr tr \<longleftrightarrow>
     actor \<noteq> uuid_nil \<and> stage_Valid t \<and>
     tr = \<lparr>tr_ID = fresh, FromStage = s, ToStage = t, ChangedBy = actor, ChangedAt = now,
           tr_Reason = trim_space reason\<rparr>"
  by (auto simp: NewStageTransition_def)

text \<open>The stage change a successful \<open>ChangeStage\<close> makes.\<close>

definition moved ::
  "uuid \<Rightarrow> pipeline_stage \<Rightarrow> uuid \<Rightarrow> string \<Rightarrow> gotime \<Rightarrow> job_application \<Rightarrow> job_application" where
  "moved fresh t actor reason now a =
     a\<lparr>History := History a @
          [\<lparr>tr_ID = fresh, FromStage = CurrentStage a, ToStage = t, ChangedBy = actor,
            ChangedAt = now, tr_Reason = trim_space reason\<rparr>],
       CurrentStage := t, app_Version := app_Version a + 1, app_UpdatedAt := now\<rparr>"

lemma addTransition_moved:
  "actor \<noteq> uuid_nil \<Longrightarrow> stage_Valid t \<Longrightarrow>
     addTransition fresh t actor reason now a = moved fresh t actor reason now a"
  by (simp add: addTransition_def moved_def NewStageTransition_def)

lemma ChangeStage_Inr_iff:
  "ChangeStage fresh t actor reason now a = Inr b \<longleftrightarrow>
     actor \<noteq> uuid_nil \<and> stage_CanTransitionTo (CurrentStage a) t \<and>
     b = moved fresh t actor reason now a"
  by (auto simp: ChangeStage_def addTransition_moved dest: CanTransitionTo_valid)

lemma ChangeStage_Inl:
  "ChangeStage fresh t actor reason now a = Inl e \<Longrightarrow>
     e = Sentinel (S_app App_ErrEmptyActorID) \<or> errors_is e (S_app App_ErrInvalidStageTransition)"
  by (auto simp: ChangeStage_def split: if_splits)

text \<open>
  Every operation of the aggregate is a stage change: what each allows and what it leaves behind.
\<close>

lemma MarkInterview_Inr_iff:
  "MarkInterview fresh actor comment now a = Inr b \<longleftrightarrow>
     actor \<noteq> uuid_nil \<and> stage_CanTransitionTo (CurrentStage a) StageInterview \<and>
     b = moved fresh StageInterview actor comment now a"
  by (simp add: MarkInterview_def ChangeStage_Inr_iff)

lemma MarkOfferPending_Inr_iff:
  "MarkOfferPending fresh actor now a = Inr b \<longleftrightarrow>
     actor \<noteq> uuid_nil \<and> CurrentStage a = StageInterview \<and>
     b = moved fresh StageOfferPending actor ''offer initiated'' now a"
  by (simp add: MarkOfferPending_def ChangeStage_Inr_iff into_stage)

lemma AdvanceFromAssessment_Inr_iff:
  "AdvanceFromAssessment fresh score actor now a = Inr b \<longleftrightarrow>
     actor \<noteq> uuid_nil \<and> CurrentStage a = StageTechAssessment \<and>
     b = moved fresh StageInterview actor (''assessment passed with score '' @ show_int score) now a"
  by (auto simp: AdvanceFromAssessment_def ChangeStage_Inr_iff into_stage)

lemma Reject_Inr_iff:
  "Reject fresh reason actor now a = Inr b \<longleftrightarrow>
     actor \<noteq> uuid_nil \<and> stage_Valid (CurrentStage a) \<and> \<not> stage_IsTerminal (CurrentStage a) \<and>
     b = moved fresh StageRejected actor (EffectiveComment reason) now a"
  by (auto simp: Reject_def ChangeStage_Inr_iff into_stage)

lemma Withdraw_Inr_iff:
  "Withdraw fresh actor reason now a = Inr b \<longleftrightarrow>
     actor \<noteq> uuid_nil \<and> stage_Valid (CurrentStage a) \<and> \<not> stage_IsTerminal (CurrentStage a) \<and>
     b = moved fresh StageWithdrawn actor
           (if reason = '''' then ''candidate withdrawn'' else reason) now a"
  by (auto simp: Withdraw_def ChangeStage_Inr_iff into_stage)

lemmas application_op_iffs =
  ChangeStage_Inr_iff MarkInterview_Inr_iff MarkOfferPending_Inr_iff
  AdvanceFromAssessment_Inr_iff Reject_Inr_iff Withdraw_Inr_iff


section \<open>The audit trail\<close>

text \<open>
  \<open>linked s ts\<close>: the transitions \<open>ts\<close> start from stage \<open>s\<close>, each one continues where the one before
  ended, each is allowed by the table and has an actor.
\<close>

fun linked :: "pipeline_stage \<Rightarrow> stage_transition list \<Rightarrow> bool" where
  "linked s [] = True"
| "linked s (t # ts) =
     (FromStage t = s \<and> stage_CanTransitionTo s (ToStage t) \<and> ChangedBy t \<noteq> uuid_nil \<and>
      linked (ToStage t) ts)"

fun end_stage :: "pipeline_stage \<Rightarrow> stage_transition list \<Rightarrow> pipeline_stage" where
  "end_stage s [] = s"
| "end_stage s (t # ts) = end_stage (ToStage t) ts"

lemma linked_snoc:
  "linked s (ts @ [t]) \<longleftrightarrow>
     linked s ts \<and> FromStage t = end_stage s ts \<and>
     stage_CanTransitionTo (end_stage s ts) (ToStage t) \<and> ChangedBy t \<noteq> uuid_nil"
  by (induction ts arbitrary: s) auto

lemma end_stage_snoc [simp]: "end_stage s (ts @ [t]) = ToStage t"
  by (induction ts arbitrary: s) auto

text \<open>
  The invariant of a stored application: its history begins with the submission, is linked, and
  the fields of the aggregate are what the history says: the current stage is where it ends, the
  version counts its entries (modulo \<open>2 ^ 64\<close>), the timestamps are those of its ends.
\<close>

definition app_wf :: "job_application \<Rightarrow> bool" where
  "app_wf a \<longleftrightarrow>
     (case History a of
        [] \<Rightarrow> False
      | t # ts \<Rightarrow> tr_IsInitial t \<and> ChangedBy t \<noteq> uuid_nil \<and> linked StageApplied ts \<and>
          CurrentStage a = end_stage StageApplied ts \<and>
          app_CreatedAt a = ChangedAt t \<and> app_UpdatedAt a = ChangedAt (last (t # ts))) \<and>
     app_Version a = of_nat (length (History a)) \<and>
     app_ID a \<noteq> uuid_nil \<and> VacancyID a \<noteq> uuid_nil \<and> CandidateID a \<noteq> uuid_nil"

lemma app_wf_New:
  "New_application fresh appID v c actor now = Inr a \<Longrightarrow> app_wf a"
  by (auto simp: New_application_def app_wf_def tr_IsInitial_def split: if_splits sum.splits)

lemma app_wf_moved:
  assumes "app_wf a" and "actor \<noteq> uuid_nil" and "stage_CanTransitionTo (CurrentStage a) t"
  shows "app_wf (moved fresh t actor reason now a)"
proof -
  obtain t0 ts where h: "History a = t0 # ts"
    using assms(1) by (auto simp: app_wf_def split: list.splits)
  then show ?thesis
    using assms by (simp add: app_wf_def moved_def linked_snoc)
qed

lemma end_stage_valid: "linked s ts \<Longrightarrow> stage_Valid s \<Longrightarrow> stage_Valid (end_stage s ts)"
  by (induction ts arbitrary: s) (auto dest: CanTransitionTo_valid)

lemma app_wf_stage: "app_wf a \<Longrightarrow> stage_Valid (CurrentStage a)"
  by (auto simp: app_wf_def intro: end_stage_valid split: list.splits)


section \<open>Runs of the aggregate\<close>

text \<open>
  An application is created by \<open>New\<close> and changed by the exported methods only, each of which
  takes a fresh transition identifier, an actor and a time.
\<close>

inductive app_step :: "job_application \<Rightarrow> job_application \<Rightarrow> bool" where
  change: "ChangeStage fresh t actor reason now a = Inr b \<Longrightarrow> app_step a b"
| interview: "MarkInterview fresh actor comment now a = Inr b \<Longrightarrow> app_step a b"
| offer_pending: "MarkOfferPending fresh actor now a = Inr b \<Longrightarrow> app_step a b"
| advance: "AdvanceFromAssessment fresh score actor now a = Inr b \<Longrightarrow> app_step a b"
| reject: "Reject fresh rr actor now a = Inr b \<Longrightarrow> app_step a b"
| withdraw: "Withdraw fresh actor reason now a = Inr b \<Longrightarrow> app_step a b"

inductive app_reachable :: "job_application \<Rightarrow> bool" where
  submitted: "New_application fresh appID v c actor now = Inr a \<Longrightarrow> app_reachable a"
| stepped: "app_reachable a \<Longrightarrow> app_step a b \<Longrightarrow> app_reachable b"

lemma app_step_change:
  "app_step a b \<Longrightarrow> \<exists>fresh t actor reason now. ChangeStage fresh t actor reason now a = Inr b"
  by (cases rule: app_step.cases) (auto simp: record_ops split: if_splits, blast+)

lemma app_step_moved:
  assumes "app_step a b"
  obtains fresh t actor reason now where
    "actor \<noteq> uuid_nil" and "stage_CanTransitionTo (CurrentStage a) t"
    and "b = moved fresh t actor reason now a"
  using app_step_change [OF assms] by (auto simp: ChangeStage_Inr_iff)

lemma app_reachable_wf: "app_reachable a \<Longrightarrow> app_wf a"
  by (induction rule: app_reachable.induct)
     (auto intro: app_wf_New app_wf_moved elim!: app_step_moved)

lemma moved_stage [simp]: "CurrentStage (moved fresh t actor reason now a) = t"
  by (simp add: moved_def)

lemma app_step_stage: "app_step a b \<Longrightarrow> stage_CanTransitionTo (CurrentStage a) (CurrentStage b)"
  by (auto elim!: app_step_moved)

lemma app_steps_stage:
  "app_step\<^sup>*\<^sup>* a b \<Longrightarrow> stage_CanTransitionTo\<^sup>*\<^sup>* (CurrentStage a) (CurrentStage b)"
  by (induction rule: rtranclp_induct) (auto dest: app_step_stage intro: rtranclp.rtrancl_into_rtrancl)

text \<open>The forced way back from a hire, on linked histories.\<close>

lemma linked_back:
  assumes "linked StageApplied ts" and "end_stage StageApplied ts = g" and "g \<noteq> StageApplied"
  obtains us t where "ts = us @ [t]" and "ToStage t = g" and "linked StageApplied us"
    and "stage_CanTransitionTo (end_stage StageApplied us) g"
proof -
  from assms have "ts \<noteq> []" by auto
  then obtain us t where "ts = us @ [t]"
    by (metis rev_exhaust)
  with assms that show ?thesis by (auto simp: linked_snoc)
qed

lemma linked_hired:
  assumes "linked StageApplied ts" and "end_stage StageApplied ts = StageHired"
  shows "\<exists>us. map ToStage ts =
           us @ [StageInterview, StageOfferPending, StageOfferAccepted, StageHired]"
proof -
  obtain u1 t1 where 1: "ts = u1 @ [t1]" "ToStage t1 = StageHired" "linked StageApplied u1"
    "end_stage StageApplied u1 = StageOfferAccepted"
    using linked_back [OF assms] by (auto simp: into_stage)
  obtain u2 t2 where 2: "u1 = u2 @ [t2]" "ToStage t2 = StageOfferAccepted" "linked StageApplied u2"
    "end_stage StageApplied u2 = StageOfferPending"
    using linked_back [OF 1(3,4)] by (auto simp: into_stage)
  obtain u3 t3 where 3: "u2 = u3 @ [t3]" "ToStage t3 = StageOfferPending" "linked StageApplied u3"
    "end_stage StageApplied u3 = StageInterview"
    using linked_back [OF 2(3,4)] by (auto simp: into_stage)
  obtain u4 t4 where 4: "u3 = u4 @ [t4]" "ToStage t4 = StageInterview"
    using linked_back [OF 3(3,4)] by blast
  from 1 2 3 4 show ?thesis by simp
qed

text \<open>A linked history that does not stop after its first step went to \<open>SCREENING\<close> first.\<close>

lemma from_applied:
  "stage_CanTransitionTo StageApplied t \<longleftrightarrow> t \<in> {StageScreening, StageRejected, StageWithdrawn}"
  by (cases t) (simp_all add: stage_CanTransitionTo_def)

lemma linked_first:
  "linked StageApplied (t # ts) \<Longrightarrow> ts \<noteq> [] \<Longrightarrow> ToStage t = StageScreening"
  by (cases ts) (auto simp: from_applied pipeline.terminal_no_step)

end
