(* ===== verification/Hiring_Interview.thy ===== *)
theory Hiring_Interview
  imports Hiring_Application
begin

text \<open>
  The \<open>interview\<close> package of the hiring domain (\<open>services/hiring/internal/domain/interview\<close>): its
  string enumerations, participants and feedback, and the \<open>Interview\<close> aggregate: \<open>Schedule\<close>,
  \<open>SetMeetingRoomURL\<close>, \<open>Complete\<close>, \<open>Cancel\<close> and \<open>SubmitFeedback\<close>.
\<close>

section \<open>Enumerations\<close>

datatype interview_status = Int_Scheduled | Int_Completed | Int_Cancelled | Int_StatusOther string

fun interview_status_String :: "interview_status \<Rightarrow> string" where
  "interview_status_String Int_Scheduled = ''SCHEDULED''"
| "interview_status_String Int_Completed = ''COMPLETED''"
| "interview_status_String Int_Cancelled = ''CANCELLED''"
| "interview_status_String (Int_StatusOther v) = v"

fun interview_status_Valid :: "interview_status \<Rightarrow> bool" where
  "interview_status_Valid (Int_StatusOther v) = False"
| "interview_status_Valid _ = True"

datatype interview_type =
  TypeScreening | TypeTechnical | TypeSystemDesign | TypeBehavioral | TypeBarRaiser
| TypeExecutive | TypeOther string

fun interview_type_Valid :: "interview_type \<Rightarrow> bool" where
  "interview_type_Valid (TypeOther v) = False"
| "interview_type_Valid _ = True"

datatype meeting_format =
  FormatOnlineLiveKit | FormatOnsite | FormatExternalLink | FormatOther string

fun meeting_format_String :: "meeting_format \<Rightarrow> string" where
  "meeting_format_String FormatOnlineLiveKit = ''ONLINE_LIVEKIT''"
| "meeting_format_String FormatOnsite = ''ONSITE''"
| "meeting_format_String FormatExternalLink = ''EXTERNAL_LINK''"
| "meeting_format_String (FormatOther v) = v"

fun meeting_format_Valid :: "meeting_format \<Rightarrow> bool" where
  "meeting_format_Valid (FormatOther v) = False"
| "meeting_format_Valid _ = True"

datatype participant_role =
  RoleLeadInterviewer | RoleInterviewer | RoleHiringManager | RoleRecruiter | RoleBarRaiser
| RoleObserver | RoleCandidate | RoleOther string

fun role_Valid :: "participant_role \<Rightarrow> bool" where
  "role_Valid (RoleOther v) = False"
| "role_Valid _ = True"

fun role_CanEvaluate :: "participant_role \<Rightarrow> bool" where
  "role_CanEvaluate RoleLeadInterviewer = True"
| "role_CanEvaluate RoleInterviewer = True"
| "role_CanEvaluate RoleHiringManager = True"
| "role_CanEvaluate RoleRecruiter = True"
| "role_CanEvaluate RoleBarRaiser = True"
| "role_CanEvaluate _ = False"

lemma CanEvaluate_Valid: "role_CanEvaluate r \<Longrightarrow> role_Valid r"
  by (cases r) auto


section \<open>Participants and feedback\<close>

record participant =
  par_UserID :: uuid
  par_Role :: participant_role

definition NewParticipant :: "uuid \<Rightarrow> participant_role \<Rightarrow> herror + participant" where
  "NewParticipant userID role =
     (if userID = uuid_nil then Inl (Sentinel (S_int ErrInvalidParticipant))
      else if \<not> role_Valid role then Inl (Sentinel (S_int ErrInvalidParticipantRole))
      else Inr \<lparr>par_UserID = userID, par_Role = role\<rparr>)"

definition IsInterviewer :: "participant \<Rightarrow> bool" where
  "IsInterviewer p = role_CanEvaluate (par_Role p)"

text \<open>A score is a Go \<open>int\<close> that is compared and never computed with, so it is an \<open>int\<close> here.\<close>

record feedback =
  InterviewerUserID :: uuid
  Score :: int
  Notes :: string
  SubmittedAt :: gotime

definition NewFeedback :: "uuid \<Rightarrow> int \<Rightarrow> string \<Rightarrow> gotime \<Rightarrow> herror + feedback" where
  "NewFeedback interviewerUserID score notes now =
     (if interviewerUserID = uuid_nil then Inl (Sentinel (S_int ErrEmptyInterviewerID))
      else if score < 1 \<or> score > 5 then Inl (Sentinel (S_int ErrInvalidScore))
      else Inr \<lparr>InterviewerUserID = interviewerUserID, Score = score, Notes = trim_space notes,
                SubmittedAt = now\<rparr>)"

definition IsPassing :: "feedback \<Rightarrow> bool" where
  "IsPassing f \<longleftrightarrow> Score f \<ge> 3"

definition IsStrongPass :: "feedback \<Rightarrow> bool" where
  "IsStrongPass f \<longleftrightarrow> Score f \<ge> 4"

definition feedback_Validate :: "feedback \<Rightarrow> herror option" where
  "feedback_Validate f =
     (if InterviewerUserID f = uuid_nil then Some (Sentinel (S_int ErrEmptyInterviewerID))
      else if Score f < 1 \<or> Score f > 5 then Some (Sentinel (S_int ErrInvalidScore))
      else None)"

lemma NewFeedback_Validate: "NewFeedback u s n now = Inr f \<Longrightarrow> feedback_Validate f = None"
  by (auto simp: NewFeedback_def feedback_Validate_def split: if_splits)


section \<open>The aggregate\<close>

record interview =
  int_ID :: uuid
  int_ApplicationID :: uuid
  InterviewType :: interview_type
  Format :: meeting_format
  int_Status :: interview_status
  ScheduledStartTime :: gotime
  ScheduledEndTime :: gotime
  MeetingRoomURL :: string
  Participants :: "participant list"
  Feedbacks :: "feedback list"
  int_Version :: int64
  int_CreatedAt :: gotime
  int_UpdatedAt :: gotime

text \<open>The loop over the participants of \<open>Schedule\<close> returns the first error.\<close>

fun check_participants :: "participant list \<Rightarrow> herror option" where
  "check_participants [] = None"
| "check_participants (p # ps) =
     (if par_UserID p = uuid_nil then Some (Sentinel (S_int ErrInvalidParticipant))
      else if \<not> role_Valid (par_Role p) then Some (Sentinel (S_int ErrInvalidParticipantRole))
      else check_participants ps)"

definition Schedule ::
  "uuid \<Rightarrow> uuid \<Rightarrow> interview_type \<Rightarrow> meeting_format \<Rightarrow> gotime \<Rightarrow> gotime \<Rightarrow> participant list
     \<Rightarrow> string \<Rightarrow> gotime \<Rightarrow> herror + interview" where
  "Schedule intID applicationID interviewType format scheduledStartTime scheduledEndTime
            participants meetingRoomURL now =
     (if intID = uuid_nil then Inl (Sentinel (S_int Int_ErrEmptyID))
      else if applicationID = uuid_nil then Inl (Sentinel (S_int Int_ErrEmptyApplicationID))
      else if \<not> interview_type_Valid interviewType then Inl (Sentinel (S_int ErrInvalidInterviewType))
      else if \<not> meeting_format_Valid format then Inl (Sentinel (S_int ErrInvalidFormat))
      else if before scheduledStartTime now then Inl (Sentinel (S_int ErrStartInPast))
      else if \<not> after scheduledEndTime scheduledStartTime then Inl (Sentinel (S_int ErrInvalidInterval))
      else if participants = [] then Inl (Sentinel (S_int ErrEmptyParticipants))
      else case check_participants participants of
        Some err \<Rightarrow> Inl err
      | None \<Rightarrow>
          Inr \<lparr>int_ID = intID, int_ApplicationID = applicationID, InterviewType = interviewType,
               Format = format, int_Status = Int_Scheduled,
               ScheduledStartTime = scheduledStartTime, ScheduledEndTime = scheduledEndTime,
               MeetingRoomURL = trim_space meetingRoomURL, Participants = participants,
               Feedbacks = [], int_Version = 1, int_CreatedAt = now, int_UpdatedAt = now\<rparr>)"

definition SetMeetingRoomURL :: "string \<Rightarrow> gotime \<Rightarrow> interview \<Rightarrow> interview" where
  "SetMeetingRoomURL url now i =
     i\<lparr>MeetingRoomURL := trim_space url, int_Version := int_Version i + 1, int_UpdatedAt := now\<rparr>"

definition Complete :: "gotime \<Rightarrow> interview \<Rightarrow> herror + interview" where
  "Complete now i =
     (if int_Status i \<noteq> Int_Scheduled
      then Inl (Wrap '''' (Sentinel (S_int Int_ErrInvalidStatus))
                  ('': cannot complete interview in status ''
                   @ interview_status_String (int_Status i)))
      else Inr (i\<lparr>int_Status := Int_Completed, int_Version := int_Version i + 1,
                  int_UpdatedAt := now\<rparr>))"

definition Cancel :: "string \<Rightarrow> gotime \<Rightarrow> interview \<Rightarrow> herror + interview" where
  "Cancel reason now i =
     (if int_Status i \<noteq> Int_Scheduled
      then Inl (Wrap '''' (Sentinel (S_int Int_ErrInvalidStatus))
                  ('': cannot cancel interview in status ''
                   @ interview_status_String (int_Status i)))
      else Inr (i\<lparr>int_Status := Int_Cancelled, int_Version := int_Version i + 1,
                  int_UpdatedAt := now\<rparr>))"

text \<open>
  The first participant with the given user decides: the loop of \<open>SubmitFeedback\<close> breaks there.
\<close>

fun find_evaluator :: "uuid \<Rightarrow> participant list \<Rightarrow> herror option" where
  "find_evaluator user [] = Some (Sentinel (S_int ErrNotParticipant))"
| "find_evaluator user (p # ps) =
     (if par_UserID p = user
      then (if \<not> role_CanEvaluate (par_Role p) then Some (Sentinel (S_int ErrParticipantCannotEvaluate))
            else None)
      else find_evaluator user ps)"

definition SubmitFeedback :: "feedback \<Rightarrow> gotime \<Rightarrow> interview \<Rightarrow> herror + interview" where
  "SubmitFeedback feedback now i =
     (case feedback_Validate feedback of
        Some err \<Rightarrow> Inl err
      | None \<Rightarrow>
          if int_Status i = Int_Cancelled then Inl (Sentinel (S_int ErrInterviewCancelled))
          else case find_evaluator (InterviewerUserID feedback) (Participants i) of
            Some err \<Rightarrow> Inl err
          | None \<Rightarrow>
              if list_ex (\<lambda>f. InterviewerUserID f = InterviewerUserID feedback) (Feedbacks i)
              then Inl (Sentinel (S_int ErrFeedbackAlreadySubmitted))
              else Inr (i\<lparr>Feedbacks := Feedbacks i @ [feedback\<lparr>SubmittedAt := now\<rparr>],
                          int_Version := int_Version i + 1, int_UpdatedAt := now\<rparr>))"


section \<open>The invariant of an interview\<close>

lemma check_participants_None:
  "check_participants ps = None \<longleftrightarrow>
     (\<forall>p \<in> set ps. par_UserID p \<noteq> uuid_nil \<and> role_Valid (par_Role p))"
  by (induction ps) auto

lemma find_evaluator_None:
  "find_evaluator u ps = None \<Longrightarrow>
     \<exists>p \<in> set ps. par_UserID p = u \<and> role_CanEvaluate (par_Role p)"
  by (induction ps) (auto split: if_splits)

lemma find_evaluator_distinct:
  assumes "distinct (map par_UserID ps)" and "p \<in> set ps"
  shows "find_evaluator (par_UserID p) ps = None \<longleftrightarrow> role_CanEvaluate (par_Role p)"
  using assms by (induction ps) (auto simp: rev_image_eqI)

text \<open>
  A stored interview has a proper time window and participants, and each of its feedbacks has a
  score of one to five and comes from a participant who may evaluate; no interviewer has two.
\<close>

definition feedback_ok :: "participant list \<Rightarrow> feedback \<Rightarrow> bool" where
  "feedback_ok ps f \<longleftrightarrow>
     1 \<le> Score f \<and> Score f \<le> 5 \<and>
     list_ex (\<lambda>p. par_UserID p = InterviewerUserID f \<and> role_CanEvaluate (par_Role p)) ps"

definition interview_wf :: "interview \<Rightarrow> bool" where
  "interview_wf i \<longleftrightarrow>
     int_ID i \<noteq> uuid_nil \<and> int_ApplicationID i \<noteq> uuid_nil \<and>
     interview_type_Valid (InterviewType i) \<and> meeting_format_Valid (Format i) \<and>
     interview_status_Valid (int_Status i) \<and>
     ScheduledStartTime i < ScheduledEndTime i \<and> int_CreatedAt i \<le> ScheduledStartTime i \<and>
     Participants i \<noteq> [] \<and> check_participants (Participants i) = None \<and>
     list_all (feedback_ok (Participants i)) (Feedbacks i) \<and>
     distinct (map InterviewerUserID (Feedbacks i))"

lemma interview_wf_Schedule:
  "Schedule k appID ty fmt st en ps url now = Inr i \<Longrightarrow> interview_wf i"
  by (auto simp: Schedule_def interview_wf_def split: if_splits option.splits)

lemma interview_wf_SetMeetingRoomURL: "interview_wf i \<Longrightarrow> interview_wf (SetMeetingRoomURL u now i)"
  by (simp add: SetMeetingRoomURL_def interview_wf_def)

lemma interview_wf_Complete: "interview_wf i \<Longrightarrow> Complete now i = Inr j \<Longrightarrow> interview_wf j"
  by (auto simp: Complete_def interview_wf_def split: if_splits)

lemma interview_wf_Cancel: "interview_wf i \<Longrightarrow> Cancel reason now i = Inr j \<Longrightarrow> interview_wf j"
  by (auto simp: Cancel_def interview_wf_def split: if_splits)

lemma SubmitFeedback_Inr_iff:
  "SubmitFeedback fb now i = Inr j \<longleftrightarrow>
     feedback_Validate fb = None \<and> int_Status i \<noteq> Int_Cancelled \<and>
     find_evaluator (InterviewerUserID fb) (Participants i) = None \<and>
     (\<forall>f \<in> set (Feedbacks i). InterviewerUserID f \<noteq> InterviewerUserID fb) \<and>
     j = i\<lparr>Feedbacks := Feedbacks i @ [fb\<lparr>SubmittedAt := now\<rparr>],
           int_Version := int_Version i + 1, int_UpdatedAt := now\<rparr>"
  by (auto simp: SubmitFeedback_def list_ex_iff split: option.splits if_splits)

lemma interview_wf_SubmitFeedback:
  "interview_wf i \<Longrightarrow> SubmitFeedback fb now i = Inr j \<Longrightarrow> interview_wf j"
  by (auto simp: SubmitFeedback_Inr_iff interview_wf_def feedback_ok_def feedback_Validate_def
      list_ex_iff dest!: find_evaluator_None split: if_splits)


section \<open>Runs of the aggregate\<close>

inductive interview_step :: "interview \<Rightarrow> interview \<Rightarrow> bool" where
  set_url: "interview_step i (SetMeetingRoomURL url now i)"
| complete: "Complete now i = Inr j \<Longrightarrow> interview_step i j"
| cancel: "Cancel reason now i = Inr j \<Longrightarrow> interview_step i j"
| feedback: "SubmitFeedback fb now i = Inr j \<Longrightarrow> interview_step i j"

inductive interview_reachable :: "interview \<Rightarrow> bool" where
  scheduled: "Schedule k appID ty fmt st en ps url now = Inr i \<Longrightarrow> interview_reachable i"
| stepped: "interview_reachable i \<Longrightarrow> interview_step i j \<Longrightarrow> interview_reachable j"

inductive_cases interview_stepE: "interview_step i j"

lemma interview_step_wf: "interview_step i j \<Longrightarrow> interview_wf i \<Longrightarrow> interview_wf j"
  by (elim interview_stepE)
     (auto intro: interview_wf_SetMeetingRoomURL interview_wf_Complete interview_wf_Cancel
        interview_wf_SubmitFeedback)

lemma interview_reachable_wf: "interview_reachable i \<Longrightarrow> interview_wf i"
  by (induction rule: interview_reachable.induct)
     (auto intro: interview_wf_Schedule interview_step_wf)

text \<open>The status moves only from \<open>SCHEDULED\<close>, and a cancelled interview collects no feedback.\<close>

lemma interview_step_status:
  "interview_step i j \<Longrightarrow>
     int_Status j = int_Status i \<or>
     (int_Status i = Int_Scheduled \<and> int_Status j \<in> {Int_Completed, Int_Cancelled})"
  by (elim interview_stepE)
     (auto simp: SetMeetingRoomURL_def Complete_def Cancel_def SubmitFeedback_Inr_iff
        split: if_splits)

lemma interview_step_frame:
  "interview_step i j \<Longrightarrow>
     int_ID j = int_ID i \<and> int_ApplicationID j = int_ApplicationID i \<and>
     Participants j = Participants i \<and> ScheduledStartTime j = ScheduledStartTime i \<and>
     ScheduledEndTime j = ScheduledEndTime i \<and> (\<exists>fs. Feedbacks j = Feedbacks i @ fs) \<and>
     int_Version j = int_Version i + 1"
  by (elim interview_stepE)
     (auto simp: SetMeetingRoomURL_def Complete_def Cancel_def SubmitFeedback_Inr_iff
        split: if_splits)

lemma cancelled_step:
  "interview_step i j \<Longrightarrow> int_Status i = Int_Cancelled \<Longrightarrow>
     int_Status j = Int_Cancelled \<and> Feedbacks j = Feedbacks i"
  by (elim interview_stepE)
     (auto simp: SetMeetingRoomURL_def Complete_def Cancel_def SubmitFeedback_Inr_iff)

lemma cancelled_final:
  "interview_step\<^sup>*\<^sup>* i j \<Longrightarrow> int_Status i = Int_Cancelled \<Longrightarrow>
     int_Status j = Int_Cancelled \<and> Feedbacks j = Feedbacks i"
  by (induction rule: rtranclp_induct) (auto dest: cancelled_step)

end
