(* ===== verification/Hiring_Offer.thy ===== *)
theory Hiring_Offer
  imports Hiring_Interview
begin

text \<open>
  The \<open>offer\<close> package of the hiring domain (\<open>services/hiring/internal/domain/offer\<close>): currencies,
  offer states and the \<open>JobOffer\<close> aggregate, and the cross-aggregate \<open>OfferEligibilityPolicy\<close> of
  \<open>domain/policy\<close>.
\<close>

section \<open>Status and currency\<close>

datatype offer_status =
  Off_Draft | Off_Sent | Off_Accepted | Off_Declined | Off_Expired | Off_Revoked
| Off_StatusOther string

fun offer_status_String :: "offer_status \<Rightarrow> string" where
  "offer_status_String Off_Draft = ''DRAFT''"
| "offer_status_String Off_Sent = ''SENT''"
| "offer_status_String Off_Accepted = ''ACCEPTED''"
| "offer_status_String Off_Declined = ''DECLINED''"
| "offer_status_String Off_Expired = ''EXPIRED''"
| "offer_status_String Off_Revoked = ''REVOKED''"
| "offer_status_String (Off_StatusOther v) = v"

fun offer_status_Valid :: "offer_status \<Rightarrow> bool" where
  "offer_status_Valid (Off_StatusOther v) = False"
| "offer_status_Valid _ = True"

fun offer_status_IsTerminal :: "offer_status \<Rightarrow> bool" where
  "offer_status_IsTerminal Off_Accepted = True"
| "offer_status_IsTerminal Off_Declined = True"
| "offer_status_IsTerminal Off_Expired = True"
| "offer_status_IsTerminal Off_Revoked = True"
| "offer_status_IsTerminal _ = False"

text \<open>
  \<open>Currency.Valid\<close>: three bytes, every rune from A to Z. A rune outside ASCII is above Z, so the
  loop over runes and the test over bytes agree.
\<close>

definition currency_Valid :: "string \<Rightarrow> bool" where
  "currency_Valid c \<longleftrightarrow>
     length c = 3 \<and> list_all (\<lambda>ch. 65 \<le> (of_char ch :: nat) \<and> of_char ch \<le> (90 :: nat)) c"


section \<open>The aggregate\<close>

definition MinOfferDuration :: duration where
  "MinOfferDuration = 24 * hour"

record job_offer =
  off_ID :: uuid
  off_ApplicationID :: uuid
  Compensation :: int
  Currency :: string
  Grade :: string
  off_Status :: offer_status
  off_ExpiresAt :: gotime
  off_Version :: int64
  off_CreatedAt :: gotime
  off_UpdatedAt :: gotime

definition Create_offer ::
  "uuid \<Rightarrow> uuid \<Rightarrow> int \<Rightarrow> string \<Rightarrow> string \<Rightarrow> gotime \<Rightarrow> gotime \<Rightarrow> herror + job_offer" where
  "Create_offer offID applicationID compensation currency grade expiresAt now =
     (if offID = uuid_nil then Inl (Sentinel (S_off Off_ErrEmptyID))
      else if applicationID = uuid_nil then Inl (Sentinel (S_off Off_ErrEmptyApplicationID))
      else if compensation \<le> 0 then Inl (Sentinel (S_off ErrInvalidCompensation))
      else if \<not> currency_Valid currency then Inl (Sentinel (S_off ErrInvalidCurrency))
      else if trim_space grade = '''' then Inl (Sentinel (S_off ErrEmptyGrade))
      else if before expiresAt (now + MinOfferDuration) then Inl (Sentinel (S_off ErrInvalidExpiration))
      else Inr \<lparr>off_ID = offID, off_ApplicationID = applicationID, Compensation = compensation,
                Currency = currency, Grade = trim_space grade, off_Status = Off_Draft,
                off_ExpiresAt = expiresAt, off_Version = 1, off_CreatedAt = now,
                off_UpdatedAt = now\<rparr>)"

definition IsExpired :: "gotime \<Rightarrow> job_offer \<Rightarrow> bool" where
  "IsExpired now o1 \<longleftrightarrow> after now (off_ExpiresAt o1) \<or> now = off_ExpiresAt o1"

definition set_status :: "offer_status \<Rightarrow> gotime \<Rightarrow> job_offer \<Rightarrow> job_offer" where
  "set_status st now o1 =
     o1\<lparr>off_Status := st, off_Version := off_Version o1 + 1, off_UpdatedAt := now\<rparr>"

definition invalid_status :: "string \<Rightarrow> job_offer \<Rightarrow> herror" where
  "invalid_status verb o1 =
     Wrap '''' (Sentinel (S_off Off_ErrInvalidStatus))
       ('': cannot '' @ verb @ '' offer in status '' @ offer_status_String (off_Status o1))"

text \<open>
  The methods mutate the receiver and return an error or nil: \<open>Send\<close> and \<open>Accept\<close> do both at
  once when the offer is past its expiry, so a method gives the error and the offer it leaves.
\<close>

definition Send :: "gotime \<Rightarrow> job_offer \<Rightarrow> herror option \<times> job_offer" where
  "Send now o1 =
     (if off_Status o1 \<noteq> Off_Draft then (Some (invalid_status ''send'' o1), o1)
      else if IsExpired now o1 then (Some (Sentinel (S_off ErrOfferExpired)), set_status Off_Expired now o1)
      else (None, set_status Off_Sent now o1))"

definition Accept :: "gotime \<Rightarrow> job_offer \<Rightarrow> herror option \<times> job_offer" where
  "Accept now o1 =
     (if off_Status o1 \<noteq> Off_Sent then (Some (invalid_status ''accept'' o1), o1)
      else if IsExpired now o1 then (Some (Sentinel (S_off ErrOfferExpired)), set_status Off_Expired now o1)
      else (None, set_status Off_Accepted now o1))"

definition Decline :: "string \<Rightarrow> gotime \<Rightarrow> job_offer \<Rightarrow> herror option \<times> job_offer" where
  "Decline reason now o1 =
     (if off_Status o1 \<noteq> Off_Sent then (Some (invalid_status ''decline'' o1), o1)
      else (None, set_status Off_Declined now o1))"

definition Revoke_offer :: "string \<Rightarrow> gotime \<Rightarrow> job_offer \<Rightarrow> herror option \<times> job_offer" where
  "Revoke_offer reason now o1 =
     (if off_Status o1 \<noteq> Off_Draft \<and> off_Status o1 \<noteq> Off_Sent
      then (Some (invalid_status ''revoke'' o1), o1)
      else (None, set_status Off_Revoked now o1))"

definition Expire :: "gotime \<Rightarrow> job_offer \<Rightarrow> herror option \<times> job_offer" where
  "Expire now o1 =
     (if off_Status o1 \<noteq> Off_Sent then (Some (invalid_status ''expire'' o1), o1)
      else if \<not> IsExpired now o1 then (Some (Sentinel (S_off ErrOfferNotExpired)), o1)
      else (None, set_status Off_Expired now o1))"

lemmas offer_ops [record_ops] =
  Send_def Accept_def Decline_def Revoke_offer_def Expire_def


section \<open>The offer as a state machine\<close>

text \<open>One step is one method call, whatever error it returns: the receiver changes in place.\<close>

inductive offer_step :: "job_offer \<Rightarrow> job_offer \<Rightarrow> bool" where
  send: "offer_step o1 (snd (Send now o1))"
| accept: "offer_step o1 (snd (Accept now o1))"
| decline: "offer_step o1 (snd (Decline reason now o1))"
| revoke: "offer_step o1 (snd (Revoke_offer reason now o1))"
| expire: "offer_step o1 (snd (Expire now o1))"

inductive_cases offer_stepE: "offer_step o1 o2"

definition offer_edge :: "offer_status \<Rightarrow> offer_status \<Rightarrow> bool" where
  "offer_edge s t \<longleftrightarrow>
     (s = Off_Draft \<and> t \<in> {Off_Sent, Off_Expired, Off_Revoked}) \<or>
     (s = Off_Sent \<and> t \<in> {Off_Accepted, Off_Declined, Off_Expired, Off_Revoked})"

fun offer_rank :: "offer_status \<Rightarrow> nat" where
  "offer_rank Off_Draft = 0"
| "offer_rank Off_Sent = 1"
| "offer_rank _ = 2"

interpretation offer_life: ranked_lifecycle offer_edge offer_status_IsTerminal offer_rank
  by unfold_locales (auto simp: offer_edge_def)

lemma offer_step_edge:
  "offer_step o1 o2 \<Longrightarrow> o2 = o1 \<or> offer_edge (off_Status o1) (off_Status o2)"
  by (elim offer_stepE) (auto simp: record_ops set_status_def offer_edge_def split: if_splits)

text \<open>A call changes the status, the version and the update time together or nothing at all.\<close>

lemma offer_step_frame:
  "offer_step o1 o2 \<Longrightarrow> o2 \<noteq> o1 \<Longrightarrow>
     \<exists>st now. o2 = o1\<lparr>off_Status := st, off_Version := off_Version o1 + 1, off_UpdatedAt := now\<rparr>"
  by (elim offer_stepE) (auto simp: record_ops set_status_def split: if_splits)

lemma offer_steps_edges:
  "offer_step\<^sup>*\<^sup>* o1 o2 \<Longrightarrow> offer_edge\<^sup>*\<^sup>* (off_Status o1) (off_Status o2)"
  by (induction rule: rtranclp_induct)
     (auto dest: offer_step_edge intro: rtranclp.rtrancl_into_rtrancl)

lemma offer_terminal_unchanged:
  "offer_step\<^sup>*\<^sup>* o1 o2 \<Longrightarrow> offer_status_IsTerminal (off_Status o1) \<Longrightarrow> o2 = o1"
  by (induction rule: rtranclp_induct)
     (auto dest!: offer_step_edge dest: offer_life.terminal_no_step)

inductive offer_reachable :: "job_offer \<Rightarrow> bool" where
  created: "Create_offer k appID amount cur gr ex now = Inr o1 \<Longrightarrow> offer_reachable o1"
| stepped: "offer_reachable o1 \<Longrightarrow> offer_step o1 o2 \<Longrightarrow> offer_reachable o2"

definition offer_wf :: "job_offer \<Rightarrow> bool" where
  "offer_wf o1 \<longleftrightarrow>
     off_ID o1 \<noteq> uuid_nil \<and> off_ApplicationID o1 \<noteq> uuid_nil \<and> Compensation o1 > 0 \<and>
     currency_Valid (Currency o1) \<and> Grade o1 \<noteq> '''' \<and> trim_space (Grade o1) = Grade o1 \<and>
     off_ExpiresAt o1 \<ge> off_CreatedAt o1 + MinOfferDuration \<and> offer_status_Valid (off_Status o1)"

lemma offer_wf_Create: "Create_offer k appID amount cur gr ex now = Inr o1 \<Longrightarrow> offer_wf o1"
  by (auto simp: Create_offer_def offer_wf_def split: if_splits)

lemma offer_wf_step: "offer_step o1 o2 \<Longrightarrow> offer_wf o1 \<Longrightarrow> offer_wf o2"
  by (elim offer_stepE) (auto simp: record_ops set_status_def offer_wf_def split: if_splits)

lemma offer_reachable_wf: "offer_reachable o1 \<Longrightarrow> offer_wf o1"
  by (induction rule: offer_reachable.induct) (auto intro: offer_wf_Create offer_wf_step)


section \<open>OfferEligibilityPolicy\<close>

text \<open>
  The interviews are pointers that may be nil; the loop looks for a completed one with feedback.
\<close>

definition CanInitiateOffer :: "job_application option \<Rightarrow> interview option list \<Rightarrow> herror option" where
  "CanInitiateOffer app interviews =
     (case app of
        None \<Rightarrow> Some (Sentinel (S_pol ErrNilApplication))
      | Some a \<Rightarrow>
          if CurrentStage a \<noteq> StageInterview
          then Some (Wrap '''' (Sentinel (S_pol ErrInvalidStageForOffer))
                       ('': application is in stage '' @ stage_String (CurrentStage a)))
          else if \<not> list_ex (\<lambda>it. case it of None \<Rightarrow> False
                   | Some i \<Rightarrow> int_Status i = Int_Completed \<and> length (Feedbacks i) > 0) interviews
          then Some (Sentinel (S_pol ErrMissingCompletedInterview))
          else None)"

lemma CanInitiateOffer_None:
  "CanInitiateOffer (Some a) its = None \<longleftrightarrow>
     CurrentStage a = StageInterview \<and>
     (\<exists>i. Some i \<in> set its \<and> int_Status i = Int_Completed \<and> Feedbacks i \<noteq> [])"
  by (auto simp: CanInitiateOffer_def list_ex_iff split: option.splits if_splits)

end
