(* ===== verification/Hiring_Event.thy ===== *)
theory Hiring_Event
  imports Hiring_Offer
begin

text \<open>
  The application errors of the hiring service (\<open>domain/apperr\<close>), their translation to gRPC codes
  (\<open>transport/grpc/errors.go\<close>), the event payloads of the three aggregates and the event factory
  (\<open>domain/event/message.go\<close>).
\<close>

section \<open>Application errors\<close>

text \<open>The texts of the sentinels.\<close>

fun hiring_application_text :: "application_sentinel \<Rightarrow> string" where
  "hiring_application_text App_ErrNotFound = ''job application not found''"
| "hiring_application_text App_ErrEmptyID = ''application ID must not be empty''"
| "hiring_application_text App_ErrEmptyVacancyID = ''vacancy ID must not be empty''"
| "hiring_application_text App_ErrEmptyCandidateID = ''candidate ID must not be empty''"
| "hiring_application_text App_ErrEmptyActorID = ''actor ID must not be empty''"
| "hiring_application_text App_ErrInvalidStageTransition = ''invalid stage transition''"
| "hiring_application_text App_ErrTerminalStage = ''application is in terminal stage''"
| "hiring_application_text ErrInvalidTransitionActor = ''transition actor ID must not be empty''"
| "hiring_application_text ErrInvalidTransitionStage = ''transition target stage is invalid''"
| "hiring_application_text ErrEmptyRejectReason = ''reject reason code or comment is required''"

fun hiring_interview_text :: "interview_sentinel \<Rightarrow> string" where
  "hiring_interview_text Int_ErrNotFound = ''interview not found''"
| "hiring_interview_text Int_ErrEmptyID = ''interview ID must not be empty''"
| "hiring_interview_text Int_ErrEmptyApplicationID = ''application ID must not be empty''"
| "hiring_interview_text ErrStartInPast = ''interview cannot be scheduled in the past''"
| "hiring_interview_text ErrInvalidInterval = ''interview end time must be strictly after start time''"
| "hiring_interview_text ErrEmptyParticipants = ''interview must have at least one participant''"
| "hiring_interview_text ErrInvalidParticipant = ''participant user ID must not be empty''"
| "hiring_interview_text Int_ErrInvalidStatus = ''invalid interview status''"
| "hiring_interview_text ErrInterviewCancelled = ''cannot submit feedback for cancelled interview''"
| "hiring_interview_text ErrNotParticipant = ''user is not an assigned interviewer for this interview''"
| "hiring_interview_text ErrFeedbackAlreadySubmitted = ''feedback from this interviewer already exists''"
| "hiring_interview_text ErrEmptyInterviewerID = ''interviewer user ID must not be empty''"
| "hiring_interview_text ErrInvalidScore = ''score must be between 1 and 5''"
| "hiring_interview_text ErrInvalidFormat = ''invalid meeting format''"
| "hiring_interview_text ErrInvalidParticipantRole = ''invalid participant role''"
| "hiring_interview_text ErrParticipantCannotEvaluate = ''participant role cannot submit evaluation''"
| "hiring_interview_text ErrInvalidInterviewType = ''invalid interview type''"

fun hiring_offer_text :: "offer_sentinel \<Rightarrow> string" where
  "hiring_offer_text Off_ErrNotFound = ''job offer not found''"
| "hiring_offer_text Off_ErrEmptyID = ''offer ID must not be empty''"
| "hiring_offer_text Off_ErrEmptyApplicationID = ''application ID must not be empty''"
| "hiring_offer_text ErrInvalidCompensation = ''compensation must be strictly positive''"
| "hiring_offer_text ErrInvalidCurrency = ''currency must be a 3-letter ISO code''"
| "hiring_offer_text ErrEmptyGrade = ''grade must not be empty''"
| "hiring_offer_text ErrInvalidExpiration = ''offer validity period must be at least 24 hours from creation''"
| "hiring_offer_text Off_ErrInvalidStatus = ''invalid offer status''"
| "hiring_offer_text ErrOfferExpired = ''offer has expired''"
| "hiring_offer_text ErrOfferNotExpired = ''offer expiration time has not been reached yet''"

fun hiring_policy_text :: "policy_sentinel \<Rightarrow> string" where
  "hiring_policy_text ErrNilApplication = ''application is required''"
| "hiring_policy_text ErrInvalidStageForOffer = ''application must be in INTERVIEW stage to initiate offer''"
| "hiring_policy_text ErrMissingCompletedInterview = ''at least one interview must be completed with feedback''"

fun hiring_room_text :: "room_sentinel \<Rightarrow> string" where
  "hiring_room_text ErrUnsupportedFormat = ''unsupported meeting format''"
| "hiring_room_text ErrEmptyOfficeLocation = ''office location is required for onsite interview''"

fun sentinel_text :: "sentinel \<Rightarrow> string" where
  "sentinel_text (S_app s) = hiring_application_text s"
| "sentinel_text (S_int s) = hiring_interview_text s"
| "sentinel_text (S_off s) = hiring_offer_text s"
| "sentinel_text (S_pol s) = hiring_policy_text s"
| "sentinel_text (S_room s) = hiring_room_text s"

definition err_Error :: "herror \<Rightarrow> string" where
  "err_Error e = error_text sentinel_text e"

definition normalizeType :: "apperr_type \<Rightarrow> apperr_type" where
  "normalizeType t = (if \<not> apperr_type_Valid t then TypeUnknown else t)"

definition normalizeCode :: "string \<Rightarrow> string" where
  "normalizeCode code = ascii_lower (trim_space code)"

definition normalizeMessage :: "string \<Rightarrow> string" where
  "normalizeMessage message = trim_space message"

definition apperr_New :: "apperr_type \<Rightarrow> string \<Rightarrow> string \<Rightarrow> herror option \<Rightarrow> herror" where
  "apperr_New errorType code message cause =
     App (normalizeType errorType) (normalizeCode code) (normalizeMessage message) cause"

definition InvalidArgument :: "string \<Rightarrow> string \<Rightarrow> herror option \<Rightarrow> herror" where
  "InvalidArgument code message cause = apperr_New TypeInvalidArgument code message cause"

definition NotFound :: "string \<Rightarrow> string \<Rightarrow> herror option \<Rightarrow> herror" where
  "NotFound code message cause = apperr_New TypeNotFound code message cause"

definition Conflict :: "string \<Rightarrow> string \<Rightarrow> herror option \<Rightarrow> herror" where
  "Conflict code message cause = apperr_New TypeConflict code message cause"

definition Forbidden :: "string \<Rightarrow> string \<Rightarrow> herror option \<Rightarrow> herror" where
  "Forbidden code message cause = apperr_New TypeForbidden code message cause"

text \<open>
  The method \<open>(*Error).Is\<close>, for a non-nil receiver and target: a target without type or code
  matches any.
\<close>

definition apperr_Is :: "herror \<Rightarrow> herror \<Rightarrow> bool" where
  "apperr_Is e target =
     (case (e, errors_as_app target) of
        (App et ec em eu, Some (App t c m u)) \<Rightarrow>
          if t \<noteq> TypeUnknown \<and> et \<noteq> t then False
          else if c \<noteq> '''' \<and> ec \<noteq> c then False
          else True
      | _ \<Rightarrow> False)"

definition IsType :: "herror \<Rightarrow> apperr_type \<Rightarrow> bool" where
  "IsType err t = (case errors_as_app err of Some (App t' c m u) \<Rightarrow> t' = t | _ \<Rightarrow> False)"

definition IsCode :: "herror \<Rightarrow> string \<Rightarrow> bool" where
  "IsCode err code = (case errors_as_app err of Some (App t c m u) \<Rightarrow> c = code | _ \<Rightarrow> False)"

lemmas apperr_defs =
  apperr_New_def InvalidArgument_def NotFound_def Conflict_def Forbidden_def normalizeType_def

lemma IsType_simps [simp]:
  "IsType (InvalidArgument c m u) t \<longleftrightarrow> t = TypeInvalidArgument"
  "IsType (NotFound c m u) t \<longleftrightarrow> t = TypeNotFound"
  "IsType (Conflict c m u) t \<longleftrightarrow> t = TypeConflict"
  "IsType (Forbidden c m u) t \<longleftrightarrow> t = TypeForbidden"
  by (auto simp: IsType_def apperr_defs)

datatype grpc_code =
  codes_InvalidArgument | codes_Unauthenticated | codes_PermissionDenied | codes_NotFound
| codes_FailedPrecondition | codes_Unavailable | codes_Internal

fun grpcCode :: "apperr_type \<Rightarrow> grpc_code" where
  "grpcCode TypeInvalidArgument = codes_InvalidArgument"
| "grpcCode TypeUnauthorized = codes_Unauthenticated"
| "grpcCode TypeForbidden = codes_PermissionDenied"
| "grpcCode TypeNotFound = codes_NotFound"
| "grpcCode TypeConflict = codes_FailedPrecondition"
| "grpcCode TypeUnavailable = codes_Unavailable"
| "grpcCode _ = codes_Internal"

text \<open>
  The resolved error: code, message and the \<open>ErrorInfo\<close> detail (reason and domain); \<open>None\<close> when
  the chain has no application error.
\<close>

definition Resolve_error :: "herror \<Rightarrow> (grpc_code \<times> string \<times> string \<times> string) option" where
  "Resolve_error err =
     (case errors_as_app err of
        Some (App t c m u) \<Rightarrow> Some (grpcCode t, m, c, ''careeria.hiring'')
      | _ \<Rightarrow> None)"


section \<open>Payloads and messages\<close>

datatype payload =
  ApplicationAppliedPayload uuid uuid uuid pipeline_stage gotime
| StageChangedPayload uuid pipeline_stage pipeline_stage uuid gotime string
| ApplicationRejectedPayload uuid pipeline_stage reject_reason uuid gotime
| ApplicationWithdrawnPayload uuid pipeline_stage uuid gotime string
| InterviewScheduledPayload uuid uuid interview_type gotime gotime "participant list"
| InterviewCompletedPayload uuid gotime
| InterviewCancelledPayload uuid string gotime
| FeedbackSubmittedPayload uuid uuid int gotime
| OfferCreatedPayload uuid uuid int string string gotime gotime
| OfferSentPayload uuid gotime gotime
| OfferAcceptedPayload uuid gotime
| OfferDeclinedPayload uuid string gotime
| OfferRevokedPayload uuid string gotime
| OfferExpiredPayload uuid gotime

record message =
  msg_ID :: uuid
  EventID :: uuid
  AggregateType :: string
  AggregateID :: uuid
  AggregateVersion :: "int64 option"
  EventType :: string
  Payload :: string
  Headers :: "(string \<times> string) list"
  PartitionKey :: "string option"
  OccurredAt :: gotime

definition AggregateTypeJobApplication :: string where
  "AggregateTypeJobApplication = ''job_application''"
definition AggregateTypeInterview :: string where
  "AggregateTypeInterview = ''interview''"
definition AggregateTypeJobOffer :: string where
  "AggregateTypeJobOffer = ''job_offer''"

fun event_type_of :: "payload \<Rightarrow> string" where
  "event_type_of (ApplicationAppliedPayload _ _ _ _ _) = ''hiring.application.applied''"
| "event_type_of (StageChangedPayload _ _ _ _ _ _) = ''hiring.application.stage_changed''"
| "event_type_of (ApplicationRejectedPayload _ _ _ _ _) = ''hiring.application.rejected''"
| "event_type_of (ApplicationWithdrawnPayload _ _ _ _ _) = ''hiring.application.withdrawn''"
| "event_type_of (InterviewScheduledPayload _ _ _ _ _ _) = ''hiring.interview.scheduled''"
| "event_type_of (InterviewCompletedPayload _ _) = ''hiring.interview.completed''"
| "event_type_of (InterviewCancelledPayload _ _ _) = ''hiring.interview.cancelled''"
| "event_type_of (FeedbackSubmittedPayload _ _ _ _) = ''hiring.interview.feedback_submitted''"
| "event_type_of (OfferCreatedPayload _ _ _ _ _ _ _) = ''hiring.offer.created''"
| "event_type_of (OfferSentPayload _ _ _) = ''hiring.offer.sent''"
| "event_type_of (OfferAcceptedPayload _ _) = ''hiring.offer.accepted''"
| "event_type_of (OfferDeclinedPayload _ _ _) = ''hiring.offer.declined''"
| "event_type_of (OfferRevokedPayload _ _ _) = ''hiring.offer.revoked''"
| "event_type_of (OfferExpiredPayload _ _) = ''hiring.offer.expired''"

text \<open>
  What the factory and the use cases share: the clock, the identifier generators and the text and
  JSON encodings of third-party packages. \<open>uuid_New\<close> is \<open>uuid.New()\<close> of the google/uuid package,
  \<open>factory_ids\<close> the generator the factory may hold.
\<close>

record 'w base_ports =
  clock_Now :: "'w \<Rightarrow> gotime \<times> 'w"
  id_New :: "'w \<Rightarrow> uuid \<times> 'w"
  uuid_New :: "'w \<Rightarrow> uuid \<times> 'w"
  factory_ids :: "('w \<Rightarrow> uuid \<times> 'w) option"
  uuid_String :: "uuid \<Rightarrow> string"
  json_Marshal :: "payload \<Rightarrow> herror + string"
  outbox_Save :: "message \<Rightarrow> 'w \<Rightarrow> ('w, sentinel, unit) result"
  tx_Do :: "('w \<Rightarrow> ('w, sentinel, unit) result) \<Rightarrow> 'w \<Rightarrow> ('w, sentinel, unit) result"

definition factory_Create ::
  "('w, 'z) base_ports_scheme \<Rightarrow> string \<Rightarrow> string \<Rightarrow> uuid \<Rightarrow> int64 option \<Rightarrow> payload \<Rightarrow> gotime
     \<Rightarrow> 'w \<Rightarrow> ('w, sentinel, message) result" where
  "factory_Create P eventType aggregateType aggregateID aggregateVersion pl occurredAt w =
     (if eventType = '''' then (Inl (Fresh ''event type is required''), w)
      else if aggregateType = '''' then (Inl (Fresh ''aggregate type is required''), w)
      else if aggregateID = uuid_nil then (Inl (Fresh ''aggregate ID is required''), w)
      else case json_Marshal P pl of
        Inl err \<Rightarrow> (Inl (Wrap ''marshal event payload: '' err ''''), w)
      | Inr payloadBytes \<Rightarrow>
          (let (fresh, w) = uuid_New P w;
               (eventID, w) = (case factory_ids P of None \<Rightarrow> (fresh, w) | Some ids \<Rightarrow> ids w)
           in (Inr \<lparr>msg_ID = eventID, EventID = eventID, AggregateType = aggregateType,
                    AggregateID = aggregateID, AggregateVersion = aggregateVersion,
                    EventType = eventType, Payload = payloadBytes,
                    Headers = [(''aggregate_type'', aggregateType), (''event_type'', eventType)],
                    PartitionKey = Some (uuid_String P aggregateID),
                    OccurredAt = occurredAt\<rparr>, w)))"

text \<open>
  The tail every changing use case of the service ends with: build the event, then save the
  aggregates and the event in one transaction.
\<close>

definition publish ::
  "('w, 'z) base_ports_scheme \<Rightarrow> string \<Rightarrow> string \<Rightarrow> uuid \<Rightarrow> int64 \<Rightarrow> payload \<Rightarrow> gotime
     \<Rightarrow> ('w \<Rightarrow> ('w, sentinel, unit) result) \<Rightarrow> 'w \<Rightarrow> ('w, sentinel, unit) result" where
  "publish P what aggregateType aggregateID version pl now save w =
     attempt (factory_Create P (event_type_of pl) aggregateType aggregateID (Some version) pl now w)
       (\<lambda>err. Wrap (''create '' @ what @ '' event: '') err '''')
       (\<lambda>eventMsg w. tx_Do P
          (\<lambda>w. attempt (save w) (\<lambda>err. err)
             (\<lambda>_ w. attempt (outbox_Save P eventMsg w) (\<lambda>err. Wrap ''save outbox event: '' err '''')
                (\<lambda>_ w. (Inr (), w)))) w)"

lemma event_type_nonempty [simp]: "event_type_of pl \<noteq> ''''"
  by (cases pl) auto

end
