(* ===== verification/Hiring_Usecases.thy ===== *)
theory Hiring_Usecases
  imports Hiring_Event
begin

text \<open>
  The application use cases of the hiring service (\<open>services/hiring/internal/usecase/application\<close>):
  one definition per exported method of \<open>Service\<close>, over the ports the service is built from.
\<close>

section \<open>Ports of the application service\<close>

text \<open>
  The repositories, the authorization port and the transaction manager are interfaces whose
  implementations the service receives, so each is a field. \<open>GetActiveByCandidateAndVacancy\<close>
  may give a pointer and an error at once.
\<close>

record 'w app_ports = "'w base_ports" +
  app_Create :: "job_application \<Rightarrow> 'w \<Rightarrow> ('w, sentinel, unit) result"
  app_Update :: "job_application \<Rightarrow> 'w \<Rightarrow> ('w, sentinel, unit) result"
  app_GetByID :: "uuid \<Rightarrow> 'w \<Rightarrow> ('w, sentinel, job_application) result"
  app_GetActive ::
    "uuid \<Rightarrow> uuid \<Rightarrow> 'w \<Rightarrow> (job_application option \<times> herror option) \<times> 'w"
  interviews_List :: "uuid \<Rightarrow> 'w \<Rightarrow> ('w, sentinel, interview option list) result"
  CanApplyVacancy :: "uuid \<Rightarrow> uuid \<Rightarrow> 'w \<Rightarrow> ('w, sentinel, unit) result"
  CanManageApplication :: "uuid \<Rightarrow> uuid \<Rightarrow> 'w \<Rightarrow> ('w, sentinel, unit) result"

abbreviation (input) same_err :: "herror \<Rightarrow> herror" where
  "same_err err \<equiv> err"

definition wrapped :: "string \<Rightarrow> herror \<Rightarrow> herror" where
  "wrapped what err = Wrap (what @ '': '') err ''''"

text \<open>The errors of a failed load: \<open>ErrNotFound\<close> becomes an application error.\<close>

definition app_load_error :: "herror \<Rightarrow> herror" where
  "app_load_error err =
     (if errors_is err (S_app App_ErrNotFound)
      then NotFound ''application_not_found'' ''application not found'' (Some err)
      else wrapped ''load application'' err)"

text \<open>The save of the transaction in every use case that changes a loaded application.\<close>

definition update_application ::
  "('w, 'z) app_ports_scheme \<Rightarrow> job_application \<Rightarrow> 'w \<Rightarrow> ('w, sentinel, unit) result" where
  "update_application P app w =
     attempt (app_Update P app w) (wrapped ''update application'') (\<lambda>_ w. (Inr (), w))"


section \<open>ApplyVacancy\<close>

record apply_input =
  ai_VacancyID :: uuid
  ai_CandidateID :: uuid
  ai_ActorID :: uuid

definition ApplyVacancy ::
  "('w, 'z) app_ports_scheme \<Rightarrow> apply_input \<Rightarrow> 'w \<Rightarrow> ('w, sentinel, uuid) result" where
  "ApplyVacancy P input w =
     (if ai_VacancyID input = uuid_nil
      then (Inl (InvalidArgument ''empty_vacancy_id'' ''vacancy ID is required'' None), w)
      else if ai_CandidateID input = uuid_nil
      then (Inl (InvalidArgument ''empty_candidate_id'' ''candidate ID is required'' None), w)
      else if ai_ActorID input = uuid_nil
      then (Inl (InvalidArgument ''empty_actor_id'' ''actor ID is required'' None), w)
      else attempt (CanApplyVacancy P (ai_ActorID input) (ai_VacancyID input) w) same_err (\<lambda>_ w.
        draw (app_GetActive P (ai_CandidateID input) (ai_VacancyID input) w)
          (\<lambda>(existing, err) w.
             if err \<noteq> None \<and> \<not> errors_is (the err) (S_app App_ErrNotFound)
             then (Inl (wrapped ''check existing application'' (the err)), w)
             else if existing \<noteq> None
             then (Inl (Conflict ''active_application_exists''
                     ''candidate already has an active application for this vacancy'' None), w)
             else draw (id_New P w) (\<lambda>appID w. draw (clock_Now P w) (\<lambda>now w.
               draw (uuid_New P w) (\<lambda>fresh w.
                 attempt (New_application fresh appID (ai_VacancyID input) (ai_CandidateID input)
                            (ai_ActorID input) now, w) same_err
                   (\<lambda>app w. attempt
                     (publish P ''applied'' AggregateTypeJobApplication appID (app_Version app)
                        (ApplicationAppliedPayload appID (ai_VacancyID input)
                           (ai_CandidateID input) (CurrentStage app) now)
                        now
                        (\<lambda>w. attempt (app_Create P app w) (wrapped ''save application'')
                               (\<lambda>_ w. (Inr (), w)))
                        w)
                     same_err (\<lambda>_ w. (Inr appID, w)))))))))"


section \<open>ChangeStage, PromoteToInterview\<close>

record change_stage_input =
  ci_ApplicationID :: uuid
  ci_TargetStage :: pipeline_stage
  ci_ActorID :: uuid
  ci_Reason :: string

text \<open>The policy check a move to \<open>OFFER_PENDING\<close> goes through.\<close>

definition eligibility_error :: "herror \<Rightarrow> herror" where
  "eligibility_error err =
     (if errors_is err (S_pol ErrInvalidStageForOffer)
      then Conflict ''invalid_stage_for_offer'' (err_Error err) (Some err)
      else if errors_is err (S_pol ErrMissingCompletedInterview)
      then Conflict ''missing_completed_interview'' (err_Error err) (Some err)
      else InvalidArgument ''offer_eligibility_failed'' (err_Error err) (Some err))"

definition check_eligibility ::
  "('w, 'z) app_ports_scheme \<Rightarrow> change_stage_input \<Rightarrow> job_application \<Rightarrow> 'w
     \<Rightarrow> ('w, sentinel, unit) result" where
  "check_eligibility P input app w =
     (if ci_TargetStage input = StageOfferPending
      then attempt (interviews_List P (ci_ApplicationID input) w) (wrapped ''fetch interviews'')
             (\<lambda>interviews w.
                case CanInitiateOffer (Some app) interviews of
                  Some err \<Rightarrow> (Inl (eligibility_error err), w)
                | None \<Rightarrow> (Inr (), w))
      else (Inr (), w))"

definition change_stage_error :: "herror \<Rightarrow> herror" where
  "change_stage_error err =
     (if errors_is err (S_app App_ErrInvalidStageTransition)
      then Conflict ''invalid_stage_transition'' (err_Error err) (Some err)
      else if errors_is err (S_app App_ErrEmptyActorID)
      then InvalidArgument ''empty_actor_id'' (err_Error err) (Some err)
      else err)"

definition ChangeStage_uc ::
  "('w, 'z) app_ports_scheme \<Rightarrow> change_stage_input \<Rightarrow> 'w \<Rightarrow> ('w, sentinel, unit) result" where
  "ChangeStage_uc P input w =
     (if ci_ApplicationID input = uuid_nil
      then (Inl (InvalidArgument ''empty_application_id'' ''application ID is required'' None), w)
      else if \<not> stage_Valid (ci_TargetStage input)
      then (Inl (InvalidArgument ''invalid_stage'' ''target stage is invalid'' None), w)
      else if ci_ActorID input = uuid_nil
      then (Inl (InvalidArgument ''empty_actor_id'' ''actor ID is required'' None), w)
      else attempt (CanManageApplication P (ci_ActorID input) (ci_ApplicationID input) w) same_err
        (\<lambda>_ w. attempt (app_GetByID P (ci_ApplicationID input) w) app_load_error
        (\<lambda>app w. attempt (check_eligibility P input app w) same_err
        (\<lambda>_ w. draw (clock_Now P w) (\<lambda>now w. draw (uuid_New P w) (\<lambda>fresh w.
          attempt (ChangeStage fresh (ci_TargetStage input) (ci_ActorID input) (ci_Reason input)
                     now app, w) change_stage_error
            (\<lambda>app' w. publish P ''stage changed'' AggregateTypeJobApplication (app_ID app')
                    (app_Version app')
                    (StageChangedPayload (app_ID app') (CurrentStage app) (ci_TargetStage input)
                       (ci_ActorID input) now (ci_Reason input))
                    now (update_application P app') w)))))))"

definition PromoteToInterview ::
  "('w, 'z) app_ports_scheme \<Rightarrow> uuid \<Rightarrow> uuid \<Rightarrow> string \<Rightarrow> 'w \<Rightarrow> ('w, sentinel, unit) result" where
  "PromoteToInterview P appID actorID reason w =
     ChangeStage_uc P \<lparr>ci_ApplicationID = appID, ci_TargetStage = StageInterview,
                       ci_ActorID = actorID, ci_Reason = reason\<rparr> w"


section \<open>RejectApplication, WithdrawApplication\<close>

definition terminal_error :: "herror \<Rightarrow> herror" where
  "terminal_error err =
     (if errors_is err (S_app App_ErrTerminalStage)
      then Conflict ''terminal_stage'' (err_Error err) (Some err)
      else if errors_is err (S_app App_ErrInvalidStageTransition)
      then Conflict ''invalid_stage_transition'' (err_Error err) (Some err)
      else err)"

record reject_input =
  ri_ApplicationID :: uuid
  ri_ReasonCode :: reject_code
  ri_Comment :: string
  ri_ActorID :: uuid

definition RejectApplication ::
  "('w, 'z) app_ports_scheme \<Rightarrow> reject_input \<Rightarrow> 'w \<Rightarrow> ('w, sentinel, unit) result" where
  "RejectApplication P input w =
     (if ri_ApplicationID input = uuid_nil
      then (Inl (InvalidArgument ''empty_application_id'' ''application ID is required'' None), w)
      else if ri_ActorID input = uuid_nil
      then (Inl (InvalidArgument ''empty_actor_id'' ''actor ID is required'' None), w)
      else attempt (CanManageApplication P (ri_ActorID input) (ri_ApplicationID input) w) same_err
        (\<lambda>_ w. attempt (app_GetByID P (ri_ApplicationID input) w) app_load_error
        (\<lambda>app w. draw (clock_Now P w)
        (\<lambda>now w. attempt (NewRejectReason (ri_ReasonCode input) (ri_Comment input), w)
                   (\<lambda>err. InvalidArgument ''invalid_reject_reason'' (err_Error err) (Some err))
        (\<lambda>reason w. draw (uuid_New P w)
        (\<lambda>fresh w. attempt (Reject fresh reason (ri_ActorID input) now app, w) terminal_error
                     (\<lambda>app' w. publish P ''rejected'' AggregateTypeJobApplication (app_ID app')
                            (app_Version app')
                            (ApplicationRejectedPayload (app_ID app') (CurrentStage app) reason
                               (ri_ActorID input) now)
                            now (update_application P app') w)))))))"

record withdraw_input =
  wi_ApplicationID :: uuid
  wi_Reason :: string
  wi_ActorID :: uuid

text \<open>The candidate may withdraw; anyone else needs the right to manage the application.\<close>

definition may_withdraw ::
  "('w, 'z) app_ports_scheme \<Rightarrow> job_application \<Rightarrow> uuid \<Rightarrow> uuid \<Rightarrow> string \<Rightarrow> 'w
     \<Rightarrow> ('w, sentinel, unit) result" where
  "may_withdraw P app actorID appID what w =
     (if CandidateID app \<noteq> actorID
      then attempt (CanManageApplication P actorID appID w)
             (\<lambda>_. Forbidden ''not_authorized'' (''actor is not authorized to '' @ what) None)
             (\<lambda>_ w. (Inr (), w))
      else (Inr (), w))"

definition WithdrawApplication ::
  "('w, 'z) app_ports_scheme \<Rightarrow> withdraw_input \<Rightarrow> 'w \<Rightarrow> ('w, sentinel, unit) result" where
  "WithdrawApplication P input w =
     (if wi_ApplicationID input = uuid_nil
      then (Inl (InvalidArgument ''empty_application_id'' ''application ID is required'' None), w)
      else if wi_ActorID input = uuid_nil
      then (Inl (InvalidArgument ''empty_actor_id'' ''actor ID is required'' None), w)
      else attempt (app_GetByID P (wi_ApplicationID input) w) app_load_error
        (\<lambda>app w. attempt
          (may_withdraw P app (wi_ActorID input) (wi_ApplicationID input)
             ''withdraw application'' w) same_err
        (\<lambda>_ w. draw (clock_Now P w) (\<lambda>now w. draw (uuid_New P w) (\<lambda>fresh w.
          attempt (Withdraw fresh (wi_ActorID input) (wi_Reason input) now app, w) terminal_error
            (\<lambda>app' w. publish P ''withdrawn'' AggregateTypeJobApplication (app_ID app')
                    (app_Version app')
                    (ApplicationWithdrawnPayload (app_ID app') (CurrentStage app)
                       (wi_ActorID input) now (wi_Reason input))
                    now (update_application P app') w))))))"


section \<open>HandleAssessmentResult\<close>

record assessment_input =
  si_ApplicationID :: uuid
  si_Score :: int
  si_Passed :: bool
  si_ActorID :: uuid

definition advance_error :: "herror \<Rightarrow> herror" where
  "advance_error err =
     (if errors_is err (S_app App_ErrInvalidStageTransition)
      then Conflict ''invalid_stage_transition'' (err_Error err) (Some err)
      else err)"

definition HandleAssessmentResult ::
  "('w, 'z) app_ports_scheme \<Rightarrow> assessment_input \<Rightarrow> 'w \<Rightarrow> ('w, sentinel, unit) result" where
  "HandleAssessmentResult P input w =
     (if si_ApplicationID input = uuid_nil
      then (Inl (InvalidArgument ''empty_application_id'' ''application ID is required'' None), w)
      else attempt (app_GetByID P (si_ApplicationID input) w) (wrapped ''load application'')
        (\<lambda>app w.
          if CurrentStage app \<noteq> StageTechAssessment then (Inr (), w)
          else draw (clock_Now P w) (\<lambda>now w.
            if si_Passed input
            then draw (uuid_New P w) (\<lambda>fresh w.
              attempt (AdvanceFromAssessment fresh (si_Score input) (si_ActorID input) now app, w)
                advance_error
                (\<lambda>app' w. publish P ''stage changed'' AggregateTypeJobApplication (app_ID app')
                   (app_Version app')
                   (StageChangedPayload (app_ID app') (CurrentStage app) StageInterview
                      (si_ActorID input) now
                      (''tech assessment passed with score '' @ show_int (si_Score input)))
                   now (update_application P app') w))
            else
              attempt (NewRejectReason RejectCodeAssessmentFailed
                         (''score '' @ show_int (si_Score input) @ '' below passing threshold''), w)
                same_err
              (\<lambda>reason w. draw (uuid_New P w) (\<lambda>fresh w.
                attempt (Reject fresh reason (si_ActorID input) now app, w) terminal_error
                (\<lambda>app' w. publish P ''rejected'' AggregateTypeJobApplication (app_ID app')
                   (app_Version app')
                   (ApplicationRejectedPayload (app_ID app') (CurrentStage app) reason
                      (si_ActorID input) now)
                   now (update_application P app') w))))))"


section \<open>GetApplication, GetPipelineHistory\<close>

definition GetApplication ::
  "('w, 'z) app_ports_scheme \<Rightarrow> uuid \<Rightarrow> uuid \<Rightarrow> 'w \<Rightarrow> ('w, sentinel, job_application) result" where
  "GetApplication P appID actorID w =
     (if appID = uuid_nil
      then (Inl (InvalidArgument ''empty_application_id'' ''application ID is required'' None), w)
      else attempt (app_GetByID P appID w) app_load_error
        (\<lambda>app w. attempt (may_withdraw P app actorID appID ''view application'' w) same_err
          (\<lambda>_ w. (Inr app, w))))"

record pipeline_history =
  ph_ApplicationID :: uuid
  ph_VacancyID :: uuid
  ph_CandidateID :: uuid
  ph_CurrentStage :: pipeline_stage
  ph_Version :: int64
  ph_History :: "stage_transition list"

definition GetPipelineHistory ::
  "('w, 'z) app_ports_scheme \<Rightarrow> uuid \<Rightarrow> uuid \<Rightarrow> 'w \<Rightarrow> ('w, sentinel, pipeline_history) result" where
  "GetPipelineHistory P appID actorID w =
     attempt (GetApplication P appID actorID w) same_err
       (\<lambda>app w. (Inr \<lparr>ph_ApplicationID = app_ID app, ph_VacancyID = VacancyID app,
                     ph_CandidateID = CandidateID app, ph_CurrentStage = CurrentStage app,
                     ph_Version = app_Version app, ph_History = History app\<rparr>, w))"

end
