(* ===== verification/Hiring_Offer_Usecases.thy ===== *)
theory Hiring_Offer_Usecases
  imports Hiring_Usecases
begin

text \<open>
  The use cases of the offer service (\<open>services/hiring/internal/usecase/offer\<close>): creating, sending,
  accepting, declining, revoking and expiring an offer, and the two queries. The ports of
  \<open>service.go\<close> are the fields of \<open>offer_ports\<close>.
\<close>

section \<open>Ports and shared pieces\<close>

record 'w offer_ports = "'w base_ports" +
  offer_Create :: "job_offer \<Rightarrow> 'w \<Rightarrow> ('w, sentinel, unit) result"
  offer_Update :: "job_offer \<Rightarrow> 'w \<Rightarrow> ('w, sentinel, unit) result"
  offer_GetByID :: "uuid \<Rightarrow> 'w \<Rightarrow> ('w, sentinel, job_offer) result"
  offer_GetByApplicationID :: "uuid \<Rightarrow> 'w \<Rightarrow> ('w, sentinel, job_offer) result"
  offer_app_GetByID :: "uuid \<Rightarrow> 'w \<Rightarrow> ('w, sentinel, job_application) result"
  offer_app_Update :: "job_application \<Rightarrow> 'w \<Rightarrow> ('w, sentinel, unit) result"
  CanManageOffer :: "uuid \<Rightarrow> uuid \<Rightarrow> 'w \<Rightarrow> ('w, sentinel, unit) result"
  CanRespondToOffer :: "uuid \<Rightarrow> uuid \<Rightarrow> 'w \<Rightarrow> ('w, sentinel, unit) result"

definition offer_load_error :: "herror \<Rightarrow> herror" where
  "offer_load_error err =
     (if errors_is err (S_off Off_ErrNotFound)
      then NotFound ''offer_not_found'' ''job offer not found'' (Some err)
      else wrapped ''load offer'' err)"

text \<open>
  A method of the aggregate gives an error or nil, and the receiver it leaves; on an error the use
  case returns and drops the receiver.
\<close>

definition offer_call :: "herror option \<times> job_offer \<Rightarrow> herror + job_offer" where
  "offer_call r = (case r of (Some err, _) \<Rightarrow> Inl err | (None, o1) \<Rightarrow> Inr o1)"

definition offer_status_error :: "herror \<Rightarrow> herror" where
  "offer_status_error err =
     (if errors_is err (S_off Off_ErrInvalidStatus)
      then Conflict ''invalid_status'' (err_Error err) (Some err)
      else err)"

definition offer_expiry_error :: "herror \<Rightarrow> herror" where
  "offer_expiry_error err =
     (if errors_is err (S_off ErrOfferExpired)
      then Conflict ''offer_expired'' (err_Error err) (Some err)
      else offer_status_error err)"

definition stage_conflict :: "herror \<Rightarrow> herror" where
  "stage_conflict err = Conflict ''invalid_stage_transition'' (err_Error err) (Some err)"

text \<open>The body of the transactions: update the offer, and the application where one changed.\<close>

definition update_offer :: "('w, 'z) offer_ports_scheme \<Rightarrow> job_offer \<Rightarrow> 'w \<Rightarrow> ('w, sentinel, unit) result" where
  "update_offer P o1 w =
     attempt (offer_Update P o1 w) (wrapped ''update offer'') (\<lambda>_ w. (Inr (), w))"

definition update_offer_app ::
  "('w, 'z) offer_ports_scheme \<Rightarrow> job_application \<Rightarrow> 'w \<Rightarrow> ('w, sentinel, unit) result" where
  "update_offer_app P app w =
     attempt (offer_app_Update P app w) (wrapped ''update application'') (\<lambda>_ w. (Inr (), w))"

definition update_offer_and_app ::
  "('w, 'z) offer_ports_scheme \<Rightarrow> job_offer \<Rightarrow> job_application \<Rightarrow> 'w \<Rightarrow> ('w, sentinel, unit) result" where
  "update_offer_and_app P o1 app w =
     attempt (update_offer P o1 w) same_err (\<lambda>_ w. update_offer_app P app w)"


section \<open>CreateOffer\<close>

record create_offer_input =
  co_ApplicationID :: uuid
  co_Compensation :: int
  co_Currency :: string
  co_Grade :: string
  co_ExpiresAt :: gotime
  co_ActorID :: uuid

text \<open>
  The stage check: an application in \<open>INTERVIEW\<close> moves to \<open>OFFER_PENDING\<close> and needs an update,
  one in \<open>OFFER_PENDING\<close> stays as it is.
\<close>

definition offer_stage ::
  "('w, 'z) offer_ports_scheme \<Rightarrow> create_offer_input \<Rightarrow> gotime \<Rightarrow> job_application \<Rightarrow> 'w
     \<Rightarrow> ('w, sentinel, job_application \<times> bool) result" where
  "offer_stage P input now app w =
     (if CurrentStage app = StageInterview
      then draw (uuid_New P w) (\<lambda>fresh w.
        attempt (ChangeStage fresh StageOfferPending (co_ActorID input) ''offer created'' now app, w)
          stage_conflict (\<lambda>app' w. (Inr (app', True), w)))
      else if CurrentStage app \<noteq> StageOfferPending
      then (Inl (Conflict ''invalid_stage''
              (''cannot create offer for application in stage '' @ stage_String (CurrentStage app) @
               ''; must be '' @ stage_String StageInterview @ '' or '' @
               stage_String StageOfferPending) None), w)
      else (Inr (app, False), w))"

definition CreateOffer ::
  "('w, 'z) offer_ports_scheme \<Rightarrow> create_offer_input \<Rightarrow> 'w \<Rightarrow> ('w, sentinel, uuid) result" where
  "CreateOffer P input w =
     (if co_ApplicationID input = uuid_nil
      then (Inl (InvalidArgument ''empty_application_id'' ''application ID is required'' None), w)
      else if co_ActorID input = uuid_nil
      then (Inl (InvalidArgument ''empty_actor_id'' ''actor ID is required'' None), w)
      else attempt (CanManageOffer P (co_ActorID input) (co_ApplicationID input) w) same_err
        (\<lambda>_ w. attempt (offer_app_GetByID P (co_ApplicationID input) w) app_load_error
        (\<lambda>app w. draw (clock_Now P w)
        (\<lambda>now w. attempt (offer_stage P input now app w) same_err
        (\<lambda>(app', needStageUpdate) w. draw (id_New P w)
        (\<lambda>offerID w. attempt
          (Create_offer offerID (co_ApplicationID input) (co_Compensation input)
             (co_Currency input) (co_Grade input) (co_ExpiresAt input) now, w)
          (\<lambda>err. InvalidArgument ''invalid_offer_params'' (err_Error err) (Some err))
        (\<lambda>o1 w. attempt
          (publish P ''offer created'' AggregateTypeJobOffer offerID (off_Version o1)
             (OfferCreatedPayload offerID (co_ApplicationID input) (co_Compensation input)
                (Currency o1) (Grade o1) (co_ExpiresAt input) now)
             now
             (\<lambda>w. attempt (offer_Create P o1 w) (wrapped ''save offer'')
                (\<lambda>_ w. if needStageUpdate then update_offer_app P app' w else (Inr (), w)))
             w)
          same_err (\<lambda>_ w. (Inr offerID, w)))))))))"


section \<open>SendOffer, AcceptOffer, DeclineOffer\<close>

record offer_input =
  oi_OfferID :: uuid
  oi_ActorID :: uuid

record offer_reason_input = offer_input +
  oi_Reason :: string

abbreviation (input) empty_offer_id :: herror where
  "empty_offer_id \<equiv> InvalidArgument ''empty_offer_id'' ''offer ID is required'' None"

definition SendOffer ::
  "('w, 'z) offer_ports_scheme \<Rightarrow> offer_input \<Rightarrow> 'w \<Rightarrow> ('w, sentinel, unit) result" where
  "SendOffer P input w =
     (if oi_OfferID input = uuid_nil then (Inl empty_offer_id, w)
      else attempt (offer_GetByID P (oi_OfferID input) w) offer_load_error
        (\<lambda>o1 w. attempt (CanManageOffer P (oi_ActorID input) (off_ApplicationID o1) w) same_err
        (\<lambda>_ w. draw (clock_Now P w)
        (\<lambda>now w. attempt (offer_call (Send now o1), w) offer_expiry_error
        (\<lambda>o2 w. publish P ''offer sent'' AggregateTypeJobOffer (off_ID o2) (off_Version o2)
                  (OfferSentPayload (off_ID o2) now (off_ExpiresAt o2)) now
                  (update_offer P o2) w)))))"

definition AcceptOffer ::
  "('w, 'z) offer_ports_scheme \<Rightarrow> offer_input \<Rightarrow> 'w \<Rightarrow> ('w, sentinel, unit) result" where
  "AcceptOffer P input w =
     (if oi_OfferID input = uuid_nil then (Inl empty_offer_id, w)
      else attempt (offer_GetByID P (oi_OfferID input) w) offer_load_error
        (\<lambda>o1 w. attempt (CanRespondToOffer P (oi_ActorID input) (off_ApplicationID o1) w) same_err
        (\<lambda>_ w. attempt (offer_app_GetByID P (off_ApplicationID o1) w) app_load_error
        (\<lambda>app w. draw (clock_Now P w)
        (\<lambda>now w. attempt (offer_call (Accept now o1), w) offer_expiry_error
        (\<lambda>o2 w. draw (uuid_New P w)
        (\<lambda>fresh w. attempt (ChangeStage fresh StageOfferAccepted (oi_ActorID input)
                              ''offer accepted by candidate'' now app, w) stage_conflict
        (\<lambda>app' w. publish P ''offer accepted'' AggregateTypeJobOffer (off_ID o2) (off_Version o2)
                    (OfferAcceptedPayload (off_ID o2) now) now
                    (update_offer_and_app P o2 app') w))))))))"

definition DeclineOffer ::
  "('w, 'z) offer_ports_scheme \<Rightarrow> offer_reason_input \<Rightarrow> 'w \<Rightarrow> ('w, sentinel, unit) result" where
  "DeclineOffer P input w =
     (if oi_OfferID input = uuid_nil then (Inl empty_offer_id, w)
      else attempt (offer_GetByID P (oi_OfferID input) w) offer_load_error
        (\<lambda>o1 w. attempt (CanRespondToOffer P (oi_ActorID input) (off_ApplicationID o1) w) same_err
        (\<lambda>_ w. attempt (offer_app_GetByID P (off_ApplicationID o1) w) app_load_error
        (\<lambda>app w. draw (clock_Now P w)
        (\<lambda>now w. attempt (offer_call (Decline (oi_Reason input) now o1), w) offer_status_error
        (\<lambda>o2 w. draw (uuid_New P w)
        (\<lambda>fresh w. attempt (ChangeStage fresh StageInterview (oi_ActorID input)
                              (''offer declined: '' @ oi_Reason input) now app, w) stage_conflict
        (\<lambda>app' w. publish P ''offer declined'' AggregateTypeJobOffer (off_ID o2) (off_Version o2)
                    (OfferDeclinedPayload (off_ID o2) (oi_Reason input) now) now
                    (update_offer_and_app P o2 app') w))))))))"


section \<open>RevokeOffer, ExpireOffer\<close>

definition RevokeOffer ::
  "('w, 'z) offer_ports_scheme \<Rightarrow> offer_reason_input \<Rightarrow> 'w \<Rightarrow> ('w, sentinel, unit) result" where
  "RevokeOffer P input w =
     (if oi_OfferID input = uuid_nil then (Inl empty_offer_id, w)
      else attempt (offer_GetByID P (oi_OfferID input) w) offer_load_error
        (\<lambda>o1 w. attempt (CanManageOffer P (oi_ActorID input) (off_ApplicationID o1) w) same_err
        (\<lambda>_ w. attempt (offer_app_GetByID P (off_ApplicationID o1) w) app_load_error
        (\<lambda>app w. draw (clock_Now P w)
        (\<lambda>now w. attempt (offer_call (Revoke_offer (oi_Reason input) now o1), w) offer_status_error
        (\<lambda>o2 w. draw (uuid_New P w)
        (\<lambda>fresh w. attempt (ChangeStage fresh StageInterview (oi_ActorID input)
                              (''offer revoked: '' @ oi_Reason input) now app, w) stage_conflict
        (\<lambda>app' w. publish P ''offer revoked'' AggregateTypeJobOffer (off_ID o2) (off_Version o2)
                    (OfferRevokedPayload (off_ID o2) (oi_Reason input) now) now
                    (update_offer_and_app P o2 app') w))))))))"

definition expire_error :: "herror \<Rightarrow> herror" where
  "expire_error err =
     (if errors_is err (S_off ErrOfferNotExpired)
      then Conflict ''not_expired'' (err_Error err) (Some err)
      else offer_status_error err)"

definition ExpireOffer ::
  "('w, 'z) offer_ports_scheme \<Rightarrow> uuid \<Rightarrow> 'w \<Rightarrow> ('w, sentinel, unit) result" where
  "ExpireOffer P offerID w =
     (if offerID = uuid_nil then (Inl empty_offer_id, w)
      else attempt (offer_GetByID P offerID w) offer_load_error
        (\<lambda>o1 w. draw (clock_Now P w)
        (\<lambda>now w. attempt (offer_call (Expire now o1), w) expire_error
        (\<lambda>o2 w. publish P ''offer expired'' AggregateTypeJobOffer (off_ID o2) (off_Version o2)
                  (OfferExpiredPayload (off_ID o2) now) now
                  (update_offer P o2) w))))"


section \<open>GetOffer, GetOfferByApplication\<close>

text \<open>Whoever may manage the offer or answer it may read it.\<close>

definition may_view_offer ::
  "('w, 'z) offer_ports_scheme \<Rightarrow> uuid \<Rightarrow> uuid \<Rightarrow> 'w \<Rightarrow> ('w, sentinel, unit) result" where
  "may_view_offer P actorID appID w =
     (case CanManageOffer P actorID appID w of
        (Inr _, w) \<Rightarrow> (Inr (), w)
      | (Inl _, w) \<Rightarrow>
          attempt (CanRespondToOffer P actorID appID w)
            (\<lambda>_. Forbidden ''not_authorized'' ''actor is not authorized to view offer'' None)
            (\<lambda>_ w. (Inr (), w)))"

definition GetOffer ::
  "('w, 'z) offer_ports_scheme \<Rightarrow> uuid \<Rightarrow> uuid \<Rightarrow> 'w \<Rightarrow> ('w, sentinel, job_offer) result" where
  "GetOffer P offerID actorID w =
     (if offerID = uuid_nil then (Inl empty_offer_id, w)
      else attempt (offer_GetByID P offerID w) offer_load_error
        (\<lambda>o1 w. attempt (may_view_offer P actorID (off_ApplicationID o1) w) same_err
        (\<lambda>_ w. (Inr o1, w))))"

definition GetOfferByApplication ::
  "('w, 'z) offer_ports_scheme \<Rightarrow> uuid \<Rightarrow> uuid \<Rightarrow> 'w \<Rightarrow> ('w, sentinel, job_offer) result" where
  "GetOfferByApplication P appID actorID w =
     (if appID = uuid_nil
      then (Inl (InvalidArgument ''empty_application_id'' ''application ID is required'' None), w)
      else attempt (may_view_offer P actorID appID w) same_err
        (\<lambda>_ w. offer_GetByApplicationID P appID w))"

lemma offer_call_Inr: "offer_call r = Inr o1 \<longleftrightarrow> r = (None, o1)"
  by (auto simp: offer_call_def split: prod.splits option.splits)

end
