(* ===== verification/Hiring_Room.thy ===== *)
theory Hiring_Room
  imports Hiring_Event
begin

text \<open>
  Meeting rooms of interviews: the strategies of \<open>usecase/interview/room\<close> (LiveKit, on site) and
  their registry, and the conference service of \<open>usecase/conference\<close> over a LiveKit client that is
  a port.
\<close>

section \<open>The conference service\<close>

record 'w livekit_client =
  lk_CreateRoom :: "string \<Rightarrow> 'w \<Rightarrow> ('w, sentinel, string) result"
  lk_DeleteRoom :: "string \<Rightarrow> 'w \<Rightarrow> ('w, sentinel, unit) result"

text \<open>The service holds a client that may be nil.\<close>

definition conf_CreateRoom ::
  "'w livekit_client option \<Rightarrow> string \<Rightarrow> 'w \<Rightarrow> ('w, sentinel, string) result" where
  "conf_CreateRoom client roomName w =
     (if trim_space roomName = '''' then (Inl (Fresh ''room name is required''), w)
      else case client of
        None \<Rightarrow> (Inr (''https://livekit.careeria.internal/rooms/'' @ roomName), w)
      | Some c \<Rightarrow> lk_CreateRoom c roomName w)"

definition conf_EndRoom ::
  "'w livekit_client option \<Rightarrow> string \<Rightarrow> 'w \<Rightarrow> ('w, sentinel, unit) result" where
  "conf_EndRoom client roomName w =
     (if trim_space roomName = '''' then (Inl (Fresh ''room name is required''), w)
      else case client of
        None \<Rightarrow> (Inr (), w)
      | Some c \<Rightarrow> lk_DeleteRoom c roomName w)"


section \<open>Strategies\<close>

record 'w conference_client =
  CreateRoom :: "string \<Rightarrow> 'w \<Rightarrow> ('w, sentinel, string) result"
  EndRoom :: "string \<Rightarrow> 'w \<Rightarrow> ('w, sentinel, unit) result"

definition conference_service :: "'w livekit_client option \<Rightarrow> 'w conference_client" where
  "conference_service client =
     \<lparr>CreateRoom = conf_CreateRoom client, EndRoom = conf_EndRoom client\<rparr>"

record provision_request =
  pr_InterviewID :: uuid
  pr_Location :: string

record provision_result =
  MeetingURL :: string
  Metadata :: "string \<rightharpoonup> string"

record access_request =
  ar_InterviewID :: uuid
  ar_UserID :: uuid
  ar_UserRole :: participant_role
  ar_MeetingURL :: string

record access_result =
  acc_JoinURL :: string
  acc_Token :: string
  acc_Instructions :: string

text \<open>The two implementations of the interface \<open>MeetingRoomStrategy\<close>, with their fields.\<close>

datatype 'w room_strategy =
  LiveKitStrategy "'w conference_client option"
| OnsiteStrategy string

definition NewOnsiteStrategy :: "string \<Rightarrow> 'w room_strategy" where
  "NewOnsiteStrategy defaultOfficeAddress = OnsiteStrategy (trim_space defaultOfficeAddress)"

fun strategy_Format :: "'w room_strategy \<Rightarrow> meeting_format" where
  "strategy_Format (LiveKitStrategy client) = FormatOnlineLiveKit"
| "strategy_Format (OnsiteStrategy address) = FormatOnsite"

text \<open>\<open>strings.TrimRight(url, ''/'')\<close>; the argument \<open>show\<close> is \<open>uuid.UUID.String\<close>.\<close>

definition trim_right_slash :: "string \<Rightarrow> string" where
  "trim_right_slash url = rev (dropWhile (\<lambda>c. c = CHR ''/'') (rev url))"

definition livekit_room :: "(uuid \<Rightarrow> string) \<Rightarrow> uuid \<Rightarrow> string" where
  "livekit_room show i = ''interview-'' @ show i"

definition livekit_Provision ::
  "(uuid \<Rightarrow> string) \<Rightarrow> 'w conference_client option \<Rightarrow> provision_request \<Rightarrow> 'w
     \<Rightarrow> ('w, sentinel, provision_result) result" where
  "livekit_Provision show client req w =
     (let roomName = livekit_room show (pr_InterviewID req);
          url = ''https://meet.careeria.internal/rooms/'' @ roomName;
          answer = (\<lambda>url. \<lparr>MeetingURL = url,
                      Metadata = [''room_name'' \<mapsto> roomName, ''provider'' \<mapsto> ''livekit'']\<rparr>)
      in case client of
           None \<Rightarrow> (Inr (answer url), w)
         | Some c \<Rightarrow>
             attempt (CreateRoom c roomName w) (\<lambda>err. Wrap ''provision livekit room: '' err '''')
               (\<lambda>createdURL w. (Inr (answer (if createdURL \<noteq> '''' then createdURL else url)), w)))"

definition onsite_Provision ::
  "string \<Rightarrow> provision_request \<Rightarrow> 'w \<Rightarrow> ('w, sentinel, provision_result) result" where
  "onsite_Provision defaultOfficeAddress req w =
     (let location = trim_space (pr_Location req);
          location = (if location = '''' then defaultOfficeAddress else location)
      in if location = '''' then (Inl (Sentinel (S_room ErrEmptyOfficeLocation)), w)
         else (Inr \<lparr>MeetingURL = location,
                    Metadata = [''provider'' \<mapsto> ''onsite'', ''location'' \<mapsto> location]\<rparr>, w))"

definition livekit_GenerateAccess :: "(uuid \<Rightarrow> string) \<Rightarrow> access_request \<Rightarrow> access_result" where
  "livekit_GenerateAccess show req =
     (let roomName = livekit_room show (ar_InterviewID req);
          token = ''token_'' @ roomName @ ''_'' @ show (ar_UserID req)
      in \<lparr>acc_JoinURL = trim_right_slash (ar_MeetingURL req) @ ''?token='' @ token,
          acc_Token = token,
          acc_Instructions = ''Please check your camera and microphone before joining.''\<rparr>)"

definition onsite_GenerateAccess :: "access_request \<Rightarrow> access_result" where
  "onsite_GenerateAccess req =
     \<lparr>acc_JoinURL = ar_MeetingURL req, acc_Token = '''',
      acc_Instructions = ''Please arrive at '' @ ar_MeetingURL req @
        '' 10 minutes before the scheduled time with an ID document for the reception desk.''\<rparr>"

definition livekit_Teardown ::
  "(uuid \<Rightarrow> string) \<Rightarrow> 'w conference_client option \<Rightarrow> uuid \<Rightarrow> 'w \<Rightarrow> ('w, sentinel, unit) result" where
  "livekit_Teardown show client i w =
     (case client of
        None \<Rightarrow> (Inr (), w)
      | Some c \<Rightarrow>
          attempt (EndRoom c (livekit_room show i) w)
            (\<lambda>err. Wrap ''teardown livekit room: '' err '''') (\<lambda>_ w. (Inr (), w)))"

definition onsite_Teardown :: "uuid \<Rightarrow> 'w \<Rightarrow> ('w, sentinel, unit) result" where
  "onsite_Teardown i w = (Inr (), w)"

text \<open>The methods of the interface, on either implementation.\<close>

fun strategy_Provision ::
  "(uuid \<Rightarrow> string) \<Rightarrow> 'w room_strategy \<Rightarrow> provision_request \<Rightarrow> 'w
     \<Rightarrow> ('w, sentinel, provision_result) result" where
  "strategy_Provision show (LiveKitStrategy client) req w = livekit_Provision show client req w"
| "strategy_Provision show (OnsiteStrategy address) req w = onsite_Provision address req w"

fun strategy_GenerateAccess ::
  "(uuid \<Rightarrow> string) \<Rightarrow> 'w room_strategy \<Rightarrow> access_request \<Rightarrow> access_result" where
  "strategy_GenerateAccess show (LiveKitStrategy client) req = livekit_GenerateAccess show req"
| "strategy_GenerateAccess show (OnsiteStrategy address) req = onsite_GenerateAccess req"

fun strategy_Teardown ::
  "(uuid \<Rightarrow> string) \<Rightarrow> 'w room_strategy \<Rightarrow> uuid \<Rightarrow> 'w \<Rightarrow> ('w, sentinel, unit) result" where
  "strategy_Teardown show (LiveKitStrategy client) i w = livekit_Teardown show client i w"
| "strategy_Teardown show (OnsiteStrategy address) i w = onsite_Teardown i w"

lemmas room_ops =
  livekit_Provision_def onsite_Provision_def livekit_Teardown_def onsite_Teardown_def


section \<open>The registry\<close>

type_synonym 'w room_registry = "meeting_format \<rightharpoonup> 'w room_strategy"

text \<open>Later strategies of one format win; nil strategies are skipped.\<close>

definition NewRoomStrategy :: "'w room_strategy option list \<Rightarrow> 'w room_registry" where
  "NewRoomStrategy strategies =
     foldl (\<lambda>registry s. case s of None \<Rightarrow> registry
              | Some st \<Rightarrow> registry(strategy_Format st \<mapsto> st)) Map.empty strategies"

text \<open>\<open>None\<close> is the nil receiver or nil registry.\<close>

definition Resolve_room :: "'w room_registry option \<Rightarrow> meeting_format \<Rightarrow> herror + 'w room_strategy" where
  "Resolve_room registry format =
     (case registry of
        None \<Rightarrow> Inl (Sentinel (S_room ErrUnsupportedFormat))
      | Some r \<Rightarrow>
          (case r format of
             None \<Rightarrow> Inl (Wrap '''' (Sentinel (S_room ErrUnsupportedFormat))
                           ('': '' @ meeting_format_String format))
           | Some s \<Rightarrow> Inr s))"

definition Provision ::
  "(uuid \<Rightarrow> string) \<Rightarrow> 'w room_registry option \<Rightarrow> meeting_format \<Rightarrow> provision_request \<Rightarrow> 'w
     \<Rightarrow> ('w, sentinel, provision_result) result" where
  "Provision show registry format req w =
     attempt (Resolve_room registry format, w) (\<lambda>err. err)
       (\<lambda>s w. strategy_Provision show s req w)"

definition GenerateAccess ::
  "(uuid \<Rightarrow> string) \<Rightarrow> 'w room_registry option \<Rightarrow> meeting_format \<Rightarrow> access_request
     \<Rightarrow> herror + access_result" where
  "GenerateAccess show registry format req =
     (case Resolve_room registry format of
        Inl err \<Rightarrow> Inl err
      | Inr s \<Rightarrow> Inr (strategy_GenerateAccess show s req))"

definition Teardown ::
  "(uuid \<Rightarrow> string) \<Rightarrow> 'w room_registry option \<Rightarrow> meeting_format \<Rightarrow> uuid \<Rightarrow> 'w
     \<Rightarrow> ('w, sentinel, unit) result" where
  "Teardown show registry format i w =
     attempt (Resolve_room registry format, w) (\<lambda>err. err)
       (\<lambda>s w. strategy_Teardown show s i w)"


section \<open>What the registry and the strategies do\<close>

lemma NewRoomStrategy_snoc:
  "NewRoomStrategy (ss @ [s]) =
     (case s of None \<Rightarrow> NewRoomStrategy ss
      | Some st \<Rightarrow> (NewRoomStrategy ss)(strategy_Format st \<mapsto> st))"
  by (simp add: NewRoomStrategy_def split: option.split)

lemma NewRoomStrategy_Nil: "NewRoomStrategy [] = Map.empty"
  by (simp add: NewRoomStrategy_def)

lemma NewRoomStrategy_format:
  "NewRoomStrategy ss f = Some st \<Longrightarrow> strategy_Format st = f \<and> Some st \<in> set ss"
  by (induction ss arbitrary: f st rule: rev_induct)
     (auto simp: NewRoomStrategy_snoc NewRoomStrategy_Nil split: option.splits if_splits)

lemma NewRoomStrategy_None:
  "NewRoomStrategy ss f = None \<longleftrightarrow> (\<forall>st. Some st \<in> set ss \<longrightarrow> strategy_Format st \<noteq> f)"
  by (induction ss rule: rev_induct)
     (auto simp: NewRoomStrategy_snoc NewRoomStrategy_Nil split: option.splits if_splits)

text \<open>Every strategy registered answers for the format it is registered under.\<close>

lemma Resolve_room_format:
  "Resolve_room (Some (NewRoomStrategy ss)) f = Inr st \<Longrightarrow> strategy_Format st = f"
  by (auto simp: Resolve_room_def dest: NewRoomStrategy_format split: option.splits)

lemma Resolve_room_Inl:
  "Resolve_room r f = Inl err \<Longrightarrow> errors_is err (S_room ErrUnsupportedFormat)"
  by (auto simp: Resolve_room_def split: option.splits)

text \<open>A provisioned room has an address.\<close>

lemma Provision_nonempty:
  "strategy_Provision show s req w = (Inr res, w') \<Longrightarrow> MeetingURL res \<noteq> ''''"
  by (cases s) (auto simp: room_ops Let_def attempt_inv split: option.splits if_splits)

end
