(* ===== verification/Hiring_Interview_Usecases.thy ===== *)
theory Hiring_Interview_Usecases
  imports Hiring_Usecases Hiring_Room
begin

text \<open>
  The use cases of the interview service (\<open>services/hiring/internal/usecase/interview\<close>): scheduling
  with a provisioned room, feedback, completion, cancellation, and the queries.
\<close>

section \<open>Ports and shared pieces\<close>

record 'w interview_ports = "'w base_ports" +
  interview_Create :: "interview \<Rightarrow> 'w \<Rightarrow> ('w, sentinel, unit) result"
  interview_Update :: "interview \<Rightarrow> 'w \<Rightarrow> ('w, sentinel, unit) result"
  interview_GetByID :: "uuid \<Rightarrow> 'w \<Rightarrow> ('w, sentinel, interview) result"
  interview_ListByApplicationID :: "uuid \<Rightarrow> 'w \<Rightarrow> ('w, sentinel, interview option list) result"
  app_GetStage :: "uuid \<Rightarrow> 'w \<Rightarrow> ('w, sentinel, pipeline_stage) result"
  roomStrategy :: "'w room_registry option"
  CanManageInterview :: "uuid \<Rightarrow> uuid \<Rightarrow> 'w \<Rightarrow> ('w, sentinel, unit) result"
  CanSubmitFeedback :: "uuid \<Rightarrow> uuid \<Rightarrow> 'w \<Rightarrow> ('w, sentinel, unit) result"

definition interview_load_error :: "herror \<Rightarrow> herror" where
  "interview_load_error err =
     (if errors_is err (S_int Int_ErrNotFound)
      then NotFound ''interview_not_found'' ''interview not found'' (Some err)
      else wrapped ''load interview'' err)"

definition interview_status_error :: "herror \<Rightarrow> herror" where
  "interview_status_error err =
     (if errors_is err (S_int Int_ErrInvalidStatus)
      then Conflict ''invalid_status'' (err_Error err) (Some err)
      else err)"

definition update_interview ::
  "('w, 'z) interview_ports_scheme \<Rightarrow> interview \<Rightarrow> 'w \<Rightarrow> ('w, sentinel, unit) result" where
  "update_interview P it w =
     attempt (interview_Update P it w) (wrapped ''update interview'') (\<lambda>_ w. (Inr (), w))"

abbreviation (input) empty_interview_id :: herror where
  "empty_interview_id \<equiv> InvalidArgument ''empty_interview_id'' ''interview ID is required'' None"


section \<open>ScheduleInterview\<close>

record schedule_input =
  sc_ApplicationID :: uuid
  sc_InterviewType :: interview_type
  sc_Format :: meeting_format
  sc_StartTime :: gotime
  sc_EndTime :: gotime
  sc_Participants :: "participant list"
  sc_Location :: string
  sc_ActorID :: uuid

text \<open>A service without a room strategy takes the location as the address of the room.\<close>

definition room_url ::
  "('w, 'z) interview_ports_scheme \<Rightarrow> schedule_input \<Rightarrow> uuid \<Rightarrow> 'w \<Rightarrow> ('w, sentinel, string) result" where
  "room_url P input interviewID w =
     (case roomStrategy P of
        None \<Rightarrow> (Inr (sc_Location input), w)
      | Some registry \<Rightarrow>
          attempt (Provision (uuid_String P) (Some registry) (sc_Format input)
                     \<lparr>pr_InterviewID = interviewID, pr_Location = sc_Location input\<rparr> w)
            (\<lambda>err. if errors_is err (S_room ErrUnsupportedFormat)
                   then InvalidArgument ''unsupported_format'' (err_Error err) (Some err)
                   else wrapped ''provision meeting room'' err)
            (\<lambda>res w. (Inr (MeetingURL res), w)))"

definition default_format :: "schedule_input \<Rightarrow> schedule_input" where
  "default_format input =
     (if sc_Format input = FormatOther '''' then input\<lparr>sc_Format := FormatOnlineLiveKit\<rparr> else input)"

definition ScheduleInterview ::
  "('w, 'z) interview_ports_scheme \<Rightarrow> schedule_input \<Rightarrow> 'w \<Rightarrow> ('w, sentinel, uuid) result" where
  "ScheduleInterview P input0 w =
     (if sc_ApplicationID input0 = uuid_nil
      then (Inl (InvalidArgument ''empty_application_id'' ''application ID is required'' None), w)
      else if sc_ActorID input0 = uuid_nil
      then (Inl (InvalidArgument ''empty_actor_id'' ''actor ID is required'' None), w)
      else let input = default_format input0 in
        attempt (CanManageInterview P (sc_ActorID input) (sc_ApplicationID input) w) same_err
        (\<lambda>_ w. attempt (app_GetStage P (sc_ApplicationID input) w) (wrapped ''check application stage'')
        (\<lambda>stage w.
          if stage \<noteq> StageInterview \<and> stage \<noteq> StageScreening
          then (Inl (Conflict ''invalid_stage''
                  (''cannot schedule interview for application in stage '' @ stage_String stage)
                  None), w)
          else draw (clock_Now P w)
        (\<lambda>now w. draw (id_New P w)
        (\<lambda>interviewID w. attempt (room_url P input interviewID w) same_err
        (\<lambda>roomURL w. attempt
           (Schedule interviewID (sc_ApplicationID input) (sc_InterviewType input)
              (sc_Format input) (sc_StartTime input) (sc_EndTime input) (sc_Participants input)
              roomURL now, w)
           (\<lambda>err. InvalidArgument ''invalid_interview_params'' (err_Error err) (Some err))
        (\<lambda>it w. attempt
           (publish P ''interview scheduled'' AggregateTypeInterview interviewID (int_Version it)
              (InterviewScheduledPayload interviewID (sc_ApplicationID input) (InterviewType it)
                 (ScheduledStartTime it) (ScheduledEndTime it) (Participants it))
              now
              (\<lambda>w. attempt (interview_Create P it w) (wrapped ''save interview'')
                     (\<lambda>_ w. (Inr (), w)))
              w)
           same_err (\<lambda>_ w. (Inr interviewID, w)))))))))"


section \<open>CompleteInterview, CancelInterview\<close>

record interview_input =
  ii_InterviewID :: uuid
  ii_ActorID :: uuid

record interview_reason_input = interview_input +
  ii_Reason :: string

definition CompleteInterview ::
  "('w, 'z) interview_ports_scheme \<Rightarrow> interview_input \<Rightarrow> 'w \<Rightarrow> ('w, sentinel, unit) result" where
  "CompleteInterview P input w =
     (if ii_InterviewID input = uuid_nil then (Inl empty_interview_id, w)
      else attempt (interview_GetByID P (ii_InterviewID input) w) interview_load_error
        (\<lambda>it w. attempt (CanManageInterview P (ii_ActorID input) (int_ApplicationID it) w) same_err
        (\<lambda>_ w. draw (clock_Now P w)
        (\<lambda>now w. attempt (Complete now it, w) interview_status_error
        (\<lambda>it' w. publish P ''interview completed'' AggregateTypeInterview (int_ID it')
                   (int_Version it') (InterviewCompletedPayload (int_ID it') now) now
                   (update_interview P it') w)))))"

text \<open>The error of the teardown is dropped.\<close>

definition close_room ::
  "('w, 'z) interview_ports_scheme \<Rightarrow> interview \<Rightarrow> 'w \<Rightarrow> unit \<times> 'w" where
  "close_room P it w =
     (if MeetingRoomURL it \<noteq> '''' \<and> roomStrategy P \<noteq> None
      then ((), snd (Teardown (uuid_String P) (roomStrategy P) (Format it) (int_ID it) w))
      else ((), w))"

definition CancelInterview ::
  "('w, 'z) interview_ports_scheme \<Rightarrow> interview_reason_input \<Rightarrow> 'w \<Rightarrow> ('w, sentinel, unit) result" where
  "CancelInterview P input w =
     (if ii_InterviewID input = uuid_nil then (Inl empty_interview_id, w)
      else attempt (interview_GetByID P (ii_InterviewID input) w) interview_load_error
        (\<lambda>it w. attempt (CanManageInterview P (ii_ActorID input) (int_ApplicationID it) w) same_err
        (\<lambda>_ w. draw (clock_Now P w)
        (\<lambda>now w. attempt (Cancel (ii_Reason input) now it, w) interview_status_error
        (\<lambda>it' w. draw (close_room P it' w)
        (\<lambda>_ w. publish P ''interview cancelled'' AggregateTypeInterview (int_ID it')
                 (int_Version it') (InterviewCancelledPayload (int_ID it') (ii_Reason input) now) now
                 (update_interview P it') w))))))"


section \<open>SubmitFeedback\<close>

record feedback_input =
  fi_InterviewID :: uuid
  fi_InterviewerUserID :: uuid
  fi_Score :: int
  fi_Notes :: string

definition feedback_error :: "herror \<Rightarrow> herror" where
  "feedback_error err =
     (if errors_is err (S_int ErrNotParticipant)
      then Forbidden ''not_participant'' (err_Error err) (Some err)
      else if errors_is err (S_int ErrFeedbackAlreadySubmitted)
      then Conflict ''feedback_exists'' (err_Error err) (Some err)
      else if errors_is err (S_int ErrInterviewCancelled)
      then Conflict ''interview_cancelled'' (err_Error err) (Some err)
      else InvalidArgument ''invalid_feedback'' (err_Error err) (Some err))"

definition SubmitFeedback_uc ::
  "('w, 'z) interview_ports_scheme \<Rightarrow> feedback_input \<Rightarrow> 'w \<Rightarrow> ('w, sentinel, unit) result" where
  "SubmitFeedback_uc P input w =
     (if fi_InterviewID input = uuid_nil then (Inl empty_interview_id, w)
      else if fi_InterviewerUserID input = uuid_nil
      then (Inl (InvalidArgument ''empty_interviewer_id'' ''interviewer user ID is required'' None), w)
      else attempt (CanSubmitFeedback P (fi_InterviewerUserID input) (fi_InterviewID input) w) same_err
        (\<lambda>_ w. attempt (interview_GetByID P (fi_InterviewID input) w) interview_load_error
        (\<lambda>it w. draw (clock_Now P w)
        (\<lambda>now w. attempt (NewFeedback (fi_InterviewerUserID input) (fi_Score input) (fi_Notes input) now, w)
                   (\<lambda>err. InvalidArgument ''invalid_feedback'' (err_Error err) (Some err))
        (\<lambda>feedback w. attempt (SubmitFeedback feedback now it, w) feedback_error
        (\<lambda>it' w. publish P ''feedback submitted'' AggregateTypeInterview (int_ID it')
                   (int_Version it')
                   (FeedbackSubmittedPayload (int_ID it') (fi_InterviewerUserID input)
                      (fi_Score input) now) now
                   (update_interview P it') w))))))"


section \<open>Queries\<close>

definition GetInterview ::
  "('w, 'z) interview_ports_scheme \<Rightarrow> uuid \<Rightarrow> uuid \<Rightarrow> 'w \<Rightarrow> ('w, sentinel, interview) result" where
  "GetInterview P interviewID actorID w =
     (if interviewID = uuid_nil then (Inl empty_interview_id, w)
      else attempt (interview_GetByID P interviewID w) interview_load_error
        (\<lambda>it w. attempt (CanManageInterview P actorID (int_ApplicationID it) w)
           (\<lambda>_. Forbidden ''not_authorized'' ''actor is not authorized to view interview'' None)
           (\<lambda>_ w. (Inr it, w))))"

definition ListInterviewsByApplication ::
  "('w, 'z) interview_ports_scheme \<Rightarrow> uuid \<Rightarrow> uuid \<Rightarrow> 'w
     \<Rightarrow> ('w, sentinel, interview option list) result" where
  "ListInterviewsByApplication P appID actorID w =
     (if appID = uuid_nil
      then (Inl (InvalidArgument ''empty_application_id'' ''application ID is required'' None), w)
      else attempt (CanManageInterview P actorID appID w)
        (\<lambda>_. Forbidden ''not_authorized'' ''actor is not authorized to list interviews'' None)
        (\<lambda>_ w. interview_ListByApplicationID P appID w))"

record meeting_access =
  ma_InterviewID :: uuid
  ma_Format :: meeting_format
  ma_JoinURL :: string
  ma_Token :: string
  ma_Instructions :: string

text \<open>The role of the first participant with the actor's user, a candidate without one.\<close>

definition access_role :: "interview \<Rightarrow> uuid \<Rightarrow> participant_role" where
  "access_role it actorID =
     (case find (\<lambda>p. par_UserID p = actorID) (Participants it) of
        None \<Rightarrow> RoleCandidate
      | Some p \<Rightarrow> par_Role p)"

definition GetMeetingAccess ::
  "('w, 'z) interview_ports_scheme \<Rightarrow> interview_input \<Rightarrow> 'w \<Rightarrow> ('w, sentinel, meeting_access) result" where
  "GetMeetingAccess P input w =
     (if ii_InterviewID input = uuid_nil then (Inl empty_interview_id, w)
      else if ii_ActorID input = uuid_nil
      then (Inl (InvalidArgument ''empty_actor_id'' ''actor ID is required'' None), w)
      else attempt (interview_GetByID P (ii_InterviewID input) w) interview_load_error
        (\<lambda>it w.
          if int_Status it \<noteq> Int_Scheduled
          then (Inl (Conflict ''invalid_status'' ''interview is not in scheduled status'' None), w)
          else case roomStrategy P of
            None \<Rightarrow> (Inr \<lparr>ma_InterviewID = int_ID it, ma_Format = Format it,
                         ma_JoinURL = MeetingRoomURL it, ma_Token = '''',
                         ma_Instructions = ''''\<rparr>, w)
          | Some registry \<Rightarrow>
              attempt (GenerateAccess (uuid_String P) (Some registry) (Format it)
                         \<lparr>ar_InterviewID = int_ID it, ar_UserID = ii_ActorID input,
                          ar_UserRole = access_role it (ii_ActorID input),
                          ar_MeetingURL = MeetingRoomURL it\<rparr>, w)
                (\<lambda>err. if errors_is err (S_room ErrUnsupportedFormat)
                       then Conflict ''unsupported_format'' (err_Error err) (Some err)
                       else wrapped ''generate access'' err)
                (\<lambda>res w. (Inr \<lparr>ma_InterviewID = int_ID it, ma_Format = Format it,
                             ma_JoinURL = acc_JoinURL res, ma_Token = acc_Token res,
                             ma_Instructions = acc_Instructions res\<rparr>, w))))"

end
