(* ===== verification/Hiring_Contract.thy ===== *)
theory Hiring_Contract
  imports Txmanager Hiring_Offer_Usecases Hiring_Interview_Usecases
begin

text \<open>
  What the hiring use cases rely on in their ports, as locales: a store of aggregates and outbox
  messages, a transaction manager that keeps or drops all of a transaction's writes, repositories
  that find what was saved. The client lemmas say what each use case leaves in the store; the
  interpretation on the in-memory ports is in \<open>Hiring_Memory\<close>.
\<close>

section \<open>The durable state\<close>

record hstore =
  st_apps :: "uuid \<rightharpoonup> job_application"
  st_ints :: "uuid \<rightharpoonup> interview"
  st_offs :: "uuid \<rightharpoonup> job_offer"
  st_outbox :: "message list"

definition put_app :: "job_application \<Rightarrow> hstore \<Rightarrow> hstore" where
  "put_app a s = s\<lparr>st_apps := (st_apps s)(app_ID a \<mapsto> a)\<rparr>"

definition put_int :: "interview \<Rightarrow> hstore \<Rightarrow> hstore" where
  "put_int i s = s\<lparr>st_ints := (st_ints s)(int_ID i \<mapsto> i)\<rparr>"

definition put_off :: "job_offer \<Rightarrow> hstore \<Rightarrow> hstore" where
  "put_off j s = s\<lparr>st_offs := (st_offs s)(off_ID j \<mapsto> j)\<rparr>"

definition put_msg :: "message \<Rightarrow> hstore \<Rightarrow> hstore" where
  "put_msg m s = s\<lparr>st_outbox := st_outbox s @ [m]\<rparr>"

lemmas put_defs = put_app_def put_int_def put_off_def put_msg_def

text \<open>The message an operation owes to the outbox.\<close>

definition describes ::
  "('w, 'z) base_ports_scheme \<Rightarrow> string \<Rightarrow> uuid \<Rightarrow> int64 \<Rightarrow> payload \<Rightarrow> gotime \<Rightarrow> message \<Rightarrow> bool" where
  "describes P atype aggID version pl now m \<longleftrightarrow>
     AggregateType m = atype \<and> AggregateID m = aggID \<and> AggregateVersion m = Some version \<and>
     EventType m = event_type_of pl \<and> json_Marshal P pl = Inr (Payload m) \<and>
     OccurredAt m = now \<and> EventID m = msg_ID m \<and> PartitionKey m = Some (uuid_String P aggID)"


text \<open>An interview with feedback was completed for the application.\<close>

definition eligible :: "hstore \<Rightarrow> uuid \<Rightarrow> job_application \<Rightarrow> bool" where
  "eligible s i a \<longleftrightarrow>
     CurrentStage a = StageInterview \<and>
     (\<exists>it. st_ints s (int_ID it) = Some it \<and> int_ApplicationID it = i \<and>
        int_Status it = Int_Completed \<and> Feedbacks it \<noteq> [])"

text \<open>
  One committed change of the stored application \<open>i\<close>: a step of the aggregate at some time, and
  the event that describes it.
\<close>

definition app_commit ::
  "('w, 'z) base_ports_scheme \<Rightarrow> hstore \<Rightarrow> uuid
     \<Rightarrow> (gotime \<Rightarrow> job_application \<Rightarrow> job_application \<Rightarrow> bool)
     \<Rightarrow> (gotime \<Rightarrow> job_application \<Rightarrow> job_application \<Rightarrow> payload) \<Rightarrow> hstore \<Rightarrow> bool" where
  "app_commit P s i step pl s' \<longleftrightarrow>
     (\<exists>a b m now. st_apps s i = Some a \<and> app_ID a = i \<and> step now a b \<and>
        describes P AggregateTypeJobApplication (app_ID b) (app_Version b) (pl now a b) now m \<and>
        s' = put_msg m (put_app b s))"


lemma app_commitI:
  "st_apps s i = Some a \<Longrightarrow> app_ID a = i \<Longrightarrow>
     describes P AggregateTypeJobApplication (app_ID b) (app_Version b) (pl now a b) now m \<Longrightarrow>
     step now a b \<Longrightarrow> app_commit P s i step pl (put_msg m (put_app b s))"
  by (auto simp: app_commit_def)


text \<open>What an assessment result does: nothing outside \<open>TECH_ASSESSMENT\<close>, else it moves or rejects.\<close>

inductive assessment_effect ::
  "('w, 'z) base_ports_scheme \<Rightarrow> hstore \<Rightarrow> assessment_input \<Rightarrow> hstore \<Rightarrow> bool"
  for P :: "('w, 'z) base_ports_scheme" and s :: hstore and input :: assessment_input where
  ignored: "st_apps s (si_ApplicationID input) = Some a \<Longrightarrow>
     CurrentStage a \<noteq> StageTechAssessment \<Longrightarrow> assessment_effect P s input s"
| passed: "si_Passed input \<Longrightarrow>
     app_commit P s (si_ApplicationID input)
       (\<lambda>now a b. \<exists>fresh. AdvanceFromAssessment fresh (si_Score input) (si_ActorID input) now a = Inr b)
       (\<lambda>now a b. StageChangedPayload (app_ID b) (CurrentStage a) StageInterview
          (si_ActorID input) now
          (''tech assessment passed with score '' @ show_int (si_Score input))) s' \<Longrightarrow>
     assessment_effect P s input s'"
| failed: "\<not> si_Passed input \<Longrightarrow> Code reason = RejectCodeAssessmentFailed \<Longrightarrow>
     app_commit P s (si_ApplicationID input)
       (\<lambda>now a b. CurrentStage a = StageTechAssessment \<and>
          (\<exists>fresh. Reject fresh reason (si_ActorID input) now a = Inr b))
       (\<lambda>now a b. ApplicationRejectedPayload (app_ID b) (CurrentStage a) reason
          (si_ActorID input) now) s' \<Longrightarrow>
     assessment_effect P s input s'"

text \<open>What a submission commits.\<close>

definition apply_commit ::
  "('w, 'z) base_ports_scheme \<Rightarrow> hstore \<Rightarrow> apply_input \<Rightarrow> uuid \<Rightarrow> hstore \<Rightarrow> bool" where
  "apply_commit P s input appID s' \<longleftrightarrow>
     (\<exists>a m now fresh.
        New_application fresh appID (ai_VacancyID input) (ai_CandidateID input) (ai_ActorID input)
          now = Inr a \<and>
        (\<forall>b \<in> ran (st_apps s).
           CandidateID b = ai_CandidateID input \<and> VacancyID b = ai_VacancyID input \<longrightarrow>
           stage_IsTerminal (CurrentStage b)) \<and>
        describes P AggregateTypeJobApplication appID (app_Version a)
          (ApplicationAppliedPayload appID (ai_VacancyID input) (ai_CandidateID input)
             (CurrentStage a) now) now m \<and>
        s' = put_msg m (put_app a s))"


text \<open>The same for offers, alone or together with the application they belong to, and interviews.\<close>

definition off_commit ::
  "('w, 'z) base_ports_scheme \<Rightarrow> hstore \<Rightarrow> uuid
     \<Rightarrow> (gotime \<Rightarrow> job_offer \<Rightarrow> job_offer \<Rightarrow> bool)
     \<Rightarrow> (gotime \<Rightarrow> job_offer \<Rightarrow> payload) \<Rightarrow> hstore \<Rightarrow> bool" where
  "off_commit P s k step pl s' \<longleftrightarrow>
     (\<exists>j j' m now. st_offs s k = Some j \<and> off_ID j = k \<and> step now j j' \<and>
        describes P AggregateTypeJobOffer (off_ID j') (off_Version j') (pl now j') now m \<and>
        s' = put_msg m (put_off j' s))"

definition off_app_commit ::
  "('w, 'z) base_ports_scheme \<Rightarrow> hstore \<Rightarrow> uuid
     \<Rightarrow> (gotime \<Rightarrow> job_offer \<Rightarrow> job_offer \<Rightarrow> bool)
     \<Rightarrow> (gotime \<Rightarrow> job_application \<Rightarrow> job_application \<Rightarrow> bool)
     \<Rightarrow> (gotime \<Rightarrow> job_offer \<Rightarrow> payload) \<Rightarrow> hstore \<Rightarrow> bool" where
  "off_app_commit P s k step astep pl s' \<longleftrightarrow>
     (\<exists>j j' a b m now. st_offs s k = Some j \<and> off_ID j = k \<and> step now j j' \<and>
        st_apps s (off_ApplicationID j) = Some a \<and> app_ID a = off_ApplicationID j \<and> astep now a b \<and>
        describes P AggregateTypeJobOffer (off_ID j') (off_Version j') (pl now j') now m \<and>
        s' = put_msg m (put_app b (put_off j' s)))"

definition int_commit ::
  "('w, 'z) base_ports_scheme \<Rightarrow> hstore \<Rightarrow> uuid
     \<Rightarrow> (gotime \<Rightarrow> interview \<Rightarrow> interview \<Rightarrow> bool)
     \<Rightarrow> (gotime \<Rightarrow> interview \<Rightarrow> payload) \<Rightarrow> hstore \<Rightarrow> bool" where
  "int_commit P s k step pl s' \<longleftrightarrow>
     (\<exists>i j m now. st_ints s k = Some i \<and> int_ID i = k \<and> step now i j \<and>
        describes P AggregateTypeInterview (int_ID j) (int_Version j) (pl now j) now m \<and>
        s' = put_msg m (put_int j s))"

lemma off_commitI:
  "st_offs s k = Some j \<Longrightarrow> off_ID j = k \<Longrightarrow>
     describes P AggregateTypeJobOffer (off_ID j') (off_Version j') (pl now j') now m \<Longrightarrow>
     step now j j' \<Longrightarrow> off_commit P s k step pl (put_msg m (put_off j' s))"
  by (auto simp: off_commit_def)

lemma off_app_commitI:
  "st_offs s k = Some j \<Longrightarrow> off_ID j = k \<Longrightarrow>
     st_apps s (off_ApplicationID j) = Some a \<Longrightarrow> app_ID a = off_ApplicationID j \<Longrightarrow>
     describes P AggregateTypeJobOffer (off_ID j') (off_Version j') (pl now j') now m \<Longrightarrow>
     step now j j' \<Longrightarrow> astep now a b \<Longrightarrow>
     off_app_commit P s k step astep pl (put_msg m (put_app b (put_off j' s)))"
  by (auto simp: off_app_commit_def)

lemma int_commitI:
  "st_ints s k = Some i \<Longrightarrow> int_ID i = k \<Longrightarrow>
     describes P AggregateTypeInterview (int_ID j) (int_Version j) (pl now j) now m \<Longrightarrow>
     step now i j \<Longrightarrow> int_commit P s k step pl (put_msg m (put_int j s))"
  by (auto simp: int_commit_def)

text \<open>What a new offer commits: the offer, and the move of its application when there is one.\<close>

definition offer_create_commit ::
  "('w, 'z) base_ports_scheme \<Rightarrow> hstore \<Rightarrow> create_offer_input \<Rightarrow> uuid \<Rightarrow> hstore \<Rightarrow> bool" where
  "offer_create_commit P s input k s' \<longleftrightarrow>
     (\<exists>j m now a.
        Create_offer k (co_ApplicationID input) (co_Compensation input) (co_Currency input)
          (co_Grade input) (co_ExpiresAt input) now = Inr j \<and>
        st_apps s (co_ApplicationID input) = Some a \<and> app_ID a = co_ApplicationID input \<and>
        describes P AggregateTypeJobOffer k (off_Version j)
          (OfferCreatedPayload k (co_ApplicationID input) (co_Compensation input)
             (Currency j) (Grade j) (co_ExpiresAt input) now) now m \<and>
        (CurrentStage a = StageOfferPending \<and> s' = put_msg m (put_off j s) \<or>
         (\<exists>fresh b. ChangeStage fresh StageOfferPending (co_ActorID input) ''offer created'' now a
                     = Inr b \<and>
            s' = put_msg m (put_app b (put_off j s)))))"

text \<open>What a new interview commits.\<close>

definition schedule_commit ::
  "('w, 'z) base_ports_scheme \<Rightarrow> hstore \<Rightarrow> schedule_input \<Rightarrow> uuid \<Rightarrow> hstore \<Rightarrow> bool" where
  "schedule_commit P s input k s' \<longleftrightarrow>
     (\<exists>i m now url a.
        Schedule k (sc_ApplicationID input) (sc_InterviewType input)
          (sc_Format (default_format input)) (sc_StartTime input) (sc_EndTime input)
          (sc_Participants input) url now = Inr i \<and>
        st_apps s (sc_ApplicationID input) = Some a \<and>
        CurrentStage a \<in> {StageInterview, StageScreening} \<and>
        describes P AggregateTypeInterview k (int_Version i)
          (InterviewScheduledPayload k (sc_ApplicationID input) (InterviewType i)
             (ScheduledStartTime i) (ScheduledEndTime i) (Participants i)) now m \<and>
        s' = put_msg m (put_int i s))"


section \<open>The outbox\<close>

locale base_env = tx_port "tx_Do P" stored
  for P :: "('w, 'z) base_ports_scheme" and stored :: "'w \<Rightarrow> hstore" +
  assumes clock_keeps [simp]: "stored (snd (clock_Now P w)) = stored w"
    and id_keeps [simp]: "stored (snd (id_New P w)) = stored w"
    and uuid_keeps [simp]: "stored (snd (uuid_New P w)) = stored w"
    and factory_ids_keeps: "factory_ids P = Some g \<Longrightarrow> stored (snd (g w)) = stored w"
    and outbox_ok: "outbox_Save P m w = (Inr u, w') \<Longrightarrow> stored w' = put_msg m (stored w)"
begin

lemma factory_keeps [simp]:
  "stored (snd (factory_Create P et atype aggID v pl now w)) = stored w"
  by (auto simp: factory_Create_def Let_def case_prod_beta factory_ids_keeps
      split: sum.splits option.splits)

lemma factory_message:
  "factory_Create P (event_type_of pl) atype aggID (Some v) pl now w = (Inr m, w') \<Longrightarrow>
     describes P atype aggID v pl now m"
  by (auto simp: factory_Create_def describes_def Let_def case_prod_beta
      split: if_splits sum.splits)

text \<open>
  The outcome of a publication: what the save leaves, and one message more. The rule is for a
  transaction that starts from the world the use case has seen.
\<close>

lemma publish_outcome [outcome_intros]:
  assumes "stored w = s"
    and "\<And>m w1 w2. describes P atype aggID v pl now m \<Longrightarrow> stored w1 = s \<Longrightarrow>
           save w1 = (Inr (), w2) \<Longrightarrow> Q () (put_msg m (stored w2))"
  shows "outcome stored s Q (publish P what atype aggID v pl now save w)"
  unfolding publish_def
proof (rule outcome_attempt)
  show "stored (snd (factory_Create P (event_type_of pl) atype aggID (Some v) pl now w)) = s"
    using assms(1) by simp
next
  fix m w0
  assume m: "factory_Create P (event_type_of pl) atype aggID (Some v) pl now w = (Inr m, w0)"
    and w0: "stored w0 = s"
  let ?body = "\<lambda>w. attempt (save w) (\<lambda>err. err)
       (\<lambda>_ w. attempt (outbox_Save P m w) (\<lambda>err. Wrap ''save outbox event: '' err '''')
          (\<lambda>_ w. (Inr (), w)))"
  show "outcome stored s Q (tx_Do P ?body w0)"
  proof (cases "tx_Do P ?body w0")
    case (Pair r w')
    show ?thesis
    proof (cases r)
      case (Inl e)
      with Pair w0 show ?thesis using Do_err by (simp add: outcome_def)
    next
      case (Inr u)
      with Pair have "tx_Do P ?body w0 = (Inr u, w')" by simp
      from Do_ok [OF this] obtain w1 w2 w3 where
        "stored w1 = stored w0" "save w1 = (Inr (), w2)" "outbox_Save P m w2 = (Inr (), w3)"
        "stored w' = stored w3"
        by (auto elim!: attempt_okE)
      with assms(2) [OF factory_message [OF m]] w0 Pair Inr show ?thesis
        by (simp add: outcome_def outbox_ok)
    qed
  qed
qed

lemma publish_return:
  assumes "stored w = s"
    and "\<And>m w1 w2. describes P atype aggID v pl now m \<Longrightarrow> stored w1 = s \<Longrightarrow>
           save w1 = (Inr (), w2) \<Longrightarrow> Q k (put_msg m (stored w2))"
  shows "outcome stored s Q
           (attempt (publish P what atype aggID v pl now save w) e (\<lambda>_ w. (Inr k, w)))"
  by (rule outcome_attempt_last [where R = "\<lambda>_. Q k"])
     (auto intro!: publish_outcome outcome_Inr assms)

end


section \<open>The application service\<close>

locale app_env = base_env P stored
  for P :: "('w, 'z) app_ports_scheme" and stored :: "'w \<Rightarrow> hstore" +
  assumes app_Get_keeps [simp]: "stored (snd (app_GetByID P i w)) = stored w"
    and app_Get: "app_GetByID P i w = (Inr a, w') \<Longrightarrow> st_apps (stored w) i = Some a \<and> app_ID a = i"
    and app_Create_ok: "app_Create P a w = (Inr u, w') \<Longrightarrow> stored w' = put_app a (stored w)"
    and app_Update_ok: "app_Update P a w = (Inr u, w') \<Longrightarrow> stored w' = put_app a (stored w)"
    and app_GetActive_keeps [simp]: "stored (snd (app_GetActive P c v w)) = stored w"
    and app_GetActive_none:
      "app_GetActive P c v w = ((None, err), w') \<Longrightarrow>
       err = None \<or> errors_is (the err) (S_app App_ErrNotFound) \<Longrightarrow>
       \<forall>b \<in> ran (st_apps (stored w)).
         CandidateID b = c \<and> VacancyID b = v \<longrightarrow> stage_IsTerminal (CurrentStage b)"
    and interviews_List_keeps [simp]: "stored (snd (interviews_List P i w)) = stored w"
    and interviews_List:
      "interviews_List P i w = (Inr its, w') \<Longrightarrow> Some it \<in> set its \<Longrightarrow>
         st_ints (stored w) (int_ID it) = Some it \<and> int_ApplicationID it = i"
    and CanApply_keeps [simp]: "stored (snd (CanApplyVacancy P c v w)) = stored w"
    and CanManage_keeps [simp]: "stored (snd (CanManageApplication P c v w)) = stored w"
begin

lemma may_withdraw_keeps [simp]: "stored (snd (may_withdraw P app u i what w)) = stored w"
  unfolding may_withdraw_def by (rule if_keep; (rule snd_attempt_keep)?; simp)

lemma check_eligibility_keeps [simp]: "stored (snd (check_eligibility P input app w)) = stored w"
  unfolding check_eligibility_def
  by (rule if_keep; (rule snd_attempt_keep)?; simp split: option.splits)

lemma update_application_ok:
  "update_application P a w = (Inr u, w') \<Longrightarrow> stored w' = put_app a (stored w)"
  by (auto simp: update_application_def attempt_inv dest!: app_Update_ok)

lemma app_Get_snd: "app_GetByID P i w = (Inr a, w') \<Longrightarrow> stored w' = s \<Longrightarrow> st_apps s i = Some a \<and> app_ID a = i"
  by (metis app_Get app_Get_keeps snd_conv)

lemma may_manage_keeps:
  "CanManageApplication P u i w = (r, w') \<Longrightarrow> stored w' = stored w"
  by (metis CanManage_keeps snd_conv)

lemma check_eligibility_ok:
  assumes "check_eligibility P input a w = (Inr u, w')" and "ci_TargetStage input = StageOfferPending"
  shows "eligible (stored w) (ci_ApplicationID input) a"
  using assms
  by (auto simp: check_eligibility_def attempt_inv CanInitiateOffer_None eligible_def
      split: option.splits dest: interviews_List)

text \<open>
  The outcome of every use case: an error leaves the store alone, a success commits one stage
  change of the loaded application together with the event that describes it.
\<close>

lemma ChangeStage_uc_outcome:
  "outcome stored (stored w)
     (\<lambda>_. app_commit P (stored w) (ci_ApplicationID input)
        (\<lambda>now a b. (\<exists>fresh. ChangeStage fresh (ci_TargetStage input) (ci_ActorID input)
                               (ci_Reason input) now a = Inr b) \<and>
           (ci_TargetStage input = StageOfferPending \<longrightarrow>
              eligible (stored w) (ci_ApplicationID input) a))
        (\<lambda>now a b. StageChangedPayload (app_ID b) (CurrentStage a) (ci_TargetStage input)
           (ci_ActorID input) now (ci_Reason input)))
     (ChangeStage_uc P input w)"
  unfolding ChangeStage_uc_def
  by (intro outcome_intros, auto dest!: update_application_ok app_Get_snd)
     (rule app_commitI, assumption+, auto dest: check_eligibility_ok)

lemma RejectApplication_outcome:
  "outcome stored (stored w)
     (\<lambda>_ s'. \<exists>reason.
        NewRejectReason (ri_ReasonCode input) (ri_Comment input) = Inr reason \<and>
        app_commit P (stored w) (ri_ApplicationID input)
          (\<lambda>now a b. \<exists>fresh. Reject fresh reason (ri_ActorID input) now a = Inr b)
          (\<lambda>now a b. ApplicationRejectedPayload (app_ID b) (CurrentStage a) reason
             (ri_ActorID input) now) s')
     (RejectApplication P input w)"
  unfolding RejectApplication_def
  by (intro outcome_intros, auto dest!: update_application_ok app_Get_snd)
     (rule app_commitI, assumption+, blast)

lemma WithdrawApplication_outcome:
  "outcome stored (stored w)
     (\<lambda>_. app_commit P (stored w) (wi_ApplicationID input)
        (\<lambda>now a b. \<exists>fresh. Withdraw fresh (wi_ActorID input) (wi_Reason input) now a = Inr b)
        (\<lambda>now a b. ApplicationWithdrawnPayload (app_ID b) (CurrentStage a)
           (wi_ActorID input) now (wi_Reason input)))
     (WithdrawApplication P input w)"
  unfolding WithdrawApplication_def
  by (intro outcome_intros, auto dest!: update_application_ok app_Get_snd)
     (rule app_commitI, assumption+, blast)

lemma app_GetActive_snd:
  "app_GetActive P c v w = ((None, err), w') \<Longrightarrow> stored w' = s \<Longrightarrow>
     err = None \<or> errors_is (the err) (S_app App_ErrNotFound) \<Longrightarrow>
     \<forall>b \<in> ran (st_apps s). CandidateID b = c \<and> VacancyID b = v \<longrightarrow> stage_IsTerminal (CurrentStage b)"
  using app_GetActive_none app_GetActive_keeps by (metis snd_conv)

lemma HandleAssessmentResult_outcome:
  "outcome stored (stored w) (\<lambda>_. assessment_effect P (stored w) input)
     (HandleAssessmentResult P input w)"
  unfolding HandleAssessmentResult_def
proof ((intro outcome_intros; (clarsimp dest!: update_application_ok app_Get_snd)?), goal_cases)
  case 1
  then show ?case by (auto intro: assessment_effect.ignored dest!: app_Get_snd)
next
  case (2 a v now v1 fresh v2 b m v3 v4)
  then have "st_apps (stored w) (si_ApplicationID input) = Some a" "app_ID a = si_ApplicationID input"
    by (auto dest!: app_Get_snd)
  with 2 show ?case
    by - (rule assessment_effect.passed, assumption,
       rule app_commitI [where now = now and a = a], assumption+, simp, blast)
next
  case (3 a v now v1 reason fresh v2 b m v3 v4)
  then have "Code reason = RejectCodeAssessmentFailed" "st_apps (stored w) (si_ApplicationID input) = Some a" "app_ID a = si_ApplicationID input"
    by (auto simp: NewRejectReason_def Let_def dest!: app_Get_snd)
  with 3 show ?case
    by - (rule assessment_effect.failed [where reason = reason], assumption+,
       rule app_commitI [where now = now and a = a], assumption+, simp, blast)
qed

text \<open>A candidate applies once: a success means no other application of theirs was active.\<close>

lemma ApplyVacancy_outcome:
  "outcome stored (stored w) (apply_commit P (stored w) input) (ApplyVacancy P input w)"
  unfolding ApplyVacancy_def
  by (intro publish_return outcome_intros)
     (auto simp: apply_commit_def attempt_inv dest!: app_Create_ok app_GetActive_snd, blast+)

end


section \<open>The offer service\<close>

locale offer_env = base_env P stored
  for P :: "('w, 'z) offer_ports_scheme" and stored :: "'w \<Rightarrow> hstore" +
  assumes offer_Get_keeps [simp]: "stored (snd (offer_GetByID P k w)) = stored w"
    and offer_Get: "offer_GetByID P k w = (Inr j, w') \<Longrightarrow> st_offs (stored w) k = Some j \<and> off_ID j = k"
    and offer_GetByApp_keeps [simp]: "stored (snd (offer_GetByApplicationID P k w)) = stored w"
    and offer_Create_ok: "offer_Create P j w = (Inr u, w') \<Longrightarrow> stored w' = put_off j (stored w)"
    and offer_Update_ok: "offer_Update P j w = (Inr u, w') \<Longrightarrow> stored w' = put_off j (stored w)"
    and offer_app_Get_keeps [simp]: "stored (snd (offer_app_GetByID P k w)) = stored w"
    and offer_app_Get:
      "offer_app_GetByID P k w = (Inr a, w') \<Longrightarrow> st_apps (stored w) k = Some a \<and> app_ID a = k"
    and offer_app_Update_ok:
      "offer_app_Update P a w = (Inr u, w') \<Longrightarrow> stored w' = put_app a (stored w)"
    and CanManageOffer_keeps [simp]: "stored (snd (CanManageOffer P c v w)) = stored w"
    and CanRespond_keeps [simp]: "stored (snd (CanRespondToOffer P c v w)) = stored w"
begin

lemma offer_Get_snd:
  "offer_GetByID P k w = (Inr j, w') \<Longrightarrow> stored w' = s \<Longrightarrow> st_offs s k = Some j \<and> off_ID j = k"
  by (metis offer_Get offer_Get_keeps snd_conv)

lemma offer_app_Get_snd:
  "offer_app_GetByID P k w = (Inr a, w') \<Longrightarrow> stored w' = s \<Longrightarrow> st_apps s k = Some a \<and> app_ID a = k"
  by (metis offer_app_Get offer_app_Get_keeps snd_conv)

lemma update_offer_ok: "update_offer P j w = (Inr u, w') \<Longrightarrow> stored w' = put_off j (stored w)"
  by (auto simp: update_offer_def attempt_inv dest!: offer_Update_ok)

lemma update_offer_app_ok:
  "update_offer_app P a w = (Inr u, w') \<Longrightarrow> stored w' = put_app a (stored w)"
  by (auto simp: update_offer_app_def attempt_inv dest!: offer_app_Update_ok)

lemma update_offer_and_app_ok:
  "update_offer_and_app P j a w = (Inr u, w') \<Longrightarrow> stored w' = put_app a (put_off j (stored w))"
  by (auto simp: update_offer_and_app_def attempt_inv dest!: update_offer_ok update_offer_app_ok)

lemma SendOffer_outcome:
  "outcome stored (stored w)
     (\<lambda>_. off_commit P (stored w) (oi_OfferID input)
        (\<lambda>now j j'. Send now j = (None, j'))
        (\<lambda>now j'. OfferSentPayload (off_ID j') now (off_ExpiresAt j')))
     (SendOffer P input w)"
  unfolding SendOffer_def
  by (intro outcome_intros, auto simp: offer_call_Inr dest!: update_offer_ok offer_Get_snd)
     (rule off_commitI, assumption+)

lemma ExpireOffer_outcome:
  "outcome stored (stored w)
     (\<lambda>_. off_commit P (stored w) offerID
        (\<lambda>now j j'. Expire now j = (None, j'))
        (\<lambda>now j'. OfferExpiredPayload (off_ID j') now))
     (ExpireOffer P offerID w)"
  unfolding ExpireOffer_def
  by (intro outcome_intros, auto simp: offer_call_Inr dest!: update_offer_ok offer_Get_snd)
     (rule off_commitI, (assumption | rule refl)+)

lemma AcceptOffer_outcome:
  "outcome stored (stored w)
     (\<lambda>_. off_app_commit P (stored w) (oi_OfferID input)
        (\<lambda>now j j'. Accept now j = (None, j'))
        (\<lambda>now a b. \<exists>fresh. ChangeStage fresh StageOfferAccepted (oi_ActorID input)
           ''offer accepted by candidate'' now a = Inr b)
        (\<lambda>now j'. OfferAcceptedPayload (off_ID j') now))
     (AcceptOffer P input w)"
  unfolding AcceptOffer_def
  by (intro outcome_intros,
      auto simp: offer_call_Inr dest!: update_offer_and_app_ok offer_Get_snd offer_app_Get_snd)
     (rule off_app_commitI, assumption+, blast)

lemma DeclineOffer_outcome:
  "outcome stored (stored w)
     (\<lambda>_. off_app_commit P (stored w) (oi_OfferID input)
        (\<lambda>now j j'. Decline (oi_Reason input) now j = (None, j'))
        (\<lambda>now a b. \<exists>fresh. ChangeStage fresh StageInterview (oi_ActorID input)
           (''offer declined: '' @ oi_Reason input) now a = Inr b)
        (\<lambda>now j'. OfferDeclinedPayload (off_ID j') (oi_Reason input) now))
     (DeclineOffer P input w)"
  unfolding DeclineOffer_def
  by (intro outcome_intros,
      auto simp: offer_call_Inr dest!: update_offer_and_app_ok offer_Get_snd offer_app_Get_snd)
     (rule off_app_commitI, assumption+, auto)

lemma RevokeOffer_outcome:
  "outcome stored (stored w)
     (\<lambda>_. off_app_commit P (stored w) (oi_OfferID input)
        (\<lambda>now j j'. Revoke_offer (oi_Reason input) now j = (None, j'))
        (\<lambda>now a b. \<exists>fresh. ChangeStage fresh StageInterview (oi_ActorID input)
           (''offer revoked: '' @ oi_Reason input) now a = Inr b)
        (\<lambda>now j'. OfferRevokedPayload (off_ID j') (oi_Reason input) now))
     (RevokeOffer P input w)"
  unfolding RevokeOffer_def
  by (intro outcome_intros,
      auto simp: offer_call_Inr dest!: update_offer_and_app_ok offer_Get_snd offer_app_Get_snd)
     (rule off_app_commitI, assumption+, auto)

lemma offer_stage_keeps [simp]: "stored (snd (offer_stage P input now app w)) = stored w"
  unfolding offer_stage_def
  by (auto simp: draw_def attempt_def split: prod.splits sum.splits)
     (metis uuid_keeps snd_conv)+

lemma offer_stage_Inr:
  "offer_stage P input now app w = (Inr (app', b), w') \<Longrightarrow>
     (if b then \<exists>fresh. ChangeStage fresh StageOfferPending (co_ActorID input) ''offer created'' now app = Inr app'
      else app' = app \<and> CurrentStage app = StageOfferPending)"
  by (auto simp: offer_stage_def attempt_inv split: if_splits)

lemma create_save_ok:
  "attempt (offer_Create P j w) e
     (\<lambda>_ w. if b then update_offer_app P a w else (Inr (), w)) = (Inr u, w') \<Longrightarrow>
   stored w' = (if b then put_app a (put_off j (stored w)) else put_off j (stored w))"
  by (cases b) (auto simp: attempt_inv dest!: update_offer_app_ok offer_Create_ok)

lemma CreateOffer_outcome:
  "outcome stored (stored w) (offer_create_commit P (stored w) input) (CreateOffer P input w)"
  unfolding CreateOffer_def
  by (intro publish_return outcome_intros)
     (auto simp: offer_create_commit_def
        dest!: offer_stage_Inr create_save_ok offer_app_Get_snd split: if_splits, blast+)

end


section \<open>The interview service\<close>

text \<open>Rooms are outside the database: the calls of a conference client leave the store alone.\<close>

locale interview_env = base_env P stored
  for P :: "('w, 'z) interview_ports_scheme" and stored :: "'w \<Rightarrow> hstore" +
  assumes interview_Get_keeps [simp]: "stored (snd (interview_GetByID P k w)) = stored w"
    and interview_Get:
      "interview_GetByID P k w = (Inr i, w') \<Longrightarrow> st_ints (stored w) k = Some i \<and> int_ID i = k"
    and interview_List_keeps [simp]: "stored (snd (interview_ListByApplicationID P k w)) = stored w"
    and interview_Create_ok: "interview_Create P i w = (Inr u, w') \<Longrightarrow> stored w' = put_int i (stored w)"
    and interview_Update_ok: "interview_Update P i w = (Inr u, w') \<Longrightarrow> stored w' = put_int i (stored w)"
    and GetStage_keeps [simp]: "stored (snd (app_GetStage P k w)) = stored w"
    and GetStage: "app_GetStage P k w = (Inr t, w') \<Longrightarrow>
       \<exists>a. st_apps (stored w) k = Some a \<and> CurrentStage a = t"
    and CreateRoom_keeps:
      "roomStrategy P = Some r \<Longrightarrow> r f = Some (LiveKitStrategy (Some c)) \<Longrightarrow>
       stored (snd (CreateRoom c n w)) = stored w"
    and EndRoom_keeps:
      "roomStrategy P = Some r \<Longrightarrow> r f = Some (LiveKitStrategy (Some c)) \<Longrightarrow>
       stored (snd (EndRoom c n w)) = stored w"
    and CanManageInterview_keeps [simp]: "stored (snd (CanManageInterview P act v w)) = stored w"
    and CanSubmit_keeps [simp]: "stored (snd (CanSubmitFeedback P act v w)) = stored w"
begin

lemma interview_Get_snd:
  "interview_GetByID P k w = (Inr i, w') \<Longrightarrow> stored w' = s \<Longrightarrow> st_ints s k = Some i \<and> int_ID i = k"
  by (metis interview_Get interview_Get_keeps snd_conv)

lemma GetStage_snd:
  "app_GetStage P k w = (Inr t, w') \<Longrightarrow> stored w' = s \<Longrightarrow>
     \<exists>a. st_apps s k = Some a \<and> CurrentStage a = t"
  by (metis GetStage GetStage_keeps snd_conv)

lemma update_interview_ok:
  "update_interview P i w = (Inr u, w') \<Longrightarrow> stored w' = put_int i (stored w)"
  by (auto simp: update_interview_def attempt_inv dest!: interview_Update_ok)

lemma Resolve_room_registered:
  "Resolve_room (Some r) f = Inr s \<Longrightarrow> r f = Some s"
  by (auto simp: Resolve_room_def split: option.splits)

lemma attempt_stored:
  "(\<And>x w. stored (snd (k x w)) = stored w) \<Longrightarrow> stored (snd (attempt r wrap k)) = stored (snd r)"
  by (cases r; cases "fst r") auto

lemma strategy_keeps:
  assumes "\<And>c n w. s = LiveKitStrategy (Some c) \<Longrightarrow>
             stored (snd (CreateRoom c n w)) = stored w \<and> stored (snd (EndRoom c n w)) = stored w"
  shows "stored (snd (strategy_Provision show s req w)) = stored w"
    and "stored (snd (strategy_Teardown show s k w)) = stored w"
proof -
  show "stored (snd (strategy_Provision show s req w)) = stored w"
  proof (cases s)
    case (LiveKitStrategy client)
    with assms show ?thesis by (cases client) (simp_all add: room_ops Let_def attempt_stored)
  next
    case (OnsiteStrategy address)
    then show ?thesis by (simp add: room_ops Let_def)
  qed
  show "stored (snd (strategy_Teardown show s k w)) = stored w"
  proof (cases s)
    case (LiveKitStrategy client)
    with assms show ?thesis by (cases client) (simp_all add: room_ops attempt_stored)
  next
    case (OnsiteStrategy address)
    then show ?thesis by (simp add: room_ops)
  qed
qed

text \<open>So do the strategies, and with them the registry.\<close>

lemma registry_keeps:
  assumes "roomStrategy P = Some r"
  shows "stored (snd (Provision show (Some r) f req w)) = stored w"
    and "stored (snd (Teardown show (Some r) f k w)) = stored w"
proof -
  have "stored (snd (Provision show (Some r) f req w)) = stored w \<and>
        stored (snd (Teardown show (Some r) f k w)) = stored w"
  proof (cases "Resolve_room (Some r) f")
    case (Inl e)
    then show ?thesis by (simp add: Provision_def Teardown_def)
  next
    case (Inr s)
    then have "r f = Some s"
      by (rule Resolve_room_registered)
    then have "\<And>c n w. s = LiveKitStrategy (Some c) \<Longrightarrow>
        stored (snd (CreateRoom c n w)) = stored w \<and> stored (snd (EndRoom c n w)) = stored w"
      using CreateRoom_keeps [OF assms] EndRoom_keeps [OF assms] by simp
    from strategy_keeps [OF this] Inr show ?thesis
      by (simp add: Provision_def Teardown_def)
  qed
  then show "stored (snd (Provision show (Some r) f req w)) = stored w"
    and "stored (snd (Teardown show (Some r) f k w)) = stored w"
    by simp_all
qed

lemma room_url_keeps [simp]: "stored (snd (room_url P input k w)) = stored w"
  by (simp add: room_url_def attempt_stored registry_keeps split: option.split)

lemma close_room_keeps [simp]: "stored (snd (close_room P i w)) = stored w"
  by (auto simp: close_room_def registry_keeps)

lemma ScheduleInterview_outcome:
  "outcome stored (stored w) (schedule_commit P (stored w) input) (ScheduleInterview P input w)"
  unfolding ScheduleInterview_def Let_def
  by (intro publish_return outcome_intros)
     (auto simp: schedule_commit_def default_format_def attempt_inv
        dest!: interview_Create_ok GetStage_snd split: if_splits, blast+)

lemma CompleteInterview_outcome:
  "outcome stored (stored w)
     (\<lambda>_. int_commit P (stored w) (ii_InterviewID input)
        (\<lambda>now i j. Complete now i = Inr j) (\<lambda>now j. InterviewCompletedPayload (int_ID j) now))
     (CompleteInterview P input w)"
  unfolding CompleteInterview_def
  by (intro outcome_intros, auto dest!: update_interview_ok interview_Get_snd)
     (rule int_commitI, (assumption | rule refl)+)

lemma CancelInterview_outcome:
  "outcome stored (stored w)
     (\<lambda>_. int_commit P (stored w) (ii_InterviewID input)
        (\<lambda>now i j. Cancel (ii_Reason input) now i = Inr j)
        (\<lambda>now j. InterviewCancelledPayload (int_ID j) (ii_Reason input) now))
     (CancelInterview P input w)"
  unfolding CancelInterview_def
  by (intro outcome_intros, auto dest!: update_interview_ok interview_Get_snd)
     (rule int_commitI, (assumption | rule refl)+)

lemma SubmitFeedback_uc_outcome:
  "outcome stored (stored w)
     (\<lambda>_. int_commit P (stored w) (fi_InterviewID input)
        (\<lambda>now i j. \<exists>fb. NewFeedback (fi_InterviewerUserID input) (fi_Score input)
                          (fi_Notes input) now = Inr fb \<and> SubmitFeedback fb now i = Inr j)
        (\<lambda>now j. FeedbackSubmittedPayload (int_ID j) (fi_InterviewerUserID input)
           (fi_Score input) now))
     (SubmitFeedback_uc P input w)"
  unfolding SubmitFeedback_uc_def
  by (intro outcome_intros, auto dest!: update_interview_ok interview_Get_snd)
     (rule int_commitI, (assumption | rule refl)+, blast)

end

end
