(* ===== verification/Hiring_Service.thy ===== *)
theory Hiring_Service
  imports Hiring_Contract
begin

text \<open>
  The hiring service as a whole: the three services over one database, a driver that serves a
  sequence of calls, and the abstract specification of its store, a step relation with one rule
  per kind of commit. Every call is a step of the specification or changes nothing, and the
  cross-aggregate invariants are shown on the specification.
\<close>

section \<open>The abstract store machine\<close>

definition no_active :: "uuid \<Rightarrow> uuid \<Rightarrow> hstore \<Rightarrow> bool" where
  "no_active c v s \<longleftrightarrow>
     (\<forall>b \<in> ran (st_apps s). CandidateID b = c \<and> VacancyID b = v \<longrightarrow> stage_IsTerminal (CurrentStage b))"

inductive store_step :: "hstore \<Rightarrow> hstore \<Rightarrow> bool" where
  submit:
    "st_apps s k = None \<Longrightarrow> New_application fresh k v c actor now = Inr a \<Longrightarrow> no_active c v s \<Longrightarrow>
     store_step s (put_msg m (put_app a s))"
| move:
    "st_apps s (app_ID a) = Some a \<Longrightarrow> ChangeStage fresh t actor reason now a = Inr b \<Longrightarrow>
     (t = StageOfferPending \<Longrightarrow> eligible s (app_ID a) a) \<Longrightarrow>
     store_step s (put_msg m (put_app b s))"
| schedule:
    "st_ints s k = None \<Longrightarrow> Schedule k appID ty fmt st en ps url now = Inr i \<Longrightarrow>
     st_apps s appID = Some a \<Longrightarrow> CurrentStage a \<in> {StageInterview, StageScreening} \<Longrightarrow>
     store_step s (put_msg m (put_int i s))"
| interview:
    "st_ints s (int_ID i) = Some i \<Longrightarrow> interview_step i j \<Longrightarrow> store_step s (put_msg m (put_int j s))"
| offer:
    "st_offs s k = None \<Longrightarrow> Create_offer k appID amount cur gr ex now = Inr j \<Longrightarrow>
     st_apps s appID = Some a \<Longrightarrow> CurrentStage a = StageOfferPending \<Longrightarrow>
     store_step s (put_msg m (put_off j s))"
| first_offer:
    "st_offs s k = None \<Longrightarrow> Create_offer k (app_ID a) amount cur gr ex now = Inr j \<Longrightarrow>
     st_apps s (app_ID a) = Some a \<Longrightarrow>
     ChangeStage fresh StageOfferPending actor reason now a = Inr b \<Longrightarrow>
     store_step s (put_msg m (put_app b (put_off j s)))"
| send:
    "st_offs s (off_ID j) = Some j \<Longrightarrow> Send now j = (None, j') \<Longrightarrow>
     store_step s (put_msg m (put_off j' s))"
| expire:
    "st_offs s (off_ID j) = Some j \<Longrightarrow> Expire now j = (None, j') \<Longrightarrow>
     store_step s (put_msg m (put_off j' s))"
| accept:
    "st_offs s (off_ID j) = Some j \<Longrightarrow> Accept now j = (None, j') \<Longrightarrow>
     st_apps s (app_ID a) = Some a \<Longrightarrow> app_ID a = off_ApplicationID j \<Longrightarrow>
     ChangeStage fresh StageOfferAccepted actor reason now a = Inr b \<Longrightarrow>
     store_step s (put_msg m (put_app b (put_off j' s)))"
| return_to_interview:
    "st_offs s (off_ID j) = Some j \<Longrightarrow>
     Decline reason now j = (None, j') \<or> Revoke_offer reason now j = (None, j') \<Longrightarrow>
     st_apps s (app_ID a) = Some a \<Longrightarrow> app_ID a = off_ApplicationID j \<Longrightarrow>
     ChangeStage fresh StageInterview actor why now a = Inr b \<Longrightarrow>
     store_step s (put_msg m (put_app b (put_off j' s)))"


section \<open>The invariants of the store\<close>

definition apps_wf :: "hstore \<Rightarrow> bool" where
  "apps_wf s \<longleftrightarrow> all_rows (\<lambda>k a. app_ID a = k \<and> app_wf a) (st_apps s)"

definition ints_wf :: "hstore \<Rightarrow> bool" where
  "ints_wf s \<longleftrightarrow>
     all_rows (\<lambda>k i. int_ID i = k \<and> interview_wf i \<and> st_apps s (int_ApplicationID i) \<noteq> None)
       (st_ints s)"

definition offs_wf :: "hstore \<Rightarrow> bool" where
  "offs_wf s \<longleftrightarrow>
     all_rows (\<lambda>k j. off_ID j = k \<and> offer_wf j \<and> st_apps s (off_ApplicationID j) \<noteq> None)
       (st_offs s)"

text \<open>A candidate has at most one application under way for a vacancy.\<close>

definition rivals :: "job_application \<Rightarrow> job_application \<Rightarrow> bool" where
  "rivals a b \<longleftrightarrow>
     CandidateID a = CandidateID b \<and> VacancyID a = VacancyID b \<and>
     \<not> stage_IsTerminal (CurrentStage a) \<and> \<not> stage_IsTerminal (CurrentStage b)"

definition one_active :: "hstore \<Rightarrow> bool" where
  "one_active s \<longleftrightarrow> all_pairs (\<lambda>k a l b. rivals a b \<longrightarrow> k = l) (st_apps s)"

text \<open>
  An accepted offer has an application that is past the offer stage, and it is the only accepted
  offer of that application.
\<close>

definition past_offer :: "pipeline_stage \<Rightarrow> bool" where
  "past_offer t \<longleftrightarrow> t \<in> {StageOfferAccepted, StageHired, StageRejected, StageWithdrawn}"

definition app_past_offer :: "hstore \<Rightarrow> uuid \<Rightarrow> bool" where
  "app_past_offer s k \<longleftrightarrow> (\<exists>a. st_apps s k = Some a \<and> past_offer (CurrentStage a))"

definition accepted_past :: "hstore \<Rightarrow> bool" where
  "accepted_past s \<longleftrightarrow>
     all_rows (\<lambda>k j. off_Status j = Off_Accepted \<longrightarrow> app_past_offer s (off_ApplicationID j))
       (st_offs s)"

definition accepted_once :: "hstore \<Rightarrow> bool" where
  "accepted_once s \<longleftrightarrow>
     all_pairs (\<lambda>k i l j. off_Status i = Off_Accepted \<and> off_Status j = Off_Accepted \<and>
        off_ApplicationID i = off_ApplicationID j \<longrightarrow> k = l) (st_offs s)"

definition store_wf :: "hstore \<Rightarrow> bool" where
  "store_wf s \<longleftrightarrow>
     apps_wf s \<and> ints_wf s \<and> offs_wf s \<and> one_active s \<and> accepted_past s \<and> accepted_once s"

lemma put_simps [simp]:
  "st_apps (put_app a s) = (st_apps s)(app_ID a \<mapsto> a)" "st_ints (put_app a s) = st_ints s"
  "st_offs (put_app a s) = st_offs s" "st_outbox (put_app a s) = st_outbox s"
  "st_apps (put_int i s) = st_apps s" "st_ints (put_int i s) = (st_ints s)(int_ID i \<mapsto> i)"
  "st_offs (put_int i s) = st_offs s" "st_outbox (put_int i s) = st_outbox s"
  "st_apps (put_off j s) = st_apps s" "st_ints (put_off j s) = st_ints s"
  "st_offs (put_off j s) = (st_offs s)(off_ID j \<mapsto> j)" "st_outbox (put_off j s) = st_outbox s"
  "st_apps (put_msg m s) = st_apps s" "st_ints (put_msg m s) = st_ints s"
  "st_offs (put_msg m s) = st_offs s" "st_outbox (put_msg m s) = st_outbox s @ [m]"
  by (simp_all add: put_defs)

lemma moved_keeps [simp]:
  "app_ID (moved fresh t actor reason now a) = app_ID a"
  "VacancyID (moved fresh t actor reason now a) = VacancyID a"
  "CandidateID (moved fresh t actor reason now a) = CandidateID a"
  by (simp_all add: moved_def)

lemma New_application_fields:
  "New_application fresh k v c actor now = Inr a \<Longrightarrow>
     app_ID a = k \<and> VacancyID a = v \<and> CandidateID a = c \<and> CurrentStage a = StageApplied"
  by (auto simp: New_application_def split: if_splits sum.splits)

lemma Create_offer_fields:
  "Create_offer k appID amount cur gr ex now = Inr j \<Longrightarrow>
     off_ID j = k \<and> off_ApplicationID j = appID \<and> off_Status j = Off_Draft"
  by (auto simp: Create_offer_def split: if_splits)

lemma Schedule_fields:
  "Schedule k appID ty fmt st en ps url now = Inr i \<Longrightarrow> int_ID i = k \<and> int_ApplicationID i = appID"
  by (auto simp: Schedule_def split: if_splits option.splits)

lemma interview_step_ids:
  "interview_step i j \<Longrightarrow> int_ID j = int_ID i \<and> int_ApplicationID j = int_ApplicationID i"
  by (elim interview_stepE)
     (auto simp: SetMeetingRoomURL_def Complete_def Cancel_def SubmitFeedback_Inr_iff split: if_splits)

text \<open>A successful method call of the offer sets the status and keeps the identifiers.\<close>

lemma offer_call_fields:
  "Send now j = (None, j') \<Longrightarrow> j' = set_status Off_Sent now j"
  "Accept now j = (None, j') \<Longrightarrow> j' = set_status Off_Accepted now j"
  "Decline reason now j = (None, j') \<Longrightarrow> j' = set_status Off_Declined now j"
  "Revoke_offer reason now j = (None, j') \<Longrightarrow> j' = set_status Off_Revoked now j"
  "Expire now j = (None, j') \<Longrightarrow> j' = set_status Off_Expired now j"
  by (auto simp: record_ops split: if_splits)

lemma set_status_simps [simp]:
  "off_ID (set_status t now j) = off_ID j"
  "off_ApplicationID (set_status t now j) = off_ApplicationID j"
  "off_Status (set_status t now j) = t"
  "offer_status_Valid t \<Longrightarrow> offer_wf j \<Longrightarrow> offer_wf (set_status t now j)"
  by (simp_all add: set_status_def offer_wf_def)

lemmas step_facts = New_application_fields Create_offer_fields Schedule_fields interview_step_ids
  offer_call_fields

section \<open>What a step does to each table\<close>

lemma store_step_apps:
  assumes "store_step s s'"
  obtains
    (same) "st_apps s' = st_apps s"
  | (new) fresh k v c actor now a where "st_apps s k = None" and "app_ID a = k"
      and "New_application fresh k v c actor now = Inr a" and "no_active c v s"
      and "st_apps s' = (st_apps s)(k \<mapsto> a)"
  | (changed) a b fresh t actor reason now where "st_apps s (app_ID a) = Some a"
      and "ChangeStage fresh t actor reason now a = Inr b"
      and "st_apps s' = (st_apps s)(app_ID a \<mapsto> b)"
  using assms
proof cases
  case (submit k fresh v c actor now a m)
  with New_application_fields [OF submit(3)] show ?thesis by (intro new) simp_all
next
  case (move a fresh t actor reason now b m)
  then show ?thesis by (intro changed [OF move(2,3)]) (simp add: ChangeStage_Inr_iff)
next
  case (first_offer k a amount cur gr ex now j fresh actor reason b m)
  show ?thesis
    by (rule changed [OF first_offer(4,5)]) (use first_offer in \<open>simp add: ChangeStage_Inr_iff\<close>)
next
  case (accept j now j' a fresh actor reason b m)
  show ?thesis
    by (rule changed [OF accept(4,6)]) (use accept in \<open>simp add: ChangeStage_Inr_iff\<close>)
next
  case (return_to_interview j reason now j' a fresh actor why b m)
  show ?thesis
    by (rule changed [OF return_to_interview(4,6)])
       (use return_to_interview in \<open>simp add: ChangeStage_Inr_iff\<close>)
qed (simp_all add: same)

lemma store_step_ints:
  assumes "store_step s s'"
  obtains
    (same) "st_ints s' = st_ints s"
  | (new) k appID ty fmt st en ps url now i where "st_ints s k = None" and "int_ID i = k"
      and "Schedule k appID ty fmt st en ps url now = Inr i" and "st_apps s appID \<noteq> None"
      and "st_ints s' = (st_ints s)(k \<mapsto> i)"
  | (changed) i j where "st_ints s (int_ID i) = Some i" and "interview_step i j"
      and "st_ints s' = (st_ints s)(int_ID i \<mapsto> j)"
  using assms
proof cases
  case (schedule k appID ty fmt st en ps url now i a m)
  with Schedule_fields [OF schedule(3)] show ?thesis by (intro new [OF schedule(2) _ schedule(3)]) simp_all
next
  case (interview i j m)
  with interview_step_ids [OF interview(3)] show ?thesis by (intro changed) simp_all
qed (simp_all add: same)

lemma store_step_offs:
  assumes "store_step s s'"
  obtains
    (same) "st_offs s' = st_offs s"
  | (new) k appID amount cur gr ex now j where "st_offs s k = None" and "off_ID j = k"
      and "Create_offer k appID amount cur gr ex now = Inr j" and "st_apps s appID \<noteq> None"
      and "st_offs s' = (st_offs s)(k \<mapsto> j)"
  | (changed) j t now where "st_offs s (off_ID j) = Some j" and "offer_edge (off_Status j) t"
      and "t = Off_Accepted \<Longrightarrow> \<exists>a b. st_apps s (off_ApplicationID j) = Some a \<and>
             CurrentStage a = StageOfferPending \<and>
             st_apps s' = (st_apps s)(off_ApplicationID j \<mapsto> b) \<and> CurrentStage b = StageOfferAccepted"
      and "st_offs s' = (st_offs s)(off_ID j \<mapsto> set_status t now j)"
  using assms
proof cases
  case (offer k appID amount cur gr ex now j a m)
  with Create_offer_fields [OF offer(3)] show ?thesis by (intro new [OF offer(2) _ offer(3)]) simp_all
next
  case (first_offer k a amount cur gr ex now j fresh actor reason b m)
  with Create_offer_fields [OF first_offer(3)] show ?thesis by (intro new [OF first_offer(2) _ first_offer(3)]) simp_all
next
  case (send j now j' m)
  then have "j' = set_status Off_Sent now j" "offer_edge (off_Status j) Off_Sent"
    by (auto simp: Send_def offer_edge_def split: if_splits)
  with send show ?thesis by (intro changed [of j Off_Sent now]) simp_all
next
  case (expire j now j' m)
  then have "j' = set_status Off_Expired now j" "offer_edge (off_Status j) Off_Expired"
    by (auto simp: Expire_def offer_edge_def split: if_splits)
  with expire show ?thesis by (intro changed [of j Off_Expired now]) simp_all
next
  case (accept j now j' a fresh actor reason b m)
  then have "j' = set_status Off_Accepted now j" "offer_edge (off_Status j) Off_Accepted"
    by (auto simp: Accept_def offer_edge_def split: if_splits)
  with accept show ?thesis
    by (intro changed [of j Off_Accepted now])
       (auto simp: ChangeStage_Inr_iff into_stage intro!: exI [of _ b])
next
  case (return_to_interview j reason now j' a fresh actor why b m)
  then obtain t where "t \<noteq> Off_Accepted" "j' = set_status t now j" "offer_edge (off_Status j) t"
    by (auto simp: Decline_def Revoke_offer_def offer_edge_def split: if_splits)
  with return_to_interview show ?thesis by (intro changed [of j t now]) simp_all
qed (simp_all add: same)

text \<open>No row is ever deleted.\<close>

lemma store_step_apps_dom: "store_step s s' \<Longrightarrow> st_apps s k \<noteq> None \<Longrightarrow> st_apps s' k \<noteq> None"
  by (erule store_step_apps) auto


section \<open>Steps keep the invariants\<close>

lemma apps_wf_step:
  assumes "store_step s s'" and "apps_wf s"
  shows "apps_wf s'"
  using assms(1)
proof (cases rule: store_step_apps)
  case same
  with assms(2) show ?thesis by (simp add: apps_wf_def)
next
  case (new fresh k v c actor now a)
  with assms(2) app_wf_New [OF new(3)] show ?thesis by (simp add: apps_wf_def all_rows_upd)
next
  case (changed a b fresh t actor reason now)
  moreover have "app_wf a"
    using assms(2) changed(1) by (auto simp: apps_wf_def dest: all_rowsD)
  ultimately have "app_wf b" "app_ID b = app_ID a"
    by (auto simp: ChangeStage_Inr_iff intro: app_wf_moved)
  with changed assms(2) show ?thesis by (simp add: apps_wf_def all_rows_upd)
qed

lemma ints_wf_step:
  assumes "store_step s s'" and "ints_wf s"
  shows "ints_wf s'"
proof -
  let ?R = "\<lambda>k i. int_ID i = k \<and> interview_wf i \<and> st_apps s' (int_ApplicationID i) \<noteq> None"
  have old: "all_rows ?R (st_ints s)"
    using assms(2) unfolding ints_wf_def
    by (rule all_rows_mono) (use store_step_apps_dom [OF assms(1)] in blast)
  show ?thesis
    using assms(1)
  proof (cases rule: store_step_ints)
    case same
    with old show ?thesis by (simp add: ints_wf_def)
  next
    case (new k appID ty fmt st en ps url now i)
    have "?R k i"
      using store_step_apps_dom [OF assms(1) new(4)] interview_wf_Schedule [OF new(3)]
        Schedule_fields [OF new(3)] by simp
    with new old show ?thesis by (simp add: ints_wf_def all_rows_upd)
  next
    case (changed i j)
    have "?R (int_ID i) j"
      using all_rowsD [OF old changed(1)] interview_step_wf [OF changed(2)]
        interview_step_ids [OF changed(2)] by simp
    with changed old show ?thesis by (simp add: ints_wf_def all_rows_upd)
  qed
qed

lemma offs_wf_step:
  assumes "store_step s s'" and "offs_wf s"
  shows "offs_wf s'"
proof -
  let ?R = "\<lambda>k j. off_ID j = k \<and> offer_wf j \<and> st_apps s' (off_ApplicationID j) \<noteq> None"
  have old: "all_rows ?R (st_offs s)"
    using assms(2) unfolding offs_wf_def
    by (rule all_rows_mono) (use store_step_apps_dom [OF assms(1)] in blast)
  show ?thesis
    using assms(1)
  proof (cases rule: store_step_offs)
    case same
    with old show ?thesis by (simp add: offs_wf_def)
  next
    case (new k appID amount cur gr ex now j)
    have "?R k j"
      using store_step_apps_dom [OF assms(1) new(4)] offer_wf_Create [OF new(3)]
        Create_offer_fields [OF new(3)] by simp
    with new old show ?thesis by (simp add: offs_wf_def all_rows_upd)
  next
    case (changed j t now)
    have "offer_status_Valid t"
      using changed(2) by (auto simp: offer_edge_def)
    then have "?R (off_ID j) (set_status t now j)"
      using all_rowsD [OF old changed(1)] by simp
    with changed old show ?thesis by (simp add: offs_wf_def all_rows_upd)
  qed
qed

lemma one_active_step:
  assumes "store_step s s'" and "one_active s"
  shows "one_active s'"
  using assms(1)
proof (cases rule: store_step_apps)
  case same
  with assms(2) show ?thesis by (simp add: one_active_def)
next
  case (new fresh k v c actor now a)
  have "CandidateID a = c" "VacancyID a = v"
    using New_application_fields [OF new(3)] by simp_all
  then have "\<not> rivals a b \<and> \<not> rivals b a" if "st_apps s l = Some b" for l b
    using new(4) that by (auto simp: rivals_def no_active_def ran_def)
  with new assms(2) show ?thesis
    by (auto simp: one_active_def intro: all_pairs_upd)
next
  case (changed a b fresh t actor reason now)
  then have "rivals b x \<Longrightarrow> rivals a x" "rivals x b \<Longrightarrow> rivals x a" for x
    by (auto simp: rivals_def ChangeStage_Inr_iff dest: CanTransitionTo_valid)
  moreover have "(rivals a x \<longrightarrow> app_ID a = l) \<and> (rivals x a \<longrightarrow> l = app_ID a)"
    if "st_apps s l = Some x" for l x
    using all_pairsD [OF assms(2) [unfolded one_active_def] changed(1) that]
      all_pairsD [OF assms(2) [unfolded one_active_def] that changed(1)] by simp
  ultimately show ?thesis
    using assms(2) unfolding one_active_def changed(3) by (intro all_pairs_upd) blast+
qed

text \<open>Once past the offer stage an application stays there.\<close>

lemma past_offer_step: "stage_CanTransitionTo a b \<Longrightarrow> past_offer a \<Longrightarrow> past_offer b"
  by (cases a; cases b) (auto simp: past_offer_def stage_CanTransitionTo_def)

lemma app_past_offer_step:
  assumes "store_step s s'" and "app_past_offer s k"
  shows "app_past_offer s' k"
  using assms(1)
proof (cases rule: store_step_apps)
  case (changed a b fresh t actor reason now)
  then have "past_offer (CurrentStage a) \<Longrightarrow> past_offer (CurrentStage b)"
    by (auto simp: ChangeStage_Inr_iff intro: past_offer_step)
  with changed assms(2) show ?thesis by (auto simp: app_past_offer_def)
qed (use assms(2) in \<open>auto simp: app_past_offer_def\<close>)

lemma accepted_past_step:
  assumes "store_step s s'" and "accepted_past s"
  shows "accepted_past s'"
proof -
  let ?R = "\<lambda>k j. off_Status j = Off_Accepted \<longrightarrow> app_past_offer s' (off_ApplicationID j)"
  have old: "all_rows ?R (st_offs s)"
    using assms(2) unfolding accepted_past_def
    by (rule all_rows_mono) (use app_past_offer_step [OF assms(1)] in blast)
  show ?thesis
    using assms(1)
  proof (cases rule: store_step_offs)
    case same
    with old show ?thesis by (simp add: accepted_past_def)
  next
    case (new k appID amount cur gr ex now j)
    with old Create_offer_fields [OF new(3)] show ?thesis
      by (simp add: accepted_past_def all_rows_upd)
  next
    case (changed j t now)
    then have "?R (off_ID j) (set_status t now j)"
      by (auto simp: app_past_offer_def past_offer_def)
    with changed old show ?thesis by (simp add: accepted_past_def all_rows_upd)
  qed
qed

lemma accepted_once_step:
  assumes "store_step s s'" and "accepted_past s" and "accepted_once s"
  shows "accepted_once s'"
  using assms(1)
proof (cases rule: store_step_offs)
  case same
  with assms(3) show ?thesis by (simp add: accepted_once_def)
next
  case (new k appID amount cur gr ex now j)
  with assms(3) Create_offer_fields [OF new(3)] show ?thesis
    by (auto simp: accepted_once_def intro: all_pairs_upd)
next
  case (changed j t now)
  let ?R = "\<lambda>k i l j. off_Status i = Off_Accepted \<and> off_Status j = Off_Accepted \<and>
        off_ApplicationID i = off_ApplicationID j \<longrightarrow> k = l"
  have apart: "off_ApplicationID i \<noteq> off_ApplicationID j"
    if "t = Off_Accepted" "st_offs s l = Some i" "off_Status i = Off_Accepted" for l i
  proof -
    have "app_past_offer s (off_ApplicationID i)"
      using assms(2) that(2,3) by (auto simp: accepted_past_def dest: all_rowsD)
    then show ?thesis
      using changed(3) [OF that(1)] by (auto simp: app_past_offer_def past_offer_def)
  qed
  have "?R (off_ID j) (set_status t now j) l i \<and> ?R l i (off_ID j) (set_status t now j)"
    if "st_offs s l = Some i" for l i
    using apart [OF _ that] by (cases "t = Off_Accepted") auto
  with assms(3) show ?thesis
    unfolding accepted_once_def changed(4) by (intro all_pairs_upd) simp_all
qed

lemma store_wf_step: "store_step s s' \<Longrightarrow> store_wf s \<Longrightarrow> store_wf s'"
  unfolding store_wf_def
  using apps_wf_step ints_wf_step offs_wf_step one_active_step accepted_past_step
    accepted_once_step by blast

lemma store_steps_wf: "store_step\<^sup>*\<^sup>* s t \<Longrightarrow> store_wf s \<Longrightarrow> store_wf t"
  by (induction rule: rtranclp_induct) (auto intro: store_wf_step)


section \<open>The three services refine the store machine\<close>

text \<open>Every commit of a use case is a step of the machine.\<close>

lemma app_commit_step:
  assumes "app_commit P s i R pl s'"
    and "\<And>now a b. R now a b \<Longrightarrow>
           \<exists>fresh t actor reason. ChangeStage fresh t actor reason now a = Inr b \<and>
             (t = StageOfferPending \<longrightarrow> eligible s i a)"
  shows "store_step s s'"
  using assms unfolding app_commit_def by (metis store_step.move)

lemma end_as_change:
  "Reject fresh rr actor now a = Inr b \<Longrightarrow>
     \<exists>fresh t actor reason. ChangeStage fresh t actor reason now a = Inr b \<and>
       (t = StageOfferPending \<longrightarrow> Q)"
  "Withdraw fresh actor reason now a = Inr b \<Longrightarrow>
     \<exists>fresh t actor reason. ChangeStage fresh t actor reason now a = Inr b \<and>
       (t = StageOfferPending \<longrightarrow> Q)"
  "AdvanceFromAssessment fresh score actor now a = Inr b \<Longrightarrow>
     \<exists>fresh t actor reason. ChangeStage fresh t actor reason now a = Inr b \<and>
       (t = StageOfferPending \<longrightarrow> Q)"
  unfolding Reject_def Withdraw_def AdvanceFromAssessment_def
  by (force split: if_splits)+

lemma end_commit_step:
  "app_commit P s i (\<lambda>now a b. \<exists>fresh. Reject fresh rr actor now a = Inr b) pl s' \<Longrightarrow> store_step s s'"
  "app_commit P s i (\<lambda>now a b. \<exists>fresh. Withdraw fresh actor reason now a = Inr b) pl s' \<Longrightarrow>
     store_step s s'"
  "app_commit P s i (\<lambda>now a b. \<exists>fresh. AdvanceFromAssessment fresh score actor now a = Inr b) pl s'
     \<Longrightarrow> store_step s s'"
  "app_commit P s i (\<lambda>now a b. CurrentStage a = StageTechAssessment \<and>
     (\<exists>fresh. Reject fresh rr actor now a = Inr b)) pl s' \<Longrightarrow> store_step s s'"
  by (erule app_commit_step; elim exE conjE; erule end_as_change)+

lemma off_commit_step:
  "off_commit P s k (\<lambda>now j j'. Send now j = (None, j')) pl s' \<Longrightarrow> store_step s s'"
  "off_commit P s k (\<lambda>now j j'. Expire now j = (None, j')) pl s' \<Longrightarrow> store_step s s'"
  unfolding off_commit_def by (metis store_step.send, metis store_step.expire)

lemma accept_commit_step:
  "off_app_commit P s k (\<lambda>now j j'. Accept now j = (None, j'))
     (\<lambda>now a b. \<exists>fresh. ChangeStage fresh StageOfferAccepted actor reason now a = Inr b) pl s' \<Longrightarrow>
     store_step s s'"
  unfolding off_app_commit_def by (metis store_step.accept)

lemma return_commit_step:
  "off_app_commit P s k (\<lambda>now j j'. Decline why now j = (None, j'))
     (\<lambda>now a b. \<exists>fresh. ChangeStage fresh StageInterview actor reason now a = Inr b) pl s' \<Longrightarrow>
     store_step s s'"
  "off_app_commit P s k (\<lambda>now j j'. Revoke_offer why now j = (None, j'))
     (\<lambda>now a b. \<exists>fresh. ChangeStage fresh StageInterview actor reason now a = Inr b) pl s' \<Longrightarrow>
     store_step s s'"
  unfolding off_app_commit_def by (metis store_step.return_to_interview)+

lemma int_commit_step:
  assumes "int_commit P s k R pl s'" and "\<And>now i j. R now i j \<Longrightarrow> interview_step i j"
  shows "store_step s s'"
  using assms unfolding int_commit_def by (metis store_step.interview)

lemma apply_commit_step:
  "apply_commit P s input k s' \<Longrightarrow> st_apps s k = None \<Longrightarrow> store_step s s'"
  unfolding apply_commit_def no_active_def [symmetric] by (metis store_step.submit)

lemma offer_create_commit_step:
  "offer_create_commit P s input k s' \<Longrightarrow> st_offs s k = None \<Longrightarrow> store_step s s'"
  unfolding offer_create_commit_def by (metis store_step.offer store_step.first_offer)

lemma schedule_commit_step:
  "schedule_commit P s input k s' \<Longrightarrow> st_ints s k = None \<Longrightarrow> store_step s s'"
  unfolding schedule_commit_def by (metis store_step.schedule)

lemma assessment_effect_step:
  "assessment_effect P s input s' \<Longrightarrow> s' = s \<or> store_step s s'"
proof (induction rule: assessment_effect.induct)
  case (passed s')
  then show ?case by (simp add: end_commit_step)
next
  case (failed reason s')
  then show ?case by (simp add: end_commit_step)
qed simp


section \<open>Serving calls\<close>

datatype hiring_call =
  Call_Apply apply_input | Call_ChangeStage change_stage_input | Call_Promote uuid uuid string
| Call_Reject reject_input | Call_Withdraw withdraw_input | Call_Assessment assessment_input
| Call_CreateOffer create_offer_input | Call_SendOffer offer_input | Call_AcceptOffer offer_input
| Call_DeclineOffer offer_reason_input | Call_RevokeOffer offer_reason_input | Call_ExpireOffer uuid
| Call_Schedule schedule_input | Call_Complete interview_input
| Call_Cancel interview_reason_input | Call_Feedback feedback_input

record 'w services =
  apps :: "'w app_ports"
  offers :: "'w offer_ports"
  interviews :: "'w interview_ports"

abbreviation (input) created :: "('w, sentinel, uuid) result \<Rightarrow> ('w, sentinel, uuid option) result" where
  "created r \<equiv> attempt r (\<lambda>err. err) (\<lambda>k w. (Inr (Some k), w))"

abbreviation (input) done_ok :: "('w, sentinel, unit) result \<Rightarrow> ('w, sentinel, uuid option) result" where
  "done_ok r \<equiv> attempt r (\<lambda>err. err) (\<lambda>_ w. (Inr None, w))"

text \<open>A call of one of the services, with the identifier it creates.\<close>

fun serve :: "'w services \<Rightarrow> hiring_call \<Rightarrow> 'w \<Rightarrow> ('w, sentinel, uuid option) result" where
  "serve S (Call_Apply i) w = created (ApplyVacancy (apps S) i w)"
| "serve S (Call_ChangeStage i) w = done_ok (ChangeStage_uc (apps S) i w)"
| "serve S (Call_Promote i u r) w = done_ok (PromoteToInterview (apps S) i u r w)"
| "serve S (Call_Reject i) w = done_ok (RejectApplication (apps S) i w)"
| "serve S (Call_Withdraw i) w = done_ok (WithdrawApplication (apps S) i w)"
| "serve S (Call_Assessment i) w = done_ok (HandleAssessmentResult (apps S) i w)"
| "serve S (Call_CreateOffer i) w = created (CreateOffer (offers S) i w)"
| "serve S (Call_SendOffer i) w = done_ok (SendOffer (offers S) i w)"
| "serve S (Call_AcceptOffer i) w = done_ok (AcceptOffer (offers S) i w)"
| "serve S (Call_DeclineOffer i) w = done_ok (DeclineOffer (offers S) i w)"
| "serve S (Call_RevokeOffer i) w = done_ok (RevokeOffer (offers S) i w)"
| "serve S (Call_ExpireOffer k) w = done_ok (ExpireOffer (offers S) k w)"
| "serve S (Call_Schedule i) w = created (ScheduleInterview (interviews S) i w)"
| "serve S (Call_Complete i) w = done_ok (CompleteInterview (interviews S) i w)"
| "serve S (Call_Cancel i) w = done_ok (CancelInterview (interviews S) i w)"
| "serve S (Call_Feedback i) w = done_ok (SubmitFeedback_uc (interviews S) i w)"

definition new_key :: "uuid option \<Rightarrow> hstore \<Rightarrow> bool" where
  "new_key r s \<longleftrightarrow>
     (case r of None \<Rightarrow> True
      | Some k \<Rightarrow> st_apps s k = None \<and> st_ints s k = None \<and> st_offs s k = None)"

locale hiring_env =
  app: app_env "apps S" stored + off: offer_env "offers S" stored +
  int: interview_env "interviews S" stored
  for S :: "'w services" and stored :: "'w \<Rightarrow> hstore"
begin

lemma created_outcome:
  "outcome stored s Q r \<Longrightarrow> (\<And>k s'. Q k s' \<Longrightarrow> R (Some k) s') \<Longrightarrow> outcome stored s R (created r)"
  by (erule outcome_attempt_last) (simp add: outcome_Inr)

lemma done_outcome:
  "outcome stored s Q r \<Longrightarrow> (\<And>s'. Q () s' \<Longrightarrow> R None s') \<Longrightarrow> outcome stored s R (done_ok r)"
  by (erule outcome_attempt_last) (simp add: outcome_Inr)

text \<open>The refinement: whatever is called, the store stutters or makes a step of the machine.\<close>

lemma serve_outcome:
  "outcome stored (stored w)
     (\<lambda>k s'. new_key k (stored w) \<longrightarrow> s' = stored w \<or> store_step (stored w) s') (serve S c w)"
proof (cases c)
  case (Call_Apply i)
  show ?thesis unfolding Call_Apply serve.simps
    by (rule created_outcome [OF app.ApplyVacancy_outcome])
       (simp add: new_key_def apply_commit_step)
next
  case (Call_ChangeStage i)
  show ?thesis unfolding Call_ChangeStage serve.simps
    by (rule done_outcome [OF app.ChangeStage_uc_outcome]) (blast intro: app_commit_step)
next
  case (Call_Promote i u r)
  show ?thesis unfolding Call_Promote serve.simps PromoteToInterview_def
    by (rule done_outcome [OF app.ChangeStage_uc_outcome]) (blast intro: app_commit_step)
next
  case (Call_Reject i)
  show ?thesis unfolding Call_Reject serve.simps
    by (rule done_outcome [OF app.RejectApplication_outcome])
       (auto dest: end_commit_step)
next
  case (Call_Withdraw i)
  show ?thesis unfolding Call_Withdraw serve.simps
    by (rule done_outcome [OF app.WithdrawApplication_outcome])
       (auto dest: end_commit_step)
next
  case (Call_Assessment i)
  show ?thesis unfolding Call_Assessment serve.simps
    by (rule done_outcome [OF app.HandleAssessmentResult_outcome])
       (blast dest: assessment_effect_step)
next
  case (Call_CreateOffer i)
  show ?thesis unfolding Call_CreateOffer serve.simps
    by (rule created_outcome [OF off.CreateOffer_outcome])
       (simp add: new_key_def offer_create_commit_step)
next
  case (Call_SendOffer i)
  show ?thesis unfolding Call_SendOffer serve.simps
    by (rule done_outcome [OF off.SendOffer_outcome]) (blast dest: off_commit_step)
next
  case (Call_AcceptOffer i)
  show ?thesis unfolding Call_AcceptOffer serve.simps
    by (rule done_outcome [OF off.AcceptOffer_outcome]) (blast dest: accept_commit_step)
next
  case (Call_DeclineOffer i)
  show ?thesis unfolding Call_DeclineOffer serve.simps
    by (rule done_outcome [OF off.DeclineOffer_outcome]) (blast dest: return_commit_step)
next
  case (Call_RevokeOffer i)
  show ?thesis unfolding Call_RevokeOffer serve.simps
    by (rule done_outcome [OF off.RevokeOffer_outcome]) (blast dest: return_commit_step)
next
  case (Call_ExpireOffer k)
  show ?thesis unfolding Call_ExpireOffer serve.simps
    by (rule done_outcome [OF off.ExpireOffer_outcome]) (blast dest: off_commit_step)
next
  case (Call_Schedule i)
  show ?thesis unfolding Call_Schedule serve.simps
    by (rule created_outcome [OF int.ScheduleInterview_outcome])
       (simp add: new_key_def schedule_commit_step)
next
  case (Call_Complete i)
  show ?thesis unfolding Call_Complete serve.simps
    by (rule done_outcome [OF int.CompleteInterview_outcome])
       (intro impI disjI2, erule int_commit_step, blast intro: interview_step.intros)
next
  case (Call_Cancel i)
  show ?thesis unfolding Call_Cancel serve.simps
    by (rule done_outcome [OF int.CancelInterview_outcome])
       (intro impI disjI2, erule int_commit_step, blast intro: interview_step.intros)
next
  case (Call_Feedback i)
  show ?thesis unfolding Call_Feedback serve.simps
    by (rule done_outcome [OF int.SubmitFeedback_uc_outcome])
       (intro impI disjI2, erule int_commit_step, blast intro: interview_step.intros)
qed

lemma serve_error: "serve S c w = (Inl e, w') \<Longrightarrow> stored w' = stored w"
  using outcome_err [OF serve_outcome] .

lemma serve_step:
  assumes "serve S c w = (r, w')" and "\<And>k. r = Inr k \<Longrightarrow> new_key k (stored w)"
  shows "stored w' = stored w \<or> store_step (stored w) (stored w')"
proof (cases r)
  case (Inl e)
  with assms show ?thesis using serve_error by blast
next
  case (Inr k)
  with outcome_ok [OF serve_outcome] assms show ?thesis by blast
qed

end

text \<open>
  A run of the service: calls one after the other, each identifier it creates unused before. The
  driver is sequential; every call commits in one transaction.
\<close>

inductive served :: "'w services \<Rightarrow> ('w \<Rightarrow> hstore) \<Rightarrow> 'w \<Rightarrow> 'w \<Rightarrow> bool"
  for S :: "'w services" and stored :: "'w \<Rightarrow> hstore" and w0 :: 'w where
  start: "served S stored w0 w0"
| call: "served S stored w0 w1 \<Longrightarrow> serve S c w1 = (r, w2) \<Longrightarrow>
    (\<And>k. r = Inr k \<Longrightarrow> new_key k (stored w1)) \<Longrightarrow> served S stored w0 w2"

text \<open>The same run computed, where a reused identifier stops it.\<close>

fun serve_all :: "'w services \<Rightarrow> ('w \<Rightarrow> hstore) \<Rightarrow> hiring_call list \<Rightarrow> 'w \<Rightarrow> 'w option" where
  "serve_all S stored [] w = Some w"
| "serve_all S stored (c # cs) w =
     (case serve S c w of
        (Inl _, w') \<Rightarrow> serve_all S stored cs w'
      | (Inr k, w') \<Rightarrow> if new_key k (stored w) then serve_all S stored cs w' else None)"

lemma serve_all_served:
  "serve_all S stored cs w = Some w' \<Longrightarrow> served S stored w0 w \<Longrightarrow> served S stored w0 w'"
  by (induction cs arbitrary: w) (auto split: prod.splits sum.splits if_splits intro: served.call)

context hiring_env
begin

lemma served_steps: "served S stored w0 w \<Longrightarrow> store_step\<^sup>*\<^sup>* (stored w0) (stored w)"
proof (induction rule: served.induct)
  case (call w1 c r w2)
  then show ?case using serve_step [OF call.hyps(2)] by (auto intro: rtranclp.rtrancl_into_rtrancl)
qed simp

lemma served_wf: "served S stored w0 w \<Longrightarrow> store_wf (stored w0) \<Longrightarrow> store_wf (stored w)"
  using store_steps_wf [OF served_steps] .

end

end
