(* ===== verification/Tables.thy ===== *)
theory Tables
  imports Prelude
begin

text \<open>A table of a database in memory: the list of its rows, each under its own key; a save replaces the row.\<close>

definition lookup_row :: "('a \<Rightarrow> 'k) \<Rightarrow> 'a list \<Rightarrow> 'k \<Rightarrow> 'a option" where
  "lookup_row key rows k = find (\<lambda>x. key x = k) rows"

definition save_row :: "('a \<Rightarrow> 'k) \<Rightarrow> 'a \<Rightarrow> 'a list \<Rightarrow> 'a list" where
  "save_row key x rows = x # filter (\<lambda>y. key y \<noteq> key x) rows"

lemma find_filter_other:
  "k \<noteq> key x \<Longrightarrow> find (\<lambda>y. key y = k) (filter (\<lambda>y. key y \<noteq> key x) rows) = find (\<lambda>y. key y = k) rows"
  by (induction rows) auto

lemma lookup_save: "lookup_row key (save_row key x rows) = (lookup_row key rows)(key x \<mapsto> x)"
  by (rule ext) (simp add: lookup_row_def save_row_def find_filter_other)

lemma lookup_row_key: "lookup_row key rows k = Some x \<Longrightarrow> key x = k \<and> x \<in> set rows"
  by (auto simp: lookup_row_def find_Some_iff)

text \<open>A search by something else than the key, among the rows their key finds.\<close>

definition search_row :: "('a \<Rightarrow> 'k) \<Rightarrow> ('a \<Rightarrow> bool) \<Rightarrow> 'a list \<Rightarrow> 'a option" where
  "search_row key P rows = find (\<lambda>x. P x \<and> lookup_row key rows (key x) = Some x) rows"

lemma search_row_Some: "search_row key P rows = Some x \<Longrightarrow> P x \<and> lookup_row key rows (key x) = Some x"
  by (auto simp: search_row_def find_Some_iff)

end
