(* ===== verification/Hiring_Memory.thy ===== *)
theory Hiring_Memory
  imports Hiring_Service Tables
begin

text \<open>
  The ports of the hiring services in memory, after the mocks of
  \<open>services/hiring/internal/usecase/*/service_test.go\<close>: repositories over tables with
  \<open>ErrNotFound\<close>, an outbox that collects messages, an authorization port with a switch, a fixed
  clock and a counter of identifiers; transactions are those of \<open>Txmanager\<close> over snapshots, and the
  rooms those of \<open>Hiring_Room\<close>. The contracts of \<open>Hiring_Contract\<close> are interpreted on them.
\<close>

section \<open>The world and its ports\<close>

record mem =
  m_apps :: "job_application list"
  m_ints :: "interview list"
  m_offs :: "job_offer list"
  m_outbox :: "message list"
  m_now :: gotime
  m_next :: nat
  m_deny :: bool

definition mem_stored :: "mem \<Rightarrow> hstore" where
  "mem_stored w =
     \<lparr>st_apps = lookup_row app_ID (m_apps w), st_ints = lookup_row int_ID (m_ints w),
      st_offs = lookup_row off_ID (m_offs w), st_outbox = m_outbox w\<rparr>"

type_synonym 'a mem_result = "(mem, sentinel, 'a) result"

definition mem_new :: "mem \<Rightarrow> uuid \<times> mem" where
  "mem_new w = (of_nat (m_next w), w\<lparr>m_next := m_next w + 1\<rparr>)"

definition mem_auth :: "string \<Rightarrow> uuid \<Rightarrow> uuid \<Rightarrow> mem \<Rightarrow> unit mem_result" where
  "mem_auth what actor i w =
     (if m_deny w then (Inl (Forbidden ''forbidden'' (''cannot '' @ what) None), w) else (Inr (), w))"

definition mem_find :: "herror \<Rightarrow> 'a option \<Rightarrow> mem \<Rightarrow> 'a mem_result" where
  "mem_find missing r w = (case r of None \<Rightarrow> (Inl missing, w) | Some x \<Rightarrow> (Inr x, w))"

definition mem_get_app :: "uuid \<Rightarrow> mem \<Rightarrow> job_application mem_result" where
  "mem_get_app k w =
     mem_find (Sentinel (S_app App_ErrNotFound)) (lookup_row app_ID (m_apps w) k) w"

definition mem_save_app :: "job_application \<Rightarrow> mem \<Rightarrow> unit mem_result" where
  "mem_save_app a w = (Inr (), w\<lparr>m_apps := save_row app_ID a (m_apps w)\<rparr>)"

definition mem_active ::
  "uuid \<Rightarrow> uuid \<Rightarrow> mem \<Rightarrow> (job_application option \<times> herror option) \<times> mem" where
  "mem_active c v w =
     (case find (\<lambda>a. CandidateID a = c \<and> VacancyID a = v \<and> \<not> stage_IsTerminal (CurrentStage a))
             (m_apps w) of
        Some a \<Rightarrow> ((Some a, None), w)
      | None \<Rightarrow> ((None, Some (Sentinel (S_app App_ErrNotFound))), w))"

definition mem_list_ints :: "uuid \<Rightarrow> mem \<Rightarrow> interview option list mem_result" where
  "mem_list_ints k w =
     (Inr (map Some (filter (\<lambda>i. int_ApplicationID i = k \<and>
                               lookup_row int_ID (m_ints w) (int_ID i) = Some i) (m_ints w))), w)"

definition mem_get_int :: "uuid \<Rightarrow> mem \<Rightarrow> interview mem_result" where
  "mem_get_int k w =
     mem_find (Sentinel (S_int Int_ErrNotFound)) (lookup_row int_ID (m_ints w) k) w"

definition mem_save_int :: "interview \<Rightarrow> mem \<Rightarrow> unit mem_result" where
  "mem_save_int i w = (Inr (), w\<lparr>m_ints := save_row int_ID i (m_ints w)\<rparr>)"

definition mem_get_stage :: "uuid \<Rightarrow> mem \<Rightarrow> pipeline_stage mem_result" where
  "mem_get_stage k w =
     attempt (mem_get_app k w) (\<lambda>err. err) (\<lambda>a w. (Inr (CurrentStage a), w))"

definition mem_get_off :: "uuid \<Rightarrow> mem \<Rightarrow> job_offer mem_result" where
  "mem_get_off k w =
     mem_find (Sentinel (S_off Off_ErrNotFound)) (lookup_row off_ID (m_offs w) k) w"

definition mem_off_of_app :: "uuid \<Rightarrow> mem \<Rightarrow> job_offer mem_result" where
  "mem_off_of_app k w =
     mem_find (Sentinel (S_off Off_ErrNotFound))
       (find (\<lambda>j. off_ApplicationID j = k) (m_offs w)) w"

definition mem_save_off :: "job_offer \<Rightarrow> mem \<Rightarrow> unit mem_result" where
  "mem_save_off j w = (Inr (), w\<lparr>m_offs := save_row off_ID j (m_offs w)\<rparr>)"

definition mem_save_msg :: "message \<Rightarrow> mem \<Rightarrow> unit mem_result" where
  "mem_save_msg m w = (Inr (), w\<lparr>m_outbox := m_outbox w @ [m]\<rparr>)"

text \<open>A transaction is a copy of the tables.\<close>

definition mem_tx :: "(mem, sentinel, mem) tx_ops" where
  "mem_tx =
     \<lparr>Begin = (\<lambda>w. (Inr w, w)), Commit = (\<lambda>tx w. (None, w)), Rollback = (\<lambda>tx w. (None, tx))\<rparr>"

text \<open>An encoding of payloads and identifiers for the ports of third-party packages.\<close>

definition mem_json :: "payload \<Rightarrow> herror + string" where
  "mem_json pl = Inr (''{type:'' @ event_type_of pl @ ''}'')"

definition mem_show :: "uuid \<Rightarrow> string" where
  "mem_show k = show_nat (unat k)"

definition mem_base :: "mem base_ports" where
  "mem_base =
     \<lparr>clock_Now = (\<lambda>w. (m_now w, w)), id_New = mem_new, uuid_New = mem_new,
      factory_ids = Some mem_new, uuid_String = mem_show, json_Marshal = mem_json,
      outbox_Save = mem_save_msg, tx_Do = run_tx mem_tx\<rparr>"

definition mem_app_ports :: "mem app_ports" where
  "mem_app_ports = base_ports.extend mem_base
     \<lparr>app_Create = mem_save_app, app_Update = mem_save_app, app_GetByID = mem_get_app,
      app_GetActive = mem_active, interviews_List = mem_list_ints,
      CanApplyVacancy = mem_auth ''apply'', CanManageApplication = mem_auth ''manage''\<rparr>"

definition mem_offer_ports :: "mem offer_ports" where
  "mem_offer_ports = base_ports.extend mem_base
     \<lparr>offer_Create = mem_save_off, offer_Update = mem_save_off, offer_GetByID = mem_get_off,
      offer_GetByApplicationID = mem_off_of_app, offer_app_GetByID = mem_get_app,
      offer_app_Update = mem_save_app, CanManageOffer = mem_auth ''manage'',
      CanRespondToOffer = mem_auth ''respond''\<rparr>"

text \<open>The rooms of the test: LiveKit through the conference service, and an office.\<close>

definition mem_rooms :: "mem room_registry" where
  "mem_rooms =
     NewRoomStrategy
       [Some (LiveKitStrategy (Some (conference_service None))),
        Some (NewOnsiteStrategy ''Main Office, 4th floor'')]"

definition mem_interview_ports :: "mem interview_ports" where
  "mem_interview_ports = base_ports.extend mem_base
     \<lparr>interview_Create = mem_save_int, interview_Update = mem_save_int,
      interview_GetByID = mem_get_int, interview_ListByApplicationID = mem_list_ints,
      app_GetStage = mem_get_stage, roomStrategy = Some mem_rooms,
      CanManageInterview = mem_auth ''manage'', CanSubmitFeedback = mem_auth ''submit''\<rparr>"

definition mem_services :: "mem services" where
  "mem_services =
     \<lparr>apps = mem_app_ports, offers = mem_offer_ports, interviews = mem_interview_ports\<rparr>"

lemmas mem_ports_defs =
  mem_app_ports_def mem_offer_ports_def mem_interview_ports_def mem_base_def base_ports.extend_def

lemmas mem_ops_defs =
  mem_new_def mem_auth_def mem_find_def mem_get_app_def mem_save_app_def mem_active_def
  mem_list_ints_def mem_get_int_def mem_save_int_def mem_get_stage_def mem_get_off_def
  mem_off_of_app_def mem_save_off_def mem_save_msg_def


section \<open>The contracts hold in memory\<close>

interpretation mem_db: transactional mem_tx mem_stored mem_stored
  by unfold_locales (auto simp: mem_tx_def)

lemma mem_stored_simps [simp]:
  "mem_stored (w\<lparr>m_next := n\<rparr>) = mem_stored w"
  "mem_stored (w\<lparr>m_apps := save_row app_ID a (m_apps w)\<rparr>) = put_app a (mem_stored w)"
  "mem_stored (w\<lparr>m_ints := save_row int_ID i (m_ints w)\<rparr>) = put_int i (mem_stored w)"
  "mem_stored (w\<lparr>m_offs := save_row off_ID j (m_offs w)\<rparr>) = put_off j (mem_stored w)"
  "mem_stored (w\<lparr>m_outbox := m_outbox w @ [m]\<rparr>) = put_msg m (mem_stored w)"
  "st_apps (mem_stored w) = lookup_row app_ID (m_apps w)"
  "st_ints (mem_stored w) = lookup_row int_ID (m_ints w)"
  "st_offs (mem_stored w) = lookup_row off_ID (m_offs w)"
  by (simp_all add: mem_stored_def put_defs lookup_save)

lemma mem_keeps [simp]:
  "mem_stored (snd (mem_new w)) = mem_stored w"
  "mem_stored (snd (mem_auth what u i w)) = mem_stored w"
  "mem_stored (snd (mem_get_app k w)) = mem_stored w"
  "mem_stored (snd (mem_get_int k w)) = mem_stored w"
  "mem_stored (snd (mem_get_off k w)) = mem_stored w"
  "mem_stored (snd (mem_off_of_app k w)) = mem_stored w"
  "mem_stored (snd (mem_active c v w)) = mem_stored w"
  "mem_stored (snd (mem_list_ints k w)) = mem_stored w"
  "mem_stored (snd (mem_get_stage k w)) = mem_stored w"
  by (simp_all add: mem_ops_defs attempt_def split: option.split)

lemma mem_get_ok:
  "mem_get_app k w = (Inr a, w') \<Longrightarrow> lookup_row app_ID (m_apps w) k = Some a \<and> app_ID a = k"
  "mem_get_int k w = (Inr i, w') \<Longrightarrow> lookup_row int_ID (m_ints w) k = Some i \<and> int_ID i = k"
  "mem_get_off k w = (Inr j, w') \<Longrightarrow> lookup_row off_ID (m_offs w) k = Some j \<and> off_ID j = k"
  by (auto simp: mem_ops_defs dest: lookup_row_key split: option.splits)

lemma mem_save_ok:
  "mem_save_app a w = (Inr u, w') \<Longrightarrow> mem_stored w' = put_app a (mem_stored w)"
  "mem_save_int i w = (Inr u, w') \<Longrightarrow> mem_stored w' = put_int i (mem_stored w)"
  "mem_save_off j w = (Inr u, w') \<Longrightarrow> mem_stored w' = put_off j (mem_stored w)"
  "mem_save_msg m w = (Inr u, w') \<Longrightarrow> mem_stored w' = put_msg m (mem_stored w)"
  by (auto simp: mem_ops_defs)

lemma mem_active_none:
  assumes "mem_active c v w = ((None, err), w')"
  shows "\<forall>b \<in> ran (lookup_row app_ID (m_apps w)).
           CandidateID b = c \<and> VacancyID b = v \<longrightarrow> stage_IsTerminal (CurrentStage b)"
  using assms
  by (auto simp: mem_active_def ran_def find_None_iff dest!: lookup_row_key split: option.splits)

lemma mem_list_ints_ok:
  "mem_list_ints k w = (Inr its, w') \<Longrightarrow> Some it \<in> set its \<Longrightarrow>
     lookup_row int_ID (m_ints w) (int_ID it) = Some it \<and> int_ApplicationID it = k"
  by (auto simp: mem_list_ints_def)

lemma mem_get_stage_ok:
  "mem_get_stage k w = (Inr t, w') \<Longrightarrow>
     \<exists>a. lookup_row app_ID (m_apps w) k = Some a \<and> CurrentStage a = t"
  by (auto simp: mem_get_stage_def attempt_inv dest: mem_get_ok)

lemma mem_rooms_LiveKit:
  "mem_rooms f = Some (LiveKitStrategy (Some c)) \<Longrightarrow> c = conference_service None"
  by (auto simp: mem_rooms_def NewRoomStrategy_def NewOnsiteStrategy_def split: if_splits)

lemma conference_keeps [simp]:
  "snd (CreateRoom (conference_service None) n w) = w"
  "snd (EndRoom (conference_service None) n w) = w"
  by (simp_all add: conference_service_def conf_CreateRoom_def conf_EndRoom_def)

lemma mem_Do_ok:
  "run_tx mem_tx f w = (Inr (), w') \<Longrightarrow>
     \<exists>w1. mem_stored w1 = mem_stored w \<and> (\<exists>w2. f w1 = (Inr (), w2) \<and> mem_stored w' = mem_stored w2)"
  using mem_db.Do_ok by blast

lemmas mem_laws = mem_save_ok mem_db.Do_err
lemmas mem_dests = mem_get_ok mem_active_none mem_list_ints_ok mem_get_stage_ok mem_Do_ok
  mem_rooms_LiveKit

interpretation mem_app: app_env mem_app_ports mem_stored
  by unfold_locales (auto simp: mem_ports_defs mem_laws dest: mem_dests)

interpretation mem_off: offer_env mem_offer_ports mem_stored
  by unfold_locales (auto simp: mem_ports_defs mem_laws dest: mem_dests)

interpretation mem_int: interview_env mem_interview_ports mem_stored
  by unfold_locales (auto simp: mem_ports_defs mem_laws dest: mem_dests)

lemma mem_services_simps [simp]:
  "apps mem_services = mem_app_ports" "offers mem_services = mem_offer_ports"
  "interviews mem_services = mem_interview_ports"
  by (simp_all add: mem_services_def)

interpretation mem_hiring: hiring_env mem_services mem_stored
  by (rule hiring_env.intro)
     (simp_all add: mem_app.app_env_axioms mem_off.offer_env_axioms mem_int.interview_env_axioms)


section \<open>A worked hire\<close>

text \<open>An empty database, and the calls that take a candidate from the submission to the hire.\<close>

definition empty_mem :: mem where
  "empty_mem = \<lparr>m_apps = [], m_ints = [], m_offs = [], m_outbox = [], m_now = 1000, m_next = 1,
                m_deny = False\<rparr>"

definition demo_move :: "pipeline_stage \<Rightarrow> hiring_call" where
  "demo_move t = Call_ChangeStage \<lparr>ci_ApplicationID = 1, ci_TargetStage = t, ci_ActorID = 9,
                                   ci_Reason = ''''\<rparr>"

definition demo_calls :: "hiring_call list" where
  "demo_calls =
     [Call_Apply \<lparr>ai_VacancyID = 7, ai_CandidateID = 8, ai_ActorID = 8\<rparr>,
      demo_move StageScreening, demo_move StageInterview,
      Call_Schedule \<lparr>sc_ApplicationID = 1, sc_InterviewType = TypeTechnical,
        sc_Format = FormatOther '''', sc_StartTime = 2000, sc_EndTime = 3000,
        sc_Participants = [\<lparr>par_UserID = 12, par_Role = RoleInterviewer\<rparr>], sc_Location = '''',
        sc_ActorID = 9\<rparr>,
      Call_Feedback \<lparr>fi_InterviewID = 11, fi_InterviewerUserID = 12, fi_Score = 4,
        fi_Notes = ''good''\<rparr>,
      Call_Complete \<lparr>ii_InterviewID = 11, ii_ActorID = 9\<rparr>,
      Call_CreateOffer \<lparr>co_ApplicationID = 1, co_Compensation = 5000, co_Currency = ''EUR'',
        co_Grade = ''senior'', co_ExpiresAt = 1000 + MinOfferDuration, co_ActorID = 9\<rparr>,
      Call_SendOffer \<lparr>oi_OfferID = 19, oi_ActorID = 9\<rparr>,
      Call_AcceptOffer \<lparr>oi_OfferID = 19, oi_ActorID = 8\<rparr>,
      demo_move StageHired]"

text \<open>The database after the first \<open>n\<close> calls.\<close>

definition demo_mem :: "nat \<Rightarrow> mem" where
  "demo_mem n = the (serve_all mem_services mem_stored (take n demo_calls) empty_mem)"

lemma empty_store_wf: "store_wf (mem_stored empty_mem)"
  by (simp add: store_wf_def apps_wf_def ints_wf_def offs_wf_def one_active_def accepted_past_def
      accepted_once_def all_rows_def all_pairs_def lookup_row_def empty_mem_def)

end
