(* ===== verification/Hiring_Properties.thy ===== *)
theory Hiring_Properties
  imports Hiring_Memory
begin

text \<open>
  The properties of the hiring service: its invariants over whole runs, the effect of its use
  cases on the database, the lifecycles of its aggregates and the mapping of its errors. Each
  stands on the lemmas of the component theories; the witnesses apply them to the worked hire of
  \<open>Hiring_Memory\<close> or to small values.
\<close>

section \<open>The service over one database\<close>

lemma demo_served:
  "served mem_services mem_stored empty_mem (demo_mem 10)"
  "map CurrentStage (m_apps (demo_mem 10)) = [StageHired]"
proof -
  have "map_option (\<lambda>w. map CurrentStage (m_apps w))
      (serve_all mem_services mem_stored (take 10 demo_calls) empty_mem) = Some [StageHired]"
    by code_simp
  then have run: "serve_all mem_services mem_stored (take 10 demo_calls) empty_mem = Some (demo_mem 10)"
    and "map CurrentStage (m_apps (demo_mem 10)) = [StageHired]"
    by (auto simp: demo_mem_def)
  from serve_all_served [OF run served.start] this(2)
  show "served mem_services mem_stored empty_mem (demo_mem 10)"
    "map CurrentStage (m_apps (demo_mem 10)) = [StageHired]" .
qed

text \<open>
  C1. Whatever sequence of calls the three services serve, the database keeps its
  invariants: every application has a consistent audit trail, every interview and offer is
  well-formed and belongs to a stored application, a candidate has at most one active application
  per vacancy, and an accepted offer is the only accepted one of an application that is past the
  offer stage. The identifiers the generator gives must be unused.
\<close>

theorem served_store_wf:
  assumes "hiring_env S stored" and "store_wf (stored w0)" and "served S stored w0 w"
  shows "store_wf (stored w)"
  using hiring_env.served_wf [OF assms(1,3,2)] .

theorem served_store_wf_witness:
  "store_wf (mem_stored (demo_mem 10)) \<and> map CurrentStage (m_apps (demo_mem 10)) = [StageHired]"
proof
  show "store_wf (mem_stored (demo_mem 10))"
    by (rule served_store_wf [OF mem_hiring.hiring_env_axioms empty_store_wf demo_served(1)])
  show "map CurrentStage (m_apps (demo_mem 10)) = [StageHired]"
    by (rule demo_served(2))
qed

text \<open>
  C2. Refinement: each call of the services changes the database by one step of the abstract store
  machine, or not at all. So nothing but submissions, allowed stage changes, interview steps and
  offer steps with their application moves is ever committed.
\<close>

theorem serve_refines:
  assumes "hiring_env S stored" and "serve S c w = (r, w')"
    and "\<And>k. r = Inr k \<Longrightarrow> new_key k (stored w)"
  shows "stored w' = stored w \<or> store_step (stored w) (stored w')"
  using hiring_env.serve_step [OF assms] .

text \<open>
  C3. A call that reports an error has written nothing: neither an aggregate nor an event, at
  whatever point of the use case, the transaction or the commit it failed.
\<close>

theorem serve_error_writes_nothing:
  assumes "hiring_env S stored" and "serve S c w = (Inl e, w')"
  shows "stored w' = stored w"
  using hiring_env.serve_error [OF assms] .

definition demo_bad :: hiring_call where
  "demo_bad = demo_move StageHired"

lemma demo_bad_call: "isl (fst (serve mem_services demo_bad (demo_mem 1))) = True"
  by code_simp

theorem serve_error_writes_nothing_witness:
  "mem_stored (snd (serve mem_services demo_bad (demo_mem 1))) = mem_stored (demo_mem 1) \<and>
   m_apps (demo_mem 1) \<noteq> []"
proof
  show "mem_stored (snd (serve mem_services demo_bad (demo_mem 1))) = mem_stored (demo_mem 1)"
    using demo_bad_call
    by (intro serve_error_writes_nothing [OF mem_hiring.hiring_env_axioms failed_result]) simp
  have "length (m_apps (demo_mem 1)) = 1"
    by code_simp
  then show "m_apps (demo_mem 1) \<noteq> []" by auto
qed

lemma demo_first_call:
  "serve mem_services (hd demo_calls) empty_mem = (Inr (Some 1), demo_mem 1)"
proof -
  have "fst (serve mem_services (hd demo_calls) empty_mem) = Inr (Some 1)"
    by code_simp
  then obtain w' where w': "serve mem_services (hd demo_calls) empty_mem = (Inr (Some 1), w')"
    by (metis prod.collapse)
  have "take 1 demo_calls = [hd demo_calls]"
    by (simp add: demo_calls_def)
  with w' have "demo_mem 1 = w'"
    by (simp add: demo_mem_def new_key_def lookup_row_def empty_mem_def)
  with w' show ?thesis by simp
qed

theorem serve_refines_witness:
  "mem_stored (demo_mem 1) = mem_stored empty_mem \<or>
   store_step (mem_stored empty_mem) (mem_stored (demo_mem 1))"
  by (rule serve_refines [OF mem_hiring.hiring_env_axioms demo_first_call])
     (auto simp: new_key_def lookup_row_def empty_mem_def)

section \<open>Use cases\<close>

text \<open>
  C4. A stage change that succeeds was allowed: the table admits it from the stored stage, the
  actor is given, and a move to OFFER_PENDING found a completed interview with feedback. It commits
  exactly the changed application, with one more history entry, and the event that describes it.
\<close>

theorem ChangeStage_commits:
  assumes "app_env P stored" and "ChangeStage_uc P input w = (Inr (), w')"
  shows "\<exists>a fresh now m.
     st_apps (stored w) (ci_ApplicationID input) = Some a \<and>
     stage_CanTransitionTo (CurrentStage a) (ci_TargetStage input) \<and> ci_ActorID input \<noteq> uuid_nil \<and>
     (ci_TargetStage input = StageOfferPending \<longrightarrow>
        (\<exists>it. st_ints (stored w) (int_ID it) = Some it \<and>
           int_ApplicationID it = ci_ApplicationID input \<and>
           int_Status it = Int_Completed \<and> Feedbacks it \<noteq> [])) \<and>
     (let b = moved fresh (ci_TargetStage input) (ci_ActorID input) (ci_Reason input) now a in
        describes P AggregateTypeJobApplication (app_ID b) (app_Version b)
          (StageChangedPayload (app_ID b) (CurrentStage a) (ci_TargetStage input)
             (ci_ActorID input) now (ci_Reason input)) now m \<and>
        stored w' = put_msg m (put_app b (stored w)))"
  using outcome_ok [OF app_env.ChangeStage_uc_outcome [OF assms(1)] assms(2)]
  unfolding app_commit_def Let_def by (force simp: ChangeStage_Inr_iff eligible_def)

definition demo_screen :: change_stage_input where
  "demo_screen = \<lparr>ci_ApplicationID = 1, ci_TargetStage = StageScreening, ci_ActorID = 9,
                  ci_Reason = ''cv ok''\<rparr>"

lemma demo_screen_ok:
  "ChangeStage_uc mem_app_ports demo_screen (demo_mem 1) =
     (Inr (), snd (ChangeStage_uc mem_app_ports demo_screen (demo_mem 1)))"
proof -
  have "isl (fst (ChangeStage_uc mem_app_ports demo_screen (demo_mem 1))) = False"
    by code_simp
  then show ?thesis
    using ok_result [of "ChangeStage_uc mem_app_ports demo_screen (demo_mem 1)"] by simp
qed

theorem ChangeStage_commits_witness:
  "\<exists>a m fresh now.
     st_apps (mem_stored (demo_mem 1)) 1 = Some a \<and>
     mem_stored (snd (ChangeStage_uc mem_app_ports demo_screen (demo_mem 1))) =
       put_msg m (put_app (moved fresh StageScreening 9 ''cv ok'' now a) (mem_stored (demo_mem 1)))"
  using ChangeStage_commits [OF mem_app.app_env_axioms demo_screen_ok]
  by (auto simp: demo_screen_def Let_def)

text \<open>
  C5. Accepting an offer moves the offer and its application together: the stored offer was SENT and
  not past its expiry, its application was in OFFER_PENDING; afterwards, in one commit with the
  event, the offer is ACCEPTED and the application in OFFER_ACCEPTED.
\<close>

theorem AcceptOffer_commits:
  assumes "offer_env P stored" and "AcceptOffer P input w = (Inr (), w')"
  shows "\<exists>j a fresh now m.
     st_offs (stored w) (oi_OfferID input) = Some j \<and> off_Status j = Off_Sent \<and>
     now < off_ExpiresAt j \<and>
     st_apps (stored w) (off_ApplicationID j) = Some a \<and> CurrentStage a = StageOfferPending \<and>
     describes P AggregateTypeJobOffer (off_ID j) (off_Version j + 1)
       (OfferAcceptedPayload (off_ID j) now) now m \<and>
     stored w' = put_msg m
       (put_app (moved fresh StageOfferAccepted (oi_ActorID input) ''offer accepted by candidate'' now a)
          (put_off (set_status Off_Accepted now j) (stored w)))"
proof -
  from outcome_ok [OF offer_env.AcceptOffer_outcome [OF assms(1)] assms(2)]
  obtain j j' a b m now fresh where
    j: "st_offs (stored w) (oi_OfferID input) = Some j" "Accept now j = (None, j')" and
    a: "st_apps (stored w) (off_ApplicationID j) = Some a"
       "ChangeStage fresh StageOfferAccepted (oi_ActorID input) ''offer accepted by candidate'' now a
          = Inr b" and
    m: "describes P AggregateTypeJobOffer (off_ID j') (off_Version j') (OfferAcceptedPayload (off_ID j') now) now m"
       "stored w' = put_msg m (put_app b (put_off j' (stored w)))"
    unfolding off_app_commit_def by blast
  from j(2) have "off_Status j = Off_Sent" "now < off_ExpiresAt j" "j' = set_status Off_Accepted now j"
    by (auto simp: Accept_def IsExpired_def split: if_splits)
  moreover from a(2) have "CurrentStage a = StageOfferPending"
    "b = moved fresh StageOfferAccepted (oi_ActorID input) ''offer accepted by candidate'' now a"
    by (auto simp: ChangeStage_Inr_iff into_stage)
  moreover have "off_Version (set_status Off_Accepted now j) = off_Version j + 1"
    by (simp add: set_status_def)
  ultimately show ?thesis using j(1) a(1) m by auto
qed

definition demo_accept :: offer_input where
  "demo_accept = \<lparr>oi_OfferID = 19, oi_ActorID = 8\<rparr>"

lemma demo_accept_ok:
  "AcceptOffer mem_offer_ports demo_accept (demo_mem 8) =
     (Inr (), snd (AcceptOffer mem_offer_ports demo_accept (demo_mem 8)))"
proof -
  have "isl (fst (AcceptOffer mem_offer_ports demo_accept (demo_mem 8))) = False"
    by code_simp
  then show ?thesis
    using ok_result [of "AcceptOffer mem_offer_ports demo_accept (demo_mem 8)"] by simp
qed

theorem AcceptOffer_commits_witness:
  "\<exists>j a. st_offs (mem_stored (demo_mem 8)) 19 = Some j \<and> off_Status j = Off_Sent \<and>
     st_apps (mem_stored (demo_mem 8)) (off_ApplicationID j) = Some a \<and>
     CurrentStage a = StageOfferPending"
  using AcceptOffer_commits [OF mem_off.offer_env_axioms demo_accept_ok]
  by (auto simp: demo_accept_def)

text \<open>
  A submission that succeeds creates an application in APPLIED under the new identifier, with a
  one-entry history, together with its event; no other application of the candidate for the
  vacancy was under way.
\<close>

theorem ApplyVacancy_commits:
  assumes "app_env P stored" and "ApplyVacancy P input w = (Inr k, w')"
  shows "\<exists>a m now.
     app_ID a = k \<and> CurrentStage a = StageApplied \<and> CandidateID a = ai_CandidateID input \<and>
     VacancyID a = ai_VacancyID input \<and> length (History a) = 1 \<and> app_wf a \<and>
     no_active (ai_CandidateID input) (ai_VacancyID input) (stored w) \<and>
     describes P AggregateTypeJobApplication k 1
       (ApplicationAppliedPayload k (ai_VacancyID input) (ai_CandidateID input) StageApplied now)
       now m \<and>
     stored w' = put_msg m (put_app a (stored w))"
proof -
  from outcome_ok [OF app_env.ApplyVacancy_outcome [OF assms(1)] assms(2)]
  obtain a m now fresh where a:
    "New_application fresh k (ai_VacancyID input) (ai_CandidateID input) (ai_ActorID input) now = Inr a"
    and "no_active (ai_CandidateID input) (ai_VacancyID input) (stored w)"
    and "describes P AggregateTypeJobApplication k (app_Version a)
          (ApplicationAppliedPayload k (ai_VacancyID input) (ai_CandidateID input)
             (CurrentStage a) now) now m"
    and "stored w' = put_msg m (put_app a (stored w))"
    unfolding apply_commit_def no_active_def by blast
  moreover from a have "length (History a) = 1" "app_Version a = 1"
    by (auto simp: New_application_def split: if_splits sum.splits)
  ultimately show ?thesis
    using New_application_fields [OF a] app_wf_New [OF a] by auto
qed

lemma demo_apply_ok:
  "ApplyVacancy mem_app_ports \<lparr>ai_VacancyID = 7, ai_CandidateID = 8, ai_ActorID = 8\<rparr> empty_mem =
     (Inr 1, snd (ApplyVacancy mem_app_ports \<lparr>ai_VacancyID = 7, ai_CandidateID = 8, ai_ActorID = 8\<rparr>
        empty_mem))"
proof -
  have "fst (ApplyVacancy mem_app_ports \<lparr>ai_VacancyID = 7, ai_CandidateID = 8, ai_ActorID = 8\<rparr>
          empty_mem) = Inr 1"
    by code_simp
  then show ?thesis by (metis prod.collapse)
qed

theorem ApplyVacancy_commits_witness:
  "\<exists>a m. app_ID a = 1 \<and> CandidateID a = 8 \<and> app_wf a \<and>
     mem_stored (snd (ApplyVacancy mem_app_ports
       \<lparr>ai_VacancyID = 7, ai_CandidateID = 8, ai_ActorID = 8\<rparr> empty_mem)) =
     put_msg m (put_app a (mem_stored empty_mem))"
  using ApplyVacancy_commits [OF mem_app.app_env_axioms demo_apply_ok] by auto






section \<open>Aggregates\<close>

text \<open>
  C7. Every application the aggregate's own methods can produce has a complete audit trail: the
  history starts with the submission, each entry continues the one before along an allowed
  transition and names its actor, it ends in the current stage, the version counts its entries
  and the timestamps are those of its two ends.
\<close>

theorem application_audit_trail:
  assumes "app_reachable a"
  shows "app_wf a"
  using app_reachable_wf [OF assms] .

definition demo_app :: job_application where
  "demo_app =
     \<lparr>app_ID = 1, VacancyID = 7, CandidateID = 8, CurrentStage = StageApplied, app_Version = 1,
      History = [\<lparr>tr_ID = 2, FromStage = StageOther '''', ToStage = StageApplied, ChangedBy = 8,
                  ChangedAt = 1000, tr_Reason = ''application submitted''\<rparr>],
      app_CreatedAt = 1000, app_UpdatedAt = 1000\<rparr>"

lemma trim_space_submitted: "trim_space ''application submitted'' = ''application submitted''"
  by code_simp

lemma demo_app_reachable: "app_reachable demo_app"
  by (rule app_reachable.submitted [of 2 1 7 8 8 1000])
     (simp add: demo_app_def New_application_def NewStageTransition_def trim_space_submitted)

theorem application_audit_trail_witness:
  "app_wf (moved 3 StageScreening 9 '''' 2000 demo_app)"
  by (rule application_audit_trail, rule app_reachable.stepped [OF demo_app_reachable],
      rule app_step.change [of 3 StageScreening 9 "''''" 2000])
     (simp add: ChangeStage_Inr_iff demo_app_def stage_CanTransitionTo_def)

text \<open>
  C8. Nobody is hired by a short cut: the history of an application in HIRED starts APPLIED,
  SCREENING and ends INTERVIEW, OFFER_PENDING, OFFER_ACCEPTED, HIRED.
\<close>

theorem hired_history:
  assumes "app_reachable a" and "CurrentStage a = StageHired"
  shows "\<exists>us. map ToStage (History a) =
     StageApplied # StageScreening # us @
       [StageInterview, StageOfferPending, StageOfferAccepted, StageHired]"
proof -
  obtain t ts where h: "History a = t # ts" "tr_IsInitial t" "linked StageApplied ts"
    "end_stage StageApplied ts = StageHired"
    using app_reachable_wf [OF assms(1)] assms(2) by (auto simp: app_wf_def split: list.splits)
  obtain us where us: "map ToStage ts =
      us @ [StageInterview, StageOfferPending, StageOfferAccepted, StageHired]"
    using linked_hired [OF h(3,4)] by blast
  then have "length ts \<ge> 4"
    by (auto dest: arg_cong [where f = length])
  then obtain t1 ts1 where ts: "ts = t1 # ts1" "ts1 \<noteq> []"
    by (cases ts) fastforce+
  then have "ToStage t1 = StageScreening"
    using h(3) linked_first by blast
  then obtain us' where "us = StageScreening # us'"
    using us ts by (cases us) auto
  with us h(1,2) show ?thesis by (auto simp: tr_IsInitial_def)
qed

lemma app_reachable_moved:
  "app_reachable a \<Longrightarrow> actor \<noteq> uuid_nil \<Longrightarrow> stage_CanTransitionTo (CurrentStage a) t \<Longrightarrow>
     app_reachable (moved fresh t actor reason now a)"
  by (rule app_reachable.stepped, assumption, rule app_step.change)
     (simp add: ChangeStage_Inr_iff)

definition demo_path :: "pipeline_stage list" where
  "demo_path = [StageScreening, StageInterview, StageOfferPending, StageOfferAccepted, StageHired]"

definition demo_hired :: job_application where
  "demo_hired = fold (\<lambda>t a. moved 3 t 9 '''' 2000 a) demo_path demo_app"

lemma demo_hired_reachable: "app_reachable demo_hired" "CurrentStage demo_hired = StageHired"
proof -
  have "CurrentStage demo_app = StageApplied" by (simp add: demo_app_def)
  with demo_app_reachable show "app_reachable demo_hired"
    unfolding demo_hired_def demo_path_def
    by (simp, intro app_reachable_moved) (simp_all add: stage_CanTransitionTo_def)
  show "CurrentStage demo_hired = StageHired"
    by (simp add: demo_hired_def demo_path_def)
qed

theorem hired_history_witness:
  "\<exists>us. map ToStage (History demo_hired) =
     StageApplied # StageScreening # us @
       [StageInterview, StageOfferPending, StageOfferAccepted, StageHired]"
  by (rule hired_history [OF demo_hired_reachable])

lemma can_reach_hired:
  assumes "actor \<noteq> uuid_nil" and "stage_Valid (CurrentStage a)"
    and "\<not> stage_IsTerminal (CurrentStage a)"
  shows "\<exists>b. app_step\<^sup>*\<^sup>* a b \<and> CurrentStage b = StageHired"
proof -
  have step: "app_step\<^sup>*\<^sup>* x (moved 0 t actor '''' 0 x)"
    if "stage_CanTransitionTo (CurrentStage x) t" for x t
    using that assms(1)
    by (intro r_into_rtranclp app_step.change [of 0 t actor "''''" 0]) (simp add: ChangeStage_Inr_iff)
  have go: "\<exists>b. app_step\<^sup>*\<^sup>* x b \<and> CurrentStage b = StageHired"
    if "stage_CanTransitionTo (CurrentStage x) t"
      and "\<And>y. CurrentStage y = t \<Longrightarrow> \<exists>b. app_step\<^sup>*\<^sup>* y b \<and> CurrentStage b = StageHired" for x t
    using that(2) [of "moved 0 t actor '''' 0 x"] step [OF that(1)]
    by (auto intro: rtranclp_trans)
  note can = stage_CanTransitionTo_def
  have a: "\<exists>b. app_step\<^sup>*\<^sup>* x b \<and> CurrentStage b = StageHired" if "CurrentStage x = StageOfferAccepted" for x
    by (rule go [of x StageHired]) (use that in \<open>auto simp: can\<close>)
  have p: "\<exists>b. app_step\<^sup>*\<^sup>* x b \<and> CurrentStage b = StageHired" if "CurrentStage x = StageOfferPending" for x
    by (rule go [OF _ a]) (use that in \<open>auto simp: can\<close>)
  have i: "\<exists>b. app_step\<^sup>*\<^sup>* x b \<and> CurrentStage b = StageHired" if "CurrentStage x = StageInterview" for x
    by (rule go [OF _ p]) (use that in \<open>auto simp: can\<close>)
  have s: "\<exists>b. app_step\<^sup>*\<^sup>* x b \<and> CurrentStage b = StageHired"
    if "CurrentStage x \<in> {StageScreening, StageTechAssessment}" for x
    by (rule go [OF _ i]) (use that in \<open>auto simp: can\<close>)
  have "\<exists>b. app_step\<^sup>*\<^sup>* x b \<and> CurrentStage b = StageHired" if "CurrentStage x = StageApplied" for x
    by (rule go [of x StageScreening]) (use that s in \<open>auto simp: can\<close>)
  with a p i s show ?thesis
    using assms(2,3) by (cases "CurrentStage a") auto
qed

text \<open>
  The pipeline has no dead end: from every valid stage that is not terminal an application can
  be taken to HIRED by stage changes alone, and from a terminal stage it can be taken nowhere.
\<close>

theorem pipeline_no_dead_end:
  assumes "stage_Valid (CurrentStage a)"
  shows "(\<exists>b. app_step\<^sup>*\<^sup>* a b \<and> CurrentStage b = StageHired \<and> b \<noteq> a) \<longleftrightarrow>
     \<not> stage_IsTerminal (CurrentStage a)"
proof
  assume "\<exists>b. app_step\<^sup>*\<^sup>* a b \<and> CurrentStage b = StageHired \<and> b \<noteq> a"
  then obtain b c where "app_step a c"
    by (metis converse_rtranclpE)
  then show "\<not> stage_IsTerminal (CurrentStage a)"
    using app_step_stage pipeline.terminal_no_step by blast
next
  assume "\<not> stage_IsTerminal (CurrentStage a)"
  with can_reach_hired [of 1 a] assms
  show "\<exists>b. app_step\<^sup>*\<^sup>* a b \<and> CurrentStage b = StageHired \<and> b \<noteq> a" by fastforce
qed

theorem pipeline_no_dead_end_witness:
  "\<exists>b. app_step\<^sup>*\<^sup>* demo_app b \<and> CurrentStage b = StageHired"
  using pipeline_no_dead_end [of demo_app] by (auto simp: demo_app_def)

text \<open>
  An application can be rejected exactly when its stage is valid and not terminal and an
  actor is named, and the rejection appends one entry to REJECTED that carries the comment, or the
  text of the code where there is none.
\<close>

theorem Reject_exactly:
  "Reject fresh reason actor now a = Inr b \<longleftrightarrow>
     actor \<noteq> uuid_nil \<and> stage_Valid (CurrentStage a) \<and> \<not> stage_IsTerminal (CurrentStage a) \<and>
     b = a\<lparr>History := History a @
             [\<lparr>tr_ID = fresh, FromStage = CurrentStage a, ToStage = StageRejected,
               ChangedBy = actor, ChangedAt = now,
               tr_Reason = trim_space (if Comment reason \<noteq> '''' then Comment reason
                                       else reject_code_String (Code reason))\<rparr>],
           CurrentStage := StageRejected, app_Version := app_Version a + 1, app_UpdatedAt := now\<rparr>"
  by (simp add: Reject_Inr_iff moved_def EffectiveComment_def)

text \<open>
  Every interview the aggregate's methods can produce has a proper time window and valid
  participants, only scores from one to five from participants whose role may evaluate, and never
  two feedbacks of one interviewer.
\<close>

theorem interview_invariant:
  assumes "interview_reachable i"
  shows "interview_wf i"
  using interview_reachable_wf [OF assms] .

definition demo_interview :: interview where
  "demo_interview =
     \<lparr>int_ID = 11, int_ApplicationID = 1, InterviewType = TypeTechnical, Format = FormatOnsite,
      int_Status = Int_Scheduled, ScheduledStartTime = 2000, ScheduledEndTime = 3000,
      MeetingRoomURL = '''', Participants = [\<lparr>par_UserID = 12, par_Role = RoleInterviewer\<rparr>],
      Feedbacks = [], int_Version = 1, int_CreatedAt = 1000, int_UpdatedAt = 1000\<rparr>"

lemma demo_interview_reachable: "interview_reachable demo_interview"
  by (rule interview_reachable.scheduled
        [of 11 1 TypeTechnical FormatOnsite 2000 3000 "[\<lparr>par_UserID = 12, par_Role = RoleInterviewer\<rparr>]"
            "''''" 1000])
     (simp add: Schedule_def demo_interview_def)

theorem interview_invariant_witness: "interview_wf demo_interview"
  by (rule interview_invariant [OF demo_interview_reachable])

text \<open>
  A cancelled interview is final: no method changes its status again and no feedback is
  added, whatever is called on it.
\<close>

theorem cancelled_interview_final:
  assumes "interview_step\<^sup>*\<^sup>* i j" and "int_Status i = Int_Cancelled"
  shows "int_Status j = Int_Cancelled \<and> Feedbacks j = Feedbacks i"
  using cancelled_final [OF assms] .

theorem cancelled_interview_final_witness:
  "\<exists>i j. Cancel ''moved'' 1500 demo_interview = Inr i \<and> interview_step\<^sup>*\<^sup>* i j \<and> j \<noteq> i \<and>
     int_Status j = Int_Cancelled \<and> Feedbacks j = []"
proof -
  let ?i = "demo_interview\<lparr>int_Status := Int_Cancelled, int_Version := 2, int_UpdatedAt := 1500\<rparr>"
  let ?j = "SetMeetingRoomURL ''x'' 1600 ?i"
  have r: "interview_step\<^sup>*\<^sup>* ?i ?j"
    by (rule r_into_rtranclp, rule interview_step.set_url)
  have "Cancel ''moved'' 1500 demo_interview = Inr ?i"
    by (simp add: Cancel_def demo_interview_def)
  moreover have "?j \<noteq> ?i"
    by (simp add: SetMeetingRoomURL_def demo_interview_def)
  ultimately show ?thesis
    using cancelled_interview_final [OF r] r by (auto simp: demo_interview_def)
qed

text \<open>
  C9. An offer moves only forward: every run of its methods follows the edges DRAFT to SENT,
  EXPIRED or REVOKED and SENT to ACCEPTED, DECLINED, EXPIRED or REVOKED; an offer in a terminal
  state is never changed again.
\<close>

theorem offer_moves_forward:
  assumes "offer_step\<^sup>*\<^sup>* o1 o2"
  shows "offer_edge\<^sup>*\<^sup>* (off_Status o1) (off_Status o2) \<and>
     (offer_status_IsTerminal (off_Status o1) \<longrightarrow> o2 = o1)"
  using offer_steps_edges [OF assms] offer_terminal_unchanged [OF assms] by blast

definition demo_offer :: job_offer where
  "demo_offer =
     \<lparr>off_ID = 19, off_ApplicationID = 1, Compensation = 5000, Currency = ''EUR'', Grade = ''x'',
      off_Status = Off_Draft, off_ExpiresAt = MinOfferDuration, off_Version = 1, off_CreatedAt = 0,
      off_UpdatedAt = 0\<rparr>"

theorem offer_moves_forward_witness:
  "offer_edge\<^sup>*\<^sup>* Off_Draft (off_Status (snd (Send 1000 demo_offer))) \<and>
   off_Status (snd (Send 1000 demo_offer)) = Off_Sent"
proof -
  have "offer_step\<^sup>*\<^sup>* demo_offer (snd (Send 1000 demo_offer))"
    by (rule r_into_rtranclp, rule offer_step.send)
  from offer_moves_forward [OF this] show ?thesis
    by (simp add: demo_offer_def Send_def IsExpired_def set_status_def MinOfferDuration_def hour_def)
qed

lemma offer_version:
  "offer_reachable j \<Longrightarrow>
     off_Version j \<in> {1, 2, 3} \<and> (off_Status j = Off_Draft \<longrightarrow> off_Version j = 1) \<and>
     (off_Status j = Off_Sent \<longrightarrow> off_Version j = 2)"
proof (induction rule: offer_reachable.induct)
  case (created k appID amount cur gr ex now o1)
  then show ?case by (auto simp: Create_offer_def split: if_splits)
next
  case (stepped o1 o2)
  then show ?case
    by (auto elim!: offer_stepE simp: record_ops set_status_def split: if_splits)
qed

text \<open>
  Every offer that can exist pays something, in a currency of three letters, for a trimmed
  non-empty grade, and was open for at least twenty-four hours; its version tells how far it got:
  one as a draft, two once sent, and never more than three.
\<close>

theorem offer_bounds:
  assumes "offer_reachable j"
  shows "Compensation j > 0 \<and> currency_Valid (Currency j) \<and>
     Grade j \<noteq> '''' \<and> trim_space (Grade j) = Grade j \<and>
     off_ExpiresAt j \<ge> off_CreatedAt j + 24 * hour \<and>
     off_Version j \<in> {1, 2, 3} \<and> (off_Status j = Off_Draft \<longrightarrow> off_Version j = 1) \<and>
     (off_Status j = Off_Sent \<longrightarrow> off_Version j = 2)"
  using offer_reachable_wf [OF assms] offer_version [OF assms]
  by (simp add: offer_wf_def MinOfferDuration_def)

lemma demo_offer_reachable: "offer_reachable demo_offer"
proof (rule offer_reachable.created)
  have "currency_Valid ''EUR''" "trim_space ''x'' = ''x''" by code_simp+
  then show "Create_offer 19 1 5000 ''EUR'' ''x'' MinOfferDuration 0 = Inr demo_offer"
    by (simp add: Create_offer_def demo_offer_def)
qed

theorem offer_bounds_witness: "Compensation demo_offer > 0 \<and> off_Version demo_offer = 1"
  using offer_bounds [OF demo_offer_reachable] by (simp add: demo_offer_def)

section \<open>Texts, errors, transactions\<close>

text \<open>
  ParseStage reads exactly the nine stage names and is the inverse of their printing.
\<close>

theorem ParseStage_roundtrip:
  "ParseStage quote v = Inr s \<longleftrightarrow> stage_Valid s \<and> stage_String s = v"
  by (auto simp: ParseStage_def Let_def to_stage_String dest: to_stage_valid)

lemma transition_code: "normalizeCode ''invalid_stage_transition'' = ''invalid_stage_transition''"
  by code_simp

lemma not_found_texts:
  "normalizeCode ''application_not_found'' = ''application_not_found''"
  "normalizeMessage ''application not found'' = ''application not found''"
  by code_simp+

text \<open>
  A caller sees a refused stage change as FailedPrecondition with the reason
  invalid_stage_transition in the domain of the service, and a missing application as NotFound.
\<close>

theorem refused_change_on_the_wire:
  assumes "ChangeStage fresh t actor reason now a = Inl e" and "actor \<noteq> uuid_nil"
  shows "Resolve_error (change_stage_error e) =
           Some (codes_FailedPrecondition, trim_space (err_Error e), ''invalid_stage_transition'',
                 ''careeria.hiring'') \<and>
         Resolve_error (app_load_error (Sentinel (S_app App_ErrNotFound))) =
           Some (codes_NotFound, ''application not found'', ''application_not_found'',
                 ''careeria.hiring'')"
proof -
  have "errors_is e (S_app App_ErrInvalidStageTransition)"
    using ChangeStage_Inl [OF assms(1)] assms by (auto simp: ChangeStage_def split: if_splits)
  then show ?thesis
    by (simp add: change_stage_error_def app_load_error_def Resolve_error_def apperr_defs
        transition_code not_found_texts normalizeMessage_def [of "err_Error e"])
qed

theorem refused_change_on_the_wire_witness:
  "\<exists>e. ChangeStage 3 StageHired 9 '''' 2000 demo_app = Inl e \<and>
     (\<exists>m. Resolve_error (change_stage_error e) =
        Some (codes_FailedPrecondition, m, ''invalid_stage_transition'', ''careeria.hiring''))"
proof -
  obtain e where e: "ChangeStage 3 StageHired 9 '''' 2000 demo_app = Inl e"
    by (simp add: ChangeStage_def demo_app_def stage_CanTransitionTo_def)
  then show ?thesis
    using refused_change_on_the_wire [OF e] by auto
qed

text \<open>
  C10. The transaction manager is all or nothing over any database that keeps its promises: when
  Do reports success the function reported success inside a transaction and exactly its writes are
  stored; when Do reports an error or panics nothing changed, whatever the function wrote before.
\<close>

theorem Do_all_or_nothing:
  assumes "transactional m stored snapshot" and "tx_manager_Do m None fn w = (r, w')"
  shows "(if r = Return None
          then \<exists>tx w1 w2. stored w1 = stored w \<and> fn (Some tx) w1 = (Return None, w2) \<and>
                 stored w' = stored w2
          else stored w' = stored w)"
  using transactional.Do_restores [OF assms(1,2)] transactional.Do_commits [OF assms(1)] assms(2)
  by simp

text \<open>The witness is a function that writes and then panics.\<close>

theorem Do_all_or_nothing_witness:
  "let fn = (\<lambda>_ w. (Panic, w\<lparr>m_apps := [demo_app]\<rparr>));
       w' = snd (tx_manager_Do mem_tx None fn empty_mem)
   in mem_stored w' = mem_stored empty_mem \<and> st_apps (mem_stored empty_mem) = Map.empty"
proof -
  let ?fn = "\<lambda>_ w. (Panic, w\<lparr>m_apps := [demo_app]\<rparr>)"
  have "tx_manager_Do mem_tx None ?fn empty_mem =
      (Panic, snd (tx_manager_Do mem_tx None ?fn empty_mem))"
    by (simp add: tx_manager_Do_def mem_tx_def finish_def)
  from Do_all_or_nothing [OF mem_db.transactional_axioms this] show ?thesis
    by (auto simp: Let_def lookup_row_def empty_mem_def)
qed

text \<open>
  Declining or revoking an offer gives the application back to the interviews: the offer
  becomes DECLINED or REVOKED and its application, which was waiting for the answer, is in
  INTERVIEW again, in one commit.
\<close>

theorem offer_given_back:
  assumes "offer_env P stored"
    and "DeclineOffer P input w = (Inr (), w') \<or> RevokeOffer P input w = (Inr (), w')"
  shows "\<exists>j k a b.
     st_offs (stored w) (oi_OfferID input) = Some j \<and> off_Status j \<in> {Off_Draft, Off_Sent} \<and>
     st_offs (stored w') (oi_OfferID input) = Some k \<and> off_Status k \<in> {Off_Declined, Off_Revoked} \<and>
     st_apps (stored w) (off_ApplicationID j) = Some a \<and>
     CurrentStage a \<in> {StageScreening, StageTechAssessment, StageOfferPending} \<and>
     st_apps (stored w') (off_ApplicationID j) = Some b \<and> CurrentStage b = StageInterview"
  using assms(2)
proof
  assume "DeclineOffer P input w = (Inr (), w')"
  from outcome_ok [OF offer_env.DeclineOffer_outcome [OF assms(1)] this] show ?thesis
    by (auto simp: off_app_commit_def Decline_def ChangeStage_Inr_iff into_stage split: if_splits)
next
  assume "RevokeOffer P input w = (Inr (), w')"
  from outcome_ok [OF offer_env.RevokeOffer_outcome [OF assms(1)] this] show ?thesis
    by (auto simp: off_app_commit_def Revoke_offer_def ChangeStage_Inr_iff into_stage split: if_splits)
qed

definition demo_decline :: offer_reason_input where
  "demo_decline = \<lparr>oi_OfferID = 19, oi_ActorID = 8, oi_Reason = ''other job''\<rparr>"

lemma demo_decline_ok:
  "DeclineOffer mem_offer_ports demo_decline (demo_mem 8) =
     (Inr (), snd (DeclineOffer mem_offer_ports demo_decline (demo_mem 8)))"
proof -
  have "isl (fst (DeclineOffer mem_offer_ports demo_decline (demo_mem 8))) = False"
    by code_simp
  then show ?thesis
    using ok_result [of "DeclineOffer mem_offer_ports demo_decline (demo_mem 8)"] by simp
qed

theorem offer_given_back_witness:
  "\<exists>b. st_apps (mem_stored (snd (DeclineOffer mem_offer_ports demo_decline (demo_mem 8))))
         b \<noteq> None"
  using offer_given_back [OF mem_off.offer_env_axioms disjI1 [OF demo_decline_ok]] by auto

section \<open>What the model shows of the code's gaps\<close>

text \<open>
  An expired draft cannot become EXPIRED in the database: \<open>Send\<close> marks it and reports an error, on
  which the use case returns without saving, and \<open>Expire\<close> wants a sent offer.
\<close>

theorem draft_never_expires:
  assumes "store_step s s'" and "st_offs s k = Some j" and "off_Status j = Off_Draft"
    and "offs_wf s" and "st_offs s' k = Some j'"
  shows "off_Status j' \<noteq> Off_Expired"
  using assms
  by (cases rule: store_step.cases)
     (auto simp: offs_wf_def record_ops set_status_def dest: all_rowsD Create_offer_fields split: if_splits)

text \<open>
  \<open>CreateOffer\<close> moves an application to OFFER_PENDING without any interview, which \<open>ChangeStage\<close>
  refuses: only the latter asks the eligibility policy.
\<close>

definition no_interview_mem :: mem where
  "no_interview_mem = snd (serve mem_services (demo_calls ! 6) (demo_mem 3))"

theorem offer_without_interview:
  "map CurrentStage (m_apps no_interview_mem) = [StageOfferPending] \<and>
   length (m_offs no_interview_mem) = 1 \<and> length (m_ints no_interview_mem) = 0 \<and>
   isl (fst (serve mem_services (demo_move StageOfferPending) (demo_mem 3)))"
  by (intro conjI; code_simp)

text \<open>\<open>ChangeStage\<close> takes an application through OFFER_ACCEPTED to HIRED without any offer.\<close>

definition no_offer_mem :: mem where
  "no_offer_mem = the (serve_all mem_services mem_stored
     (map demo_move [StageOfferPending, StageOfferAccepted, StageHired]) (demo_mem 6))"

definition stages_and_offers :: "mem \<Rightarrow> pipeline_stage list \<times> nat" where
  "stages_and_offers w = (map CurrentStage (m_apps w), length (m_offs w))"

lemma no_offer_run: "stages_and_offers no_offer_mem = ([StageHired], 0)"
  by code_simp

theorem hired_without_offer:
  "map CurrentStage (m_apps no_offer_mem) = [StageHired] \<and> length (m_offs no_offer_mem) = 0"
  using no_offer_run by (simp add: stages_and_offers_def)

text \<open>
  \<open>GetMeetingAccess\<close> asks no permission: a user who is no participant gets a token for the room
  even where the authorization port denies everything.
\<close>

definition stranger_access :: "meeting_access mem_result" where
  "stranger_access =
     GetMeetingAccess mem_interview_ports \<lparr>ii_InterviewID = 11, ii_ActorID = 666\<rparr>
       ((demo_mem 4)\<lparr>m_deny := True\<rparr>)"

theorem meeting_access_for_anyone:
  "map_sum (\<lambda>e. ()) ma_Token (fst stranger_access) = Inr ''token_interview-11_666'' \<and>
   isl (fst (GetInterview mem_interview_ports 11 666 ((demo_mem 4)\<lparr>m_deny := True\<rparr>)))"
  by (intro conjI; code_simp)

end
