(* ===== verification/Retry.thy ===== *)
theory Retry
  imports Prelude
begin

unbundle bit_operations_syntax

text \<open>
  The package \<open>packages/go/retry\<close>: backoff functions on 64-bit durations, retry predicates, and the
  retry loop \<open>Do\<close> over an operation, a context and a timer that are ports. \<open>WithJitter\<close> is not
  modelled: it multiplies by a \<open>float64\<close>.
\<close>

section \<open>Durations of 64 bits\<close>

text \<open>\<open>time.Duration\<close> is an \<open>int64\<close> of nanoseconds; comparisons are signed and \<open>*\<close> wraps.\<close>

type_synonym duration64 = int64

definition MaxInt64 :: int64 where
  "MaxInt64 = 2 ^ 63 - 1"

definition positiveDuration :: "duration64 \<Rightarrow> duration64" where
  "positiveDuration value = (if sint value \<le> 0 then 0 else value)"

definition capDuration :: "duration64 \<Rightarrow> duration64 \<Rightarrow> duration64" where
  "capDuration value mx = (if sint mx > 0 \<and> sint value > sint mx then mx else value)"

type_synonym backoff = "int64 \<Rightarrow> duration64"

definition NoBackoff :: backoff where
  "NoBackoff n = 0"

definition Constant :: "duration64 \<Rightarrow> backoff" where
  "Constant delay n = positiveDuration delay"

text \<open>
  \<open>bits.UintSize\<close> is 64. The shift \<open>math.MaxInt64>>power\<close> is on \<open>int64\<close>, and the multiplication
  is the wrapping one.
\<close>

definition Exponential :: "duration64 \<Rightarrow> duration64 \<Rightarrow> backoff" where
  "Exponential base0 max0 n =
     (let base = positiveDuration base0;
          mx = positiveDuration max0
      in if sint n \<le> 1 \<or> base = 0 then base
         else let power = n - 1
         in if sint power \<ge> 64 - 2 then capDuration base mx
            else if sint base > sint (signed_drop_bit (unat power) MaxInt64)
            then capDuration MaxInt64 mx
            else capDuration (base * push_bit (unat power) 1) mx)"


section \<open>Backoff in integers\<close>

lemma sint_positiveDuration: "sint (positiveDuration d) = max 0 (sint d)"
  by (simp add: positiveDuration_def max_def)

lemma positive_nonneg: "0 \<le> sint (positiveDuration d)"
  by (simp add: sint_positiveDuration)

lemma sint_capDuration:
  "sint (capDuration v m) = (if sint m > 0 then min (sint v) (sint m) else sint v)"
  by (auto simp: capDuration_def min_def)

lemma sint_MaxInt64: "sint MaxInt64 = 2 ^ 63 - 1"
  by (simp add: MaxInt64_def)

lemma sint_drop_MaxInt64: "sint (signed_drop_bit n MaxInt64) = (2 ^ 63 - 1) div 2 ^ n"
proof -
  have "sint (signed_drop_bit n MaxInt64) = drop_bit n (sint MaxInt64)"
    by (simp add: sint_signed_drop_bit_eq)
  then show ?thesis
    by (simp add: sint_MaxInt64 drop_bit_eq_div)
qed

lemma sint_small: "0 \<le> x \<Longrightarrow> x < 2 ^ 63 \<Longrightarrow> sint (word_of_int x :: int64) = x"
  by (simp add: sint_uint uint_word_of_int take_bit_int_eq_self signed_take_bit_int_eq_self)

text \<open>The unit of the shift, in range.\<close>

lemma power_word:
  assumes "1 < sint n" and "sint n < 63"
  shows "sint (n - 1 :: int64) = sint n - 1" and "unat (n - 1) = nat (sint n - 1)"
proof -
  have n: "n = word_of_int (sint n)" by simp
  show s: "sint (n - 1) = sint n - 1"
    by (subst n, subst word_of_int_1 [symmetric], subst wi_hom_sub, rule sint_small)
       (use assms in auto)
  have "uint (n - 1) = sint (n - 1)"
    using s assms by (simp add: uint_sint [of "n - 1"] take_bit_int_eq_self)
  then show "unat (n - 1) = nat (sint n - 1)"
    using s by (simp add: unat_eq_nat_uint)
qed

lemma sint_pow2:
  assumes "k < 63"
  shows "sint (2 ^ k :: int64) = 2 ^ k"
proof -
  have "(2 :: int) ^ k < 2 ^ 63"
    using assms by (intro power_strict_increasing) simp_all
  moreover have "(2 ^ k :: int64) = word_of_int (2 ^ k)"
    by simp
  ultimately show ?thesis
    using sint_small [of "2 ^ k"] by (simp only: zero_le_power zero_le_numeral simp_thms)
qed

lemma sint_times:
  assumes "0 \<le> sint x" and "0 \<le> sint y" and "sint x * sint y < 2 ^ 63"
  shows "sint (x * y :: int64) = sint x * sint y"
proof -
  have "x * y = word_of_int (sint x) * word_of_int (sint y)" by simp
  also have "\<dots> = word_of_int (sint x * sint y)" by (simp only: wi_hom_mult)
  finally have "x * y = word_of_int (sint x * sint y)" .
  moreover have "0 \<le> sint x * sint y"
    using assms by simp
  ultimately show ?thesis
    using sint_small [OF _ assms(3)] by (simp only: simp_thms)
qed

lemma int_div_less_iff:
  fixes a b p :: int
  assumes "0 < p"
  shows "a div p < b \<longleftrightarrow> a < b * p"
proof
  assume "a div p < b"
  then have "(a div p + 1) * p \<le> b * p"
    using assms by (intro mult_right_mono) simp_all
  moreover have "a < (a div p + 1) * p"
    using pos_mod_bound [OF assms, of a] div_mult_mod_eq [of a p]
    by (simp only: distrib_right mult_1)
  ultimately show "a < b * p" by simp
next
  assume *: "a < b * p"
  show "a div p < b"
  proof (rule ccontr)
    assume "\<not> a div p < b"
    then have "b * p \<le> (a div p) * p"
      using assms by (intro mult_right_mono) simp_all
    also have "\<dots> \<le> a"
      using pos_mod_sign [OF assms, of a] div_mult_mod_eq [of a p] by linarith
    finally show False using * by simp
  qed
qed

text \<open>
  In range, the delay is the doubled base, saturated at the largest duration and at the given
  maximum: the multiplication of the code never wraps.
\<close>

definition saturated :: "int \<Rightarrow> int \<Rightarrow> nat \<Rightarrow> int" where
  "saturated b m k = (let v = min (b * 2 ^ k) (2 ^ 63 - 1) in if m > 0 then min v m else v)"

lemma Exponential_in_range:
  assumes "1 < sint n" and "sint n < 63"
  shows "sint (Exponential base0 max0 n) =
     (let b = max 0 (sint base0) in
      if b = 0 then 0 else saturated b (max 0 (sint max0)) (nat (sint n - 1)))"
proof -
  define b where "b = positiveDuration base0"
  define m where "m = positiveDuration max0"
  define k where "k = nat (sint n - 1)"
  have k: "sint (n - 1) = sint n - 1" "unat (n - 1) = k" "k < 62"
    using power_word [OF assms] assms by (simp_all add: k_def)
  have b0: "0 \<le> sint b" and bm: "sint b = max 0 (sint base0)" "sint m = max 0 (sint max0)"
    by (simp_all add: b_def m_def sint_positiveDuration)
  have unfolded: "Exponential base0 max0 n =
      (if b = 0 then b
       else if sint b > (2 ^ 63 - 1) div 2 ^ k then capDuration MaxInt64 m
       else capDuration (b * push_bit k 1) m)"
    using assms k by (simp add: Exponential_def Let_def b_def m_def sint_drop_MaxInt64)
  show ?thesis
  proof (cases "b = 0")
    case True
    then show ?thesis using unfolded bm by (simp add: Let_def)
  next
    case False
    then have pos: "sint b > 0"
      using b0 by (metis order_le_less signed_eq_0_iff)
    have big: "sint b > (2 ^ 63 - 1) div 2 ^ k \<longleftrightarrow> sint b * 2 ^ k > 2 ^ 63 - 1"
      by (simp add: int_div_less_iff)
    show ?thesis
    proof (cases "sint b > (2 ^ 63 - 1) div 2 ^ k")
      case True
      with False big pos bm show ?thesis
        unfolding unfolded
        by (simp add: sint_capDuration sint_MaxInt64 saturated_def Let_def k_def [symmetric] min_def)
    next
      case small: False
      then have "sint b * 2 ^ k < 2 ^ 63"
        using big by simp
      then have "sint (b * push_bit k 1) = sint b * 2 ^ k"
        using k(3) b0 by (simp add: sint_times sint_pow2)
      with False small big pos bm show ?thesis
        unfolding unfolded
        by (simp add: sint_capDuration saturated_def Let_def k_def [symmetric] min_def)
    qed
  qed
qed

text \<open>So, in range, the delays never shrink from one attempt to the next.\<close>

lemma saturated_mono: "0 \<le> b \<Longrightarrow> j \<le> k \<Longrightarrow> saturated b m j \<le> saturated b m k"
proof -
  assume "0 \<le> b" "j \<le> k"
  then have "b * 2 ^ j \<le> b * 2 ^ k"
    by (intro mult_left_mono power_increasing) simp_all
  then show ?thesis by (auto simp: saturated_def Let_def min_def)
qed

text \<open>Beyond attempt 62 the code falls back to the base, and the first delay is not capped.\<close>

lemma Exponential_late:
  "sint n \<ge> 63 \<Longrightarrow> sint (n - 1) \<ge> 62 \<Longrightarrow>
     Exponential base0 max0 n = capDuration (positiveDuration base0) (positiveDuration max0)"
  by (auto simp: Exponential_def Let_def capDuration_def)

lemma Exponential_first: "sint n \<le> 1 \<Longrightarrow> Exponential base0 max0 n = positiveDuration base0"
  by (simp add: Exponential_def Let_def)

section \<open>Predicates\<close>

type_synonym ('a, 'k) retry_if = "'a \<Rightarrow> 'k error option \<Rightarrow> bool"

definition OnError :: "('a, 'k) retry_if" where
  "OnError result err \<longleftrightarrow> err \<noteq> None"

definition OnResult :: "('a \<Rightarrow> bool) option \<Rightarrow> ('a, 'k) retry_if" where
  "OnResult fn result err \<longleftrightarrow>
     err = None \<and> (case fn of None \<Rightarrow> False | Some f \<Rightarrow> f result)"

definition Never :: "('a, 'k) retry_if" where
  "Never result err \<longleftrightarrow> False"

text \<open>\<open>Any\<close> and \<open>All\<close> loop over rules that may be nil.\<close>

fun Any_rules :: "('a, 'k) retry_if option list \<Rightarrow> ('a, 'k) retry_if" where
  "Any_rules [] result err = False"
| "Any_rules (rule # rules) result err =
     (case rule of
        Some f \<Rightarrow> if f result err then True else Any_rules rules result err
      | None \<Rightarrow> Any_rules rules result err)"

fun All_loop :: "bool \<Rightarrow> ('a, 'k) retry_if option list \<Rightarrow> ('a, 'k) retry_if" where
  "All_loop matched [] result err = matched"
| "All_loop matched (rule # rules) result err =
     (case rule of
        None \<Rightarrow> All_loop matched rules result err
      | Some f \<Rightarrow> if \<not> f result err then False else All_loop True rules result err)"

definition All_rules :: "('a, 'k) retry_if option list \<Rightarrow> ('a, 'k) retry_if" where
  "All_rules rules result err = All_loop False rules result err"

lemma Any_rules_iff: "Any_rules rules r e \<longleftrightarrow> (\<exists>f. Some f \<in> set rules \<and> f r e)"
  by (induction rules) (auto split: option.splits)

lemma All_loop_iff:
  "All_loop b rules r e \<longleftrightarrow>
     (\<forall>f. Some f \<in> set rules \<longrightarrow> f r e) \<and> (b \<or> (\<exists>f. Some f \<in> set rules))"
  by (induction rules arbitrary: b) (auto split: option.splits)

lemma All_rules_iff:
  "All_rules rules r e \<longleftrightarrow>
     (\<forall>f. Some f \<in> set rules \<longrightarrow> f r e) \<and> (\<exists>f. Some f \<in> set rules)"
  by (simp add: All_rules_def All_loop_iff)


section \<open>The retry loop\<close>

record ('a, 'k) retry_event =
  ev_Attempt :: int
  ev_NextAttempt :: int
  ev_Result :: 'a
  ev_Err :: "'k error option"
  ev_Delay :: duration64

record ('w, 'a, 'k) retry_config =
  MaxAttempts :: int
  Backoff :: "backoff option"
  RetryIf :: "('a, 'k) retry_if option"
  OnRetry :: "(('a, 'k) retry_event \<Rightarrow> 'w \<Rightarrow> 'w) option"

text \<open>
  The ports: the context, whose error is one of the sentinels of the \<open>context\<close> package once it is
  done, and the \<open>select\<close> of \<open>wait\<close> between the timer and the context.
\<close>

record ('w, 'k) retry_ports =
  ctx_Err :: "'w \<Rightarrow> 'k option \<times> 'w"
  wait_timer :: "duration64 \<Rightarrow> 'w \<Rightarrow> 'k option \<times> 'w"

definition normalizeConfig :: "('w, 'a, 'k) retry_config \<Rightarrow> ('w, 'a, 'k) retry_config" where
  "normalizeConfig cfg =
     cfg\<lparr>MaxAttempts := (if MaxAttempts cfg \<le> 0 then 1 else MaxAttempts cfg),
         Backoff := Some (case Backoff cfg of None \<Rightarrow> NoBackoff | Some b \<Rightarrow> b),
         RetryIf := Some (case RetryIf cfg of None \<Rightarrow> OnError | Some r \<Rightarrow> r)\<rparr>"

text \<open>The loop runs on a normalised configuration, where the predicate is present.\<close>

definition shouldRetry ::
  "('w, 'a, 'k) retry_config \<Rightarrow> int \<Rightarrow> 'a \<Rightarrow> 'k error option \<Rightarrow> bool" where
  "shouldRetry cfg n result err =
     (if n \<ge> MaxAttempts cfg then False
      else case RetryIf cfg of None \<Rightarrow> False | Some r \<Rightarrow> r result err)"

definition joinContextError :: "'k error option \<Rightarrow> 'k option \<Rightarrow> 'k error option" where
  "joinContextError err ctxErr =
     (case ctxErr of
        None \<Rightarrow> err
      | Some c \<Rightarrow>
          (case err of
             None \<Rightarrow> Some (Sentinel c)
           | Some e \<Rightarrow> if errors_is e c then Some (Sentinel c) else Some (Join [e, Sentinel c])))"

definition report_retry ::
  "('w, 'a, 'k) retry_config \<Rightarrow> int \<Rightarrow> 'a \<Rightarrow> 'k error option \<Rightarrow> duration64 \<Rightarrow> 'w \<Rightarrow> 'w" where
  "report_retry cfg n result err delay w =
     (case OnRetry cfg of
        None \<Rightarrow> w
      | Some f \<Rightarrow> f \<lparr>ev_Attempt = n, ev_NextAttempt = n + 1, ev_Result = result, ev_Err = err,
                     ev_Delay = delay\<rparr> w)"

definition delay_of :: "('w, 'a, 'k) retry_config \<Rightarrow> int \<Rightarrow> duration64" where
  "delay_of cfg n =
     positiveDuration (case Backoff cfg of None \<Rightarrow> 0 | Some b \<Rightarrow> b (word_of_int n))"

type_synonym ('w, 'a, 'k) retry_op = "'w \<Rightarrow> ('a \<times> 'k error option) \<times> 'w"

text \<open>
  One round of the loop: \<open>Inl\<close> is a return, \<open>Inr\<close> the next attempt.
\<close>

definition retry_round ::
  "('w, 'k) retry_ports \<Rightarrow> ('w, 'a, 'k) retry_config \<Rightarrow> ('w, 'a, 'k) retry_op \<Rightarrow> int \<Rightarrow> 'w
     \<Rightarrow> ('a \<times> 'k error option + unit) \<times> 'w" where
  "retry_round P cfg operation n w =
     (case operation w of ((result, err), w) \<Rightarrow>
        if \<not> shouldRetry cfg n result err then (Inl (result, err), w)
        else let delay = delay_of cfg n; w = report_retry cfg n result err delay w
        in case ctx_Err P w of
             (Some c, w) \<Rightarrow> (Inl (result, joinContextError err (Some c)), w)
           | (None, w) \<Rightarrow>
               if sint delay \<le> 0 then (Inr (), w)
               else (case wait_timer P delay w of
                       (Some c, w) \<Rightarrow> (Inl (result, joinContextError err (Some c)), w)
                     | (None, w) \<Rightarrow> (Inr (), w)))"

text \<open>A round goes on only below the last attempt, so the loop ends.\<close>

lemma retry_round_continues:
  "retry_round P cfg operation n w = (Inr u, w') \<Longrightarrow> n < MaxAttempts cfg"
  by (auto simp: retry_round_def shouldRetry_def Let_def split: prod.splits option.splits if_splits)

function retry_loop ::
  "('w, 'k) retry_ports \<Rightarrow> ('w, 'a, 'k) retry_config \<Rightarrow> ('w, 'a, 'k) retry_op \<Rightarrow> int \<Rightarrow> 'w
     \<Rightarrow> ('a \<times> 'k error option) \<times> 'w" where
  "retry_loop P cfg operation n w =
     (case retry_round P cfg operation n w of
        (Inl r, w') \<Rightarrow> (r, w')
      | (Inr _, w') \<Rightarrow> retry_loop P cfg operation (n + 1) w')"
  by pat_completeness auto
termination
  by (relation "measure (\<lambda>(P, cfg, operation, n, w). nat (MaxAttempts cfg - n))")
     (auto dest: retry_round_continues [OF sym])

declare retry_loop.simps [simp del]

text \<open>\<open>zero\<close> is the zero value of the result type.\<close>

definition retry_Do ::
  "'a \<Rightarrow> ('w, 'k) retry_ports option \<Rightarrow> ('w, 'a, 'k) retry_config \<Rightarrow> ('w, 'a, 'k) retry_op option
     \<Rightarrow> 'w \<Rightarrow> ('a \<times> 'k error option) \<times> 'w" where
  "retry_Do zero ctx cfg operation w =
     (case ctx of
        None \<Rightarrow> ((zero, Some (Fresh ''retry: context is nil'')), w)
      | Some P \<Rightarrow>
          (case operation of
             None \<Rightarrow> ((zero, Some (Fresh ''retry: operation is nil'')), w)
           | Some op \<Rightarrow>
               (case ctx_Err P w of
                  (Some c, w) \<Rightarrow> ((zero, Some (Sentinel c)), w)
                | (None, w) \<Rightarrow> retry_loop P (normalizeConfig cfg) op 1 w)))"


section \<open>What the loop promises\<close>

text \<open>
  A meter of the world that only the operation moves counts its calls; the loop may call it as
  often as attempts are left.
\<close>

definition meters ::
  "('w \<Rightarrow> nat) \<Rightarrow> ('w, 'k) retry_ports \<Rightarrow> ('w, 'a, 'k) retry_config \<Rightarrow> ('w, 'a, 'k) retry_op \<Rightarrow> bool" where
  "meters calls P cfg operation \<longleftrightarrow>
     (\<forall>w. calls (snd (operation w)) = calls w + 1) \<and>
     (\<forall>w. calls (snd (ctx_Err P w)) = calls w) \<and>
     (\<forall>d w. calls (snd (wait_timer P d w)) = calls w) \<and>
     (\<forall>e f w. OnRetry cfg = Some f \<longrightarrow> calls (f e w) = calls w)"

lemma meter_ctx: "meters calls P cfg operation \<Longrightarrow> ctx_Err P w = (c, w') \<Longrightarrow> calls w' = calls w"
  unfolding meters_def by (metis snd_conv)

lemma retry_round_meter:
  assumes "meters calls P cfg operation" and "retry_round P cfg operation n w = (x, w')"
  shows "calls w' = calls w + 1"
proof -
  have report: "calls (report_retry cfg n r e d w) = calls w" for r e d w
    using assms(1) by (auto simp: report_retry_def meters_def split: option.splits)
  obtain r e w1 where op: "operation w = ((r, e), w1)"
    by (metis prod.collapse)
  let ?w2 = "report_retry cfg n r e (delay_of cfg n) w1"
  obtain c w3 where ctx: "ctx_Err P ?w2 = (c, w3)" by fastforce
  obtain c' w4 where wt: "wait_timer P (delay_of cfg n) w3 = (c', w4)" by fastforce
  have "calls w1 = calls w + 1" "calls ?w2 = calls w1" "calls w3 = calls ?w2" "calls w4 = calls w3"
    using assms(1) op report ctx wt by (metis meters_def snd_conv)+
  then show ?thesis
    using assms(2)
    by (auto simp: retry_round_def Let_def op ctx wt split: option.splits if_splits)
qed

lemma retry_loop_meter:
  assumes "meters calls P cfg operation"
  shows "calls w + 1 \<le> calls (snd (retry_loop P cfg operation n w)) \<and>
     int (calls (snd (retry_loop P cfg operation n w))) \<le>
       int (calls w) + max 1 (MaxAttempts cfg - n + 1)"
  using assms
proof (induction P cfg operation n w rule: retry_loop.induct)
  case (1 P cfg operation n w)
  obtain x w1 where round: "retry_round P cfg operation n w = (x, w1)" by fastforce
  have one: "calls w1 = calls w + 1"
    using retry_round_meter [OF "1.prems" round] .
  show ?case
  proof (cases x)
    case (Inl r)
    with round one show ?thesis by (simp add: retry_loop.simps [of P cfg operation n w])
  next
    case (Inr u)
    with round have "retry_round P cfg operation n w = (Inr u, w1)" by simp
    then have "n < MaxAttempts cfg"
      by (rule retry_round_continues)
    moreover have "calls w1 + 1 \<le> calls (snd (retry_loop P cfg operation (n + 1) w1)) \<and>
        int (calls (snd (retry_loop P cfg operation (n + 1) w1))) \<le>
          int (calls w1) + max 1 (MaxAttempts cfg - (n + 1) + 1)"
      using "1.IH" [OF round [symmetric] Inr "1.prems"] .
    ultimately show ?thesis
      using round Inr one by (simp add: retry_loop.simps [of P cfg operation n w])
  qed
qed

text \<open>The result is that of the last call: an error of the loop is the operation's, or joins it.\<close>

lemma retry_round_result:
  assumes "retry_round P cfg operation n w = (Inl (r, e), w')"
  shows "\<exists>e0 w1 w2. operation w1 = ((r, e0), w2) \<and> (e = e0 \<or> (\<exists>c. e = joinContextError e0 (Some c)))"
  using assms by (auto simp: retry_round_def Let_def split: prod.splits if_splits option.splits)

lemma retry_loop_result:
  "retry_loop P cfg operation n w = ((r, e), w') \<Longrightarrow>
     \<exists>e0 w1 w2. operation w1 = ((r, e0), w2) \<and> (e = e0 \<or> (\<exists>c. e = joinContextError e0 (Some c)))"
proof (induction P cfg operation n w rule: retry_loop.induct)
  case (1 P cfg operation n w)
  obtain x w1 where round: "retry_round P cfg operation n w = (x, w1)" by fastforce
  show ?case
  proof (cases x)
    case (Inl y)
    with round "1.prems" have "y = (r, e)" by (simp add: retry_loop.simps [of P cfg operation n w])
    with round Inl have "retry_round P cfg operation n w = (Inl (r, e), w1)" by simp
    then show ?thesis by (rule retry_round_result)
  next
    case (Inr u)
    with round "1.prems" have "retry_loop P cfg operation (n + 1) w1 = ((r, e), w')"
      by (simp add: retry_loop.simps [of P cfg operation n w])
    from "1.IH" [OF round [symmetric] Inr this] show ?thesis .
  qed
qed

text \<open>A success the predicate accepts ends the loop at once.\<close>

lemma retry_loop_stops:
  assumes "operation w = ((r, e), w1)" and "\<not> shouldRetry cfg n r e"
  shows "retry_loop P cfg operation n w = ((r, e), w1)"
  using assms by (simp add: retry_loop.simps [of P cfg operation n w] retry_round_def)

text \<open>
  While the context lasts and no wait is cut short, the result is that of the first call the
  predicate accepts, or of the last attempt.
\<close>

definition patient :: "('w, 'k) retry_ports \<Rightarrow> bool" where
  "patient P \<longleftrightarrow> (\<forall>w. fst (ctx_Err P w) = None) \<and> (\<forall>d w. fst (wait_timer P d w) = None)"

lemma retry_round_patient:
  assumes "patient P" and "shouldRetry cfg n (fst (fst (operation w))) (snd (fst (operation w)))"
  shows "\<exists>w'. retry_round P cfg operation n w = (Inr (), w')"
proof -
  obtain r e w1 where op: "operation w = ((r, e), w1)"
    by (metis prod.collapse)
  let ?w2 = "report_retry cfg n r e (delay_of cfg n) w1"
  obtain w3 where ctx: "ctx_Err P ?w2 = (None, w3)"
    using assms(1) by (metis patient_def prod.collapse)
  obtain w4 where wt: "wait_timer P (delay_of cfg n) w3 = (None, w4)"
    using assms(1) by (metis patient_def prod.collapse)
  show ?thesis
    using assms(2) by (simp add: retry_round_def op Let_def ctx wt)
qed

lemma retry_loop_exact:
  assumes "meters calls P cfg operation" and "patient P"
    and out: "\<And>w. fst (operation w) = out (calls w)"
    and "\<And>i. i < k \<Longrightarrow> shouldRetry cfg (n + int i) (fst (out (calls w + i))) (snd (out (calls w + i)))"
    and "\<not> shouldRetry cfg (n + int k) (fst (out (calls w + k))) (snd (out (calls w + k)))"
  shows "fst (retry_loop P cfg operation n w) = out (calls w + k) \<and>
     calls (snd (retry_loop P cfg operation n w)) = calls w + k + 1"
  using assms(4,5)
proof (induction k arbitrary: n w)
  case 0
  obtain r e w1 where op: "operation w = ((r, e), w1)"
    by (metis prod.collapse)
  with out [of w] have o: "out (calls w) = (r, e)" by simp
  with 0 op have "retry_loop P cfg operation n w = ((r, e), w1)"
    by (intro retry_loop_stops) simp_all
  moreover have "calls w1 = calls w + 1"
    using assms(1) op by (metis meters_def snd_conv)
  ultimately show ?case using o by simp
next
  case (Suc k)
  have "shouldRetry cfg n (fst (fst (operation w))) (snd (fst (operation w)))"
    using Suc.prems(1) [of 0] out by simp
  then obtain w1 where round: "retry_round P cfg operation n w = (Inr (), w1)"
    using retry_round_patient [OF assms(2)] by blast
  have one: "calls w1 = calls w + 1"
    using retry_round_meter [OF assms(1) round] .
  have "fst (retry_loop P cfg operation (n + 1) w1) = out (calls w1 + k) \<and>
      calls (snd (retry_loop P cfg operation (n + 1) w1)) = calls w1 + k + 1"
    by (rule Suc.IH) (use Suc.prems(1) [of "Suc i" for i] Suc.prems(2) one in \<open>auto simp: ac_simps\<close>)
  with round one show ?case
    by (simp add: retry_loop.simps [of P cfg operation n w])
qed

text \<open>Normalising the configuration leaves the meters alone.\<close>

lemma meters_normalize [simp]: "meters calls P (normalizeConfig cfg) op = meters calls P cfg op"
  by (simp add: meters_def normalizeConfig_def)

lemma MaxAttempts_normalize: "MaxAttempts (normalizeConfig cfg) = max 1 (MaxAttempts cfg)"
  by (simp add: normalizeConfig_def max_def)

lemma shouldRetry_default:
  "RetryIf cfg = None \<Longrightarrow>
     shouldRetry (normalizeConfig cfg) n r e \<longleftrightarrow> n < max 1 (MaxAttempts cfg) \<and> e \<noteq> None"
  by (auto simp: shouldRetry_def normalizeConfig_def OnError_def max_def)

end
