(* ===== verification/Inbox.thy ===== *)
theory Inbox
  imports Txmanager "HOL-Library.Sublist"
begin

text \<open>
  The inbox of incoming messages, \<open>packages/go/inbox\<close>: \<open>WithInbox\<close> records a message and handles it
  in one transaction, and a message already recorded is not handled again. The transaction manager
  and the repository are ports.
\<close>

section \<open>WithInbox\<close>

record ('w, 'k, 'm) inbox =
  inbox_Do :: "('w \<Rightarrow> ('w, 'k, unit) result) \<Rightarrow> 'w \<Rightarrow> ('w, 'k, unit) result"
  inbox_Insert :: "'m \<Rightarrow> 'w \<Rightarrow> ('w, 'k, bool) result"

definition New_inbox ::
  "(('w \<Rightarrow> ('w, 'k, unit) result) \<Rightarrow> 'w \<Rightarrow> ('w, 'k, unit) result) option
     \<Rightarrow> ('m \<Rightarrow> 'w \<Rightarrow> ('w, 'k, bool) result) option \<Rightarrow> 'k error + ('w, 'k, 'm) inbox" where
  "New_inbox txManager repository =
     (case txManager of
        None \<Rightarrow> Inl (Fresh ''inbox: tx manager is nil'')
      | Some tx \<Rightarrow>
          (case repository of
             None \<Rightarrow> Inl (Fresh ''inbox: repository is nil'')
           | Some insert_message \<Rightarrow> Inr \<lparr>inbox_Do = tx, inbox_Insert = insert_message\<rparr>))"

definition WithInbox ::
  "('w, 'k, 'm) inbox \<Rightarrow> 'm \<Rightarrow> ('w \<Rightarrow> ('w, 'k, unit) result) option \<Rightarrow> 'w \<Rightarrow> ('w, 'k, unit) result" where
  "WithInbox i message handler w =
     (case handler of
        None \<Rightarrow> (Inl (Fresh ''inbox: handler is nil''), w)
      | Some h \<Rightarrow> inbox_Do i
          (\<lambda>w. attempt (inbox_Insert i message w) (\<lambda>err. Wrap ''insert inbox message: '' err '''')
             (\<lambda>inserted w.
                if \<not> inserted then (Inr (), w)
                else attempt (h w) (\<lambda>err. Wrap ''handle inbox message: '' err '''')
                       (\<lambda>_ w. (Inr (), w)))) w)"


section \<open>What the repository promises\<close>

text \<open>
  What a handler makes of the rest of the state, and what the handlers of several messages make of
  it one after the other.
\<close>

definition effect_of ::
  "('w \<Rightarrow> 'm set \<times> 's) \<Rightarrow> ('w \<Rightarrow> ('w, 'k, unit) result) \<Rightarrow> 's \<Rightarrow> 's \<Rightarrow> bool" where
  "effect_of stored h s s' \<longleftrightarrow>
     (\<exists>w w' seen. stored w = (seen, s) \<and> h w = (Inr (), w') \<and> stored w' = (seen, s'))"

fun effects_of ::
  "('w \<Rightarrow> 'm set \<times> 's) \<Rightarrow> ('m \<Rightarrow> 'w \<Rightarrow> ('w, 'k, unit) result) \<Rightarrow> 'm list \<Rightarrow> 's \<Rightarrow> 's \<Rightarrow> bool" where
  "effects_of stored h [] s s' \<longleftrightarrow> s' = s"
| "effects_of stored h (m # ms) s s' \<longleftrightarrow>
     (\<exists>t. effect_of stored (h m) s t \<and> effects_of stored h ms t s')"

text \<open>A run of deliveries, each of which may fail; a failed one is delivered again later, or not.\<close>

fun deliver ::
  "('w, 'k, 'm) inbox \<Rightarrow> ('m \<Rightarrow> 'w \<Rightarrow> ('w, 'k, unit) result) \<Rightarrow> 'm list \<Rightarrow> 'w \<Rightarrow> 'w" where
  "deliver i h [] w = w"
| "deliver i h (m # ms) w = deliver i h ms (snd (WithInbox i m (Some (h m)) w))"

text \<open>
  The stored state is the set of recorded messages and the rest, which the handlers work on.
  Inserting a message tells whether it is new, records it, and leaves the rest alone; a handler
  leaves the record alone.
\<close>

locale inbox_store = tx_port "inbox_Do i" stored
  for i :: "('w, 'k, 'm) inbox" and stored :: "'w \<Rightarrow> 'm set \<times> 's" +
  assumes Insert_ok: "inbox_Insert i m w = (Inr b, w') \<Longrightarrow>
      (b \<longleftrightarrow> m \<notin> fst (stored w)) \<and> stored w' = (insert m (fst (stored w)), snd (stored w))"
begin

lemma WithInbox_err: "WithInbox i m h w = (Inl e, w') \<Longrightarrow> stored w' = stored w"
  by (auto simp: WithInbox_def Do_err split: option.splits)

text \<open>A success records the message; the handler worked exactly when it was new.\<close>

lemma WithInbox_ok:
  assumes "WithInbox i m (Some h) w = (Inr (), w')"
    and h: "\<And>x y u. h x = (Inr u, y) \<Longrightarrow> fst (stored y) = fst (stored x)"
  shows "fst (stored w') = insert m (fst (stored w)) \<and>
     (if m \<in> fst (stored w) then snd (stored w') = snd (stored w)
      else effect_of stored h (snd (stored w)) (snd (stored w')))"
proof -
  from assms(1) have t: "inbox_Do i
      (\<lambda>w. attempt (inbox_Insert i m w) (\<lambda>err. Wrap ''insert inbox message: '' err '''')
         (\<lambda>inserted w. if \<not> inserted then (Inr (), w)
            else attempt (h w) (\<lambda>err. Wrap ''handle inbox message: '' err '''') (\<lambda>_ w. (Inr (), w)))) w =
      (Inr (), w')"
    by (simp add: WithInbox_def)
  from Do_ok [OF t] obtain w1 w2 b w3 where
    w1: "stored w1 = stored w" and w2: "stored w' = stored w2"
    and ins: "inbox_Insert i m w1 = (Inr b, w3)"
    and rest: "(if \<not> b then (Inr (), w3)
       else attempt (h w3) (\<lambda>err. Wrap ''handle inbox message: '' err '''') (\<lambda>_ w. (Inr (), w))) =
       (Inr (), w2)"
    by (elim exE conjE attempt_okE)
  note st = Insert_ok [OF ins]
  show ?thesis
  proof (cases b)
    case False
    with st rest w1 w2 show ?thesis by auto
  next
    case True
    with rest have hw: "h w3 = (Inr (), w2)"
      by (auto simp: attempt_inv)
    then have "fst (stored w2) = fst (stored w3)"
      by (rule h)
    then have "effect_of stored h (snd (stored w3)) (snd (stored w2))"
      unfolding effect_of_def using hw by (metis prod.collapse)
    with st True w1 w2 \<open>fst (stored w2) = fst (stored w3)\<close> show ?thesis by auto
  qed
qed

text \<open>A message delivered again changes nothing.\<close>

lemma WithInbox_redelivered:
  assumes "WithInbox i m (Some h) w = (Inr (), w')" and "m \<in> fst (stored w)"
    and "\<And>x y u. h x = (Inr u, y) \<Longrightarrow> fst (stored y) = fst (stored x)"
  shows "stored w' = stored w"
  using WithInbox_ok [OF assms(1,3)] assms(2) by (auto intro: prod_eqI)

text \<open>
  Over any run of deliveries, the handlers of the recorded messages have worked exactly once each,
  in the order in which the messages were recorded.
\<close>

lemma deliver_once:
  assumes h: "\<And>m x y u. h m x = (Inr u, y) \<Longrightarrow> fst (stored y) = fst (stored x)"
  shows "\<exists>ns. subseq ns ms \<and> distinct ns \<and> set ns \<inter> fst (stored w) = {} \<and>
     fst (stored (deliver i h ms w)) = fst (stored w) \<union> set ns \<and>
     effects_of stored h ns (snd (stored w)) (snd (stored (deliver i h ms w)))"
proof (induction ms arbitrary: w)
  case Nil
  show ?case by (rule exI [of _ "[]"]) simp
next
  case (Cons m ms)
  obtain r w1 where c: "WithInbox i m (Some (h m)) w = (r, w1)" by fastforce
  obtain ns where ns: "subseq ns ms" "distinct ns" "set ns \<inter> fst (stored w1) = {}"
      "fst (stored (deliver i h ms w1)) = fst (stored w1) \<union> set ns"
      "effects_of stored h ns (snd (stored w1)) (snd (stored (deliver i h ms w1)))"
    using Cons.IH [of w1] by blast
  have d: "deliver i h (m # ms) w = deliver i h ms w1"
    by (simp add: c)
  show ?case
  proof (cases r)
    case (Inl e)
    with c have "stored w1 = stored w" using WithInbox_err by simp
    with ns show ?thesis unfolding d by (metis list_emb_Cons)
  next
    case (Inr u)
    have "WithInbox i m (Some (h m)) w = (Inr (), w1)"
      using c Inr by simp
    note ok = WithInbox_ok [OF this h]
    show ?thesis
    proof (cases "m \<in> fst (stored w)")
      case True
      with ok have "fst (stored w1) = fst (stored w)" "snd (stored w1) = snd (stored w)" by auto
      with ns show ?thesis unfolding d by (metis list_emb_Cons)
    next
      case False
      with ok have "effect_of stored (h m) (snd (stored w)) (snd (stored w1))"
          "fst (stored w1) = insert m (fst (stored w))" by auto
      with ns False show ?thesis unfolding d
        by (intro exI [of _ "m # ns"]) auto
    qed
  qed
qed

end


section \<open>In memory\<close>

text \<open>
  A database of recorded messages and one table, with the transactions of \<open>Txmanager\<close> over copies
  of it.
\<close>

record ('m, 's) inbox_mem =
  im_seen :: "'m list"
  im_rest :: 's

definition im_stored :: "('m, 's) inbox_mem \<Rightarrow> 'm set \<times> 's" where
  "im_stored w = (set (im_seen w), im_rest w)"

definition im_tx :: "(('m, 's) inbox_mem, 'k, ('m, 's) inbox_mem) tx_ops" where
  "im_tx =
     \<lparr>Begin = (\<lambda>w. (Inr w, w)), Commit = (\<lambda>tx w. (None, w)), Rollback = (\<lambda>tx w. (None, tx))\<rparr>"

definition im_insert :: "'m \<Rightarrow> ('m, 's) inbox_mem \<Rightarrow> (('m, 's) inbox_mem, 'k, bool) result" where
  "im_insert m w =
     (if m \<in> set (im_seen w) then (Inr False, w)
      else (Inr True, w\<lparr>im_seen := m # im_seen w\<rparr>))"

definition im_inbox :: "(('m, 's) inbox_mem, 'k, 'm) inbox" where
  "im_inbox = \<lparr>inbox_Do = run_tx im_tx, inbox_Insert = im_insert\<rparr>"

interpretation im_db: transactional im_tx im_stored im_stored
  by unfold_locales (auto simp: im_tx_def)

lemma im_Do_ok:
  "run_tx im_tx f w = (Inr (), w') \<Longrightarrow>
     \<exists>w1. im_stored w1 = im_stored w \<and> (\<exists>w2. f w1 = (Inr (), w2) \<and> im_stored w' = im_stored w2)"
  using im_db.Do_ok by blast

lemma im_insert_ok:
  "im_insert m w = (Inr b, w') \<Longrightarrow>
     (b \<longleftrightarrow> m \<notin> fst (im_stored w)) \<and>
     im_stored w' = (insert m (fst (im_stored w)), snd (im_stored w))"
  by (auto simp: im_insert_def im_stored_def insert_absorb split: if_splits)

interpretation im: inbox_store im_inbox im_stored
  by unfold_locales (auto simp: im_inbox_def im_db.Do_err dest: im_Do_ok im_insert_ok)

end
