(* ===== verification/Outbox.thy ===== *)
theory Outbox
  imports Prelude "HOL-Library.Sublist"
begin

text \<open>
  The outbox worker, \<open>packages/go/outbox\<close>: one pass over the pending entries, and the loop that
  repeats it until the worker is drained or its context is done. The repository, the publisher,
  the logger, the context and the timer are ports.
\<close>

section \<open>Configuration\<close>

record outbox_config =
  BatchSize :: int
  PollInterval :: duration
  PublishTimeout :: duration

definition outbox_Validate :: "outbox_config \<Rightarrow> 'k error option" where
  "outbox_Validate c =
     (if BatchSize c \<le> 0 then Some (Fresh ''batch size must be greater than zero'')
      else if PollInterval c \<le> 0 then Some (Fresh ''poll interval must be greater than zero'')
      else if PublishTimeout c \<le> 0 then Some (Fresh ''publish timeout must be greater than zero'')
      else None)"

record 'm entry =
  entry_ID :: string
  ClaimToken :: string
  entry_Message :: 'm

text \<open>
  The ports. \<open>ctx_done\<close> is \<open>ctx.Err() != nil\<close>, which may turn true at any time, \<open>draining\<close> the
  test of the drain channel, \<open>poll_wait\<close> the select of \<open>wait\<close>.
\<close>

record ('w, 'k, 'm) outbox_ports =
  ClaimPending :: "int \<Rightarrow> 'w \<Rightarrow> ('w, 'k, 'm entry list) result"
  MarkPublished :: "'m entry list \<Rightarrow> 'w \<Rightarrow> 'k error option \<times> 'w"
  MarkFailed :: "'m entry \<Rightarrow> 'k error \<Rightarrow> 'w \<Rightarrow> 'k error option \<times> 'w"
  Publish :: "'m \<Rightarrow> 'w \<Rightarrow> 'k error option \<times> 'w"
  LogError :: "string \<Rightarrow> 'k error \<Rightarrow> 'w \<Rightarrow> 'w"
  ctx_done :: "'w \<Rightarrow> bool \<times> 'w"
  draining :: "'w \<Rightarrow> bool \<times> 'w"
  poll_wait :: "duration \<Rightarrow> 'w \<Rightarrow> bool \<times> 'w"

record ('w, 'k, 'm) worker =
  worker_cfg :: outbox_config
  worker_ports :: "('w, 'k, 'm) outbox_ports"

text \<open>The constructor, where each of the three dependencies may be nil.\<close>

definition New_worker ::
  "outbox_config \<Rightarrow> bool \<Rightarrow> bool \<Rightarrow> bool \<Rightarrow> ('w, 'k, 'm) outbox_ports
     \<Rightarrow> 'k error + ('w, 'k, 'm) worker" where
  "New_worker cfg nil_repository nil_publisher nil_logger P =
     (case outbox_Validate cfg of
        Some err \<Rightarrow> Inl (Wrap ''validate outbox worker config: '' err '''')
      | None \<Rightarrow>
          if nil_repository then Inl (Fresh ''outbox worker repository is required'')
          else if nil_publisher then Inl (Fresh ''outbox worker publisher is required'')
          else if nil_logger then Inl (Fresh ''outbox worker logger is required'')
          else Inr \<lparr>worker_cfg = cfg, worker_ports = P\<rparr>)"


section \<open>One pass\<close>

text \<open>
  The body of the loop over the claimed entries: a return because the context is done, an entry
  appended to the published ones, an entry marked as failed, or one that could not be marked.
\<close>

datatype entry_outcome = Interrupted | Published | Failed | Unfinalized

definition publish_entry ::
  "('w, 'k, 'm) outbox_ports \<Rightarrow> 'm entry \<Rightarrow> 'w \<Rightarrow> entry_outcome \<times> 'w" where
  "publish_entry P e w =
     draw (ctx_done P w) (\<lambda>stop w.
       if stop then (Interrupted, w)
       else case Publish P (entry_Message e) w of
         (None, w) \<Rightarrow> (Published, w)
       | (Some err, w) \<Rightarrow>
           draw (ctx_done P w) (\<lambda>stop w.
             if stop then (Interrupted, w)
             else case MarkFailed P e err (LogError P ''publish outbox entry failed'' err w) of
               (None, w) \<Rightarrow> (Failed, w)
             | (Some markErr, w) \<Rightarrow>
                 draw (ctx_done P w) (\<lambda>stop w.
                   if stop then (Interrupted, w)
                   else (Unfinalized, LogError P ''mark outbox entry failed'' markErr w))))"

text \<open>\<open>None\<close> is the early return of the loop.\<close>

fun publish_entries ::
  "('w, 'k, 'm) outbox_ports \<Rightarrow> 'm entry list \<Rightarrow> 'm entry list \<Rightarrow> bool \<Rightarrow> 'w
     \<Rightarrow> ('m entry list \<times> bool) option \<times> 'w" where
  "publish_entries P [] published finalized w = (Some (published, finalized), w)"
| "publish_entries P (e # es) published finalized w =
     (case publish_entry P e w of
        (Interrupted, w) \<Rightarrow> (None, w)
      | (Published, w) \<Rightarrow> publish_entries P es (published @ [e]) finalized w
      | (Failed, w) \<Rightarrow> publish_entries P es published finalized w
      | (Unfinalized, w) \<Rightarrow> publish_entries P es published False w)"

text \<open>An error is logged only while the context is not done.\<close>

definition log_unless_done ::
  "('w, 'k, 'm) outbox_ports \<Rightarrow> string \<Rightarrow> 'k error \<Rightarrow> 'w \<Rightarrow> 'w" where
  "log_unless_done P msg err w =
     draw (ctx_done P w) (\<lambda>stop w. if stop then w else LogError P msg err w)"

definition finish_batch ::
  "('w, 'k, 'm) worker \<Rightarrow> 'm entry list \<Rightarrow> 'm entry list \<Rightarrow> bool \<Rightarrow> 'w \<Rightarrow> bool \<times> 'w" where
  "finish_batch k entries published finalized w =
     (let P = worker_ports k; full = (finalized \<and> int (length entries) = BatchSize (worker_cfg k))
      in if published \<noteq> []
         then (case MarkPublished P published w of
                 (Some err, w) \<Rightarrow>
                   (False, log_unless_done P ''mark outbox entries published failed'' err w)
               | (None, w) \<Rightarrow> (full, w))
         else (full, w))"

definition process :: "('w, 'k, 'm) worker \<Rightarrow> 'w \<Rightarrow> bool \<times> 'w" where
  "process k w =
     (let P = worker_ports k
      in case ClaimPending P (BatchSize (worker_cfg k)) w of
           (Inl err, w) \<Rightarrow> (False, log_unless_done P ''claim pending outbox entries failed'' err w)
         | (Inr entries, w) \<Rightarrow>
             if entries = [] then (False, w)
             else (case publish_entries P entries [] True w of
                     (None, w) \<Rightarrow> (False, w)
                   | (Some (published, finalized), w) \<Rightarrow>
                       finish_batch k entries published finalized w))"


section \<open>The loop of the worker\<close>

text \<open>
  The loop may run forever, so it is a partial function: \<open>None\<close> is a run that does not return. The
  result of a run that returns is the world it leaves.
\<close>

definition stop_requested :: "('w, 'k, 'm) outbox_ports \<Rightarrow> 'w \<Rightarrow> bool \<times> 'w" where
  "stop_requested P w = draw (ctx_done P w) (\<lambda>stop w. if stop then (True, w) else draining P w)"

definition next_poll :: "('w, 'k, 'm) worker \<Rightarrow> bool \<Rightarrow> 'w \<Rightarrow> bool \<times> 'w" where
  "next_poll k full w =
     (if full then (True, w) else poll_wait (worker_ports k) (PollInterval (worker_cfg k)) w)"

partial_function (option) worker_Start :: "('w, 'k, 'm) worker \<Rightarrow> 'w \<Rightarrow> 'w option" where
  "worker_Start k w =
     (let (stop, w1) = stop_requested (worker_ports k) w
      in if stop then Some w1
         else let (full, w2) = process k w1;
                  (stop, w3) = stop_requested (worker_ports k) w2
              in if stop then Some w3
                 else let (again, w4) = next_poll k full w3
                      in if again then worker_Start k w4 else Some w4)"


section \<open>What the publisher and the repository promise\<close>

text \<open>
  \<open>sent\<close> is what the broker has accepted, \<open>marked\<close> the entries recorded as published. A failed
  publish may still have reached the broker, and a failed mark may still have been stored; nothing
  else touches either.
\<close>

locale outbox_env =
  fixes P :: "('w, 'k, 'm) outbox_ports"
    and sent :: "'w \<Rightarrow> 'm list"
    and marked :: "'w \<Rightarrow> 'm entry list"
  assumes Publish_ok: "Publish P m w = (None, w') \<Longrightarrow> sent w' = sent w @ [m] \<and> marked w' = marked w"
    and Publish_err: "Publish P m w = (Some err, w') \<Longrightarrow>
       sent w' \<in> {sent w, sent w @ [m]} \<and> marked w' = marked w"
    and MarkPublished_ok: "MarkPublished P es w = (None, w') \<Longrightarrow>
       sent w' = sent w \<and> marked w' = marked w @ es"
    and MarkPublished_err: "MarkPublished P es w = (Some err, w') \<Longrightarrow>
       sent w' = sent w \<and> marked w' \<in> {marked w, marked w @ es}"
    and MarkFailed_keeps: "MarkFailed P e err w = (r, w') \<Longrightarrow> sent w' = sent w \<and> marked w' = marked w"
    and Claim_keeps: "ClaimPending P n w = (c, w') \<Longrightarrow> sent w' = sent w \<and> marked w' = marked w"
    and Log_keeps: "sent (LogError P msg err w) = sent w \<and> marked (LogError P msg err w) = marked w"
    and ctx_keeps: "ctx_done P w = (b, w') \<Longrightarrow> sent w' = sent w \<and> marked w' = marked w"
    and draining_keeps: "draining P w = (b, w') \<Longrightarrow> sent w' = sent w \<and> marked w' = marked w"
    and wait_keeps: "poll_wait P d w = (b, w') \<Longrightarrow> sent w' = sent w \<and> marked w' = marked w"
begin

text \<open>The outbox invariant: what is marked as published has been sent.\<close>

definition delivered :: "'w \<Rightarrow> bool" where
  "delivered w \<longleftrightarrow> entry_Message ` set (marked w) \<subseteq> set (sent w)"

text \<open>An operation that marks nothing and only adds to what was sent.\<close>

definition only_sends :: "'w \<Rightarrow> 'w \<Rightarrow> bool" where
  "only_sends w w' \<longleftrightarrow> marked w' = marked w \<and> set (sent w) \<subseteq> set (sent w')"

lemma only_sends_refl [simp]: "only_sends w w"
  by (simp add: only_sends_def)

lemma only_sends_trans [trans]: "only_sends u v \<Longrightarrow> only_sends v w \<Longrightarrow> only_sends u w"
  by (auto simp: only_sends_def)

lemma only_sends_delivered: "only_sends w w' \<Longrightarrow> delivered w \<Longrightarrow> delivered w'"
  by (auto simp: only_sends_def delivered_def)

lemma ports_only_send:
  "ctx_done P w = (b, w') \<Longrightarrow> only_sends w w'"
  "draining P w = (b, w') \<Longrightarrow> only_sends w w'"
  "poll_wait P d w = (b, w') \<Longrightarrow> only_sends w w'"
  "ClaimPending P n w = (c, w') \<Longrightarrow> only_sends w w'"
  "MarkFailed P e err w = (r, w') \<Longrightarrow> only_sends w w'"
  "only_sends w (LogError P msg err w)"
  "Publish P m w = (q, w') \<Longrightarrow> only_sends w w'"
  using ctx_keeps draining_keeps wait_keeps Claim_keeps MarkFailed_keeps Log_keeps
  by (simp_all add: only_sends_def) (cases q; auto dest: Publish_ok Publish_err)

lemma publish_entry_sends:
  assumes "publish_entry P e w = (out, w')"
  shows "only_sends w w' \<and> (out = Published \<longrightarrow> entry_Message e \<in> set (sent w'))"
proof -
  obtain b w1 where c1: "ctx_done P w = (b, w1)" by fastforce
  obtain err w2 where p: "Publish P (entry_Message e) w1 = (err, w2)" by fastforce
  obtain b3 w3 where c3: "ctx_done P w2 = (b3, w3)" by fastforce
  let ?w4 = "LogError P ''publish outbox entry failed'' (the err) w3"
  obtain me w5 where m: "MarkFailed P e (the err) ?w4 = (me, w5)" by fastforce
  obtain b6 w6 where c6: "ctx_done P w5 = (b6, w6)" by fastforce
  let ?w7 = "LogError P ''mark outbox entry failed'' (the me) w6"
  note o1 = ports_only_send(1) [OF c1]
  note o2 = only_sends_trans [OF o1 ports_only_send(7) [OF p]]
  note o3 = only_sends_trans [OF o2 ports_only_send(1) [OF c3]]
  have o4: "only_sends w ?w4"
    using only_sends_trans [OF o3 ports_only_send(6)] .
  note o5 = only_sends_trans [OF o4 ports_only_send(5) [OF m]]
  note o6 = only_sends_trans [OF o5 ports_only_send(1) [OF c6]]
  have o7: "only_sends w ?w7"
    using only_sends_trans [OF o6 ports_only_send(6)] .
  note o = o1 o2 o3 o5 o6 o7
  have s: "err = None \<Longrightarrow> entry_Message e \<in> set (sent w2)"
    using p Publish_ok by fastforce
  show ?thesis
  proof (cases err)
    case None
    with assms o s show ?thesis by (auto simp: publish_entry_def c1 p split: if_splits)
  next
    case (Some x)
    with m have "MarkFailed P e x (LogError P ''publish outbox entry failed'' x w3) = (me, w5)"
      by simp
    with Some assms o show ?thesis
      by (auto simp: publish_entry_def c1 p c3 c6 split: if_splits option.splits)
  qed
qed

lemma publish_entries_sends:
  assumes "publish_entries P es pub fin w = (r, w')"
    and "entry_Message ` set pub \<subseteq> set (sent w)"
  shows "only_sends w w' \<and>
     (\<forall>pub' fin'. r = Some (pub', fin') \<longrightarrow> entry_Message ` set pub' \<subseteq> set (sent w'))"
  using assms
proof (induction es arbitrary: pub fin w)
  case Nil
  then show ?case by auto
next
  case (Cons e es)
  obtain out w1 where e: "publish_entry P e w = (out, w1)" by fastforce
  note s = publish_entry_sends [OF e]
  then have pub: "entry_Message ` set pub \<subseteq> set (sent w1)"
    using Cons.prems(2) by (auto simp: only_sends_def)
  show ?case
  proof (cases out)
    case Interrupted
    with Cons.prems e s show ?thesis by auto
  next
    case Published
    with Cons.prems(1) e have "publish_entries P es (pub @ [e]) fin w1 = (r, w')" by simp
    from Cons.IH [OF this] pub s Published show ?thesis
      using only_sends_trans by auto
  next
    case Failed
    with Cons.prems(1) e have "publish_entries P es pub fin w1 = (r, w')" by simp
    from Cons.IH [OF this pub] s show ?thesis
      using only_sends_trans by blast
  next
    case Unfinalized
    with Cons.prems(1) e have "publish_entries P es pub False w1 = (r, w')" by simp
    from Cons.IH [OF this pub] s show ?thesis
      using only_sends_trans by blast
  qed
qed

lemma log_unless_done_sends: "only_sends w (log_unless_done P msg err w)"
proof -
  obtain b w1 where "ctx_done P w = (b, w1)" by fastforce
  with ports_only_send(1,6) only_sends_trans show ?thesis
    by (simp add: log_unless_done_def) blast
qed

lemma stop_requested_sends: "stop_requested P w = (b, w') \<Longrightarrow> only_sends w w'"
proof -
  obtain c w1 where "ctx_done P w = (c, w1)" by fastforce
  with ports_only_send(1,2) only_sends_trans
  show "stop_requested P w = (b, w') \<Longrightarrow> only_sends w w'"
    by (auto simp: stop_requested_def split: if_splits) blast
qed

text \<open>
  Nothing is lost where nothing fails: while the context lasts and the broker accepts, a pass sends
  the messages of the claimed entries in their order and marks exactly these entries.
\<close>

lemma publish_entries_healthy:
  assumes "\<And>m w. fst (Publish P m w) = None" and "\<And>w. \<not> fst (ctx_done P w)"
  shows "\<exists>w'. publish_entries P es pub fin w = (Some (pub @ es, fin), w') \<and>
     sent w' = sent w @ map entry_Message es \<and> marked w' = marked w"
proof (induction es arbitrary: pub w)
  case Nil
  then show ?case by simp
next
  case (Cons e es)
  obtain w1 where c: "ctx_done P w = (False, w1)"
    using assms(2) by (metis prod.collapse)
  obtain w2 where p: "Publish P (entry_Message e) w1 = (None, w2)"
    using assms(1) by (metis prod.collapse)
  have "publish_entry P e w = (Published, w2)"
    by (simp add: publish_entry_def draw_eq c p)
  moreover have "sent w2 = sent w @ [entry_Message e]" "marked w2 = marked w"
    using ctx_keeps [OF c] Publish_ok [OF p] by simp_all
  ultimately show ?case
    using Cons.IH [of "pub @ [e]" w2] by simp
qed

end


section \<open>The guarantee of the worker\<close>

locale outbox_worker = outbox_env "worker_ports k" sent marked
  for k :: "('w, 'k, 'm) worker" and sent :: "'w \<Rightarrow> 'm list" and marked :: "'w \<Rightarrow> 'm entry list"
begin

lemma finish_batch_delivered:
  assumes "finish_batch k entries pub fin w = (b, w')" and "delivered w"
    and "entry_Message ` set pub \<subseteq> set (sent w)"
  shows "delivered w'"
proof (cases "pub = []")
  case True
  with assms show ?thesis by (simp add: finish_batch_def)
next
  case False
  obtain err w1 where m: "MarkPublished (worker_ports k) pub w = (err, w1)" by fastforce
  have "sent w1 = sent w" "marked w1 \<in> {marked w, marked w @ pub}"
    using m by (cases err; auto dest: MarkPublished_ok MarkPublished_err)+
  then have d1: "delivered w1"
    using assms(2,3) by (auto simp: delivered_def image_subset_iff)
  show ?thesis
  proof (cases err)
    case None
    with False m assms(1) d1 show ?thesis by (simp add: finish_batch_def Let_def)
  next
    case (Some x)
    then have "w' = log_unless_done (worker_ports k) ''mark outbox entries published failed'' x w1"
      using False m assms(1) by (simp add: finish_batch_def Let_def)
    with d1 only_sends_delivered log_unless_done_sends show ?thesis by metis
  qed
qed

lemma process_delivered:
  assumes "process k w = (b, w')" and "delivered w"
  shows "delivered w'"
proof -
  obtain c w1 where claim:
    "ClaimPending (worker_ports k) (BatchSize (worker_cfg k)) w = (c, w1)" by fastforce
  then have d1: "delivered w1"
    using assms(2) ports_only_send(4) only_sends_delivered by blast
  show ?thesis
  proof (cases c)
    case (Inl err)
    then have "w' = log_unless_done (worker_ports k) ''claim pending outbox entries failed'' err w1"
      using assms(1) claim by (simp add: process_def)
    with d1 only_sends_delivered log_unless_done_sends show ?thesis by metis
  next
    case (Inr es)
    show ?thesis
    proof (cases "es = []")
      case True
      with Inr claim assms(1) d1 show ?thesis by (simp add: process_def)
    next
      case False
      obtain r w2 where p: "publish_entries (worker_ports k) es [] True w1 = (r, w2)" by fastforce
      have o: "only_sends w1 w2"
        and s: "\<And>pub fin. r = Some (pub, fin) \<Longrightarrow> entry_Message ` set pub \<subseteq> set (sent w2)"
        using publish_entries_sends [OF p] by simp_all
      from o d1 have d2: "delivered w2" by (rule only_sends_delivered)
      show ?thesis
      proof (cases r)
        case None
        with False Inr claim p assms(1) d2 show ?thesis by (simp add: process_def)
      next
        case (Some q)
        obtain pub fin where "q = (pub, fin)" by fastforce
        with Some False Inr claim p assms(1) have "finish_batch k es pub fin w2 = (b, w')"
          by (simp add: process_def)
        from finish_batch_delivered [OF this d2] s Some \<open>q = (pub, fin)\<close> show ?thesis by blast
      qed
    qed
  qed
qed

lemma next_poll_delivered: "next_poll k full w = (b, w') \<Longrightarrow> delivered w \<Longrightarrow> delivered w'"
  by (auto simp: next_poll_def split: if_splits dest: only_sends_delivered [OF ports_only_send(3)])

lemma worker_Start_delivered:
  assumes "worker_Start k w = Some w'" and "delivered w"
  shows "delivered w'"
proof -
  have "k = k \<longrightarrow> delivered w \<longrightarrow> delivered w'"
  proof (rule worker_Start.raw_induct [where P = "\<lambda>j w w'. j = k \<longrightarrow> delivered w \<longrightarrow> delivered w'",
        OF _ assms(1)], intro impI, goal_cases)
    case (1 start j w w')
    obtain stop w1 where s1: "stop_requested (worker_ports k) w = (stop, w1)" by fastforce
    obtain full w2 where p: "process k w1 = (full, w2)" by fastforce
    obtain stop' w3 where s2: "stop_requested (worker_ports k) w2 = (stop', w3)" by fastforce
    obtain again w4 where n: "next_poll k full w3 = (again, w4)" by fastforce
    have d1: "delivered w1"
      using only_sends_delivered [OF stop_requested_sends [OF s1] 1(4)] .
    have d2: "delivered w2"
      using process_delivered [OF p d1] .
    have d3: "delivered w3"
      using only_sends_delivered [OF stop_requested_sends [OF s2] d2] .
    have d4: "delivered w4"
      using next_poll_delivered [OF n d3] .
    show ?case
      using 1(1-3) d1 d3 d4 by (auto simp: s1 p s2 n split: if_splits)
  qed
  then show ?thesis using assms(2) by simp
qed

lemma process_healthy:
  assumes "\<And>m w. fst (Publish (worker_ports k) m w) = None"
    and "\<And>w. \<not> fst (ctx_done (worker_ports k) w)"
    and "\<And>es w. fst (MarkPublished (worker_ports k) es w) = None"
    and claim: "ClaimPending (worker_ports k) (BatchSize (worker_cfg k)) w = (Inr es, w1)" "es \<noteq> []"
  shows "\<exists>w'. process k w = (int (length es) = BatchSize (worker_cfg k), w') \<and>
     sent w' = sent w @ map entry_Message es \<and> marked w' = marked w @ es"
proof -
  obtain w2 where p: "publish_entries (worker_ports k) es [] True w1 = (Some (es, True), w2)"
      "sent w2 = sent w1 @ map entry_Message es" "marked w2 = marked w1"
    using publish_entries_healthy [OF assms(1,2), of es "[]" True w1] by auto
  obtain w3 where m: "MarkPublished (worker_ports k) es w2 = (None, w3)"
    using assms(3) by (metis prod.collapse)
  have "process k w = (int (length es) = BatchSize (worker_cfg k), w3)"
    by (simp add: process_def claim p(1) finish_batch_def m)
  then show ?thesis
    using p(2,3) MarkPublished_ok [OF m] Claim_keeps [OF claim(1)] by simp
qed

end

section \<open>Accounting of a pass\<close>

text \<open>
  The published entries are claimed entries, in their order; a pass asks for the next batch at once
  only when it claimed a full one and every entry of it is published or marked as failed.
\<close>

lemma publish_entries_subseq:
  "publish_entries P es pub fin w = (Some (pub', fin'), w') \<Longrightarrow> \<exists>qs. pub' = pub @ qs \<and> subseq qs es"
proof (induction es arbitrary: pub fin w)
  case Nil
  then show ?case by auto
next
  case (Cons e es)
  obtain out w1 where e: "publish_entry P e w = (out, w1)" by fastforce
  show ?case
  proof (cases out)
    case Interrupted
    with Cons.prems e show ?thesis by simp
  next
    case Published
    with Cons.prems e have "publish_entries P es (pub @ [e]) fin w1 = (Some (pub', fin'), w')" by simp
    from Cons.IH [OF this] show ?thesis by auto
  next
    case Failed
    with Cons.prems e have "publish_entries P es pub fin w1 = (Some (pub', fin'), w')" by simp
    from Cons.IH [OF this] show ?thesis by auto
  next
    case Unfinalized
    with Cons.prems e have "publish_entries P es pub False w1 = (Some (pub', fin'), w')" by simp
    from Cons.IH [OF this] show ?thesis by auto
  qed
qed

lemma process_full:
  assumes "process k w = (True, w')"
  shows "\<exists>entries w1 pub w2. ClaimPending (worker_ports k) (BatchSize (worker_cfg k)) w = (Inr entries, w1) \<and>
     int (length entries) = BatchSize (worker_cfg k) \<and> entries \<noteq> [] \<and>
     publish_entries (worker_ports k) entries [] True w1 = (Some (pub, True), w2) \<and> subseq pub entries"
  using assms
  by (auto simp: process_def finish_batch_def Let_def dest: publish_entries_subseq
      split: prod.splits sum.splits if_splits option.splits)

text \<open>A worker that is asked to stop does so before it claims anything.\<close>

lemma worker_Start_drained:
  "stop_requested (worker_ports k) w = (True, w') \<Longrightarrow> worker_Start k w = Some w'"
  by (subst worker_Start.simps) simp


section \<open>In memory\<close>

text \<open>
  A queue, a broker that may be down, and a timer that fires while something is pending.
\<close>

record 'm broker =
  br_pending :: "'m entry list"
  br_sent :: "'m list"
  br_marked :: "'m entry list"
  br_failed :: "'m entry list"
  br_down :: bool
  br_stop :: bool

definition br_ports :: "('m broker, 'k, 'm) outbox_ports" where
  "br_ports =
     \<lparr>ClaimPending = (\<lambda>n w. (Inr (take (nat n) (br_pending w)),
                              w\<lparr>br_pending := drop (nat n) (br_pending w)\<rparr>)),
      MarkPublished = (\<lambda>es w. (None, w\<lparr>br_marked := br_marked w @ es\<rparr>)),
      MarkFailed = (\<lambda>e err w. (None, w\<lparr>br_failed := br_failed w @ [e]\<rparr>)),
      Publish = (\<lambda>m w. if br_down w then (Some (Fresh ''broker down''), w)
                        else (None, w\<lparr>br_sent := br_sent w @ [m]\<rparr>)),
      LogError = (\<lambda>msg err w. w),
      ctx_done = (\<lambda>w. (br_stop w, w)),
      draining = (\<lambda>w. (False, w)),
      poll_wait = (\<lambda>d w. (br_pending w \<noteq> [], w))\<rparr>"

definition br_worker :: "('m broker, 'k, 'm) worker" where
  "br_worker =
     \<lparr>worker_cfg = \<lparr>BatchSize = 2, PollInterval = 1000, PublishTimeout = 1000\<rparr>,
      worker_ports = br_ports\<rparr>"

lemma br_worker_ports [simp]: "worker_ports br_worker = br_ports"
  by (simp add: br_worker_def)

interpretation br: outbox_env br_ports br_sent br_marked
  by unfold_locales (auto simp: br_ports_def split: if_splits)

interpretation br_start: outbox_worker br_worker br_sent br_marked
  by unfold_locales (auto simp: br_ports_def split: if_splits)

text \<open>A worker over a broker that is up empties the queue and returns, whatever its batch size.\<close>

lemma br_process:
  assumes "worker_ports k = br_ports" and "BatchSize (worker_cfg k) > 0"
    and "\<not> br_down w" and "\<not> br_stop w" and "br_pending w \<noteq> []"
  shows "process k w =
     (int (length (take (nat (BatchSize (worker_cfg k))) (br_pending w))) = BatchSize (worker_cfg k),
      w\<lparr>br_pending := drop (nat (BatchSize (worker_cfg k))) (br_pending w),
        br_sent := br_sent w @ map entry_Message (take (nat (BatchSize (worker_cfg k))) (br_pending w)),
        br_marked := br_marked w @ take (nat (BatchSize (worker_cfg k))) (br_pending w)\<rparr>)"
proof -
  have all: "publish_entries br_ports es pub fin w =
      (Some (pub @ es, fin), w\<lparr>br_sent := br_sent w @ map entry_Message es\<rparr>)"
    if "\<not> br_down w" and "\<not> br_stop w" for es pub fin and w :: "'a broker"
    using that
    by (induction es arbitrary: pub w) (simp_all add: publish_entry_def draw_eq br_ports_def)
  have "take (nat (BatchSize (worker_cfg k))) (br_pending w) \<noteq> []"
    using assms(2,5) by simp
  with assms show ?thesis
    unfolding process_def by (simp add: br_ports_def [THEN arg_cong, of ClaimPending] all finish_batch_def)
      (simp add: br_ports_def)
qed

text \<open>What is left when the queue is drained.\<close>

definition drained :: "'m broker \<Rightarrow> 'm broker" where
  "drained w = w\<lparr>br_pending := [], br_sent := br_sent w @ map entry_Message (br_pending w),
                 br_marked := br_marked w @ br_pending w\<rparr>"

lemma br_runs: "\<not> br_stop w \<Longrightarrow> stop_requested br_ports w = (False, w)"
  by (simp add: stop_requested_def draw_eq br_ports_def)

lemma br_empty: "worker_ports k = br_ports \<Longrightarrow> br_pending w = [] \<Longrightarrow> process k w = (False, w)"
  by (simp add: process_def br_ports_def)

lemma br_next:
  "worker_ports k = br_ports \<Longrightarrow> next_poll k full w = (br_pending w \<noteq> [] \<or> full, w)"
  by (simp add: next_poll_def br_ports_def)

lemma br_idle:
  assumes "worker_ports k = br_ports" and "\<not> br_stop w" and "br_pending w = []"
  shows "worker_Start k w = Some w"
  using assms by (subst worker_Start.simps) (simp add: br_runs br_empty br_next)

lemma br_drains:
  assumes "worker_ports k = br_ports" and "BatchSize (worker_cfg k) > 0"
    and "\<not> br_down w" and "\<not> br_stop w"
  shows "worker_Start k w = Some (drained w)"
  using assms(3,4)
proof (induction "length (br_pending w)" arbitrary: w rule: less_induct)
  case less
  show ?case
  proof (cases "br_pending w = []")
    case True
    with br_idle [OF assms(1) less.prems(2)] show ?thesis by (simp add: drained_def)
  next
    case False
    let ?n = "nat (BatchSize (worker_cfg k))"
    let ?full = "int (length (take ?n (br_pending w))) = BatchSize (worker_cfg k)"
    let ?w = "w\<lparr>br_pending := drop ?n (br_pending w),
        br_sent := br_sent w @ map entry_Message (take ?n (br_pending w)),
        br_marked := br_marked w @ take ?n (br_pending w)\<rparr>"
    note pr = br_process [OF assms(1,2) less.prems False]
    note n = br_next [OF assms(1), of ?full ?w]
    have w': "worker_Start k ?w = Some (drained ?w)"
      by (rule less.hyps) (use False assms(2) less.prems in auto)
    have d: "drained ?w = drained w"
      by (simp add: drained_def map_append [symmetric])
    show ?thesis
    proof (cases "br_pending ?w \<noteq> [] \<or> ?full")
      case True
      with n w' d pr show ?thesis
        using less.prems
        by (subst worker_Start.simps) (simp add: assms(1) br_runs)
    next
      case False
      then have "drained ?w = ?w" by (simp add: drained_def)
      with False n d pr show ?thesis
        using less.prems
        by (subst worker_Start.simps) (simp add: assms(1) br_runs)
    qed
  qed
qed

end
