(* ===== verification/Lifecycle.thy ===== *)
theory Lifecycle
  imports Prelude
begin

text \<open>
  The packages that start and stop a process: \<open>closer\<close> (resources closed in reverse order),
  \<open>shutdown\<close> (components stopped in reverse order under a deadline), the validation of
  \<open>runtime\<close> components, and the deterministic \<open>idgen.Sequence\<close>, \<open>idgen.Static\<close> and \<open>clock.Manual\<close>.
  Mutexes are not modelled: each method runs alone.
\<close>

section \<open>errors.Join\<close>

definition errors_join :: "'k error list \<Rightarrow> 'k error option" where
  "errors_join errs = (if errs = [] then None else Some (Join errs))"

lemma errors_join_is: "errors_join errs = Some e \<Longrightarrow> errors_is e k \<longleftrightarrow> (\<exists>x \<in> set errs. errors_is x k)"
  by (auto simp: errors_join_def list_ex_iff split: if_splits)


section \<open>closer\<close>

type_synonym ('w, 'k) close_fn = "'w \<Rightarrow> 'k error option \<times> 'w"

record ('w, 'k) closer =
  closed :: bool
  closers :: "('w, 'k) close_fn list"

definition New_closer :: "('w, 'k) closer" where
  "New_closer = \<lparr>closed = False, closers = []\<rparr>"

text \<open>\<open>Func(f).Close()\<close>, where the function may be nil.\<close>

definition func_Close :: "('w, 'k) close_fn option \<Rightarrow> ('w, 'k) close_fn" where
  "func_Close f w = (case f of None \<Rightarrow> (None, w) | Some g \<Rightarrow> g w)"

definition closer_Add :: "('w, 'k) close_fn option \<Rightarrow> ('w, 'k) closer \<Rightarrow> 'w \<Rightarrow> ('w, 'k) closer \<times> 'w" where
  "closer_Add fn c w =
     (case fn of
        None \<Rightarrow> (c, w)
      | Some f \<Rightarrow>
          if \<not> closed c then (c\<lparr>closers := closers c @ [f]\<rparr>, w)
          else (c, snd (f w)))"

definition closer_AddFunc ::
  "('w, 'k) close_fn option \<Rightarrow> ('w, 'k) closer \<Rightarrow> 'w \<Rightarrow> ('w, 'k) closer \<times> 'w" where
  "closer_AddFunc fn c w =
     (case fn of None \<Rightarrow> (c, w) | Some f \<Rightarrow> closer_Add (Some (func_Close (Some f))) c w)"

text \<open>The loop from the last closer to the first, collecting the errors.\<close>

fun close_loop :: "('w, 'k) close_fn list \<Rightarrow> 'k error list \<Rightarrow> 'w \<Rightarrow> 'k error list \<times> 'w" where
  "close_loop [] errs w = (errs, w)"
| "close_loop (f # fs) errs w =
     (case f w of
        (Some err, w) \<Rightarrow> close_loop fs (errs @ [err]) w
      | (None, w) \<Rightarrow> close_loop fs errs w)"

definition closer_Close :: "('w, 'k) closer \<Rightarrow> 'w \<Rightarrow> 'k error option \<times> ('w, 'k) closer \<times> 'w" where
  "closer_Close c w =
     (if closed c then (None, c, w)
      else case close_loop (rev (closers c)) [] w of
        (errs, w) \<Rightarrow> (errors_join errs, c\<lparr>closed := True, closers := []\<rparr>, w))"

text \<open>
  A closer that writes its name in a log and fails or not: what \<open>Close\<close> calls, and in which order.
\<close>

definition logging :: "(string \<Rightarrow> 'k error option) \<Rightarrow> string \<Rightarrow> (string list, 'k) close_fn" where
  "logging fails n w = (fails n, w @ [n])"

lemma close_loop_logging:
  "close_loop (map (logging fails) ns) errs w =
     (errs @ List.map_filter fails ns, w @ ns)"
  by (induction ns arbitrary: errs w) (auto simp: logging_def map_filter_simps split: option.splits)

lemma Close_logging:
  "\<not> closed c \<Longrightarrow> closers c = map (logging fails) ns \<Longrightarrow>
     closer_Close c w =
       (errors_join (List.map_filter fails (rev ns)), c\<lparr>closed := True, closers := []\<rparr>, w @ rev ns)"
  by (simp add: closer_Close_def rev_map close_loop_logging)

lemma Add_all:
  "\<not> closed c \<Longrightarrow>
     foldl (\<lambda>(c, w) fn. closer_Add fn c w) (c, w) fns = (c\<lparr>closers := closers c @ List.map_filter id fns\<rparr>, w)"
  by (induction fns arbitrary: c) (auto simp: closer_Add_def map_filter_simps split: option.splits)

lemma map_filter_logging:
  "List.map_filter id (map (map_option f) ns) = map f (List.map_filter id ns)"
  by (induction ns) (auto simp: map_filter_simps split: option.splits)

lemma Close_twice:
  "closer_Close c w = (e, c', w') \<Longrightarrow> closer_Close c' w'' = (None, c', w'')"
  by (auto simp: closer_Close_def split: if_splits prod.splits)


section \<open>shutdown\<close>

datatype shutdown_sentinel =
  Shut_ErrNilContext | Shut_ErrInvalidTimeout | Shut_ErrNilComponent | Shut_Context string

text \<open>
  \<open>Shut_Context\<close> is an error of the context. The timeout is in nanoseconds, \<open>show_duration\<close> and
  \<open>quote\<close> are the formattings of the error texts.
\<close>

record 'w component =
  comp_Name :: string
  comp_Shutdown :: "'w \<Rightarrow> shutdown_sentinel error option \<times> 'w"

definition DefaultTimeout :: duration where
  "DefaultTimeout = 15 * 1000000000"

definition shutdown_Validate :: "(duration \<Rightarrow> string) \<Rightarrow> duration \<Rightarrow> shutdown_sentinel error option" where
  "shutdown_Validate show_duration timeout =
     (if timeout \<le> 0
      then Some (Wrap '''' (Sentinel Shut_ErrInvalidTimeout) ('': got '' @ show_duration timeout))
      else None)"

fun shutdown_components ::
  "nat \<Rightarrow> 'w component option list \<Rightarrow> shutdown_sentinel error option" where
  "shutdown_components i [] = None"
| "shutdown_components i (None # cs) =
     Some (Wrap '''' (Sentinel Shut_ErrNilComponent) ('' at index '' @ show_nat i))"
| "shutdown_components i (Some c # cs) = shutdown_components (i + 1) cs"

text \<open>The loop over the components, last to first; it breaks when the context is done.\<close>

fun shutdown_loop ::
  "('w \<Rightarrow> shutdown_sentinel error option \<times> 'w) \<Rightarrow> (string \<Rightarrow> string) \<Rightarrow> 'w component list
     \<Rightarrow> shutdown_sentinel error list \<Rightarrow> 'w \<Rightarrow> shutdown_sentinel error list \<times> 'w" where
  "shutdown_loop ctx_err quote [] errs w = (errs, w)"
| "shutdown_loop ctx_err quote (c # cs) errs w =
     (case ctx_err w of
        (Some err, w) \<Rightarrow> (errs @ [Wrap ''shutdown interrupted: '' err ''''], w)
      | (None, w) \<Rightarrow>
          (case comp_Shutdown c w of
             (Some err, w) \<Rightarrow>
               shutdown_loop ctx_err quote cs
                 (errs @ [Wrap (''shutdown '' @ quote (comp_Name c) @ '': '') err '''']) w
           | (None, w) \<Rightarrow> shutdown_loop ctx_err quote cs errs w))"

text \<open>\<open>None\<close> is the nil context; else the error of the context derived with the timeout.\<close>

definition shutdown_Run ::
  "('w \<Rightarrow> shutdown_sentinel error option \<times> 'w) option \<Rightarrow> (duration \<Rightarrow> string) \<Rightarrow> (string \<Rightarrow> string)
     \<Rightarrow> duration \<Rightarrow> 'w component option list \<Rightarrow> 'w \<Rightarrow> shutdown_sentinel error option \<times> 'w" where
  "shutdown_Run parent show_duration quote timeout components w =
     (case parent of
        None \<Rightarrow> (Some (Sentinel Shut_ErrNilContext), w)
      | Some ctx_err \<Rightarrow>
          (case shutdown_Validate show_duration timeout of
             Some err \<Rightarrow> (Some err, w)
           | None \<Rightarrow>
               (case shutdown_components 0 components of
                  Some err \<Rightarrow> (Some err, w)
                | None \<Rightarrow>
                    (case shutdown_loop ctx_err quote (rev (map the components)) [] w of
                       (errs, w) \<Rightarrow> (errors_join errs, w)))))"

lemma shutdown_components_None: "shutdown_components i cs = None \<longleftrightarrow> None \<notin> set cs"
  by (induction i cs rule: shutdown_components.induct) auto

text \<open>While the context lasts, every component is stopped, the last one started first.\<close>

definition stops :: "(string \<Rightarrow> shutdown_sentinel error option) \<Rightarrow> string \<Rightarrow> string list component" where
  "stops fails n = \<lparr>comp_Name = n, comp_Shutdown = logging fails n\<rparr>"

lemma shutdown_loop_all:
  "shutdown_loop (\<lambda>w. (None, w)) quote (map (stops fails) ns) errs w =
     (errs @ List.map_filter (\<lambda>n. map_option (\<lambda>e. Wrap (''shutdown '' @ quote n @ '': '') e '''') (fails n)) ns,
      w @ ns)"
  by (induction ns arbitrary: errs w)
     (auto simp: stops_def logging_def map_filter_simps split: option.splits)


text \<open>A context that is done once \<open>k\<close> components have been stopped.\<close>

definition deadline ::
  "nat \<Rightarrow> shutdown_sentinel error \<Rightarrow> string list \<Rightarrow> shutdown_sentinel error option \<times> string list" where
  "deadline k err w = (if k \<le> length w then Some err else None, w)"

lemma shutdown_loop_deadline:
  "shutdown_loop (deadline k err) quote (map (stops fails) ns) errs w =
     (errs @ List.map_filter (\<lambda>n. map_option (\<lambda>e. Wrap (''shutdown '' @ quote n @ '': '') e '''') (fails n))
               (take (k - length w) ns) @
        (if k - length w < length ns then [Wrap ''shutdown interrupted: '' err ''''] else []),
      w @ take (k - length w) ns)"
proof (induction ns arbitrary: errs w)
  case Nil
  then show ?case by (simp add: map_filter_simps)
next
  case (Cons n ns)
  show ?case
  proof (cases "k \<le> length w")
    case True
    then show ?thesis by (simp add: deadline_def map_filter_simps)
  next
    case False
    then have "k - length w = Suc (k - Suc (length w))" by simp
    with False Cons show ?thesis
      by (simp add: deadline_def [of k err w] stops_def logging_def map_filter_simps split: option.splits)
  qed
qed


section \<open>runtime\<close>

datatype runtime_sentinel =
  Run_ErrNoComponents | Run_ErrNilComponent | Run_ErrEmptyComponentName
| Run_ErrDuplicateComponentName | Run_ErrNilContext | Run_ErrNilContextRunner

text \<open>
  The loop of \<open>validateComponents\<close> over the names, with the set of names seen; a nil component is
  \<open>None\<close>.
\<close>

fun validate_loop ::
  "(string \<Rightarrow> string) \<Rightarrow> nat \<Rightarrow> string set \<Rightarrow> string option list \<Rightarrow> runtime_sentinel error option" where
  "validate_loop quote i names [] = None"
| "validate_loop quote i names (None # cs) =
     Some (Wrap '''' (Sentinel Run_ErrNilComponent) ('' at index '' @ show_nat i))"
| "validate_loop quote i names (Some n # cs) =
     (let name = trim_space n
      in if name = ''''
         then Some (Wrap '''' (Sentinel Run_ErrEmptyComponentName) ('' at index '' @ show_nat i))
         else if name \<in> names
         then Some (Wrap '''' (Sentinel Run_ErrDuplicateComponentName) ('': '' @ quote name))
         else validate_loop quote (i + 1) (insert name names) cs)"

definition runtime_validateComponents ::
  "(string \<Rightarrow> string) \<Rightarrow> string option list \<Rightarrow> runtime_sentinel error option" where
  "runtime_validateComponents quote components =
     (if components = [] then Some (Sentinel Run_ErrNoComponents)
      else validate_loop quote 0 {} components)"

lemma validate_loop_None:
  "validate_loop quote i names cs = None \<longleftrightarrow>
     None \<notin> set cs \<and>
     (let ns = map (trim_space \<circ> the) cs
      in '''' \<notin> set ns \<and> distinct ns \<and> set ns \<inter> names = {})"
  by (induction quote i names cs rule: validate_loop.induct) (auto simp: Let_def)

text \<open>\<open>NewContextComponent\<close>: the name it keeps is trimmed.\<close>

definition NewContextComponent :: "bool \<Rightarrow> string option \<Rightarrow> runtime_sentinel error + string" where
  "NewContextComponent nil_ctx runner =
     (if nil_ctx then Inl (Sentinel Run_ErrNilContext)
      else case runner of
        None \<Rightarrow> Inl (Sentinel Run_ErrNilContextRunner)
      | Some n \<Rightarrow>
          (let name = trim_space n
           in if name = '''' then Inl (Sentinel Run_ErrEmptyComponentName) else Inr name))"


section \<open>idgen and clock\<close>

text \<open>A panic is \<open>Inl\<close> of its message; a nil receiver is \<open>None\<close>.\<close>

record sequence =
  seq_values :: "string list"
  seq_index :: nat

definition NewSequence :: "string list \<Rightarrow> string + sequence" where
  "NewSequence values =
     (if list_ex (\<lambda>v. v = '''') values then Inl ''idgen: empty sequence value''
      else Inr \<lparr>seq_values = values, seq_index = 0\<rparr>)"

definition seq_Generate :: "sequence option \<Rightarrow> string + string \<times> sequence" where
  "seq_Generate s =
     (case s of
        None \<Rightarrow> Inl ''idgen: nil sequence''
      | Some q \<Rightarrow>
          if seq_index q \<ge> length (seq_values q) then Inl ''idgen: sequence exhausted''
          else Inr (seq_values q ! seq_index q, q\<lparr>seq_index := seq_index q + 1\<rparr>))"

definition seq_Add :: "string list \<Rightarrow> sequence option \<Rightarrow> string + sequence" where
  "seq_Add values s =
     (case s of
        None \<Rightarrow> Inl ''idgen: nil sequence''
      | Some q \<Rightarrow>
          if list_ex (\<lambda>v. v = '''') values then Inl ''idgen: empty sequence value''
          else Inr (q\<lparr>seq_values := seq_values q @ values\<rparr>))"

definition seq_Remaining :: "sequence option \<Rightarrow> string + nat" where
  "seq_Remaining s =
     (case s of
        None \<Rightarrow> Inl ''idgen: nil sequence''
      | Some q \<Rightarrow> Inr (length (seq_values q) - seq_index q))"

fun seq_take :: "nat \<Rightarrow> sequence \<Rightarrow> string + string list" where
  "seq_take 0 q = Inr []"
| "seq_take (Suc n) q =
     (case seq_Generate (Some q) of
        Inl p \<Rightarrow> Inl p
      | Inr (v, q) \<Rightarrow> (case seq_take n q of Inl p \<Rightarrow> Inl p | Inr vs \<Rightarrow> Inr (v # vs)))"

lemma seq_take_values:
  "seq_take n q =
     (if seq_index q + n \<le> length (seq_values q) \<or> n = 0
      then Inr (take n (drop (seq_index q) (seq_values q)))
      else Inl ''idgen: sequence exhausted'')"
proof (induction n arbitrary: q)
  case 0
  then show ?case by simp
next
  case (Suc n)
  show ?case
  proof (cases "seq_index q < length (seq_values q)")
    case True
    then have "drop (seq_index q) (seq_values q) =
        seq_values q ! seq_index q # drop (seq_index q + 1) (seq_values q)"
      by (simp add: Cons_nth_drop_Suc)
    with True Suc.IH show ?thesis
      by (auto simp: seq_Generate_def)
  next
    case False
    then show ?thesis by (simp add: seq_Generate_def)
  qed
qed

definition NewStatic :: "string \<Rightarrow> string + string" where
  "NewStatic value = (if value = '''' then Inl ''idgen: empty static value'' else Inr value)"

definition static_Generate :: "string \<Rightarrow> string + string" where
  "static_Generate value = (if value = '''' then Inl ''idgen: empty static value'' else Inr value)"

record manual_clock =
  manual_now :: gotime

definition manual_Set :: "gotime \<Rightarrow> manual_clock \<Rightarrow> manual_clock" where
  "manual_Set t c = c\<lparr>manual_now := t\<rparr>"

definition manual_Advance :: "duration \<Rightarrow> manual_clock \<Rightarrow> manual_clock" where
  "manual_Advance d c = c\<lparr>manual_now := manual_now c + d\<rparr>"

end
