(* ===== verification/Package_Properties.thy ===== *)
theory Package_Properties
  imports Retry Inbox Outbox Lifecycle
begin

text \<open>
  The properties of the shared packages: retries and their backoff, the inbox and the outbox, and
  the order in which a process closes its resources and stops its components.
\<close>


section \<open>Inbox and outbox\<close>

text \<open>
  C11. Exactly-once handling: over any run of deliveries, repeated or failing, the handlers of the
  newly recorded messages have each worked once, in the order of their recording, and nothing else
  has changed the state they work on.
\<close>

theorem inbox_exactly_once:
  assumes "inbox_store i stored"
    and "\<And>m x y u. h m x = (Inr u, y) \<Longrightarrow> fst (stored y) = fst (stored x)"
  shows "\<exists>ns. subseq ns ms \<and> distinct ns \<and> set ns \<inter> fst (stored w) = {} \<and>
     fst (stored (deliver i h ms w)) = fst (stored w) \<union> set ns \<and>
     effects_of stored h ns (snd (stored w)) (snd (stored (deliver i h ms w)))"
  by (rule inbox_store.deliver_once [OF assms])

text \<open>The witness is a handler that fails on one message and logs the others.\<close>

definition log_handler :: "nat \<Rightarrow> (nat, nat list) inbox_mem \<Rightarrow> ((nat, nat list) inbox_mem, unit, unit) result" where
  "log_handler m w =
     (if m = 5 then (Inl (Fresh ''refused''), w) else (Inr (), w\<lparr>im_rest := im_rest w @ [m]\<rparr>))"

lemma log_handler_keeps: "log_handler m x = (Inr u, y) \<Longrightarrow> fst (im_stored y) = fst (im_stored x)"
  by (auto simp: log_handler_def im_stored_def split: if_splits)

theorem inbox_exactly_once_witness:
  "im_rest (deliver im_inbox log_handler [3, 5, 3, 4, 5, 4] \<lparr>im_seen = [], im_rest = []\<rparr>) = [3, 4] \<and>
   (\<exists>ns. distinct ns \<and> set ns = {4, 3 :: nat} \<and> subseq ns [3, 5, 3, 4, 5, 4])"
proof -
  let ?w = "\<lparr>im_seen = [], im_rest = []\<rparr>"
  have run: "deliver im_inbox log_handler [3, 5, 3, 4, 5, 4] ?w = \<lparr>im_seen = [4, 3], im_rest = [3, 4]\<rparr>"
    by code_simp
  have keeps: "fst (im_stored y) = fst (im_stored x)" if "log_handler m x = (Inr u, y)" for m x u y
    using that by (rule log_handler_keeps)
  show ?thesis
    using inbox_exactly_once [OF im.inbox_store_axioms, of log_handler "[3, 5, 3, 4, 5, 4]" ?w] keeps
    unfolding run by (auto simp: im_stored_def)
qed

text \<open>
  One delivery: an error leaves everything as it was, so the message can be delivered again; a
  success records the message, and the handler has worked exactly when it was not recorded before.
\<close>

theorem inbox_delivery:
  assumes "inbox_store i stored" and "WithInbox i m (Some h) w = (r, w')"
    and "\<And>x y u. h x = (Inr u, y) \<Longrightarrow> fst (stored y) = fst (stored x)"
  shows "(case r of
            Inl e \<Rightarrow> stored w' = stored w
          | Inr u \<Rightarrow> fst (stored w') = insert m (fst (stored w)) \<and>
              (if m \<in> fst (stored w) then snd (stored w') = snd (stored w)
               else effect_of stored h (snd (stored w)) (snd (stored w'))))"
proof (cases r)
  case (Inl e)
  with assms(2) inbox_store.WithInbox_err [OF assms(1)] show ?thesis by simp
next
  case (Inr u)
  with assms(2) have "WithInbox i m (Some h) w = (Inr (), w')" by simp
  from inbox_store.WithInbox_ok [OF assms(1) this assms(3)] Inr show ?thesis by simp
qed

theorem inbox_delivery_witness:
  "fst (WithInbox im_inbox 7 (Some (log_handler 7)) \<lparr>im_seen = [], im_rest = [1]\<rparr>) = Inr () \<and>
   effect_of im_stored (log_handler 7) [1] [1, 7]"
proof -
  let ?w = "\<lparr>im_seen = [], im_rest = [1]\<rparr>"
  have run: "WithInbox im_inbox 7 (Some (log_handler 7)) ?w = (Inr (), \<lparr>im_seen = [7], im_rest = [1, 7]\<rparr>)"
    by code_simp
  from inbox_delivery [OF im.inbox_store_axioms run log_handler_keeps] run
  show ?thesis by (simp add: im_stored_def)
qed

text \<open>
  C12. The worker never loses a message it reports as published: whenever a run of the worker
  returns, every entry marked as published has a message the broker accepted, whatever failed on
  the way.
\<close>

theorem outbox_marks_only_sent:
  assumes "outbox_env (worker_ports k) sent marked" and "worker_Start k w = Some w'"
    and "entry_Message ` set (marked w) \<subseteq> set (sent w)"
  shows "entry_Message ` set (marked w') \<subseteq> set (sent w')"
  using outbox_worker.worker_Start_delivered [of k sent marked w w'] assms
  by (simp add: outbox_worker_def outbox_env.delivered_def)

definition demo_broker :: "string broker" where
  "demo_broker =
     \<lparr>br_pending = map (\<lambda>m. \<lparr>entry_ID = m, ClaimToken = ''t'', entry_Message = m\<rparr>) [''a'', ''b'', ''c''],
      br_sent = [], br_marked = [], br_failed = [], br_down = False, br_stop = False\<rparr>"

lemma demo_broker_run: "worker_Start br_worker demo_broker = Some (drained demo_broker)"
  by (rule br_drains) (simp_all add: br_worker_def demo_broker_def)

theorem outbox_marks_only_sent_witness:
  "entry_Message ` set (br_marked (drained demo_broker)) \<subseteq> set (br_sent (drained demo_broker)) \<and>
   length (br_marked (drained demo_broker)) = 3"
  using outbox_marks_only_sent [OF _ demo_broker_run, of br_sent br_marked] br.outbox_env_axioms
  by (simp add: demo_broker_def drained_def)

text \<open>
  Nothing is lost where nothing fails: while the context lasts and broker and repository
  accept, a pass sends the messages of the claimed entries in their order, marks exactly these
  entries, and asks for another batch at once exactly when this one was full.
\<close>

theorem outbox_pass:
  assumes "outbox_env (worker_ports k) sent marked"
    and "\<And>m w. fst (Publish (worker_ports k) m w) = None"
    and "\<And>w. \<not> fst (ctx_done (worker_ports k) w)"
    and "\<And>es w. fst (MarkPublished (worker_ports k) es w) = None"
    and "ClaimPending (worker_ports k) (BatchSize (worker_cfg k)) w = (Inr es, w1)" and "es \<noteq> []"
  shows "\<exists>w'. process k w = (int (length es) = BatchSize (worker_cfg k), w') \<and>
     sent w' = sent w @ map entry_Message es \<and> marked w' = marked w @ es"
  using outbox_worker.process_healthy [of k sent marked] assms by (simp add: outbox_worker_def)

text \<open>The witness is a broker that never fails and a context that is never done.\<close>

definition calm_worker :: "(string broker, unit, string) worker" where
  "calm_worker =
     br_worker\<lparr>worker_ports := br_ports\<lparr>
       Publish := (\<lambda>m w. (None, w\<lparr>br_sent := br_sent w @ [m]\<rparr>)),
       ctx_done := (\<lambda>w. (False, w))\<rparr>\<rparr>"

lemma calm_env: "outbox_env (worker_ports calm_worker) br_sent br_marked"
  by unfold_locales (auto simp: calm_worker_def br_ports_def)

theorem outbox_pass_witness:
  "\<exists>w'. process calm_worker demo_broker = (True, w') \<and> br_sent w' = [''a'', ''b'']"
proof -
  have "ClaimPending (worker_ports calm_worker) (BatchSize (worker_cfg calm_worker)) demo_broker =
      (Inr (take 2 (br_pending demo_broker)), demo_broker\<lparr>br_pending := drop 2 (br_pending demo_broker)\<rparr>)"
    by (simp add: calm_worker_def br_worker_def br_ports_def)
  from outbox_pass [OF calm_env _ _ _ this] show ?thesis
    by (auto simp: calm_worker_def br_worker_def br_ports_def demo_broker_def)
qed




section \<open>Retries\<close>

text \<open>
  Retrying is bounded: however the operation, the context, the timer and the callback behave,
  the operation is called at most as often as the configuration allows, and once where it allows
  less.
\<close>

theorem retry_bounded:
  assumes "meters calls P cfg operation"
    and "retry_Do zero (Some P) cfg (Some operation) w = (r, w')"
  shows "int (calls w') \<le> int (calls w) + max 1 (MaxAttempts cfg)"
proof -
  obtain c w1 where ctx: "ctx_Err P w = (c, w1)" by fastforce
  have one: "calls w1 = calls w"
    using meter_ctx [OF assms(1) ctx] .
  show ?thesis
  proof (cases c)
    case None
    with assms(2) ctx have "w' = snd (retry_loop P (normalizeConfig cfg) operation 1 w1)"
      by (simp add: retry_Do_def)
    with retry_loop_meter [of calls P "normalizeConfig cfg" operation w1 1] assms(1) one
    show ?thesis by (simp add: MaxAttempts_normalize)
  next
    case (Some e)
    with assms(2) ctx one show ?thesis by (simp add: retry_Do_def)
  qed
qed

text \<open>
  The witnesses run over a world that counts the calls: the operation fails on the first two of
  them, the context and the timer never interrupt.
\<close>

definition flaky :: "(nat, string, string) retry_op" where
  "flaky n = (if n < 2 then ((''none'', Some (Fresh ''down'')), n + 1) else ((''ok'', None), n + 1))"

definition calm_ports :: "(nat, string) retry_ports" where
  "calm_ports = \<lparr>ctx_Err = (\<lambda>w. (None, w)), wait_timer = (\<lambda>d w. (None, w))\<rparr>"

definition retry_cfg :: "int \<Rightarrow> (nat, string, string) retry_config" where
  "retry_cfg n = \<lparr>MaxAttempts = n, Backoff = Some (Exponential 100 1000), RetryIf = None, OnRetry = None\<rparr>"

lemma flaky_meters: "meters id calm_ports (retry_cfg n) flaky"
  unfolding meters_def by (simp add: flaky_def calm_ports_def retry_cfg_def)

theorem retry_bounded_witness:
  "snd (retry_Do ''none'' (Some calm_ports) (retry_cfg 2) (Some flaky) 0) \<le> 2"
  using retry_bounded [OF flaky_meters prod.collapse [symmetric], of "''none''" 2 0]
  by (simp add: retry_cfg_def)

text \<open>
  C14. Retrying is exact: while the context lasts, the default predicate makes the loop return the
  first call that succeeds, or the last one that is allowed, after exactly that many calls.
\<close>

theorem retry_exact:
  assumes "meters calls P cfg operation" and "patient P" and "RetryIf cfg = None"
    and "\<And>w. fst (operation w) = out (calls w)"
    and "\<And>i. i < k \<Longrightarrow> snd (out (calls w + i)) \<noteq> None"
    and "int k < max 1 (MaxAttempts cfg)"
    and "snd (out (calls w + k)) = None \<or> int k + 1 = max 1 (MaxAttempts cfg)"
  shows "fst (retry_Do zero (Some P) cfg (Some operation) w) = out (calls w + k) \<and>
     calls (snd (retry_Do zero (Some P) cfg (Some operation) w)) = calls w + k + 1"
proof -
  obtain w1 where ctx: "ctx_Err P w = (None, w1)"
    using assms(2) by (metis patient_def prod.collapse)
  have one: "calls w1 = calls w"
    using meter_ctx [OF assms(1) ctx] .
  note retries = shouldRetry_default [OF assms(3)]
  have "fst (retry_loop P (normalizeConfig cfg) operation 1 w1) = out (calls w1 + k) \<and>
      calls (snd (retry_loop P (normalizeConfig cfg) operation 1 w1)) = calls w1 + k + 1"
  proof (rule retry_loop_exact [where out = out, OF _ assms(2)])
    show "meters calls P (normalizeConfig cfg) operation" using assms(1) by simp
    show "fst (operation w) = out (calls w)" for w
      by (rule assms(4))
    show "shouldRetry (normalizeConfig cfg) (1 + int i) (fst (out (calls w1 + i))) (snd (out (calls w1 + i)))"
      if "i < k" for i
      using that assms(5) [OF that] assms(6) one by (auto simp: retries)
    show "\<not> shouldRetry (normalizeConfig cfg) (1 + int k) (fst (out (calls w1 + k))) (snd (out (calls w1 + k)))"
      using assms(7) one by (auto simp: retries)
  qed
  with one show ?thesis by (simp add: retry_Do_def ctx)
qed

theorem retry_exact_witness:
  "fst (retry_Do ''none'' (Some calm_ports) (retry_cfg 5) (Some flaky) 0) = (''ok'', None) \<and>
   snd (retry_Do ''none'' (Some calm_ports) (retry_cfg 5) (Some flaky) 0) = 3"
proof -
  have "patient calm_ports" by (simp add: patient_def calm_ports_def)
  from retry_exact [OF flaky_meters this, of 5 "\<lambda>n. fst (flaky n)" 2 0 "''none''"]
  show ?thesis by (simp add: retry_cfg_def flaky_def)
qed

text \<open>
  A success of the loop is a success of the operation: where Do reports no error, the result
  is one the operation returned without an error.
\<close>

theorem retry_success:
  assumes "retry_Do zero ctx cfg operation w = ((r, None), w')"
  shows "\<exists>f w1 w2. operation = Some f \<and> f w1 = ((r, None), w2)"
proof -
  obtain P f w1 where f: "operation = Some f"
    and loop: "retry_loop P (normalizeConfig cfg) f 1 w1 = ((r, None), w')"
    using assms by (auto simp: retry_Do_def split: option.splits prod.splits)
  have "joinContextError e (Some c) \<noteq> None" for e :: "'b error option" and c
    by (auto simp: joinContextError_def split: option.splits)
  then show ?thesis
    using retry_loop_result [OF loop] f by metis
qed

theorem retry_success_witness: "\<exists>w1 w2. flaky w1 = ((''ok'', None), w2)"
proof -
  have "retry_Do ''none'' (Some calm_ports) (retry_cfg 5) (Some flaky) 2 = ((''ok'', None), 3)"
    by (simp add: retry_Do_def calm_ports_def normalizeConfig_def retry_cfg_def
        retry_loop.simps retry_round_def flaky_def shouldRetry_def OnError_def)
  from retry_success [OF this] show ?thesis by auto
qed

text \<open>
  C15. The exponential backoff never wraps: between the second and the sixty-second attempt the
  delay is the doubled base, saturated at the largest duration and at the maximum, so that it never
  shrinks and never exceeds a positive maximum.
\<close>

theorem backoff_saturates:
  assumes "1 < sint n" and "sint n \<le> sint m" and "sint m < 63" and "0 < sint base"
  shows "sint (Exponential base mx m) = saturated (sint base) (max 0 (sint mx)) (nat (sint m - 1)) \<and>
     0 < sint (Exponential base mx n) \<and>
     sint (Exponential base mx n) \<le> sint (Exponential base mx m) \<and>
     (sint mx \<le> 0 \<or> sint (Exponential base mx m) \<le> sint mx)"
proof -
  let ?s = "saturated (sint base) (max 0 (sint mx))"
  have e: "sint (Exponential base mx k) = ?s (nat (sint k - 1))" if "1 < sint k" "sint k < 63" for k
    using Exponential_in_range [OF that] assms(4) by (simp add: Let_def)
  have "?s (nat (sint n - 1)) \<le> ?s (nat (sint m - 1))"
    by (rule saturated_mono) (use assms in auto)
  moreover have "0 < ?s j" for j
    using assms(4) by (auto simp: saturated_def Let_def min_def max_def)
  moreover have "sint mx \<le> 0 \<or> ?s j \<le> sint mx" for j
    by (auto simp: saturated_def Let_def min_def max_def)
  ultimately show ?thesis
    using e [of n] e [of m] assms by simp
qed

theorem backoff_saturates_witness:
  "sint (Exponential 100 1000 3) = 400 \<and> sint (Exponential 100 1000 9) = 1000"
  using backoff_saturates [of 3 3 100 1000] backoff_saturates [of 9 9 100 1000]
  by (simp add: saturated_def)


section \<open>Closing and stopping\<close>

text \<open>
  Resources are closed once, in reverse order, all of them: Close calls every closer that was
  added, the last one first, even after one failed, and joins the errors in that order; a second
  Close does nothing, and a closer added later is called at once.
\<close>

theorem closer_reverse_once:
  "let (c, w) = foldl (\<lambda>(c, w) fn. closer_Add fn c w) (New_closer, [])
                  (map (map_option (logging fails)) ns);
       (err, c', w') = closer_Close c w
   in w = [] \<and> w' = rev (List.map_filter id ns) \<and>
      err = errors_join (List.map_filter fails (rev (List.map_filter id ns))) \<and>
      closer_Close c' w' = (None, c', w') \<and>
      closer_Add (Some (logging fails n)) c' w' = (c', w' @ [n])"
proof -
  let ?c = "New_closer\<lparr>closers := map (logging fails) (List.map_filter id ns)\<rparr>"
  have added: "foldl (\<lambda>(c, w) fn. closer_Add fn c w) (New_closer, []) (map (map_option (logging fails)) ns)
      = (?c, [])"
    using Add_all [of New_closer "[]" "map (map_option (logging fails)) ns"]
    by (simp add: New_closer_def map_filter_logging)
  have close: "closer_Close ?c [] =
      (errors_join (List.map_filter fails (rev (List.map_filter id ns))),
       ?c\<lparr>closed := True, closers := []\<rparr>, rev (List.map_filter id ns))"
    using Close_logging [of ?c fails "List.map_filter id ns" "[]"] by (simp add: New_closer_def)
  have twice: "closer_Close (New_closer\<lparr>closed := True, closers := []\<rparr>) v =
      (None, New_closer\<lparr>closed := True, closers := []\<rparr>, v)" for v :: "string list"
    by (simp add: closer_Close_def)
  show ?thesis
    unfolding added by (simp add: close twice closer_Add_def logging_def)
qed

text \<open>
  C16. Shutdown is orderly and bounded: components are stopped in the reverse of their order, one
  that fails does not keep the others from being stopped, and once the deadline has passed no
  further component is asked, which the result says.
\<close>

theorem shutdown_in_reverse:
  assumes "0 < timeout"
  shows "shutdown_Run (Some (deadline k err)) show_duration quote timeout
           (map (\<lambda>n. Some (stops fails n)) ns) [] =
     (errors_join
        (List.map_filter (\<lambda>n. map_option (\<lambda>e. Wrap (''shutdown '' @ quote n @ '': '') e '''') (fails n))
           (take k (rev ns)) @
         (if k < length ns then [Wrap ''shutdown interrupted: '' err ''''] else [])),
      take k (rev ns))"
proof -
  have m: "rev (map the (map (\<lambda>n. Some (stops fails n)) ns)) = map (stops fails) (rev ns)"
    by (simp add: rev_map comp_def)
  have v: "shutdown_components 0 (map (\<lambda>n. Some (stops fails n)) ns) = None"
    by (auto simp: shutdown_components_None)
  show ?thesis
    using assms
    by (simp only: shutdown_Run_def option.case shutdown_Validate_def m v)
       (simp add: shutdown_loop_deadline)
qed

theorem shutdown_in_reverse_witness:
  "snd (shutdown_Run (Some (deadline 2 (Fresh ''late''))) (\<lambda>d. '''') id DefaultTimeout
     (map (\<lambda>n. Some (stops (\<lambda>n. None) n)) [''db'', ''kafka'', ''http'']) []) = [''http'', ''kafka'']"
  using shutdown_in_reverse [of DefaultTimeout 2 "Fresh ''late''" "\<lambda>d. ''''" id "\<lambda>n. None"
      "[''db'', ''kafka'', ''http'']"]
  by (simp add: DefaultTimeout_def)

text \<open>
  The runtime accepts a list of components exactly when there is one, none is nil, and their
  trimmed names are not empty and all different.
\<close>

theorem runtime_accepts:
  "runtime_validateComponents quote cs = None \<longleftrightarrow>
     cs \<noteq> [] \<and> None \<notin> set cs \<and> '''' \<notin> set (map (trim_space \<circ> the) cs) \<and>
     distinct (map (trim_space \<circ> the) cs)"
  by (auto simp: runtime_validateComponents_def validate_loop_None Let_def)

text \<open>
  A sequence of identifiers yields its values in their order, each once, and panics when it is
  exhausted, never repeating one.
\<close>

theorem sequence_values:
  "seq_take n q =
     (if n = 0 \<or> n \<le> length (seq_values q) - seq_index q
      then Inr (take n (drop (seq_index q) (seq_values q)))
      else Inl ''idgen: sequence exhausted'')"
  using seq_take_values [of n q] by auto

end
