(* ===== verification/Identity_Common.thy ===== *)
theory Identity_Common
  imports Prelude
begin

text \<open>
  What the packages of the identity service share: the helpers of \<open>internal/domain/helpers.go\<close>, the
  sentinel errors of its domain packages, and the authentication methods and levels of
  \<open>internal/domain/authentication\<close>.

  Throughout the identity theories a method takes the value its receiver points to; the guards
  against a nil receiver, which no caller in the service can reach, are left out. \<open>ClonePointer\<close> and
  \<open>slices.Clone\<close> copy, so they are the identity on values.
\<close>

section \<open>Helpers\<close>

definition MinimumTime :: "gotime \<Rightarrow> gotime \<Rightarrow> gotime" where
  "MinimumTime first second = (if before first second then first else second)"

definition NormalizeOptionalText :: "string option \<Rightarrow> string option" where
  "NormalizeOptionalText value =
     (case value of
        None \<Rightarrow> None
      | Some v \<Rightarrow> (let normalized = trim_space v in if normalized = '''' then None else Some normalized))"

definition NormalizeRequiredText :: "string \<Rightarrow> string \<times> bool" where
  "NormalizeRequiredText value = (let value = trim_space value in (value, value \<noteq> ''''))"

definition HasText :: "string \<Rightarrow> bool" where
  "HasText value \<longleftrightarrow> trim_space value \<noteq> ''''"

text \<open>
  \<open>strings.IndexFunc(value, unicode.IsSpace) < 0\<close>: no position of the byte string begins the encoding
  of a white-space rune. Encodings do not overlap, so this is the test of the decoded runes.
\<close>

fun has_space :: "string \<Rightarrow> bool" where
  "has_space [] = False"
| "has_space (c # cs) = (list_ex (\<lambda>p. begins_with p (c # cs)) space_runes \<or> has_space cs)"

definition NormalizeToken :: "string \<Rightarrow> string \<times> bool" where
  "NormalizeToken value =
     (case NormalizeRequiredText value of (value, ok) \<Rightarrow> (value, ok \<and> \<not> has_space value))"

definition EqualOptionalText :: "string option \<Rightarrow> string option \<Rightarrow> bool" where
  "EqualOptionalText left right =
     (case (left, right) of (Some l, Some r) \<Rightarrow> l = r | (None, None) \<Rightarrow> True | _ \<Rightarrow> False)"

fun duplicates_loop :: "'a set \<Rightarrow> 'a list \<Rightarrow> bool" where
  "duplicates_loop seen [] = False"
| "duplicates_loop seen (v # vs) = (if v \<in> seen then True else duplicates_loop (insert v seen) vs)"

definition HasDuplicates :: "'a list \<Rightarrow> bool" where
  "HasDuplicates values = duplicates_loop {} values"

lemma duplicates_loop_iff: "duplicates_loop seen vs \<longleftrightarrow> \<not> (distinct vs \<and> set vs \<inter> seen = {})"
  by (induction seen vs rule: duplicates_loop.induct) auto

lemma HasDuplicates_iff [simp]: "HasDuplicates vs \<longleftrightarrow> \<not> distinct vs"
  by (simp add: HasDuplicates_def duplicates_loop_iff)

lemma MinimumTime_min [simp]: "MinimumTime s t = min s t"
  by (simp add: MinimumTime_def min_def)

lemma EqualOptionalText_iff [simp]: "EqualOptionalText l r \<longleftrightarrow> l = r"
  by (cases l; cases r) (auto simp: EqualOptionalText_def)

lemma NormalizeOptionalText_idem [simp]:
  "NormalizeOptionalText (NormalizeOptionalText v) = NormalizeOptionalText v"
  by (cases v) (auto simp: NormalizeOptionalText_def Let_def)

lemma NormalizeRequiredText_eq:
  "NormalizeRequiredText v = (w, ok) \<longleftrightarrow> w = trim_space v \<and> (ok \<longleftrightarrow> w \<noteq> '''')"
  by (auto simp: NormalizeRequiredText_def Let_def)

text \<open>
  The latest of a time and some times that may be absent: the loop every aggregate of the service
  has in its \<open>latestChangedAt\<close>.
\<close>

fun latest :: "gotime \<Rightarrow> gotime option list \<Rightarrow> gotime" where
  "latest l [] = l"
| "latest l (value # values) =
     (case value of
        Some v \<Rightarrow> latest (if after v l then v else l) values
      | None \<Rightarrow> latest l values)"

lemma latest_le_iff: "latest l vs \<le> n \<longleftrightarrow> l \<le> n \<and> (\<forall>v. Some v \<in> set vs \<longrightarrow> v \<le> n)"
  by (induction l vs rule: latest.induct) (auto split: option.splits)

lemma latest_ge: "l \<le> latest l vs" "Some v \<in> set vs \<Longrightarrow> v \<le> latest l vs"
  using latest_le_iff [of l vs "latest l vs"] by auto


section \<open>Sentinel errors\<close>

datatype refresh_sentinel =
  Ref_ErrSessionFamilyAlreadyExists | Ref_ErrNotFound | Ref_ErrRevoked | Ref_ErrExpired
| Ref_ErrTokenNotFound | Ref_ErrTokenRevoked | Ref_ErrTokenExpired | Ref_errTokenAlreadyRotated

datatype session_sentinel =
  Ses_ErrNotFound | Ses_ErrRevoked | Ses_ErrIdleExpired | Ses_ErrAbsoluteExpired

datatype code_sentinel =
  Code_ErrAlreadyExists | Code_ErrNotFound | Code_ErrExpired | Code_ErrOAuthClientMismatch
| Code_ErrRedirectURIMismatch | Code_ErrPKCERequired | Code_ErrPKCEVerificationFailed

datatype grant_sentinel =
  Grant_ErrAlreadyExists | Grant_ErrNotFound | Grant_ErrRevoked | Grant_ErrExpired

datatype transaction_sentinel =
  Tra_ErrAlreadyExists | Tra_ErrNotFound | Tra_ErrExpired | Tra_ErrInvalidStatus
| Tra_ErrInvalidStep | Tra_ErrIdentityMismatch | Tra_ErrPKCERequired

datatype flow_sentinel =
  Flow_ErrFactsNotFound | Flow_ErrFactsRequired | Flow_ErrNoNextStep

datatype client_sentinel =
  Cli_ErrClientIDAlreadyExists | Cli_ErrNotFound | Cli_ErrInvalidStatus | Cli_ErrPKCERequired
| Cli_ErrAuthorizationCodeRequired | Cli_ErrAuthorizationCodeFlowNotAllowed
| Cli_ErrRedirectURIAlreadyExists | Cli_ErrRedirectURINotFound | Cli_ErrLastRedirectURI
| Cli_ErrPostLogoutRedirectURIAlreadyExists | Cli_ErrPostLogoutRedirectURINotFound
| Cli_ErrGrantTypeAlreadyExists | Cli_ErrGrantTypeNotFound | Cli_ErrScopeAlreadyExists
| Cli_ErrScopeNotFound | Cli_ErrCredentialsNotAllowed | Cli_ErrUsableCredentialRequired
| Cli_ErrCredentialNotFound | Cli_ErrCredentialRevoked | Cli_ErrCredentialExpired

datatype token_sentinel = Tok_ErrInvalidToken

datatype identity_sentinel =
  Idn_ErrNotFound | Idn_ErrInvalidStatus | Idn_ErrInvalidTransition | Idn_ErrLoginMethodRequired
| Idn_ErrEmailNotFound | Idn_ErrEmailAlreadyExists | Idn_ErrPhoneNotFound | Idn_ErrPhoneAlreadyExists
| Idn_ErrExternalAccountNotFound | Idn_ErrExternalAccountExists | Idn_ErrExternalAccountDisabled

datatype profile_sentinel =
  Pro_ErrAlreadyExists | Pro_ErrNotFound | Pro_ErrExternallyManaged

datatype key_sentinel =
  Key_ErrNotFound | Key_ErrInvalidStatus | Key_ErrNotYetValid | Key_ErrExpired | Key_ErrCompromised
| Key_ErrKeyIDAlreadyExists | Key_ErrActiveAlgorithmConflict

datatype password_sentinel =
  Pwd_ErrAlreadyExists | Pwd_ErrNotFound | Pwd_ErrLocked | Pwd_ErrExpired | Pwd_ErrCompromised

datatype mfa_sentinel =
  Mfa_ErrFactorNotFound | Mfa_ErrFactorAlreadyExists | Mfa_ErrEnabledTOTPAlreadyExists
| Mfa_ErrCredentialAlreadyExists | Mfa_ErrFactorDisabled | Mfa_ErrFactorNotConfirmed | Mfa_ErrTOTPReplay
| Mfa_ErrWebAuthnCounterRollback

datatype recovery_sentinel =
  Rec_ErrActiveSetAlreadyExists | Rec_ErrNotFound | Rec_ErrDisabled | Rec_ErrExpired
| Rec_ErrCodeNotFound | Rec_ErrCodeUsed

text \<open>The three challenge packages declare the same sentinels; \<open>S_chal\<close> says of which package.\<close>

datatype challenge_kind = EmailChallenge | PhoneChallenge | ResetChallenge

datatype challenge_sentinel =
  Cha_ErrNotFound | Cha_ErrExpired | Cha_ErrConsumed | Cha_ErrRevoked | Cha_ErrAttemptsExhausted

datatype account_sentinel =
  Acc_ErrNotFound | Acc_ErrAccountKeyAlreadyExists | Acc_ErrInvalidStatus
| Acc_ErrUsableCredentialRequired | Acc_ErrCredentialNotFound | Acc_ErrCredentialRevoked
| Acc_ErrCredentialExpired

datatype contact_sentinel = Con_ErrChallengeUnavailable

datatype id_sentinel =
  S_ref refresh_sentinel | S_ses session_sentinel | S_code code_sentinel | S_grant grant_sentinel
| S_tra transaction_sentinel | S_flow flow_sentinel | S_cli client_sentinel | S_tok token_sentinel
| S_idn identity_sentinel | S_pro profile_sentinel | S_key key_sentinel | S_pwd password_sentinel
| S_mfa mfa_sentinel | S_rec recovery_sentinel | S_chal challenge_kind challenge_sentinel
| S_acc account_sentinel | S_contact contact_sentinel

type_synonym ierror = "id_sentinel error"


section \<open>Authentication methods and levels\<close>

text \<open>
  \<open>Method\<close> and \<open>Level\<close> are strings in the code; \<open>OtherMethod\<close> and \<open>OtherLevel\<close> are the strings that are
  none of the constants, the empty one included.
\<close>

datatype auth_method =
  MethodPassword | MethodTOTP | MethodWebAuthn | MethodRecoveryCode | OtherMethod string

definition method_IsValid :: "auth_method \<Rightarrow> bool" where
  "method_IsValid m =
     (case m of MethodPassword \<Rightarrow> True | MethodTOTP \<Rightarrow> True | MethodWebAuthn \<Rightarrow> True
      | MethodRecoveryCode \<Rightarrow> True | _ \<Rightarrow> False)"

datatype auth_level = LevelSingleFactor | LevelMultiFactor | OtherLevel string

definition level_IsValid :: "auth_level \<Rightarrow> bool" where
  "level_IsValid l \<longleftrightarrow> l = LevelSingleFactor \<or> l = LevelMultiFactor"

datatype factor_class = Knowledge | Possession

definition factorClass :: "auth_method \<Rightarrow> factor_class option" where
  "factorClass m =
     (case m of
        MethodPassword \<Rightarrow> Some Knowledge
      | MethodTOTP \<Rightarrow> Some Possession
      | MethodWebAuthn \<Rightarrow> Some Possession
      | MethodRecoveryCode \<Rightarrow> Some Possession
      | OtherMethod _ \<Rightarrow> None)"

text \<open>The loop over the methods with the sets of classes and of methods seen.\<close>

fun level_loop ::
  "auth_method set \<Rightarrow> factor_class set \<Rightarrow> auth_method list \<Rightarrow> 'k error + factor_class set" where
  "level_loop seen classes [] = Inr classes"
| "level_loop seen classes (m # ms) =
     (if m \<in> seen then Inl (Fresh ''resolve authentication level: method is duplicated'')
      else case factorClass m of
        None \<Rightarrow> Inl (Fresh ''resolve authentication level: unknown method'')
      | Some c \<Rightarrow> level_loop (insert m seen) (insert c classes) ms)"

definition ResolveLevel :: "auth_method list \<Rightarrow> 'k error + auth_level" where
  "ResolveLevel methods =
     (if methods = []
      then Inl (Fresh ''resolve authentication level: at least one method is required'')
      else case level_loop {} {} methods of
        Inl err \<Rightarrow> Inl err
      | Inr classes \<Rightarrow> Inr (if card classes > 1 then LevelMultiFactor else LevelSingleFactor))"

lemma factorClass_None: "factorClass m = None \<longleftrightarrow> \<not> method_IsValid m"
  by (cases m) (simp_all add: factorClass_def method_IsValid_def)

lemma factorClass_Some: "factorClass m = Some c \<Longrightarrow> method_IsValid m"
  using factorClass_None [of m] by simp

lemma factorClass_of:
  "method_IsValid m \<Longrightarrow> the (factorClass m) = (if m = MethodPassword then Knowledge else Possession)"
  by (cases m) (simp_all add: factorClass_def method_IsValid_def)

lemma level_loop_ok:
  "level_loop seen classes ms = Inr cs \<longleftrightarrow>
     distinct ms \<and> set ms \<inter> seen = {} \<and> (\<forall>m \<in> set ms. method_IsValid m) \<and>
     cs = classes \<union> (the \<circ> factorClass) ` set ms"
  by (induction seen classes ms rule: level_loop.induct)
     (auto simp: factorClass_None dest: factorClass_Some split: option.splits)

lemma classes_card:
  "card (classes :: factor_class set) > 1 \<longleftrightarrow> Knowledge \<in> classes \<and> Possession \<in> classes"
proof -
  have "classes \<in> Pow {Knowledge, Possession}"
    using factor_class.exhaust by auto
  then have "classes \<in> {{}, {Knowledge}, {Possession}, {Knowledge, Possession}}"
    by (auto simp: Pow_insert)
  then show ?thesis by auto
qed

text \<open>
  Two factors are a password and something the user has; two things the user has are one factor.
\<close>

lemma ResolveLevel_ok:
  "ResolveLevel ms = Inr l \<longleftrightarrow>
     ms \<noteq> [] \<and> distinct ms \<and> (\<forall>m \<in> set ms. method_IsValid m) \<and>
     l = (if MethodPassword \<in> set ms \<and> (\<exists>m \<in> set ms. m \<noteq> MethodPassword)
          then LevelMultiFactor else LevelSingleFactor)"
proof -
  let ?cs = "(the \<circ> factorClass) ` set ms"
  let ?ok = "distinct ms \<and> (\<forall>m \<in> set ms. method_IsValid m)"
  have loop: "level_loop {} {} ms = Inr cs \<longleftrightarrow> ?ok \<and> cs = ?cs" for cs :: "factor_class set"
    by (simp add: level_loop_ok)
  have two: "card ?cs > 1 \<longleftrightarrow> MethodPassword \<in> set ms \<and> (\<exists>m \<in> set ms. m \<noteq> MethodPassword)" if ?ok
  proof -
    have cls: "the (factorClass m) = (if m = MethodPassword then Knowledge else Possession)"
      if "m \<in> set ms" for m
      using that \<open>?ok\<close> by (simp add: factorClass_of)
    have "Knowledge \<in> ?cs \<longleftrightarrow> MethodPassword \<in> set ms"
      unfolding image_iff comp_apply using cls by (metis factor_class.distinct(1))
    moreover have "Possession \<in> ?cs \<longleftrightarrow> (\<exists>m \<in> set ms. m \<noteq> MethodPassword)"
      unfolding image_iff comp_apply using cls by (metis factor_class.distinct(1))
    ultimately show ?thesis by (simp only: classes_card)
  qed
  show ?thesis
  proof (cases "level_loop {} {} ms :: 'a error + _")
    case (Inl e)
    then have "\<not> ?ok" using loop by (metis Inl_Inr_False)
    with Inl show ?thesis by (auto simp: ResolveLevel_def)
  next
    case (Inr cs)
    then have "?ok" "cs = ?cs" using loop by blast+
    with Inr two show ?thesis by (auto simp: ResolveLevel_def simp del: comp_apply)
  qed
qed

lemma ResolveLevel_valid: "ResolveLevel ms = Inr l \<Longrightarrow> level_IsValid l"
  by (auto simp: ResolveLevel_ok level_IsValid_def)

section \<open>Searching and changing lists\<close>

text \<open>
  The index loops of the aggregates (first element with a property, \<open>-1\<close> where there is none, here
  \<open>None\<close>) and \<open>append(xs[:i], xs[i+1:]...)\<close>.
\<close>

fun index_by :: "('a \<Rightarrow> bool) \<Rightarrow> 'a list \<Rightarrow> nat option" where
  "index_by P [] = None"
| "index_by P (x # xs) = (if P x then Some 0 else map_option Suc (index_by P xs))"

definition remove_at :: "nat \<Rightarrow> 'a list \<Rightarrow> 'a list" where
  "remove_at i xs = take i xs @ drop (i + 1) xs"

lemma index_by_Some: "index_by P xs = Some i \<Longrightarrow> i < length xs \<and> P (xs ! i)"
  by (induction P xs arbitrary: i rule: index_by.induct) (auto split: if_splits)

lemma index_by_None: "index_by P xs = None \<longleftrightarrow> (\<forall>x \<in> set xs. \<not> P x)"
  by (induction P xs rule: index_by.induct) auto

lemma index_by_ex: "(\<exists>i. index_by P xs = Some i) \<longleftrightarrow> (\<exists>x \<in> set xs. P x)"
  using index_by_None [of P xs] by auto

lemma index_by_append_None:
  "index_by P xs = None \<Longrightarrow> index_by P (xs @ [x]) = (if P x then Some (length xs) else None)"
  by (induction P xs rule: index_by.induct) (auto split: if_splits)

lemma remove_at_set: "set (remove_at i xs) \<subseteq> set xs"
  by (auto simp: remove_at_def dest: in_set_takeD in_set_dropD)

lemma remove_at_length: "i < length xs \<Longrightarrow> length (remove_at i xs) = length xs - 1"
  by (simp add: remove_at_def)

lemma remove_at_map: "map f (remove_at i xs) = remove_at i (map f xs)"
  by (simp add: remove_at_def take_map drop_map)

lemma remove_at_distinct: "distinct xs \<Longrightarrow> distinct (remove_at i xs)"
  by (auto simp: remove_at_def set_take_disj_set_drop_if_distinct)

lemma remove_at_gone:
  "distinct xs \<Longrightarrow> i < length xs \<Longrightarrow> set (remove_at i xs) = set xs - {xs ! i}"
proof -
  assume d: "distinct xs" and i: "i < length xs"
  have "xs = take i xs @ xs ! i # drop (i + 1) xs"
    using i by (simp add: Cons_nth_drop_Suc)
  then have "set xs = insert (xs ! i) (set (take i xs) \<union> set (drop (i + 1) xs))"
    and "distinct (take i xs @ xs ! i # drop (i + 1) xs)"
    using d by (metis Un_insert_right list.simps(15) set_append, metis)
  then show ?thesis by (auto simp: remove_at_def)
qed

text \<open>A method that refuses: its error, wrapped in the method's text, and the receiver as it was.\<close>

definition refuse :: "string \<Rightarrow> 'k error \<Rightarrow> 'a \<Rightarrow> 'k error option \<times> 'a" where
  "refuse msg err x = (Some (Wrap msg err ''''), x)"

lemma refuse_simps [simp]: "fst (refuse msg err x) = Some (Wrap msg err '''')" "snd (refuse msg err x) = x"
  by (simp_all add: refuse_def)

lemma refuse_not_None [simp]: "refuse msg err x \<noteq> (None, y)" "(None, y) \<noteq> refuse msg err x"
  by (simp_all add: refuse_def)

text \<open>
  The early returns of a method, read backwards: what held when it succeeded, and when it failed.
\<close>

lemma guard_ok:
  "(if b then (Some e, x) else r) = (None, u) \<longleftrightarrow> \<not> b \<and> r = (None, u)"
  "(if b then refuse msg err x else r) = (None, u) \<longleftrightarrow> \<not> b \<and> r = (None, u)"
  "(case v of None \<Rightarrow> r | Some y \<Rightarrow> (Some (f y), x)) = (None, u) \<longleftrightarrow> v = None \<and> r = (None, u)"
  "(case v of None \<Rightarrow> r | Some y \<Rightarrow> refuse msg (g y) x) = (None, u) \<longleftrightarrow> v = None \<and> r = (None, u)"
  "(case s of Inl y \<Rightarrow> (Some (h y), x) | Inr z \<Rightarrow> k z) = (None, u) \<longleftrightarrow> (\<exists>z. s = Inr z \<and> k z = (None, u))"
  "(case s of Inl y \<Rightarrow> refuse msg (h y) x | Inr z \<Rightarrow> k z) = (None, u) \<longleftrightarrow> (\<exists>z. s = Inr z \<and> k z = (None, u))"
  "(case p of (None, t) \<Rightarrow> q t | (Some y, t) \<Rightarrow> (Some (f y), l t)) = (None, u) \<longleftrightarrow>
     (\<exists>t. p = (None, t) \<and> q t = (None, u))"
  "(case p of (None, t) \<Rightarrow> q t | (Some y, t) \<Rightarrow> refuse msg (g y) (l t)) = (None, u) \<longleftrightarrow>
     (\<exists>t. p = (None, t) \<and> q t = (None, u))"
  by (auto simp: refuse_def split: option.splits sum.splits prod.splits)

lemma guard_error:
  "(if b then (Some e, x) else r) = (Some err, u) \<longleftrightarrow> b \<and> err = e \<and> u = x \<or> \<not> b \<and> r = (Some err, u)"
  "(case v of None \<Rightarrow> r | Some y \<Rightarrow> (Some (f y), x)) = (Some err, u) \<longleftrightarrow>
     (\<exists>y. v = Some y \<and> err = f y \<and> u = x) \<or> v = None \<and> r = (Some err, u)"
  "(case s of Inl y \<Rightarrow> (Some (h y), x) | Inr z \<Rightarrow> k z) = (Some err, u) \<longleftrightarrow>
     (\<exists>y. s = Inl y \<and> err = h y \<and> u = x) \<or> (\<exists>z. s = Inr z \<and> k z = (Some err, u))"
  "(case p of (None, t) \<Rightarrow> q t | (Some y, t) \<Rightarrow> (Some (f y), l t)) = (Some err, u) \<longleftrightarrow>
     (\<exists>y t. p = (Some y, t) \<and> err = f y \<and> u = l t) \<or> (\<exists>t. p = (None, t) \<and> q t = (Some err, u))"
  by (auto split: option.splits sum.splits prod.splits)

end
