(* ===== verification/Identity_Refresh.thy ===== *)
theory Identity_Refresh
  imports Identity_Common
begin

text \<open>
  The refresh token family, \<open>internal/domain/refreshtokenfamily\<close>: a session's chain of refresh tokens,
  of which the last can be exchanged for the next; presenting an earlier one revokes them all.
\<close>

section \<open>Tokens\<close>

record refresh_token =
  rt_ID :: uuid
  rt_ParentTokenID :: "uuid option"
  rt_Hash :: string
  rt_CreatedFromIP :: "string option"
  rt_CreatedUserAgent :: "string option"
  rt_IssuedAt :: gotime
  rt_ExpiresAt :: gotime
  rt_RotatedAt :: "gotime option"
  rt_RevokedAt :: "gotime option"
  rt_RevokeReason :: "string option"
  rt_ReuseDetectedAt :: "gotime option"

definition NewTokenHash :: "string \<Rightarrow> ierror + string" where
  "NewTokenHash value =
     (if \<not> HasText value then Inl (Fresh ''refresh token hash is required'') else Inr value)"

definition newRefreshToken ::
  "uuid \<Rightarrow> uuid option \<Rightarrow> string \<Rightarrow> gotime \<Rightarrow> string option \<Rightarrow> string option \<Rightarrow> gotime
     \<Rightarrow> ierror + refresh_token" where
  "newRefreshToken tokenID parent hash expiresAt ip userAgent now =
     (if tokenID = uuid_nil then Inl (Fresh ''refresh token identifier is invalid'')
      else if parent \<noteq> None \<and> (the parent = uuid_nil \<or> the parent = tokenID)
      then Inl (Fresh ''refresh token parent identifier is invalid'')
      else if is_zero now \<or> \<not> after expiresAt now
      then Inl (Fresh ''refresh token expiration is invalid'')
      else Inr \<lparr>rt_ID = tokenID, rt_ParentTokenID = parent, rt_Hash = hash, rt_CreatedFromIP = ip,
                rt_CreatedUserAgent = NormalizeOptionalText userAgent, rt_IssuedAt = now,
                rt_ExpiresAt = expiresAt, rt_RotatedAt = None, rt_RevokedAt = None,
                rt_RevokeReason = None, rt_ReuseDetectedAt = None\<rparr>)"

definition rt_latestChangedAt :: "refresh_token \<Rightarrow> gotime" where
  "rt_latestChangedAt t = latest (rt_IssuedAt t) [rt_RotatedAt t, rt_RevokedAt t, rt_ReuseDetectedAt t]"

definition ValidateForRotation :: "gotime \<Rightarrow> refresh_token \<Rightarrow> ierror option" where
  "ValidateForRotation now t =
     (if is_zero now \<or> before now (rt_latestChangedAt t)
      then Some (Fresh ''refresh token use time is invalid'')
      else if rt_RotatedAt t \<noteq> None then Some (Sentinel (S_ref Ref_errTokenAlreadyRotated))
      else if rt_RevokedAt t \<noteq> None then Some (Sentinel (S_ref Ref_ErrTokenRevoked))
      else if \<not> before now (rt_ExpiresAt t) then Some (Sentinel (S_ref Ref_ErrTokenExpired))
      else None)"

text \<open>A method that changes its receiver returns its error and the new value of the receiver.\<close>

definition MarkRotated :: "gotime \<Rightarrow> refresh_token \<Rightarrow> ierror option \<times> refresh_token" where
  "MarkRotated now t =
     (case ValidateForRotation now t of
        Some err \<Rightarrow> (Some err, t)
      | None \<Rightarrow> (None, t\<lparr>rt_RotatedAt := Some now\<rparr>))"

definition RecordReuseDetected :: "gotime \<Rightarrow> refresh_token \<Rightarrow> ierror option \<times> refresh_token" where
  "RecordReuseDetected now t =
     (if rt_RotatedAt t = None then (Some (Fresh ''refresh token was not rotated''), t)
      else if is_zero now \<or> before now (rt_latestChangedAt t)
      then (Some (Fresh ''refresh token reuse time is invalid''), t)
      else (None, t\<lparr>rt_ReuseDetectedAt := Some now\<rparr>))"

definition token_Revoke :: "string \<Rightarrow> gotime \<Rightarrow> refresh_token \<Rightarrow> ierror option \<times> refresh_token" where
  "token_Revoke reason now t =
     (if rt_RevokedAt t \<noteq> None then (None, t)
      else if is_zero now \<or> before now (rt_latestChangedAt t)
      then (Some (Fresh ''refresh token revocation time is invalid''), t)
      else case NormalizeRequiredText reason of (normalized, ok) \<Rightarrow>
        if \<not> ok then (Some (Fresh ''refresh token revoke reason is required''), t)
        else (None, t\<lparr>rt_RevokedAt := Some now, rt_RevokeReason := Some normalized\<rparr>))"


section \<open>The family\<close>

record refresh_token_family =
  rf_ID :: uuid
  rf_SessionID :: uuid
  rf_Tokens :: "refresh_token list"
  rf_CreatedAt :: gotime
  rf_LastRotatedAt :: "gotime option"
  rf_AbsoluteExpiresAt :: gotime
  rf_ReuseDetectedAt :: "gotime option"
  rf_RevokedAt :: "gotime option"
  rf_RevokeReason :: "string option"

definition reuseDetectedRevokeReason :: string where
  "reuseDetectedRevokeReason = ''refresh_token_reuse_detected''"

definition New_family ::
  "uuid \<Rightarrow> uuid \<Rightarrow> uuid \<Rightarrow> string \<Rightarrow> gotime \<Rightarrow> gotime \<Rightarrow> string option \<Rightarrow> string option \<Rightarrow> gotime
     \<Rightarrow> ierror + refresh_token_family" where
  "New_family familyID sessionID initialTokenID initialTokenHash initialTokenExpiresAt absoluteExpiresAt
     ip userAgent now =
     (if familyID = uuid_nil
      then Inl (Fresh ''create refresh token family: identifier is required'')
      else if sessionID = uuid_nil
      then Inl (Fresh ''create refresh token family: session identifier is invalid'')
      else if is_zero now \<or> \<not> after absoluteExpiresAt now
      then Inl (Fresh ''create refresh token family: absolute expiration is invalid'')
      else if after initialTokenExpiresAt absoluteExpiresAt
      then Inl (Fresh ''create refresh token family: initial token exceeds family expiration'')
      else case newRefreshToken initialTokenID None initialTokenHash initialTokenExpiresAt ip
                  userAgent now of
        Inl err \<Rightarrow> Inl (Wrap ''create initial refresh token: '' err '''')
      | Inr t \<Rightarrow> Inr \<lparr>rf_ID = familyID, rf_SessionID = sessionID, rf_Tokens = [t], rf_CreatedAt = now,
                     rf_LastRotatedAt = None, rf_AbsoluteExpiresAt = absoluteExpiresAt,
                     rf_ReuseDetectedAt = None, rf_RevokedAt = None, rf_RevokeReason = None\<rparr>)"

definition rf_latestChangedAt :: "refresh_token_family \<Rightarrow> gotime" where
  "rf_latestChangedAt f = latest (rf_CreatedAt f) [rf_LastRotatedAt f, rf_ReuseDetectedAt f, rf_RevokedAt f]"

text \<open>The loop of \<open>revoke\<close> over the tokens stops at the first error, with the earlier ones revoked.\<close>

fun revoke_tokens :: "string \<Rightarrow> gotime \<Rightarrow> refresh_token list \<Rightarrow> ierror option \<times> refresh_token list" where
  "revoke_tokens reason now [] = (None, [])"
| "revoke_tokens reason now (t # ts) =
     (case token_Revoke reason now t of
        (Some err, t) \<Rightarrow> (Some err, t # ts)
      | (None, t) \<Rightarrow> (case revoke_tokens reason now ts of (r, ts) \<Rightarrow> (r, t # ts)))"

definition family_revoke ::
  "string \<Rightarrow> gotime \<Rightarrow> refresh_token_family \<Rightarrow> ierror option \<times> refresh_token_family" where
  "family_revoke reason now f =
     (case revoke_tokens reason now (rf_Tokens f) of
        (Some err, ts) \<Rightarrow> (Some err, f\<lparr>rf_Tokens := ts\<rparr>)
      | (None, ts) \<Rightarrow>
          (None, f\<lparr>rf_Tokens := ts, rf_RevokedAt := Some now, rf_RevokeReason := Some reason\<rparr>))"

definition family_Revoke ::
  "string \<Rightarrow> gotime \<Rightarrow> refresh_token_family \<Rightarrow> ierror option \<times> refresh_token_family" where
  "family_Revoke reason now f =
     (if rf_RevokedAt f \<noteq> None then (None, f)
      else if is_zero now \<or> before now (rf_latestChangedAt f)
      then (Some (Fresh ''revoke refresh token family: time is invalid''), f)
      else case NormalizeRequiredText reason of (reason, ok) \<Rightarrow>
        if \<not> ok then (Some (Fresh ''revoke refresh token family: reason is required''), f)
        else case family_revoke reason now f of
          (Some err, f) \<Rightarrow> (Some (Wrap ''revoke refresh token family: '' err ''''), f)
        | (None, f) \<Rightarrow> (None, f))"

definition ensureRotationAllowed :: "gotime \<Rightarrow> refresh_token_family \<Rightarrow> ierror option" where
  "ensureRotationAllowed now f =
     (if is_zero now \<or> before now (rf_latestChangedAt f)
      then Some (Fresh ''validate refresh token family for rotation: time is invalid'')
      else if rf_RevokedAt f \<noteq> None
      then Some (Wrap ''validate refresh token family for rotation: '' (Sentinel (S_ref Ref_ErrRevoked)) '''')
      else if \<not> before now (rf_AbsoluteExpiresAt f)
      then Some (Wrap ''validate refresh token family for rotation: '' (Sentinel (S_ref Ref_ErrExpired)) '''')
      else None)"

fun tokenIndex :: "uuid \<Rightarrow> refresh_token list \<Rightarrow> nat option" where
  "tokenIndex k [] = None"
| "tokenIndex k (t # ts) = (if rt_ID t = k then Some 0 else map_option Suc (tokenIndex k ts))"

fun hasTokenHash :: "string \<Rightarrow> refresh_token list \<Rightarrow> bool" where
  "hasTokenHash hash [] = False"
| "hasTokenHash hash (t # ts) = (if rt_Hash t = hash then True else hasTokenHash hash ts)"

fun TokenIDByHash :: "string \<Rightarrow> refresh_token list \<Rightarrow> ierror + uuid" where
  "TokenIDByHash hash [] = Inl (Sentinel (S_ref Ref_ErrTokenNotFound))"
| "TokenIDByHash hash (t # ts) = (if rt_Hash t = hash then Inr (rt_ID t) else TokenIDByHash hash ts)"

datatype rotation_outcome = RotationOutcomeRotated | RotationOutcomeReuseDetected

abbreviation (input) rotate_error :: "ierror \<Rightarrow> ierror" where
  "rotate_error err \<equiv> Wrap ''rotate refresh token: '' err ''''"

text \<open>
  The branch of \<open>Rotate\<close> for a token that was rotated before, at its index; the changes of the family
  up to an error are kept, as in the code.
\<close>

definition rotate_reused ::
  "nat \<Rightarrow> gotime \<Rightarrow> refresh_token_family \<Rightarrow> (ierror + rotation_outcome) \<times> refresh_token_family" where
  "rotate_reused i now f =
     (case RecordReuseDetected now (rf_Tokens f ! i) of
        (Some err, t) \<Rightarrow>
          (Inl (Wrap ''rotate refresh token: record token reuse: '' err ''''),
           f\<lparr>rf_Tokens := (rf_Tokens f)[i := t]\<rparr>)
      | (None, t) \<Rightarrow>
          (case family_revoke reuseDetectedRevokeReason now
                  (f\<lparr>rf_Tokens := (rf_Tokens f)[i := t], rf_ReuseDetectedAt := Some now\<rparr>) of
             (Some err, f) \<Rightarrow>
               (Inl (Wrap ''rotate refresh token: revoke reused token family: '' err ''''), f)
           | (None, f) \<Rightarrow> (Inr RotationOutcomeReuseDetected, f)))"

definition rotate_next ::
  "nat \<Rightarrow> uuid \<Rightarrow> uuid \<Rightarrow> string \<Rightarrow> gotime \<Rightarrow> string option \<Rightarrow> string option \<Rightarrow> gotime
     \<Rightarrow> refresh_token_family \<Rightarrow> (ierror + rotation_outcome) \<times> refresh_token_family" where
  "rotate_next i presentedID nextID nextHash nextExpiresAt ip userAgent now f =
     (if tokenIndex nextID (rf_Tokens f) \<noteq> None
      then (Inl (Fresh ''rotate refresh token: next token identifier already exists''), f)
      else if hasTokenHash nextHash (rf_Tokens f)
      then (Inl (Fresh ''rotate refresh token: next token hash already exists''), f)
      else if after nextExpiresAt (rf_AbsoluteExpiresAt f)
      then (Inl (Fresh ''rotate refresh token: next token expiration exceeds family expiration''), f)
      else case newRefreshToken nextID (Some presentedID) nextHash nextExpiresAt ip userAgent now of
        Inl err \<Rightarrow> (Inl (rotate_error err), f)
      | Inr nextToken \<Rightarrow>
          (case MarkRotated now (rf_Tokens f ! i) of
             (Some err, t) \<Rightarrow> (Inl (rotate_error err), f\<lparr>rf_Tokens := (rf_Tokens f)[i := t]\<rparr>)
           | (None, t) \<Rightarrow>
               (Inr RotationOutcomeRotated,
                f\<lparr>rf_Tokens := (rf_Tokens f)[i := t] @ [nextToken], rf_LastRotatedAt := Some now\<rparr>)))"

definition Rotate ::
  "uuid \<Rightarrow> uuid \<Rightarrow> string \<Rightarrow> gotime \<Rightarrow> string option \<Rightarrow> string option \<Rightarrow> gotime
     \<Rightarrow> refresh_token_family \<Rightarrow> (ierror + rotation_outcome) \<times> refresh_token_family" where
  "Rotate presentedID nextID nextHash nextExpiresAt ip userAgent now f =
     (case ensureRotationAllowed now f of
        Some err \<Rightarrow> (Inl (rotate_error err), f)
      | None \<Rightarrow>
          (case tokenIndex presentedID (rf_Tokens f) of
             None \<Rightarrow> (Inl (rotate_error (Sentinel (S_ref Ref_ErrTokenNotFound))), f)
           | Some i \<Rightarrow>
               (case ValidateForRotation now (rf_Tokens f ! i) of
                  Some err \<Rightarrow>
                    if errors_is err (S_ref Ref_errTokenAlreadyRotated) then rotate_reused i now f
                    else (Inl (rotate_error err), f)
                | None \<Rightarrow>
                    rotate_next i presentedID nextID nextHash nextExpiresAt ip userAgent now f)))"

section \<open>Looking tokens up\<close>

lemma tokenIndex_Some: "tokenIndex k ts = Some i \<Longrightarrow> i < length ts \<and> rt_ID (ts ! i) = k"
  by (induction k ts arbitrary: i rule: tokenIndex.induct) (auto split: if_splits)

lemma tokenIndex_None: "tokenIndex k ts = None \<longleftrightarrow> k \<notin> rt_ID ` set ts"
  by (induction k ts rule: tokenIndex.induct) auto

lemma tokenIndex_ex: "(\<exists>i. tokenIndex k ts = Some i) \<longleftrightarrow> k \<in> rt_ID ` set ts"
  using tokenIndex_None [of k ts] by auto

lemma tokenIndex_nth:
  assumes "distinct (map rt_ID ts)" and "i < length ts"
  shows "tokenIndex (rt_ID (ts ! i)) ts = Some i"
proof -
  obtain j where j: "tokenIndex (rt_ID (ts ! i)) ts = Some j"
    using assms(2) tokenIndex_None [of "rt_ID (ts ! i)" ts] by fastforce
  from tokenIndex_Some [OF j] assms have "j = i"
    by (simp add: distinct_conv_nth) (metis nth_map)
  with j show ?thesis by simp
qed

lemma hasTokenHash_iff: "hasTokenHash h ts \<longleftrightarrow> h \<in> rt_Hash ` set ts"
  by (induction h ts rule: hasTokenHash.induct) auto

lemma TokenIDByHash_ok:
  "TokenIDByHash h ts = Inr k \<Longrightarrow> \<exists>t \<in> set ts. rt_Hash t = h \<and> rt_ID t = k"
  by (induction h ts rule: TokenIDByHash.induct) (auto split: if_splits)


section \<open>The invariant of a family\<close>

text \<open>
  The tokens form a chain by their parents, and all but the last are rotated; identifiers and hashes
  are unique; no token outlives the family or was changed after it; and the tokens are revoked
  together with the family.
\<close>

fun chain :: "uuid option \<Rightarrow> refresh_token list \<Rightarrow> bool" where
  "chain p [] \<longleftrightarrow> True"
| "chain p (t # ts) \<longleftrightarrow> rt_ParentTokenID t = p \<and> chain (Some (rt_ID t)) ts"

definition token_within :: "refresh_token_family \<Rightarrow> refresh_token \<Rightarrow> bool" where
  "token_within f t \<longleftrightarrow>
     rt_latestChangedAt t \<le> rf_latestChangedAt f \<and> rt_IssuedAt t < rt_ExpiresAt t \<and>
     rt_ExpiresAt t \<le> rf_AbsoluteExpiresAt f \<and> (rt_RevokedAt t = None \<longleftrightarrow> rf_RevokedAt f = None)"

definition family_wf :: "refresh_token_family \<Rightarrow> bool" where
  "family_wf f \<longleftrightarrow>
     (\<exists>ts t. rf_Tokens f = ts @ [t] \<and> (\<forall>s \<in> set ts. rt_RotatedAt s \<noteq> None) \<and> rt_RotatedAt t = None) \<and>
     distinct (map rt_ID (rf_Tokens f)) \<and> distinct (map rt_Hash (rf_Tokens f)) \<and>
     chain None (rf_Tokens f) \<and> (\<forall>t \<in> set (rf_Tokens f). token_within f t) \<and>
     (rf_ReuseDetectedAt f \<noteq> None \<longrightarrow> rf_RevokedAt f \<noteq> None)"

lemma family_wfI:
  assumes "rf_Tokens f = ts @ [t]" and "\<forall>s \<in> set ts. rt_RotatedAt s \<noteq> None" and "rt_RotatedAt t = None"
    and "distinct (map rt_ID (rf_Tokens f))" and "distinct (map rt_Hash (rf_Tokens f))"
    and "chain None (rf_Tokens f)" and "\<forall>t \<in> set (rf_Tokens f). token_within f t"
    and "rf_ReuseDetectedAt f \<noteq> None \<longrightarrow> rf_RevokedAt f \<noteq> None"
  shows "family_wf f"
  using assms unfolding family_wf_def by blast

lemma family_wf_tokens:
  assumes "family_wf f"
  obtains ts t where "rf_Tokens f = ts @ [t]" and "\<forall>s \<in> set ts. rt_RotatedAt s \<noteq> None"
    and "rt_RotatedAt t = None"
  using assms by (auto simp: family_wf_def)

lemma chain_append_iff:
  "chain p (ts @ [t]) \<longleftrightarrow>
     chain p ts \<and> rt_ParentTokenID t = (if ts = [] then p else Some (rt_ID (last ts)))"
  by (induction p ts rule: chain.induct) auto

lemma chain_map:
  "(\<And>t. t \<in> set ts \<Longrightarrow> rt_ID (g t) = rt_ID t \<and> rt_ParentTokenID (g t) = rt_ParentTokenID t) \<Longrightarrow>
     chain p (map g ts) = chain p ts"
  by (induction p ts rule: chain.induct) auto

lemma token_latest_le:
  "rt_latestChangedAt t \<le> n \<longleftrightarrow>
     rt_IssuedAt t \<le> n \<and> (\<forall>v. Some v \<in> {rt_RotatedAt t, rt_RevokedAt t, rt_ReuseDetectedAt t} \<longrightarrow> v \<le> n)"
  unfolding rt_latestChangedAt_def latest_le_iff by auto

lemma family_latest_le:
  "rf_latestChangedAt f \<le> n \<longleftrightarrow>
     rf_CreatedAt f \<le> n \<and> (\<forall>v. Some v \<in> {rf_LastRotatedAt f, rf_ReuseDetectedAt f, rf_RevokedAt f} \<longrightarrow> v \<le> n)"
  unfolding rf_latestChangedAt_def latest_le_iff by auto

lemma New_family_wf: "New_family i s k h e a ip ua now = Inr f \<Longrightarrow> family_wf f"
  by (auto simp: New_family_def newRefreshToken_def family_wf_def token_within_def
      rt_latestChangedAt_def rf_latestChangedAt_def split: if_splits sum.splits)


section \<open>Revoking\<close>

text \<open>On tokens that were not changed after \<open>now\<close>, the loop revokes every one.\<close>

definition revoked :: "string \<Rightarrow> gotime \<Rightarrow> refresh_token \<Rightarrow> refresh_token" where
  "revoked reason now t =
     (if rt_RevokedAt t \<noteq> None then t
      else t\<lparr>rt_RevokedAt := Some now, rt_RevokeReason := Some (trim_space reason)\<rparr>)"

lemma revoked_fields [simp]:
  "rt_ID (revoked reason now t) = rt_ID t" "rt_Hash (revoked reason now t) = rt_Hash t"
  "rt_ParentTokenID (revoked reason now t) = rt_ParentTokenID t"
  "rt_RotatedAt (revoked reason now t) = rt_RotatedAt t"
  "rt_IssuedAt (revoked reason now t) = rt_IssuedAt t"
  "rt_ExpiresAt (revoked reason now t) = rt_ExpiresAt t"
  "rt_ReuseDetectedAt (revoked reason now t) = rt_ReuseDetectedAt t"
  "rt_RevokedAt (revoked reason now t) \<noteq> None"
  by (auto simp: revoked_def)

lemma revoked_latest: "rt_latestChangedAt t \<le> now \<Longrightarrow> rt_latestChangedAt (revoked reason now t) \<le> now"
  by (auto simp: token_latest_le revoked_def split: if_splits)

lemma revoke_tokens_all:
  assumes "trim_space reason \<noteq> ''''" and "now \<noteq> 0"
    and "\<forall>t \<in> set ts. rt_latestChangedAt t \<le> now"
  shows "revoke_tokens reason now ts = (None, map (revoked reason now) ts)"
  using assms(3)
proof (induction ts)
  case Nil
  show ?case by simp
next
  case (Cons t ts)
  have "token_Revoke reason now t = (None, revoked reason now t)"
    using Cons.prems assms(1,2)
    by (auto simp: token_Revoke_def revoked_def NormalizeRequiredText_def Let_def)
  with Cons show ?case by simp
qed

lemma family_wf_latest:
  "family_wf f \<Longrightarrow> rf_latestChangedAt f \<le> now \<Longrightarrow> \<forall>t \<in> set (rf_Tokens f). rt_latestChangedAt t \<le> now"
  by (auto simp: family_wf_def token_within_def)

lemma family_Revoke_wf:
  assumes "family_wf f" and "family_Revoke reason now f = (r, f')"
  shows "(if r = None
          then rf_RevokedAt f' \<noteq> None \<and>
            (f' = f \<or>
             f' = f\<lparr>rf_Tokens := map (revoked (trim_space reason) now) (rf_Tokens f), rf_RevokedAt := Some now,
                    rf_RevokeReason := Some (trim_space reason)\<rparr> \<and> rf_latestChangedAt f \<le> now)
          else f' = f)"
proof (cases "rf_RevokedAt f = None \<and> now \<noteq> 0 \<and> rf_latestChangedAt f \<le> now \<and> trim_space reason \<noteq> ''''")
  case True
  then have "revoke_tokens (trim_space reason) now (rf_Tokens f) =
      (None, map (revoked (trim_space reason) now) (rf_Tokens f))"
    using assms(1) family_wf_latest by (intro revoke_tokens_all) simp_all
  with True assms(2) show ?thesis
    by (auto simp: family_Revoke_def family_revoke_def NormalizeRequiredText_def Let_def)
next
  case False
  with assms(2) show ?thesis
    by (auto simp: family_Revoke_def NormalizeRequiredText_def Let_def split: if_splits)
qed

lemma all_revoked_wf:
  assumes "family_wf f" and "rf_latestChangedAt f \<le> now"
    and "\<And>t. t \<in> set (rf_Tokens f) \<Longrightarrow> rt_ID (g t) = rt_ID t \<and> rt_Hash (g t) = rt_Hash t \<and>
      rt_ParentTokenID (g t) = rt_ParentTokenID t \<and> rt_RotatedAt (g t) = rt_RotatedAt t \<and>
      rt_IssuedAt (g t) = rt_IssuedAt t \<and> rt_ExpiresAt (g t) = rt_ExpiresAt t \<and>
      rt_RevokedAt (g t) \<noteq> None \<and> rt_latestChangedAt (g t) \<le> now"
    and "f' = f\<lparr>rf_Tokens := map g (rf_Tokens f), rf_ReuseDetectedAt := x, rf_RevokedAt := Some now,
                rf_RevokeReason := reason\<rparr>"
  shows "family_wf f'"
proof -
  have ids: "map rt_ID (map g (rf_Tokens f)) = map rt_ID (rf_Tokens f)"
    and hashes: "map rt_Hash (map g (rf_Tokens f)) = map rt_Hash (rf_Tokens f)"
    using assms(3) by simp_all
  have chained: "chain None (map g (rf_Tokens f)) = chain None (rf_Tokens f)"
    by (rule chain_map) (use assms(3) in blast)
  have latest: "now \<le> rf_latestChangedAt f'"
    unfolding assms(4) rf_latestChangedAt_def by (rule latest_ge) simp
  obtain ts t where ts: "rf_Tokens f = ts @ [t]" "\<forall>s \<in> set ts. rt_RotatedAt s \<noteq> None" "rt_RotatedAt t = None"
    using assms(1) by (auto simp: family_wf_def)
  have last: "rf_Tokens f' = map g ts @ [g t]" "\<forall>s \<in> set (map g ts). rt_RotatedAt s \<noteq> None"
      "rt_RotatedAt (g t) = None"
    using ts assms(3,4) by auto
  have within: "\<forall>t \<in> set (rf_Tokens f'). token_within f' t"
    using assms(1,3,4) latest by (force simp: family_wf_def token_within_def)
  show ?thesis
  proof (rule family_wfI [OF last])
    show "distinct (map rt_ID (rf_Tokens f'))"
      using assms(1) ids unfolding family_wf_def assms(4) by (simp del: map_map)
    show "distinct (map rt_Hash (rf_Tokens f'))"
      using assms(1) hashes unfolding family_wf_def assms(4) by (simp del: map_map)
    show "chain None (rf_Tokens f')"
      using assms(1) chained by (simp add: assms(4) family_wf_def)
  qed (use within assms(4) in auto)
qed

section \<open>Rotating\<close>

lemma update_by_ID:
  assumes "distinct (map rt_ID ts)" and "i < length ts"
  shows "ts[i := k (ts ! i)] = map (\<lambda>t. if rt_ID t = rt_ID (ts ! i) then k t else t) ts"
proof (rule nth_equalityI)
  fix j assume "j < length (ts[i := k (ts ! i)])"
  then have "j < length ts" by simp
  moreover from this have "rt_ID (ts ! j) = rt_ID (ts ! i) \<longleftrightarrow> j = i"
    using assms by (simp add: distinct_conv_nth) (metis nth_map)
  ultimately show "ts[i := k (ts ! i)] ! j =
      map (\<lambda>t. if rt_ID t = rt_ID (ts ! i) then k t else t) ts ! j"
    by (auto simp: nth_list_update)
qed simp

text \<open>What reuse makes of every token, and of the family.\<close>

definition reused :: "uuid \<Rightarrow> gotime \<Rightarrow> refresh_token \<Rightarrow> refresh_token" where
  "reused p now t =
     revoked reuseDetectedRevokeReason now (if rt_ID t = p then t\<lparr>rt_ReuseDetectedAt := Some now\<rparr> else t)"

definition family_reused :: "uuid \<Rightarrow> gotime \<Rightarrow> refresh_token_family \<Rightarrow> refresh_token_family" where
  "family_reused p now f =
     f\<lparr>rf_Tokens := map (reused p now) (rf_Tokens f), rf_ReuseDetectedAt := Some now,
       rf_RevokedAt := Some now, rf_RevokeReason := Some reuseDetectedRevokeReason\<rparr>"

lemma trim_reuse: "trim_space reuseDetectedRevokeReason = reuseDetectedRevokeReason"
  by code_simp

lemma reuse_reason_nonempty: "reuseDetectedRevokeReason \<noteq> ''''"
  by (simp add: reuseDetectedRevokeReason_def)

lemma reused_latest: "rt_latestChangedAt t \<le> now \<Longrightarrow> rt_latestChangedAt (reused p now t) \<le> now"
  unfolding reused_def by (rule revoked_latest) (auto simp: token_latest_le)

lemma family_reused_wf:
  assumes "family_wf f" and "rf_latestChangedAt f \<le> now"
  shows "family_wf (family_reused p now f)"
  by (rule all_revoked_wf [OF assms, where g = "reused p now"])
     (use assms family_wf_latest reused_latest in
       \<open>auto simp: family_reused_def reused_def split: if_splits\<close>)

text \<open>
  Detecting reuse always succeeds on a family that keeps its invariant: the errors of its branch are
  unreachable.
\<close>

lemma rotate_reused_ok:
  assumes wf: "family_wf f" and now: "rf_latestChangedAt f \<le> now" "now \<noteq> 0"
    and i: "i < length (rf_Tokens f)" and rot: "rt_RotatedAt (rf_Tokens f ! i) \<noteq> None"
  shows "rotate_reused i now f =
     (Inr RotationOutcomeReuseDetected, family_reused (rt_ID (rf_Tokens f ! i)) now f)"
proof -
  let ?t = "rf_Tokens f ! i"
  let ?ts = "(rf_Tokens f)[i := ?t\<lparr>rt_ReuseDetectedAt := Some now\<rparr>]"
  have l: "\<forall>t \<in> set (rf_Tokens f). rt_latestChangedAt t \<le> now"
    using family_wf_latest [OF wf now(1)] .
  with i have lt: "rt_latestChangedAt ?t \<le> now" by simp
  have rec: "RecordReuseDetected now ?t = (None, ?t\<lparr>rt_ReuseDetectedAt := Some now\<rparr>)"
    using rot lt now(2) by (simp add: RecordReuseDetected_def)
  have "rt_latestChangedAt (?t\<lparr>rt_ReuseDetectedAt := Some now\<rparr>) \<le> now"
    using lt by (simp add: token_latest_le)
  then have "\<forall>t \<in> set ?ts. rt_latestChangedAt t \<le> now"
    using l set_update_subset_insert [of "rf_Tokens f" i] by fastforce
  then have rev: "revoke_tokens reuseDetectedRevokeReason now ?ts =
      (None, map (revoked reuseDetectedRevokeReason now) ?ts)"
    using now(2) by (intro revoke_tokens_all) (simp_all add: trim_reuse reuse_reason_nonempty)
  have "?ts = map (\<lambda>t. if rt_ID t = rt_ID ?t then t\<lparr>rt_ReuseDetectedAt := Some now\<rparr> else t) (rf_Tokens f)"
    using wf i by (intro update_by_ID) (simp_all add: family_wf_def)
  then have "map (revoked reuseDetectedRevokeReason now) ?ts = map (reused (rt_ID ?t) now) (rf_Tokens f)"
    by (simp add: reused_def comp_def)
  then show ?thesis
    by (simp add: rotate_reused_def rec family_revoke_def rev family_reused_def)
qed

definition next_token ::
  "uuid \<Rightarrow> uuid \<Rightarrow> string \<Rightarrow> gotime \<Rightarrow> string option \<Rightarrow> string option \<Rightarrow> gotime \<Rightarrow> refresh_token" where
  "next_token p n h e ip ua now =
     \<lparr>rt_ID = n, rt_ParentTokenID = Some p, rt_Hash = h, rt_CreatedFromIP = ip,
      rt_CreatedUserAgent = NormalizeOptionalText ua, rt_IssuedAt = now, rt_ExpiresAt = e,
      rt_RotatedAt = None, rt_RevokedAt = None, rt_RevokeReason = None, rt_ReuseDetectedAt = None\<rparr>"

definition family_rotated ::
  "refresh_token list \<Rightarrow> refresh_token \<Rightarrow> refresh_token \<Rightarrow> gotime \<Rightarrow> refresh_token_family \<Rightarrow> refresh_token_family" where
  "family_rotated ts t t' now f =
     f\<lparr>rf_Tokens := ts @ [t\<lparr>rt_RotatedAt := Some now\<rparr>, t'], rf_LastRotatedAt := Some now\<rparr>"

lemma rotate_next_outcome:
  assumes "rf_Tokens f = ts @ [t]" and "ValidateForRotation now t = None"
    and "rotate_next (length ts) p n h e ip ua now f = (r, f')"
  shows "(case r of
            Inl err \<Rightarrow> f' = f
          | Inr oc \<Rightarrow> oc = RotationOutcomeRotated \<and> n \<noteq> uuid_nil \<and> n \<notin> rt_ID ` set (rf_Tokens f) \<and>
              h \<notin> rt_Hash ` set (rf_Tokens f) \<and> now < e \<and> e \<le> rf_AbsoluteExpiresAt f \<and>
              f' = family_rotated ts t (next_token p n h e ip ua now) now f)"
  using assms
  by (auto simp: rotate_next_def newRefreshToken_def MarkRotated_def family_rotated_def next_token_def
      tokenIndex_None tokenIndex_ex hasTokenHash_iff split: if_splits option.splits)

text \<open>
  Every call of \<open>Rotate\<close> on a family that keeps its invariant: an error changes nothing, the last token
  is exchanged for a new one, or an earlier one was presented and everything is revoked.
\<close>

lemma Rotate_cases:
  assumes wf: "family_wf f" and "Rotate p n h e ip ua now f = (r, f')"
  obtains (error) err where "r = Inl err" and "f' = f"
  | (rotated) ts t where "r = Inr RotationOutcomeRotated" and "rf_Tokens f = ts @ [t]" and "p = rt_ID t"
      and "rf_RevokedAt f = None" and "rf_latestChangedAt f \<le> now" and "now \<noteq> 0"
      and "now < rt_ExpiresAt t" and "now < rf_AbsoluteExpiresAt f"
      and "n \<noteq> uuid_nil" and "n \<notin> rt_ID ` set (rf_Tokens f)" and "h \<notin> rt_Hash ` set (rf_Tokens f)"
      and "now < e" and "e \<le> rf_AbsoluteExpiresAt f"
      and "f' = family_rotated ts t (next_token p n h e ip ua now) now f"
  | (reuse) t where "r = Inr RotationOutcomeReuseDetected" and "t \<in> set (rf_Tokens f)" and "p = rt_ID t"
      and "rt_RotatedAt t \<noteq> None" and "rf_RevokedAt f = None" and "rf_latestChangedAt f \<le> now"
      and "now \<noteq> 0" and "now < rf_AbsoluteExpiresAt f" and "f' = family_reused p now f"
proof (cases "ensureRotationAllowed now f")
  case (Some err)
  with assms(2) error show ?thesis by (auto simp: Rotate_def)
next
  case None
  then have now: "now \<noteq> 0" "rf_latestChangedAt f \<le> now" "rf_RevokedAt f = None" "now < rf_AbsoluteExpiresAt f"
    by (auto simp: ensureRotationAllowed_def split: if_splits)
  show ?thesis
  proof (cases "tokenIndex p (rf_Tokens f)")
    case None
    with \<open>ensureRotationAllowed now f = None\<close> assms(2) error show ?thesis by (auto simp: Rotate_def)
  next
    case (Some i)
    let ?t = "rf_Tokens f ! i"
    have i: "i < length (rf_Tokens f)" "rt_ID ?t = p"
      using tokenIndex_Some [OF Some] by simp_all
    have R: "Rotate p n h e ip ua now f =
        (case ValidateForRotation now ?t of
           Some err \<Rightarrow>
             if errors_is err (S_ref Ref_errTokenAlreadyRotated) then rotate_reused i now f
             else (Inl (rotate_error err), f)
         | None \<Rightarrow> rotate_next i p n h e ip ua now f)"
      using \<open>ensureRotationAllowed now f = None\<close> Some by (simp add: Rotate_def)
    have lt: "rt_latestChangedAt ?t \<le> now"
      using family_wf_latest [OF wf now(2)] i by simp
    show ?thesis
    proof (cases "rt_RotatedAt ?t = None")
      case False
      then have "ValidateForRotation now ?t = Some (Sentinel (S_ref Ref_errTokenAlreadyRotated))"
        using lt now(1) by (simp add: ValidateForRotation_def)
      with R rotate_reused_ok [OF wf now(2,1) i(1) False] assms(2) i(2)
      have "r = Inr RotationOutcomeReuseDetected" "f' = family_reused p now f" by simp_all
      with reuse [of ?t] i now False show ?thesis by simp
    next
      case True
      obtain ts t where ts: "rf_Tokens f = ts @ [t]" "\<forall>s \<in> set ts. rt_RotatedAt s \<noteq> None"
        using family_wf_tokens [OF wf] by metis
      have "i = length ts"
      proof (rule ccontr)
        assume "i \<noteq> length ts"
        with i(1) ts(1) have "?t = ts ! i" "i < length ts" by (simp_all add: nth_append)
        then have "?t \<in> set ts" by simp
        with ts(2) True show False by auto
      qed
      with ts(1) have "?t = t" by simp
      show ?thesis
      proof (cases "ValidateForRotation now ?t")
        case (Some err)
        with True have "\<not> errors_is err (S_ref Ref_errTokenAlreadyRotated)"
          by (auto simp: ValidateForRotation_def split: if_splits)
        with R Some assms(2) error show ?thesis by auto
      next
        case None
        then have exp: "now < rt_ExpiresAt t"
          using \<open>?t = t\<close> by (auto simp: ValidateForRotation_def split: if_splits)
        from R None assms(2) have rn: "rotate_next (length ts) p n h e ip ua now f = (r, f')"
          using \<open>i = length ts\<close> by simp
        note out = rotate_next_outcome [OF ts(1) _ rn]
        show ?thesis
        proof (cases r)
          case (Inl err)
          with out None \<open>?t = t\<close> error show ?thesis by simp
        next
          case (Inr oc)
          with out None \<open>?t = t\<close> rotated [OF _ ts(1)] now exp i(2) show ?thesis by simp
        qed
      qed
    qed
  qed
qed

lemma family_rotated_wf:
  assumes wf: "family_wf f" and ts: "rf_Tokens f = ts @ [t]" and now: "rf_latestChangedAt f \<le> now"
    and "rf_RevokedAt f = None" and "n \<notin> rt_ID ` set (rf_Tokens f)" and "h \<notin> rt_Hash ` set (rf_Tokens f)"
    and "now < e" and "e \<le> rf_AbsoluteExpiresAt f"
  shows "family_wf (family_rotated ts t (next_token (rt_ID t) n h e ip ua now) now f)"
    (is "family_wf ?f")
proof (rule family_wfI [where ts = "ts @ [t\<lparr>rt_RotatedAt := Some now\<rparr>]"])
  have l: "now \<le> rf_latestChangedAt ?f"
    unfolding family_rotated_def rf_latestChangedAt_def by (rule latest_ge) simp
  show "rf_Tokens ?f = (ts @ [t\<lparr>rt_RotatedAt := Some now\<rparr>]) @ [next_token (rt_ID t) n h e ip ua now]"
    by (simp add: family_rotated_def)
  show "\<forall>s \<in> set (ts @ [t\<lparr>rt_RotatedAt := Some now\<rparr>]). rt_RotatedAt s \<noteq> None"
    using wf ts by (auto simp: family_wf_def)
  show "distinct (map rt_ID (rf_Tokens ?f))"
    using wf ts assms(5) by (auto simp: family_wf_def family_rotated_def next_token_def)
  show "distinct (map rt_Hash (rf_Tokens ?f))"
    using wf ts assms(6) by (auto simp: family_wf_def family_rotated_def next_token_def)
  have "chain None (ts @ [t])"
    using wf ts by (simp add: family_wf_def)
  then have "chain None (ts @ [t\<lparr>rt_RotatedAt := Some now\<rparr>])"
    by (simp add: chain_append_iff)
  then show "chain None (rf_Tokens ?f)"
    using chain_append_iff [of None "ts @ [t\<lparr>rt_RotatedAt := Some now\<rparr>]" "next_token (rt_ID t) n h e ip ua now"]
    by (simp add: family_rotated_def next_token_def)
  have old: "rt_latestChangedAt s \<le> now \<and> rt_IssuedAt s < rt_ExpiresAt s \<and>
      rt_ExpiresAt s \<le> rf_AbsoluteExpiresAt f \<and> rt_RevokedAt s = None" if "s \<in> set (ts @ [t])" for s
    using wf ts that family_wf_latest [OF wf now] assms(4) by (auto simp: family_wf_def token_within_def)
  have within: "token_within ?f s" if "s \<in> set (ts @ [t])" for s
    using old [OF that] l assms(4) by (auto simp: token_within_def family_rotated_def)
  have "token_within ?f (t\<lparr>rt_RotatedAt := Some now\<rparr>)"
    using old [of t] l assms(4)
    by (auto simp: token_within_def family_rotated_def token_latest_le dest: order_trans)
  moreover have "token_within ?f (next_token (rt_ID t) n h e ip ua now)"
    using l assms(4,7,8)
    by (auto simp: token_within_def family_rotated_def next_token_def token_latest_le)
  ultimately show "\<forall>s \<in> set (rf_Tokens ?f). token_within ?f s"
    using within by (auto simp: family_rotated_def)
  show "rf_ReuseDetectedAt ?f \<noteq> None \<longrightarrow> rf_RevokedAt ?f \<noteq> None"
    using wf by (simp add: family_wf_def family_rotated_def)
  show "rt_RotatedAt (next_token (rt_ID t) n h e ip ua now) = None"
    by (simp add: next_token_def)
qed

section \<open>Runs of a family\<close>

text \<open>
  A step is any call of \<open>Rotate\<close> or \<open>Revoke\<close>, with any arguments, successful or not; a family in use
  is reached by steps from one that \<open>New\<close> made.
\<close>

inductive family_step :: "refresh_token_family \<Rightarrow> refresh_token_family \<Rightarrow> bool" where
  rotate: "family_step f (snd (Rotate p n h e ip ua now f))"
| revoke: "family_step f (snd (family_Revoke reason now f))"

inductive family_reachable :: "refresh_token_family \<Rightarrow> bool" where
  created: "New_family i s k h e a ip ua now = Inr f \<Longrightarrow> family_reachable f"
| stepped: "family_reachable f \<Longrightarrow> family_step f g \<Longrightarrow> family_reachable g"

inductive_cases family_stepE: "family_step f g"

lemma family_Revoke_keeps_wf:
  assumes "family_wf f" and "family_Revoke reason now f = (r, f')"
  shows "family_wf f'"
proof (cases "f' = f")
  case True
  with assms(1) show ?thesis by simp
next
  case False
  with family_Revoke_wf [OF assms] have
    f': "f' = f\<lparr>rf_Tokens := map (revoked (trim_space reason) now) (rf_Tokens f), rf_RevokedAt := Some now,
            rf_RevokeReason := Some (trim_space reason)\<rparr>" and now: "rf_latestChangedAt f \<le> now"
    by (auto split: if_splits)
  show ?thesis
    by (rule all_revoked_wf [OF assms(1) now, where g = "revoked (trim_space reason) now" and
          x = "rf_ReuseDetectedAt f" and reason = "Some (trim_space reason)"])
       (use family_wf_latest [OF assms(1) now] revoked_latest in \<open>auto simp: f'\<close>)
qed

lemma Rotate_keeps_wf:
  assumes "family_wf f" and "Rotate p n h e ip ua now f = (r, f')"
  shows "family_wf f'"
  using assms
proof (cases rule: Rotate_cases)
  case error
  with assms(1) show ?thesis by simp
next
  case (rotated ts t)
  from family_rotated_wf [OF assms(1) rotated(2,5,4,10,11,12,13)] rotated(3,14) show ?thesis by simp
next
  case (reuse t)
  with family_reused_wf [OF assms(1)] show ?thesis by simp
qed

lemma family_step_wf: "family_step f g \<Longrightarrow> family_wf f \<Longrightarrow> family_wf g"
  by (elim family_stepE) (metis Rotate_keeps_wf family_Revoke_keeps_wf prod.collapse)+

lemma family_reachable_wf: "family_reachable f \<Longrightarrow> family_wf f"
  by (induction rule: family_reachable.induct) (auto intro: New_family_wf family_step_wf)

lemma family_steps_wf: "family_step\<^sup>*\<^sup>* f g \<Longrightarrow> family_wf f \<Longrightarrow> family_wf g"
  by (induction rule: rtranclp_induct) (auto intro: family_step_wf)

text \<open>
  What a step never undoes: a token that was rotated stays in the family and rotated, and a revoked
  family stays as it is.
\<close>

definition spent :: "uuid \<Rightarrow> refresh_token_family \<Rightarrow> bool" where
  "spent p f \<longleftrightarrow> (\<exists>t \<in> set (rf_Tokens f). rt_ID t = p \<and> rt_RotatedAt t \<noteq> None)"

lemma spent_map:
  "spent p f \<Longrightarrow> (\<And>t. rt_ID (g t) = rt_ID t \<and> rt_RotatedAt (g t) = rt_RotatedAt t) \<Longrightarrow>
     spent p (f\<lparr>rf_Tokens := map g (rf_Tokens f), rf_ReuseDetectedAt := x, rf_RevokedAt := y,
               rf_RevokeReason := z\<rparr>)"
  by (auto simp: spent_def)

lemma reused_fields [simp]: "rt_ID (reused p now t) = rt_ID t" "rt_RotatedAt (reused p now t) = rt_RotatedAt t"
  by (simp_all add: reused_def)

lemma spent_step:
  assumes "family_step f g" and "family_wf f" and "spent p f"
  shows "spent p g"
  using assms(1)
proof cases
  case (rotate q n h e ip ua now)
  obtain r where R: "Rotate q n h e ip ua now f = (r, g)"
    using rotate by (metis prod.collapse)
  from assms(2) R show ?thesis
  proof (cases rule: Rotate_cases)
    case error
    with assms(3) show ?thesis by simp
  next
    case (rotated ts t)
    with assms(3) show ?thesis by (auto simp: spent_def family_rotated_def)
  next
    case (reuse t)
    with spent_map [OF assms(3), of "reused q now"] show ?thesis by (simp add: family_reused_def)
  qed
next
  case (revoke reason now)
  obtain r where R: "family_Revoke reason now f = (r, g)"
    using revoke by (metis prod.collapse)
  have "g = f \<or> g = f\<lparr>rf_Tokens := map (revoked (trim_space reason) now) (rf_Tokens f),
      rf_RevokedAt := Some now, rf_RevokeReason := Some (trim_space reason)\<rparr>"
    using family_Revoke_wf [OF assms(2) R] by (auto split: if_splits)
  moreover have "f\<lparr>rf_ReuseDetectedAt := rf_ReuseDetectedAt f\<rparr> = f" by simp
  ultimately show ?thesis
    using spent_map [OF assms(3), where g = "revoked (trim_space reason) now" and x = "rf_ReuseDetectedAt f"]
      assms(3)
    by auto
qed

lemma spent_steps: "family_step\<^sup>*\<^sup>* f g \<Longrightarrow> family_wf f \<Longrightarrow> spent p f \<Longrightarrow> spent p g"
  by (induction rule: rtranclp_induct) (auto intro: spent_step family_steps_wf)

lemma revoked_step:
  assumes "family_step f g" and "rf_RevokedAt f \<noteq> None"
  shows "g = f"
  using assms(1)
proof cases
  case (rotate q n h e ip ua now)
  with assms(2) have "ensureRotationAllowed now f \<noteq> None"
    by (auto simp: ensureRotationAllowed_def)
  with rotate show ?thesis by (auto simp: Rotate_def)
next
  case (revoke reason now)
  with assms(2) show ?thesis by (auto simp: family_Revoke_def)
qed

text \<open>A family is a life cycle that ends with its revocation.\<close>

interpretation family_life: lifecycle "\<lambda>f g. family_step f g \<and> g \<noteq> f" "\<lambda>f. rf_RevokedAt f \<noteq> None"
  by unfold_locales (auto dest: revoked_step)

lemma spent_not_rotated:
  assumes "family_wf f" and "spent p f"
  shows "fst (Rotate p n h e ip ua now f) \<noteq> Inr RotationOutcomeRotated"
proof
  assume "fst (Rotate p n h e ip ua now f) = Inr RotationOutcomeRotated"
  then obtain f' where R: "Rotate p n h e ip ua now f = (Inr RotationOutcomeRotated, f')"
    by (metis prod.collapse)
  from assms(1) R show False
  proof (cases rule: Rotate_cases)
    case (rotated ts t)
    then have "distinct (map rt_ID (ts @ [t]))" "rt_RotatedAt t = None"
      using assms(1) by (auto simp: family_wf_def)
    with rotated(2,3) assms(2) show False by (auto simp: spent_def) (metis image_eqI)
  qed simp_all
qed

text \<open>Presenting a token again while the family is in use revokes the family.\<close>

lemma Rotate_replay:
  assumes wf: "family_wf f" and spent: "spent p f" and "rf_RevokedAt f = None"
    and now: "rf_latestChangedAt f \<le> now" "now \<noteq> 0" "now < rf_AbsoluteExpiresAt f"
  shows "Rotate p n h e ip ua now f = (Inr RotationOutcomeReuseDetected, family_reused p now f)"
proof -
  have allowed: "ensureRotationAllowed now f = None"
    using assms by (simp add: ensureRotationAllowed_def)
  obtain t where t: "t \<in> set (rf_Tokens f)" "rt_ID t = p" "rt_RotatedAt t \<noteq> None"
    using spent by (auto simp: spent_def)
  obtain j where j: "j < length (rf_Tokens f)" "rf_Tokens f ! j = t"
    using t(1) by (auto simp: in_set_conv_nth)
  have "distinct (map rt_ID (rf_Tokens f))" using wf by (simp add: family_wf_def)
  from tokenIndex_nth [OF this j(1)] j(2) t(2) have i: "tokenIndex p (rf_Tokens f) = Some j" by simp
  have "rt_latestChangedAt t \<le> now" using family_wf_latest [OF wf now(1)] t(1) by simp
  then have "ValidateForRotation now t = Some (Sentinel (S_ref Ref_errTokenAlreadyRotated))"
    using t(3) now(2) by (simp add: ValidateForRotation_def)
  moreover have "rt_RotatedAt (rf_Tokens f ! j) \<noteq> None" using j(2) t(3) by simp
  note rotate_reused_ok [OF wf now(1,2) j(1) this]
  ultimately show ?thesis
    using allowed i j(2) t(2) by (simp add: Rotate_def)
qed

lemma reused_revoked: "rt_RevokedAt (reused p now t) \<noteq> None"
  unfolding reused_def by (rule revoked_fields(8))

lemma family_reused_revoked:
  "rf_RevokedAt (family_reused p now f) = Some now"
  "t \<in> set (rf_Tokens (family_reused p now f)) \<Longrightarrow> rt_RevokedAt t \<noteq> None"
  unfolding family_reused_def using reused_revoked [of p now] by (simp, fastforce)

lemma revoked_steps: "family_step\<^sup>*\<^sup>* f g \<Longrightarrow> rf_RevokedAt f \<noteq> None \<Longrightarrow> g = f"
  by (induction rule: rtranclp_induct) (auto dest: revoked_step)

end
