(* ===== verification/Identity_Client.thy ===== *)
theory Identity_Client
  imports Identity_Common
begin

text \<open>
  The OAuth client aggregate, \<open>internal/domain/oauthclient\<close>: its registrations (redirect URIs, grant
  types, scopes), the credentials of a confidential client, and its status.
\<close>

section \<open>Types\<close>

definition NewClientID :: "string \<Rightarrow> ierror + string" where
  "NewClientID value =
     (case NormalizeToken value of (value, ok) \<Rightarrow>
        if \<not> ok then Inl (Fresh ''OAuth client identifier must be a non-empty token'') else Inr value)"

text \<open>
  The enumerations are strings in the code; the last constructor of each is a string that is none of
  the constants.
\<close>

datatype client_type = ClientTypePublic | ClientTypeConfidential | OtherClientType string

definition ParseClientType :: "string \<Rightarrow> ierror + client_type" where
  "ParseClientType value =
     (if value = ''public'' then Inr ClientTypePublic
      else if value = ''confidential'' then Inr ClientTypeConfidential
      else Inl (Fresh ''unknown OAuth client type''))"

datatype token_auth_method = AuthMethodNone | AuthMethodClientSecretBasic | OtherAuthMethod string

definition ParseTokenEndpointAuthMethod :: "string \<Rightarrow> ierror + token_auth_method" where
  "ParseTokenEndpointAuthMethod value =
     (if value = ''none'' then Inr AuthMethodNone
      else if value = ''client_secret_basic'' then Inr AuthMethodClientSecretBasic
      else Inl (Fresh ''unknown OAuth token endpoint authentication method''))"

datatype consent_mode = ConsentModeRequired | ConsentModeRemember | ConsentModeTrusted | OtherConsentMode string

fun consent_mode_String :: "consent_mode \<Rightarrow> string" where
  "consent_mode_String ConsentModeRequired = ''required''"
| "consent_mode_String ConsentModeRemember = ''remember''"
| "consent_mode_String ConsentModeTrusted = ''trusted''"
| "consent_mode_String (OtherConsentMode s) = s"

definition ParseConsentMode :: "string \<Rightarrow> ierror + consent_mode" where
  "ParseConsentMode value =
     (if value = ''required'' then Inr ConsentModeRequired
      else if value = ''remember'' then Inr ConsentModeRemember
      else if value = ''trusted'' then Inr ConsentModeTrusted
      else Inl (Fresh ''unknown OAuth consent mode''))"

datatype client_status = Client_Active | Client_Disabled | Client_Deleted | OtherClientStatus string

definition ParseClientStatus :: "string \<Rightarrow> ierror + client_status" where
  "ParseClientStatus value =
     (if value = ''active'' then Inr Client_Active
      else if value = ''disabled'' then Inr Client_Disabled
      else if value = ''deleted'' then Inr Client_Deleted
      else Inl (Fresh ''unknown OAuth client status''))"

definition NewSecretHash :: "string \<Rightarrow> ierror + string" where
  "NewSecretHash value =
     (if \<not> HasText value then Inl (Fresh ''OAuth client secret hash is required'') else Inr value)"

datatype grant_type = GrantTypeAuthorizationCode | GrantTypeRefreshToken | OtherGrantType string

definition ParseGrantType :: "string \<Rightarrow> ierror + grant_type" where
  "ParseGrantType value =
     (if value = ''authorization_code'' then Inr GrantTypeAuthorizationCode
      else if value = ''refresh_token'' then Inr GrantTypeRefreshToken
      else Inl (Fresh ''unknown OAuth grant type''))"


section \<open>Registrations\<close>

record redirect_uri =
  ru_ID :: uuid
  ru_URI :: string
  ru_CreatedAt :: gotime

definition newRedirectURI :: "uuid \<Rightarrow> string \<Rightarrow> gotime \<Rightarrow> ierror + redirect_uri" where
  "newRedirectURI uriID uri now =
     (if uriID = uuid_nil then Inl (Fresh ''identifier is required'')
      else if is_zero now then Inl (Fresh ''creation time is invalid'')
      else Inr \<lparr>ru_ID = uriID, ru_URI = uri, ru_CreatedAt = now\<rparr>)"

definition newPostLogoutRedirectURI :: "uuid \<Rightarrow> string \<Rightarrow> gotime \<Rightarrow> ierror + redirect_uri" where
  "newPostLogoutRedirectURI uriID uri now =
     (if uriID = uuid_nil then Inl (Fresh ''identifier is required'')
      else if is_zero now then Inl (Fresh ''creation time is invalid'')
      else Inr \<lparr>ru_ID = uriID, ru_URI = uri, ru_CreatedAt = now\<rparr>)"

record grant_registration =
  gr_GrantType :: grant_type
  gr_CreatedAt :: gotime

definition newGrantTypeRegistration :: "grant_type \<Rightarrow> gotime \<Rightarrow> grant_registration" where
  "newGrantTypeRegistration g now = \<lparr>gr_GrantType = g, gr_CreatedAt = now\<rparr>"

record scope_registration =
  sr_Scope :: string
  sr_CreatedAt :: gotime

definition newScopeRegistration :: "string \<Rightarrow> gotime \<Rightarrow> scope_registration" where
  "newScopeRegistration s now = \<lparr>sr_Scope = s, sr_CreatedAt = now\<rparr>"


section \<open>Credentials\<close>

record credential =
  cr_ID :: uuid
  cr_SecretHash :: string
  cr_Name :: "string option"
  cr_CreatedByIdentityID :: "uuid option"
  cr_CreatedAt :: gotime
  cr_UpdatedAt :: gotime
  cr_ExpiresAt :: "gotime option"
  cr_RevokedAt :: "gotime option"
  cr_RevokeReason :: "string option"
  cr_LastUsedAt :: "gotime option"

definition newCredential ::
  "uuid \<Rightarrow> string \<Rightarrow> string option \<Rightarrow> uuid option \<Rightarrow> gotime option \<Rightarrow> gotime \<Rightarrow> ierror + credential" where
  "newCredential credentialID secretHash name createdBy expiresAt now =
     (if credentialID = uuid_nil then Inl (Fresh ''credential identifier is required'')
      else if createdBy = Some uuid_nil then Inl (Fresh ''credential creator identifier is invalid'')
      else if is_zero now then Inl (Fresh ''credential creation time is invalid'')
      else if expiresAt \<noteq> None \<and> \<not> after (the expiresAt) now
      then Inl (Fresh ''credential expiration must follow creation'')
      else Inr \<lparr>cr_ID = credentialID, cr_SecretHash = secretHash, cr_Name = NormalizeOptionalText name,
                cr_CreatedByIdentityID = createdBy, cr_CreatedAt = now, cr_UpdatedAt = now,
                cr_ExpiresAt = expiresAt, cr_RevokedAt = None, cr_RevokeReason = None,
                cr_LastUsedAt = None\<rparr>)"

definition cr_ensureChangeAllowed :: "gotime \<Rightarrow> credential \<Rightarrow> ierror option" where
  "cr_ensureChangeAllowed now c =
     (if is_zero now \<or> before now (cr_UpdatedAt c)
      then Some (Fresh ''credential change time is invalid'') else None)"

text \<open>\<open>Rename\<close> reports whether it changed the name.\<close>

definition cr_Rename :: "string option \<Rightarrow> gotime \<Rightarrow> credential \<Rightarrow> (ierror + bool) \<times> credential" where
  "cr_Rename name now c =
     (case cr_ensureChangeAllowed now c of
        Some err \<Rightarrow> (Inl err, c)
      | None \<Rightarrow>
          (let normalizedName = NormalizeOptionalText name
           in if EqualOptionalText (cr_Name c) normalizedName then (Inr False, c)
              else (Inr True, c\<lparr>cr_Name := normalizedName, cr_UpdatedAt := now\<rparr>)))"

definition cr_Revoke :: "gotime \<Rightarrow> string \<Rightarrow> credential \<Rightarrow> ierror option \<times> credential" where
  "cr_Revoke now reason c =
     (if cr_RevokedAt c \<noteq> None then (Some (Sentinel (S_cli Cli_ErrCredentialRevoked)), c)
      else case cr_ensureChangeAllowed now c of
        Some err \<Rightarrow> (Some err, c)
      | None \<Rightarrow>
          (case NormalizeRequiredText reason of (normalizedReason, ok) \<Rightarrow>
             if \<not> ok then (Some (Fresh ''reason is required''), c)
             else (None, c\<lparr>cr_RevokedAt := Some now, cr_RevokeReason := Some normalizedReason,
                            cr_UpdatedAt := now\<rparr>)))"

definition cr_Validate :: "gotime \<Rightarrow> credential \<Rightarrow> ierror option" where
  "cr_Validate now c =
     (if is_zero now \<or> before now (cr_UpdatedAt c) then Some (Fresh ''credential use time is invalid'')
      else if cr_RevokedAt c \<noteq> None then Some (Sentinel (S_cli Cli_ErrCredentialRevoked))
      else if cr_ExpiresAt c \<noteq> None \<and> \<not> before now (the (cr_ExpiresAt c))
      then Some (Sentinel (S_cli Cli_ErrCredentialExpired))
      else None)"

definition cr_RecordUsed :: "gotime \<Rightarrow> credential \<Rightarrow> ierror option \<times> credential" where
  "cr_RecordUsed now c =
     (case cr_Validate now c of
        Some err \<Rightarrow> (Some err, c)
      | None \<Rightarrow> (None, c\<lparr>cr_LastUsedAt := Some now, cr_UpdatedAt := now\<rparr>))"

definition cr_IsUsable :: "gotime \<Rightarrow> credential \<Rightarrow> bool" where
  "cr_IsUsable now c \<longleftrightarrow>
     \<not> is_zero now \<and> \<not> before now (cr_UpdatedAt c) \<and> cr_RevokedAt c = None \<and>
     (cr_ExpiresAt c = None \<or> before now (the (cr_ExpiresAt c)))"

lemma cr_IsUsable_Validate: "cr_IsUsable now c \<longleftrightarrow> cr_Validate now c = None"
  by (auto simp: cr_IsUsable_def cr_Validate_def)


section \<open>The client\<close>

record oauth_client =
  oc_ID :: uuid
  oc_ClientID :: string
  oc_ClientType :: client_type
  oc_AuthMethod :: token_auth_method
  oc_Name :: string
  oc_Description :: "string option"
  oc_RequirePKCE :: bool
  oc_ConsentMode :: consent_mode
  oc_Status :: client_status
  oc_CreatedByIdentityID :: "uuid option"
  oc_RedirectURIs :: "redirect_uri list"
  oc_PostLogoutRedirectURIs :: "redirect_uri list"
  oc_GrantTypes :: "grant_registration list"
  oc_Scopes :: "scope_registration list"
  oc_Credentials :: "credential list"
  oc_CreatedAt :: gotime
  oc_UpdatedAt :: gotime
  oc_DisabledAt :: "gotime option"
  oc_DeletedAt :: "gotime option"

definition authMethodFor :: "client_type \<Rightarrow> token_auth_method" where
  "authMethodFor t = (if t = ClientTypeConfidential then AuthMethodClientSecretBasic else AuthMethodNone)"

definition newOAuthClient ::
  "uuid \<Rightarrow> string \<Rightarrow> client_type \<Rightarrow> string \<Rightarrow> string option \<Rightarrow> uuid option \<Rightarrow> uuid \<Rightarrow> string \<Rightarrow> gotime
     \<Rightarrow> ierror + oauth_client" where
  "newOAuthClient oauthID clientID clientType name description createdBy redirectURIID redirectURI now =
     (case NormalizeRequiredText name of (normalizedName, ok) \<Rightarrow>
        if \<not> ok then Inl (Fresh ''create OAuth client: name is required'')
        else if oauthID = uuid_nil then Inl (Fresh ''create OAuth client: identifier is required'')
        else if createdBy = Some uuid_nil
        then Inl (Fresh ''create OAuth client: creator identifier is invalid'')
        else if is_zero now then Inl (Fresh ''create OAuth client: time is invalid'')
        else case newRedirectURI redirectURIID redirectURI now of
          Inl err \<Rightarrow> Inl (Wrap ''create OAuth client: redirect URI '' err '''')
        | Inr initialRedirectURI \<Rightarrow>
            Inr \<lparr>oc_ID = oauthID, oc_ClientID = clientID, oc_ClientType = clientType,
                 oc_AuthMethod = authMethodFor clientType, oc_Name = normalizedName,
                 oc_Description = NormalizeOptionalText description, oc_RequirePKCE = True,
                 oc_ConsentMode = ConsentModeRemember, oc_Status = Client_Active,
                 oc_CreatedByIdentityID = createdBy, oc_RedirectURIs = [initialRedirectURI],
                 oc_PostLogoutRedirectURIs = [],
                 oc_GrantTypes = [newGrantTypeRegistration GrantTypeAuthorizationCode now],
                 oc_Scopes = [], oc_Credentials = [], oc_CreatedAt = now, oc_UpdatedAt = now,
                 oc_DisabledAt = None, oc_DeletedAt = None\<rparr>)"

definition NewPublic ::
  "uuid \<Rightarrow> string \<Rightarrow> string \<Rightarrow> string option \<Rightarrow> uuid option \<Rightarrow> uuid \<Rightarrow> string \<Rightarrow> gotime
     \<Rightarrow> ierror + oauth_client" where
  "NewPublic oauthID clientID name description createdBy redirectURIID redirectURI now =
     newOAuthClient oauthID clientID ClientTypePublic name description createdBy redirectURIID redirectURI now"

definition NewConfidential ::
  "uuid \<Rightarrow> string \<Rightarrow> string \<Rightarrow> string option \<Rightarrow> uuid option \<Rightarrow> uuid \<Rightarrow> string \<Rightarrow> uuid \<Rightarrow> string
     \<Rightarrow> string option \<Rightarrow> gotime option \<Rightarrow> gotime \<Rightarrow> ierror + oauth_client" where
  "NewConfidential oauthID clientID name description createdBy redirectURIID redirectURI credentialID
     secretHash credentialName credentialExpiresAt now =
     (case newOAuthClient oauthID clientID ClientTypeConfidential name description createdBy redirectURIID
             redirectURI now of
        Inl err \<Rightarrow> Inl err
      | Inr client \<Rightarrow>
          (case newCredential credentialID secretHash credentialName createdBy credentialExpiresAt now of
             Inl err \<Rightarrow> Inl (Wrap ''create OAuth client: '' err '''')
           | Inr credential \<Rightarrow> Inr (client\<lparr>oc_Credentials := oc_Credentials client @ [credential]\<rparr>)))"

definition oc_ensureActive :: "gotime \<Rightarrow> oauth_client \<Rightarrow> ierror option" where
  "oc_ensureActive now c =
     (if is_zero now \<or> before now (oc_UpdatedAt c) then Some (Fresh ''OAuth client use time is invalid'')
      else if oc_Status c \<noteq> Client_Active then Some (Sentinel (S_cli Cli_ErrInvalidStatus))
      else None)"

definition oc_ensureChangeAllowed :: "gotime \<Rightarrow> oauth_client \<Rightarrow> ierror option" where
  "oc_ensureChangeAllowed now c =
     (if oc_Status c = Client_Deleted then Some (Sentinel (S_cli Cli_ErrInvalidStatus))
      else if is_zero now \<or> before now (oc_UpdatedAt c)
      then Some (Fresh ''OAuth client change time is invalid'')
      else None)"

definition credentialIndex :: "uuid \<Rightarrow> oauth_client \<Rightarrow> nat option" where
  "credentialIndex k c = index_by (\<lambda>x. cr_ID x = k) (oc_Credentials c)"

definition redirectURIIndex :: "uuid \<Rightarrow> oauth_client \<Rightarrow> nat option" where
  "redirectURIIndex k c = index_by (\<lambda>x. ru_ID x = k) (oc_RedirectURIs c)"

definition redirectURIIndexByValue :: "string \<Rightarrow> oauth_client \<Rightarrow> nat option" where
  "redirectURIIndexByValue uri c = index_by (\<lambda>x. ru_URI x = uri) (oc_RedirectURIs c)"

definition postLogoutRedirectURIIndex :: "uuid \<Rightarrow> oauth_client \<Rightarrow> nat option" where
  "postLogoutRedirectURIIndex k c = index_by (\<lambda>x. ru_ID x = k) (oc_PostLogoutRedirectURIs c)"

definition postLogoutRedirectURIIndexByValue :: "string \<Rightarrow> oauth_client \<Rightarrow> nat option" where
  "postLogoutRedirectURIIndexByValue uri c = index_by (\<lambda>x. ru_URI x = uri) (oc_PostLogoutRedirectURIs c)"

definition grantTypeIndex :: "grant_type \<Rightarrow> oauth_client \<Rightarrow> nat option" where
  "grantTypeIndex g c = index_by (\<lambda>x. gr_GrantType x = g) (oc_GrantTypes c)"

definition scopeIndex :: "string \<Rightarrow> oauth_client \<Rightarrow> nat option" where
  "scopeIndex s c = index_by (\<lambda>x. sr_Scope x = s) (oc_Scopes c)"

definition hasUsableCredential :: "gotime \<Rightarrow> oauth_client \<Rightarrow> bool" where
  "hasUsableCredential now c = list_ex (cr_IsUsable now) (oc_Credentials c)"

definition touch :: "gotime \<Rightarrow> oauth_client \<Rightarrow> oauth_client" where
  "touch now c = c\<lparr>oc_UpdatedAt := now\<rparr>"

section \<open>Changing a client\<close>

text \<open>
  \<open>oc_change msg now c k\<close> is the opening of every method that changes a client: the check of
  \<open>ensureChangeAllowed\<close>, whose error the method wraps in its own text.
\<close>

definition oc_change ::
  "string \<Rightarrow> gotime \<Rightarrow> oauth_client \<Rightarrow> ierror option \<times> oauth_client \<Rightarrow> ierror option \<times> oauth_client" where
  "oc_change msg now c k =
     (case oc_ensureChangeAllowed now c of Some err \<Rightarrow> refuse msg err c | None \<Rightarrow> k)"

definition SetConsentMode :: "consent_mode \<Rightarrow> gotime \<Rightarrow> oauth_client \<Rightarrow> ierror option \<times> oauth_client" where
  "SetConsentMode mode now c =
     oc_change ''change OAuth client consent mode: '' now c
       (case ParseConsentMode (consent_mode_String mode) of
          Inl err \<Rightarrow> refuse ''change OAuth client consent mode: '' err c
        | Inr _ \<Rightarrow>
            if oc_ConsentMode c = mode then (None, c)
            else (None, touch now (c\<lparr>oc_ConsentMode := mode\<rparr>)))"

definition UpdateMetadata ::
  "string \<Rightarrow> string option \<Rightarrow> gotime \<Rightarrow> oauth_client \<Rightarrow> ierror option \<times> oauth_client" where
  "UpdateMetadata name description now c =
     oc_change ''update OAuth client metadata: '' now c
       (case NormalizeRequiredText name of (normalizedName, ok) \<Rightarrow>
          if \<not> ok then (Some (Fresh ''update OAuth client metadata: name is required''), c)
          else let normalizedDescription = NormalizeOptionalText description
          in if oc_Name c = normalizedName \<and> EqualOptionalText (oc_Description c) normalizedDescription
             then (None, c)
             else (None, touch now (c\<lparr>oc_Name := normalizedName, oc_Description := normalizedDescription\<rparr>)))"

definition SetPKCERequired :: "bool \<Rightarrow> gotime \<Rightarrow> oauth_client \<Rightarrow> ierror option \<times> oauth_client" where
  "SetPKCERequired required now c =
     oc_change ''change OAuth client PKCE requirement: '' now c
       (if oc_ClientType c = ClientTypePublic \<and> \<not> required
        then refuse ''change OAuth client PKCE requirement: '' (Sentinel (S_cli Cli_ErrPKCERequired)) c
        else if oc_RequirePKCE c = required then (None, c)
        else (None, touch now (c\<lparr>oc_RequirePKCE := required\<rparr>)))"

definition AddCredential ::
  "uuid \<Rightarrow> string \<Rightarrow> string option \<Rightarrow> uuid option \<Rightarrow> gotime option \<Rightarrow> gotime \<Rightarrow> oauth_client
     \<Rightarrow> ierror option \<times> oauth_client" where
  "AddCredential credentialID secretHash name createdBy expiresAt now c =
     oc_change ''add OAuth client credential: '' now c
       (if oc_ClientType c \<noteq> ClientTypeConfidential
        then refuse ''add OAuth client credential: '' (Sentinel (S_cli Cli_ErrCredentialsNotAllowed)) c
        else case newCredential credentialID secretHash name createdBy expiresAt now of
          Inl err \<Rightarrow> refuse ''add OAuth client credential: '' err c
        | Inr credential \<Rightarrow>
            if credentialIndex (cr_ID credential) c \<noteq> None
            then (Some (Fresh ''add OAuth client credential: identifier already exists''), c)
            else (None, touch now (c\<lparr>oc_Credentials := oc_Credentials c @ [credential]\<rparr>)))"

definition RenameCredential ::
  "uuid \<Rightarrow> string option \<Rightarrow> gotime \<Rightarrow> oauth_client \<Rightarrow> ierror option \<times> oauth_client" where
  "RenameCredential k name now c =
     oc_change ''rename OAuth client credential: '' now c
       (case credentialIndex k c of
          None \<Rightarrow> refuse ''rename OAuth client credential: '' (Sentinel (S_cli Cli_ErrCredentialNotFound)) c
        | Some i \<Rightarrow>
            (case cr_Rename name now (oc_Credentials c ! i) of
               (Inl err, x) \<Rightarrow>
                 refuse ''rename OAuth client credential: '' err (c\<lparr>oc_Credentials := (oc_Credentials c)[i := x]\<rparr>)
             | (Inr changed, x) \<Rightarrow>
                 (let c' = c\<lparr>oc_Credentials := (oc_Credentials c)[i := x]\<rparr>
                  in if \<not> changed then (None, c') else (None, touch now c'))))"

definition RevokeCredential ::
  "uuid \<Rightarrow> string \<Rightarrow> gotime \<Rightarrow> oauth_client \<Rightarrow> ierror option \<times> oauth_client" where
  "RevokeCredential k reason now c =
     oc_change ''revoke OAuth client credential: '' now c
       (case credentialIndex k c of
          None \<Rightarrow> refuse ''revoke OAuth client credential: '' (Sentinel (S_cli Cli_ErrCredentialNotFound)) c
        | Some i \<Rightarrow>
            (case cr_Revoke now reason (oc_Credentials c ! i) of
               (Some err, x) \<Rightarrow>
                 refuse ''revoke OAuth client credential: '' err (c\<lparr>oc_Credentials := (oc_Credentials c)[i := x]\<rparr>)
             | (None, x) \<Rightarrow> (None, touch now (c\<lparr>oc_Credentials := (oc_Credentials c)[i := x]\<rparr>))))"

definition ValidateCredential :: "uuid \<Rightarrow> gotime \<Rightarrow> oauth_client \<Rightarrow> ierror option" where
  "ValidateCredential k now c =
     (case oc_ensureActive now c of
        Some err \<Rightarrow> Some (Wrap ''validate OAuth client credential: '' err '''')
      | None \<Rightarrow>
          if oc_ClientType c \<noteq> ClientTypeConfidential
          then Some (Wrap ''validate OAuth client credential: '' (Sentinel (S_cli Cli_ErrCredentialsNotAllowed)) '''')
          else case credentialIndex k c of
            None \<Rightarrow>
              Some (Wrap ''validate OAuth client credential: '' (Sentinel (S_cli Cli_ErrCredentialNotFound)) '''')
          | Some i \<Rightarrow>
              map_option (\<lambda>err. Wrap ''validate OAuth client credential: '' err '''')
                (cr_Validate now (oc_Credentials c ! i)))"

text \<open>After the validation the index is found again, so the lookup that fails is unreachable.\<close>

definition RecordCredentialUsed :: "uuid \<Rightarrow> gotime \<Rightarrow> oauth_client \<Rightarrow> ierror option \<times> oauth_client" where
  "RecordCredentialUsed k now c =
     (case ValidateCredential k now c of
        Some err \<Rightarrow> refuse ''record OAuth client credential use: '' err c
      | None \<Rightarrow>
          (case credentialIndex k c of
             None \<Rightarrow> (None, c)
           | Some i \<Rightarrow>
               (case cr_RecordUsed now (oc_Credentials c ! i) of
                  (Some err, x) \<Rightarrow>
                    refuse ''record OAuth client credential use: '' err
                      (c\<lparr>oc_Credentials := (oc_Credentials c)[i := x]\<rparr>)
                | (None, x) \<Rightarrow> (None, touch now (c\<lparr>oc_Credentials := (oc_Credentials c)[i := x]\<rparr>)))))"

definition AddRedirectURI :: "uuid \<Rightarrow> string \<Rightarrow> gotime \<Rightarrow> oauth_client \<Rightarrow> ierror option \<times> oauth_client" where
  "AddRedirectURI k uri now c =
     oc_change ''add OAuth client redirect URI: '' now c
       (if redirectURIIndexByValue uri c \<noteq> None
        then refuse ''add OAuth client redirect URI: '' (Sentinel (S_cli Cli_ErrRedirectURIAlreadyExists)) c
        else if redirectURIIndex k c \<noteq> None
        then (Some (Fresh ''add OAuth client redirect URI: identifier already exists''), c)
        else case newRedirectURI k uri now of
          Inl err \<Rightarrow> refuse ''add OAuth client redirect URI: '' err c
        | Inr u \<Rightarrow> (None, touch now (c\<lparr>oc_RedirectURIs := oc_RedirectURIs c @ [u]\<rparr>)))"

definition RemoveRedirectURI :: "uuid \<Rightarrow> gotime \<Rightarrow> oauth_client \<Rightarrow> ierror option \<times> oauth_client" where
  "RemoveRedirectURI k now c =
     oc_change ''remove OAuth client redirect URI: '' now c
       (case redirectURIIndex k c of
          None \<Rightarrow> refuse ''remove OAuth client redirect URI: '' (Sentinel (S_cli Cli_ErrRedirectURINotFound)) c
        | Some i \<Rightarrow>
            if length (oc_RedirectURIs c) = 1
            then refuse ''remove OAuth client redirect URI: '' (Sentinel (S_cli Cli_ErrLastRedirectURI)) c
            else (None, touch now (c\<lparr>oc_RedirectURIs := remove_at i (oc_RedirectURIs c)\<rparr>)))"

definition AddPostLogoutRedirectURI ::
  "uuid \<Rightarrow> string \<Rightarrow> gotime \<Rightarrow> oauth_client \<Rightarrow> ierror option \<times> oauth_client" where
  "AddPostLogoutRedirectURI k uri now c =
     oc_change ''add OAuth client post-logout redirect URI: '' now c
       (if postLogoutRedirectURIIndexByValue uri c \<noteq> None
        then refuse ''add OAuth client post-logout redirect URI: ''
               (Sentinel (S_cli Cli_ErrPostLogoutRedirectURIAlreadyExists)) c
        else if postLogoutRedirectURIIndex k c \<noteq> None
        then (Some (Fresh ''add OAuth client post-logout redirect URI: identifier already exists''), c)
        else case newPostLogoutRedirectURI k uri now of
          Inl err \<Rightarrow> refuse ''add OAuth client post-logout redirect URI: '' err c
        | Inr u \<Rightarrow>
            (None, touch now (c\<lparr>oc_PostLogoutRedirectURIs := oc_PostLogoutRedirectURIs c @ [u]\<rparr>)))"

definition RemovePostLogoutRedirectURI :: "uuid \<Rightarrow> gotime \<Rightarrow> oauth_client \<Rightarrow> ierror option \<times> oauth_client" where
  "RemovePostLogoutRedirectURI k now c =
     oc_change ''remove OAuth client post-logout redirect URI: '' now c
       (case postLogoutRedirectURIIndex k c of
          None \<Rightarrow>
            refuse ''remove OAuth client post-logout redirect URI: ''
              (Sentinel (S_cli Cli_ErrPostLogoutRedirectURINotFound)) c
        | Some i \<Rightarrow>
            (None, touch now (c\<lparr>oc_PostLogoutRedirectURIs := remove_at i (oc_PostLogoutRedirectURIs c)\<rparr>)))"

definition AddGrantType :: "grant_type \<Rightarrow> gotime \<Rightarrow> oauth_client \<Rightarrow> ierror option \<times> oauth_client" where
  "AddGrantType g now c =
     oc_change ''add OAuth client grant type: '' now c
       (if grantTypeIndex g c \<noteq> None
        then refuse ''add OAuth client grant type: '' (Sentinel (S_cli Cli_ErrGrantTypeAlreadyExists)) c
        else (None, touch now (c\<lparr>oc_GrantTypes := oc_GrantTypes c @ [newGrantTypeRegistration g now]\<rparr>)))"

definition RemoveGrantType :: "grant_type \<Rightarrow> gotime \<Rightarrow> oauth_client \<Rightarrow> ierror option \<times> oauth_client" where
  "RemoveGrantType g now c =
     oc_change ''remove OAuth client grant type: '' now c
       (case grantTypeIndex g c of
          None \<Rightarrow> refuse ''remove OAuth client grant type: '' (Sentinel (S_cli Cli_ErrGrantTypeNotFound)) c
        | Some i \<Rightarrow>
            if g = GrantTypeAuthorizationCode
            then refuse ''remove OAuth client grant type: '' (Sentinel (S_cli Cli_ErrAuthorizationCodeRequired)) c
            else (None, touch now (c\<lparr>oc_GrantTypes := remove_at i (oc_GrantTypes c)\<rparr>)))"

definition AddScope :: "string \<Rightarrow> gotime \<Rightarrow> oauth_client \<Rightarrow> ierror option \<times> oauth_client" where
  "AddScope s now c =
     oc_change ''add OAuth client scope: '' now c
       (if scopeIndex s c \<noteq> None
        then refuse ''add OAuth client scope: '' (Sentinel (S_cli Cli_ErrScopeAlreadyExists)) c
        else (None, touch now (c\<lparr>oc_Scopes := oc_Scopes c @ [newScopeRegistration s now]\<rparr>)))"

definition RemoveScope :: "string \<Rightarrow> gotime \<Rightarrow> oauth_client \<Rightarrow> ierror option \<times> oauth_client" where
  "RemoveScope s now c =
     oc_change ''remove OAuth client scope: '' now c
       (case scopeIndex s c of
          None \<Rightarrow> refuse ''remove OAuth client scope: '' (Sentinel (S_cli Cli_ErrScopeNotFound)) c
        | Some i \<Rightarrow> (None, touch now (c\<lparr>oc_Scopes := remove_at i (oc_Scopes c)\<rparr>)))"

definition Disable :: "gotime \<Rightarrow> oauth_client \<Rightarrow> ierror option \<times> oauth_client" where
  "Disable now c =
     oc_change ''disable OAuth client: '' now c
       (if oc_Status c \<noteq> Client_Active
        then refuse ''disable OAuth client: '' (Sentinel (S_cli Cli_ErrInvalidStatus)) c
        else (None, touch now (c\<lparr>oc_Status := Client_Disabled, oc_DisabledAt := Some now\<rparr>)))"

definition Enable :: "gotime \<Rightarrow> oauth_client \<Rightarrow> ierror option \<times> oauth_client" where
  "Enable now c =
     oc_change ''enable OAuth client: '' now c
       (if oc_Status c \<noteq> Client_Disabled
        then refuse ''enable OAuth client: '' (Sentinel (S_cli Cli_ErrInvalidStatus)) c
        else if oc_ClientType c = ClientTypeConfidential \<and> \<not> hasUsableCredential now c
        then refuse ''enable OAuth client: '' (Sentinel (S_cli Cli_ErrUsableCredentialRequired)) c
        else (None, touch now (c\<lparr>oc_Status := Client_Active, oc_DisabledAt := None\<rparr>)))"

text \<open>The loop of \<open>Delete\<close>: a credential that was revoked before is skipped, another error stops it.\<close>

fun delete_credentials :: "gotime \<Rightarrow> credential list \<Rightarrow> ierror option \<times> credential list" where
  "delete_credentials now [] = (None, [])"
| "delete_credentials now (x # xs) =
     (case cr_Revoke now ''oauth_client_deleted'' x of
        (r, x) \<Rightarrow>
          if r \<noteq> None \<and> \<not> errors_is (the r) (S_cli Cli_ErrCredentialRevoked)
          then (Some (Wrap ''delete OAuth client: revoke credential: '' (the r) ''''), x # xs)
          else case delete_credentials now xs of (s, xs) \<Rightarrow> (s, x # xs))"

definition Delete :: "gotime \<Rightarrow> oauth_client \<Rightarrow> ierror option \<times> oauth_client" where
  "Delete now c =
     oc_change ''delete OAuth client: '' now c
       (case delete_credentials now (oc_Credentials c) of
          (Some err, xs) \<Rightarrow> (Some err, c\<lparr>oc_Credentials := xs\<rparr>)
        | (None, xs) \<Rightarrow>
            (None, touch now (c\<lparr>oc_Credentials := xs, oc_Status := Client_Deleted, oc_DeletedAt := Some now\<rparr>)))"


section \<open>Authorization checks\<close>

definition ValidateAuthorizationRedirectURI :: "string \<Rightarrow> oauth_client \<Rightarrow> ierror option" where
  "ValidateAuthorizationRedirectURI redirectURI c =
     (if redirectURIIndexByValue redirectURI c = None
      then Some (Wrap ''validate OAuth authorization redirect URI: ''
                   (Sentinel (S_cli Cli_ErrRedirectURINotFound)) '''')
      else None)"

definition ValidateAuthorizationCodeFlow :: "string list \<Rightarrow> gotime \<Rightarrow> oauth_client \<Rightarrow> ierror option" where
  "ValidateAuthorizationCodeFlow scopes now c =
     (case oc_ensureActive now c of
        Some err \<Rightarrow> Some (Wrap ''validate OAuth authorization code flow: '' err '''')
      | None \<Rightarrow>
          if grantTypeIndex GrantTypeAuthorizationCode c = None
          then Some (Wrap ''validate OAuth authorization code flow: ''
                       (Sentinel (S_cli Cli_ErrAuthorizationCodeFlowNotAllowed)) '''')
          else if list_ex (\<lambda>s. scopeIndex s c = None) scopes
          then Some (Wrap ''validate OAuth authorization code flow: ''
                       (Sentinel (S_cli Cli_ErrScopeNotFound)) '''')
          else None)"

definition ValidateTokenExchange :: "grant_type \<Rightarrow> gotime \<Rightarrow> oauth_client \<Rightarrow> ierror option" where
  "ValidateTokenExchange g now c =
     (case oc_ensureActive now c of
        Some err \<Rightarrow> Some (Wrap ''validate OAuth token exchange: '' err '''')
      | None \<Rightarrow>
          if grantTypeIndex g c = None
          then Some (Wrap ''validate OAuth token exchange: '' (Sentinel (S_cli Cli_ErrGrantTypeNotFound)) '''')
          else None)"

definition AllowsGrantType :: "grant_type \<Rightarrow> oauth_client \<Rightarrow> bool" where
  "AllowsGrantType g c \<longleftrightarrow> grantTypeIndex g c \<noteq> None"


section \<open>The calls of a client\<close>

datatype client_call =
  C_SetConsentMode consent_mode | C_UpdateMetadata string "string option" | C_SetPKCERequired bool
| C_AddCredential uuid string "string option" "uuid option" "gotime option"
| C_RenameCredential uuid "string option" | C_RevokeCredential uuid string | C_RecordCredentialUsed uuid
| C_AddRedirectURI uuid string | C_RemoveRedirectURI uuid
| C_AddPostLogoutRedirectURI uuid string | C_RemovePostLogoutRedirectURI uuid
| C_AddGrantType grant_type | C_RemoveGrantType grant_type | C_AddScope string | C_RemoveScope string
| C_Disable | C_Enable | C_Delete

fun client_do :: "client_call \<Rightarrow> gotime \<Rightarrow> oauth_client \<Rightarrow> ierror option \<times> oauth_client" where
  "client_do (C_SetConsentMode m) now c = SetConsentMode m now c"
| "client_do (C_UpdateMetadata n d) now c = UpdateMetadata n d now c"
| "client_do (C_SetPKCERequired r) now c = SetPKCERequired r now c"
| "client_do (C_AddCredential k h n b e) now c = AddCredential k h n b e now c"
| "client_do (C_RenameCredential k n) now c = RenameCredential k n now c"
| "client_do (C_RevokeCredential k r) now c = RevokeCredential k r now c"
| "client_do (C_RecordCredentialUsed k) now c = RecordCredentialUsed k now c"
| "client_do (C_AddRedirectURI k u) now c = AddRedirectURI k u now c"
| "client_do (C_RemoveRedirectURI k) now c = RemoveRedirectURI k now c"
| "client_do (C_AddPostLogoutRedirectURI k u) now c = AddPostLogoutRedirectURI k u now c"
| "client_do (C_RemovePostLogoutRedirectURI k) now c = RemovePostLogoutRedirectURI k now c"
| "client_do (C_AddGrantType g) now c = AddGrantType g now c"
| "client_do (C_RemoveGrantType g) now c = RemoveGrantType g now c"
| "client_do (C_AddScope s) now c = AddScope s now c"
| "client_do (C_RemoveScope s) now c = RemoveScope s now c"
| "client_do C_Disable now c = Disable now c"
| "client_do C_Enable now c = Enable now c"
| "client_do C_Delete now c = Delete now c"

end
