(* ===== verification/Identity_Client_Invariant.thy ===== *)
theory Identity_Client_Invariant
  imports Identity_Client
begin

text \<open>
  The invariant of an OAuth client, that every call keeps it and changes nothing when it fails, what
  the checks of a client accept, and that a deleted client stays deleted.
\<close>

section \<open>The invariant of a client\<close>

text \<open>
  A public client has PKCE and no credentials; a client has a redirect URI and the authorization code
  grant; nothing is registered twice; a deleted client has no credential left that is not revoked;
  no credential was changed after its client.
\<close>

definition client_kind :: "oauth_client \<Rightarrow> bool" where
  "client_kind c \<longleftrightarrow>
     (oc_ClientType c = ClientTypePublic \<longrightarrow> oc_RequirePKCE c \<and> oc_Credentials c = []) \<and>
     oc_AuthMethod c = authMethodFor (oc_ClientType c) \<and>
     oc_ClientType c \<in> {ClientTypePublic, ClientTypeConfidential}"

definition client_lists :: "oauth_client \<Rightarrow> bool" where
  "client_lists c \<longleftrightarrow>
     oc_RedirectURIs c \<noteq> [] \<and> distinct (map ru_ID (oc_RedirectURIs c)) \<and>
     distinct (map ru_URI (oc_RedirectURIs c)) \<and>
     distinct (map ru_ID (oc_PostLogoutRedirectURIs c)) \<and>
     distinct (map ru_URI (oc_PostLogoutRedirectURIs c)) \<and>
     GrantTypeAuthorizationCode \<in> gr_GrantType ` set (oc_GrantTypes c) \<and>
     distinct (map gr_GrantType (oc_GrantTypes c)) \<and> distinct (map sr_Scope (oc_Scopes c))"

definition client_credentials :: "oauth_client \<Rightarrow> bool" where
  "client_credentials c \<longleftrightarrow>
     distinct (map cr_ID (oc_Credentials c)) \<and>
     (\<forall>x \<in> set (oc_Credentials c). cr_UpdatedAt x \<le> oc_UpdatedAt c) \<and>
     (oc_Status c = Client_Deleted \<longrightarrow> (\<forall>x \<in> set (oc_Credentials c). cr_RevokedAt x \<noteq> None))"

definition client_wf :: "oauth_client \<Rightarrow> bool" where
  "client_wf c \<longleftrightarrow> client_kind c \<and> client_lists c \<and> client_credentials c"

lemmas client_indices = credentialIndex_def redirectURIIndex_def redirectURIIndexByValue_def
  postLogoutRedirectURIIndex_def postLogoutRedirectURIIndexByValue_def grantTypeIndex_def scopeIndex_def

lemma newOAuthClient_wf:
  "newOAuthClient i k t n d b r u now = Inr c \<Longrightarrow> t \<in> {ClientTypePublic, ClientTypeConfidential} \<Longrightarrow>
     client_wf c"
  by (auto simp: newOAuthClient_def client_wf_def client_kind_def client_lists_def client_credentials_def
      newGrantTypeRegistration_def split: prod.splits if_splits sum.splits)

lemma NewPublic_wf: "NewPublic i k n d b r u now = Inr c \<Longrightarrow> client_wf c"
  by (auto simp: NewPublic_def intro: newOAuthClient_wf)

lemma newOAuthClient_fields:
  "newOAuthClient i k t n d b r u now = Inr c \<Longrightarrow>
     oc_ClientType c = t \<and> oc_Credentials c = [] \<and> oc_UpdatedAt c = now \<and> oc_Status c = Client_Active"
  by (auto simp: newOAuthClient_def split: prod.splits if_splits sum.splits)

lemma NewConfidential_wf: "NewConfidential i k n d b r u q h cn ce now = Inr c \<Longrightarrow> client_wf c"
proof -
  assume "NewConfidential i k n d b r u q h cn ce now = Inr c"
  then obtain c0 x where c0: "newOAuthClient i k ClientTypeConfidential n d b r u now = Inr c0"
    and x: "newCredential q h cn b ce now = Inr x" and c: "c = c0\<lparr>oc_Credentials := oc_Credentials c0 @ [x]\<rparr>"
    by (auto simp: NewConfidential_def split: sum.splits)
  have "cr_UpdatedAt x = now"
    using x by (auto simp: newCredential_def split: if_splits)
  with newOAuthClient_wf [OF c0] newOAuthClient_fields [OF c0] c show ?thesis
    by (simp add: client_wf_def client_kind_def client_lists_def client_credentials_def)
qed

text \<open>The registrations: each list operation keeps the lists in order.\<close>

lemma index_by_map: "index_by P xs = Some i \<Longrightarrow> i < length xs"
  using index_by_Some by blast

lemma client_lists_remove:
  assumes "client_lists c"
  shows "i < length (oc_RedirectURIs c) \<Longrightarrow> length (oc_RedirectURIs c) \<noteq> 1 \<Longrightarrow>
      client_lists (c\<lparr>oc_RedirectURIs := remove_at i (oc_RedirectURIs c)\<rparr>)"
    and "client_lists (c\<lparr>oc_PostLogoutRedirectURIs := remove_at i (oc_PostLogoutRedirectURIs c)\<rparr>)"
    and "client_lists (c\<lparr>oc_Scopes := remove_at i (oc_Scopes c)\<rparr>)"
proof -
  have ne: "remove_at i xs \<noteq> []" if "i < length xs" "length xs \<noteq> 1" for xs :: "'a list"
    using remove_at_length [OF that(1)] that by (cases "remove_at i xs") auto
  show "i < length (oc_RedirectURIs c) \<Longrightarrow> length (oc_RedirectURIs c) \<noteq> 1 \<Longrightarrow>
      client_lists (c\<lparr>oc_RedirectURIs := remove_at i (oc_RedirectURIs c)\<rparr>)"
    using assms by (simp add: client_lists_def remove_at_map remove_at_distinct ne)
  show "client_lists (c\<lparr>oc_PostLogoutRedirectURIs := remove_at i (oc_PostLogoutRedirectURIs c)\<rparr>)"
    "client_lists (c\<lparr>oc_Scopes := remove_at i (oc_Scopes c)\<rparr>)"
    using assms by (simp_all add: client_lists_def remove_at_map remove_at_distinct)
qed

lemma client_lists_remove_grant:
  assumes "client_lists c" and "grantTypeIndex g c = Some i" and "g \<noteq> GrantTypeAuthorizationCode"
  shows "client_lists (c\<lparr>oc_GrantTypes := remove_at i (oc_GrantTypes c)\<rparr>)"
proof -
  let ?gs = "map gr_GrantType (oc_GrantTypes c)"
  have i: "i < length ?gs" "?gs ! i = g"
    using assms(2) by (auto simp: grantTypeIndex_def dest: index_by_Some)
  have "set (remove_at i ?gs) = set ?gs - {g}"
    using remove_at_gone [of ?gs i] i assms(1) by (simp add: client_lists_def)
  then have "GrantTypeAuthorizationCode \<in> gr_GrantType ` set (remove_at i (oc_GrantTypes c))"
    using assms(1,3) unfolding remove_at_map [symmetric] by (auto simp: client_lists_def)
  with assms(1) show ?thesis
    by (simp add: client_lists_def remove_at_map remove_at_distinct)
qed

lemma credential_update:
  assumes "client_wf c" and "i < length (oc_Credentials c)"
    and "cr_ID x = cr_ID (oc_Credentials c ! i)" and "cr_UpdatedAt x \<le> now" and "oc_UpdatedAt c \<le> now"
    and "oc_Status c \<noteq> Client_Deleted"
  shows "client_wf (touch now (c\<lparr>oc_Credentials := (oc_Credentials c)[i := x]\<rparr>))"
proof -
  have "map cr_ID ((oc_Credentials c)[i := x]) = map cr_ID (oc_Credentials c)"
    using assms(2,3) by (simp add: map_update list_update_same_conv)
  moreover have "\<forall>y \<in> set ((oc_Credentials c)[i := x]). cr_UpdatedAt y \<le> now"
    using assms(1,4,5) set_update_subset_insert [of "oc_Credentials c" i x]
    by (fastforce simp: client_wf_def client_credentials_def)
  moreover have "oc_Credentials c \<noteq> []" using assms(2) by auto
  ultimately show ?thesis
    using assms(1,6)
    by (auto simp: client_wf_def client_kind_def client_lists_def client_credentials_def touch_def)
qed

lemma oc_change_eq:
  "oc_change msg now c k = (r, c') \<longleftrightarrow>
     (\<exists>err. oc_ensureChangeAllowed now c = Some err \<and> r = Some (Wrap msg err '''') \<and> c' = c) \<or>
     (oc_Status c \<noteq> Client_Deleted \<and> now \<noteq> 0 \<and> oc_UpdatedAt c \<le> now \<and> k = (r, c'))"
  by (auto simp: oc_change_def oc_ensureChangeAllowed_def refuse_def)

text \<open>Revoking the credentials of a client succeeds for all of them, the revoked ones included.\<close>

definition retired :: "gotime \<Rightarrow> credential \<Rightarrow> credential" where
  "retired now x =
     (if cr_RevokedAt x \<noteq> None then x
      else x\<lparr>cr_RevokedAt := Some now, cr_RevokeReason := Some ''oauth_client_deleted'', cr_UpdatedAt := now\<rparr>)"

lemma trim_deleted: "trim_space ''oauth_client_deleted'' = ''oauth_client_deleted''"
  by code_simp

lemma delete_credentials_all:
  "now \<noteq> 0 \<Longrightarrow> \<forall>x \<in> set xs. cr_UpdatedAt x \<le> now \<Longrightarrow>
     delete_credentials now xs = (None, map (retired now) xs)"
  by (induction xs)
     (auto simp: cr_Revoke_def cr_ensureChangeAllowed_def retired_def NormalizeRequiredText_def
       trim_deleted Let_def)

lemma Delete_wf:
  assumes "client_wf c" and "Delete now c = (r, c')"
  shows "client_wf c' \<and>
     (if r = None
      then c' = touch now (c\<lparr>oc_Credentials := map (retired now) (oc_Credentials c),
                  oc_Status := Client_Deleted, oc_DeletedAt := Some now\<rparr>)
      else c' = c)"
proof (cases "oc_ensureChangeAllowed now c")
  case (Some err)
  with assms show ?thesis by (auto simp: Delete_def oc_change_def refuse_def)
next
  case None
  then have now: "now \<noteq> 0" "oc_UpdatedAt c \<le> now"
    by (auto simp: oc_ensureChangeAllowed_def split: if_splits)
  have "\<forall>x \<in> set (oc_Credentials c). cr_UpdatedAt x \<le> now"
    using assms(1) now(2) by (fastforce simp: client_wf_def client_credentials_def)
  from delete_credentials_all [OF now(1) this] assms(2) None
  have r: "r = None" and c': "c' = touch now (c\<lparr>oc_Credentials := map (retired now) (oc_Credentials c),
                  oc_Status := Client_Deleted, oc_DeletedAt := Some now\<rparr>)"
    by (simp_all add: Delete_def oc_change_def)
  have ids: "map cr_ID (map (retired now) (oc_Credentials c)) = map cr_ID (oc_Credentials c)"
    by (simp add: retired_def)
  have "\<forall>x \<in> set (map (retired now) (oc_Credentials c)). cr_UpdatedAt x \<le> now \<and> cr_RevokedAt x \<noteq> None"
    using \<open>\<forall>x \<in> set (oc_Credentials c). cr_UpdatedAt x \<le> now\<close> by (auto simp: retired_def)
  with assms(1) ids show ?thesis
    unfolding r c' client_wf_def client_kind_def client_lists_def client_credentials_def touch_def
    by (auto simp del: map_map)
qed

lemma touched_wf:
  assumes "client_wf c" and "oc_UpdatedAt c \<le> now" and "oc_Status c \<noteq> Client_Deleted"
    and "client_kind c'" and "client_lists c'" and "oc_Credentials c' = oc_Credentials c"
    and "oc_Status c' \<noteq> Client_Deleted"
  shows "client_wf (touch now c')"
  using assms
  by (auto simp: client_wf_def client_kind_def client_lists_def client_credentials_def touch_def)

lemma oc_change_keeps:
  assumes "client_wf c" and "oc_change msg now c k = (r, c')"
    and "oc_Status c \<noteq> Client_Deleted \<Longrightarrow> now \<noteq> 0 \<Longrightarrow> oc_UpdatedAt c \<le> now \<Longrightarrow> k = (r, c') \<Longrightarrow>
       client_wf c' \<and> (r \<noteq> None \<longrightarrow> c' = c)"
  shows "client_wf c' \<and> (r \<noteq> None \<longrightarrow> c' = c)"
  using assms by (auto simp: oc_change_eq)

text \<open>The methods that set a field.\<close>

lemma set_field_wf:
  assumes "client_wf c"
  shows "SetConsentMode m now c = (r, c') \<Longrightarrow> client_wf c' \<and> (r \<noteq> None \<longrightarrow> c' = c)"
    and "UpdateMetadata n d now c = (r, c') \<Longrightarrow> client_wf c' \<and> (r \<noteq> None \<longrightarrow> c' = c)"
    and "SetPKCERequired b now c = (r, c') \<Longrightarrow> client_wf c' \<and> (r \<noteq> None \<longrightarrow> c' = c)"
    and "Disable now c = (r, c') \<Longrightarrow> client_wf c' \<and> (r \<noteq> None \<longrightarrow> c' = c)"
    and "Enable now c = (r, c') \<Longrightarrow> client_wf c' \<and> (r \<noteq> None \<longrightarrow> c' = c)"
proof -
  have kl: "client_kind c" "client_lists c" using assms by (simp_all add: client_wf_def)
  show "SetConsentMode m now c = (r, c') \<Longrightarrow> client_wf c' \<and> (r \<noteq> None \<longrightarrow> c' = c)"
    unfolding SetConsentMode_def
    by (erule oc_change_keeps [OF assms])
       (use assms kl in \<open>auto simp: refuse_def client_kind_def client_lists_def intro!: touched_wf [OF assms]
          split: sum.splits if_splits\<close>)
  show "UpdateMetadata n d now c = (r, c') \<Longrightarrow> client_wf c' \<and> (r \<noteq> None \<longrightarrow> c' = c)"
    unfolding UpdateMetadata_def
    by (erule oc_change_keeps [OF assms])
       (use assms kl in \<open>auto simp: refuse_def Let_def client_kind_def client_lists_def intro!: touched_wf [OF assms]
          split: prod.splits if_splits\<close>)
  show "SetPKCERequired b now c = (r, c') \<Longrightarrow> client_wf c' \<and> (r \<noteq> None \<longrightarrow> c' = c)"
    unfolding SetPKCERequired_def
    by (erule oc_change_keeps [OF assms])
       (use assms kl in \<open>auto simp: refuse_def client_kind_def client_lists_def intro!: touched_wf [OF assms]
          split: if_splits\<close>)
  show "Disable now c = (r, c') \<Longrightarrow> client_wf c' \<and> (r \<noteq> None \<longrightarrow> c' = c)"
    unfolding Disable_def
    by (erule oc_change_keeps [OF assms])
       (use assms kl in \<open>auto simp: refuse_def client_kind_def client_lists_def intro!: touched_wf [OF assms]
          split: if_splits\<close>)
  show "Enable now c = (r, c') \<Longrightarrow> client_wf c' \<and> (r \<noteq> None \<longrightarrow> c' = c)"
    unfolding Enable_def
    by (erule oc_change_keeps [OF assms])
       (use assms kl in \<open>auto simp: refuse_def client_kind_def client_lists_def intro!: touched_wf [OF assms]
          split: if_splits\<close>)
qed

text \<open>The methods that register or remove something.\<close>

lemma register_wf:
  assumes "client_wf c"
  shows "AddRedirectURI k u now c = (r, c') \<Longrightarrow> client_wf c' \<and> (r \<noteq> None \<longrightarrow> c' = c)"
    and "AddPostLogoutRedirectURI k u now c = (r, c') \<Longrightarrow> client_wf c' \<and> (r \<noteq> None \<longrightarrow> c' = c)"
    and "AddGrantType g now c = (r, c') \<Longrightarrow> client_wf c' \<and> (r \<noteq> None \<longrightarrow> c' = c)"
    and "AddScope s now c = (r, c') \<Longrightarrow> client_wf c' \<and> (r \<noteq> None \<longrightarrow> c' = c)"
proof -
  have kl: "client_kind c" "client_lists c" using assms by (simp_all add: client_wf_def)
  show "AddRedirectURI k u now c = (r, c') \<Longrightarrow> client_wf c' \<and> (r \<noteq> None \<longrightarrow> c' = c)"
    unfolding AddRedirectURI_def
    by (erule oc_change_keeps [OF assms])
       (use assms kl in \<open>auto simp: refuse_def client_kind_def client_lists_def newRedirectURI_def
          client_indices index_by_None index_by_ex intro!: touched_wf [OF assms] split: if_splits\<close>)
  show "AddPostLogoutRedirectURI k u now c = (r, c') \<Longrightarrow> client_wf c' \<and> (r \<noteq> None \<longrightarrow> c' = c)"
    unfolding AddPostLogoutRedirectURI_def
    by (erule oc_change_keeps [OF assms])
       (use assms kl in \<open>auto simp: refuse_def client_kind_def client_lists_def newPostLogoutRedirectURI_def
          client_indices index_by_None index_by_ex intro!: touched_wf [OF assms] split: if_splits\<close>)
  show "AddGrantType g now c = (r, c') \<Longrightarrow> client_wf c' \<and> (r \<noteq> None \<longrightarrow> c' = c)"
    unfolding AddGrantType_def
    by (erule oc_change_keeps [OF assms])
       (use assms kl in \<open>auto simp: refuse_def client_kind_def client_lists_def newGrantTypeRegistration_def
          client_indices index_by_None index_by_ex intro!: touched_wf [OF assms] split: if_splits\<close>)
  show "AddScope s now c = (r, c') \<Longrightarrow> client_wf c' \<and> (r \<noteq> None \<longrightarrow> c' = c)"
    unfolding AddScope_def
    by (erule oc_change_keeps [OF assms])
       (use assms kl in \<open>auto simp: refuse_def client_kind_def client_lists_def newScopeRegistration_def
          client_indices index_by_None index_by_ex intro!: touched_wf [OF assms] split: if_splits\<close>)
qed

lemma unregister_wf:
  assumes "client_wf c"
  shows "RemoveRedirectURI k now c = (r, c') \<Longrightarrow> client_wf c' \<and> (r \<noteq> None \<longrightarrow> c' = c)"
    and "RemovePostLogoutRedirectURI k now c = (r, c') \<Longrightarrow> client_wf c' \<and> (r \<noteq> None \<longrightarrow> c' = c)"
    and "RemoveGrantType g now c = (r, c') \<Longrightarrow> client_wf c' \<and> (r \<noteq> None \<longrightarrow> c' = c)"
    and "RemoveScope s now c = (r, c') \<Longrightarrow> client_wf c' \<and> (r \<noteq> None \<longrightarrow> c' = c)"
proof -
  have kl: "client_kind c" "client_lists c" using assms by (simp_all add: client_wf_def)
  have kind: "client_kind (c\<lparr>oc_RedirectURIs := x\<rparr>)" "client_kind (c\<lparr>oc_PostLogoutRedirectURIs := x\<rparr>)"
    "client_kind (c\<lparr>oc_GrantTypes := y\<rparr>)" "client_kind (c\<lparr>oc_Scopes := z\<rparr>)" for x y z
    using kl(1) by (simp_all add: client_kind_def)
  show "RemoveRedirectURI k now c = (r, c') \<Longrightarrow> client_wf c' \<and> (r \<noteq> None \<longrightarrow> c' = c)"
    unfolding RemoveRedirectURI_def
    by (erule oc_change_keeps [OF assms])
       (use assms kind client_lists_remove(1) [OF kl(2)] in
         \<open>auto simp: refuse_def redirectURIIndex_def intro!: touched_wf [OF assms]
           dest: index_by_map split: option.splits if_splits\<close>)
  show "RemovePostLogoutRedirectURI k now c = (r, c') \<Longrightarrow> client_wf c' \<and> (r \<noteq> None \<longrightarrow> c' = c)"
    unfolding RemovePostLogoutRedirectURI_def
    by (erule oc_change_keeps [OF assms])
       (use assms kind client_lists_remove(2) [OF kl(2)] in
         \<open>auto simp: refuse_def intro!: touched_wf [OF assms] split: option.splits if_splits\<close>)
  show "RemoveGrantType g now c = (r, c') \<Longrightarrow> client_wf c' \<and> (r \<noteq> None \<longrightarrow> c' = c)"
    unfolding RemoveGrantType_def
    by (erule oc_change_keeps [OF assms])
       (use assms kind client_lists_remove_grant [OF kl(2)] in
         \<open>auto simp: refuse_def intro!: touched_wf [OF assms] split: option.splits if_splits\<close>)
  show "RemoveScope s now c = (r, c') \<Longrightarrow> client_wf c' \<and> (r \<noteq> None \<longrightarrow> c' = c)"
    unfolding RemoveScope_def
    by (erule oc_change_keeps [OF assms])
       (use assms kind client_lists_remove(3) [OF kl(2)] in
         \<open>auto simp: refuse_def intro!: touched_wf [OF assms] split: option.splits if_splits\<close>)
qed

text \<open>The methods on credentials.\<close>

lemma cr_ops_fields:
  "cr_Rename n now x = (s, y) \<Longrightarrow> cr_UpdatedAt x \<le> now \<Longrightarrow> cr_ID y = cr_ID x \<and> cr_UpdatedAt y \<le> now \<and> (isl s \<longrightarrow> y = x)"
  "cr_Revoke now rs x = (r, y) \<Longrightarrow> cr_UpdatedAt x \<le> now \<Longrightarrow> cr_ID y = cr_ID x \<and> cr_UpdatedAt y \<le> now \<and> (r \<noteq> None \<longrightarrow> y = x)"
  "cr_RecordUsed now x = (r, y) \<Longrightarrow> cr_UpdatedAt x \<le> now \<Longrightarrow> cr_ID y = cr_ID x \<and> cr_UpdatedAt y \<le> now \<and> (r \<noteq> None \<longrightarrow> y = x)"
  by (auto simp: cr_Rename_def cr_Revoke_def cr_RecordUsed_def Let_def split: option.splits if_splits prod.splits)

lemma credential_within:
  "client_wf c \<Longrightarrow> i < length (oc_Credentials c) \<Longrightarrow> oc_UpdatedAt c \<le> now \<Longrightarrow>
     cr_UpdatedAt (oc_Credentials c ! i) \<le> now"
  using order_trans [of "cr_UpdatedAt (oc_Credentials c ! i)" "oc_UpdatedAt c" now]
  by (simp add: client_wf_def client_credentials_def)

lemma RenameCredential_wf:
  assumes "client_wf c" and "RenameCredential k n now c = (r, c')"
  shows "client_wf c' \<and> (r \<noteq> None \<longrightarrow> c' = c)"
  using assms(2) unfolding RenameCredential_def
proof (rule oc_change_keeps [OF assms(1)], goal_cases)
  case 1
  show ?case
  proof (cases "credentialIndex k c")
    case None
    with 1 assms(1) show ?thesis by (auto simp: refuse_def)
  next
    case (Some i)
    then have i: "i < length (oc_Credentials c)" by (auto simp: credentialIndex_def dest: index_by_map)
    obtain s y where s: "cr_Rename n now (oc_Credentials c ! i) = (s, y)" by fastforce
    note f = cr_ops_fields(1) [OF s credential_within [OF assms(1) i 1(3)]]
    have same: "y = oc_Credentials c ! i \<or> (\<exists>b. s = Inr b)" using f by (cases s) auto
    have unchanged: "y = oc_Credentials c ! i" if "s = Inr False"
      using s that by (auto simp: cr_Rename_def Let_def split: option.splits if_splits)
    show ?thesis
      using 1(4) Some s f unchanged assms(1) credential_update [OF assms(1) i, of y now] 1(1,3)
      by (cases s) (auto simp: refuse_def Let_def split: if_splits)
  qed
qed

lemma RevokeCredential_wf:
  assumes "client_wf c" and "RevokeCredential k reason now c = (r, c')"
  shows "client_wf c' \<and> (r \<noteq> None \<longrightarrow> c' = c)"
  using assms(2) unfolding RevokeCredential_def
proof (rule oc_change_keeps [OF assms(1)], goal_cases)
  case 1
  show ?case
  proof (cases "credentialIndex k c")
    case None
    with 1 assms(1) show ?thesis by (auto simp: refuse_def)
  next
    case (Some i)
    then have i: "i < length (oc_Credentials c)" by (auto simp: credentialIndex_def dest: index_by_map)
    obtain s y where s: "cr_Revoke now reason (oc_Credentials c ! i) = (s, y)" by fastforce
    note f = cr_ops_fields(2) [OF s credential_within [OF assms(1) i 1(3)]]
    show ?thesis
      using 1(4) Some s f assms(1) credential_update [OF assms(1) i, of y now] 1(1,3)
      by (cases s) (auto simp: refuse_def)
  qed
qed

lemma RecordCredentialUsed_wf:
  assumes "client_wf c" and "RecordCredentialUsed k now c = (r, c')"
  shows "client_wf c' \<and> (r \<noteq> None \<longrightarrow> c' = c)"
proof (cases "ValidateCredential k now c")
  case (Some err)
  with assms show ?thesis by (auto simp: RecordCredentialUsed_def refuse_def)
next
  case None
  then have now: "oc_UpdatedAt c \<le> now" "oc_Status c = Client_Active"
    by (auto simp: ValidateCredential_def oc_ensureActive_def split: if_splits option.splits)
  show ?thesis
  proof (cases "credentialIndex k c")
    case None
    with assms \<open>ValidateCredential k now c = None\<close> show ?thesis by (auto simp: RecordCredentialUsed_def)
  next
    case (Some i)
    then have i: "i < length (oc_Credentials c)" by (auto simp: credentialIndex_def dest: index_by_map)
    obtain s y where s: "cr_RecordUsed now (oc_Credentials c ! i) = (s, y)" by fastforce
    note f = cr_ops_fields(3) [OF s credential_within [OF assms(1) i now(1)]]
    show ?thesis
      using assms Some s f None credential_update [OF assms(1) i, of y now] now
      by (cases s) (auto simp: RecordCredentialUsed_def refuse_def)
  qed
qed

lemma AddCredential_wf:
  assumes "client_wf c" and "AddCredential k h n b e now c = (r, c')"
  shows "client_wf c' \<and> (r \<noteq> None \<longrightarrow> c' = c)"
  using assms(2) unfolding AddCredential_def
proof (rule oc_change_keeps [OF assms(1)], goal_cases)
  case 1
  have old: "\<forall>x \<in> set (oc_Credentials c). cr_UpdatedAt x \<le> now"
    using assms(1) 1(3) by (auto simp: client_wf_def client_credentials_def)
  have x: "cr_ID x = k \<and> cr_UpdatedAt x = now" if "newCredential k h n b e now = Inr x" for x
    using that by (auto simp: newCredential_def split: if_splits)
  show ?case
    using 1 assms(1) old
    by (force simp: refuse_def credentialIndex_def index_by_ex index_by_None client_wf_def
        client_kind_def client_lists_def client_credentials_def touch_def dest!: x split: if_splits sum.splits)
qed

text \<open>Every call on a client that keeps the invariant keeps it, and an error changes nothing.\<close>

lemma client_do_wf:
  assumes "client_wf c" and "client_do a now c = (r, c')"
  shows "client_wf c' \<and> (r \<noteq> None \<longrightarrow> c' = c)"
proof -
  have delete: "client_wf c' \<and> (r \<noteq> None \<longrightarrow> c' = c)" if "Delete now c = (r, c')"
    using Delete_wf [OF assms(1) that] by simp
  note keeps = set_field_wf [OF assms(1)] register_wf [OF assms(1)] unregister_wf [OF assms(1)]
    RenameCredential_wf [OF assms(1)] RevokeCredential_wf [OF assms(1)] RecordCredentialUsed_wf [OF assms(1)]
    AddCredential_wf [OF assms(1)] delete
  show ?thesis
    using assms(2) by (cases a) (simp_all only: client_do.simps, (erule keeps)+)
qed

section \<open>Runs of a client\<close>

inductive client_step :: "oauth_client \<Rightarrow> oauth_client \<Rightarrow> bool" where
  call: "client_step c (snd (client_do a now c))"

inductive_simps client_step_iff: "client_step c d"

inductive client_reachable :: "oauth_client \<Rightarrow> bool" where
  public: "NewPublic i k n d b r u now = Inr c \<Longrightarrow> client_reachable c"
| confidential: "NewConfidential i k n d b r u q h cn ce now = Inr c \<Longrightarrow> client_reachable c"
| stepped: "client_reachable c \<Longrightarrow> client_step c d \<Longrightarrow> client_reachable d"

lemma client_step_wf: "client_step c d \<Longrightarrow> client_wf c \<Longrightarrow> client_wf d"
  by (metis client_step_iff client_do_wf prod.collapse)

lemma client_reachable_wf: "client_reachable c \<Longrightarrow> client_wf c"
  by (induction rule: client_reachable.induct) (auto intro: NewPublic_wf NewConfidential_wf client_step_wf)

lemma deleted_refuses:
  assumes "oc_Status c = Client_Deleted"
  shows "client_do a now c = (r, c') \<Longrightarrow> r \<noteq> None \<and> c' = c"
proof -
  obtain e1 where "oc_ensureActive now c = Some e1"
    using assms by (cases "oc_ensureActive now c") (auto simp: oc_ensureActive_def split: if_splits)
  then have "ValidateCredential k now c = Some (Wrap ''validate OAuth client credential: '' e1 '''')" for k
    by (simp add: ValidateCredential_def)
  moreover have "oc_ensureChangeAllowed now c \<noteq> None"
    using assms by (auto simp: oc_ensureChangeAllowed_def)
  ultimately show "client_do a now c = (r, c') \<Longrightarrow> r \<noteq> None \<and> c' = c"
    by (cases a)
       (auto simp: SetConsentMode_def UpdateMetadata_def SetPKCERequired_def AddCredential_def
         RenameCredential_def RevokeCredential_def RecordCredentialUsed_def AddRedirectURI_def
         RemoveRedirectURI_def AddPostLogoutRedirectURI_def RemovePostLogoutRedirectURI_def
         AddGrantType_def RemoveGrantType_def AddScope_def RemoveScope_def Disable_def Enable_def
         Delete_def oc_change_def refuse_def)
qed

interpretation client_life: lifecycle "\<lambda>c d. client_step c d \<and> d \<noteq> c" "\<lambda>c. oc_Status c = Client_Deleted"
  by unfold_locales (metis client_step_iff deleted_refuses prod.collapse)

text \<open>What a client allows once it is deleted, and what it allows while it is active.\<close>

lemma AllowsGrantType_iff: "AllowsGrantType g c \<longleftrightarrow> g \<in> gr_GrantType ` set (oc_GrantTypes c)"
proof -
  have "grantTypeIndex g c = None \<longleftrightarrow> g \<notin> gr_GrantType ` set (oc_GrantTypes c)"
    by (auto simp: grantTypeIndex_def index_by_None)
  then show ?thesis by (simp add: AllowsGrantType_def)
qed

lemma deleted_allows_nothing:
  assumes "oc_Status c = Client_Deleted"
  shows "ValidateAuthorizationCodeFlow ss now c \<noteq> None" and "ValidateTokenExchange g now c \<noteq> None"
    and "ValidateCredential k now c \<noteq> None"
  using assms
  by (auto simp: ValidateAuthorizationCodeFlow_def ValidateTokenExchange_def ValidateCredential_def
      oc_ensureActive_def)

lemma code_flow_allowed:
  "ValidateAuthorizationCodeFlow ss now c = None \<longleftrightarrow>
     now \<noteq> 0 \<and> oc_UpdatedAt c \<le> now \<and> oc_Status c = Client_Active \<and>
     GrantTypeAuthorizationCode \<in> gr_GrantType ` set (oc_GrantTypes c) \<and>
     set ss \<subseteq> sr_Scope ` set (oc_Scopes c)"
proof -
  have "grantTypeIndex g c = None \<longleftrightarrow> g \<notin> gr_GrantType ` set (oc_GrantTypes c)" for g
    by (auto simp: grantTypeIndex_def index_by_None)
  moreover have "list_ex (\<lambda>s. scopeIndex s c = None) ss \<longleftrightarrow> \<not> set ss \<subseteq> sr_Scope ` set (oc_Scopes c)"
    by (fastforce simp: scopeIndex_def index_by_None list_ex_iff)
  ultimately show ?thesis
    by (auto simp: ValidateAuthorizationCodeFlow_def oc_ensureActive_def)
qed

lemma credential_accepted:
  assumes "client_wf c"
  shows "ValidateCredential k now c = None \<longleftrightarrow>
     oc_Status c = Client_Active \<and> oc_ClientType c = ClientTypeConfidential \<and> now \<noteq> 0 \<and> oc_UpdatedAt c \<le> now \<and>
     (\<exists>x \<in> set (oc_Credentials c). cr_ID x = k \<and> cr_IsUsable now x)"
proof (cases "credentialIndex k c")
  case None
  then have "\<forall>x \<in> set (oc_Credentials c). cr_ID x \<noteq> k"
    by (simp add: credentialIndex_def index_by_None)
  with None show ?thesis by (auto simp: ValidateCredential_def split: option.splits if_splits)
next
  case (Some i)
  then have i: "i < length (oc_Credentials c)" "cr_ID (oc_Credentials c ! i) = k"
    by (auto simp: credentialIndex_def dest: index_by_Some)
  have "x = oc_Credentials c ! i" if "x \<in> set (oc_Credentials c)" "cr_ID x = k" for x
    using assms that i unfolding client_wf_def client_credentials_def
    by (metis distinct_map inj_on_eq_iff nth_mem)
  with i have "(\<exists>x \<in> set (oc_Credentials c). cr_ID x = k \<and> cr_IsUsable now x) \<longleftrightarrow>
      cr_IsUsable now (oc_Credentials c ! i)"
    by (metis nth_mem)
  with Some show ?thesis
    by (auto simp: ValidateCredential_def oc_ensureActive_def cr_IsUsable_Validate)
qed

end
