(* ===== verification/Identity_Session.thy ===== *)
theory Identity_Session
  imports Identity_Common
begin

text \<open>
  The session, \<open>internal/domain/session\<close>: created after an authentication, used until it is revoked or
  one of its two lifetimes ends. Parsing an IP address is left out (\<open>net/netip\<close>).
\<close>

record session =
  se_ID :: uuid
  se_IdentityID :: uuid
  se_OAuthClientID :: uuid
  se_AuthenticationLevel :: auth_level
  se_AuthenticatedMethods :: "auth_method list"
  se_Scopes :: "string list"
  se_IPAddress :: "string option"
  se_UserAgent :: "string option"
  se_DeviceName :: "string option"
  se_CreatedAt :: gotime
  se_AuthenticatedAt :: gotime
  se_LastSeenAt :: "gotime option"
  se_IdleExpiresAt :: gotime
  se_AbsoluteExpiresAt :: gotime
  se_RevokedAt :: "gotime option"
  se_RevokeReason :: "string option"

definition New_session ::
  "uuid \<Rightarrow> uuid \<Rightarrow> uuid \<Rightarrow> auth_level \<Rightarrow> auth_method list \<Rightarrow> string list \<Rightarrow> string option \<Rightarrow> string option
     \<Rightarrow> string option \<Rightarrow> gotime \<Rightarrow> gotime \<Rightarrow> gotime \<Rightarrow> gotime \<Rightarrow> ierror + session" where
  "New_session sessionID identityID oauthClientID level methods scopes ip userAgent deviceName
     authenticatedAt idleExpiresAt absoluteExpiresAt now =
     (if sessionID = uuid_nil then Inl (Fresh ''create session: identifier is required'')
      else if identityID = uuid_nil then Inl (Fresh ''create session: identity identifier is invalid'')
      else if oauthClientID = uuid_nil then Inl (Fresh ''create session: OAuth client identifier is invalid'')
      else if is_zero now then Inl (Fresh ''create session: time is invalid'')
      else if is_zero authenticatedAt \<or> after authenticatedAt now
      then Inl (Fresh ''create session: authentication time is invalid'')
      else case ResolveLevel methods of
        Inl err \<Rightarrow> Inl (Wrap ''create session: '' err '''')
      | Inr resolvedLevel \<Rightarrow>
          if \<not> level_IsValid level \<or> level \<noteq> resolvedLevel
          then Inl (Fresh ''create session: authentication level does not match methods'')
          else if HasDuplicates scopes then Inl (Fresh ''create session: scope is duplicated'')
          else if \<not> after idleExpiresAt now \<or> \<not> after absoluteExpiresAt now \<or> after idleExpiresAt absoluteExpiresAt
          then Inl (Fresh ''create session: expiration is invalid'')
          else Inr \<lparr>se_ID = sessionID, se_IdentityID = identityID, se_OAuthClientID = oauthClientID,
                    se_AuthenticationLevel = level, se_AuthenticatedMethods = methods, se_Scopes = scopes,
                    se_IPAddress = ip, se_UserAgent = NormalizeOptionalText userAgent,
                    se_DeviceName = NormalizeOptionalText deviceName, se_CreatedAt = now,
                    se_AuthenticatedAt = authenticatedAt, se_LastSeenAt = None,
                    se_IdleExpiresAt = idleExpiresAt, se_AbsoluteExpiresAt = absoluteExpiresAt,
                    se_RevokedAt = None, se_RevokeReason = None\<rparr>)"

definition se_latestChangedAt :: "session \<Rightarrow> gotime" where
  "se_latestChangedAt s = latest (se_AuthenticatedAt s) [se_LastSeenAt s, se_RevokedAt s]"

abbreviation (input) session_error :: "session_sentinel \<Rightarrow> ierror option" where
  "session_error s \<equiv> Some (Wrap ''validate session for use: '' (Sentinel (S_ses s)) '''')"

definition ValidateForUse :: "gotime \<Rightarrow> session \<Rightarrow> ierror option" where
  "ValidateForUse now s =
     (if is_zero now \<or> before now (se_latestChangedAt s)
      then Some (Fresh ''validate session for use: time is invalid'')
      else if se_RevokedAt s \<noteq> None then session_error Ses_ErrRevoked
      else if \<not> before now (se_AbsoluteExpiresAt s) then session_error Ses_ErrAbsoluteExpired
      else if \<not> before now (se_IdleExpiresAt s) then session_error Ses_ErrIdleExpired
      else None)"

definition RecordActivity :: "gotime \<Rightarrow> gotime \<Rightarrow> session \<Rightarrow> ierror option \<times> session" where
  "RecordActivity now idleExpiresAt s =
     (case ValidateForUse now s of
        Some err \<Rightarrow> refuse ''record session activity: '' err s
      | None \<Rightarrow>
          if \<not> after idleExpiresAt now \<or> after idleExpiresAt (se_AbsoluteExpiresAt s)
          then (Some (Fresh ''record session activity: idle expiration is invalid''), s)
          else (None, s\<lparr>se_LastSeenAt := Some now,
                        se_IdleExpiresAt := if after idleExpiresAt (se_IdleExpiresAt s) then idleExpiresAt
                                            else se_IdleExpiresAt s\<rparr>))"

definition session_Revoke :: "string \<Rightarrow> gotime \<Rightarrow> session \<Rightarrow> ierror option \<times> session" where
  "session_Revoke reason now s =
     (if se_RevokedAt s \<noteq> None then (None, s)
      else if is_zero now \<or> before now (se_latestChangedAt s)
      then (Some (Fresh ''revoke session: time is invalid''), s)
      else case NormalizeRequiredText reason of (reason, ok) \<Rightarrow>
        if \<not> ok then (Some (Fresh ''revoke session: reason is required''), s)
        else (None, s\<lparr>se_RevokedAt := Some now, se_RevokeReason := Some reason\<rparr>))"


section \<open>The invariant of a session\<close>

definition session_wf :: "session \<Rightarrow> bool" where
  "session_wf s \<longleftrightarrow>
     0 \<noteq> se_AuthenticatedAt s \<and> se_AuthenticatedAt s \<le> se_CreatedAt s \<and> se_CreatedAt s < se_IdleExpiresAt s \<and>
     se_IdleExpiresAt s \<le> se_AbsoluteExpiresAt s \<and>
     ResolveLevel (se_AuthenticatedMethods s) = (Inr (se_AuthenticationLevel s) :: ierror + auth_level) \<and>
     distinct (se_Scopes s) \<and>
     (\<forall>t. se_LastSeenAt s = Some t \<longrightarrow> se_AuthenticatedAt s \<le> t \<and> t < se_IdleExpiresAt s) \<and>
     (\<forall>r. se_RevokedAt s = Some r \<longrightarrow> se_AuthenticatedAt s \<le> r \<and>
        (\<forall>t. se_LastSeenAt s = Some t \<longrightarrow> t \<le> r)) \<and>
     (se_RevokedAt s = None \<longleftrightarrow> se_RevokeReason s = None)"

lemma se_latest_le:
  "se_latestChangedAt s \<le> n \<longleftrightarrow>
     se_AuthenticatedAt s \<le> n \<and> (\<forall>t. se_LastSeenAt s = Some t \<longrightarrow> t \<le> n) \<and>
     (\<forall>r. se_RevokedAt s = Some r \<longrightarrow> r \<le> n)"
  unfolding se_latestChangedAt_def latest_le_iff by auto

lemma New_session_ok:
  "New_session k i c l ms ss ip ua dn a id' ab now = Inr s \<Longrightarrow>
     session_wf s \<and> se_CreatedAt s = now \<and> se_RevokedAt s = None \<and> se_IdleExpiresAt s = id' \<and>
     se_AbsoluteExpiresAt s = ab \<and> se_Scopes s = ss \<and> se_IdentityID s = i \<and> se_OAuthClientID s = c \<and>
     se_AuthenticationLevel s = l \<and> se_ID s = k \<and> se_AuthenticatedMethods s = ms"
  by (auto simp: New_session_def session_wf_def split: if_splits sum.splits)

lemma ValidateForUse_ok:
  "ValidateForUse now s = None \<longleftrightarrow>
     now \<noteq> 0 \<and> se_latestChangedAt s \<le> now \<and> se_RevokedAt s = None \<and> now < se_AbsoluteExpiresAt s \<and>
     now < se_IdleExpiresAt s"
  by (auto simp: ValidateForUse_def)

lemma RecordActivity_ok:
  "RecordActivity now e s = (None, s') \<longleftrightarrow>
     ValidateForUse now s = None \<and> now < e \<and> e \<le> se_AbsoluteExpiresAt s \<and>
     s' = s\<lparr>se_LastSeenAt := Some now, se_IdleExpiresAt := max e (se_IdleExpiresAt s)\<rparr>"
  by (auto simp: RecordActivity_def max_def split: option.splits)

lemma RecordActivity_error: "RecordActivity now e s = (Some err, s') \<Longrightarrow> s' = s"
  by (auto simp: RecordActivity_def refuse_def split: option.splits if_splits)

lemma session_Revoke_cases:
  assumes "session_Revoke reason now s = (r, s')"
  shows "r \<noteq> None \<and> s' = s \<or> r = None \<and> se_RevokedAt s \<noteq> None \<and> s' = s \<or>
     r = None \<and> se_RevokedAt s = None \<and> now \<noteq> 0 \<and> se_latestChangedAt s \<le> now \<and>
     s' = s\<lparr>se_RevokedAt := Some now, se_RevokeReason := Some (trim_space reason)\<rparr>"
  using assms
  by (auto simp: session_Revoke_def NormalizeRequiredText_def Let_def split: if_splits)

inductive session_step :: "session \<Rightarrow> session \<Rightarrow> bool" where
  activity: "session_step s (snd (RecordActivity now e s))"
| revoke: "session_step s (snd (session_Revoke reason now s))"

text \<open>What a call can have done to a session.\<close>

lemma session_step_cases:
  assumes "session_step s s'"
  obtains (same) "s' = s"
  | (active) now e where "ValidateForUse now s = None" and "now < e" and "e \<le> se_AbsoluteExpiresAt s"
      and "s' = s\<lparr>se_LastSeenAt := Some now, se_IdleExpiresAt := max e (se_IdleExpiresAt s)\<rparr>"
  | (revoked) now reason where "se_RevokedAt s = None" and "se_latestChangedAt s \<le> now"
      and "s' = s\<lparr>se_RevokedAt := Some now, se_RevokeReason := Some reason\<rparr>"
  using assms
proof cases
  case (activity now e)
  obtain r where R: "RecordActivity now e s = (r, s')" using activity by (metis prod.collapse)
  show ?thesis
  proof (cases r)
    case None
    with R show ?thesis using active by (auto simp: RecordActivity_ok)
  next
    case (Some err)
    with R RecordActivity_error same show ?thesis by blast
  qed
next
  case (revoke reason now)
  obtain r where R: "session_Revoke reason now s = (r, s')" using revoke by (metis prod.collapse)
  from session_Revoke_cases [OF R] same revoked show ?thesis by blast
qed

lemma session_step_wf: "session_step s s' \<Longrightarrow> session_wf s \<Longrightarrow> session_wf s'"
  by (erule session_step_cases) (auto simp: session_wf_def ValidateForUse_ok se_latest_le)

lemma session_steps_wf: "session_step\<^sup>*\<^sup>* s s' \<Longrightarrow> session_wf s \<Longrightarrow> session_wf s'"
  by (induction rule: rtranclp_induct) (auto intro: session_step_wf)

text \<open>What is fixed for good: who and what the session is for, its end, and a revocation.\<close>

definition session_same :: "session \<Rightarrow> session \<Rightarrow> bool" where
  "session_same s s' \<longleftrightarrow>
     se_ID s' = se_ID s \<and> se_IdentityID s' = se_IdentityID s \<and> se_OAuthClientID s' = se_OAuthClientID s \<and>
     se_AuthenticationLevel s' = se_AuthenticationLevel s \<and> se_Scopes s' = se_Scopes s \<and>
     se_AbsoluteExpiresAt s' = se_AbsoluteExpiresAt s \<and> se_IdleExpiresAt s \<le> se_IdleExpiresAt s' \<and>
     (se_RevokedAt s \<noteq> None \<longrightarrow> se_RevokedAt s' = se_RevokedAt s)"

lemma session_steps_same: "session_step\<^sup>*\<^sup>* s s' \<Longrightarrow> session_same s s'"
proof (induction rule: rtranclp_induct)
  case base
  show ?case by (simp add: session_same_def)
next
  case (step t u)
  from step.hyps(2) step.IH show ?case
    by (elim session_step_cases) (auto simp: session_same_def ValidateForUse_ok)
qed

interpretation session_life: lifecycle "\<lambda>s t. session_step s t \<and> t \<noteq> s" "\<lambda>s. se_RevokedAt s \<noteq> None"
  by unfold_locales (auto elim!: session_step_cases simp: ValidateForUse_ok)

end
