(* ===== verification/Identity_Grant.thy ===== *)
theory Identity_Grant
  imports Identity_Client
begin

text \<open>
  What a user has granted to a client, and when a client may go without asking the user again:
  \<open>internal/domain/authorizationgrant\<close>.
\<close>

section \<open>Authorization grants\<close>

datatype grant_source = SourceUserConsent | SourceTrustedClientPolicy | OtherSource string

fun source_String :: "grant_source \<Rightarrow> string" where
  "source_String SourceUserConsent = ''user_consent''"
| "source_String SourceTrustedClientPolicy = ''trusted_client_policy''"
| "source_String (OtherSource s) = s"

definition ParseSource :: "string \<Rightarrow> ierror + grant_source" where
  "ParseSource value =
     (if value = ''user_consent'' then Inr SourceUserConsent
      else if value = ''trusted_client_policy'' then Inr SourceTrustedClientPolicy
      else Inl (Fresh ''unknown authorization grant source''))"

record authorization_grant =
  ag_ID :: uuid
  ag_IdentityID :: uuid
  ag_OAuthClientID :: uuid
  ag_Source :: grant_source
  ag_Scopes :: "string list"
  ag_GrantedAt :: gotime
  ag_UpdatedAt :: gotime
  ag_ExpiresAt :: "gotime option"
  ag_RevokedAt :: "gotime option"

definition validateScopes :: "string list \<Rightarrow> ierror option" where
  "validateScopes scopes =
     (if scopes = [] then Some (Fresh ''at least one authorization scope is required'')
      else if HasDuplicates scopes then Some (Fresh ''authorization scope is duplicated'')
      else if list_ex (\<lambda>s. s = '''') scopes then Some (Fresh ''authorization scope is empty'')
      else None)"

definition New_grant ::
  "uuid \<Rightarrow> uuid \<Rightarrow> uuid \<Rightarrow> grant_source \<Rightarrow> string list \<Rightarrow> gotime option \<Rightarrow> gotime
     \<Rightarrow> ierror + authorization_grant" where
  "New_grant grantID identityID oauthClientID source scopes expiresAt now =
     (if grantID = uuid_nil \<or> identityID = uuid_nil \<or> oauthClientID = uuid_nil
      then Inl (Fresh ''create authorization grant: identifier is invalid'')
      else case ParseSource (source_String source) of
        Inl err \<Rightarrow> Inl (Wrap ''create authorization grant: '' err '''')
      | Inr _ \<Rightarrow>
          (case validateScopes scopes of
             Some err \<Rightarrow> Inl (Wrap ''create authorization grant: '' err '''')
           | None \<Rightarrow>
               if is_zero now \<or> expiresAt \<noteq> None \<and> \<not> after (the expiresAt) now
               then Inl (Fresh ''create authorization grant: expiration is invalid'')
               else Inr \<lparr>ag_ID = grantID, ag_IdentityID = identityID, ag_OAuthClientID = oauthClientID,
                         ag_Source = source, ag_Scopes = scopes, ag_GrantedAt = now, ag_UpdatedAt = now,
                         ag_ExpiresAt = expiresAt, ag_RevokedAt = None\<rparr>))"

definition validateActive :: "gotime \<Rightarrow> authorization_grant \<Rightarrow> ierror option" where
  "validateActive now g =
     (if is_zero now \<or> before now (ag_UpdatedAt g)
      then Some (Fresh ''authorization grant use time is invalid'')
      else if ag_RevokedAt g \<noteq> None then Some (Sentinel (S_grant Grant_ErrRevoked))
      else if ag_ExpiresAt g \<noteq> None \<and> \<not> before now (the (ag_ExpiresAt g))
      then Some (Sentinel (S_grant Grant_ErrExpired))
      else None)"

definition Covers :: "string list \<Rightarrow> gotime \<Rightarrow> authorization_grant \<Rightarrow> bool" where
  "Covers scopes now g \<longleftrightarrow>
     (if validateActive now g \<noteq> None \<or> length scopes = 0 then False
      else list_all (\<lambda>s. s \<in> set (ag_Scopes g)) scopes)"

text \<open>The loop of \<open>Extend\<close> keeps the first occurrence of each scope.\<close>

fun merge_scopes :: "string set \<Rightarrow> string list \<Rightarrow> string list" where
  "merge_scopes seen [] = []"
| "merge_scopes seen (s # ss) =
     (if s \<in> seen then merge_scopes seen ss else s # merge_scopes (insert s seen) ss)"

definition Extend ::
  "string list \<Rightarrow> gotime option \<Rightarrow> gotime \<Rightarrow> authorization_grant \<Rightarrow> ierror option \<times> authorization_grant" where
  "Extend scopes expiresAt now g =
     (case validateActive now g of
        Some err \<Rightarrow> refuse ''extend authorization grant: '' err g
      | None \<Rightarrow>
          (case validateScopes scopes of
             Some err \<Rightarrow> refuse ''extend authorization grant: '' err g
           | None \<Rightarrow>
               if expiresAt \<noteq> None \<and> \<not> after (the expiresAt) now
               then (Some (Fresh ''extend authorization grant: expiration is invalid''), g)
               else (None, g\<lparr>ag_Scopes := merge_scopes {} (ag_Scopes g @ scopes), ag_ExpiresAt := expiresAt,
                              ag_UpdatedAt := now\<rparr>)))"

definition Replace ::
  "grant_source \<Rightarrow> string list \<Rightarrow> gotime option \<Rightarrow> gotime \<Rightarrow> authorization_grant
     \<Rightarrow> ierror option \<times> authorization_grant" where
  "Replace source scopes expiresAt now g =
     (case ParseSource (source_String source) of
        Inl err \<Rightarrow> refuse ''replace authorization grant: '' err g
      | Inr _ \<Rightarrow>
          (case validateScopes scopes of
             Some err \<Rightarrow> refuse ''replace authorization grant: '' err g
           | None \<Rightarrow>
               if is_zero now \<or> before now (ag_UpdatedAt g) \<or> expiresAt \<noteq> None \<and> \<not> after (the expiresAt) now
               then (Some (Fresh ''replace authorization grant: time is invalid''), g)
               else (None, g\<lparr>ag_Source := source, ag_Scopes := scopes, ag_GrantedAt := now, ag_UpdatedAt := now,
                              ag_ExpiresAt := expiresAt, ag_RevokedAt := None\<rparr>)))"

definition grant_Revoke :: "gotime \<Rightarrow> authorization_grant \<Rightarrow> ierror option \<times> authorization_grant" where
  "grant_Revoke now g =
     (if ag_RevokedAt g \<noteq> None then (None, g)
      else if is_zero now \<or> before now (ag_UpdatedAt g)
      then (Some (Fresh ''revoke authorization grant: time is invalid''), g)
      else (None, g\<lparr>ag_RevokedAt := Some now, ag_UpdatedAt := now\<rparr>))"

datatype consent_decision = ConsentRequired | ConsentRememberedGrant | ConsentTrustedClient

record consent =
  cd_Kind :: consent_decision
  cd_Scopes :: "string list"

definition clientAllowsScopes :: "oauth_client \<Rightarrow> string list \<Rightarrow> bool" where
  "clientAllowsScopes client requested \<longleftrightarrow>
     list_all (\<lambda>s. s \<in> set (map sr_Scope (oc_Scopes client))) requested"

definition ResolveConsent ::
  "oauth_client \<Rightarrow> authorization_grant option \<Rightarrow> string list \<Rightarrow> bool \<Rightarrow> gotime \<Rightarrow> ierror + consent" where
  "ResolveConsent client grant requested forceConsent now =
     (case validateScopes requested of
        Some err \<Rightarrow> Inl err
      | None \<Rightarrow>
          if HasDuplicates requested \<or> \<not> clientAllowsScopes client requested
          then Inl (Fresh ''resolve consent: requested scope is not allowed for OAuth client'')
          else if forceConsent \<or> oc_ConsentMode client = ConsentModeRequired
          then Inr \<lparr>cd_Kind = ConsentRequired, cd_Scopes = requested\<rparr>
          else if oc_ConsentMode client = ConsentModeTrusted
          then Inr \<lparr>cd_Kind = ConsentTrustedClient, cd_Scopes = requested\<rparr>
          else if oc_ConsentMode client = ConsentModeRemember \<and>
                  (case grant of Some g \<Rightarrow> Covers requested now g | None \<Rightarrow> False)
          then Inr \<lparr>cd_Kind = ConsentRememberedGrant, cd_Scopes = requested\<rparr>
          else Inr \<lparr>cd_Kind = ConsentRequired, cd_Scopes = requested\<rparr>)"

lemma merge_scopes_set: "set (merge_scopes seen ss) = set ss - seen"
  by (induction seen ss rule: merge_scopes.induct) auto

lemma merge_scopes_distinct: "distinct (merge_scopes seen ss)"
  by (induction seen ss rule: merge_scopes.induct) (auto simp: merge_scopes_set)

lemma validateScopes_ok: "validateScopes ss = None \<longleftrightarrow> ss \<noteq> [] \<and> distinct ss \<and> '''' \<notin> set ss"
  by (auto simp: validateScopes_def list_ex_iff)

definition grant_active :: "gotime \<Rightarrow> authorization_grant \<Rightarrow> bool" where
  "grant_active now g \<longleftrightarrow>
     now \<noteq> 0 \<and> ag_UpdatedAt g \<le> now \<and> ag_RevokedAt g = None \<and> (\<forall>e. ag_ExpiresAt g = Some e \<longrightarrow> now < e)"

lemma validateActive_ok: "validateActive now g = None \<longleftrightarrow> grant_active now g"
  by (auto simp: validateActive_def grant_active_def)

lemma Covers_iff: "Covers ss now g \<longleftrightarrow> grant_active now g \<and> ss \<noteq> [] \<and> set ss \<subseteq> set (ag_Scopes g)"
  unfolding Covers_def validateActive_ok [symmetric] by (auto simp: list_all_iff)

definition grant_wf :: "authorization_grant \<Rightarrow> bool" where
  "grant_wf g \<longleftrightarrow> validateScopes (ag_Scopes g) = None \<and> ag_GrantedAt g \<noteq> 0 \<and> ag_GrantedAt g \<le> ag_UpdatedAt g"

text \<open>
  An extension covers what was granted before and what is granted now; a replacement covers what is
  granted now only, whatever the state of the grant was; a revocation covers nothing. None can fail
  half way.
\<close>

lemma New_grant_ok:
  "New_grant k i c src ss e now = Inr g \<Longrightarrow> grant_wf g \<and> ag_Scopes g = ss \<and> (\<forall>rs. Covers rs now g \<longleftrightarrow> rs \<noteq> [] \<and> set rs \<subseteq> set ss)"
  by (auto simp: New_grant_def grant_wf_def Covers_iff grant_active_def split: if_splits sum.splits option.splits)

lemma Extend_ok:
  assumes "grant_wf g" and "Extend ss e now g = (None, g')"
  shows "grant_wf g' \<and> (\<forall>rs. Covers rs now g' \<longleftrightarrow> rs \<noteq> [] \<and> set rs \<subseteq> set (ag_Scopes g) \<union> set ss)"
proof -
  from assms(2) have o: "grant_active now g" "validateScopes ss = None" "\<forall>x. e = Some x \<longrightarrow> now < x"
    "g' = g\<lparr>ag_Scopes := merge_scopes {} (ag_Scopes g @ ss), ag_ExpiresAt := e, ag_UpdatedAt := now\<rparr>"
    by (auto simp: Extend_def refuse_def validateActive_ok split: option.splits if_splits)
  have s: "set (merge_scopes {} (ag_Scopes g @ ss)) = set (ag_Scopes g) \<union> set ss"
    by (simp add: merge_scopes_set)
  then have "merge_scopes {} (ag_Scopes g @ ss) \<noteq> []"
    using o(2) unfolding validateScopes_ok by (metis set_empty sup_eq_bot_iff)
  with s assms(1) o show ?thesis
    by (simp add: grant_wf_def validateScopes_ok merge_scopes_distinct Covers_iff grant_active_def)
qed

lemma Replace_ok:
  assumes "Replace src ss e now g = (None, g')"
  shows "grant_wf g' \<and> (\<forall>rs. Covers rs now g' \<longleftrightarrow> rs \<noteq> [] \<and> set rs \<subseteq> set ss)"
  using assms
  by (auto simp: Replace_def refuse_def grant_wf_def Covers_iff grant_active_def
      split: option.splits if_splits sum.splits)

lemma grant_Revoke_ok:
  assumes "grant_wf g" and "grant_Revoke now g = (None, g')"
  shows "grant_wf g' \<and> \<not> Covers rs t g'"
  using assms by (auto simp: grant_Revoke_def grant_wf_def Covers_iff grant_active_def split: if_splits)

lemma grant_error:
  "Extend ss e now g = (Some err, g') \<Longrightarrow> g' = g"
  "Replace src ss e now g = (Some err, g') \<Longrightarrow> g' = g"
  "grant_Revoke now g = (Some err, g') \<Longrightarrow> g' = g"
  by (auto simp: Extend_def Replace_def grant_Revoke_def refuse_def split: option.splits if_splits sum.splits)

text \<open>Consent is skipped only for a trusted client, or for one that may remember a grant that covers.\<close>

lemma ResolveConsent_ok:
  "ResolveConsent c g ss forced now = Inr d \<longleftrightarrow>
     validateScopes ss = None \<and> set ss \<subseteq> sr_Scope ` set (oc_Scopes c) \<and> cd_Scopes d = ss \<and>
     cd_Kind d =
       (if \<not> forced \<and> oc_ConsentMode c = ConsentModeTrusted then ConsentTrustedClient
        else if \<not> forced \<and> oc_ConsentMode c = ConsentModeRemember \<and> (\<exists>h. g = Some h \<and> Covers ss now h)
        then ConsentRememberedGrant else ConsentRequired)"
proof -
  have covers: "(case g of Some h \<Rightarrow> Covers ss now h | None \<Rightarrow> False) \<longleftrightarrow> (\<exists>h. g = Some h \<and> Covers ss now h)"
    by (cases g) simp_all
  have allowed: "clientAllowsScopes c ss \<longleftrightarrow> set ss \<subseteq> sr_Scope ` set (oc_Scopes c)"
    by (auto simp: clientAllowsScopes_def list_all_iff)
  have d: "\<lparr>cd_Kind = k, cd_Scopes = ss\<rparr> = d \<longleftrightarrow> cd_Scopes d = ss \<and> cd_Kind d = k" for k
    by (cases d) auto
  show ?thesis
  proof (cases "validateScopes ss")
    case None
    then have "distinct ss" by (simp add: validateScopes_ok)
    with None show ?thesis
      unfolding ResolveConsent_def covers allowed by (cases forced; simp add: d; blast)
  qed (simp add: ResolveConsent_def)
qed

end
