(* ===== verification/Go_Crypto.thy ===== *)
theory Go_Crypto
  imports Prelude "HOL-Library.Word"
begin

text \<open>
  What the sources use of Go's \<open>crypto/sha256\<close> and \<open>encoding/base64\<close>: the digest of FIPS 180-4 over
  32-bit words, and the unpadded URL alphabet, with the decoder's treatment of line breaks. Bytes are
  characters, as everywhere in this library.
\<close>

unbundle bit_operations_syntax

section \<open>SHA-256\<close>

type_synonym word32 = "32 word"

definition rotr :: "nat \<Rightarrow> word32 \<Rightarrow> word32" where
  "rotr n w = drop_bit n w OR push_bit (32 - n) w"

definition sha_K :: "word32 list" where
  "sha_K =
    [0x428a2f98, 0x71374491, 0xb5c0fbcf, 0xe9b5dba5, 0x3956c25b, 0x59f111f1, 0x923f82a4, 0xab1c5ed5,
     0xd807aa98, 0x12835b01, 0x243185be, 0x550c7dc3, 0x72be5d74, 0x80deb1fe, 0x9bdc06a7, 0xc19bf174,
     0xe49b69c1, 0xefbe4786, 0x0fc19dc6, 0x240ca1cc, 0x2de92c6f, 0x4a7484aa, 0x5cb0a9dc, 0x76f988da,
     0x983e5152, 0xa831c66d, 0xb00327c8, 0xbf597fc7, 0xc6e00bf3, 0xd5a79147, 0x06ca6351, 0x14292967,
     0x27b70a85, 0x2e1b2138, 0x4d2c6dfc, 0x53380d13, 0x650a7354, 0x766a0abb, 0x81c2c92e, 0x92722c85,
     0xa2bfe8a1, 0xa81a664b, 0xc24b8b70, 0xc76c51a3, 0xd192e819, 0xd6990624, 0xf40e3585, 0x106aa070,
     0x19a4c116, 0x1e376c08, 0x2748774c, 0x34b0bcb5, 0x391c0cb3, 0x4ed8aa4a, 0x5b9cca4f, 0x682e6ff3,
     0x748f82ee, 0x78a5636f, 0x84c87814, 0x8cc70208, 0x90befffa, 0xa4506ceb, 0xbef9a3f7, 0xc67178f2]"

definition sha_H0 :: "word32 list" where
  "sha_H0 = [0x6a09e667, 0xbb67ae85, 0x3c6ef372, 0xa54ff53a, 0x510e527f, 0x9b05688c, 0x1f83d9ab, 0x5be0cd19]"

text \<open>The message schedule: word \<open>t\<close> from the words \<open>t-2\<close>, \<open>t-7\<close>, \<open>t-15\<close> and \<open>t-16\<close>; the list is kept
  newest first.\<close>

fun sha_schedule :: "nat \<Rightarrow> word32 list \<Rightarrow> word32 list" where
  "sha_schedule 0 ws = ws"
| "sha_schedule (Suc n) ws =
     (let w2 = ws ! 1; w15 = ws ! 14;
          s0 = rotr 7 w15 XOR rotr 18 w15 XOR drop_bit 3 w15;
          s1 = rotr 17 w2 XOR rotr 19 w2 XOR drop_bit 10 w2
      in sha_schedule n ((ws ! 15 + s0 + ws ! 6 + s1) # ws))"

type_synonym sha_state = "word32 \<times> word32 \<times> word32 \<times> word32 \<times> word32 \<times> word32 \<times> word32 \<times> word32"

fun sha_round :: "sha_state \<Rightarrow> word32 \<times> word32 \<Rightarrow> sha_state" where
  "sha_round (a, b, c, d, e, f, g, h) (k, w) =
     (let S1 = rotr 6 e XOR rotr 11 e XOR rotr 25 e;
          ch = (e AND f) XOR (NOT e AND g);
          t1 = h + S1 + ch + k + w;
          S0 = rotr 2 a XOR rotr 13 a XOR rotr 22 a;
          maj = (a AND b) XOR (a AND c) XOR (b AND c)
      in (t1 + (S0 + maj), a, b, c, d + t1, e, f, g))"

fun sha_block :: "sha_state \<Rightarrow> word32 list \<Rightarrow> sha_state" where
  "sha_block (a, b, c, d, e, f, g, h) ws =
     (case foldl sha_round (a, b, c, d, e, f, g, h) (zip sha_K (rev (sha_schedule 48 (rev ws)))) of
        (a', b', c', d', e', f', g', h') \<Rightarrow>
          (a + a', b + b', c + c', d + d', e + e', f + f', g + g', h + h'))"

fun be_word :: "nat list \<Rightarrow> word32" where
  "be_word [x, y, z, u] =
     push_bit 24 (word_of_nat x) + push_bit 16 (word_of_nat y) + push_bit 8 (word_of_nat z) + word_of_nat u"
| "be_word _ = 0"

fun be_words :: "nat list \<Rightarrow> word32 list" where
  "be_words (x # y # z # u # xs) = be_word [x, y, z, u] # be_words xs"
| "be_words _ = []"

text \<open>\<open>n\<close> bytes of a number, the high ones first.\<close>

fun be_bytes :: "nat \<Rightarrow> nat \<Rightarrow> nat list" where
  "be_bytes 0 x = []"
| "be_bytes (Suc n) x = be_bytes n (x div 256) @ [x mod 256]"

definition sha_pad :: "nat list \<Rightarrow> nat list" where
  "sha_pad m = m @ [128] @ replicate ((119 - length m mod 64) mod 64) 0 @ be_bytes 8 (8 * length m)"

fun sha_blocks :: "nat \<Rightarrow> sha_state \<Rightarrow> word32 list \<Rightarrow> sha_state" where
  "sha_blocks 0 st ws = st"
| "sha_blocks (Suc n) st ws = sha_blocks n (sha_block st (take 16 ws)) (drop 16 ws)"

definition word_bytes :: "word32 \<Rightarrow> nat list" where
  "word_bytes w = map unat [drop_bit 24 w, drop_bit 16 w AND 255, drop_bit 8 w AND 255, w AND 255]"

definition sha_digest :: "sha_state \<Rightarrow> nat list" where
  "sha_digest st =
     (case st of (a, b, c, d, e, f, g, h) \<Rightarrow> concat (map word_bytes [a, b, c, d, e, f, g, h]))"

definition sha256_bytes :: "nat list \<Rightarrow> nat list" where
  "sha256_bytes m =
     (let ws = be_words (sha_pad m)
      in sha_digest (sha_blocks (length ws div 16)
           (sha_H0 ! 0, sha_H0 ! 1, sha_H0 ! 2, sha_H0 ! 3, sha_H0 ! 4, sha_H0 ! 5, sha_H0 ! 6, sha_H0 ! 7) ws))"

definition sha256 :: "string \<Rightarrow> string" where
  "sha256 s = map char_of (sha256_bytes (map of_char s))"

lemma sha256_length [simp]: "length (sha256 s) = 32"
  by (simp add: sha256_def sha256_bytes_def sha_digest_def word_bytes_def Let_def split: prod.splits)


section \<open>Unpadded base64url\<close>

definition base64url_alphabet :: string where
  "base64url_alphabet = ''ABCDEFGHIJKLMNOPQRSTUVWXYZabcdefghijklmnopqrstuvwxyz0123456789-_''"

definition sextet_char :: "nat \<Rightarrow> char" where
  "sextet_char n = base64url_alphabet ! (n mod 64)"

fun encode_bytes :: "nat list \<Rightarrow> nat list" where
  "encode_bytes (x # y # z # xs) =
     [x div 4, x mod 4 * 16 + y div 16, y mod 16 * 4 + z div 64, z mod 64] @ encode_bytes xs"
| "encode_bytes [x, y] = [x div 4, x mod 4 * 16 + y div 16, y mod 16 * 4]"
| "encode_bytes [x] = [x div 4, x mod 4 * 16]"
| "encode_bytes [] = []"

definition EncodeToString :: "string \<Rightarrow> string" where
  "EncodeToString s = map sextet_char (encode_bytes (map of_char s))"

fun position :: "'a \<Rightarrow> 'a list \<Rightarrow> nat option" where
  "position x [] = None"
| "position x (y # ys) = (if x = y then Some 0 else map_option Suc (position x ys))"

text \<open>The bits a short last group leaves over are dropped, whatever they are.\<close>

fun decode_sextets :: "nat list \<Rightarrow> nat list option" where
  "decode_sextets (a # b # c # d # xs) =
     map_option ((@) [a * 4 + b div 16, b mod 16 * 16 + c div 4, c mod 4 * 64 + d]) (decode_sextets xs)"
| "decode_sextets [a, b, c] = Some [a * 4 + b div 16, b mod 16 * 16 + c div 4]"
| "decode_sextets [a, b] = Some [a * 4 + b div 16]"
| "decode_sextets [a] = None"
| "decode_sextets [] = Some []"

text \<open>\<open>DecodeString\<close> skips carriage returns and line feeds and refuses any other foreign character.\<close>

definition DecodeString :: "string \<Rightarrow> string option" where
  "DecodeString s =
     (let ps = map (\<lambda>c. position c base64url_alphabet) (List.filter (\<lambda>c. c \<noteq> CHR 0x0A \<and> c \<noteq> CHR 0x0D) s)
      in if None \<in> set ps then None else map_option (map char_of) (decode_sextets (map the ps)))"

lemma encode_bytes_small: "\<forall>x \<in> set xs. x < 256 \<Longrightarrow> \<forall>n \<in> set (encode_bytes xs). n < 64"
proof (induction xs rule: encode_bytes.induct)
  case (1 x y z xs)
  then have "x < 256" "y < 256" "z < 256" by simp_all
  with 1 show ?case by auto
qed auto

lemma decode_encode: "\<forall>x \<in> set xs. x < 256 \<Longrightarrow> decode_sextets (encode_bytes xs) = Some xs"
proof (induction xs rule: encode_bytes.induct)
  case (1 x y z xs)
  then have "x < 256" "y < 256" "z < 256" by simp_all
  moreover have "decode_sextets (encode_bytes xs) = Some xs" using 1 by simp
  ultimately show ?case by simp
next
  case (2 x y)
  then have "y < 16 * 16" by simp
  then have "y div 16 < 16" by (simp only: less_mult_imp_div_less)
  then have "y div 16 mod 16 = y div 16" "y div 16 div 16 = 0" by simp_all
  with 2 show ?case by simp
next
  case (3 x)
  then show ?case by simp
qed simp

lemma position_ok: "distinct ys \<Longrightarrow> n < length ys \<Longrightarrow> position (ys ! n) ys = Some n"
  by (induction ys arbitrary: n) (auto simp: nth_Cons' nth_mem Suc_diff_Suc split: if_splits)

lemma alphabet: "distinct base64url_alphabet" "length base64url_alphabet = 64"
  "CHR 0x0A \<notin> set base64url_alphabet" "CHR 0x0D \<notin> set base64url_alphabet"
  by (simp_all add: base64url_alphabet_def)

lemma sextet_position: "n < 64 \<Longrightarrow> position (sextet_char n) base64url_alphabet = Some n"
  by (simp add: sextet_char_def position_ok alphabet)

lemma sextet_in: "sextet_char n \<in> set base64url_alphabet"
  by (simp add: sextet_char_def alphabet)

lemma sextet_line: "sextet_char n \<noteq> CHR 0x0A \<and> sextet_char n \<noteq> CHR 0x0D"
  using sextet_in [of n] alphabet by metis

text \<open>Decoding an encoded string gives the string.\<close>

lemma base64_roundtrip: "DecodeString (EncodeToString s) = Some s"
proof -
  let ?xs = "map of_char s :: nat list"
  have small: "\<forall>x \<in> set ?xs. x < 256" by auto
  note sm = encode_bytes_small [OF small]
  have filt: "List.filter (\<lambda>c. c \<noteq> CHR 0x0A \<and> c \<noteq> CHR 0x0D) (map sextet_char ns) = map sextet_char ns" for ns
    by (induction ns) (simp_all add: sextet_line)
  have pos: "map (\<lambda>c. position c base64url_alphabet) (map sextet_char ns) = map Some ns"
    if "\<forall>n \<in> set ns. n < 64" for ns
    using that by (induction ns) (simp_all add: sextet_position)
  have the: "map the (map Some ns) = ns" for ns :: "nat list" by (induction ns) simp_all
  show ?thesis
    unfolding DecodeString_def EncodeToString_def filt pos [OF sm] Let_def the decode_encode [OF small]
    by (auto simp: comp_def)
qed

lemma EncodeToString_inj: "EncodeToString s = EncodeToString t \<Longrightarrow> s = t"
  using base64_roundtrip by (metis option.inject)

end
