(* ===== verification/Identity_OAuth.thy ===== *)
theory Identity_OAuth
  imports Identity_Common Go_Crypto
begin

text \<open>
  The value types of the OAuth and OpenID Connect flows, \<open>internal/domain/oauth\<close> and
  \<open>internal/domain/openidconnect\<close>, and the authorization code, \<open>internal/domain/authorizationcode\<close>.
\<close>

section \<open>Scopes and PKCE\<close>

definition NewScope :: "string \<Rightarrow> ierror + string" where
  "NewScope value =
     (case NormalizeToken value of (value, ok) \<Rightarrow>
        if \<not> ok then Inl (Fresh ''OAuth scope must be a non-empty token'') else Inr value)"

definition NewCodeChallenge :: "string \<Rightarrow> ierror + string" where
  "NewCodeChallenge value =
     (case DecodeString value of
        None \<Rightarrow> Inl (Fresh ''PKCE code challenge must be a canonical base64url-encoded SHA-256 value'')
      | Some decoded \<Rightarrow>
          if length decoded \<noteq> 32 \<or> EncodeToString decoded \<noteq> value
          then Inl (Fresh ''PKCE code challenge must be a canonical base64url-encoded SHA-256 value'')
          else Inr value)"

datatype challenge_method = CodeChallengeMethodS256 | OtherChallengeMethod string

definition ParseCodeChallengeMethod :: "string \<Rightarrow> ierror + challenge_method" where
  "ParseCodeChallengeMethod value =
     (if value \<noteq> ''S256'' then Inl (Fresh ''unsupported PKCE code challenge method'')
      else Inr CodeChallengeMethodS256)"

text \<open>
  The loop of \<open>NewCodeVerifier\<close> runs over the runes of the string; a byte above 127 belongs to a rune
  above 127, which is not unreserved, so the test of the bytes is the same.
\<close>

definition isPKCEUnreserved :: "char \<Rightarrow> bool" where
  "isPKCEUnreserved ch =
     (let c = of_char ch :: nat
      in 97 \<le> c \<and> c \<le> 122 \<or> 65 \<le> c \<and> c \<le> 90 \<or> 48 \<le> c \<and> c \<le> 57 \<or>
         ch = CHR ''-'' \<or> ch = CHR ''.'' \<or> ch = CHR ''_'' \<or> ch = CHR ''~'')"

definition NewCodeVerifier :: "string \<Rightarrow> ierror + string" where
  "NewCodeVerifier value =
     (if length value < 43 \<or> length value > 128
      then Inl (Fresh ''PKCE code verifier length must be between 43 and 128 characters'')
      else if list_ex (\<lambda>c. \<not> isPKCEUnreserved c) value
      then Inl (Fresh ''PKCE code verifier contains an invalid character'')
      else Inr value)"

record pkce =
  pk_Challenge :: string
  pk_Method :: challenge_method

definition NewPKCE :: "string option \<Rightarrow> string option \<Rightarrow> ierror + pkce option" where
  "NewPKCE rawChallenge rawMethod =
     (case (rawChallenge, rawMethod) of
        (None, None) \<Rightarrow> Inr None
      | (None, Some _) \<Rightarrow> Inl (Fresh ''PKCE code challenge is required when method is specified'')
      | (Some _, None) \<Rightarrow> Inl (Fresh ''PKCE code challenge method S256 is required'')
      | (Some c, Some m) \<Rightarrow>
          (case NewCodeChallenge c of
             Inl err \<Rightarrow> Inl err
           | Inr challenge \<Rightarrow>
               (case ParseCodeChallengeMethod m of
                  Inl err \<Rightarrow> Inl err
                | Inr method \<Rightarrow> Inr (Some \<lparr>pk_Challenge = challenge, pk_Method = method\<rparr>))))"

definition Verify :: "string \<Rightarrow> pkce \<Rightarrow> bool" where
  "Verify verifier p = (EncodeToString (sha256 verifier) = pk_Challenge p)"

definition NewNonce :: "string \<Rightarrow> ierror + string" where
  "NewNonce value =
     (if value = '''' then Inl (Fresh ''OpenID Connect nonce is required'')
      else if length value > 2048 then Inl (Fresh ''OpenID Connect nonce exceeds 2048 bytes'')
      else Inr value)"

lemma NewCodeChallenge_iff:
  "NewCodeChallenge v = Inr w \<longleftrightarrow> w = v \<and> (\<exists>d. length d = 32 \<and> v = EncodeToString d)"
  by (auto simp: NewCodeChallenge_def base64_roundtrip split: option.splits if_splits)

lemma challenge_of_verifier: "NewCodeChallenge (EncodeToString (sha256 v)) = Inr (EncodeToString (sha256 v))"
  by (simp add: NewCodeChallenge_iff) (metis sha256_length)

text \<open>The challenge of a verifier is accepted, and only its digest is the challenge of a verifier.\<close>

lemma NewPKCE_of_verifier:
  "NewPKCE (Some (EncodeToString (sha256 v))) (Some ''S256'') =
     Inr (Some \<lparr>pk_Challenge = EncodeToString (sha256 v), pk_Method = CodeChallengeMethodS256\<rparr>)"
  by (simp add: NewPKCE_def challenge_of_verifier ParseCodeChallengeMethod_def)

lemma NewPKCE_Some:
  "NewPKCE c m = Inr (Some p) \<Longrightarrow>
     c = Some (pk_Challenge p) \<and> m = Some ''S256'' \<and> pk_Method p = CodeChallengeMethodS256 \<and>
     (\<exists>d. length d = 32 \<and> pk_Challenge p = EncodeToString d)"
  by (auto simp: NewPKCE_def NewCodeChallenge_iff ParseCodeChallengeMethod_def
      split: option.splits sum.splits if_splits)

lemma Verify_iff:
  "DecodeString (pk_Challenge p) = Some d \<Longrightarrow> EncodeToString d = pk_Challenge p \<Longrightarrow>
     Verify v p \<longleftrightarrow> sha256 v = d"
  unfolding Verify_def by (metis EncodeToString_inj)


section \<open>Authorization codes\<close>

definition NewHash :: "string \<Rightarrow> ierror + string" where
  "NewHash value =
     (if \<not> HasText value then Inl (Fresh ''authorization code hash is required'') else Inr value)"

record authorization_code =
  ac_Hash :: string
  ac_OAuthClientID :: uuid
  ac_IdentityID :: uuid
  ac_RedirectURI :: string
  ac_Scopes :: "string list"
  ac_Nonce :: "string option"
  ac_PKCE :: "pkce option"
  ac_AuthenticationLevel :: auth_level
  ac_AuthenticatedMethods :: "auth_method list"
  ac_AuthenticatedAt :: gotime
  ac_IssuedAt :: gotime
  ac_ExpiresAt :: gotime

definition ac_ensureIssuable :: "authorization_code \<Rightarrow> ierror option" where
  "ac_ensureIssuable c =
     (if ac_OAuthClientID c = uuid_nil
      then Some (Fresh ''authorization code OAuth client identifier is invalid'')
      else if ac_IdentityID c = uuid_nil
      then Some (Fresh ''authorization code identity identifier is invalid'')
      else case ResolveLevel (ac_AuthenticatedMethods c) of
        Inl err \<Rightarrow> Some (Wrap ''authorization code authentication snapshot is invalid: '' err '''')
      | Inr resolvedLevel \<Rightarrow>
          if \<not> level_IsValid (ac_AuthenticationLevel c) \<or> ac_AuthenticationLevel c \<noteq> resolvedLevel
          then Some (Fresh ''authorization code authentication level does not match methods'')
          else if HasDuplicates (ac_Scopes c)
          then Some (Fresh ''authorization code scope is duplicated'')
          else if is_zero (ac_AuthenticatedAt c) \<or> before (ac_IssuedAt c) (ac_AuthenticatedAt c)
          then Some (Fresh ''authorization code authentication time is invalid'')
          else if is_zero (ac_IssuedAt c) \<or> \<not> after (ac_ExpiresAt c) (ac_IssuedAt c)
          then Some (Fresh ''authorization code expiration state is invalid'')
          else None)"

definition New_code ::
  "string \<Rightarrow> uuid \<Rightarrow> string \<Rightarrow> uuid \<Rightarrow> auth_level \<Rightarrow> auth_method list \<Rightarrow> string list \<Rightarrow> string option
     \<Rightarrow> pkce option \<Rightarrow> gotime \<Rightarrow> gotime \<Rightarrow> gotime \<Rightarrow> ierror + authorization_code" where
  "New_code hash oauthClientID redirectURI identityID level methods scopes nonce p authenticatedAt
     expiresAt now =
     (let entity = \<lparr>ac_Hash = hash, ac_OAuthClientID = oauthClientID, ac_IdentityID = identityID,
                    ac_RedirectURI = redirectURI, ac_Scopes = scopes, ac_Nonce = nonce, ac_PKCE = p,
                    ac_AuthenticationLevel = level, ac_AuthenticatedMethods = methods,
                    ac_AuthenticatedAt = authenticatedAt, ac_IssuedAt = now, ac_ExpiresAt = expiresAt\<rparr>
      in case ac_ensureIssuable entity of
           Some err \<Rightarrow> Inl (Wrap ''create authorization code: '' err '''')
         | None \<Rightarrow> Inr entity)"

abbreviation (input) exchange_error :: "code_sentinel \<Rightarrow> ierror option" where
  "exchange_error s \<equiv> Some (Wrap ''validate authorization code for exchange: '' (Sentinel (S_code s)) '''')"

definition ValidateForExchange ::
  "uuid \<Rightarrow> string \<Rightarrow> string option \<Rightarrow> gotime \<Rightarrow> authorization_code \<Rightarrow> ierror option" where
  "ValidateForExchange oauthClientID redirectURI verifier now c =
     (if is_zero now \<or> before now (ac_IssuedAt c)
      then Some (Fresh ''validate authorization code for exchange: time is invalid'')
      else if \<not> before now (ac_ExpiresAt c) then exchange_error Code_ErrExpired
      else if oauthClientID \<noteq> ac_OAuthClientID c then exchange_error Code_ErrOAuthClientMismatch
      else if redirectURI \<noteq> ac_RedirectURI c then exchange_error Code_ErrRedirectURIMismatch
      else case ac_PKCE c of
        None \<Rightarrow> None
      | Some p \<Rightarrow>
          (case verifier of
             None \<Rightarrow> exchange_error Code_ErrPKCERequired
           | Some v \<Rightarrow> if \<not> Verify v p then exchange_error Code_ErrPKCEVerificationFailed else None))"

lemma New_code_ok:
  "New_code hash k u i l ms ss n p a e now = Inr c \<longleftrightarrow>
     k \<noteq> uuid_nil \<and> i \<noteq> uuid_nil \<and> ResolveLevel ms = (Inr l :: ierror + auth_level) \<and> distinct ss \<and>
     a \<noteq> 0 \<and> now \<noteq> 0 \<and> a \<le> now \<and> now < e \<and>
     c = \<lparr>ac_Hash = hash, ac_OAuthClientID = k, ac_IdentityID = i, ac_RedirectURI = u, ac_Scopes = ss,
          ac_Nonce = n, ac_PKCE = p, ac_AuthenticationLevel = l, ac_AuthenticatedMethods = ms,
          ac_AuthenticatedAt = a, ac_IssuedAt = now, ac_ExpiresAt = e\<rparr>"
  by (auto simp: New_code_def ac_ensureIssuable_def Let_def dest: ResolveLevel_valid
      split: sum.splits if_splits)

text \<open>
  A code is exchanged exactly by its client, for its redirect URI, in its lifetime, and with the
  verifier its challenge is the digest of, if it has one.
\<close>

lemma ValidateForExchange_ok:
  "ValidateForExchange k u v now c = None \<longleftrightarrow>
     now \<noteq> 0 \<and> ac_IssuedAt c \<le> now \<and> now < ac_ExpiresAt c \<and> k = ac_OAuthClientID c \<and>
     u = ac_RedirectURI c \<and>
     (\<forall>p. ac_PKCE c = Some p \<longrightarrow> (\<exists>w. v = Some w \<and> EncodeToString (sha256 w) = pk_Challenge p))"
  by (auto simp: ValidateForExchange_def Verify_def split: option.splits)

end
