(* ===== verification/Identity_Transaction.thy ===== *)
theory Identity_Transaction
  imports Identity_OAuth
begin

text \<open>
  The authorization transaction, \<open>internal/domain/authorizationtransaction\<close>: one attempt of a user to
  authorize an OAuth client, a state machine that leads through the authentication steps to consent.
\<close>

section \<open>Types\<close>

text \<open>The enumerations are strings in the code; the last constructor is any other string.\<close>

datatype txn_status = StatusPending | StatusReady | StatusCompleted | StatusDenied | OtherStatus string

definition ParseStatus :: "string \<Rightarrow> ierror + txn_status" where
  "ParseStatus value =
     (if value = ''pending'' then Inr StatusPending
      else if value = ''ready'' then Inr StatusReady
      else if value = ''completed'' then Inr StatusCompleted
      else if value = ''denied'' then Inr StatusDenied
      else Inl (Fresh ''unknown authorization transaction status''))"

datatype authorization_source =
  AuthorizationSourceUserConsent | AuthorizationSourceRememberedGrant | AuthorizationSourceTrustedClient
| OtherAuthorizationSource string

definition ParseAuthorizationSource :: "string \<Rightarrow> ierror + authorization_source" where
  "ParseAuthorizationSource value =
     (if value = ''user_consent'' then Inr AuthorizationSourceUserConsent
      else if value = ''remembered_grant'' then Inr AuthorizationSourceRememberedGrant
      else if value = ''trusted_client'' then Inr AuthorizationSourceTrustedClient
      else Inl (Fresh ''unknown authorization source''))"

datatype verification_channel =
  VerificationChannelEmail | VerificationChannelPhone | OtherVerificationChannel string

fun channel_String :: "verification_channel \<Rightarrow> string" where
  "channel_String VerificationChannelEmail = ''email''"
| "channel_String VerificationChannelPhone = ''phone''"
| "channel_String (OtherVerificationChannel s) = s"

definition ParseVerificationChannel :: "string \<Rightarrow> ierror + verification_channel" where
  "ParseVerificationChannel value =
     (if value = ''email'' then Inr VerificationChannelEmail
      else if value = ''phone'' then Inr VerificationChannelPhone
      else Inl (Fresh ''unknown verification channel''))"

record verification_reference =
  vr_Channel :: verification_channel
  vr_ContactID :: uuid
  vr_ChallengeID :: uuid
  vr_ExpiresAt :: gotime

definition NewVerificationReference ::
  "verification_channel \<Rightarrow> uuid \<Rightarrow> uuid \<Rightarrow> gotime \<Rightarrow> ierror + verification_reference" where
  "NewVerificationReference channel contactID challengeID expiresAt =
     (case ParseVerificationChannel (channel_String channel) of
        Inl err \<Rightarrow> Inl (Wrap ''create verification reference: '' err '''')
      | Inr _ \<Rightarrow>
          if contactID = uuid_nil
          then Inl (Fresh ''create verification reference: contact identifier is required'')
          else if challengeID = uuid_nil
          then Inl (Fresh ''create verification reference: challenge identifier is required'')
          else if is_zero expiresAt
          then Inl (Fresh ''create verification reference: expiration is required'')
          else Inr \<lparr>vr_Channel = channel, vr_ContactID = contactID, vr_ChallengeID = challengeID,
                    vr_ExpiresAt = expiresAt\<rparr>)"

definition NewState :: "string \<Rightarrow> ierror + string" where
  "NewState value =
     (if value = '''' then Inl (Fresh ''OAuth state is required'')
      else if length value > 2048 then Inl (Fresh ''OAuth state exceeds 2048 bytes'')
      else Inr value)"

datatype next_step =
  NextStepChooseAuthenticationMethod | NextStepPasswordChange | NextStepEmailVerification
| NextStepPhoneVerification | NextStepMFAEnrollment | NextStepMFA | NextStepConsent | NextStepReady
| NoNextStep | OtherNextStep string

definition CanTransitionTo :: "next_step \<Rightarrow> next_step \<Rightarrow> bool" where
  "CanTransitionTo s n =
     (case s of
        NextStepChooseAuthenticationMethod \<Rightarrow>
          n = NextStepPasswordChange \<or> n = NextStepEmailVerification \<or> n = NextStepPhoneVerification \<or>
          n = NextStepMFAEnrollment \<or> n = NextStepMFA \<or> n = NextStepConsent
      | NextStepPasswordChange \<Rightarrow>
          n = NextStepEmailVerification \<or> n = NextStepPhoneVerification \<or> n = NextStepMFAEnrollment \<or>
          n = NextStepMFA \<or> n = NextStepConsent
      | NextStepEmailVerification \<Rightarrow>
          n = NextStepPhoneVerification \<or> n = NextStepMFAEnrollment \<or> n = NextStepMFA \<or> n = NextStepConsent
      | NextStepPhoneVerification \<Rightarrow> n = NextStepMFAEnrollment \<or> n = NextStepMFA \<or> n = NextStepConsent
      | NextStepMFAEnrollment \<Rightarrow> n = NextStepConsent
      | NextStepMFA \<Rightarrow> n = NextStepConsent
      | NextStepConsent \<Rightarrow> n = NextStepReady
      | _ \<Rightarrow> False)"


section \<open>The transaction\<close>

record transaction =
  at_ID :: uuid
  at_OAuthClientID :: uuid
  at_RedirectURI :: string
  at_RequestedScopes :: "string list"
  at_State :: "string option"
  at_Nonce :: "string option"
  at_PKCE :: "pkce option"
  at_Status :: txn_status
  at_NextStep :: next_step
  at_IdentityID :: "uuid option"
  at_AuthenticationLevel :: "auth_level option"
  at_AuthenticatedMethods :: "auth_method list"
  at_GrantedScopes :: "string list"
  at_AuthorizationSource :: "authorization_source option"
  at_Verification :: "verification_reference option"
  at_AuthenticatedAt :: "gotime option"
  at_ExpiresAt :: gotime

definition New_transaction ::
  "uuid \<Rightarrow> uuid \<Rightarrow> string \<Rightarrow> string list \<Rightarrow> string option \<Rightarrow> string option \<Rightarrow> bool \<Rightarrow> pkce option \<Rightarrow> gotime
     \<Rightarrow> gotime \<Rightarrow> ierror + transaction" where
  "New_transaction txnID oauthClientID redirectURI requestedScopes state nonce requirePKCE p expiresAt now =
     (if requirePKCE \<and> p = None
      then Inl (Wrap ''create authorization transaction: '' (Sentinel (S_tra Tra_ErrPKCERequired)) '''')
      else if txnID = uuid_nil then Inl (Fresh ''create authorization transaction: identifier is required'')
      else if oauthClientID = uuid_nil
      then Inl (Fresh ''create authorization transaction: OAuth client identifier is invalid'')
      else if HasDuplicates requestedScopes
      then Inl (Fresh ''create authorization transaction: requested scope is duplicated'')
      else if is_zero now \<or> \<not> after expiresAt now
      then Inl (Fresh ''create authorization transaction: expiration is invalid'')
      else Inr \<lparr>at_ID = txnID, at_OAuthClientID = oauthClientID, at_RedirectURI = redirectURI,
                at_RequestedScopes = requestedScopes, at_State = state, at_Nonce = nonce, at_PKCE = p,
                at_Status = StatusPending, at_NextStep = NextStepChooseAuthenticationMethod,
                at_IdentityID = None, at_AuthenticationLevel = None, at_AuthenticatedMethods = [],
                at_GrantedScopes = [], at_AuthorizationSource = None, at_Verification = None,
                at_AuthenticatedAt = None, at_ExpiresAt = expiresAt\<rparr>)"

definition at_ensureChangeAllowed :: "gotime \<Rightarrow> transaction \<Rightarrow> ierror option" where
  "at_ensureChangeAllowed now t =
     (if is_zero now then Some (Fresh ''validate authorization transaction for change: time is invalid'')
      else if \<not> before now (at_ExpiresAt t)
      then Some (Wrap ''validate authorization transaction for change: '' (Sentinel (S_tra Tra_ErrExpired)) '''')
      else None)"

definition ensureGrantedScopesAllowed :: "string list \<Rightarrow> transaction \<Rightarrow> ierror option" where
  "ensureGrantedScopesAllowed granted t =
     (if HasDuplicates granted then Some (Fresh ''granted authorization scope is duplicated'')
      else if list_ex (\<lambda>s. s \<notin> set (at_RequestedScopes t)) granted
      then Some (Fresh ''granted scope was not requested'')
      else None)"

definition transitionTo :: "next_step \<Rightarrow> transaction \<Rightarrow> ierror option \<times> transaction" where
  "transitionTo step t =
     (if at_Status t \<noteq> StatusPending then (Some (Sentinel (S_tra Tra_ErrInvalidStatus)), t)
      else if \<not> CanTransitionTo (at_NextStep t) step then (Some (Sentinel (S_tra Tra_ErrInvalidStep)), t)
      else (None, t\<lparr>at_NextStep := step\<rparr>))"

definition finish_txn :: "txn_status \<Rightarrow> transaction \<Rightarrow> transaction" where
  "finish_txn status t = t\<lparr>at_Status := status, at_NextStep := NoNextStep, at_Verification := None\<rparr>"

definition AuthorizeScopes ::
  "string list \<Rightarrow> authorization_source \<Rightarrow> gotime \<Rightarrow> transaction \<Rightarrow> ierror option \<times> transaction" where
  "AuthorizeScopes grantedScopes source now t =
     (case at_ensureChangeAllowed now t of
        Some err \<Rightarrow> refuse ''authorize transaction scopes: '' err t
      | None \<Rightarrow>
          if at_Status t \<noteq> StatusPending \<or> at_NextStep t \<noteq> NextStepConsent \<or> at_AuthenticationLevel t = None
          then refuse ''authorize transaction scopes: '' (Sentinel (S_tra Tra_ErrInvalidStatus)) t
          else if grantedScopes = []
          then (Some (Fresh ''authorize transaction scopes: at least one scope is required''), t)
          else case ensureGrantedScopesAllowed grantedScopes t of
            Some err \<Rightarrow> refuse ''authorize transaction scopes: '' err t
          | None \<Rightarrow>
              (case transitionTo NextStepReady t of
                 (Some err, t) \<Rightarrow> refuse ''authorize transaction scopes: '' err t
               | (None, t) \<Rightarrow>
                   (None, t\<lparr>at_GrantedScopes := grantedScopes, at_AuthorizationSource := Some source,
                            at_Status := StatusReady\<rparr>)))"

definition txn_Complete :: "gotime \<Rightarrow> transaction \<Rightarrow> ierror option \<times> transaction" where
  "txn_Complete now t =
     (case at_ensureChangeAllowed now t of
        Some err \<Rightarrow> refuse ''complete authorization transaction: '' err t
      | None \<Rightarrow>
          if at_Status t \<noteq> StatusReady \<or> at_NextStep t \<noteq> NextStepReady
          then refuse ''complete authorization transaction: '' (Sentinel (S_tra Tra_ErrInvalidStatus)) t
          else if at_IdentityID t = None \<or> at_AuthenticationLevel t = None \<or> at_AuthenticatedAt t = None
          then (Some (Fresh ''complete authorization transaction: completed transaction authentication snapshot is missing''), t)
          else (None, finish_txn StatusCompleted t))"

definition txn_Deny :: "gotime \<Rightarrow> transaction \<Rightarrow> ierror option \<times> transaction" where
  "txn_Deny now t =
     (case at_ensureChangeAllowed now t of
        Some err \<Rightarrow> refuse ''deny authorization transaction: '' err t
      | None \<Rightarrow>
          if at_Status t \<noteq> StatusPending
          then refuse ''deny authorization transaction: '' (Sentinel (S_tra Tra_ErrInvalidStatus)) t
          else (None, finish_txn StatusDenied t))"


section \<open>Authentication\<close>

definition resolveAuthenticationCompletion ::
  "auth_method list \<Rightarrow> next_step \<Rightarrow> ierror + auth_level option" where
  "resolveAuthenticationCompletion methods nextStep =
     (if nextStep \<noteq> NextStepConsent then Inr None
      else case ResolveLevel methods of Inl err \<Rightarrow> Inl err | Inr level \<Rightarrow> Inr (Some level))"

definition completeAuthentication :: "auth_level option \<Rightarrow> gotime \<Rightarrow> transaction \<Rightarrow> transaction" where
  "completeAuthentication level now t =
     (if level = None then t else t\<lparr>at_AuthenticationLevel := level, at_AuthenticatedAt := Some now\<rparr>)"

definition applyAuthentication ::
  "next_step \<Rightarrow> uuid \<Rightarrow> auth_method \<Rightarrow> next_step \<Rightarrow> gotime \<Rightarrow> transaction \<Rightarrow> ierror option \<times> transaction" where
  "applyAuthentication currentStep identityID method nextStep now t =
     (case at_ensureChangeAllowed now t of
        Some err \<Rightarrow> (Some err, t)
      | None \<Rightarrow>
          if at_Status t \<noteq> StatusPending then (Some (Sentinel (S_tra Tra_ErrInvalidStatus)), t)
          else if at_NextStep t \<noteq> currentStep \<or> at_AuthenticationLevel t \<noteq> None
          then (Some (Sentinel (S_tra Tra_ErrInvalidStep)), t)
          else if identityID = uuid_nil then (Some (Fresh ''identity identifier is invalid''), t)
          else if \<not> method_IsValid method then (Some (Fresh ''authentication method is invalid''), t)
          else if at_IdentityID t \<noteq> None \<and> at_IdentityID t \<noteq> Some identityID
          then (Some (Sentinel (S_tra Tra_ErrIdentityMismatch)), t)
          else if method \<in> set (at_AuthenticatedMethods t)
          then (Some (Fresh ''authentication method is duplicated''), t)
          else let methods = at_AuthenticatedMethods t @ [method]
          in case resolveAuthenticationCompletion methods nextStep of
            Inl err \<Rightarrow> (Some err, t)
          | Inr level \<Rightarrow>
              (case transitionTo nextStep t of
                 (Some err, t) \<Rightarrow> (Some err, t)
               | (None, t) \<Rightarrow>
                   (None, completeAuthentication level now
                            (t\<lparr>at_IdentityID := Some identityID, at_AuthenticatedMethods := methods\<rparr>))))"

text \<open>The wrapping of a method's error, \<open>if err := ...; err != nil { return fmt.Errorf(...) }\<close>.\<close>

definition wrap_error :: "string \<Rightarrow> ierror option \<times> 'a \<Rightarrow> ierror option \<times> 'a" where
  "wrap_error msg r = (case r of (Some err, t) \<Rightarrow> (Some (Wrap msg err ''''), t) | (None, t) \<Rightarrow> (None, t))"

definition CompletePrimaryAuthentication ::
  "uuid \<Rightarrow> auth_method \<Rightarrow> next_step \<Rightarrow> gotime \<Rightarrow> transaction \<Rightarrow> ierror option \<times> transaction" where
  "CompletePrimaryAuthentication identityID method nextStep now t =
     wrap_error ''complete primary authentication in authorization transaction: ''
       (applyAuthentication NextStepChooseAuthenticationMethod identityID method nextStep now t)"

definition CompleteMFA :: "uuid \<Rightarrow> auth_method \<Rightarrow> gotime \<Rightarrow> transaction \<Rightarrow> ierror option \<times> transaction" where
  "CompleteMFA identityID method now t =
     wrap_error ''complete MFA in authorization transaction: ''
       (applyAuthentication NextStepMFA identityID method NextStepConsent now t)"

definition completeRequiredStep ::
  "next_step \<Rightarrow> next_step \<Rightarrow> gotime \<Rightarrow> transaction \<Rightarrow> ierror option \<times> transaction" where
  "completeRequiredStep currentStep nextStep now t =
     (case at_ensureChangeAllowed now t of
        Some err \<Rightarrow> (Some err, t)
      | None \<Rightarrow>
          if at_Status t \<noteq> StatusPending then (Some (Sentinel (S_tra Tra_ErrInvalidStatus)), t)
          else if at_NextStep t \<noteq> currentStep \<or> at_AuthenticationLevel t \<noteq> None \<or> at_IdentityID t = None
          then (Some (Sentinel (S_tra Tra_ErrInvalidStep)), t)
          else case resolveAuthenticationCompletion (at_AuthenticatedMethods t) nextStep of
            Inl err \<Rightarrow> (Some err, t)
          | Inr level \<Rightarrow>
              (case transitionTo nextStep t of
                 (Some err, t) \<Rightarrow> (Some err, t)
               | (None, t) \<Rightarrow> (None, completeAuthentication level now t)))"

definition CompletePasswordChange :: "next_step \<Rightarrow> gotime \<Rightarrow> transaction \<Rightarrow> ierror option \<times> transaction" where
  "CompletePasswordChange nextStep now t =
     wrap_error ''complete authorization transaction password change: ''
       (completeRequiredStep NextStepPasswordChange nextStep now t)"

definition SkipMFAEnrollment :: "gotime \<Rightarrow> transaction \<Rightarrow> ierror option \<times> transaction" where
  "SkipMFAEnrollment now t =
     wrap_error ''skip MFA enrollment: '' (completeRequiredStep NextStepMFAEnrollment NextStepConsent now t)"

definition ensureVerificationReference ::
  "verification_channel \<Rightarrow> gotime \<Rightarrow> transaction \<Rightarrow> ierror option" where
  "ensureVerificationReference channel now t =
     (case at_Verification t of
        None \<Rightarrow> Some (Fresh ''verification reference is missing'')
      | Some v \<Rightarrow>
          if vr_Channel v \<noteq> channel
          then Some (Fresh ''verification reference channel does not match current step'')
          else if \<not> before now (vr_ExpiresAt v) then Some (Fresh ''verification challenge is expired'')
          else None)"

definition CompleteEmailVerification :: "next_step \<Rightarrow> gotime \<Rightarrow> transaction \<Rightarrow> ierror option \<times> transaction" where
  "CompleteEmailVerification nextStep now t =
     (if at_NextStep t \<noteq> NextStepEmailVerification \<or> \<not> CanTransitionTo (at_NextStep t) nextStep
      then refuse ''complete authorization transaction email verification: '' (Sentinel (S_tra Tra_ErrInvalidStep)) t
      else case ensureVerificationReference VerificationChannelEmail now t of
        Some err \<Rightarrow> refuse ''complete authorization transaction email verification: '' err t
      | None \<Rightarrow>
          (case completeRequiredStep NextStepEmailVerification nextStep now t of
             (Some err, t) \<Rightarrow> refuse ''complete authorization transaction email verification: '' err t
           | (None, t) \<Rightarrow> (None, t\<lparr>at_Verification := None\<rparr>)))"

definition CompletePhoneVerification :: "next_step \<Rightarrow> gotime \<Rightarrow> transaction \<Rightarrow> ierror option \<times> transaction" where
  "CompletePhoneVerification nextStep now t =
     (if at_NextStep t \<noteq> NextStepPhoneVerification \<or> \<not> CanTransitionTo (at_NextStep t) nextStep
      then refuse ''complete authorization transaction phone verification: '' (Sentinel (S_tra Tra_ErrInvalidStep)) t
      else case ensureVerificationReference VerificationChannelPhone now t of
        Some err \<Rightarrow> refuse ''complete authorization transaction phone verification: '' err t
      | None \<Rightarrow>
          (case completeRequiredStep NextStepPhoneVerification nextStep now t of
             (Some err, t) \<Rightarrow> refuse ''complete authorization transaction phone verification: '' err t
           | (None, t) \<Rightarrow> (None, t\<lparr>at_Verification := None\<rparr>)))"

definition bindVerification ::
  "next_step \<Rightarrow> verification_channel \<Rightarrow> uuid \<Rightarrow> uuid \<Rightarrow> gotime \<Rightarrow> gotime \<Rightarrow> transaction
     \<Rightarrow> ierror option \<times> transaction" where
  "bindVerification step channel contactID challengeID expiresAt now t =
     (case at_ensureChangeAllowed now t of
        Some err \<Rightarrow> refuse ''bind verification to authorization transaction: '' err t
      | None \<Rightarrow>
          if at_Status t \<noteq> StatusPending \<or> at_NextStep t \<noteq> step
          then refuse ''bind verification to authorization transaction: '' (Sentinel (S_tra Tra_ErrInvalidStep)) t
          else if at_Verification t \<noteq> None
          then (Some (Fresh ''bind verification to authorization transaction: verification is already bound''), t)
          else if \<not> after expiresAt now
          then (Some (Fresh ''bind verification to authorization transaction: challenge expiration is invalid''), t)
          else case NewVerificationReference channel contactID challengeID expiresAt of
            Inl err \<Rightarrow> refuse ''bind verification to authorization transaction: '' err t
          | Inr reference \<Rightarrow> (None, t\<lparr>at_Verification := Some reference\<rparr>))"

definition BindEmailVerification ::
  "uuid \<Rightarrow> uuid \<Rightarrow> gotime \<Rightarrow> gotime \<Rightarrow> transaction \<Rightarrow> ierror option \<times> transaction" where
  "BindEmailVerification emailID challengeID expiresAt now t =
     bindVerification NextStepEmailVerification VerificationChannelEmail emailID challengeID expiresAt now t"

definition BindPhoneVerification ::
  "uuid \<Rightarrow> uuid \<Rightarrow> gotime \<Rightarrow> gotime \<Rightarrow> transaction \<Rightarrow> ierror option \<times> transaction" where
  "BindPhoneVerification phoneID challengeID expiresAt now t =
     bindVerification NextStepPhoneVerification VerificationChannelPhone phoneID challengeID expiresAt now t"

definition BeginPasswordRegistration ::
  "uuid \<Rightarrow> next_step \<Rightarrow> gotime \<Rightarrow> transaction \<Rightarrow> ierror option \<times> transaction" where
  "BeginPasswordRegistration identityID verificationStep now t =
     (case at_ensureChangeAllowed now t of
        Some err \<Rightarrow> refuse ''begin password registration in authorization transaction: '' err t
      | None \<Rightarrow>
          if at_Status t \<noteq> StatusPending
          then refuse ''begin password registration in authorization transaction: ''
                 (Sentinel (S_tra Tra_ErrInvalidStatus)) t
          else if at_NextStep t \<noteq> NextStepChooseAuthenticationMethod \<or> at_IdentityID t \<noteq> None \<or>
            length (at_AuthenticatedMethods t) \<noteq> 0
          then refuse ''begin password registration in authorization transaction: ''
                 (Sentinel (S_tra Tra_ErrInvalidStep)) t
          else if identityID = uuid_nil
          then (Some (Fresh ''begin password registration in authorization transaction: identity identifier is invalid''), t)
          else if verificationStep \<noteq> NextStepEmailVerification \<and> verificationStep \<noteq> NextStepPhoneVerification
          then refuse ''begin password registration in authorization transaction: ''
                 (Sentinel (S_tra Tra_ErrInvalidStep)) t
          else case transitionTo verificationStep t of
            (Some err, t) \<Rightarrow> refuse ''begin password registration in authorization transaction: '' err t
          | (None, t) \<Rightarrow>
              (None, t\<lparr>at_IdentityID := Some identityID, at_AuthenticatedMethods := [MethodPassword]\<rparr>))"

end
