(* ===== verification/Identity_Transaction_Life.thy ===== *)
theory Identity_Transaction_Life
  imports Identity_Transaction
begin

text \<open>
  The life of an authorization transaction: its calls, its invariant, and the order of its states. A
  transaction reaches \<open>ready\<close> only through an authentication of one identity and a consent to scopes it
  asked for, and every call that changes it moves it forward.
\<close>

section \<open>Calls\<close>

datatype txn_call =
  T_CompletePrimaryAuthentication uuid auth_method next_step | T_CompleteMFA uuid auth_method
| T_CompletePasswordChange next_step | T_CompleteEmailVerification next_step
| T_CompletePhoneVerification next_step | T_BindEmailVerification uuid uuid gotime
| T_BindPhoneVerification uuid uuid gotime | T_SkipMFAEnrollment
| T_BeginPasswordRegistration uuid next_step | T_AuthorizeScopes "string list" authorization_source
| T_Complete | T_Deny

fun txn_do :: "txn_call \<Rightarrow> gotime \<Rightarrow> transaction \<Rightarrow> ierror option \<times> transaction" where
  "txn_do (T_CompletePrimaryAuthentication i m n) now t = CompletePrimaryAuthentication i m n now t"
| "txn_do (T_CompleteMFA i m) now t = CompleteMFA i m now t"
| "txn_do (T_CompletePasswordChange n) now t = CompletePasswordChange n now t"
| "txn_do (T_CompleteEmailVerification n) now t = CompleteEmailVerification n now t"
| "txn_do (T_CompletePhoneVerification n) now t = CompletePhoneVerification n now t"
| "txn_do (T_BindEmailVerification e c x) now t = BindEmailVerification e c x now t"
| "txn_do (T_BindPhoneVerification p c x) now t = BindPhoneVerification p c x now t"
| "txn_do T_SkipMFAEnrollment now t = SkipMFAEnrollment now t"
| "txn_do (T_BeginPasswordRegistration i n) now t = BeginPasswordRegistration i n now t"
| "txn_do (T_AuthorizeScopes ss src) now t = AuthorizeScopes ss src now t"
| "txn_do T_Complete now t = txn_Complete now t"
| "txn_do T_Deny now t = txn_Deny now t"

inductive txn_step :: "transaction \<Rightarrow> transaction \<Rightarrow> bool" where
  call: "txn_step t (snd (txn_do a now t))"

inductive_simps txn_step_iff: "txn_step t u"

section \<open>What a successful call does\<close>

lemma wrap_error_eq [simp]:
  "wrap_error msg r = (None, u) \<longleftrightarrow> r = (None, u)"
  "wrap_error msg r = (Some err, u) \<longleftrightarrow> (\<exists>e. r = (Some e, u) \<and> err = Wrap msg e '''')"
  by (auto simp: wrap_error_def split: prod.splits option.splits)

lemma allowed_iff: "at_ensureChangeAllowed now t = None \<longleftrightarrow> now \<noteq> 0 \<and> now < at_ExpiresAt t"
  by (auto simp: at_ensureChangeAllowed_def)

lemma transitionTo_eq:
  "transitionTo n t = (r, u) \<longleftrightarrow>
     (if at_Status t = StatusPending \<and> CanTransitionTo (at_NextStep t) n
      then r = None \<and> u = t\<lparr>at_NextStep := n\<rparr>
      else r = Some (Sentinel (S_tra (if at_Status t \<noteq> StatusPending then Tra_ErrInvalidStatus
                                      else Tra_ErrInvalidStep))) \<and> u = t)"
  by (auto simp: transitionTo_def)

text \<open>The level and time a step to consent sets; no other step sets them.\<close>

definition authenticated :: "auth_method list \<Rightarrow> next_step \<Rightarrow> gotime \<Rightarrow> transaction \<Rightarrow> transaction" where
  "authenticated ms n now t =
     (if n = NextStepConsent
      then t\<lparr>at_AuthenticationLevel := Some (projr (ResolveLevel ms :: ierror + auth_level)),
             at_AuthenticatedAt := Some now\<rparr>
      else t)"

lemma completion_ok:
  assumes "resolveAuthenticationCompletion ms n = Inr l"
  shows "completeAuthentication l now t = authenticated ms n now t \<and>
     (n = NextStepConsent \<longrightarrow> (\<exists>v. (ResolveLevel ms :: ierror + auth_level) = Inr v))"
proof (cases "n = NextStepConsent")
  case True
  then obtain v where v: "(ResolveLevel ms :: ierror + auth_level) = Inr v" and l: "l = Some v"
    using assms unfolding resolveAuthenticationCompletion_def by (cases "ResolveLevel ms :: ierror + auth_level") auto
  show ?thesis unfolding True v l completeAuthentication_def authenticated_def by simp
next
  case False
  with assms have "l = None" by (simp add: resolveAuthenticationCompletion_def)
  with False show ?thesis by (simp add: completeAuthentication_def authenticated_def)
qed

lemma applyAuthentication_ok:
  assumes "applyAuthentication s i m n now t = (None, u)"
  shows "now \<noteq> 0 \<and> now < at_ExpiresAt t \<and> at_Status t = StatusPending \<and> at_NextStep t = s \<and>
     at_AuthenticationLevel t = None \<and> i \<noteq> uuid_nil \<and> method_IsValid m \<and>
     at_IdentityID t \<in> {None, Some i} \<and> m \<notin> set (at_AuthenticatedMethods t) \<and> CanTransitionTo s n \<and>
     (n = NextStepConsent \<longrightarrow>
        (\<exists>v. (ResolveLevel (at_AuthenticatedMethods t @ [m]) :: ierror + auth_level) = Inr v)) \<and>
     u = authenticated (at_AuthenticatedMethods t @ [m]) n now
           (t\<lparr>at_NextStep := n, at_IdentityID := Some i, at_AuthenticatedMethods := at_AuthenticatedMethods t @ [m]\<rparr>)"
proof -
  let ?ms = "at_AuthenticatedMethods t @ [m]"
  obtain l where l: "resolveAuthenticationCompletion ?ms n = Inr l"
    and u: "u = completeAuthentication l now
        (t\<lparr>at_NextStep := n, at_IdentityID := Some i, at_AuthenticatedMethods := ?ms\<rparr>)"
    and g: "now \<noteq> 0" "now < at_ExpiresAt t" "at_Status t = StatusPending" "at_NextStep t = s"
      "at_AuthenticationLevel t = None" "i \<noteq> uuid_nil" "method_IsValid m" "CanTransitionTo s n"
      "at_IdentityID t = None \<or> at_IdentityID t = Some i" "m \<notin> set (at_AuthenticatedMethods t)"
    using assms unfolding applyAuthentication_def Let_def transitionTo_def allowed_iff guard_ok by auto
  from completion_ok [OF l] u g show ?thesis by simp
qed

lemma applyAuthentication_error: "applyAuthentication s i m n now t = (Some err, u) \<Longrightarrow> u = t"
  by (auto simp: applyAuthentication_def Let_def transitionTo_def guard_error)

lemma completeRequiredStep_ok:
  assumes "completeRequiredStep s n now t = (None, u)"
  shows "now \<noteq> 0 \<and> now < at_ExpiresAt t \<and> at_Status t = StatusPending \<and> at_NextStep t = s \<and>
     at_AuthenticationLevel t = None \<and> at_IdentityID t \<noteq> None \<and> CanTransitionTo s n \<and>
     (n = NextStepConsent \<longrightarrow>
        (\<exists>v. (ResolveLevel (at_AuthenticatedMethods t) :: ierror + auth_level) = Inr v)) \<and>
     u = authenticated (at_AuthenticatedMethods t) n now (t\<lparr>at_NextStep := n\<rparr>)"
proof -
  obtain l where l: "resolveAuthenticationCompletion (at_AuthenticatedMethods t) n = Inr l"
    and u: "u = completeAuthentication l now (t\<lparr>at_NextStep := n\<rparr>)"
    and g: "now \<noteq> 0" "now < at_ExpiresAt t" "at_Status t = StatusPending" "at_NextStep t = s"
      "at_AuthenticationLevel t = None" "at_IdentityID t \<noteq> None" "CanTransitionTo s n"
    using assms unfolding completeRequiredStep_def transitionTo_def allowed_iff guard_ok by auto
  from completion_ok [OF l] u g show ?thesis by simp
qed

lemma completeRequiredStep_error: "completeRequiredStep s n now t = (Some err, u) \<Longrightarrow> u = t"
  by (auto simp: completeRequiredStep_def transitionTo_def guard_error)

lemma bindVerification_ok:
  assumes "bindVerification s ch c q x now t = (None, u)"
  shows "now \<noteq> 0 \<and> now < at_ExpiresAt t \<and> at_Status t = StatusPending \<and> at_NextStep t = s \<and>
     at_Verification t = None \<and> now < x \<and> c \<noteq> uuid_nil \<and> q \<noteq> uuid_nil \<and>
     u = t\<lparr>at_Verification := Some \<lparr>vr_Channel = ch, vr_ContactID = c, vr_ChallengeID = q, vr_ExpiresAt = x\<rparr>\<rparr>"
  using assms
  by (auto simp: bindVerification_def NewVerificationReference_def allowed_iff guard_ok
      split: if_splits sum.splits)

lemma bindVerification_error: "bindVerification s ch c q x now t = (Some err, u) \<Longrightarrow> u = t"
  by (auto simp: bindVerification_def refuse_def split: option.splits if_splits sum.splits)

text \<open>An error changes nothing.\<close>

lemma txn_do_error:
  assumes "txn_do a now t = (Some err, u)"
  shows "u = t"
proof (cases a)
  case (T_CompleteEmailVerification n)
  with assms show ?thesis
    by (auto simp: CompleteEmailVerification_def refuse_def dest: completeRequiredStep_error
        split: option.splits if_splits prod.splits)
next
  case (T_CompletePhoneVerification n)
  with assms show ?thesis
    by (auto simp: CompletePhoneVerification_def refuse_def dest: completeRequiredStep_error
        split: option.splits if_splits prod.splits)
qed (use assms in \<open>auto simp: CompletePrimaryAuthentication_def CompleteMFA_def CompletePasswordChange_def
        BindEmailVerification_def BindPhoneVerification_def SkipMFAEnrollment_def
        BeginPasswordRegistration_def AuthorizeScopes_def txn_Complete_def txn_Deny_def refuse_def transitionTo_def
      dest: applyAuthentication_error completeRequiredStep_error bindVerification_error
      split: option.splits if_splits\<close>)


section \<open>The invariant\<close>

definition txn_authentication :: "transaction \<Rightarrow> bool" where
  "txn_authentication t \<longleftrightarrow>
     distinct (at_AuthenticatedMethods t) \<and> (\<forall>m \<in> set (at_AuthenticatedMethods t). method_IsValid m) \<and>
     (at_IdentityID t = None \<longleftrightarrow> at_AuthenticatedMethods t = []) \<and> at_IdentityID t \<noteq> Some uuid_nil \<and>
     (at_AuthenticationLevel t = None \<longleftrightarrow> at_AuthenticatedAt t = None) \<and>
     (\<forall>l. at_AuthenticationLevel t = Some l \<longrightarrow>
        (ResolveLevel (at_AuthenticatedMethods t) :: ierror + auth_level) = Inr l \<and>
        (\<exists>a. at_AuthenticatedAt t = Some a \<and> a \<noteq> 0 \<and> a < at_ExpiresAt t))"

definition txn_granted :: "transaction \<Rightarrow> bool" where
  "txn_granted t \<longleftrightarrow>
     at_AuthenticationLevel t \<noteq> None \<and> at_AuthorizationSource t \<noteq> None \<and> at_GrantedScopes t \<noteq> [] \<and>
     distinct (at_GrantedScopes t) \<and> set (at_GrantedScopes t) \<subseteq> set (at_RequestedScopes t)"

definition txn_state :: "transaction \<Rightarrow> bool" where
  "txn_state t \<longleftrightarrow>
     (case at_Status t of
        StatusPending \<Rightarrow>
          at_NextStep t \<notin> {NextStepReady, NoNextStep} \<union> range OtherNextStep \<and>
          (at_AuthenticationLevel t \<noteq> None \<longleftrightarrow> at_NextStep t = NextStepConsent) \<and>
          (at_IdentityID t = None \<longleftrightarrow> at_NextStep t = NextStepChooseAuthenticationMethod) \<and>
          at_GrantedScopes t = [] \<and> at_AuthorizationSource t = None
      | StatusReady \<Rightarrow> at_NextStep t = NextStepReady \<and> txn_granted t
      | StatusCompleted \<Rightarrow> at_NextStep t = NoNextStep \<and> txn_granted t
      | StatusDenied \<Rightarrow>
          at_NextStep t = NoNextStep \<and> at_GrantedScopes t = [] \<and> at_AuthorizationSource t = None
      | OtherStatus _ \<Rightarrow> False)"

definition txn_verification :: "transaction \<Rightarrow> bool" where
  "txn_verification t \<longleftrightarrow>
     (\<forall>v. at_Verification t = Some v \<longrightarrow>
        at_Status t = StatusPending \<and>
        (at_NextStep t = NextStepEmailVerification \<and> vr_Channel v = VerificationChannelEmail \<or>
         at_NextStep t = NextStepPhoneVerification \<and> vr_Channel v = VerificationChannelPhone))"

definition txn_wf :: "transaction \<Rightarrow> bool" where
  "txn_wf t \<longleftrightarrow> distinct (at_RequestedScopes t) \<and> txn_authentication t \<and> txn_state t \<and> txn_verification t"

lemmas txn_wf_defs = txn_wf_def txn_authentication_def txn_granted_def txn_state_def txn_verification_def

lemma New_transaction_wf: "New_transaction i c u ss st n req p x now = Inr t \<Longrightarrow> txn_wf t"
  by (auto simp: New_transaction_def txn_wf_defs split: if_splits)

lemma can_to:
  "CanTransitionTo s n \<Longrightarrow> s \<notin> {NextStepReady, NoNextStep} \<union> range OtherNextStep \<and>
     n \<notin> {NextStepChooseAuthenticationMethod, NoNextStep} \<union> range OtherNextStep \<and>
     (n = NextStepReady \<longrightarrow> s = NextStepConsent)"
  by (cases s) (auto simp: CanTransitionTo_def)

lemma applyAuthentication_wf:
  assumes wf: "txn_wf t" and ok: "applyAuthentication s i m n now t = (None, u)"
    and s: "s = NextStepChooseAuthenticationMethod \<or> s = NextStepMFA"
  shows "txn_wf u"
proof -
  note o = applyAuthentication_ok [OF ok]
  have n: "n \<notin> {NextStepReady, NoNextStep, NextStepChooseAuthenticationMethod} \<union> range OtherNextStep"
    using o s can_to [of s n] by auto
  have v: "at_Verification t = None"
    using wf o s by (auto simp: txn_wf_defs)
  show ?thesis
    using wf o n v unfolding authenticated_def txn_wf_def txn_authentication_def txn_state_def txn_verification_def
    by (auto split: if_splits)
qed

lemma completeRequiredStep_wf:
  assumes wf: "txn_wf t" and ok: "completeRequiredStep s n now t = (None, u)"
    and s: "s \<noteq> NextStepChooseAuthenticationMethod" "s \<noteq> NextStepConsent"
  shows "txn_wf (u\<lparr>at_Verification := None\<rparr>)"
proof -
  note o = completeRequiredStep_ok [OF ok]
  have n: "n \<notin> {NextStepReady, NoNextStep, NextStepChooseAuthenticationMethod} \<union> range OtherNextStep"
    using o s can_to [of s n] by auto
  show ?thesis
    using wf o n s unfolding authenticated_def txn_wf_def txn_authentication_def txn_state_def txn_verification_def
    by (auto split: if_splits)
qed

lemma bindVerification_wf:
  assumes "txn_wf t" and ok: "bindVerification s ch c q x now t = (None, u)"
    and "s = NextStepEmailVerification \<and> ch = VerificationChannelEmail \<or>
      s = NextStepPhoneVerification \<and> ch = VerificationChannelPhone"
  shows "txn_wf u"
  using assms(1,3) bindVerification_ok [OF ok] by (auto simp: txn_wf_defs)

text \<open>The rest of the calls, and what each needs.\<close>

lemma BeginPasswordRegistration_ok:
  assumes "BeginPasswordRegistration i n now t = (None, u)"
  shows "now \<noteq> 0 \<and> now < at_ExpiresAt t \<and> at_Status t = StatusPending \<and>
     at_NextStep t = NextStepChooseAuthenticationMethod \<and> at_IdentityID t = None \<and>
     at_AuthenticatedMethods t = [] \<and> i \<noteq> uuid_nil \<and>
     n \<in> {NextStepEmailVerification, NextStepPhoneVerification} \<and>
     u = t\<lparr>at_NextStep := n, at_IdentityID := Some i, at_AuthenticatedMethods := [MethodPassword]\<rparr>"
  using assms
  by (auto simp: BeginPasswordRegistration_def refuse_def transitionTo_def allowed_iff
      split: option.splits if_splits)

lemma AuthorizeScopes_ok:
  "AuthorizeScopes ss src now t = (None, u) \<longleftrightarrow>
     now \<noteq> 0 \<and> now < at_ExpiresAt t \<and> at_Status t = StatusPending \<and> at_NextStep t = NextStepConsent \<and>
     at_AuthenticationLevel t \<noteq> None \<and> ss \<noteq> [] \<and> distinct ss \<and> set ss \<subseteq> set (at_RequestedScopes t) \<and>
     u = t\<lparr>at_NextStep := NextStepReady, at_GrantedScopes := ss, at_AuthorizationSource := Some src,
           at_Status := StatusReady\<rparr>"
  by (auto simp: AuthorizeScopes_def refuse_def transitionTo_def CanTransitionTo_def at_ensureChangeAllowed_def
      ensureGrantedScopesAllowed_def list_ex_iff split: option.splits if_splits)

lemma txn_Complete_ok:
  "txn_Complete now t = (None, u) \<longleftrightarrow>
     now \<noteq> 0 \<and> now < at_ExpiresAt t \<and> at_Status t = StatusReady \<and> at_NextStep t = NextStepReady \<and>
     at_IdentityID t \<noteq> None \<and> at_AuthenticationLevel t \<noteq> None \<and> at_AuthenticatedAt t \<noteq> None \<and>
     u = t\<lparr>at_Status := StatusCompleted, at_NextStep := NoNextStep, at_Verification := None\<rparr>"
  by (auto simp: txn_Complete_def refuse_def finish_txn_def at_ensureChangeAllowed_def split: option.splits if_splits)

lemma txn_Deny_ok:
  "txn_Deny now t = (None, u) \<longleftrightarrow>
     now \<noteq> 0 \<and> now < at_ExpiresAt t \<and> at_Status t = StatusPending \<and>
     u = t\<lparr>at_Status := StatusDenied, at_NextStep := NoNextStep, at_Verification := None\<rparr>"
  by (auto simp: txn_Deny_def refuse_def finish_txn_def at_ensureChangeAllowed_def split: option.splits if_splits)

lemma CompleteEmailVerification_ok:
  assumes "CompleteEmailVerification n now t = (None, u)"
  shows "\<exists>w v. completeRequiredStep NextStepEmailVerification n now t = (None, w) \<and>
     u = w\<lparr>at_Verification := None\<rparr> \<and> at_Verification t = Some v \<and>
     vr_Channel v = VerificationChannelEmail \<and> now < vr_ExpiresAt v"
  using assms
  by (auto simp: CompleteEmailVerification_def refuse_def ensureVerificationReference_def
      split: option.splits if_splits prod.splits)

lemma CompletePhoneVerification_ok:
  assumes "CompletePhoneVerification n now t = (None, u)"
  shows "\<exists>w v. completeRequiredStep NextStepPhoneVerification n now t = (None, w) \<and>
     u = w\<lparr>at_Verification := None\<rparr> \<and> at_Verification t = Some v \<and>
     vr_Channel v = VerificationChannelPhone \<and> now < vr_ExpiresAt v"
  using assms
  by (auto simp: CompletePhoneVerification_def refuse_def ensureVerificationReference_def
      split: option.splits if_splits prod.splits)

text \<open>A successful call, by what it does: a method, a step, a verification, a consent or an end.\<close>

lemma txn_do_cases:
  assumes "txn_do a now t = (None, u)"
  obtains (factor) s i m n where "s = NextStepChooseAuthenticationMethod \<or> s = NextStepMFA"
      and "applyAuthentication s i m n now t = (None, u)"
  | (required) s n w where "s \<in> {NextStepPasswordChange, NextStepMFAEnrollment}"
      and "completeRequiredStep s n now t = (None, w)" and "u = w"
  | (verified) s ch n w v where "s = NextStepEmailVerification \<and> ch = VerificationChannelEmail \<or>
        s = NextStepPhoneVerification \<and> ch = VerificationChannelPhone"
      and "completeRequiredStep s n now t = (None, w)" and "u = w\<lparr>at_Verification := None\<rparr>"
      and "at_Verification t = Some v" and "vr_Channel v = ch" and "now < vr_ExpiresAt v"
  | (bound) s ch c q x where "s = NextStepEmailVerification \<and> ch = VerificationChannelEmail \<or>
        s = NextStepPhoneVerification \<and> ch = VerificationChannelPhone"
      and "bindVerification s ch c q x now t = (None, u)"
  | (registration) i n where "BeginPasswordRegistration i n now t = (None, u)"
  | (consent) ss src where "a = T_AuthorizeScopes ss src" and "AuthorizeScopes ss src now t = (None, u)"
  | (completed) "a = T_Complete" and "txn_Complete now t = (None, u)"
  | (denied) "a = T_Deny" and "txn_Deny now t = (None, u)"
proof (cases a)
  case (T_CompletePrimaryAuthentication i m n)
  with assms factor show ?thesis by (auto simp: CompletePrimaryAuthentication_def)
next
  case (T_CompleteMFA i m)
  with assms factor show ?thesis by (auto simp: CompleteMFA_def)
next
  case (T_CompletePasswordChange n)
  with assms required show ?thesis by (auto simp: CompletePasswordChange_def)
next
  case T_SkipMFAEnrollment
  with assms required show ?thesis by (auto simp: SkipMFAEnrollment_def)
next
  case (T_CompleteEmailVerification n)
  with assms verified CompleteEmailVerification_ok show ?thesis by fastforce
next
  case (T_CompletePhoneVerification n)
  with assms verified CompletePhoneVerification_ok show ?thesis by fastforce
next
  case (T_BindEmailVerification e c x)
  then show ?thesis
    using assms bound [of NextStepEmailVerification VerificationChannelEmail] by (auto simp: BindEmailVerification_def)
next
  case (T_BindPhoneVerification e c x)
  then show ?thesis
    using assms bound [of NextStepPhoneVerification VerificationChannelPhone] by (auto simp: BindPhoneVerification_def)
qed (use assms registration consent completed denied in auto)

lemma txn_do_wf:
  assumes "txn_wf t" and "txn_do a now t = (r, u)"
  shows "txn_wf u"
proof (cases r)
  case (Some err)
  with assms txn_do_error show ?thesis by blast
next
  case None
  with assms(2) have "txn_do a now t = (None, u)" by simp
  then show ?thesis
  proof (cases rule: txn_do_cases)
    case (factor s i m n)
    with assms(1) applyAuthentication_wf show ?thesis by blast
  next
    case (required s n w)
    have "at_Verification t = None"
      using assms(1) completeRequiredStep_ok [OF required(2)] required(1) by (auto simp: txn_wf_defs)
    then have "w\<lparr>at_Verification := None\<rparr> = w"
      using completeRequiredStep_ok [OF required(2)] by (simp add: authenticated_def)
    with completeRequiredStep_wf [OF assms(1) required(2)] required show ?thesis by auto
  next
    case (verified s ch n w v)
    then show ?thesis using completeRequiredStep_wf [OF assms(1) verified(2)] by auto
  next
    case (bound s ch c q x)
    with assms(1) bindVerification_wf show ?thesis by blast
  next
    case (registration i n)
    from BeginPasswordRegistration_ok [OF this] assms(1) show ?thesis
      by (auto simp: txn_wf_defs method_IsValid_def)
  next
    case (consent ss src)
    with assms(1) show ?thesis by (auto simp: AuthorizeScopes_ok txn_wf_defs)
  next
    case completed
    with assms(1) show ?thesis by (auto simp: txn_Complete_ok txn_wf_defs)
  next
    case denied
    with assms(1) show ?thesis by (auto simp: txn_Deny_ok txn_wf_defs)
  qed
qed


section \<open>Forward only\<close>

fun step_rank :: "next_step \<Rightarrow> nat" where
  "step_rank NextStepChooseAuthenticationMethod = 0"
| "step_rank NextStepPasswordChange = 1"
| "step_rank NextStepEmailVerification = 2"
| "step_rank NextStepPhoneVerification = 3"
| "step_rank NextStepMFAEnrollment = 4"
| "step_rank NextStepMFA = 4"
| "step_rank NextStepConsent = 5"
| "step_rank NextStepReady = 6"
| "step_rank NoNextStep = 7"
| "step_rank (OtherNextStep s) = 0"

definition txn_rank :: "transaction \<Rightarrow> nat" where
  "txn_rank t = 2 * step_rank (at_NextStep t) + (if at_Verification t = None then 0 else 1)"

lemma can_rank: "CanTransitionTo s n \<Longrightarrow> step_rank s < step_rank n"
  by (cases s) (auto simp: CanTransitionTo_def)

lemma authenticated_rank [simp]:
  "at_NextStep (authenticated ms n now t) = at_NextStep t"
  "at_Verification (authenticated ms n now t) = at_Verification t"
  "at_Status (authenticated ms n now t) = at_Status t"
  by (simp_all add: authenticated_def)

lemma rank_less: "step_rank s < step_rank n \<Longrightarrow> at_NextStep t = s \<Longrightarrow> at_NextStep u = n \<Longrightarrow> txn_rank t < txn_rank u"
  by (auto simp: txn_rank_def)

lemma finished_rank: "txn_state t \<Longrightarrow> at_Status t \<in> {StatusPending, StatusReady} \<Longrightarrow> step_rank (at_NextStep t) < 7"
  by (cases "at_NextStep t") (auto simp: txn_state_def)

lemma txn_do_forward:
  assumes "txn_wf t" and "txn_do a now t = (None, u)"
  shows "txn_rank t < txn_rank u"
  using assms(2)
proof (cases rule: txn_do_cases)
  case (factor s i m n)
  note o = applyAuthentication_ok [OF factor(2)]
  from o can_rank [of s n] show ?thesis by (intro rank_less [of s n]) auto
next
  case (required s n w)
  note o = completeRequiredStep_ok [OF required(2)]
  from o can_rank [of s n] required(3) show ?thesis by (intro rank_less [of s n]) auto
next
  case (verified s ch n w v)
  note o = completeRequiredStep_ok [OF verified(2)]
  from o can_rank [of s n] verified(3) show ?thesis by (intro rank_less [of s n]) auto
next
  case (bound s ch c q x)
  from bindVerification_ok [OF bound(2)] show ?thesis by (auto simp: txn_rank_def)
next
  case (registration i n)
  from BeginPasswordRegistration_ok [OF this] show ?thesis by (auto simp: txn_rank_def)
next
  case (consent ss src)
  then show ?thesis by (auto simp: AuthorizeScopes_ok txn_rank_def)
next
  case completed
  then show ?thesis by (auto simp: txn_Complete_ok txn_rank_def)
next
  case denied
  then have "step_rank (at_NextStep t) < 7" "at_NextStep u = NoNextStep"
    using finished_rank [of t] assms(1) by (auto simp: txn_Deny_ok txn_wf_def)
  then show ?thesis by (intro rank_less [OF _ refl]) auto
qed

text \<open>A transaction as a ranked life cycle; a change is a successful call.\<close>

definition txn_change :: "transaction \<Rightarrow> transaction \<Rightarrow> bool" where
  "txn_change t u \<longleftrightarrow> txn_wf t \<and> (\<exists>a now. txn_do a now t = (None, u))"

definition txn_finished :: "transaction \<Rightarrow> bool" where
  "txn_finished t \<longleftrightarrow> at_Status t \<in> {StatusCompleted, StatusDenied}"

lemma finished_no_change:
  assumes "txn_finished t"
  shows "txn_do a now t \<noteq> (None, u)"
proof
  assume "txn_do a now t = (None, u)"
  then show False
    using assms
    by (cases rule: txn_do_cases)
       (auto simp: txn_finished_def AuthorizeScopes_ok txn_Complete_ok txn_Deny_ok
         dest: applyAuthentication_ok completeRequiredStep_ok bindVerification_ok BeginPasswordRegistration_ok)
qed

interpretation txn_life: ranked_lifecycle txn_change txn_finished txn_rank
  by unfold_locales (auto simp: txn_change_def finished_no_change txn_do_forward)

lemma txn_rank_bound: "txn_wf t \<Longrightarrow> txn_rank t \<le> 14"
  by (cases "at_NextStep t") (auto simp: txn_rank_def txn_wf_def txn_verification_def)

lemma txn_change_wf: "txn_change t u \<Longrightarrow> txn_wf u"
  unfolding txn_change_def using txn_do_wf by blast

lemma txn_changes_wf: "(txn_change ^^ n) t u \<Longrightarrow> txn_wf t \<Longrightarrow> txn_wf u"
  by (induction n arbitrary: u) (auto dest: txn_change_wf)

text \<open>A transaction takes at most fourteen successful calls from its creation to its end.\<close>

lemma txn_calls_bounded: "(txn_change ^^ n) t u \<Longrightarrow> txn_wf t \<Longrightarrow> n \<le> 14"
  using txn_life.run_length [of n t u] txn_rank_bound [OF txn_changes_wf] by fastforce

text \<open>What a transaction was started for, and for whom it goes on, is fixed.\<close>

definition txn_request ::
  "transaction \<Rightarrow> uuid \<times> uuid \<times> string \<times> string list \<times> string option \<times> string option \<times> pkce option \<times> gotime" where
  "txn_request t =
     (at_ID t, at_OAuthClientID t, at_RedirectURI t, at_RequestedScopes t, at_State t, at_Nonce t, at_PKCE t,
      at_ExpiresAt t)"

lemma txn_do_same:
  assumes "txn_do a now t = (r, u)"
  shows "txn_request u = txn_request t \<and> (at_IdentityID t \<noteq> None \<longrightarrow> at_IdentityID u = at_IdentityID t)"
proof (cases r)
  case (Some err)
  with assms txn_do_error show ?thesis by blast
next
  case None
  with assms have "txn_do a now t = (None, u)" by simp
  then show ?thesis
  proof (cases rule: txn_do_cases)
    case (factor s i m n)
    from applyAuthentication_ok [OF factor(2)] show ?thesis
      unfolding txn_request_def authenticated_def by (cases "n = NextStepConsent") auto
  next
    case (required s n w)
    from completeRequiredStep_ok [OF required(2)] required(3) show ?thesis
      unfolding txn_request_def authenticated_def by (cases "n = NextStepConsent") auto
  next
    case (verified s ch n w v)
    from completeRequiredStep_ok [OF verified(2)] verified(3) show ?thesis
      unfolding txn_request_def authenticated_def by (cases "n = NextStepConsent") auto
  next
    case (bound s ch c q x)
    from bindVerification_ok [OF bound(2)] show ?thesis unfolding txn_request_def by auto
  next
    case (registration i n)
    from BeginPasswordRegistration_ok [OF this] show ?thesis unfolding txn_request_def by auto
  next
    case (consent ss src)
    then show ?thesis by (auto simp: AuthorizeScopes_ok txn_request_def)
  next
    case completed
    then show ?thesis by (auto simp: txn_Complete_ok txn_request_def)
  next
    case denied
    then show ?thesis by (auto simp: txn_Deny_ok txn_request_def)
  qed
qed

lemma txn_steps_sound:
  "txn_step\<^sup>*\<^sup>* t u \<Longrightarrow> txn_wf t \<Longrightarrow> txn_wf u \<and> txn_request u = txn_request t"
proof (induction rule: rtranclp_induct)
  case (step u v)
  then obtain a now r where "txn_do a now u = (r, v)"
    by (metis txn_step_iff prod.collapse)
  with step txn_do_wf txn_do_same show ?case by metis
qed simp

end
