(* ===== verification/Identity_Flow.thy ===== *)
theory Identity_Flow
  imports Identity_Client Identity_Transaction_Life
begin

text \<open>
  The policy of the next authentication step, \<open>internal/domain/authenticationflow\<close>: what is required of
  the user, what is known of the user and the client, and the first step these ask for.
\<close>

section \<open>Facts and requirements\<close>

datatype contact_requirement =
  ContactVerificationNone | ContactVerificationEmail | ContactVerificationPhone | OtherContactVerification string

definition requirement_IsValid :: "contact_requirement \<Rightarrow> bool" where
  "requirement_IsValid r =
     (case r of ContactVerificationNone \<Rightarrow> True | ContactVerificationEmail \<Rightarrow> True
      | ContactVerificationPhone \<Rightarrow> True | OtherContactVerification _ \<Rightarrow> False)"

record requirements =
  rq_PasswordChangeRequired :: bool
  rq_ContactVerification :: contact_requirement

definition requirements_Validate :: "requirements \<Rightarrow> ierror option" where
  "requirements_Validate r =
     (if \<not> requirement_IsValid (rq_ContactVerification r)
      then Some (Fresh ''authentication flow contact verification requirement is invalid'') else None)"

record facts =
  fa_availableMFAMethods :: "auth_method list"
  fa_consentMode :: consent_mode
  fa_rememberedGrantCovers :: bool

fun mfa_methods_loop :: "auth_method set \<Rightarrow> auth_method list \<Rightarrow> ierror option" where
  "mfa_methods_loop seen [] = None"
| "mfa_methods_loop seen (m # ms) =
     (if \<not> method_IsValid m \<or> m = MethodPassword
      then Some (Fresh ''create authentication flow facts: MFA method is invalid'')
      else if m \<in> seen
      then Some (Fresh ''create authentication flow facts: MFA method is duplicated'')
      else mfa_methods_loop (insert m seen) ms)"

definition NewFacts :: "auth_method list \<Rightarrow> consent_mode \<Rightarrow> bool \<Rightarrow> ierror + facts" where
  "NewFacts availableMFAMethods consentMode rememberedGrantCovers =
     (case ParseConsentMode (consent_mode_String consentMode) of
        Inl _ \<Rightarrow> Inl (Fresh ''create authentication flow facts: consent mode is invalid'')
      | Inr _ \<Rightarrow>
          (case mfa_methods_loop {} availableMFAMethods of
             Some err \<Rightarrow> Inl err
           | None \<Rightarrow>
               if rememberedGrantCovers \<and> consentMode \<noteq> ConsentModeRemember
               then Inl (Fresh ''create authentication flow facts: remembered grant is inconsistent with consent mode'')
               else Inr \<lparr>fa_availableMFAMethods = availableMFAMethods, fa_consentMode = consentMode,
                         fa_rememberedGrantCovers = rememberedGrantCovers\<rparr>))"

definition HasUsableMFA :: "facts \<Rightarrow> bool" where
  "HasUsableMFA f \<longleftrightarrow> length (fa_availableMFAMethods f) > 0"


section \<open>The next step\<close>

text \<open>\<open>%q\<close> puts quotes around the step; none of the constants has a character it would escape.\<close>

fun next_step_String :: "next_step \<Rightarrow> string" where
  "next_step_String NextStepChooseAuthenticationMethod = ''choose_authentication_method''"
| "next_step_String NextStepPasswordChange = ''password_change''"
| "next_step_String NextStepEmailVerification = ''email_verification''"
| "next_step_String NextStepPhoneVerification = ''phone_verification''"
| "next_step_String NextStepMFAEnrollment = ''mfa_enrollment''"
| "next_step_String NextStepMFA = ''mfa''"
| "next_step_String NextStepConsent = ''consent''"
| "next_step_String NextStepReady = ''ready''"
| "next_step_String NoNextStep = ''''"
| "next_step_String (OtherNextStep s) = s"

record flow_input =
  fi_CurrentStep :: next_step
  fi_Requirements :: requirements
  fi_Facts :: "facts option"

record flow_decision =
  fd_NextStep :: next_step
  fd_AuthorizationSource :: "authorization_source option"

definition verificationNextStep :: "contact_requirement \<Rightarrow> next_step" where
  "verificationNextStep r =
     (case r of
        ContactVerificationEmail \<Rightarrow> NextStepEmailVerification
      | ContactVerificationPhone \<Rightarrow> NextStepPhoneVerification
      | _ \<Rightarrow> NoNextStep)"

definition ResolveNextStep :: "flow_input \<Rightarrow> ierror + flow_decision" where
  "ResolveNextStep input =
     (case requirements_Validate (fi_Requirements input) of
        Some err \<Rightarrow> Inl (Wrap ''resolve authentication flow next step: '' err '''')
      | None \<Rightarrow>
          if rq_PasswordChangeRequired (fi_Requirements input) \<and>
             CanTransitionTo (fi_CurrentStep input) NextStepPasswordChange
          then Inr \<lparr>fd_NextStep = NextStepPasswordChange, fd_AuthorizationSource = None\<rparr>
          else let verificationStep = verificationNextStep (rq_ContactVerification (fi_Requirements input))
          in if verificationStep \<noteq> NoNextStep \<and> CanTransitionTo (fi_CurrentStep input) verificationStep
             then Inr \<lparr>fd_NextStep = verificationStep, fd_AuthorizationSource = None\<rparr>
             else case fi_Facts input of
               None \<Rightarrow> Inl (Wrap ''resolve authentication flow next step: '' (Sentinel (S_flow Flow_ErrFactsRequired)) '''')
             | Some f \<Rightarrow>
                 (let mfaStep = (if HasUsableMFA f then NextStepMFA else NextStepMFAEnrollment)
                  in if CanTransitionTo (fi_CurrentStep input) mfaStep
                     then Inr \<lparr>fd_NextStep = mfaStep, fd_AuthorizationSource = None\<rparr>
                     else if \<not> CanTransitionTo (fi_CurrentStep input) NextStepConsent
                     then Inl (Wrap (''resolve authentication flow next step from '' @ [CHR 0x22] @
                                     next_step_String (fi_CurrentStep input) @ [CHR 0x22] @ '': '')
                                 (Sentinel (S_flow Flow_ErrNoNextStep)) '''')
                     else case fa_consentMode f of
                       ConsentModeRequired \<Rightarrow> Inr \<lparr>fd_NextStep = NextStepConsent, fd_AuthorizationSource = None\<rparr>
                     | ConsentModeRemember \<Rightarrow>
                         if \<not> fa_rememberedGrantCovers f
                         then Inr \<lparr>fd_NextStep = NextStepConsent, fd_AuthorizationSource = None\<rparr>
                         else Inr \<lparr>fd_NextStep = NextStepConsent,
                                   fd_AuthorizationSource = Some AuthorizationSourceRememberedGrant\<rparr>
                     | ConsentModeTrusted \<Rightarrow>
                         Inr \<lparr>fd_NextStep = NextStepConsent,
                              fd_AuthorizationSource = Some AuthorizationSourceTrustedClient\<rparr>
                     | OtherConsentMode _ \<Rightarrow>
                         Inl (Fresh ''resolve authentication flow next step: consent mode is invalid'')))"

lemma mfa_methods_loop_ok:
  "mfa_methods_loop seen ms = None \<longleftrightarrow>
     distinct ms \<and> set ms \<inter> seen = {} \<and> (\<forall>m \<in> set ms. method_IsValid m \<and> m \<noteq> MethodPassword)"
  by (induction seen ms rule: mfa_methods_loop.induct) auto

definition facts_wf :: "facts \<Rightarrow> bool" where
  "facts_wf f \<longleftrightarrow>
     fa_consentMode f \<notin> range OtherConsentMode \<and>
     (fa_rememberedGrantCovers f \<longrightarrow> fa_consentMode f = ConsentModeRemember)"

lemma NewFacts_wf:
  "NewFacts ms m r = Inr f \<Longrightarrow> m \<notin> OtherConsentMode ` {''required'', ''remember'', ''trusted''} \<Longrightarrow>
     facts_wf f \<and> fa_availableMFAMethods f = ms \<and> fa_consentMode f = m"
  by (auto simp: NewFacts_def facts_wf_def ParseConsentMode_def split: sum.splits option.splits if_splits)

text \<open>
  A step the policy chooses is one the transaction may take. Before consent comes every step that is
  required and still possible; a second factor is skipped by nobody, and no source of authorization is
  decided but at the consent step, for a client that need not ask.
\<close>

lemma ResolveNextStep_ok:
  assumes "ResolveNextStep input = Inr d"
  shows "CanTransitionTo (fi_CurrentStep input) (fd_NextStep d)"
    and "fd_NextStep d = NextStepConsent \<Longrightarrow> fi_CurrentStep input \<in> {NextStepMFAEnrollment, NextStepMFA}"
    and "fd_AuthorizationSource d = Some src \<Longrightarrow> fd_NextStep d = NextStepConsent \<and>
      (\<exists>f. fi_Facts input = Some f \<and>
         (fa_consentMode f = ConsentModeTrusted \<and> src = AuthorizationSourceTrustedClient \<or>
          fa_consentMode f = ConsentModeRemember \<and> fa_rememberedGrantCovers f \<and>
          src = AuthorizationSourceRememberedGrant))"
proof -
  have mfa: "CanTransitionTo s NextStepConsent \<Longrightarrow> \<not> CanTransitionTo s (if b then NextStepMFA else NextStepMFAEnrollment)
      \<Longrightarrow> s \<in> {NextStepMFAEnrollment, NextStepMFA}" for s b
    by (cases s; cases b) (auto simp: CanTransitionTo_def)
  show "CanTransitionTo (fi_CurrentStep input) (fd_NextStep d)"
    using assms
    by (auto simp: ResolveNextStep_def Let_def split: option.splits if_splits consent_mode.splits)
  show "fd_NextStep d = NextStepConsent \<Longrightarrow> fi_CurrentStep input \<in> {NextStepMFAEnrollment, NextStepMFA}"
    using assms mfa [of "fi_CurrentStep input" True] mfa [of "fi_CurrentStep input" False]
    by (auto simp: ResolveNextStep_def Let_def verificationNextStep_def
        split: option.splits if_splits consent_mode.splits contact_requirement.splits)
  show "fd_AuthorizationSource d = Some src \<Longrightarrow> fd_NextStep d = NextStepConsent \<and>
      (\<exists>f. fi_Facts input = Some f \<and>
         (fa_consentMode f = ConsentModeTrusted \<and> src = AuthorizationSourceTrustedClient \<or>
          fa_consentMode f = ConsentModeRemember \<and> fa_rememberedGrantCovers f \<and>
          src = AuthorizationSourceRememberedGrant))"
    using assms
    by (auto simp: ResolveNextStep_def Let_def split: option.splits if_splits consent_mode.splits)
qed

text \<open>The policy never gets stuck before consent: with facts there is always a next step.\<close>

lemma ResolveNextStep_total:
  assumes "requirement_IsValid (rq_ContactVerification (fi_Requirements input))"
    and "fi_Facts input = Some f" and "facts_wf f"
    and "fi_CurrentStep input \<notin> {NextStepConsent, NextStepReady, NoNextStep} \<union> range OtherNextStep"
  shows "\<exists>d. ResolveNextStep input = Inr d"
proof -
  have "CanTransitionTo (fi_CurrentStep input) NextStepConsent"
    using assms(4) by (cases "fi_CurrentStep input") (auto simp: CanTransitionTo_def)
  with assms(1-3) show ?thesis
    by (auto simp: ResolveNextStep_def requirements_Validate_def facts_wf_def Let_def split: consent_mode.splits)
qed

end
