(* ===== verification/Identity_Properties.thy ===== *)
theory Identity_Properties
  imports Identity_Refresh Identity_Client_Invariant Identity_Session Identity_Grant Identity_Flow
begin

text \<open>The properties of the identity service, with their witnesses.\<close>

section \<open>Refresh tokens\<close>

text \<open>
  a refresh token is exchanged at most once: after the rotation that exchanges it, no call on
  the family, however it has been used since, exchanges it again.
\<close>

theorem refresh_token_once:
  assumes "family_reachable f"
    and "Rotate p n h e ip ua now f = (Inr RotationOutcomeRotated, g)"
    and "family_step\<^sup>*\<^sup>* g g'"
  shows "fst (Rotate p n' h' e' ip' ua' now' g') \<noteq> Inr RotationOutcomeRotated"
proof -
  have wf: "family_wf f" using assms(1) by (rule family_reachable_wf)
  have "spent p g"
    using wf assms(2) by (cases rule: Rotate_cases) (auto simp: spent_def family_rotated_def)
  moreover have "family_wf g" using Rotate_keeps_wf [OF wf assms(2)] .
  ultimately show ?thesis
    using spent_not_rotated family_steps_wf [OF assms(3)] spent_steps [OF assms(3)] by blast
qed

definition demo_family :: refresh_token_family where
  "demo_family = projr (New_family 1 2 3 ''h0'' 100 200 None None 10)"

lemma demo_family_reachable: "family_reachable demo_family"
  by (rule family_reachable.created [of 1 2 3 "''h0''" 100 200 None None 10]) code_simp

definition demo_rotated :: refresh_token_family where
  "demo_rotated = snd (Rotate 3 4 ''h1'' 150 None None 20 demo_family)"

lemma demo_rotated_ok: "Rotate 3 4 ''h1'' 150 None None 20 demo_family = (Inr RotationOutcomeRotated, demo_rotated)"
  by code_simp

theorem refresh_token_once_witness:
  "fst (Rotate 3 5 ''h2'' 160 None None 30 demo_rotated) \<noteq> Inr RotationOutcomeRotated"
  by (rule refresh_token_once [OF demo_family_reachable demo_rotated_ok rtranclp.rtrancl_refl])

text \<open>
  C17. a refresh token that is presented again after its exchange, while the family is in use, is
  detected: the call revokes every token of the family, and the family never changes or exchanges a
  token again.
\<close>

theorem refresh_replay_revokes:
  assumes "family_reachable f" and "spent p f" and "rf_RevokedAt f = None"
    and "rf_latestChangedAt f \<le> now" and "now \<noteq> 0" and "now < rf_AbsoluteExpiresAt f"
  shows "\<exists>g. Rotate p n h e ip ua now f = (Inr RotationOutcomeReuseDetected, g) \<and>
     rf_RevokedAt g = Some now \<and> (\<forall>t \<in> set (rf_Tokens g). rt_RevokedAt t \<noteq> None) \<and>
     (\<forall>g' q n' h' e' ip' ua' now'. family_step\<^sup>*\<^sup>* g g' \<longrightarrow>
        g' = g \<and> isl (fst (Rotate q n' h' e' ip' ua' now' g')))"
proof (intro exI conjI allI impI)
  let ?g = "family_reused p now f"
  have wf: "family_wf f" using assms(1) by (rule family_reachable_wf)
  show "Rotate p n h e ip ua now f = (Inr RotationOutcomeReuseDetected, ?g)"
    using Rotate_replay [OF wf assms(2-6)] .
  show "rf_RevokedAt ?g = Some now" "\<forall>t \<in> set (rf_Tokens ?g). rt_RevokedAt t \<noteq> None"
    using family_reused_revoked by auto
  fix g' q n' h' e' ip' ua' now'
  assume "family_step\<^sup>*\<^sup>* ?g g'"
  then show g': "g' = ?g" by (rule revoked_steps) (simp add: family_reused_revoked)
  have "ensureRotationAllowed now' ?g \<noteq> None"
    by (simp add: ensureRotationAllowed_def family_reused_revoked)
  then show "isl (fst (Rotate q n' h' e' ip' ua' now' g'))"
    unfolding g' by (auto simp: Rotate_def split: option.splits)
qed

theorem refresh_replay_revokes_witness:
  "\<exists>g. Rotate 3 5 ''h2'' 160 None None 30 demo_rotated = (Inr RotationOutcomeReuseDetected, g) \<and>
     rf_RevokedAt g = Some 30"
proof -
  have "family_reachable demo_rotated"
    using family_reachable.stepped [OF demo_family_reachable family_step.rotate]
    unfolding demo_rotated_def .
  moreover have "spent 3 demo_rotated" "rf_RevokedAt demo_rotated = None"
    "rf_latestChangedAt demo_rotated \<le> 30" "(30 :: gotime) < rf_AbsoluteExpiresAt demo_rotated"
    by code_simp+
  ultimately show ?thesis
    using refresh_replay_revokes [of demo_rotated 3 30 5 "''h2''" 160 None None] by auto
qed

text \<open>
  C18. however a family has been used, its tokens form one chain in which all but the last are
  exchanged, identifiers and hashes are unique, no token outlives the family, the tokens are revoked
  if and only if the family is, and a rotation that fails has changed nothing.
\<close>

theorem family_chain:
  assumes "family_reachable f"
  shows "(\<exists>ts t. rf_Tokens f = ts @ [t] \<and> (\<forall>s \<in> set ts. rt_RotatedAt s \<noteq> None) \<and> rt_RotatedAt t = None) \<and>
     chain None (rf_Tokens f) \<and> distinct (map rt_ID (rf_Tokens f)) \<and> distinct (map rt_Hash (rf_Tokens f)) \<and>
     (\<forall>t \<in> set (rf_Tokens f). rt_IssuedAt t < rt_ExpiresAt t \<and> rt_ExpiresAt t \<le> rf_AbsoluteExpiresAt f \<and>
        (rt_RevokedAt t = None \<longleftrightarrow> rf_RevokedAt f = None)) \<and>
     (\<forall>p n h e ip ua now err g. Rotate p n h e ip ua now f = (Inl err, g) \<longrightarrow> g = f)"
proof -
  have wf: "family_wf f" using assms by (rule family_reachable_wf)
  have "g = f" if "Rotate p n h e ip ua now f = (Inl err, g)" for p n h e ip ua now err g
    using wf that by (cases rule: Rotate_cases) simp_all
  with wf show ?thesis by (auto simp: family_wf_def token_within_def)
qed

theorem family_chain_witness: "chain None (rf_Tokens demo_family) \<and> length (rf_Tokens demo_family) = 1"
  using family_chain [OF demo_family_reachable] by (simp add: demo_family_def New_family_def newRefreshToken_def)


section \<open>Clients\<close>

definition demo_client :: oauth_client where
  "demo_client =
     projr (NewConfidential 1 ''app'' ''App'' None None 2 ''https://app.test/cb'' 3 ''hash'' None None 10)"

lemma demo_client_ok:
  "NewConfidential 1 ''app'' ''App'' None None 2 ''https://app.test/cb'' 3 ''hash'' None None 10 = Inr demo_client"
  by code_simp

lemma demo_client_reachable: "client_reachable demo_client"
  using demo_client_ok by (rule client_reachable.confidential)



text \<open>
  C20. deleting a client revokes all its credentials and is final: no later call changes the client, and
  it authorizes, exchanges and authenticates nothing any more.
\<close>

theorem deleted_client_final:
  assumes "client_reachable c" and "Delete now c = (None, d)" and "client_step\<^sup>*\<^sup>* d d'"
  shows "d' = d \<and> (\<forall>x \<in> set (oc_Credentials d). cr_RevokedAt x \<noteq> None) \<and>
     ValidateAuthorizationCodeFlow ss t d' \<noteq> None \<and> ValidateTokenExchange g t d' \<noteq> None \<and>
     ValidateCredential k t d' \<noteq> None"
proof -
  have wf: "client_wf c" using assms(1) by (rule client_reachable_wf)
  note del = Delete_wf [OF wf assms(2)]
  then have d: "client_wf d" "oc_Status d = Client_Deleted"
    by (blast, simp add: touch_def)
  have "d' = d"
    using assms(3) d(2) by (induction rule: rtranclp_induct) (metis client_step_iff deleted_refuses prod.collapse)+
  moreover have "\<forall>x \<in> set (oc_Credentials d). cr_RevokedAt x \<noteq> None"
    using d by (simp add: client_wf_def client_credentials_def)
  ultimately show ?thesis using deleted_allows_nothing [OF d(2)] by simp
qed

theorem deleted_client_final_witness:
  "ValidateTokenExchange GrantTypeRefreshToken 40 (snd (Delete 30 demo_client)) \<noteq> None"
proof -
  have "Delete 30 demo_client = (None, snd (Delete 30 demo_client))" by code_simp
  from deleted_client_final [OF demo_client_reachable this rtranclp.rtrancl_refl] show ?thesis by blast
qed

text \<open>
  An active confidential client accepts a credential exactly while it is registered, not revoked and
  not expired.
\<close>

theorem credential_accepted_exactly:
  assumes "client_reachable c"
  shows "ValidateCredential k now c = None \<longleftrightarrow>
     oc_Status c = Client_Active \<and> oc_ClientType c = ClientTypeConfidential \<and> now \<noteq> 0 \<and> oc_UpdatedAt c \<le> now \<and>
     (\<exists>x \<in> set (oc_Credentials c). cr_ID x = k \<and> cr_RevokedAt x = None \<and>
        (\<forall>e. cr_ExpiresAt x = Some e \<longrightarrow> now < e))"
proof -
  have wf: "client_wf c" using assms by (rule client_reachable_wf)
  have "cr_IsUsable now x \<longleftrightarrow> cr_RevokedAt x = None \<and> (\<forall>e. cr_ExpiresAt x = Some e \<longrightarrow> now < e)"
    if "now \<noteq> 0" "oc_UpdatedAt c \<le> now" "x \<in> set (oc_Credentials c)" for x
  proof -
    have "cr_UpdatedAt x \<le> now"
      using wf that(2,3) by (auto simp: client_wf_def client_credentials_def intro: order_trans)
    with that(1) show ?thesis by (cases "cr_ExpiresAt x") (auto simp: cr_IsUsable_def)
  qed
  then show ?thesis
    unfolding credential_accepted [OF wf] by blast
qed

theorem credential_accepted_exactly_witness: "ValidateCredential 3 20 demo_client = None"
proof -
  have "oc_Status demo_client = Client_Active" "oc_ClientType demo_client = ClientTypeConfidential"
    "oc_UpdatedAt demo_client \<le> 20"
    "\<exists>x \<in> set (oc_Credentials demo_client). cr_ID x = 3 \<and> cr_RevokedAt x = None \<and> cr_ExpiresAt x = None"
    by code_simp+
  then show ?thesis
    unfolding credential_accepted_exactly [OF demo_client_reachable] by auto
qed

section \<open>Authentication\<close>

text \<open>
  C21. a list of methods has a level exactly when it is a non-empty list of different known methods, and
  the level is multi-factor exactly when it has a password and something else: two things the user
  has, such as a TOTP and a recovery code, are a single factor.
\<close>

theorem level_exact:
  "(ResolveLevel ms :: ierror + auth_level) = Inr l \<longleftrightarrow>
     ms \<noteq> [] \<and> distinct ms \<and> (\<forall>m \<in> set ms. method_IsValid m) \<and>
     l = (if MethodPassword \<in> set ms \<and> (\<exists>m \<in> set ms. m \<noteq> MethodPassword)
          then LevelMultiFactor else LevelSingleFactor)"
  by (rule ResolveLevel_ok)

theorem level_exact_witness:
  "(ResolveLevel [MethodTOTP, MethodRecoveryCode] :: ierror + auth_level) = Inr LevelSingleFactor"
  unfolding level_exact by (simp add: method_IsValid_def)


definition demo_txn :: transaction where
  "demo_txn = projr (New_transaction 1 2 ''https://app.test/cb'' [''openid'', ''email''] None None False None 100 10)"

lemma demo_txn_ok:
  "New_transaction 1 2 ''https://app.test/cb'' [''openid'', ''email''] None None False None 100 10 = Inr demo_txn"
  by code_simp




text \<open>
  C23. a transaction only moves forward: it takes at most fourteen successful calls, never returns to an
  earlier state, and changes no more once it is completed or denied.
\<close>

theorem transaction_forward:
  assumes "New_transaction k c u ss st n req p x now = Inr t"
    and "txn_change\<^sup>*\<^sup>* t v" and "(txn_change ^^ m) v v'"
  shows "m \<le> 14 \<and> (m > 0 \<longrightarrow> v' \<noteq> v) \<and> (txn_finished v \<longrightarrow> m = 0 \<and> v' = v)"
proof -
  have wf: "txn_wf v"
    using assms(2) New_transaction_wf [OF assms(1)] by (induction rule: rtranclp_induct) (auto intro: txn_change_wf)
  have "m \<le> 14" using txn_calls_bounded [OF assms(3) wf] .
  moreover have "m = 0" if "v' = v"
    using txn_life.run_length [OF assms(3)] that by simp
  moreover have "v' = v" if "txn_finished v"
    using txn_life.terminal_stays [OF _ that] assms(3) relpowp_imp_rtranclp by fast
  ultimately show ?thesis by auto
qed

theorem transaction_forward_witness: "snd (txn_do T_Deny 20 demo_txn) \<noteq> demo_txn"
proof -
  have wf: "txn_wf demo_txn" using demo_txn_ok by (rule New_transaction_wf)
  have "txn_do T_Deny 20 demo_txn = (None, snd (txn_do T_Deny 20 demo_txn))" by code_simp
  with wf have "txn_change demo_txn (snd (txn_do T_Deny 20 demo_txn))"
    unfolding txn_change_def by blast
  then have "(txn_change ^^ 1) demo_txn (snd (txn_do T_Deny 20 demo_txn))" by (simp only: relpowp_1)
  with transaction_forward [OF demo_txn_ok rtranclp.rtrancl_refl, of 1] show ?thesis by simp
qed

text \<open>
  C24. with valid requirements and facts, a transaction that is not yet at consent always has a next
  step; it is a step the transaction may take, consent comes only after the second factor or the step
  that enrolls one, and the policy decides a source of authorization only at consent, for a trusted
  client or a remembered grant that covers the request.
\<close>

theorem next_step_policy:
  assumes "requirement_IsValid (rq_ContactVerification (fi_Requirements input))"
    and "fi_Facts input = Some f" and "facts_wf f"
    and "fi_CurrentStep input \<notin> {NextStepConsent, NextStepReady, NoNextStep} \<union> range OtherNextStep"
  shows "\<exists>d. ResolveNextStep input = Inr d \<and> CanTransitionTo (fi_CurrentStep input) (fd_NextStep d) \<and>
     (fd_NextStep d = NextStepConsent \<longrightarrow> fi_CurrentStep input \<in> {NextStepMFAEnrollment, NextStepMFA}) \<and>
     (fd_AuthorizationSource d \<noteq> None \<longrightarrow> fd_NextStep d = NextStepConsent \<and>
        (fa_consentMode f = ConsentModeTrusted \<or>
         fa_consentMode f = ConsentModeRemember \<and> fa_rememberedGrantCovers f))"
proof -
  obtain d where d: "ResolveNextStep input = Inr d"
    using ResolveNextStep_total [OF assms] by blast
  with ResolveNextStep_ok [OF d] assms(2) show ?thesis by fastforce
qed

theorem next_step_policy_witness:
  "\<exists>d. ResolveNextStep \<lparr>fi_CurrentStep = NextStepMFA,
        fi_Requirements = \<lparr>rq_PasswordChangeRequired = True, rq_ContactVerification = ContactVerificationNone\<rparr>,
        fi_Facts = Some \<lparr>fa_availableMFAMethods = [MethodTOTP], fa_consentMode = ConsentModeTrusted,
                       fa_rememberedGrantCovers = False\<rparr>\<rparr> = Inr d \<and> CanTransitionTo NextStepMFA (fd_NextStep d)"
  using next_step_policy [of "\<lparr>fi_CurrentStep = NextStepMFA,
        fi_Requirements = \<lparr>rq_PasswordChangeRequired = True, rq_ContactVerification = ContactVerificationNone\<rparr>,
        fi_Facts = Some \<lparr>fa_availableMFAMethods = [MethodTOTP], fa_consentMode = ConsentModeTrusted,
                       fa_rememberedGrantCovers = False\<rparr>\<rparr>"]
  by (auto simp: requirement_IsValid_def facts_wf_def)


section \<open>Sessions, codes and grants\<close>

text \<open>
  C25. whatever calls a session sees, it is for the same identity, client and scopes, it is used only
  before the absolute lifetime it was created with, without activity only before its idle lifetime,
  and never after it was revoked.
\<close>

theorem session_lifetime:
  assumes "New_session k i c l ms ss ip ua dn a idle ab now = Inr s" and "session_step\<^sup>*\<^sup>* s s'"
  shows "se_IdentityID s' = i \<and> se_OAuthClientID s' = c \<and> se_Scopes s' = ss \<and>
     (ValidateForUse t s' = None \<longrightarrow> t < ab \<and> t < se_IdleExpiresAt s' \<and> se_RevokedAt s' = None) \<and>
     idle \<le> se_IdleExpiresAt s' \<and> se_IdleExpiresAt s' \<le> ab \<and> (se_LastSeenAt s' = None \<longrightarrow> se_IdleExpiresAt s' = idle) \<and>
     (se_RevokedAt s' \<noteq> None \<longrightarrow> (\<forall>s''. session_step\<^sup>*\<^sup>* s' s'' \<longrightarrow> ValidateForUse t s'' \<noteq> None))"
proof -
  note new = New_session_ok [OF assms(1)]
  have wf: "session_wf s'" using session_steps_wf [OF assms(2)] new by blast
  have same: "session_same s s'" using session_steps_same [OF assms(2)] .
  have "se_LastSeenAt s' = None \<longrightarrow> se_IdleExpiresAt s' = se_IdleExpiresAt s"
    using assms(2)
  proof (induction rule: rtranclp_induct)
    case (step t u)
    from step.hyps(2) step.IH show ?case by (elim session_step_cases) auto
  qed simp
  moreover have "ValidateForUse t s'' \<noteq> None" if "se_RevokedAt s' \<noteq> None" "session_step\<^sup>*\<^sup>* s' s''" for s''
    using session_steps_same [OF that(2)] that(1) by (auto simp: session_same_def ValidateForUse_ok)
  ultimately show ?thesis
    using new wf same by (auto simp: session_same_def session_wf_def ValidateForUse_ok)
qed

definition demo_session :: session where
  "demo_session = projr (New_session 1 2 3 LevelSingleFactor [MethodPassword] [''openid''] None None None 5 50 100 10)"

lemma demo_session_ok:
  "New_session 1 2 3 LevelSingleFactor [MethodPassword] [''openid''] None None None 5 50 100 10 = Inr demo_session"
  by code_simp

theorem session_lifetime_witness: "ValidateForUse 60 (snd (RecordActivity 20 90 demo_session)) = None \<and>
    se_IdleExpiresAt (snd (RecordActivity 20 90 demo_session)) \<le> 100"
proof
  show "ValidateForUse 60 (snd (RecordActivity 20 90 demo_session)) = None" by code_simp
  have "session_step\<^sup>*\<^sup>* demo_session (snd (RecordActivity 20 90 demo_session))"
    by (rule r_into_rtranclp) (rule session_step.activity)
  from session_lifetime [OF demo_session_ok this]
  show "se_IdleExpiresAt (snd (RecordActivity 20 90 demo_session)) \<le> 100" by blast
qed






text \<open>
  consent is resolved exactly for requests of registered scopes, and the user is not asked only for
  a trusted client, or for a client that remembers consent and holds a grant that is active and covers
  every scope of the request; a forced consent is always asked for.
\<close>

theorem consent_exact:
  "ResolveConsent c g ss forced now = Inr d \<longleftrightarrow>
     ss \<noteq> [] \<and> distinct ss \<and> '''' \<notin> set ss \<and> set ss \<subseteq> sr_Scope ` set (oc_Scopes c) \<and> cd_Scopes d = ss \<and>
     cd_Kind d =
       (if forced then ConsentRequired
        else if oc_ConsentMode c = ConsentModeTrusted then ConsentTrustedClient
        else if oc_ConsentMode c = ConsentModeRemember \<and>
          (\<exists>h. g = Some h \<and> grant_active now h \<and> set ss \<subseteq> set (ag_Scopes h))
        then ConsentRememberedGrant else ConsentRequired)"
  unfolding ResolveConsent_ok validateScopes_ok Covers_iff
  by (cases "ss = []"; cases forced; simp only: simp_thms if_True if_False conj_assoc)

text \<open>
  After an extension a grant covers what it covered before and the new scopes; after a replacement
  the new scopes only, also where it had been revoked; after a revocation nothing.
\<close>

theorem grant_covers_exactly:
  assumes "grant_wf g"
  shows "(Extend ss e now g = (None, g') \<longrightarrow>
      grant_wf g' \<and> (Covers rs now g' \<longleftrightarrow> rs \<noteq> [] \<and> set rs \<subseteq> set (ag_Scopes g) \<union> set ss)) \<and>
    (Replace src ss e now g = (None, g') \<longrightarrow>
      grant_wf g' \<and> (Covers rs now g' \<longleftrightarrow> rs \<noteq> [] \<and> set rs \<subseteq> set ss)) \<and>
    (grant_Revoke now g = (None, g') \<longrightarrow> grant_wf g' \<and> \<not> Covers rs t g')"
  using Extend_ok [OF assms, of ss e now g'] Replace_ok [of src ss e now g g']
    grant_Revoke_ok [OF assms, of now g' rs t]
  by blast

theorem grant_covers_exactly_witness:
  "\<exists>g. New_grant 1 2 3 SourceUserConsent [''openid''] None 10 = Inr g \<and>
     Covers [''email'', ''openid''] 20 (snd (Extend [''email''] None 20 g))"
proof -
  obtain g where g: "New_grant 1 2 3 SourceUserConsent [''openid''] None 10 = Inr g" and s: "ag_Scopes g = [''openid'']"
    by (simp add: New_grant_def ParseSource_def validateScopes_def)
  have wf: "grant_wf g" using New_grant_ok [OF g] by blast
  have "g = projr (New_grant 1 2 3 SourceUserConsent [''openid''] None 10)" using g by simp
  then have "fst (Extend [''email''] None 20 g) = None" by (simp only:) code_simp
  then have "Extend [''email''] None 20 g = (None, snd (Extend [''email''] None 20 g))" by (metis prod.collapse)
  with grant_covers_exactly [OF wf, of "[''email'']" None 20 _ "[''email'', ''openid'']"] s
  have "Covers [''email'', ''openid''] 20 (snd (Extend [''email''] None 20 g))" by auto
  with g show ?thesis by blast
qed

end
