(* ===== verification/Identity_Account.thy ===== *)
theory Identity_Account
  imports Identity_Common
begin

text \<open>
  The account aggregate, \<open>internal/domain/identity\<close>: an identity with its e-mail addresses, phones and
  external accounts, its status, and the rule that it can always be logged in to. Parsing an address
  (\<open>net/mail\<close>, \<open>regexp\<close>) is left out. \<open>Email\<close> and \<open>Phone\<close> are the same type but for the words of
  their errors, so they share the definitions on \<open>contact\<close>.
\<close>

section \<open>E-mail addresses and phones\<close>

record contact =
  ct_ID :: uuid
  ct_Value :: string
  ct_IsPrimary :: bool
  ct_CreatedAt :: gotime
  ct_UpdatedAt :: gotime
  ct_VerifiedAt :: "gotime option"
  ct_DeletedAt :: "gotime option"

definition newContact :: "string \<Rightarrow> uuid \<Rightarrow> string \<Rightarrow> bool \<Rightarrow> gotime \<Rightarrow> ierror + contact" where
  "newContact noun k value primary now =
     (if k = uuid_nil \<or> is_zero now
      then Inl (Fresh (''identity '' @ noun @ '' constructor arguments are invalid''))
      else Inr \<lparr>ct_ID = k, ct_Value = value, ct_IsPrimary = primary, ct_CreatedAt = now, ct_UpdatedAt = now,
                ct_VerifiedAt = None, ct_DeletedAt = None\<rparr>)"

definition contact_IsActive :: "contact \<Rightarrow> bool" where
  "contact_IsActive c \<longleftrightarrow> ct_DeletedAt c = None"

definition contact_IsUsable :: "contact \<Rightarrow> bool" where
  "contact_IsUsable c \<longleftrightarrow> contact_IsActive c \<and> ct_VerifiedAt c \<noteq> None"

definition contact_IsMain :: "contact \<Rightarrow> bool" where
  "contact_IsMain c \<longleftrightarrow> contact_IsActive c \<and> ct_IsPrimary c"

definition contact_HasID :: "uuid \<Rightarrow> contact \<Rightarrow> bool" where
  "contact_HasID k c \<longleftrightarrow> contact_IsActive c \<and> ct_ID c = k"

definition contact_ensureChangeAllowed :: "string \<Rightarrow> gotime \<Rightarrow> contact \<Rightarrow> ierror option" where
  "contact_ensureChangeAllowed noun now c =
     (if \<not> contact_IsActive c then Some (Fresh (noun @ '' is deleted''))
      else if is_zero now \<or> before now (ct_UpdatedAt c)
      then Some (Fresh (noun @ '' change time is invalid''))
      else None)"

definition contact_Verify :: "string \<Rightarrow> gotime \<Rightarrow> contact \<Rightarrow> ierror option \<times> contact" where
  "contact_Verify noun now c =
     (case contact_ensureChangeAllowed noun now c of
        Some err \<Rightarrow> (Some err, c)
      | None \<Rightarrow>
          if ct_VerifiedAt c \<noteq> None then (Some (Fresh (noun @ '' is already verified'')), c)
          else (None, c\<lparr>ct_VerifiedAt := Some now, ct_UpdatedAt := now\<rparr>))"

text \<open>\<open>Promote\<close> reports whether the contact became primary.\<close>

definition contact_Promote :: "string \<Rightarrow> gotime \<Rightarrow> contact \<Rightarrow> (ierror + bool) \<times> contact" where
  "contact_Promote noun now c =
     (case contact_ensureChangeAllowed noun now c of
        Some err \<Rightarrow> (Inl err, c)
      | None \<Rightarrow>
          if ct_VerifiedAt c = None then (Inl (Fresh (noun @ '' is not verified'')), c)
          else if ct_IsPrimary c then (Inr False, c)
          else (Inr True, c\<lparr>ct_IsPrimary := True, ct_UpdatedAt := now\<rparr>))"

definition contact_Demote :: "string \<Rightarrow> gotime \<Rightarrow> contact \<Rightarrow> ierror option \<times> contact" where
  "contact_Demote noun now c =
     (if \<not> contact_IsActive c \<or> \<not> ct_IsPrimary c then (None, c)
      else case contact_ensureChangeAllowed noun now c of
        Some err \<Rightarrow> (Some err, c)
      | None \<Rightarrow> (None, c\<lparr>ct_IsPrimary := False, ct_UpdatedAt := now\<rparr>))"

definition contact_Remove :: "string \<Rightarrow> gotime \<Rightarrow> contact \<Rightarrow> ierror option \<times> contact" where
  "contact_Remove noun now c =
     (case contact_ensureChangeAllowed noun now c of
        Some err \<Rightarrow> (Some err, c)
      | None \<Rightarrow> (None, c\<lparr>ct_IsPrimary := False, ct_DeletedAt := Some now, ct_UpdatedAt := now\<rparr>))"

text \<open>The lists of contacts of an identity: counting, searching, and demoting all but one.\<close>

definition active_count :: "contact list \<Rightarrow> nat" where
  "active_count xs = length (filter contact_IsActive xs)"

definition has_value :: "string \<Rightarrow> contact list \<Rightarrow> bool" where
  "has_value v xs = list_ex (\<lambda>c. ct_Value c = v) xs"

definition contact_index :: "uuid \<Rightarrow> contact list \<Rightarrow> nat option" where
  "contact_index k xs = index_by (contact_HasID k) xs"

fun demote_except :: "string \<Rightarrow> nat \<Rightarrow> gotime \<Rightarrow> nat \<Rightarrow> contact list \<Rightarrow> ierror option \<times> contact list" where
  "demote_except noun keep now i [] = (None, [])"
| "demote_except noun keep now i (c # cs) =
     (case (if i \<noteq> keep then contact_Demote noun now c else (None, c)) of
        (Some err, c) \<Rightarrow> (Some err, c # cs)
      | (None, c) \<Rightarrow> (case demote_except noun keep now (i + 1) cs of (r, cs) \<Rightarrow> (r, c # cs)))"

text \<open>The instances: the methods of \<open>Email\<close> and of \<open>Phone\<close>.\<close>

type_synonym email = contact
type_synonym phone = contact

definition newEmail :: "uuid \<Rightarrow> string \<Rightarrow> bool \<Rightarrow> gotime \<Rightarrow> ierror + email" where
  "newEmail = newContact ''email''"

definition email_Verify :: "gotime \<Rightarrow> email \<Rightarrow> ierror option \<times> email" where
  "email_Verify = contact_Verify ''email''"

definition email_Promote :: "gotime \<Rightarrow> email \<Rightarrow> (ierror + bool) \<times> email" where
  "email_Promote = contact_Promote ''email''"

definition email_Remove :: "gotime \<Rightarrow> email \<Rightarrow> ierror option \<times> email" where
  "email_Remove = contact_Remove ''email''"

definition newPhone :: "uuid \<Rightarrow> string \<Rightarrow> bool \<Rightarrow> gotime \<Rightarrow> ierror + phone" where
  "newPhone = newContact ''phone''"

definition phone_Verify :: "gotime \<Rightarrow> phone \<Rightarrow> ierror option \<times> phone" where
  "phone_Verify = contact_Verify ''phone''"

definition phone_Promote :: "gotime \<Rightarrow> phone \<Rightarrow> (ierror + bool) \<times> phone" where
  "phone_Promote = contact_Promote ''phone''"

definition phone_Remove :: "gotime \<Rightarrow> phone \<Rightarrow> ierror option \<times> phone" where
  "phone_Remove = contact_Remove ''phone''"

lemmas contact_instances = newEmail_def email_Verify_def email_Promote_def email_Remove_def
  newPhone_def phone_Verify_def phone_Promote_def phone_Remove_def


section \<open>External accounts\<close>

record external_account =
  ea_ID :: uuid
  ea_Provider :: string
  ea_Subject :: string
  ea_LinkedAt :: gotime
  ea_LastAuthenticatedAt :: "gotime option"
  ea_DisabledAt :: "gotime option"
  ea_DeletedAt :: "gotime option"

definition newExternalAccount :: "uuid \<Rightarrow> string \<Rightarrow> string \<Rightarrow> gotime \<Rightarrow> ierror + external_account" where
  "newExternalAccount k provider subject now =
     (if k = uuid_nil \<or> is_zero now
      then Inl (Fresh ''external identity account constructor arguments are invalid'')
      else Inr \<lparr>ea_ID = k, ea_Provider = provider, ea_Subject = subject, ea_LinkedAt = now,
                ea_LastAuthenticatedAt = None, ea_DisabledAt = None, ea_DeletedAt = None\<rparr>)"

definition ea_IsActive :: "external_account \<Rightarrow> bool" where
  "ea_IsActive a \<longleftrightarrow> ea_DeletedAt a = None"

definition ea_IsUsable :: "external_account \<Rightarrow> bool" where
  "ea_IsUsable a \<longleftrightarrow> ea_IsActive a \<and> ea_DisabledAt a = None"

definition ea_Matches :: "string \<Rightarrow> string \<Rightarrow> external_account \<Rightarrow> bool" where
  "ea_Matches provider subject a \<longleftrightarrow> ea_Provider a = provider \<and> ea_Subject a = subject"

definition ea_HasID :: "uuid \<Rightarrow> external_account \<Rightarrow> bool" where
  "ea_HasID k a \<longleftrightarrow> ea_IsActive a \<and> ea_ID a = k"

definition ea_latestChangedAt :: "external_account \<Rightarrow> gotime" where
  "ea_latestChangedAt a = latest (ea_LinkedAt a) [ea_LastAuthenticatedAt a, ea_DisabledAt a, ea_DeletedAt a]"

definition ea_ensureChangeAllowed :: "gotime \<Rightarrow> external_account \<Rightarrow> ierror option" where
  "ea_ensureChangeAllowed now a =
     (if \<not> ea_IsActive a then Some (Fresh ''external identity account is deleted'')
      else if is_zero now \<or> before now (ea_latestChangedAt a)
      then Some (Fresh ''external identity account change time is invalid'')
      else None)"

abbreviation (input) idn_error :: "identity_sentinel \<Rightarrow> ierror" where
  "idn_error s \<equiv> Sentinel (S_idn s)"

definition ea_RecordAuthentication :: "gotime \<Rightarrow> external_account \<Rightarrow> ierror option \<times> external_account" where
  "ea_RecordAuthentication now a =
     (case ea_ensureChangeAllowed now a of
        Some err \<Rightarrow> (Some err, a)
      | None \<Rightarrow>
          if \<not> ea_IsUsable a then (Some (idn_error Idn_ErrExternalAccountDisabled), a)
          else (None, a\<lparr>ea_LastAuthenticatedAt := Some now\<rparr>))"

definition ea_Disable :: "gotime \<Rightarrow> external_account \<Rightarrow> ierror option \<times> external_account" where
  "ea_Disable now a =
     (case ea_ensureChangeAllowed now a of
        Some err \<Rightarrow> (Some err, a)
      | None \<Rightarrow>
          if ea_DisabledAt a \<noteq> None then (Some (idn_error Idn_ErrExternalAccountDisabled), a)
          else (None, a\<lparr>ea_DisabledAt := Some now\<rparr>))"

definition ea_Enable :: "gotime \<Rightarrow> external_account \<Rightarrow> ierror option \<times> external_account" where
  "ea_Enable now a =
     (case ea_ensureChangeAllowed now a of
        Some err \<Rightarrow> (Some err, a)
      | None \<Rightarrow>
          if ea_DisabledAt a = None then (Some (Fresh ''account is not disabled''), a)
          else (None, a\<lparr>ea_DisabledAt := None\<rparr>))"

definition ea_Unlink :: "gotime \<Rightarrow> external_account \<Rightarrow> ierror option \<times> external_account" where
  "ea_Unlink now a =
     (case ea_ensureChangeAllowed now a of
        Some err \<Rightarrow> (Some err, a)
      | None \<Rightarrow> (None, a\<lparr>ea_DeletedAt := Some now\<rparr>))"


section \<open>The identity\<close>

datatype identity_status =
  Identity_Pending | Identity_Active | Identity_Disabled | Identity_Deleted | OtherIdentityStatus string

definition ParseIdentityStatus :: "string \<Rightarrow> ierror + identity_status" where
  "ParseIdentityStatus value =
     (if value = ''pending'' then Inr Identity_Pending
      else if value = ''active'' then Inr Identity_Active
      else if value = ''disabled'' then Inr Identity_Disabled
      else if value = ''deleted'' then Inr Identity_Deleted
      else Inl (Fresh ''unknown identity status''))"

record identity =
  idn_ID :: uuid
  idn_Status :: identity_status
  idn_Emails :: "email list"
  idn_Phones :: "phone list"
  idn_ExternalAccounts :: "external_account list"
  idn_CreatedAt :: gotime
  idn_UpdatedAt :: gotime
  idn_DeletedAt :: "gotime option"

definition newIdentity :: "uuid \<Rightarrow> gotime \<Rightarrow> ierror + identity" where
  "newIdentity k now =
     (if k = uuid_nil \<or> is_zero now then Inl (Fresh ''identity constructor arguments are invalid'')
      else Inr \<lparr>idn_ID = k, idn_Status = Identity_Pending, idn_Emails = [], idn_Phones = [],
                idn_ExternalAccounts = [], idn_CreatedAt = now, idn_UpdatedAt = now, idn_DeletedAt = None\<rparr>)"

definition NewWithEmail :: "uuid \<Rightarrow> uuid \<Rightarrow> string \<Rightarrow> gotime \<Rightarrow> ierror + identity" where
  "NewWithEmail k emailID address now =
     (case newIdentity k now of
        Inl err \<Rightarrow> Inl (Wrap ''create identity with email: '' err '''')
      | Inr entity \<Rightarrow>
          (case newEmail emailID address True now of
             Inl err \<Rightarrow> Inl (Wrap ''create initial identity email: '' err '''')
           | Inr email \<Rightarrow> Inr (entity\<lparr>idn_Emails := idn_Emails entity @ [email]\<rparr>)))"

definition NewWithPhone :: "uuid \<Rightarrow> uuid \<Rightarrow> string \<Rightarrow> gotime \<Rightarrow> ierror + identity" where
  "NewWithPhone k phoneID number now =
     (case newIdentity k now of
        Inl err \<Rightarrow> Inl (Wrap ''create identity with phone: '' err '''')
      | Inr entity \<Rightarrow>
          (case newPhone phoneID number True now of
             Inl err \<Rightarrow> Inl (Wrap ''create initial identity phone: '' err '''')
           | Inr phone \<Rightarrow> Inr (entity\<lparr>idn_Phones := idn_Phones entity @ [phone]\<rparr>)))"

definition NewWithExternalAccount :: "uuid \<Rightarrow> uuid \<Rightarrow> string \<Rightarrow> string \<Rightarrow> gotime \<Rightarrow> ierror + identity" where
  "NewWithExternalAccount k accountID provider subject now =
     (case newIdentity k now of
        Inl err \<Rightarrow> Inl (Wrap ''create identity with external account: '' err '''')
      | Inr entity \<Rightarrow>
          (case newExternalAccount accountID provider subject now of
             Inl err \<Rightarrow> Inl (Wrap ''create initial external identity account: '' err '''')
           | Inr account \<Rightarrow>
               Inr (entity\<lparr>idn_ExternalAccounts := idn_ExternalAccounts entity @ [account]\<rparr>)))"

definition idn_ensureChangeAllowed :: "gotime \<Rightarrow> identity \<Rightarrow> ierror option" where
  "idn_ensureChangeAllowed now i =
     (if idn_Status i = Identity_Deleted \<or> idn_DeletedAt i \<noteq> None
      then Some (Wrap ''validate identity change: '' (idn_error Idn_ErrInvalidStatus) '''')
      else if is_zero now \<or> before now (idn_UpdatedAt i) then Some (Fresh ''identity change time is invalid'')
      else None)"

definition idn_touch :: "gotime \<Rightarrow> identity \<Rightarrow> identity" where
  "idn_touch now i = i\<lparr>idn_UpdatedAt := now\<rparr>"

text \<open>
  The loops that look for a login method other than one: the excluded index is \<open>-1\<close> in the code where
  there is none, here \<open>None\<close>.
\<close>

definition any_except :: "('a \<Rightarrow> bool) \<Rightarrow> nat option \<Rightarrow> 'a list \<Rightarrow> bool" where
  "any_except P skip xs = list_ex (\<lambda>(j, x). Some j \<noteq> skip \<and> P x) (enumerate 0 xs)"

definition hasLoginMethodExcept :: "nat option \<Rightarrow> nat option \<Rightarrow> nat option \<Rightarrow> identity \<Rightarrow> bool" where
  "hasLoginMethodExcept email phone account i \<longleftrightarrow>
     any_except contact_IsActive email (idn_Emails i) \<or> any_except contact_IsActive phone (idn_Phones i) \<or>
     any_except ea_IsActive account (idn_ExternalAccounts i)"

definition hasUsableLoginMethodExcept :: "nat option \<Rightarrow> nat option \<Rightarrow> nat option \<Rightarrow> identity \<Rightarrow> bool" where
  "hasUsableLoginMethodExcept email phone account i \<longleftrightarrow>
     any_except contact_IsUsable email (idn_Emails i) \<or> any_except contact_IsUsable phone (idn_Phones i) \<or>
     any_except ea_IsUsable account (idn_ExternalAccounts i)"

definition hasUsableLoginMethod :: "identity \<Rightarrow> bool" where
  "hasUsableLoginMethod i \<longleftrightarrow>
     list_ex contact_IsUsable (idn_Emails i) \<or> list_ex contact_IsUsable (idn_Phones i) \<or>
     list_ex ea_IsUsable (idn_ExternalAccounts i)"

definition ensureLoginMethodRemovable ::
  "nat option \<Rightarrow> nat option \<Rightarrow> nat option \<Rightarrow> identity \<Rightarrow> ierror option" where
  "ensureLoginMethodRemovable email phone account i =
     (if \<not> hasLoginMethodExcept email phone account i then Some (idn_error Idn_ErrLoginMethodRequired)
      else if idn_Status i = Identity_Active \<and> \<not> hasUsableLoginMethodExcept email phone account i
      then Some (idn_error Idn_ErrLoginMethodRequired)
      else None)"

definition hasExternalAccount :: "string \<Rightarrow> string \<Rightarrow> identity \<Rightarrow> bool" where
  "hasExternalAccount provider subject i = list_ex (ea_Matches provider subject) (idn_ExternalAccounts i)"

definition externalAccountIndex :: "uuid \<Rightarrow> identity \<Rightarrow> nat option" where
  "externalAccountIndex k i = index_by (ea_HasID k) (idn_ExternalAccounts i)"

text \<open>The opening of every method that changes an identity.\<close>

definition idn_change ::
  "string \<Rightarrow> gotime \<Rightarrow> identity \<Rightarrow> ierror option \<times> identity \<Rightarrow> ierror option \<times> identity" where
  "idn_change msg now i k =
     (case idn_ensureChangeAllowed now i of Some err \<Rightarrow> refuse msg err i | None \<Rightarrow> k)"


section \<open>Its status\<close>

definition identity_Activate :: "gotime \<Rightarrow> identity \<Rightarrow> ierror option \<times> identity" where
  "identity_Activate now i =
     idn_change ''activate identity: '' now i
       (if idn_Status i \<noteq> Identity_Pending
        then refuse ''activate identity: '' (idn_error Idn_ErrInvalidTransition) i
        else if \<not> hasUsableLoginMethod i
        then refuse ''activate identity without usable login method: '' (idn_error Idn_ErrLoginMethodRequired) i
        else (None, idn_touch now (i\<lparr>idn_Status := Identity_Active\<rparr>)))"

definition identity_Disable :: "gotime \<Rightarrow> identity \<Rightarrow> ierror option \<times> identity" where
  "identity_Disable now i =
     idn_change ''disable identity: '' now i
       (if idn_Status i \<noteq> Identity_Pending \<and> idn_Status i \<noteq> Identity_Active
        then refuse ''disable identity: '' (idn_error Idn_ErrInvalidTransition) i
        else (None, idn_touch now (i\<lparr>idn_Status := Identity_Disabled\<rparr>)))"

definition identity_Enable :: "gotime \<Rightarrow> identity \<Rightarrow> ierror option \<times> identity" where
  "identity_Enable now i =
     idn_change ''enable identity: '' now i
       (if idn_Status i \<noteq> Identity_Disabled
        then refuse ''enable identity: '' (idn_error Idn_ErrInvalidTransition) i
        else if \<not> hasUsableLoginMethod i
        then refuse ''enable identity without usable login method: '' (idn_error Idn_ErrLoginMethodRequired) i
        else (None, idn_touch now (i\<lparr>idn_Status := Identity_Active\<rparr>)))"

definition identity_Delete :: "gotime \<Rightarrow> identity \<Rightarrow> ierror option \<times> identity" where
  "identity_Delete now i =
     idn_change ''delete identity: '' now i
       (None, idn_touch now (i\<lparr>idn_Status := Identity_Deleted, idn_DeletedAt := Some now\<rparr>))"


section \<open>Its e-mail addresses\<close>

definition AddEmail :: "uuid \<Rightarrow> string \<Rightarrow> gotime \<Rightarrow> identity \<Rightarrow> ierror option \<times> identity" where
  "AddEmail k address now i =
     idn_change ''add identity email: '' now i
       (if has_value address (idn_Emails i)
        then refuse ''add identity email: '' (idn_error Idn_ErrEmailAlreadyExists) i
        else case newEmail k address (active_count (idn_Emails i) = 0) now of
          Inl err \<Rightarrow> refuse ''add identity email: '' err i
        | Inr email \<Rightarrow> (None, idn_touch now (i\<lparr>idn_Emails := idn_Emails i @ [email]\<rparr>)))"

definition VerifyEmail :: "uuid \<Rightarrow> gotime \<Rightarrow> identity \<Rightarrow> ierror option \<times> identity" where
  "VerifyEmail k now i =
     idn_change ''verify identity email: '' now i
       (case contact_index k (idn_Emails i) of
          None \<Rightarrow> refuse ''verify identity email: '' (idn_error Idn_ErrEmailNotFound) i
        | Some j \<Rightarrow>
            (case email_Verify now (idn_Emails i ! j) of
               (Some err, e) \<Rightarrow> refuse ''verify identity email: '' err (i\<lparr>idn_Emails := (idn_Emails i)[j := e]\<rparr>)
             | (None, e) \<Rightarrow> (None, idn_touch now (i\<lparr>idn_Emails := (idn_Emails i)[j := e]\<rparr>))))"

definition SetPrimaryEmail :: "uuid \<Rightarrow> gotime \<Rightarrow> identity \<Rightarrow> ierror option \<times> identity" where
  "SetPrimaryEmail k now i =
     idn_change ''set primary identity email: '' now i
       (case contact_index k (idn_Emails i) of
          None \<Rightarrow> refuse ''set primary identity email: '' (idn_error Idn_ErrEmailNotFound) i
        | Some j \<Rightarrow>
            (case email_Promote now (idn_Emails i ! j) of
               (Inl err, e) \<Rightarrow>
                 refuse ''set primary identity email: '' err (i\<lparr>idn_Emails := (idn_Emails i)[j := e]\<rparr>)
             | (Inr changed, e) \<Rightarrow>
                 (let i = i\<lparr>idn_Emails := (idn_Emails i)[j := e]\<rparr>
                  in if \<not> changed then (None, i)
                     else case demote_except ''email'' j now 0 (idn_Emails i) of
                       (Some err, es) \<Rightarrow> refuse ''set primary identity email: '' err (i\<lparr>idn_Emails := es\<rparr>)
                     | (None, es) \<Rightarrow> (None, idn_touch now (i\<lparr>idn_Emails := es\<rparr>)))))"

definition RemoveEmail :: "uuid \<Rightarrow> gotime \<Rightarrow> identity \<Rightarrow> ierror option \<times> identity" where
  "RemoveEmail k now i =
     idn_change ''remove identity email: '' now i
       (case contact_index k (idn_Emails i) of
          None \<Rightarrow> refuse ''remove identity email: '' (idn_error Idn_ErrEmailNotFound) i
        | Some j \<Rightarrow>
            if contact_IsMain (idn_Emails i ! j) \<and> active_count (idn_Emails i) > 1
            then (Some (Fresh ''remove identity email: select another primary email first''), i)
            else case ensureLoginMethodRemovable (Some j) None None i of
              Some err \<Rightarrow> refuse ''remove identity email: '' err i
            | None \<Rightarrow>
                (case email_Remove now (idn_Emails i ! j) of
                   (Some err, e) \<Rightarrow>
                     refuse ''remove identity email: '' err (i\<lparr>idn_Emails := (idn_Emails i)[j := e]\<rparr>)
                 | (None, e) \<Rightarrow> (None, idn_touch now (i\<lparr>idn_Emails := (idn_Emails i)[j := e]\<rparr>))))"


section \<open>Its phones\<close>

definition AddPhone :: "uuid \<Rightarrow> string \<Rightarrow> gotime \<Rightarrow> identity \<Rightarrow> ierror option \<times> identity" where
  "AddPhone k number now i =
     idn_change ''add identity phone: '' now i
       (if has_value number (idn_Phones i)
        then refuse ''add identity phone: '' (idn_error Idn_ErrPhoneAlreadyExists) i
        else case newPhone k number (active_count (idn_Phones i) = 0) now of
          Inl err \<Rightarrow> refuse ''add identity phone: '' err i
        | Inr phone \<Rightarrow> (None, idn_touch now (i\<lparr>idn_Phones := idn_Phones i @ [phone]\<rparr>)))"

definition VerifyPhone :: "uuid \<Rightarrow> gotime \<Rightarrow> identity \<Rightarrow> ierror option \<times> identity" where
  "VerifyPhone k now i =
     idn_change ''verify identity phone: '' now i
       (case contact_index k (idn_Phones i) of
          None \<Rightarrow> refuse ''verify identity phone: '' (idn_error Idn_ErrPhoneNotFound) i
        | Some j \<Rightarrow>
            (case phone_Verify now (idn_Phones i ! j) of
               (Some err, p) \<Rightarrow> refuse ''verify identity phone: '' err (i\<lparr>idn_Phones := (idn_Phones i)[j := p]\<rparr>)
             | (None, p) \<Rightarrow> (None, idn_touch now (i\<lparr>idn_Phones := (idn_Phones i)[j := p]\<rparr>))))"

definition SetPrimaryPhone :: "uuid \<Rightarrow> gotime \<Rightarrow> identity \<Rightarrow> ierror option \<times> identity" where
  "SetPrimaryPhone k now i =
     idn_change ''set primary identity phone: '' now i
       (case contact_index k (idn_Phones i) of
          None \<Rightarrow> refuse ''set primary identity phone: '' (idn_error Idn_ErrPhoneNotFound) i
        | Some j \<Rightarrow>
            (case phone_Promote now (idn_Phones i ! j) of
               (Inl err, p) \<Rightarrow>
                 refuse ''set primary identity phone: '' err (i\<lparr>idn_Phones := (idn_Phones i)[j := p]\<rparr>)
             | (Inr changed, p) \<Rightarrow>
                 (let i = i\<lparr>idn_Phones := (idn_Phones i)[j := p]\<rparr>
                  in if \<not> changed then (None, i)
                     else case demote_except ''phone'' j now 0 (idn_Phones i) of
                       (Some err, ps) \<Rightarrow> refuse ''set primary identity phone: '' err (i\<lparr>idn_Phones := ps\<rparr>)
                     | (None, ps) \<Rightarrow> (None, idn_touch now (i\<lparr>idn_Phones := ps\<rparr>)))))"

definition RemovePhone :: "uuid \<Rightarrow> gotime \<Rightarrow> identity \<Rightarrow> ierror option \<times> identity" where
  "RemovePhone k now i =
     idn_change ''remove identity phone: '' now i
       (case contact_index k (idn_Phones i) of
          None \<Rightarrow> refuse ''remove identity phone: '' (idn_error Idn_ErrPhoneNotFound) i
        | Some j \<Rightarrow>
            if contact_IsMain (idn_Phones i ! j) \<and> active_count (idn_Phones i) > 1
            then (Some (Fresh ''remove identity phone: select another primary phone first''), i)
            else case ensureLoginMethodRemovable None (Some j) None i of
              Some err \<Rightarrow> refuse ''remove identity phone: '' err i
            | None \<Rightarrow>
                (case phone_Remove now (idn_Phones i ! j) of
                   (Some err, p) \<Rightarrow>
                     refuse ''remove identity phone: '' err (i\<lparr>idn_Phones := (idn_Phones i)[j := p]\<rparr>)
                 | (None, p) \<Rightarrow> (None, idn_touch now (i\<lparr>idn_Phones := (idn_Phones i)[j := p]\<rparr>))))"


section \<open>Its external accounts\<close>

definition LinkExternalAccount :: "uuid \<Rightarrow> string \<Rightarrow> string \<Rightarrow> gotime \<Rightarrow> identity \<Rightarrow> ierror option \<times> identity" where
  "LinkExternalAccount k provider subject now i =
     idn_change ''link external identity account: '' now i
       (if hasExternalAccount provider subject i
        then refuse ''link external identity account: '' (idn_error Idn_ErrExternalAccountExists) i
        else case newExternalAccount k provider subject now of
          Inl err \<Rightarrow> refuse ''link external identity account: '' err i
        | Inr account \<Rightarrow>
            (None, idn_touch now (i\<lparr>idn_ExternalAccounts := idn_ExternalAccounts i @ [account]\<rparr>)))"

definition set_account :: "nat \<Rightarrow> external_account \<Rightarrow> identity \<Rightarrow> identity" where
  "set_account j a i = i\<lparr>idn_ExternalAccounts := (idn_ExternalAccounts i)[j := a]\<rparr>"

definition RecordExternalAuthentication :: "uuid \<Rightarrow> gotime \<Rightarrow> identity \<Rightarrow> ierror option \<times> identity" where
  "RecordExternalAuthentication k now i =
     idn_change ''record external identity authentication: '' now i
       (if idn_Status i \<noteq> Identity_Active
        then refuse ''record external identity authentication: '' (idn_error Idn_ErrInvalidStatus) i
        else case externalAccountIndex k i of
          None \<Rightarrow> refuse ''record external identity authentication: '' (idn_error Idn_ErrExternalAccountNotFound) i
        | Some j \<Rightarrow>
            (case ea_RecordAuthentication now (idn_ExternalAccounts i ! j) of
               (Some err, a) \<Rightarrow> refuse ''record external identity authentication: '' err (set_account j a i)
             | (None, a) \<Rightarrow> (None, idn_touch now (set_account j a i))))"

definition DisableExternalAccount :: "uuid \<Rightarrow> gotime \<Rightarrow> identity \<Rightarrow> ierror option \<times> identity" where
  "DisableExternalAccount k now i =
     idn_change ''disable external identity account: '' now i
       (case externalAccountIndex k i of
          None \<Rightarrow> refuse ''disable external identity account: '' (idn_error Idn_ErrExternalAccountNotFound) i
        | Some j \<Rightarrow>
            if \<not> ea_IsUsable (idn_ExternalAccounts i ! j)
            then refuse ''disable external identity account: '' (idn_error Idn_ErrExternalAccountDisabled) i
            else if idn_Status i = Identity_Active \<and> \<not> hasUsableLoginMethodExcept None None (Some j) i
            then refuse ''disable external identity account: '' (idn_error Idn_ErrLoginMethodRequired) i
            else case ea_Disable now (idn_ExternalAccounts i ! j) of
              (Some err, a) \<Rightarrow> refuse ''disable external identity account: '' err (set_account j a i)
            | (None, a) \<Rightarrow> (None, idn_touch now (set_account j a i)))"

definition EnableExternalAccount :: "uuid \<Rightarrow> gotime \<Rightarrow> identity \<Rightarrow> ierror option \<times> identity" where
  "EnableExternalAccount k now i =
     idn_change ''enable external identity account: '' now i
       (case externalAccountIndex k i of
          None \<Rightarrow> refuse ''enable external identity account: '' (idn_error Idn_ErrExternalAccountNotFound) i
        | Some j \<Rightarrow>
            (case ea_Enable now (idn_ExternalAccounts i ! j) of
               (Some err, a) \<Rightarrow> refuse ''enable external identity account: '' err (set_account j a i)
             | (None, a) \<Rightarrow> (None, idn_touch now (set_account j a i))))"

definition UnlinkExternalAccount :: "uuid \<Rightarrow> gotime \<Rightarrow> identity \<Rightarrow> ierror option \<times> identity" where
  "UnlinkExternalAccount k now i =
     idn_change ''unlink external identity account: '' now i
       (case externalAccountIndex k i of
          None \<Rightarrow> refuse ''unlink external identity account: '' (idn_error Idn_ErrExternalAccountNotFound) i
        | Some j \<Rightarrow>
            (case ensureLoginMethodRemovable None None (Some j) i of
               Some err \<Rightarrow> refuse ''unlink external identity account: '' err i
             | None \<Rightarrow>
                 (case ea_Unlink now (idn_ExternalAccounts i ! j) of
                    (Some err, a) \<Rightarrow> refuse ''unlink external identity account: '' err (set_account j a i)
                  | (None, a) \<Rightarrow> (None, idn_touch now (set_account j a i)))))"


section \<open>The calls of an identity\<close>

datatype identity_call =
  I_Activate | I_Disable | I_Enable | I_Delete
| I_AddEmail uuid string | I_VerifyEmail uuid | I_SetPrimaryEmail uuid | I_RemoveEmail uuid
| I_AddPhone uuid string | I_VerifyPhone uuid | I_SetPrimaryPhone uuid | I_RemovePhone uuid
| I_Link uuid string string | I_RecordAuthentication uuid | I_DisableAccount uuid | I_EnableAccount uuid
| I_Unlink uuid

fun identity_do :: "identity_call \<Rightarrow> gotime \<Rightarrow> identity \<Rightarrow> ierror option \<times> identity" where
  "identity_do I_Activate now i = identity_Activate now i"
| "identity_do I_Disable now i = identity_Disable now i"
| "identity_do I_Enable now i = identity_Enable now i"
| "identity_do I_Delete now i = identity_Delete now i"
| "identity_do (I_AddEmail k a) now i = AddEmail k a now i"
| "identity_do (I_VerifyEmail k) now i = VerifyEmail k now i"
| "identity_do (I_SetPrimaryEmail k) now i = SetPrimaryEmail k now i"
| "identity_do (I_RemoveEmail k) now i = RemoveEmail k now i"
| "identity_do (I_AddPhone k n) now i = AddPhone k n now i"
| "identity_do (I_VerifyPhone k) now i = VerifyPhone k now i"
| "identity_do (I_SetPrimaryPhone k) now i = SetPrimaryPhone k now i"
| "identity_do (I_RemovePhone k) now i = RemovePhone k now i"
| "identity_do (I_Link k p s) now i = LinkExternalAccount k p s now i"
| "identity_do (I_RecordAuthentication k) now i = RecordExternalAuthentication k now i"
| "identity_do (I_DisableAccount k) now i = DisableExternalAccount k now i"
| "identity_do (I_EnableAccount k) now i = EnableExternalAccount k now i"
| "identity_do (I_Unlink k) now i = UnlinkExternalAccount k now i"

definition identity_run :: "(identity_call \<times> gotime) list \<Rightarrow> identity \<Rightarrow> identity" where
  "identity_run calls i = fold (\<lambda>(c, now) i. snd (identity_do c now i)) calls i"

end
