(* ===== verification/Identity_Account_Invariant.thy ===== *)
theory Identity_Account_Invariant
  imports Identity_Account
begin

text \<open>
  The invariant of an account: one primary contact of each kind while there is any, nothing registered
  twice, a login method at all times and a usable one while the account is active; every call keeps it
  and changes nothing when it fails.
\<close>

section \<open>Lists of contacts\<close>

definition contacts_ok :: "gotime \<Rightarrow> contact list \<Rightarrow> bool" where
  "contacts_ok n xs \<longleftrightarrow>
     (\<forall>x \<in> set xs. ct_UpdatedAt x \<le> n) \<and> distinct (map ct_Value xs) \<and>
     length (filter contact_IsMain xs) = (if list_ex contact_IsActive xs then 1 else 0)"

lemma length_filter_update:
  "j < length xs \<Longrightarrow>
     length (filter P (xs[j := y])) + of_bool (P (xs ! j)) = length (filter P xs) + (of_bool (P y) :: nat)"
proof (induction xs arbitrary: j)
  case (Cons x xs)
  then show ?case by (cases j) auto
qed simp

lemma active_count_0: "active_count xs = 0 \<longleftrightarrow> \<not> list_ex contact_IsActive xs"
  by (simp add: active_count_def filter_empty_conv list_ex_iff)

lemma has_value_iff: "has_value v xs \<longleftrightarrow> v \<in> ct_Value ` set xs"
  by (auto simp: has_value_def list_ex_iff)

lemma list_ex_nth_update: "j < length xs \<Longrightarrow> P y \<Longrightarrow> list_ex P (xs[j := y])"
  by (auto simp: list_ex_iff intro: set_update_memI)

lemma contacts_ok_mono: "contacts_ok m xs \<Longrightarrow> m \<le> n \<Longrightarrow> contacts_ok n xs"
  by (fastforce simp: contacts_ok_def)

lemma contacts_ok_append:
  assumes "contacts_ok m xs" and "m \<le> now" and "\<not> has_value v xs"
    and "newContact noun k v (active_count xs = 0) now = Inr c"
  shows "contacts_ok now (xs @ [c])"
proof -
  from assms(4) have c: "ct_UpdatedAt c = now" "ct_Value c = v" "contact_IsActive c"
    "contact_IsMain c \<longleftrightarrow> active_count xs = 0"
    by (auto simp: newContact_def contact_IsMain_def contact_IsActive_def split: if_splits)
  have "filter contact_IsMain xs = []" if "\<not> list_ex contact_IsActive xs"
    using that by (auto simp: filter_empty_conv list_ex_iff contact_IsMain_def)
  with c assms(1-3) show ?thesis
    by (auto simp: contacts_ok_def has_value_iff active_count_0)
qed

lemma contact_index_Some:
  "contact_index k xs = Some j \<Longrightarrow> j < length xs \<and> contact_IsActive (xs ! j) \<and> ct_ID (xs ! j) = k"
  by (auto simp: contact_index_def contact_HasID_def dest: index_by_Some)

lemma contact_allowed:
  "contact_ensureChangeAllowed noun now c = None \<longleftrightarrow> contact_IsActive c \<and> now \<noteq> 0 \<and> ct_UpdatedAt c \<le> now"
  by (auto simp: contact_ensureChangeAllowed_def)

text \<open>Changing one contact, with its value and whether it is active and primary as before.\<close>

lemma contacts_ok_update:
  assumes "contacts_ok m xs" and "m \<le> now" and "j < length xs" and "ct_UpdatedAt c \<le> now"
    and "ct_Value c = ct_Value (xs ! j)" and "contact_IsMain c = contact_IsMain (xs ! j)"
    and "contact_IsActive c = contact_IsActive (xs ! j)"
  shows "contacts_ok now (xs[j := c])"
proof -
  have v: "map ct_Value (xs[j := c]) = map ct_Value xs"
    and a: "map contact_IsActive (xs[j := c]) = map contact_IsActive xs"
    using assms(3,5,7) by (simp_all add: map_update list_update_same_conv)
  have "list_ex contact_IsActive (xs[j := c]) = list_ex contact_IsActive xs"
    using arg_cong [OF a, of "\<lambda>bs. True \<in> set bs"] by (auto simp: list_ex_iff image_iff)
  moreover have "length (filter contact_IsMain (xs[j := c])) = length (filter contact_IsMain xs)"
    using length_filter_update [OF assms(3), of contact_IsMain c] assms(6) by simp
  moreover have "\<forall>x \<in> set (xs[j := c]). ct_UpdatedAt x \<le> now"
    using assms(1,2,4) set_update_subset_insert [of xs j c] by (fastforce simp: contacts_ok_def)
  ultimately show ?thesis using assms(1) v by (simp add: contacts_ok_def)
qed

lemma contacts_Verify:
  assumes "contacts_ok m xs" and "m \<le> now" and "contact_index k xs = Some j"
    and "contact_Verify noun now (xs ! j) = (r, c)"
  shows "if r = None then contacts_ok now (xs[j := c]) \<and> contact_IsUsable c \<and> contact_IsActive c
         else c = xs ! j"
proof (cases "contact_ensureChangeAllowed noun now (xs ! j)")
  case None
  note j = contact_index_Some [OF assms(3)]
  show ?thesis
  proof (cases "ct_VerifiedAt (xs ! j)")
    case v: None
    with None assms(4) have r: "r = None" and c: "c = (xs ! j)\<lparr>ct_VerifiedAt := Some now, ct_UpdatedAt := now\<rparr>"
      by (auto simp: contact_Verify_def)
    have "contacts_ok now (xs[j := c])"
      using j by (intro contacts_ok_update [OF assms(1,2)])
        (simp_all add: c contact_IsMain_def contact_IsActive_def)
    with r c j show ?thesis by (simp add: contact_IsUsable_def contact_IsActive_def)
  next
    case (Some t)
    with None assms(4) show ?thesis by (auto simp: contact_Verify_def)
  qed
next
  case (Some err)
  with assms(4) show ?thesis by (auto simp: contact_Verify_def)
qed

text \<open>The new primary contact, and every other one demoted.\<close>

definition demoted :: "gotime \<Rightarrow> contact \<Rightarrow> contact" where
  "demoted now c = (if contact_IsMain c then c\<lparr>ct_IsPrimary := False, ct_UpdatedAt := now\<rparr> else c)"

lemma demoted_simps [simp]:
  "ct_Value (demoted now c) = ct_Value c" "ct_ID (demoted now c) = ct_ID c"
  "ct_VerifiedAt (demoted now c) = ct_VerifiedAt c" "ct_DeletedAt (demoted now c) = ct_DeletedAt c"
  "contact_IsActive (demoted now c) = contact_IsActive c" "\<not> contact_IsMain (demoted now c)"
  "contact_IsUsable (demoted now c) = contact_IsUsable c"
  by (simp_all add: demoted_def contact_IsMain_def contact_IsActive_def contact_IsUsable_def)

lemma Demote_demoted:
  "now \<noteq> 0 \<Longrightarrow> ct_UpdatedAt c \<le> now \<Longrightarrow> contact_Demote noun now c = (None, demoted now c)"
  by (auto simp: contact_Demote_def demoted_def contact_IsMain_def contact_allowed
      contact_ensureChangeAllowed_def)

lemma demote_except_eq:
  "now \<noteq> 0 \<Longrightarrow> \<forall>x \<in> set xs. ct_UpdatedAt x \<le> now \<Longrightarrow>
     demote_except noun keep now i xs =
       (None, map (\<lambda>(n, c). if n = keep then c else demoted now c) (enumerate i xs))"
  by (induction xs arbitrary: i) (auto simp: Demote_demoted)

lemma contacts_SetPrimary:
  assumes ok: "contacts_ok m xs" and m: "m \<le> now" "now \<noteq> 0" and j: "contact_index k xs = Some j"
    and P: "contact_Promote noun now (xs ! j) = (Inr True, c)"
    and D: "demote_except noun j now 0 (xs[j := c]) = (r, ys)"
  shows "r = None \<and> contacts_ok now ys \<and> map contact_IsActive ys = map contact_IsActive xs \<and>
     map contact_IsUsable ys = map contact_IsUsable xs"
proof -
  note jl = contact_index_Some [OF j]
  let ?f = "\<lambda>n x. if n = j then c else demoted now x"
  from P have c: "c = (xs ! j)\<lparr>ct_IsPrimary := True, ct_UpdatedAt := now\<rparr>"
    by (auto simp: contact_Promote_def split: option.splits if_splits)
  have up: "\<forall>x \<in> set (xs[j := c]). ct_UpdatedAt x \<le> now"
    using ok m(1) c set_update_subset_insert [of xs j c] by (fastforce simp: contacts_ok_def)
  from D demote_except_eq [OF m(2) up, of noun j 0] have r: "r = None"
    and ys: "ys = map (\<lambda>(n, c). if n = j then c else demoted now c) (enumerate 0 (xs[j := c]))"
    by simp_all
  have len: "length ys = length xs" by (simp add: ys)
  have nth: "ys ! n = ?f n (xs ! n)" if "n < length xs" for n
    using that by (simp add: ys nth_enumerate_eq nth_list_update)
  have acts: "map contact_IsActive ys = map contact_IsActive xs"
    and usable: "map contact_IsUsable ys = map contact_IsUsable xs"
    and vals: "map ct_Value ys = map ct_Value xs"
    using jl c by (auto intro!: nth_equalityI simp: len nth contact_IsActive_def contact_IsUsable_def split: if_splits)
  have cj: "contact_IsMain c" "ys ! j = c"
    using jl c by (simp_all add: nth contact_IsMain_def contact_IsActive_def)
  have main: "filter contact_IsMain ys = [c]"
  proof -
    have "ys = take j ys @ ys ! j # drop (Suc j) ys"
      using jl len by (simp add: id_take_nth_drop)
    moreover have "filter contact_IsMain (take j ys) = []" "filter contact_IsMain (drop (Suc j) ys) = []"
      using jl len by (auto simp: filter_empty_conv in_set_conv_nth nth)
    ultimately show ?thesis
      using cj by (metis append_Nil filter.simps filter_append)
  qed
  have "list_ex contact_IsActive ys"
    using jl len cj by (auto simp: list_ex_length contact_IsMain_def)
  moreover have "\<forall>x \<in> set ys. ct_UpdatedAt x \<le> now"
    using up ok m(1) c
    by (auto simp: in_set_conv_nth len nth demoted_def contacts_ok_def)
       (meson nth_mem order_trans)
  ultimately have "contacts_ok now ys"
    using ok vals main by (simp add: contacts_ok_def)
  with r acts usable show ?thesis by simp
qed

lemma contacts_Remove:
  assumes ok: "contacts_ok m xs" and m: "m \<le> now" and j: "contact_index k xs = Some j"
    and guard: "\<not> (contact_IsMain (xs ! j) \<and> active_count xs > 1)"
    and R: "contact_Remove noun now (xs ! j) = (r, c)"
  shows "if r = None then contacts_ok now (xs[j := c]) \<and> \<not> contact_IsActive c else c = xs ! j"
proof (cases "contact_ensureChangeAllowed noun now (xs ! j)")
  case None
  note jl = contact_index_Some [OF j]
  from None R have r: "r = None"
    and c: "c = (xs ! j)\<lparr>ct_IsPrimary := False, ct_DeletedAt := Some now, ct_UpdatedAt := now\<rparr>"
    by (auto simp: contact_Remove_def)
  have inactive: "\<not> contact_IsActive c" "\<not> contact_IsMain c"
    by (simp_all add: c contact_IsActive_def contact_IsMain_def)
  have acts: "active_count (xs[j := c]) + 1 = active_count xs"
    using length_filter_update [of j xs contact_IsActive c] jl inactive by (simp add: active_count_def)
  have "list_ex contact_IsActive xs" using jl by (auto simp: list_ex_iff)
  then have mains: "length (filter contact_IsMain (xs[j := c])) + of_bool (contact_IsMain (xs ! j)) = 1"
    using length_filter_update [of j xs contact_IsMain c] jl inactive ok by (auto simp: contacts_ok_def)
  have some: "list_ex contact_IsActive (xs[j := c])" if "\<not> contact_IsMain (xs ! j)"
  proof -
    from that mains have "filter contact_IsMain (xs[j := c]) \<noteq> []" by auto
    then obtain x where "x \<in> set (xs[j := c])" "contact_IsMain x" by (auto simp: filter_empty_conv)
    then show ?thesis by (auto simp: list_ex_iff contact_IsMain_def)
  qed
  have none: "\<not> list_ex contact_IsActive (xs[j := c])" if "contact_IsMain (xs ! j)"
    using that guard acts by (simp flip: active_count_0)
  have "map ct_Value (xs[j := c]) = map ct_Value xs"
    using jl c by (simp add: map_update list_update_same_conv)
  moreover have "\<forall>x \<in> set (xs[j := c]). ct_UpdatedAt x \<le> now"
    using ok m c set_update_subset_insert [of xs j c] by (fastforce simp: contacts_ok_def)
  ultimately have "contacts_ok now (xs[j := c])"
    using ok mains some none by (cases "contact_IsMain (xs ! j)") (auto simp: contacts_ok_def)
  with r inactive show ?thesis by simp
next
  case (Some err)
  with R show ?thesis by (auto simp: contact_Remove_def)
qed


section \<open>Login methods\<close>

lemma any_except_iff: "any_except P skip xs \<longleftrightarrow> (\<exists>j < length xs. Some j \<noteq> skip \<and> P (xs ! j))"
  by (auto simp: any_except_def list_ex_iff in_set_enumerate_eq)

lemma any_except_None [simp]: "any_except P None xs = list_ex P xs"
  by (auto simp: any_except_iff list_ex_length)

lemma any_except_update: "any_except P (Some j) xs \<Longrightarrow> list_ex P (xs[j := y])"
  by (auto simp: any_except_iff list_ex_length nth_list_update)

lemma list_ex_update:
  assumes "list_ex P xs" and "j < length xs" and "P (xs ! j) \<Longrightarrow> P y"
  shows "list_ex P (xs[j := y])"
proof -
  from assms(1) obtain k where "k < length xs" "P (xs ! k)" by (auto simp: list_ex_length)
  with assms(2,3) have "P (xs[j := y] ! k)" by (cases "k = j") simp_all
  with \<open>k < length xs\<close> show ?thesis by (auto simp: list_ex_length)
qed

lemma list_ex_map_eq: "map P ys = map P xs \<Longrightarrow> list_ex P ys = list_ex P xs"
proof -
  assume eq: "map P ys = map P xs"
  have "list_ex P zs \<longleftrightarrow> True \<in> set (map P zs)" for zs by (auto simp: list_ex_iff)
  with eq show ?thesis by metis
qed

definition hasLoginMethod :: "identity \<Rightarrow> bool" where
  "hasLoginMethod i \<longleftrightarrow>
     list_ex contact_IsActive (idn_Emails i) \<or> list_ex contact_IsActive (idn_Phones i) \<or>
     list_ex ea_IsActive (idn_ExternalAccounts i)"

definition accounts_ok :: "gotime \<Rightarrow> external_account list \<Rightarrow> bool" where
  "accounts_ok n as \<longleftrightarrow>
     (\<forall>a \<in> set as. ea_latestChangedAt a \<le> n) \<and> distinct (map (\<lambda>a. (ea_Provider a, ea_Subject a)) as)"

definition identity_wf :: "identity \<Rightarrow> bool" where
  "identity_wf i \<longleftrightarrow>
     contacts_ok (idn_UpdatedAt i) (idn_Emails i) \<and> contacts_ok (idn_UpdatedAt i) (idn_Phones i) \<and>
     accounts_ok (idn_UpdatedAt i) (idn_ExternalAccounts i) \<and> hasLoginMethod i \<and>
     (idn_Status i = Identity_Active \<longrightarrow> hasUsableLoginMethod i) \<and>
     (idn_Status i = Identity_Deleted \<longleftrightarrow> idn_DeletedAt i \<noteq> None) \<and>
     idn_Status i \<in> {Identity_Pending, Identity_Active, Identity_Disabled, Identity_Deleted}"

lemma accounts_ok_mono: "accounts_ok m as \<Longrightarrow> m \<le> n \<Longrightarrow> accounts_ok n as"
  by (fastforce simp: accounts_ok_def)

lemma accounts_ok_update:
  assumes "accounts_ok m as" and "m \<le> now" and "j < length as" and "ea_latestChangedAt a \<le> now"
    and "ea_Provider a = ea_Provider (as ! j)" and "ea_Subject a = ea_Subject (as ! j)"
  shows "accounts_ok now (as[j := a])"
proof -
  have "map (\<lambda>a. (ea_Provider a, ea_Subject a)) (as[j := a]) = map (\<lambda>a. (ea_Provider a, ea_Subject a)) as"
    using assms(3,5,6) by (simp add: map_update list_update_same_conv)
  moreover have "\<forall>x \<in> set (as[j := a]). ea_latestChangedAt x \<le> now"
    using assms(1,2,4) set_update_subset_insert [of as j a] by (fastforce simp: accounts_ok_def)
  ultimately show ?thesis using assms(1) by (simp add: accounts_ok_def)
qed

lemma ea_allowed:
  "ea_ensureChangeAllowed now a = None \<longleftrightarrow> ea_IsActive a \<and> now \<noteq> 0 \<and> ea_latestChangedAt a \<le> now"
  by (auto simp: ea_ensureChangeAllowed_def)

lemma ea_latest_le:
  "ea_latestChangedAt a \<le> n \<longleftrightarrow>
     ea_LinkedAt a \<le> n \<and> (\<forall>v. Some v \<in> {ea_LastAuthenticatedAt a, ea_DisabledAt a, ea_DeletedAt a} \<longrightarrow> v \<le> n)"
  unfolding ea_latestChangedAt_def latest_le_iff by auto

text \<open>What a change of an external account does to it, and that a refused one leaves it.\<close>

definition account_change :: "gotime \<Rightarrow> external_account \<Rightarrow> external_account \<Rightarrow> bool" where
  "account_change now a b \<longleftrightarrow>
     ea_latestChangedAt b \<le> now \<and> ea_Provider b = ea_Provider a \<and> ea_Subject b = ea_Subject a"

lemma account_changes:
  "ea_RecordAuthentication now a = (r, b) \<Longrightarrow>
     (if r = None then account_change now a b \<and> ea_IsActive b \<and> ea_IsUsable b else b = a)"
  "ea_Disable now a = (r, b) \<Longrightarrow>
     (if r = None then account_change now a b \<and> ea_IsActive b else b = a)"
  "ea_Enable now a = (r, b) \<Longrightarrow>
     (if r = None then account_change now a b \<and> ea_IsActive b \<and> ea_IsUsable b else b = a)"
  "ea_Unlink now a = (r, b) \<Longrightarrow> (if r = None then account_change now a b else b = a)"
  by (auto simp: ea_RecordAuthentication_def ea_Disable_def ea_Enable_def ea_Unlink_def account_change_def
      ea_latest_le ea_allowed ea_IsActive_def ea_IsUsable_def split: option.splits if_splits)


section \<open>Every call keeps the invariant\<close>

text \<open>The result of a call: the invariant again, and no change when it failed.\<close>

definition keeps :: "identity \<Rightarrow> ierror option \<times> identity \<Rightarrow> bool" where
  "keeps i p \<longleftrightarrow> (case p of (r, i') \<Rightarrow> identity_wf i' \<and> (r \<noteq> None \<longrightarrow> i' = i))"

lemma keeps_refuse [simp]: "identity_wf i \<Longrightarrow> keeps i (refuse msg err i)"
  by (simp add: keeps_def refuse_def)

lemma keeps_Some [simp]: "identity_wf i \<Longrightarrow> keeps i (Some err, i)"
  by (simp add: keeps_def)

lemma keeps_None: "identity_wf i' \<Longrightarrow> keeps i (None, i')"
  by (simp add: keeps_def)

lemma keeps_change:
  assumes "identity_wf i"
    and "idn_Status i \<noteq> Identity_Deleted \<Longrightarrow> idn_DeletedAt i = None \<Longrightarrow> now \<noteq> 0 \<Longrightarrow> idn_UpdatedAt i \<le> now \<Longrightarrow>
      keeps i k"
  shows "keeps i (idn_change msg now i k)"
  using assms by (auto simp: idn_change_def idn_ensureChangeAllowed_def)

text \<open>A change of one list, with what it must keep of the login methods.\<close>

lemma touch_login [simp]:
  "hasLoginMethod (idn_touch now i) = hasLoginMethod i"
  "hasUsableLoginMethod (idn_touch now i) = hasUsableLoginMethod i"
  by (simp_all add: idn_touch_def hasLoginMethod_def hasUsableLoginMethod_def)

lemma identity_touched_wf:
  assumes "contacts_ok now (idn_Emails i)" and "contacts_ok now (idn_Phones i)"
    and "accounts_ok now (idn_ExternalAccounts i)" and "hasLoginMethod i"
    and "idn_Status i = Identity_Active \<Longrightarrow> hasUsableLoginMethod i"
    and "idn_Status i = Identity_Deleted \<longleftrightarrow> idn_DeletedAt i \<noteq> None"
    and "idn_Status i \<in> {Identity_Pending, Identity_Active, Identity_Disabled, Identity_Deleted}"
  shows "identity_wf (idn_touch now i)"
proof -
  have same: "idn_Emails (idn_touch now i) = idn_Emails i" "idn_Phones (idn_touch now i) = idn_Phones i"
    "idn_ExternalAccounts (idn_touch now i) = idn_ExternalAccounts i" "idn_UpdatedAt (idn_touch now i) = now"
    "idn_Status (idn_touch now i) = idn_Status i" "idn_DeletedAt (idn_touch now i) = idn_DeletedAt i"
    by (simp_all add: idn_touch_def)
  show ?thesis unfolding identity_wf_def same touch_login using assms by blast
qed

lemma identity_wf_at:
  assumes "identity_wf i" and "idn_UpdatedAt i \<le> now"
  shows "contacts_ok now (idn_Emails i)" "contacts_ok now (idn_Phones i)"
    "accounts_ok now (idn_ExternalAccounts i)"
    "idn_Status i = Identity_Deleted \<longleftrightarrow> idn_DeletedAt i \<noteq> None"
    "idn_Status i \<in> {Identity_Pending, Identity_Active, Identity_Disabled, Identity_Deleted}"
proof -
  note wf = assms(1) [unfolded identity_wf_def]
  show "contacts_ok now (idn_Emails i)" "contacts_ok now (idn_Phones i)"
    using wf contacts_ok_mono [OF _ assms(2)] by blast+
  show "accounts_ok now (idn_ExternalAccounts i)" using wf accounts_ok_mono [OF _ assms(2)] by blast
  show "idn_Status i = Identity_Deleted \<longleftrightarrow> idn_DeletedAt i \<noteq> None"
    "idn_Status i \<in> {Identity_Pending, Identity_Active, Identity_Disabled, Identity_Deleted}"
    using wf by blast+
qed

lemma emails_wf:
  assumes "identity_wf i" and "idn_UpdatedAt i \<le> now" and "contacts_ok now xs"
    and "hasLoginMethod (i\<lparr>idn_Emails := xs\<rparr>)"
    and "idn_Status i = Identity_Active \<Longrightarrow> hasUsableLoginMethod (i\<lparr>idn_Emails := xs\<rparr>)"
  shows "identity_wf (idn_touch now (i\<lparr>idn_Emails := xs\<rparr>))"
  using identity_wf_at [OF assms(1,2)] assms(3-5) by (intro identity_touched_wf) simp_all

lemma phones_wf:
  assumes "identity_wf i" and "idn_UpdatedAt i \<le> now" and "contacts_ok now xs"
    and "hasLoginMethod (i\<lparr>idn_Phones := xs\<rparr>)"
    and "idn_Status i = Identity_Active \<Longrightarrow> hasUsableLoginMethod (i\<lparr>idn_Phones := xs\<rparr>)"
  shows "identity_wf (idn_touch now (i\<lparr>idn_Phones := xs\<rparr>))"
  using identity_wf_at [OF assms(1,2)] assms(3-5) by (intro identity_touched_wf) simp_all

lemma accounts_wf:
  assumes "identity_wf i" and "idn_UpdatedAt i \<le> now" and "accounts_ok now as"
    and "hasLoginMethod (i\<lparr>idn_ExternalAccounts := as\<rparr>)"
    and "idn_Status i = Identity_Active \<Longrightarrow> hasUsableLoginMethod (i\<lparr>idn_ExternalAccounts := as\<rparr>)"
  shows "identity_wf (idn_touch now (i\<lparr>idn_ExternalAccounts := as\<rparr>))"
  using identity_wf_at [OF assms(1,2)] assms(3-5) by (intro identity_touched_wf) simp_all

lemma removable:
  "ensureLoginMethodRemovable e p a i = None \<longleftrightarrow>
     hasLoginMethodExcept e p a i \<and> (idn_Status i = Identity_Active \<longrightarrow> hasUsableLoginMethodExcept e p a i)"
  by (auto simp: ensureLoginMethodRemovable_def)

lemmas login_defs = hasLoginMethod_def hasUsableLoginMethod_def
lemmas except_defs = hasLoginMethodExcept_def hasUsableLoginMethodExcept_def

lemma status_keeps:
  assumes "identity_wf i"
  shows "keeps i (identity_Activate now i)" and "keeps i (identity_Disable now i)"
    and "keeps i (identity_Enable now i)" and "keeps i (identity_Delete now i)"
proof -
  have st: "identity_wf (idn_touch now (i\<lparr>idn_Status := s\<rparr>))"
    if "idn_UpdatedAt i \<le> now" "idn_DeletedAt i = None" "s = Identity_Active \<Longrightarrow> hasUsableLoginMethod i"
      "s \<in> {Identity_Active, Identity_Disabled}" for s
    using assms that contacts_ok_mono [of _ _ now] accounts_ok_mono [of _ _ now]
    by (auto simp: identity_wf_def idn_touch_def login_defs)
  show "keeps i (identity_Activate now i)"
    unfolding identity_Activate_def using assms st
    by (intro keeps_change) (auto intro: keeps_None)
  show "keeps i (identity_Disable now i)"
    unfolding identity_Disable_def using assms st
    by (intro keeps_change) (auto intro: keeps_None)
  show "keeps i (identity_Enable now i)"
    unfolding identity_Enable_def using assms st
    by (intro keeps_change) (auto intro: keeps_None)
  have "identity_wf (idn_touch now (i\<lparr>idn_Status := Identity_Deleted, idn_DeletedAt := Some now\<rparr>))"
    if "idn_UpdatedAt i \<le> now"
    using assms that contacts_ok_mono [of _ _ now] accounts_ok_mono [of _ _ now]
    by (auto simp: identity_wf_def idn_touch_def login_defs)
  then show "keeps i (identity_Delete now i)"
    unfolding identity_Delete_def using assms by (intro keeps_change keeps_None)
qed

lemma identity_wf_lists:
  assumes "identity_wf i"
  shows "contacts_ok (idn_UpdatedAt i) (idn_Emails i)" and "contacts_ok (idn_UpdatedAt i) (idn_Phones i)"
    and "accounts_ok (idn_UpdatedAt i) (idn_ExternalAccounts i)" and "hasLoginMethod i"
    and "idn_Status i = Identity_Active \<Longrightarrow> hasUsableLoginMethod i"
  using assms by (simp_all add: identity_wf_def)

lemma add_keeps:
  assumes "identity_wf i"
  shows "keeps i (AddEmail k v now i)" and "keeps i (AddPhone k v now i)"
    and "keeps i (LinkExternalAccount k v s now i)"
proof -
  note wf = identity_wf_lists [OF assms]
  show "keeps i (AddEmail k v now i)"
    unfolding AddEmail_def newEmail_def
  proof (rule keeps_change [OF assms])
    assume u: "idn_UpdatedAt i \<le> now"
    have "identity_wf (idn_touch now (i\<lparr>idn_Emails := idn_Emails i @ [c]\<rparr>))"
      if "\<not> has_value v (idn_Emails i)" "newContact ''email'' k v (active_count (idn_Emails i) = 0) now = Inr c" for c
      using wf(4,5) by (intro emails_wf [OF assms u] contacts_ok_append [OF wf(1) u that]) (auto simp: login_defs)
    with assms show "keeps i (if has_value v (idn_Emails i)
        then refuse ''add identity email: '' (idn_error Idn_ErrEmailAlreadyExists) i
        else case newContact ''email'' k v (active_count (idn_Emails i) = 0) now of
          Inl err \<Rightarrow> refuse ''add identity email: '' err i
        | Inr email \<Rightarrow> (None, idn_touch now (i\<lparr>idn_Emails := idn_Emails i @ [email]\<rparr>)))"
      by (auto intro: keeps_None split: sum.splits)
  qed
  show "keeps i (AddPhone k v now i)"
    unfolding AddPhone_def newPhone_def
  proof (rule keeps_change [OF assms])
    assume u: "idn_UpdatedAt i \<le> now"
    have "identity_wf (idn_touch now (i\<lparr>idn_Phones := idn_Phones i @ [c]\<rparr>))"
      if "\<not> has_value v (idn_Phones i)" "newContact ''phone'' k v (active_count (idn_Phones i) = 0) now = Inr c" for c
      using wf(4,5) by (intro phones_wf [OF assms u] contacts_ok_append [OF wf(2) u that]) (auto simp: login_defs)
    with assms show "keeps i (if has_value v (idn_Phones i)
        then refuse ''add identity phone: '' (idn_error Idn_ErrPhoneAlreadyExists) i
        else case newContact ''phone'' k v (active_count (idn_Phones i) = 0) now of
          Inl err \<Rightarrow> refuse ''add identity phone: '' err i
        | Inr phone \<Rightarrow> (None, idn_touch now (i\<lparr>idn_Phones := idn_Phones i @ [phone]\<rparr>)))"
      by (auto intro: keeps_None split: sum.splits)
  qed
  show "keeps i (LinkExternalAccount k v s now i)"
    unfolding LinkExternalAccount_def
  proof (rule keeps_change [OF assms])
    assume u: "idn_UpdatedAt i \<le> now"
    have "identity_wf (idn_touch now (i\<lparr>idn_ExternalAccounts := idn_ExternalAccounts i @ [a]\<rparr>))"
      if "\<not> hasExternalAccount v s i" "newExternalAccount k v s now = Inr a" for a
    proof (rule accounts_wf [OF assms u])
      have "ea_latestChangedAt a = now" "ea_Provider a = v" "ea_Subject a = s"
        using that(2) by (auto simp: newExternalAccount_def ea_latestChangedAt_def split: if_splits)
      with that(1) wf(3) u show "accounts_ok now (idn_ExternalAccounts i @ [a])"
        by (fastforce simp: accounts_ok_def hasExternalAccount_def ea_Matches_def list_ex_iff)
    qed (use wf(4,5) in \<open>auto simp: login_defs\<close>)
    with assms show "keeps i (if hasExternalAccount v s i
        then refuse ''link external identity account: '' (idn_error Idn_ErrExternalAccountExists) i
        else case newExternalAccount k v s now of
          Inl err \<Rightarrow> refuse ''link external identity account: '' err i
        | Inr account \<Rightarrow>
            (None, idn_touch now (i\<lparr>idn_ExternalAccounts := idn_ExternalAccounts i @ [account]\<rparr>)))"
      by (auto intro: keeps_None split: sum.splits)
  qed
qed

text \<open>The methods of e-mail addresses, then of phones.\<close>

lemma VerifyEmail_keeps:
  assumes "identity_wf i"
  shows "keeps i (VerifyEmail k now i)"
  unfolding VerifyEmail_def email_Verify_def
proof (rule keeps_change [OF assms], goal_cases)
  case 1
  note wf = identity_wf_lists [OF assms]
  show ?case
  proof (cases "contact_index k (idn_Emails i)")
    case None
    with assms show ?thesis by simp
  next
    case (Some j)
    note j = contact_index_Some [OF Some]
    obtain r c where V: "contact_Verify ''email'' now (idn_Emails i ! j) = (r, c)" by fastforce
    note V' = contacts_Verify [OF wf(1) 1(4) Some V]
    show ?thesis
    proof (cases r)
      case None
      with V' have c: "contacts_ok now ((idn_Emails i)[j := c])" "contact_IsUsable c" "contact_IsActive c"
        by simp_all
      then have "identity_wf (idn_touch now (i\<lparr>idn_Emails := (idn_Emails i)[j := c]\<rparr>))"
        using wf(4,5) j by (intro emails_wf [OF assms 1(4)]) (auto simp: login_defs intro: list_ex_nth_update)
      with Some V None show ?thesis by (simp add: keeps_None)
    next
      case err: (Some err)
      with V' have "c = idn_Emails i ! j" by simp
      with Some V err assms show ?thesis by simp
    qed
  qed
qed

lemma SetPrimaryEmail_keeps:
  assumes "identity_wf i"
  shows "keeps i (SetPrimaryEmail k now i)"
  unfolding SetPrimaryEmail_def email_Promote_def
proof (rule keeps_change [OF assms], goal_cases)
  case 1
  note wf = identity_wf_lists [OF assms]
  show ?case
  proof (cases "contact_index k (idn_Emails i)")
    case None
    with assms show ?thesis by simp
  next
    case (Some j)
    obtain q c where P: "contact_Promote ''email'' now (idn_Emails i ! j) = (q, c)" by fastforce
    show ?thesis
    proof (cases "q = Inr True")
      case True
      obtain r ys where D: "demote_except ''email'' j now 0 ((idn_Emails i)[j := c]) = (r, ys)" by fastforce
      note D' = contacts_SetPrimary [OF wf(1) 1(4) 1(3) Some P [unfolded True] D]
      then have "identity_wf (idn_touch now (i\<lparr>idn_Emails := ys\<rparr>))"
        using wf(4,5) list_ex_map_eq [of contact_IsActive ys] list_ex_map_eq [of contact_IsUsable ys]
        by (intro emails_wf [OF assms 1(4)]) (auto simp: login_defs)
      with Some P D D' True show ?thesis by (simp add: Let_def keeps_None)
    next
      case False
      with P have "c = idn_Emails i ! j" "q \<noteq> Inr True"
        by (auto simp: contact_Promote_def split: option.splits if_splits)
      with Some P assms show ?thesis
        by (cases q) (auto simp: Let_def intro: keeps_None)
    qed
  qed
qed

lemma RemoveEmail_keeps:
  assumes "identity_wf i"
  shows "keeps i (RemoveEmail k now i)"
  unfolding RemoveEmail_def email_Remove_def
proof (rule keeps_change [OF assms], goal_cases)
  case 1
  note wf = identity_wf_lists [OF assms]
  show ?case
  proof (cases "contact_index k (idn_Emails i)")
    case None
    with assms show ?thesis by simp
  next
    case (Some j)
    let ?main = "contact_IsMain (idn_Emails i ! j) \<and> active_count (idn_Emails i) > 1"
    obtain r c where R: "contact_Remove ''email'' now (idn_Emails i ! j) = (r, c)" by fastforce
    show ?thesis
    proof (cases "?main \<or> ensureLoginMethodRemovable (Some j) None None i \<noteq> None")
      case True
      with Some assms show ?thesis by auto
    next
      case ok: False
      note R' = contacts_Remove [OF wf(1) 1(4) Some _ R]
      show ?thesis
      proof (cases r)
        case None
        have "identity_wf (idn_touch now (i\<lparr>idn_Emails := (idn_Emails i)[j := c]\<rparr>))"
          using ok R' None
          by (intro emails_wf [OF assms 1(4)])
             (auto simp: removable login_defs except_defs intro: any_except_update)
        with Some R None ok show ?thesis by (auto intro: keeps_None)
      next
        case err: (Some err)
        with R' ok have "c = idn_Emails i ! j" by simp
        with Some R err ok assms show ?thesis by auto
      qed
    qed
  qed
qed

lemma VerifyPhone_keeps:
  assumes "identity_wf i"
  shows "keeps i (VerifyPhone k now i)"
  unfolding VerifyPhone_def phone_Verify_def
proof (rule keeps_change [OF assms], goal_cases)
  case 1
  note wf = identity_wf_lists [OF assms]
  show ?case
  proof (cases "contact_index k (idn_Phones i)")
    case None
    with assms show ?thesis by simp
  next
    case (Some j)
    note j = contact_index_Some [OF Some]
    obtain r c where V: "contact_Verify ''phone'' now (idn_Phones i ! j) = (r, c)" by fastforce
    note V' = contacts_Verify [OF wf(2) 1(4) Some V]
    show ?thesis
    proof (cases r)
      case None
      with V' have c: "contacts_ok now ((idn_Phones i)[j := c])" "contact_IsUsable c" "contact_IsActive c"
        by simp_all
      then have "identity_wf (idn_touch now (i\<lparr>idn_Phones := (idn_Phones i)[j := c]\<rparr>))"
        using wf(4,5) j by (intro phones_wf [OF assms 1(4)]) (auto simp: login_defs intro: list_ex_nth_update)
      with Some V None show ?thesis by (simp add: keeps_None)
    next
      case err: (Some err)
      with V' have "c = idn_Phones i ! j" by simp
      with Some V err assms show ?thesis by simp
    qed
  qed
qed

lemma SetPrimaryPhone_keeps:
  assumes "identity_wf i"
  shows "keeps i (SetPrimaryPhone k now i)"
  unfolding SetPrimaryPhone_def phone_Promote_def
proof (rule keeps_change [OF assms], goal_cases)
  case 1
  note wf = identity_wf_lists [OF assms]
  show ?case
  proof (cases "contact_index k (idn_Phones i)")
    case None
    with assms show ?thesis by simp
  next
    case (Some j)
    obtain q c where P: "contact_Promote ''phone'' now (idn_Phones i ! j) = (q, c)" by fastforce
    show ?thesis
    proof (cases "q = Inr True")
      case True
      obtain r ys where D: "demote_except ''phone'' j now 0 ((idn_Phones i)[j := c]) = (r, ys)" by fastforce
      note D' = contacts_SetPrimary [OF wf(2) 1(4) 1(3) Some P [unfolded True] D]
      then have "identity_wf (idn_touch now (i\<lparr>idn_Phones := ys\<rparr>))"
        using wf(4,5) list_ex_map_eq [of contact_IsActive ys] list_ex_map_eq [of contact_IsUsable ys]
        by (intro phones_wf [OF assms 1(4)]) (auto simp: login_defs)
      with Some P D D' True show ?thesis by (simp add: Let_def keeps_None)
    next
      case False
      with P have "c = idn_Phones i ! j" "q \<noteq> Inr True"
        by (auto simp: contact_Promote_def split: option.splits if_splits)
      with Some P assms show ?thesis
        by (cases q) (auto simp: Let_def intro: keeps_None)
    qed
  qed
qed

lemma RemovePhone_keeps:
  assumes "identity_wf i"
  shows "keeps i (RemovePhone k now i)"
  unfolding RemovePhone_def phone_Remove_def
proof (rule keeps_change [OF assms], goal_cases)
  case 1
  note wf = identity_wf_lists [OF assms]
  show ?case
  proof (cases "contact_index k (idn_Phones i)")
    case None
    with assms show ?thesis by simp
  next
    case (Some j)
    let ?main = "contact_IsMain (idn_Phones i ! j) \<and> active_count (idn_Phones i) > 1"
    obtain r c where R: "contact_Remove ''phone'' now (idn_Phones i ! j) = (r, c)" by fastforce
    show ?thesis
    proof (cases "?main \<or> ensureLoginMethodRemovable None (Some j) None i \<noteq> None")
      case True
      with Some assms show ?thesis by auto
    next
      case ok: False
      note R' = contacts_Remove [OF wf(2) 1(4) Some _ R]
      show ?thesis
      proof (cases r)
        case None
        have "identity_wf (idn_touch now (i\<lparr>idn_Phones := (idn_Phones i)[j := c]\<rparr>))"
          using ok R' None
          by (intro phones_wf [OF assms 1(4)])
             (auto simp: removable login_defs except_defs intro: any_except_update)
        with Some R None ok show ?thesis by (auto intro: keeps_None)
      next
        case err: (Some err)
        with R' ok have "c = idn_Phones i ! j" by simp
        with Some R err ok assms show ?thesis by auto
      qed
    qed
  qed
qed

text \<open>The methods of external accounts: one lemma, from what the change does to the account.\<close>

lemma account_keeps:
  assumes "identity_wf i" and "idn_UpdatedAt i \<le> now" and "j < length (idn_ExternalAccounts i)"
    and "p = (r, b)"
    and "if r = None then account_change now (idn_ExternalAccounts i ! j) b
         else b = idn_ExternalAccounts i ! j"
    and "r = None \<Longrightarrow> hasLoginMethod (set_account j b i)"
    and "r = None \<Longrightarrow> idn_Status i = Identity_Active \<Longrightarrow> hasUsableLoginMethod (set_account j b i)"
  shows "keeps i (case p of
      (Some err, a) \<Rightarrow> refuse msg err (set_account j a i)
    | (None, a) \<Rightarrow> (None, idn_touch now (set_account j a i)))"
proof (cases r)
  case None
  have "accounts_ok now ((idn_ExternalAccounts i)[j := b])"
    using assms(5) None by (intro accounts_ok_update [OF identity_wf_lists(3) [OF assms(1)] assms(2,3)])
      (simp_all add: account_change_def)
  then have "identity_wf (idn_touch now (set_account j b i))"
    using assms(6,7) None unfolding set_account_def by (intro accounts_wf [OF assms(1,2)]) simp_all
  with assms(4) None show ?thesis by (simp add: keeps_None)
next
  case (Some err)
  with assms(1,4,5) show ?thesis by (simp add: set_account_def)
qed

lemma externalAccountIndex_Some:
  "externalAccountIndex k i = Some j \<Longrightarrow>
     j < length (idn_ExternalAccounts i) \<and> ea_IsActive (idn_ExternalAccounts i ! j)"
  by (auto simp: externalAccountIndex_def ea_HasID_def dest: index_by_Some)

lemma set_account_logins:
  assumes "j < length (idn_ExternalAccounts i)"
  shows "hasLoginMethod i \<Longrightarrow> ea_IsActive b \<Longrightarrow> hasLoginMethod (set_account j b i)"
    and "hasUsableLoginMethod i \<Longrightarrow> ea_IsUsable b \<Longrightarrow> hasUsableLoginMethod (set_account j b i)"
    and "hasLoginMethodExcept None None (Some j) i \<Longrightarrow> hasLoginMethod (set_account j b i)"
    and "hasUsableLoginMethodExcept None None (Some j) i \<Longrightarrow> hasUsableLoginMethod (set_account j b i)"
  using assms
  by (auto simp: login_defs except_defs set_account_def intro: list_ex_nth_update any_except_update)

lemma accounts_keep:
  assumes "identity_wf i"
  shows "keeps i (RecordExternalAuthentication k now i)" and "keeps i (DisableExternalAccount k now i)"
    and "keeps i (EnableExternalAccount k now i)" and "keeps i (UnlinkExternalAccount k now i)"
proof -
  note wf = identity_wf_lists [OF assms]
  show "keeps i (RecordExternalAuthentication k now i)"
    unfolding RecordExternalAuthentication_def
  proof (rule keeps_change [OF assms], goal_cases)
    case 1
    show ?case
    proof (cases "externalAccountIndex k i")
      case None
      with assms show ?thesis by simp
    next
      case (Some j)
      note j = externalAccountIndex_Some [OF Some]
      obtain r b where B: "ea_RecordAuthentication now (idn_ExternalAccounts i ! j) = (r, b)" by fastforce
      note B' = account_changes(1) [OF B]
      have "keeps i (case ea_RecordAuthentication now (idn_ExternalAccounts i ! j) of
            (Some err, a) \<Rightarrow>
              refuse ''record external identity authentication: '' err (set_account j a i)
          | (None, a) \<Rightarrow> (None, idn_touch now (set_account j a i)))"
        using j B' wf(4,5)
        by (intro account_keeps [OF assms 1(4) _ B]) (auto intro: set_account_logins(1,2))
      with Some assms show ?thesis by auto
    qed
  qed
  show "keeps i (DisableExternalAccount k now i)"
    unfolding DisableExternalAccount_def
  proof (rule keeps_change [OF assms], goal_cases)
    case 1
    show ?case
    proof (cases "externalAccountIndex k i")
      case None
      with assms show ?thesis by simp
    next
      case (Some j)
      note j = externalAccountIndex_Some [OF Some]
      obtain r b where B: "ea_Disable now (idn_ExternalAccounts i ! j) = (r, b)" by fastforce
      note B' = account_changes(2) [OF B]
      let ?bad = "\<not> ea_IsUsable (idn_ExternalAccounts i ! j) \<or>
        idn_Status i = Identity_Active \<and> \<not> hasUsableLoginMethodExcept None None (Some j) i"
      show ?thesis
      proof (cases ?bad)
        case True
        with Some assms show ?thesis by auto
      next
        case False
        have "keeps i (case ea_Disable now (idn_ExternalAccounts i ! j) of
              (Some err, a) \<Rightarrow> refuse ''disable external identity account: '' err (set_account j a i)
            | (None, a) \<Rightarrow> (None, idn_touch now (set_account j a i)))"
          using j B' wf(4) False
          by (intro account_keeps [OF assms 1(4) _ B]) (auto intro: set_account_logins(1,4))
        with Some False show ?thesis by auto
      qed
    qed
  qed
  show "keeps i (EnableExternalAccount k now i)"
    unfolding EnableExternalAccount_def
  proof (rule keeps_change [OF assms], goal_cases)
    case 1
    show ?case
    proof (cases "externalAccountIndex k i")
      case None
      with assms show ?thesis by simp
    next
      case (Some j)
      note j = externalAccountIndex_Some [OF Some]
      obtain r b where B: "ea_Enable now (idn_ExternalAccounts i ! j) = (r, b)" by fastforce
      note B' = account_changes(3) [OF B]
      show ?thesis
        unfolding Some option.case using j B' wf(4,5)
        by (intro account_keeps [OF assms 1(4) _ B]) (auto intro: set_account_logins(1,2))
    qed
  qed
  show "keeps i (UnlinkExternalAccount k now i)"
    unfolding UnlinkExternalAccount_def
  proof (rule keeps_change [OF assms], goal_cases)
    case 1
    show ?case
    proof (cases "externalAccountIndex k i")
      case None
      with assms show ?thesis by simp
    next
      case (Some j)
      note j = externalAccountIndex_Some [OF Some]
      obtain r b where B: "ea_Unlink now (idn_ExternalAccounts i ! j) = (r, b)" by fastforce
      note B' = account_changes(4) [OF B]
      show ?thesis
      proof (cases "ensureLoginMethodRemovable None None (Some j) i")
        case None
        note free = None [unfolded removable]
        show ?thesis
          unfolding Some None option.case using j B' free
          by (intro account_keeps [OF assms 1(4) _ B]) (auto intro: set_account_logins(3,4))
      next
        case err: (Some err)
        with Some assms show ?thesis by simp
      qed
    qed
  qed
qed

lemma identity_do_keeps: "identity_wf i \<Longrightarrow> keeps i (identity_do c now i)"
  by (cases c) (simp_all add: status_keeps add_keeps VerifyEmail_keeps VerifyPhone_keeps
      SetPrimaryEmail_keeps SetPrimaryPhone_keeps RemoveEmail_keeps RemovePhone_keeps accounts_keep)

lemma identity_run_wf: "identity_wf i \<Longrightarrow> identity_wf (identity_run calls i)"
proof (induction calls arbitrary: i)
  case (Cons c calls)
  obtain a now where c: "c = (a, now)" by fastforce
  have "identity_wf (snd (identity_do a now i))"
    using identity_do_keeps [OF Cons.prems, of a now] by (auto simp: keeps_def split: prod.splits)
  with Cons.IH c show ?case by (simp add: identity_run_def)
qed (simp add: identity_run_def)

lemma constructors_wf:
  "NewWithEmail k e a now = Inr i \<Longrightarrow> identity_wf i"
  "NewWithPhone k e a now = Inr i \<Longrightarrow> identity_wf i"
  "NewWithExternalAccount k e a s now = Inr i \<Longrightarrow> identity_wf i"
  by (auto simp: NewWithEmail_def NewWithPhone_def NewWithExternalAccount_def newIdentity_def newEmail_def
      newPhone_def newContact_def newExternalAccount_def identity_wf_def contacts_ok_def accounts_ok_def
      login_defs contact_IsActive_def contact_IsMain_def ea_IsActive_def ea_latestChangedAt_def
      split: if_splits sum.splits)

text \<open>A deleted account refuses every call.\<close>

lemma identity_deleted:
  assumes "idn_Status i = Identity_Deleted"
  shows "fst (identity_do c now i) \<noteq> None \<and> snd (identity_do c now i) = i"
proof -
  have "\<exists>err. idn_change msg now i k = (Some err, i)" for msg k
    using assms by (simp add: idn_change_def idn_ensureChangeAllowed_def refuse_def)
  then have "fst (idn_change msg now i k) \<noteq> None \<and> snd (idn_change msg now i k) = i" for msg k
    by (metis fst_conv snd_conv option.distinct(1))
  then show ?thesis
    by (cases c) (simp_all add: identity_Activate_def identity_Disable_def identity_Enable_def
        identity_Delete_def AddEmail_def VerifyEmail_def SetPrimaryEmail_def RemoveEmail_def AddPhone_def
        VerifyPhone_def SetPrimaryPhone_def RemovePhone_def LinkExternalAccount_def
        RecordExternalAuthentication_def DisableExternalAccount_def EnableExternalAccount_def
        UnlinkExternalAccount_def)
qed

end
