(* ===== verification/Account_Properties.thy ===== *)
theory Account_Properties
  imports Identity_Account_Invariant
begin

text \<open>The properties of accounts, and their witnesses.\<close>

text \<open>
  C31. An account always has the shape its users rely on. However it was created, by an e-mail address,
  a phone number or an external account, and whatever calls it has seen since: there is always an
  e-mail address, phone number or external account to log in with, and while the account is active one
  that is verified and not disabled; of the addresses, and of the numbers, exactly one is primary while
  any is left; and nothing is registered twice.
\<close>

theorem account_always_sound:
  assumes "NewWithEmail k c e now = Inr i \<or> NewWithPhone k c e now = Inr i \<or>
           NewWithExternalAccount k c p s now = Inr i"
  shows "hasLoginMethod (identity_run calls i) \<and>
    (idn_Status (identity_run calls i) = Identity_Active \<longrightarrow> hasUsableLoginMethod (identity_run calls i)) \<and>
    (\<forall>xs \<in> {idn_Emails (identity_run calls i), idn_Phones (identity_run calls i)}.
       distinct (map ct_Value xs) \<and>
       length (filter contact_IsMain xs) = (if list_ex contact_IsActive xs then 1 else 0)) \<and>
    distinct (map (\<lambda>a. (ea_Provider a, ea_Subject a)) (idn_ExternalAccounts (identity_run calls i)))"
proof -
  from assms have "identity_wf i" by (auto dest: constructors_wf)
  from identity_run_wf [OF this, of calls] show ?thesis
    by (simp add: identity_wf_def contacts_ok_def accounts_ok_def)
qed

definition demo_account_calls :: "(identity_call \<times> gotime) list" where
  "demo_account_calls =
     [(I_VerifyEmail 2, 20), (I_Activate, 30), (I_AddEmail 3 ''b@x'', 40), (I_RemoveEmail 2, 50),
      (I_VerifyEmail 3, 60), (I_SetPrimaryEmail 3, 70), (I_RemoveEmail 2, 80)]"

theorem account_always_sound_witness:
  "\<exists>i. NewWithEmail 1 2 ''a@x'' 10 = Inr i \<and> hasLoginMethod (identity_run demo_account_calls i) \<and>
     map (\<lambda>c. (ct_Value c, ct_IsPrimary c)) (idn_Emails (identity_run demo_account_calls i)) =
       [(''a@x'', False), (''b@x'', True)] \<and>
     idn_Status (identity_run demo_account_calls i) = Identity_Active"
proof -
  have "case NewWithEmail 1 2 ''a@x'' 10 of Inl e \<Rightarrow> False | Inr i \<Rightarrow>
     map (\<lambda>c. (ct_Value c, ct_IsPrimary c)) (idn_Emails (identity_run demo_account_calls i)) =
       [(''a@x'', False), (''b@x'', True)] \<and>
     idn_Status (identity_run demo_account_calls i) = Identity_Active"
    by code_simp
  then obtain i where i: "NewWithEmail 1 2 ''a@x'' 10 = Inr i" and
    "map (\<lambda>c. (ct_Value c, ct_IsPrimary c)) (idn_Emails (identity_run demo_account_calls i)) =
       [(''a@x'', False), (''b@x'', True)]"
    "idn_Status (identity_run demo_account_calls i) = Identity_Active"
    by (cases "NewWithEmail 1 2 ''a@x'' 10") auto
  then show ?thesis
    using account_always_sound [of 1 2 "''a@x''" 10 i "''''" "''''" demo_account_calls] by auto
qed

end
