(* ===== verification/Identity_Key.thy ===== *)
theory Identity_Key
  imports Identity_Common
begin

text \<open>
  Signing keys, \<open>internal/domain/signingkey\<close>: their life cycle, and the check of the public JWK against
  the key it belongs to. Decoding JSON is a parameter: \<open>members\<close> decodes an object to its members,
  \<open>text\<close> decodes one member as a string.
\<close>

section \<open>Values\<close>

definition NewKeyID :: "string \<Rightarrow> ierror + string" where
  "NewKeyID value =
     (case NormalizeToken value of (value, ok) \<Rightarrow>
        if \<not> ok then Inl (Fresh ''signing key ID must be a non-empty token'') else Inr value)"

datatype algorithm = AlgorithmEdDSA | AlgorithmES256 | AlgorithmRS256 | OtherAlgorithm string

fun algorithm_String :: "algorithm \<Rightarrow> string" where
  "algorithm_String AlgorithmEdDSA = ''EdDSA''"
| "algorithm_String AlgorithmES256 = ''ES256''"
| "algorithm_String AlgorithmRS256 = ''RS256''"
| "algorithm_String (OtherAlgorithm s) = s"

definition NewAlgorithm :: "string \<Rightarrow> ierror + algorithm" where
  "NewAlgorithm value =
     (case NormalizeToken value of (value, ok) \<Rightarrow>
        if \<not> ok then Inl (Fresh ''signing key algorithm must be a non-empty token'')
        else if value = ''EdDSA'' then Inr AlgorithmEdDSA
        else if value = ''ES256'' then Inr AlgorithmES256
        else if value = ''RS256'' then Inr AlgorithmRS256
        else Inl (Fresh ''unsupported signing key algorithm''))"

definition NewPrivateKeyRef :: "string \<Rightarrow> ierror + string" where
  "NewPrivateKeyRef value =
     (case NormalizeRequiredText value of (value, ok) \<Rightarrow>
        if \<not> ok then Inl (Fresh ''signing private key reference is required'') else Inr value)"

datatype key_status =
  Key_Pending | Key_Active | Key_Retiring | Key_Retired | Key_Compromised | OtherKeyStatus string

definition ParseKeyStatus :: "string \<Rightarrow> ierror + key_status" where
  "ParseKeyStatus value =
     (if value = ''pending'' then Inr Key_Pending
      else if value = ''active'' then Inr Key_Active
      else if value = ''retiring'' then Inr Key_Retiring
      else if value = ''retired'' then Inr Key_Retired
      else if value = ''compromised'' then Inr Key_Compromised
      else Inl (Fresh ''unknown signing key status''))"


section \<open>The public JWK\<close>

text \<open>\<open>fmt\<close>'s \<open>%q\<close> of a member name, which is plain text here.\<close>

definition quoted :: "string \<Rightarrow> string" where
  "quoted s = [CHR 0x22] @ s @ [CHR 0x22]"

definition privateJWKMembers :: "string list" where
  "privateJWKMembers = [''d'', ''p'', ''q'', ''dp'', ''dq'', ''qi'', ''oth'', ''k'']"

type_synonym 'r object = "string \<rightharpoonup> 'r"

definition validatePublicJWK ::
  "(string \<Rightarrow> ierror + 'r object option) \<Rightarrow> ('r \<Rightarrow> ierror + string) \<Rightarrow> string \<Rightarrow> ierror option" where
  "validatePublicJWK members text value =
     (let value = trim_space value
      in if value = '''' \<or> hd value \<noteq> CHR ''{'' then Some (Fresh ''public JWK must be a JSON object'')
         else case members value of
           Inl err \<Rightarrow> Some (Wrap ''decode public JWK: '' err '''')
         | Inr None \<Rightarrow> Some (Fresh ''public JWK must be a JSON object'')
         | Inr (Some ms) \<Rightarrow>
             (case find (\<lambda>m. ms m \<noteq> None) privateJWKMembers of
                Some m \<Rightarrow> Some (Fresh (''public JWK contains private member '' @ quoted m))
              | None \<Rightarrow>
                  (case ms ''kty'' of
                     None \<Rightarrow> Some (Fresh ''public JWK key type is required'')
                   | Some raw \<Rightarrow>
                       (case text raw of
                          Inl err \<Rightarrow> Some (Fresh ''public JWK key type is required'')
                        | Inr keyType \<Rightarrow>
                            if trim_space keyType = '''' then Some (Fresh ''public JWK key type is required'')
                            else None))))"

definition NewPublicJWK ::
  "(string \<Rightarrow> ierror + 'r object option) \<Rightarrow> ('r \<Rightarrow> ierror + string) \<Rightarrow> string \<Rightarrow> ierror + string" where
  "NewPublicJWK members text value =
     (case validatePublicJWK members text value of
        Some err \<Rightarrow> Inl (Wrap ''create public JWK: '' err '''')
      | None \<Rightarrow> Inr value)"

definition requiredJWKString :: "('r \<Rightarrow> ierror + string) \<Rightarrow> 'r object \<Rightarrow> string \<Rightarrow> ierror + string" where
  "requiredJWKString text ms member =
     (case ms member of
        None \<Rightarrow> Inl (Fresh (''public JWK member '' @ quoted member @ '' is required''))
      | Some raw \<Rightarrow>
          (case text raw of
             Inl err \<Rightarrow> Inl (Fresh (''public JWK member '' @ quoted member @ '' must be a non-empty string''))
           | Inr value \<Rightarrow>
               if trim_space value = ''''
               then Inl (Fresh (''public JWK member '' @ quoted member @ '' must be a non-empty string''))
               else Inr value))"

text \<open>
  The optional members \<open>alg\<close> and \<open>use\<close>: the code ranges over a Go map, in no fixed order; which of two
  errors is reported is not modelled, the first here being that of \<open>alg\<close>.
\<close>

definition optional_mismatch ::
  "('r \<Rightarrow> ierror + string) \<Rightarrow> 'r object \<Rightarrow> string \<times> string \<Rightarrow> bool" where
  "optional_mismatch text ms p =
     (case ms (fst p) of
        None \<Rightarrow> False
      | Some raw \<Rightarrow> (case text raw of Inl _ \<Rightarrow> True | Inr actual \<Rightarrow> actual \<noteq> snd p))"

fun require_members :: "('r \<Rightarrow> ierror + string) \<Rightarrow> 'r object \<Rightarrow> string list \<Rightarrow> ierror option" where
  "require_members text ms [] = None"
| "require_members text ms (m # rest) =
     (case requiredJWKString text ms m of Inl err \<Rightarrow> Some err | Inr _ \<Rightarrow> require_members text ms rest)"

definition validate_key_type ::
  "('r \<Rightarrow> ierror + string) \<Rightarrow> 'r object \<Rightarrow> algorithm \<Rightarrow> string \<Rightarrow> ierror option" where
  "validate_key_type text ms alg keyType =
     (case alg of
        AlgorithmEdDSA \<Rightarrow>
          (case requiredJWKString text ms ''crv'' of
             Inl err \<Rightarrow> Some err
           | Inr curve \<Rightarrow>
               if keyType \<noteq> ''OKP'' \<or> curve \<noteq> ''Ed25519'' \<and> curve \<noteq> ''Ed448''
               then Some (Fresh ''EdDSA public JWK must use an Ed25519 or Ed448 OKP key'')
               else require_members text ms [''x''])
      | AlgorithmES256 \<Rightarrow>
          (case requiredJWKString text ms ''crv'' of
             Inl err \<Rightarrow> Some err
           | Inr curve \<Rightarrow>
               if keyType \<noteq> ''EC'' \<or> curve \<noteq> ''P-256''
               then Some (Fresh ''ES256 public JWK must use a P-256 EC key'')
               else require_members text ms [''x'', ''y''])
      | AlgorithmRS256 \<Rightarrow>
          if keyType \<noteq> ''RSA'' then Some (Fresh ''RS256 public JWK must use an RSA key'')
          else require_members text ms [''n'', ''e'']
      | OtherAlgorithm _ \<Rightarrow> Some (Fresh ''unsupported public JWK algorithm''))"

text \<open>A nil map has no members, so the decoded \<open>null\<close> is the empty map here.\<close>

definition validatePublicJWKMetadata ::
  "(string \<Rightarrow> ierror + 'r object option) \<Rightarrow> ('r \<Rightarrow> ierror + string) \<Rightarrow> string \<Rightarrow> string \<Rightarrow> algorithm
     \<Rightarrow> ierror option" where
  "validatePublicJWKMetadata members text value keyID alg =
     (case members value of
        Inl err \<Rightarrow> Some (Wrap ''decode public JWK metadata: '' err '''')
      | Inr decoded \<Rightarrow>
          (let ms = (case decoded of None \<Rightarrow> Map.empty | Some ms \<Rightarrow> ms)
           in case requiredJWKString text ms ''kid'' of
                Inl err \<Rightarrow> Some err
              | Inr kid \<Rightarrow>
                  if kid \<noteq> keyID
                  then Some (Fresh (''public JWK member '' @ quoted ''kid'' @ '' does not match signing key metadata''))
                  else (case find (optional_mismatch text ms)
                               [(''alg'', algorithm_String alg), (''use'', ''sig'')] of
                     Some (m, _) \<Rightarrow>
                       Some (Fresh (''public JWK member '' @ quoted m @ '' does not match signing key metadata''))
                   | None \<Rightarrow>
                       (case requiredJWKString text ms ''kty'' of
                          Inl err \<Rightarrow> Some err
                        | Inr keyType \<Rightarrow> validate_key_type text ms alg keyType))))"


section \<open>The key and its life cycle\<close>

record signing_key =
  sk_ID :: uuid
  sk_KeyID :: string
  sk_Algorithm :: algorithm
  sk_PublicJWK :: string
  sk_PrivateKeyRef :: string
  sk_Status :: key_status
  sk_CreatedAt :: gotime
  sk_NotBefore :: gotime
  sk_ExpiresAt :: "gotime option"
  sk_ActivatedAt :: "gotime option"
  sk_RetiringAt :: "gotime option"
  sk_RetiredAt :: "gotime option"
  sk_CompromisedAt :: "gotime option"

definition New_signing_key ::
  "(string \<Rightarrow> ierror + 'r object option) \<Rightarrow> ('r \<Rightarrow> ierror + string) \<Rightarrow> uuid \<Rightarrow> string \<Rightarrow> algorithm \<Rightarrow> string
     \<Rightarrow> string \<Rightarrow> gotime \<Rightarrow> gotime option \<Rightarrow> gotime \<Rightarrow> ierror + signing_key" where
  "New_signing_key members text k keyID alg publicJWK privateKeyRef notBefore expiresAt now =
     (if k = uuid_nil then Inl (Fresh ''create signing key: identifier is required'')
      else if is_zero now \<or> before notBefore now
      then Inl (Fresh ''create signing key: validity start is invalid'')
      else if expiresAt \<noteq> None \<and> \<not> after (the expiresAt) notBefore
      then Inl (Fresh ''create signing key: expiration is invalid'')
      else case validatePublicJWKMetadata members text publicJWK keyID alg of
        Some err \<Rightarrow> Inl (Wrap ''create signing key: validate public JWK metadata: '' err '''')
      | None \<Rightarrow> Inr \<lparr>sk_ID = k, sk_KeyID = keyID, sk_Algorithm = alg, sk_PublicJWK = publicJWK,
                     sk_PrivateKeyRef = privateKeyRef, sk_Status = Key_Pending, sk_CreatedAt = now,
                     sk_NotBefore = notBefore, sk_ExpiresAt = expiresAt, sk_ActivatedAt = None,
                     sk_RetiringAt = None, sk_RetiredAt = None, sk_CompromisedAt = None\<rparr>)"

definition latestLifecycleAtExcludingCompromise :: "signing_key \<Rightarrow> gotime" where
  "latestLifecycleAtExcludingCompromise k =
     latest (sk_CreatedAt k) [sk_ActivatedAt k, sk_RetiringAt k, sk_RetiredAt k]"

definition sk_latestChangedAt :: "signing_key \<Rightarrow> gotime" where
  "sk_latestChangedAt k = latest (latestLifecycleAtExcludingCompromise k) [sk_CompromisedAt k]"

definition sk_ensureChangeAllowed :: "gotime \<Rightarrow> signing_key \<Rightarrow> ierror option" where
  "sk_ensureChangeAllowed now k =
     (if is_zero now \<or> before now (sk_latestChangedAt k)
      then Some (Fresh ''validate signing key for change: time is invalid'') else None)"

abbreviation (input) key_error :: "key_sentinel \<Rightarrow> ierror" where
  "key_error s \<equiv> Sentinel (S_key s)"

text \<open>The opening of the methods that change a key, and the checks of its validity period.\<close>

definition sk_change ::
  "string \<Rightarrow> gotime \<Rightarrow> signing_key \<Rightarrow> ierror option \<times> signing_key \<Rightarrow> ierror option \<times> signing_key" where
  "sk_change msg now k r =
     (case sk_ensureChangeAllowed now k of Some err \<Rightarrow> refuse msg err k | None \<Rightarrow> r)"

definition key_Activate :: "gotime \<Rightarrow> signing_key \<Rightarrow> ierror option \<times> signing_key" where
  "key_Activate now k =
     sk_change ''activate signing key: '' now k
       (if sk_Status k \<noteq> Key_Pending
        then refuse ''activate signing key: '' (key_error Key_ErrInvalidStatus) k
        else if before now (sk_NotBefore k)
        then refuse ''activate signing key: '' (key_error Key_ErrNotYetValid) k
        else if sk_ExpiresAt k \<noteq> None \<and> \<not> before now (the (sk_ExpiresAt k))
        then refuse ''activate signing key: '' (key_error Key_ErrExpired) k
        else (None, k\<lparr>sk_Status := Key_Active, sk_ActivatedAt := Some now\<rparr>))"

definition StartRetirement :: "gotime \<Rightarrow> signing_key \<Rightarrow> ierror option \<times> signing_key" where
  "StartRetirement now k =
     sk_change ''start signing key retirement: '' now k
       (if sk_Status k \<noteq> Key_Active
        then refuse ''start signing key retirement: '' (key_error Key_ErrInvalidStatus) k
        else (None, k\<lparr>sk_Status := Key_Retiring, sk_RetiringAt := Some now\<rparr>))"

definition Retire :: "gotime \<Rightarrow> signing_key \<Rightarrow> ierror option \<times> signing_key" where
  "Retire now k =
     sk_change ''retire signing key: '' now k
       (if sk_Status k \<noteq> Key_Retiring
        then refuse ''retire signing key: '' (key_error Key_ErrInvalidStatus) k
        else (None, k\<lparr>sk_Status := Key_Retired, sk_RetiredAt := Some now\<rparr>))"

definition MarkCompromised :: "gotime \<Rightarrow> signing_key \<Rightarrow> ierror option \<times> signing_key" where
  "MarkCompromised now k =
     (if sk_Status k = Key_Compromised then (None, k)
      else sk_change ''mark signing key compromised: '' now k
        (None, k\<lparr>sk_Status := Key_Compromised, sk_CompromisedAt := Some now\<rparr>))"

definition usable_period :: "string \<Rightarrow> gotime \<Rightarrow> signing_key \<Rightarrow> ierror option" where
  "usable_period msg now k =
     (if before now (sk_NotBefore k) then Some (Wrap msg (key_error Key_ErrNotYetValid) '''')
      else if sk_ExpiresAt k \<noteq> None \<and> \<not> before now (the (sk_ExpiresAt k))
      then Some (Wrap msg (key_error Key_ErrExpired) '''')
      else None)"

definition ValidateForSigning :: "gotime \<Rightarrow> signing_key \<Rightarrow> ierror option" where
  "ValidateForSigning now k =
     (if is_zero now \<or> before now (sk_latestChangedAt k)
      then Some (Fresh ''validate signing key for signing: time is invalid'')
      else if sk_Status k = Key_Compromised
      then Some (Wrap ''validate signing key for signing: '' (key_error Key_ErrCompromised) '''')
      else if sk_Status k \<noteq> Key_Active
      then Some (Wrap ''validate signing key for signing: '' (key_error Key_ErrInvalidStatus) '''')
      else usable_period ''validate signing key for signing: '' now k)"

definition ValidateForVerification :: "gotime \<Rightarrow> signing_key \<Rightarrow> ierror option" where
  "ValidateForVerification now k =
     (if is_zero now \<or> before now (sk_latestChangedAt k)
      then Some (Fresh ''validate signing key for verification: time is invalid'')
      else if sk_Status k = Key_Compromised
      then Some (Wrap ''validate signing key for verification: '' (key_error Key_ErrCompromised) '''')
      else if sk_Status k \<noteq> Key_Active \<and> sk_Status k \<noteq> Key_Retiring
      then Some (Wrap ''validate signing key for verification: '' (key_error Key_ErrInvalidStatus) '''')
      else usable_period ''validate signing key for verification: '' now k)"


section \<open>What the life cycle guarantees\<close>

datatype key_call = K_Activate | K_StartRetirement | K_Retire | K_MarkCompromised

fun key_do :: "key_call \<Rightarrow> gotime \<Rightarrow> signing_key \<Rightarrow> ierror option \<times> signing_key" where
  "key_do K_Activate now k = key_Activate now k"
| "key_do K_StartRetirement now k = StartRetirement now k"
| "key_do K_Retire now k = Retire now k"
| "key_do K_MarkCompromised now k = MarkCompromised now k"

inductive key_step :: "signing_key \<Rightarrow> signing_key \<Rightarrow> bool" where
  call: "key_do c now k = (None, k') \<Longrightarrow> key_step k k'"
| keep: "key_do c now k = (Some err, k') \<Longrightarrow> key_step k k'"

inductive_cases key_stepE: "key_step k k'"

fun key_rank :: "key_status \<Rightarrow> nat" where
  "key_rank Key_Pending = 0"
| "key_rank Key_Active = 1"
| "key_rank Key_Retiring = 2"
| "key_rank Key_Retired = 3"
| "key_rank Key_Compromised = 4"
| "key_rank (OtherKeyStatus _) = 0"

lemma sk_change_eq:
  "sk_change msg now k r = (e, k') \<longleftrightarrow>
     (\<exists>err. sk_ensureChangeAllowed now k = Some err \<and> e = Some (Wrap msg err '''') \<and> k' = k) \<or>
     (now \<noteq> 0 \<and> sk_latestChangedAt k \<le> now \<and> r = (e, k'))"
  by (auto simp: sk_change_def sk_ensureChangeAllowed_def refuse_def)

lemma key_do_error: "key_do c now k = (Some err, k') \<Longrightarrow> k' = k"
  by (cases c) (auto simp: key_Activate_def StartRetirement_def Retire_def MarkCompromised_def
      sk_change_eq refuse_def split: if_splits)

text \<open>A call that succeeds moves the status one step on, or to compromised from anywhere.\<close>

lemma key_do_ok:
  assumes "key_do c now k = (None, k')"
  shows "(sk_Status k, sk_Status k') \<in> {(Key_Pending, Key_Active), (Key_Active, Key_Retiring),
           (Key_Retiring, Key_Retired)} \<or> sk_Status k' = Key_Compromised"
    and "sk_KeyID k' = sk_KeyID k" "sk_Algorithm k' = sk_Algorithm k" "sk_PublicJWK k' = sk_PublicJWK k"
      "sk_NotBefore k' = sk_NotBefore k" "sk_ExpiresAt k' = sk_ExpiresAt k"
  using assms by (cases c; auto simp: key_Activate_def StartRetirement_def Retire_def MarkCompromised_def
      sk_change_eq split: if_splits)+

lemma key_step_status:
  assumes "key_step k k'"
  shows "sk_Status k' = sk_Status k \<or> key_rank (sk_Status k) < key_rank (sk_Status k')"
  using assms
proof cases
  case (call c now)
  show ?thesis
  proof (cases "sk_Status k = Key_Compromised")
    case True
    with call show ?thesis
      by (cases c) (auto simp: key_Activate_def StartRetirement_def Retire_def MarkCompromised_def sk_change_eq
          split: if_splits)
  next
    case False
    with key_do_ok(1) [OF call] show ?thesis by (cases "sk_Status k") auto
  qed
next
  case (keep c now err)
  from key_do_error [OF this] show ?thesis by simp
qed

lemma key_compromised_final: "key_step k k' \<Longrightarrow> sk_Status k = Key_Compromised \<Longrightarrow> sk_Status k' = Key_Compromised"
  using key_do_ok(1) key_do_error by (elim key_stepE) fastforce+

lemma key_steps_rank: "key_step\<^sup>*\<^sup>* k k' \<Longrightarrow> key_rank (sk_Status k) \<le> key_rank (sk_Status k')"
  by (induction rule: rtranclp_induct) (auto dest: key_step_status)

lemma key_steps_same:
  "key_step\<^sup>*\<^sup>* k k' \<Longrightarrow> sk_KeyID k' = sk_KeyID k \<and> sk_Algorithm k' = sk_Algorithm k \<and>
     sk_PublicJWK k' = sk_PublicJWK k"
proof (induction rule: rtranclp_induct)
  case (step k' k'')
  from step.hyps(2) step.IH key_do_ok(2-4) key_do_error show ?case
    by (elim key_stepE) metis+
qed simp

text \<open>
  Once a key may not sign any more, because it is retiring, retired or compromised, it never signs
  again, and it verifies only while it is retiring.
\<close>

lemma ValidateForSigning_ok:
  "ValidateForSigning now k = None \<longleftrightarrow>
     now \<noteq> 0 \<and> sk_latestChangedAt k \<le> now \<and> sk_Status k = Key_Active \<and> sk_NotBefore k \<le> now \<and>
     (\<forall>e. sk_ExpiresAt k = Some e \<longrightarrow> now < e)"
  by (auto simp: ValidateForSigning_def usable_period_def)

lemma ValidateForVerification_ok:
  "ValidateForVerification now k = None \<longleftrightarrow>
     now \<noteq> 0 \<and> sk_latestChangedAt k \<le> now \<and> sk_Status k \<in> {Key_Active, Key_Retiring} \<and>
     sk_NotBefore k \<le> now \<and> (\<forall>e. sk_ExpiresAt k = Some e \<longrightarrow> now < e)"
  by (auto simp: ValidateForVerification_def usable_period_def)

interpretation key_life: ranked_lifecycle "\<lambda>k k'. key_step k k' \<and> sk_Status k' \<noteq> sk_Status k"
  "\<lambda>k. sk_Status k = Key_Compromised" "\<lambda>k. key_rank (sk_Status k)"
proof
  show "\<not> (key_step k k' \<and> sk_Status k' \<noteq> sk_Status k)" if "sk_Status k = Key_Compromised" for k k'
    using that key_compromised_final by metis
  show "key_rank (sk_Status k) < key_rank (sk_Status k')"
    if "key_step k k' \<and> sk_Status k' \<noteq> sk_Status k" for k k'
    using that key_step_status by blast
qed

lemma retiring_never_signs:
  assumes "key_step\<^sup>*\<^sup>* k k'" and "sk_Status k \<in> {Key_Retiring, Key_Retired, Key_Compromised}"
  shows "ValidateForSigning now k' \<noteq> None"
  using key_steps_rank [OF assms(1)] assms(2) by (auto simp: ValidateForSigning_ok)

end
