(* ===== verification/Identity_Texts.thy ===== *)
theory Identity_Texts
  imports Identity_Common
begin

text \<open>The texts of the sentinel errors of the identity service, package by package.\<close>

fun refresh_text :: "refresh_sentinel \<Rightarrow> string" where
  "refresh_text Ref_ErrSessionFamilyAlreadyExists = ''refresh token family already exists for session''"
| "refresh_text Ref_ErrNotFound = ''refresh token family not found''"
| "refresh_text Ref_ErrRevoked = ''refresh token family is revoked''"
| "refresh_text Ref_ErrExpired = ''refresh token family is expired''"
| "refresh_text Ref_ErrTokenNotFound = ''refresh token not found''"
| "refresh_text Ref_ErrTokenRevoked = ''refresh token is revoked''"
| "refresh_text Ref_ErrTokenExpired = ''refresh token is expired''"
| "refresh_text Ref_errTokenAlreadyRotated = ''refresh token was already rotated''"

fun session_text :: "session_sentinel \<Rightarrow> string" where
  "session_text Ses_ErrNotFound = ''session not found''"
| "session_text Ses_ErrRevoked = ''session is revoked''"
| "session_text Ses_ErrIdleExpired = ''session idle lifetime has expired''"
| "session_text Ses_ErrAbsoluteExpired = ''session absolute lifetime has expired''"

fun code_text :: "code_sentinel \<Rightarrow> string" where
  "code_text Code_ErrAlreadyExists = ''authorization code already exists''"
| "code_text Code_ErrNotFound = ''authorization code not found''"
| "code_text Code_ErrExpired = ''authorization code is expired''"
| "code_text Code_ErrOAuthClientMismatch = ''authorization code belongs to another OAuth client''"
| "code_text Code_ErrRedirectURIMismatch = ''authorization code redirect URI does not match''"
| "code_text Code_ErrPKCERequired = ''PKCE code verifier is required''"
| "code_text Code_ErrPKCEVerificationFailed = ''PKCE verification failed''"

fun grant_text :: "grant_sentinel \<Rightarrow> string" where
  "grant_text Grant_ErrAlreadyExists = ''authorization grant already exists''"
| "grant_text Grant_ErrNotFound = ''authorization grant not found''"
| "grant_text Grant_ErrRevoked = ''authorization grant is revoked''"
| "grant_text Grant_ErrExpired = ''authorization grant is expired''"

fun transaction_text :: "transaction_sentinel \<Rightarrow> string" where
  "transaction_text Tra_ErrAlreadyExists = ''authorization transaction already exists''"
| "transaction_text Tra_ErrNotFound = ''authorization transaction not found''"
| "transaction_text Tra_ErrExpired = ''authorization transaction is expired''"
| "transaction_text Tra_ErrInvalidStatus = ''authorization transaction status does not allow the operation''"
| "transaction_text Tra_ErrInvalidStep = ''authorization transaction step does not allow the operation''"
| "transaction_text Tra_ErrIdentityMismatch = ''authorization transaction belongs to another identity''"
| "transaction_text Tra_ErrPKCERequired = ''PKCE is required''"

fun flow_text :: "flow_sentinel \<Rightarrow> string" where
  "flow_text Flow_ErrFactsNotFound = ''authentication flow facts not found''"
| "flow_text Flow_ErrFactsRequired = ''authentication flow facts are required''"
| "flow_text Flow_ErrNoNextStep = ''authentication flow has no valid next step''"

fun client_text :: "client_sentinel \<Rightarrow> string" where
  "client_text Cli_ErrClientIDAlreadyExists = ''OAuth client identifier already exists''"
| "client_text Cli_ErrNotFound = ''OAuth client not found''"
| "client_text Cli_ErrInvalidStatus = ''OAuth client status does not allow this operation''"
| "client_text Cli_ErrPKCERequired = ''PKCE is required for a public OAuth client''"
| "client_text Cli_ErrAuthorizationCodeRequired = ''authorization_code grant is required''"
| "client_text Cli_ErrAuthorizationCodeFlowNotAllowed = ''OAuth client is not allowed to use authorization code flow''"
| "client_text Cli_ErrRedirectURIAlreadyExists = ''OAuth client redirect URI already exists''"
| "client_text Cli_ErrRedirectURINotFound = ''OAuth client redirect URI not found''"
| "client_text Cli_ErrLastRedirectURI = ''OAuth client must retain a redirect URI''"
| "client_text Cli_ErrPostLogoutRedirectURIAlreadyExists = ''OAuth client post-logout redirect URI already exists''"
| "client_text Cli_ErrPostLogoutRedirectURINotFound = ''OAuth client post-logout redirect URI not found''"
| "client_text Cli_ErrGrantTypeAlreadyExists = ''OAuth client grant type already exists''"
| "client_text Cli_ErrGrantTypeNotFound = ''OAuth client grant type not found''"
| "client_text Cli_ErrScopeAlreadyExists = ''OAuth client scope already exists''"
| "client_text Cli_ErrScopeNotFound = ''OAuth client scope not found''"
| "client_text Cli_ErrCredentialsNotAllowed = ''credentials are not allowed for a public OAuth client''"
| "client_text Cli_ErrUsableCredentialRequired = ''a usable credential is required for a confidential OAuth client''"
| "client_text Cli_ErrCredentialNotFound = ''OAuth client credential not found''"
| "client_text Cli_ErrCredentialRevoked = ''OAuth client credential is revoked''"
| "client_text Cli_ErrCredentialExpired = ''OAuth client credential is expired''"

fun identity_text :: "identity_sentinel \<Rightarrow> string" where
  "identity_text Idn_ErrNotFound = ''identity not found''"
| "identity_text Idn_ErrInvalidStatus = ''identity status does not allow this operation''"
| "identity_text Idn_ErrInvalidTransition = ''invalid identity status transition''"
| "identity_text Idn_ErrLoginMethodRequired = ''identity must have at least one login method''"
| "identity_text Idn_ErrEmailNotFound = ''identity email not found''"
| "identity_text Idn_ErrEmailAlreadyExists = ''identity email already exists''"
| "identity_text Idn_ErrPhoneNotFound = ''identity phone not found''"
| "identity_text Idn_ErrPhoneAlreadyExists = ''identity phone already exists''"
| "identity_text Idn_ErrExternalAccountNotFound = ''external identity account not found''"
| "identity_text Idn_ErrExternalAccountExists = ''external identity account already exists''"
| "identity_text Idn_ErrExternalAccountDisabled = ''external identity account is disabled''"

fun profile_text :: "profile_sentinel \<Rightarrow> string" where
  "profile_text Pro_ErrAlreadyExists = ''identity profile already exists''"
| "profile_text Pro_ErrNotFound = ''identity profile not found''"
| "profile_text Pro_ErrExternallyManaged = ''identity profile is managed by an external source''"

fun key_text :: "key_sentinel \<Rightarrow> string" where
  "key_text Key_ErrNotFound = ''signing key not found''"
| "key_text Key_ErrInvalidStatus = ''signing key status does not allow the operation''"
| "key_text Key_ErrNotYetValid = ''signing key is not valid yet''"
| "key_text Key_ErrExpired = ''signing key is expired''"
| "key_text Key_ErrCompromised = ''signing key is compromised''"
| "key_text Key_ErrKeyIDAlreadyExists = ''signing key ID already exists''"
| "key_text Key_ErrActiveAlgorithmConflict = ''an active signing key already exists for the algorithm''"

fun password_text :: "password_sentinel \<Rightarrow> string" where
  "password_text Pwd_ErrAlreadyExists = ''password already exists''"
| "password_text Pwd_ErrNotFound = ''password not found''"
| "password_text Pwd_ErrLocked = ''password authentication is locked''"
| "password_text Pwd_ErrExpired = ''password is expired''"
| "password_text Pwd_ErrCompromised = ''password is compromised''"

fun mfa_text :: "mfa_sentinel \<Rightarrow> string" where
  "mfa_text Mfa_ErrFactorNotFound = ''MFA factor not found''"
| "mfa_text Mfa_ErrFactorAlreadyExists = ''MFA factor already exists''"
| "mfa_text Mfa_ErrEnabledTOTPAlreadyExists = ''an enabled TOTP factor already exists''"
| "mfa_text Mfa_ErrCredentialAlreadyExists = ''WebAuthn credential already exists''"
| "mfa_text Mfa_ErrFactorDisabled = ''MFA factor is disabled''"
| "mfa_text Mfa_ErrFactorNotConfirmed = ''MFA factor is not confirmed''"
| "mfa_text Mfa_ErrTOTPReplay = ''TOTP time step was already used''"
| "mfa_text Mfa_ErrWebAuthnCounterRollback = ''WebAuthn signature counter did not increase''"

fun recovery_text :: "recovery_sentinel \<Rightarrow> string" where
  "recovery_text Rec_ErrActiveSetAlreadyExists = ''active recovery code set already exists''"
| "recovery_text Rec_ErrNotFound = ''recovery code set not found''"
| "recovery_text Rec_ErrDisabled = ''recovery code set is disabled''"
| "recovery_text Rec_ErrExpired = ''recovery code set is expired''"
| "recovery_text Rec_ErrCodeNotFound = ''recovery code not found''"
| "recovery_text Rec_ErrCodeUsed = ''recovery code was already used''"

fun account_text :: "account_sentinel \<Rightarrow> string" where
  "account_text Acc_ErrNotFound = ''service account not found''"
| "account_text Acc_ErrAccountKeyAlreadyExists = ''service account key already exists in organization''"
| "account_text Acc_ErrInvalidStatus = ''service account status does not allow this operation''"
| "account_text Acc_ErrUsableCredentialRequired = ''a usable credential is required''"
| "account_text Acc_ErrCredentialNotFound = ''service account credential not found''"
| "account_text Acc_ErrCredentialRevoked = ''service account credential is revoked''"
| "account_text Acc_ErrCredentialExpired = ''service account credential is expired''"

fun challenge_noun :: "challenge_kind \<Rightarrow> string" where
  "challenge_noun EmailChallenge = ''email verification challenge''"
| "challenge_noun PhoneChallenge = ''phone verification challenge''"
| "challenge_noun ResetChallenge = ''password reset challenge''"

fun challenge_text :: "challenge_kind \<Rightarrow> challenge_sentinel \<Rightarrow> string" where
  "challenge_text k Cha_ErrNotFound = challenge_noun k @ '' not found''"
| "challenge_text k Cha_ErrExpired = challenge_noun k @ '' is expired''"
| "challenge_text k Cha_ErrConsumed = challenge_noun k @ '' is consumed''"
| "challenge_text k Cha_ErrRevoked = challenge_noun k @ '' is revoked''"
| "challenge_text k Cha_ErrAttemptsExhausted = challenge_noun k @ '' attempts are exhausted''"

fun id_sentinel_text :: "id_sentinel \<Rightarrow> string" where
  "id_sentinel_text (S_ref s) = refresh_text s"
| "id_sentinel_text (S_ses s) = session_text s"
| "id_sentinel_text (S_code s) = code_text s"
| "id_sentinel_text (S_grant s) = grant_text s"
| "id_sentinel_text (S_tra s) = transaction_text s"
| "id_sentinel_text (S_flow s) = flow_text s"
| "id_sentinel_text (S_cli s) = client_text s"
| "id_sentinel_text (S_idn s) = identity_text s"
| "id_sentinel_text (S_pro s) = profile_text s"
| "id_sentinel_text (S_key s) = key_text s"
| "id_sentinel_text (S_pwd s) = password_text s"
| "id_sentinel_text (S_mfa s) = mfa_text s"
| "id_sentinel_text (S_rec s) = recovery_text s"
| "id_sentinel_text (S_acc s) = account_text s"
| "id_sentinel_text (S_chal k s) = challenge_text k s"
| "id_sentinel_text (S_contact Con_ErrChallengeUnavailable) = ''contact verification challenge is unavailable''"
| "id_sentinel_text (S_tok Tok_ErrInvalidToken) = ''access token is invalid''"

definition ierr_Error :: "ierror \<Rightarrow> string" where
  "ierr_Error e = error_text id_sentinel_text e"

end
