(* ===== verification/Identity_Tokens.thy ===== *)
theory Identity_Tokens
  imports Identity_Key Identity_OAuth Identity_Client Identity_Texts
begin

text \<open>
  The token services, \<open>internal/service/accesstoken\<close> and \<open>internal/service/idtoken\<close>: which key signs,
  what a token claims and for how long, and what makes an access token acceptable. The JWT library
  behind the signer and the verifier, the key repository, the clock and the UUID library are ports.
\<close>

section \<open>Values\<close>

fun level_String :: "auth_level \<Rightarrow> string" where
  "level_String LevelSingleFactor = ''single_factor''"
| "level_String LevelMultiFactor = ''multi_factor''"
| "level_String (OtherLevel s) = s"

fun method_String :: "auth_method \<Rightarrow> string" where
  "method_String MethodPassword = ''password''"
| "method_String MethodTOTP = ''totp''"
| "method_String MethodWebAuthn = ''webauthn''"
| "method_String MethodRecoveryCode = ''recovery_code''"
| "method_String (OtherMethod s) = s"

text \<open>The conversion \<open>Algorithm(value)\<close>, without a check.\<close>

definition to_algorithm :: "string \<Rightarrow> algorithm" where
  "to_algorithm value =
     (if value = ''EdDSA'' then AlgorithmEdDSA else if value = ''ES256'' then AlgorithmES256
      else if value = ''RS256'' then AlgorithmRS256 else OtherAlgorithm value)"

definition second :: duration where
  "second = 1000000000"

text \<open>\<open>time.Unix(now.Unix(), 0)\<close>: the last whole second.\<close>

definition whole_second :: "gotime \<Rightarrow> gotime" where
  "whole_second now = now div second * second"

lemma whole_second_bounds: "whole_second now \<le> now" "now < whole_second now + second"
  by (simp_all add: whole_second_def second_def)

record access_config =
  tc_Issuer :: string
  tc_Audience :: "string list"
  tc_Algorithm :: string
  tc_Lifetime :: duration

definition access_Validate :: "access_config \<Rightarrow> ierror option" where
  "access_Validate c =
     (if tc_Issuer c = '''' \<or> trim_space (tc_Issuer c) \<noteq> tc_Issuer c then Some (Fresh ''issuer is invalid'')
      else if tc_Audience c = [] then Some (Fresh ''audience is required'')
      else if list_ex (\<lambda>a. a = '''' \<or> trim_space a \<noteq> a) (tc_Audience c)
      then Some (Fresh ''audience is invalid'')
      else if tc_Algorithm c = '''' \<or> trim_space (tc_Algorithm c) \<noteq> tc_Algorithm c
      then Some (Fresh ''algorithm is invalid'')
      else case NewAlgorithm (tc_Algorithm c) of
        Inl err \<Rightarrow> Some (Fresh ''algorithm is invalid'')
      | Inr _ \<Rightarrow>
          if tc_Lifetime c < second then Some (Fresh ''lifetime must be at least one second'')
          else if tc_Lifetime c mod second \<noteq> 0
          then Some (Fresh ''lifetime must be a whole number of seconds'')
          else None)"

record idtoken_config =
  ic_Issuer :: string
  ic_Algorithm :: string
  ic_Lifetime :: duration

definition idtoken_Validate :: "idtoken_config \<Rightarrow> ierror option" where
  "idtoken_Validate c =
     (if ic_Algorithm c = '''' \<or> trim_space (ic_Algorithm c) \<noteq> ic_Algorithm c
      then Some (Fresh ''algorithm is invalid'')
      else case NewAlgorithm (ic_Algorithm c) of
        Inl err \<Rightarrow> Some (Fresh ''algorithm is invalid'')
      | Inr _ \<Rightarrow>
          if ic_Lifetime c < second \<or> ic_Lifetime c mod second \<noteq> 0
          then Some (Fresh ''lifetime must be a positive whole number of seconds'')
          else None)"

record access_claims =
  cl_Issuer :: string
  cl_Subject :: string
  cl_Audience :: "string list"
  cl_ExpiresAt :: gotime
  cl_IssuedAt :: gotime
  cl_TokenID :: string
  cl_ClientID :: string
  cl_Scopes :: "string list"
  cl_SessionID :: string
  cl_AuthenticationLevel :: string
  cl_AuthenticatedMethods :: "string list"
  cl_AuthenticatedAt :: gotime

record identity_claims =
  ic_Email :: "string option"
  ic_EmailVerified :: "bool option"
  ic_PhoneNumber :: "string option"
  ic_PhoneNumberVerified :: "bool option"
  ic_Name :: "string option"
  ic_FamilyName :: "string option"
  ic_GivenName :: "string option"
  ic_MiddleName :: "string option"
  ic_UpdatedAt :: "gotime option"

record idtoken_claims =
  icl_Issuer :: string
  icl_Subject :: string
  icl_Audience :: string
  icl_ExpiresAt :: gotime
  icl_IssuedAt :: gotime
  icl_Nonce :: "string option"
  icl_Identity :: identity_claims
  icl_AuthenticationLevel :: string
  icl_AuthenticatedMethods :: "string list"
  icl_AuthenticatedAt :: gotime

record 'c sign_input =
  si_KeyID :: string
  si_Algorithm :: algorithm
  si_PrivateKeyRef :: string
  si_Claims :: 'c

record verify_input =
  vi_Value :: string
  vi_KeyID :: string
  vi_Algorithm :: algorithm
  vi_PublicJWK :: string
  vi_Issuer :: string
  vi_Audience :: "string list"
  vi_Now :: gotime

record access_issue_input =
  ati_IdentityID :: uuid
  ati_SessionID :: uuid
  ati_ClientID :: string
  ati_GrantedScopes :: "string list"
  ati_AuthenticationLevel :: auth_level
  ati_AuthenticatedMethods :: "auth_method list"
  ati_AuthenticatedAt :: gotime

record issued_token =
  it_Value :: string
  it_ID :: uuid
  it_IssuedAt :: gotime
  it_ExpiresAt :: gotime

record verified_token =
  vt_ID :: uuid
  vt_IdentityID :: uuid
  vt_SessionID :: uuid
  vt_ClientID :: string
  vt_Scopes :: "string list"

record idtoken_issue_input =
  iti_IdentityID :: uuid
  iti_ClientID :: string
  iti_Nonce :: "string option"
  iti_Identity :: identity_claims
  iti_AuthenticationLevel :: auth_level
  iti_AuthenticatedMethods :: "auth_method list"
  iti_AuthenticatedAt :: gotime

record issued_idtoken =
  iit_Value :: string
  iit_IssuedAt :: gotime
  iit_ExpiresAt :: gotime


section \<open>The services\<close>

record 'w token_ports =
  keys_GetActive :: "algorithm \<Rightarrow> gotime \<Rightarrow> 'w \<Rightarrow> ('w, id_sentinel, signing_key) result"
  keys_GetByKeyID :: "string \<Rightarrow> 'w \<Rightarrow> ('w, id_sentinel, signing_key) result"
  Sign :: "access_claims sign_input \<Rightarrow> 'w \<Rightarrow> ('w, id_sentinel, string) result"
  SignIDToken :: "idtoken_claims sign_input \<Rightarrow> 'w \<Rightarrow> ('w, id_sentinel, string) result"
  jwt_KeyID :: "string \<Rightarrow> ierror + string"
  jwt_Verify :: "verify_input \<Rightarrow> ierror + access_claims"
  tok_ids_New :: "'w \<Rightarrow> uuid \<times> 'w"
  tok_clock_Now :: "'w \<Rightarrow> gotime \<times> 'w"
  uuid_Text :: "uuid \<Rightarrow> string"
  uuid_Parse :: "string \<Rightarrow> ierror + uuid"

definition access_wrap :: "string \<Rightarrow> ierror \<Rightarrow> ierror" where
  "access_wrap what err = Wrap (what @ '': '') err ''''"

definition AccessToken_Issue ::
  "('w, 'z) token_ports_scheme \<Rightarrow> access_config \<Rightarrow> access_issue_input \<Rightarrow> 'w
     \<Rightarrow> ('w, id_sentinel, issued_token) result" where
  "AccessToken_Issue P cfg input w =
     draw (tok_clock_Now P w) (\<lambda>now w.
       let issuedAt = whole_second now;
           expiresAt = issuedAt + tc_Lifetime cfg
       in attempt (keys_GetActive P (to_algorithm (tc_Algorithm cfg)) now w)
            (access_wrap ''issue access token: get active signing key'') (\<lambda>key w.
          if sk_ExpiresAt key \<noteq> None \<and> before (the (sk_ExpiresAt key)) expiresAt
          then (Inl (Fresh ''issue access token: signing key expires before access token''), w)
          else draw (tok_ids_New P w) (\<lambda>tokenID w.
            let claims = \<lparr>cl_Issuer = tc_Issuer cfg, cl_Subject = uuid_Text P (ati_IdentityID input),
                          cl_Audience = tc_Audience cfg, cl_ExpiresAt = expiresAt, cl_IssuedAt = issuedAt,
                          cl_TokenID = uuid_Text P tokenID, cl_ClientID = ati_ClientID input,
                          cl_Scopes = ati_GrantedScopes input,
                          cl_SessionID = uuid_Text P (ati_SessionID input),
                          cl_AuthenticationLevel = level_String (ati_AuthenticationLevel input),
                          cl_AuthenticatedMethods = map method_String (ati_AuthenticatedMethods input),
                          cl_AuthenticatedAt = ati_AuthenticatedAt input\<rparr>
            in attempt (Sign P \<lparr>si_KeyID = sk_KeyID key, si_Algorithm = sk_Algorithm key,
                               si_PrivateKeyRef = sk_PrivateKeyRef key, si_Claims = claims\<rparr> w)
                 (access_wrap ''issue access token: sign'') (\<lambda>value w.
               (Inr \<lparr>it_Value = value, it_ID = tokenID, it_IssuedAt = issuedAt,
                     it_ExpiresAt = expiresAt\<rparr>, w)))))"

definition IDToken_Issue ::
  "('w, 'z) token_ports_scheme \<Rightarrow> idtoken_config \<Rightarrow> idtoken_issue_input \<Rightarrow> 'w
     \<Rightarrow> ('w, id_sentinel, issued_idtoken) result" where
  "IDToken_Issue P cfg input w =
     draw (tok_clock_Now P w) (\<lambda>now w.
       let issuedAt = whole_second now;
           expiresAt = issuedAt + ic_Lifetime cfg
       in attempt (keys_GetActive P (to_algorithm (ic_Algorithm cfg)) now w)
            (access_wrap ''issue ID token: get active signing key'') (\<lambda>key w.
          if sk_ExpiresAt key \<noteq> None \<and> before (the (sk_ExpiresAt key)) expiresAt
          then (Inl (Fresh ''issue ID token: signing key expires before ID token''), w)
          else attempt (SignIDToken P
                 \<lparr>si_KeyID = sk_KeyID key, si_Algorithm = sk_Algorithm key,
                  si_PrivateKeyRef = sk_PrivateKeyRef key,
                  si_Claims = \<lparr>icl_Issuer = ic_Issuer cfg,
                               icl_Subject = uuid_Text P (iti_IdentityID input),
                               icl_Audience = iti_ClientID input, icl_ExpiresAt = expiresAt,
                               icl_IssuedAt = issuedAt, icl_Nonce = iti_Nonce input,
                               icl_Identity = iti_Identity input,
                               icl_AuthenticationLevel = level_String (iti_AuthenticationLevel input),
                               icl_AuthenticatedMethods = map method_String (iti_AuthenticatedMethods input),
                               icl_AuthenticatedAt = iti_AuthenticatedAt input\<rparr>\<rparr> w)
               (access_wrap ''issue ID token: sign'') (\<lambda>value w.
             (Inr \<lparr>iit_Value = value, iit_IssuedAt = issuedAt, iit_ExpiresAt = expiresAt\<rparr>, w))))"

definition invalidToken :: "ierror \<Rightarrow> ierror" where
  "invalidToken cause = Wrap '''' (Sentinel (S_tok Tok_ErrInvalidToken)) ('': '' @ trim_space (ierr_Error cause))"

fun parse_scopes :: "string list \<Rightarrow> ierror + string list" where
  "parse_scopes [] = Inr []"
| "parse_scopes (v # vs) =
     (case NewScope v of
        Inl err \<Rightarrow> Inl (invalidToken err)
      | Inr scope \<Rightarrow> (case parse_scopes vs of Inl err \<Rightarrow> Inl err | Inr scopes \<Rightarrow> Inr (scope # scopes)))"

definition parse_id :: "('w, 'z) token_ports_scheme \<Rightarrow> string \<Rightarrow> string \<Rightarrow> ierror + uuid" where
  "parse_id P msg value =
     (case uuid_Parse P value of
        Inl err \<Rightarrow> Inl (invalidToken (Fresh msg))
      | Inr u \<Rightarrow> if u = uuid_nil then Inl (invalidToken (Fresh msg)) else Inr u)"

definition verifiedTokenFromClaims ::
  "('w, 'z) token_ports_scheme \<Rightarrow> access_claims \<Rightarrow> ierror + verified_token" where
  "verifiedTokenFromClaims P claims =
     (case parse_id P ''token ID is invalid'' (cl_TokenID claims) of Inl err \<Rightarrow> Inl err | Inr tokenID \<Rightarrow>
      case parse_id P ''subject is invalid'' (cl_Subject claims) of Inl err \<Rightarrow> Inl err | Inr identityID \<Rightarrow>
      case parse_id P ''session ID is invalid'' (cl_SessionID claims) of Inl err \<Rightarrow> Inl err | Inr sessionID \<Rightarrow>
      case NewClientID (cl_ClientID claims) of Inl err \<Rightarrow> Inl (invalidToken err) | Inr clientID \<Rightarrow>
      case parse_scopes (cl_Scopes claims) of Inl err \<Rightarrow> Inl err | Inr scopes \<Rightarrow>
        Inr \<lparr>vt_ID = tokenID, vt_IdentityID = identityID, vt_SessionID = sessionID,
             vt_ClientID = clientID, vt_Scopes = scopes\<rparr>)"

definition key_load_error :: "ierror \<Rightarrow> ierror" where
  "key_load_error err =
     (if errors_is err (S_key Key_ErrNotFound) then invalidToken err
      else access_wrap ''verify access token: get signing key'' err)"

definition AccessToken_Verify ::
  "('w, 'z) token_ports_scheme \<Rightarrow> access_config \<Rightarrow> string \<Rightarrow> 'w \<Rightarrow> ('w, id_sentinel, verified_token) result" where
  "AccessToken_Verify P cfg value w =
     attempt (jwt_KeyID P value, w) invalidToken (\<lambda>keyID w.
     attempt (keys_GetByKeyID P keyID w) key_load_error (\<lambda>key w.
     draw (tok_clock_Now P w) (\<lambda>now w.
       if sk_Algorithm key \<noteq> to_algorithm (tc_Algorithm cfg)
       then (Inl (invalidToken (Fresh ''signing algorithm does not match access token configuration'')), w)
       else case ValidateForVerification now key of
         Some err \<Rightarrow> (Inl (invalidToken err), w)
       | None \<Rightarrow>
           attempt (jwt_Verify P \<lparr>vi_Value = value, vi_KeyID = sk_KeyID key, vi_Algorithm = sk_Algorithm key,
                      vi_PublicJWK = sk_PublicJWK key, vi_Issuer = tc_Issuer cfg,
                      vi_Audience = tc_Audience cfg, vi_Now = now\<rparr>, w) invalidToken (\<lambda>claims w.
             (verifiedTokenFromClaims P claims, w)))))"

lemma invalidToken_is [simp]: "errors_is (invalidToken e) (S_tok Tok_ErrInvalidToken)"
  by (simp add: invalidToken_def)

end
