(* ===== verification/Identity_Event.thy ===== *)
theory Identity_Event
  imports Identity_Common
begin

text \<open>
  What the identity service reports: application errors (\<open>domain/apperr\<close>), the messages of the outbox
  with the events of sessions, refresh token families, challenges and profiles (\<open>domain/event\<close>), and the security events of
  the audit (\<open>domain/securityevent\<close>). JSON encoding is a parameter.
\<close>

section \<open>Application errors\<close>

definition iapp_normalizeType :: "apperr_type \<Rightarrow> apperr_type" where
  "iapp_normalizeType t = (if \<not> apperr_type_Valid t then TypeInternal else t)"

definition iapp_normalizeCode :: "string \<Rightarrow> string" where
  "iapp_normalizeCode code =
     (let code = trim_space code in if code = '''' then ''internal_error'' else code)"

definition iapp_normalizeMessage :: "string \<Rightarrow> string" where
  "iapp_normalizeMessage message =
     (let message = trim_space message in if message = '''' then ''internal error'' else message)"

definition iapp_New :: "apperr_type \<Rightarrow> string \<Rightarrow> string \<Rightarrow> ierror option \<Rightarrow> ierror" where
  "iapp_New errorType code message cause =
     App (iapp_normalizeType errorType) (iapp_normalizeCode code) (iapp_normalizeMessage message) cause"

definition iapp_IsType :: "ierror \<Rightarrow> apperr_type \<Rightarrow> bool" where
  "iapp_IsType err t = (case errors_as_app err of Some (App t' c m u) \<Rightarrow> t' = t | _ \<Rightarrow> False)"

definition iapp_IsCode :: "ierror \<Rightarrow> string \<Rightarrow> bool" where
  "iapp_IsCode err code = (case errors_as_app err of Some (App t c m u) \<Rightarrow> c = code | _ \<Rightarrow> False)"

lemma errors_as_app_iapp [simp]: "errors_as_app (iapp_New t c m u) = Some (iapp_New t c m u)"
  by (simp add: iapp_New_def)

lemma errors_is_iapp [simp]: "errors_is (iapp_New t c m (Some e)) k = errors_is e k"
  by (simp add: iapp_New_def)

lemma iapp_New_type:
  "apperr_type_Valid t \<Longrightarrow> iapp_IsType (iapp_New t c m u) t' \<longleftrightarrow> t' = t"
  by (auto simp: iapp_IsType_def iapp_New_def iapp_normalizeType_def)


section \<open>Events\<close>

text \<open>The payloads, one constructor per event struct, their fields in the order of the struct.\<close>

datatype family_event =
  Family_Created (fe_FamilyID: uuid) (fe_SessionID: uuid) (fe_InitialTokenID: uuid) gotime gotime
    "string option" "string option" gotime
| Family_TokenRotated (fe_FamilyID: uuid) (fe_SessionID: uuid) (fe_PreviousTokenID: uuid)
    (fe_NewTokenID: uuid) gotime "string option" "string option" gotime
| Family_ReuseDetected (fe_FamilyID: uuid) (fe_SessionID: uuid) (fe_ReusedTokenID: uuid) gotime gotime
| Family_Revoked (fe_FamilyID: uuid) (fe_SessionID: uuid) string gotime

datatype session_event =
  Session_Created uuid uuid uuid auth_level "auth_method list" "string list" "string option"
    "string option" "string option" gotime gotime gotime gotime
| Session_Revoked uuid uuid uuid string gotime

datatype challenge_event =
  Email_Issued uuid uuid string string gotime gotime
| Phone_Issued uuid uuid string string gotime gotime

text \<open>The source and the assurance level of a profile are given as the strings they are.\<close>

datatype profile_event =
  Profile_Updated string string string "string option" string string int64 gotime gotime

datatype id_payload =
  P_family family_event | P_session session_event | P_challenge challenge_event | P_profile profile_event

definition AggregateTypeFamily :: string where
  "AggregateTypeFamily = ''refresh_token_family''"

definition AggregateTypeSession :: string where
  "AggregateTypeSession = ''session''"

definition AggregateTypeEmailChallenge :: string where
  "AggregateTypeEmailChallenge = ''email_verification_challenge''"

definition AggregateTypePhoneChallenge :: string where
  "AggregateTypePhoneChallenge = ''phone_verification_challenge''"

definition EventTypeEmailIssued :: string where
  "EventTypeEmailIssued = ''EmailVerificationChallengeIssued''"

definition EventTypePhoneIssued :: string where
  "EventTypePhoneIssued = ''PhoneVerificationChallengeIssued''"

definition AggregateTypeProfile :: string where
  "AggregateTypeProfile = ''identity_profile''"

definition EventTypeProfileUpdated :: string where
  "EventTypeProfileUpdated = ''IdentityProfileUpdated''"

definition EventTypeFamilyCreated :: string where
  "EventTypeFamilyCreated = ''RefreshTokenFamilyCreated''"

definition EventTypeTokenRotated :: string where
  "EventTypeTokenRotated = ''RefreshTokenRotated''"

definition EventTypeReuseDetected :: string where
  "EventTypeReuseDetected = ''RefreshTokenReuseDetected''"

definition EventTypeFamilyRevoked :: string where
  "EventTypeFamilyRevoked = ''RefreshTokenFamilyRevoked''"

definition EventTypeSessionCreated :: string where
  "EventTypeSessionCreated = ''SessionCreated''"

definition EventTypeSessionRevoked :: string where
  "EventTypeSessionRevoked = ''SessionRevoked''"

record imessage =
  im_ID :: uuid
  im_EventID :: uuid
  im_AggregateType :: string
  im_AggregateID :: uuid
  im_AggregateVersion :: "int64 option"
  im_EventType :: string
  im_Payload :: string
  im_Headers :: "(string \<times> string) list"
  im_PartitionKey :: "string option"
  im_OccurredAt :: gotime

definition NewMessage ::
  "(id_payload \<Rightarrow> ierror + string) \<Rightarrow> (uuid \<Rightarrow> string) \<Rightarrow> uuid \<Rightarrow> uuid \<Rightarrow> string \<Rightarrow> string \<Rightarrow> uuid
     \<Rightarrow> int64 option \<Rightarrow> id_payload \<Rightarrow> gotime \<Rightarrow> ierror + imessage" where
  "NewMessage marshal uuid_string messageID eventID eventType aggregateType aggregateID aggregateVersion
     payload occurredAt =
     (case marshal payload of
        Inl err \<Rightarrow> Inl (Wrap (''marshal '' @ eventType @ '' event payload: '') err '''')
      | Inr encodedPayload \<Rightarrow>
          (let partitionKey = uuid_string aggregateID
           in Inr \<lparr>im_ID = messageID, im_EventID = eventID, im_AggregateType = aggregateType,
                   im_AggregateID = aggregateID, im_AggregateVersion = aggregateVersion,
                   im_EventType = eventType, im_Payload = encodedPayload, im_Headers = [],
                   im_PartitionKey = Some partitionKey, im_OccurredAt = occurredAt\<rparr>))"


section \<open>Security events\<close>

datatype sec_result = ResultSuccess | ResultFailure | ResultBlocked | OtherResult string

definition ParseResult :: "string \<Rightarrow> ierror + sec_result" where
  "ParseResult value =
     (if value = ''success'' then Inr ResultSuccess
      else if value = ''failure'' then Inr ResultFailure
      else if value = ''blocked'' then Inr ResultBlocked
      else Inl (Fresh ''unknown security event result''))"

datatype actor_type =
  ActorTypeAnonymous | ActorTypeIdentity | ActorTypeServiceAccount | ActorTypeAdministrator
| ActorTypeSystem | OtherActorType string

fun actor_type_String :: "actor_type \<Rightarrow> string" where
  "actor_type_String ActorTypeAnonymous = ''anonymous''"
| "actor_type_String ActorTypeIdentity = ''identity''"
| "actor_type_String ActorTypeServiceAccount = ''service_account''"
| "actor_type_String ActorTypeAdministrator = ''administrator''"
| "actor_type_String ActorTypeSystem = ''system''"
| "actor_type_String (OtherActorType s) = s"

definition ParseActorType :: "string \<Rightarrow> ierror + actor_type" where
  "ParseActorType value =
     (if value = ''anonymous'' then Inr ActorTypeAnonymous
      else if value = ''identity'' then Inr ActorTypeIdentity
      else if value = ''service_account'' then Inr ActorTypeServiceAccount
      else if value = ''administrator'' then Inr ActorTypeAdministrator
      else if value = ''system'' then Inr ActorTypeSystem
      else Inl (Fresh ''unknown security actor type''))"

lemma ParseActorType_roundtrip:
  "ParseActorType s = Inr t \<Longrightarrow> actor_type_String t = s"
  "\<forall>s. t \<noteq> OtherActorType s \<Longrightarrow> ParseActorType (actor_type_String t) = Inr t"
proof -
  show "ParseActorType s = Inr t \<Longrightarrow> actor_type_String t = s"
    by (auto simp: ParseActorType_def split: if_splits)
  show "\<forall>s. t \<noteq> OtherActorType s \<Longrightarrow> ParseActorType (actor_type_String t) = Inr t"
    by (cases t) (simp_all add: ParseActorType_def)
qed

record actor =
  act_Type :: actor_type
  act_IdentityID :: "uuid option"
  act_ServiceAccountID :: "uuid option"

text \<open>The zero value \<open>Actor{}\<close> a caller gets together with an error.\<close>

definition zero_actor :: actor where
  "zero_actor = \<lparr>act_Type = OtherActorType '''', act_IdentityID = None, act_ServiceAccountID = None\<rparr>"

definition NewAnonymousActor :: actor where
  "NewAnonymousActor = zero_actor\<lparr>act_Type := ActorTypeAnonymous\<rparr>"

definition NewSystemActor :: actor where
  "NewSystemActor = zero_actor\<lparr>act_Type := ActorTypeSystem\<rparr>"

definition newIdentityActor :: "actor_type \<Rightarrow> uuid \<Rightarrow> ierror + actor" where
  "newIdentityActor actorType identityID =
     (if identityID = uuid_nil
      then Inl (Fresh (''create '' @ actor_type_String actorType @ '' security actor: identifier is invalid''))
      else Inr (zero_actor\<lparr>act_Type := actorType, act_IdentityID := Some identityID\<rparr>))"

definition NewIdentityActor :: "uuid \<Rightarrow> ierror + actor" where
  "NewIdentityActor identityID = newIdentityActor ActorTypeIdentity identityID"

definition NewAdministratorActor :: "uuid \<Rightarrow> ierror + actor" where
  "NewAdministratorActor identityID = newIdentityActor ActorTypeAdministrator identityID"

definition NewServiceAccountActor :: "uuid \<Rightarrow> ierror + actor" where
  "NewServiceAccountActor serviceAccountID =
     (if serviceAccountID = uuid_nil
      then Inl (Fresh ''create service account security actor: identifier is invalid'')
      else Inr (zero_actor\<lparr>act_Type := ActorTypeServiceAccount,
                           act_ServiceAccountID := Some serviceAccountID\<rparr>))"

definition NewEventType :: "string \<Rightarrow> ierror + string" where
  "NewEventType value =
     (case NormalizeToken value of (value, ok) \<Rightarrow>
        if \<not> ok then Inl (Fresh ''security event type must be a non-empty token'') else Inr value)"

definition NewIdentifierHash :: "string \<Rightarrow> ierror + string" where
  "NewIdentifierHash value =
     (if length value = 0 then Inl (Fresh ''security event identifier hash is required'') else Inr value)"

text \<open>
  \<open>decode\<close> is \<open>json.Unmarshal\<close> into a map: an error, or whether the map is not nil.
\<close>

definition validateMetadata :: "(string \<Rightarrow> ierror + bool) \<Rightarrow> string \<Rightarrow> ierror option" where
  "validateMetadata decode value =
     (let value = trim_space value
      in if value = '''' \<or> hd value \<noteq> CHR ''{''
         then Some (Fresh ''security event metadata must be a JSON object'')
         else case decode value of
           Inl err \<Rightarrow> Some (Wrap ''decode security event metadata: '' err '''')
         | Inr object \<Rightarrow>
             if \<not> object then Some (Fresh ''security event metadata must be a JSON object'') else None)"

definition NewMetadata :: "(string \<Rightarrow> ierror + bool) \<Rightarrow> string \<Rightarrow> ierror + string" where
  "NewMetadata decode value =
     (let value = (if trim_space value = '''' then ''{}'' else value)
      in case validateMetadata decode value of
           Some err \<Rightarrow> Inl (Wrap ''create security event metadata: '' err '''')
         | None \<Rightarrow> Inr value)"

record security_event =
  sv_ID :: uuid
  sv_Type :: string
  sv_Result :: sec_result
  sv_Actor :: actor
  sv_SessionID :: "uuid option"
  sv_OAuthClientID :: "uuid option"
  sv_IdentifierHash :: string
  sv_IPAddress :: "string option"
  sv_UserAgent :: "string option"
  sv_CorrelationID :: "uuid option"
  sv_Metadata :: string
  sv_OccurredAt :: gotime

definition New_security_event ::
  "uuid \<Rightarrow> string \<Rightarrow> sec_result \<Rightarrow> actor \<Rightarrow> uuid option \<Rightarrow> uuid option \<Rightarrow> string \<Rightarrow> string option
     \<Rightarrow> string option \<Rightarrow> uuid option \<Rightarrow> string \<Rightarrow> gotime \<Rightarrow> ierror + security_event" where
  "New_security_event k eventType result actor sessionID oauthClientID identifierHash ip userAgent
     correlationID metadata occurredAt =
     (if k = uuid_nil then Inl (Fresh ''create security event: identifier is required'')
      else if sessionID = Some uuid_nil
      then Inl (Fresh ''create security event: session identifier is invalid'')
      else if oauthClientID = Some uuid_nil
      then Inl (Fresh ''create security event: OAuth client identifier is invalid'')
      else if correlationID = Some uuid_nil
      then Inl (Fresh ''create security event: correlation identifier is invalid'')
      else if is_zero occurredAt then Inl (Fresh ''create security event: occurrence time is invalid'')
      else Inr \<lparr>sv_ID = k, sv_Type = eventType, sv_Result = result, sv_Actor = actor,
                sv_SessionID = sessionID, sv_OAuthClientID = oauthClientID,
                sv_IdentifierHash = identifierHash, sv_IPAddress = ip,
                sv_UserAgent = NormalizeOptionalText userAgent, sv_CorrelationID = correlationID,
                sv_Metadata = metadata, sv_OccurredAt = occurredAt\<rparr>)"

definition EventTypeAuthorizationCodeExchange :: string where
  "EventTypeAuthorizationCodeExchange = ''OAuthAuthorizationCodeExchange''"

definition EventTypeRefreshTokenExchange :: string where
  "EventTypeRefreshTokenExchange = ''OAuthRefreshTokenExchange''"

definition EventTypeTokenRevocation :: string where
  "EventTypeTokenRevocation = ''OAuthTokenRevocation''"

definition EventTypeUserInfoAccess :: string where
  "EventTypeUserInfoAccess = ''OAuthUserInfoAccess''"

lemma New_security_event_ok:
  "New_security_event k t r a s c h ip ua co m now = Inr e \<Longrightarrow>
     sv_Type e = t \<and> sv_Result e = r \<and> sv_Actor e = a \<and> sv_SessionID e = s \<and> sv_OAuthClientID e = c \<and>
     sv_Metadata e = m \<and> sv_OccurredAt e = now"
  by (auto simp: New_security_event_def split: if_splits)

lemma NewMessage_ok:
  "NewMessage j u mid eid et at aid av p now = Inr m \<Longrightarrow>
     im_AggregateType m = at \<and> im_AggregateID m = aid \<and> im_EventType m = et \<and> im_OccurredAt m = now \<and>
     j p = Inr (im_Payload m)"
  by (auto simp: NewMessage_def Let_def split: sum.splits)

end
