(* ===== verification/Tx_Locals.thy ===== *)
theory Tx_Locals
  imports Txmanager
begin

text \<open>
  Transactions whose function assigns variables of its caller. A Go closure passed to \<open>Do\<close> writes
  captured variables (\<open>output\<close>, \<open>auditClientID\<close>, \<open>committedError\<close>), and a rollback does not undo these
  writes. The world of such a transaction is a pair: what the database can roll back, and the
  captured variables, which it does not see.
\<close>

section \<open>The captured variables beside the world\<close>

definition with_locals :: "('w, 'k, 'tx) tx_ops \<Rightarrow> ('w \<times> 'l, 'k, 'tx) tx_ops" where
  "with_locals m =
     \<lparr>Begin = (\<lambda>(w, l). case Begin m w of (r, w) \<Rightarrow> (r, (w, l))),
      Commit = (\<lambda>tx (w, l). case Commit m tx w of (r, w) \<Rightarrow> (r, (w, l))),
      Rollback = (\<lambda>tx (w, l). case Rollback m tx w of (r, w) \<Rightarrow> (r, (w, l)))\<rparr>"

text \<open>A call of a port inside the closure, and an assignment of captured variables.\<close>

definition io :: "('w \<Rightarrow> 'a \<times> 'w) \<Rightarrow> 'w \<times> 'l \<Rightarrow> 'a \<times> ('w \<times> 'l)" where
  "io f wl = (case f (fst wl) of (r, w) \<Rightarrow> (r, (w, snd wl)))"

definition assign :: "('l \<Rightarrow> 'l) \<Rightarrow> 'w \<times> 'l \<Rightarrow> 'w \<times> 'l" where
  "assign g wl = (fst wl, g (snd wl))"

lemma io_simps [simp]: "io f (w, l) = (fst (f w), (snd (f w), l))"
  by (simp add: io_def split: prod.splits)

lemma assign_simps [simp]: "assign g (w, l) = (w, g l)"
  by (simp add: assign_def)

text \<open>Evaluation waits until the world is known.\<close>

lemma io_code [code]: "io f (w, l) = (case f w of (r, w) \<Rightarrow> (r, (w, l)))"
  by (simp add: io_def)

lemma assign_code [code]: "assign g (w, l) = (w, g l)"
  by (simp add: assign_def)

definition do_tx ::
  "('w, 'k, 'tx) tx_ops \<Rightarrow> 'l \<Rightarrow> ('w \<times> 'l \<Rightarrow> ('w \<times> 'l, 'k, unit) result) \<Rightarrow> 'w
     \<Rightarrow> ('w \<times> 'l, 'k, unit) result" where
  "do_tx m l f w = run_tx (with_locals m) f (w, l)"


text \<open>A transaction that commits has begun, has run its function once, without an error, and was committed.\<close>

lemma do_tx_run:
  assumes "do_tx m l f w = (Inr u, (w', l'))"
  obtains tx w1 w2 where "Begin m w = (Inr tx, w1)" and "f (w1, l) = (Inr (), (w2, l'))"
    and "Commit m tx w2 = (None, w')"
proof -
  from assms have d: "tx_manager_Do (with_locals m) None (\<lambda>_ w. as_flow (f w)) (w, l) = (Return None, (w', l'))"
    by (auto simp: do_tx_def run_tx_def as_result_def split: prod.splits option.splits flow.splits)
  obtain b w1 where B: "Begin m w = (b, w1)" by fastforce
  show thesis
  proof (cases b)
    case (Inl err)
    with B d show thesis by (simp add: tx_manager_Do_def with_locals_def)
  next
    case (Inr tx)
    obtain r w2 l2 where f: "as_flow (f (w1, l)) = (r, (w2, l2))" by (metis prod.collapse)
    with B d Inr have fin: "finish (with_locals m) tx r (w2, l2) = (Return None, (w', l'))"
      by (simp add: tx_manager_Do_def with_locals_def)
    from finish_ok [OF this] have r: "r = Return None" and c: "Commit m tx w2 = (None, w')" "l2 = l'"
      by (auto simp: with_locals_def split: prod.splits)
    from f r have "f (w1, l) = (Inr (), (w2, l'))" using c by (simp add: as_flow_None)
    with that [of tx w1 w2] B Inr c show thesis by simp
  qed
qed


section \<open>What \<open>Do\<close> promises about them\<close>

context transactional
begin

lemma with_locals_transactional: "transactional (with_locals m) (\<lambda>x. stored (fst x)) snapshot"
  by unfold_locales
     (auto simp: with_locals_def dest: Begin_ok Begin_err Commit_ok Commit_err Rollback_restores
       split: prod.splits)

lemma finish_locals: "snd (snd (finish (with_locals m) tx r (w, l))) = l"
  by (auto simp: finish_def with_locals_def split: flow.splits option.splits prod.splits)

text \<open>It ran on what was stored, and its writes are kept.\<close>

lemma do_tx_ok:
  assumes "do_tx m l f w = (Inr u, (w', l'))"
  obtains w1 w2 where "stored w1 = stored w" and "f (w1, l) = (Inr (), (w2, l'))"
    and "stored w' = stored w2"
  using assms by (rule do_tx_run) (metis that Begin_ok Commit_ok)

text \<open>A transaction that fails leaves what was stored; what the function assigned stays assigned.\<close>

lemma do_tx_err:
  assumes "do_tx m l f w = (Inl e, (w', l'))"
  shows "stored w' = stored w"
proof -
  from assms obtain r where
    "tx_manager_Do (with_locals m) None (\<lambda>_ w. as_flow (f w)) (w, l) = (r, (w', l'))" "r \<noteq> Return None"
    by (auto simp: do_tx_def run_tx_def as_result_def split: prod.splits option.splits flow.splits)
  from transactional.Do_restores [OF with_locals_transactional this] show ?thesis by simp
qed

lemma do_tx_err_locals:
  assumes "do_tx m l f w = (Inl e, (w', l'))"
  shows "l' = l \<or> (\<exists>w1 r w2. stored w1 = stored w \<and> f (w1, l) = (r, (w2, l')))"
proof -
  from assms obtain r where d:
    "tx_manager_Do (with_locals m) None (\<lambda>_ w. as_flow (f w)) (w, l) = (r, (w', l'))"
    by (auto simp: do_tx_def run_tx_def as_result_def split: prod.splits option.splits flow.splits)
  obtain b w1 where B: "Begin m w = (b, w1)" by fastforce
  show ?thesis
  proof (cases b)
    case (Inl err)
    with B d show ?thesis by (simp add: tx_manager_Do_def with_locals_def)
  next
    case (Inr tx)
    obtain q w2 l2 where f: "f (w1, l) = (q, (w2, l2))" by (metis prod.collapse)
    then obtain r2 where "as_flow (f (w1, l)) = (r2, (w2, l2))"
      by (cases q) (simp_all add: as_flow_def)
    with B d Inr have "finish (with_locals m) tx r2 (w2, l2) = (r, (w', l'))"
      by (simp add: tx_manager_Do_def with_locals_def)
    then have "l' = l2" using finish_locals [of tx r2 w2 l2] by simp
    with f B Inr Begin_ok show ?thesis by metis
  qed
qed

end


section \<open>Reasoning about the function of a transaction\<close>

text \<open>
  \<open>yields Q r\<close>: when \<open>r\<close> succeeds, \<open>Q\<close> holds of its value and world. An error ends the function and
  is rolled back, so nothing is asked of it.
\<close>

definition yields :: "('a \<Rightarrow> 'w \<Rightarrow> bool) \<Rightarrow> ('w, 'k, 'a) result \<Rightarrow> bool" where
  "yields Q r = (case r of (Inl e, w) \<Rightarrow> True | (Inr x, w) \<Rightarrow> Q x w)"

named_theorems yields_intros \<open>rules for the function of a transaction\<close>

lemma yieldsD: "yields Q r \<Longrightarrow> r = (Inr x, w) \<Longrightarrow> Q x w"
  by (simp add: yields_def)

lemma yieldsI: "(\<And>x w. r = (Inr x, w) \<Longrightarrow> Q x w) \<Longrightarrow> yields Q r"
  by (cases r; cases "fst r") (auto simp: yields_def)

lemma yields_mono: "yields R r \<Longrightarrow> (\<And>x w. R x w \<Longrightarrow> Q x w) \<Longrightarrow> yields Q r"
  by (auto simp: yields_def split: prod.splits sum.splits)

lemma yields_Inl [yields_intros]: "yields Q (Inl e, w)"
  by (simp add: yields_def)

lemma yields_Inr [yields_intros]: "Q x w \<Longrightarrow> yields Q (Inr x, w)"
  by (simp add: yields_def)

lemma yields_if [yields_intros]:
  "(b \<Longrightarrow> yields Q r1) \<Longrightarrow> (\<not> b \<Longrightarrow> yields Q r2) \<Longrightarrow> yields Q (if b then r1 else r2)"
  by simp

lemma yields_case_option [yields_intros]:
  "(x = None \<Longrightarrow> yields Q r) \<Longrightarrow> (\<And>y. x = Some y \<Longrightarrow> yields Q (f y)) \<Longrightarrow>
     yields Q (case x of None \<Rightarrow> r | Some y \<Rightarrow> f y)"
  by (cases x) auto

lemma yields_attempt:
  "yields R r \<Longrightarrow> (\<And>x w. R x w \<Longrightarrow> yields Q (k x w)) \<Longrightarrow> yields Q (attempt r wrap k)"
  by (cases r; cases "fst r") (auto simp: yields_def)

lemma yields_pure [yields_intros]:
  "(\<And>x. c = Inr x \<Longrightarrow> yields Q (k x w)) \<Longrightarrow> yields Q (attempt (c, w) wrap k)"
  by (cases c) (auto simp: yields_def)

lemma yields_io: "yields (\<lambda>x w. Q x (w, l)) (f w) \<Longrightarrow> yields Q (io f (w, l))"
  by (cases "f w"; cases "fst (f w)") (auto simp: yields_def)

end
