(* ===== verification/Identity_Calls.thy ===== *)
theory Identity_Calls
  imports Identity_Event Tx_Locals
begin

text \<open>
  The shapes of call the use cases of the identity service share: an early return with its text, a
  check, a method on a loaded aggregate, an error that is handled instead of returned, and the factory
  of events; and the inversion rules for them.
\<close>

section \<open>Shapes of call\<close>

text \<open>\<open>fmt.Errorf("what: %w", err)\<close>.\<close>

definition wrap :: "string \<Rightarrow> ierror \<Rightarrow> ierror" where
  "wrap what err = Wrap (what @ '': '') err ''''"

definition raise :: "ierror \<Rightarrow> 'w \<Rightarrow> ('w, id_sentinel, 'a) result" where
  "raise err w = (Inl err, w)"

text \<open>A check that returns an error or nothing, as the call of an early return.\<close>

definition check :: "ierror option \<Rightarrow> 'w \<Rightarrow> ('w, id_sentinel, unit) result" where
  "check e w = (case e of Some err \<Rightarrow> (Inl err, w) | None \<Rightarrow> (Inr (), w))"

text \<open>A method that changes its receiver, as the call of an early return.\<close>

definition change :: "ierror option \<times> 'a \<Rightarrow> 'w \<Rightarrow> ('w, id_sentinel, 'a) result" where
  "change p w = (case p of (Some err, x) \<Rightarrow> (Inl err, w) | (None, x) \<Rightarrow> (Inr x, w))"

abbreviation (input) same :: "ierror \<Rightarrow> ierror" where
  "same err \<equiv> err"

text \<open>A call whose error is handled by \<open>h\<close>, which may go on.\<close>

definition handle ::
  "('w, 'k, 'a) result \<Rightarrow> ('k error \<Rightarrow> 'w \<Rightarrow> ('w, 'k, 'b) result) \<Rightarrow> ('a \<Rightarrow> 'w \<Rightarrow> ('w, 'k, 'b) result)
     \<Rightarrow> ('w, 'k, 'b) result" where
  "handle r h k = (case r of (Inl e, w) \<Rightarrow> h e w | (Inr x, w) \<Rightarrow> k x w)"

text \<open>\<open>Factory.Create\<close> draws the identifiers of the message and of the event, in this order.\<close>

definition Factory_Create ::
  "('w \<Rightarrow> uuid \<times> 'w) \<Rightarrow> (id_payload \<Rightarrow> ierror + string) \<Rightarrow> (uuid \<Rightarrow> string) \<Rightarrow> string \<Rightarrow> string \<Rightarrow> uuid
     \<Rightarrow> int64 option \<Rightarrow> id_payload \<Rightarrow> gotime \<Rightarrow> 'w \<Rightarrow> ('w, id_sentinel, imessage) result" where
  "Factory_Create ids marshal uuid_string eventType aggregateType aggregateID aggregateVersion payload
     occurredAt w =
     draw (ids w) (\<lambda>messageID w. draw (ids w) (\<lambda>eventID w.
       (NewMessage marshal uuid_string messageID eventID eventType aggregateType aggregateID
          aggregateVersion payload occurredAt, w)))"


section \<open>Calls and what they give\<close>

lemma io_eq: "io f (w, l) = (r, wl') \<longleftrightarrow> (\<exists>w'. f w = (r, w') \<and> wl' = (w', l))"
  by (cases "f w") (auto simp: io_simps)

lemma check_eq: "check e w = (Inr u, w') \<longleftrightarrow> e = None \<and> w' = w"
  by (auto simp: check_def split: option.splits)

lemma change_eq: "change p w = (Inr x, w') \<longleftrightarrow> p = (None, x) \<and> w' = w"
  by (auto simp: change_def split: option.splits prod.splits)

lemma raise_eq: "raise e w = (Inr x, w') \<longleftrightarrow> False"
  by (simp add: raise_def)

lemma handle_eq:
  "handle r h k = c \<longleftrightarrow> (\<exists>x w. r = (Inr x, w) \<and> k x w = c) \<or> (\<exists>e w. r = (Inl e, w) \<and> h e w = c)"
  by (cases r; cases "fst r") (auto simp: handle_def)

lemmas call_inv = attempt_eq_Inr draw_eq io_eq check_eq change_eq raise_eq Let_def

end
