(* ===== verification/Identity_Profile.thy ===== *)
theory Identity_Profile
  imports Identity_Event
begin

text \<open>The profile of an identity, \<open>internal/domain/identityprofile\<close>: names and where they come from.\<close>

datatype profile_source = SourceSelfDeclared | SourceProvisioned | SourceVerified | OtherSource string

definition ParseSource :: "string \<Rightarrow> ierror + profile_source" where
  "ParseSource value =
     (if value = ''self_declared'' then Inr SourceSelfDeclared
      else if value = ''provisioned'' then Inr SourceProvisioned
      else if value = ''verified'' then Inr SourceVerified
      else Inl (Fresh ''unknown identity profile source''))"

datatype assurance_level =
  AssuranceLevelSelfDeclared | AssuranceLevelOrganizationAsserted | AssuranceLevelIdentityVerified
| OtherAssuranceLevel string

definition ParseAssuranceLevel :: "string \<Rightarrow> ierror + assurance_level" where
  "ParseAssuranceLevel value =
     (if value = ''self_declared'' then Inr AssuranceLevelSelfDeclared
      else if value = ''organization_asserted'' then Inr AssuranceLevelOrganizationAsserted
      else if value = ''identity_verified'' then Inr AssuranceLevelIdentityVerified
      else Inl (Fresh ''unknown identity assurance level''))"

record profile =
  pr_IdentityID :: uuid
  pr_FamilyName :: string
  pr_GivenName :: string
  pr_MiddleName :: "string option"
  pr_Source :: profile_source
  pr_AssuranceLevel :: assurance_level
  pr_Version :: int64
  pr_CreatedAt :: gotime
  pr_UpdatedAt :: gotime

text \<open>\<open>Source\<close> and \<open>AssuranceLevel\<close> are strings in the code.\<close>

fun profile_source_String :: "profile_source \<Rightarrow> string" where
  "profile_source_String SourceSelfDeclared = ''self_declared''"
| "profile_source_String SourceProvisioned = ''provisioned''"
| "profile_source_String SourceVerified = ''verified''"
| "profile_source_String (OtherSource s) = s"

fun assurance_level_String :: "assurance_level \<Rightarrow> string" where
  "assurance_level_String AssuranceLevelSelfDeclared = ''self_declared''"
| "assurance_level_String AssuranceLevelOrganizationAsserted = ''organization_asserted''"
| "assurance_level_String AssuranceLevelIdentityVerified = ''identity_verified''"
| "assurance_level_String (OtherAssuranceLevel s) = s"

definition UpdatedEvent :: "(uuid \<Rightarrow> string) \<Rightarrow> profile \<Rightarrow> profile_event" where
  "UpdatedEvent uuid_string p =
     Profile_Updated (uuid_string (pr_IdentityID p)) (pr_FamilyName p) (pr_GivenName p) (pr_MiddleName p)
       (profile_source_String (pr_Source p)) (assurance_level_String (pr_AssuranceLevel p)) (pr_Version p)
       (pr_CreatedAt p) (pr_UpdatedAt p)"

definition InitialVersion :: int64 where
  "InitialVersion = 1"

definition normalizeNames ::
  "string \<Rightarrow> string \<Rightarrow> string option \<Rightarrow> ierror + string \<times> string \<times> string option" where
  "normalizeNames familyName givenName middleName =
     (case NormalizeRequiredText familyName of (familyName, ok) \<Rightarrow>
        if \<not> ok then Inl (Fresh ''family name is required'')
        else case NormalizeRequiredText givenName of (givenName, ok) \<Rightarrow>
          if \<not> ok then Inl (Fresh ''given name is required'')
          else Inr (familyName, givenName, NormalizeOptionalText middleName))"

definition New_profile ::
  "uuid \<Rightarrow> string \<Rightarrow> string \<Rightarrow> string option \<Rightarrow> gotime \<Rightarrow> ierror + profile" where
  "New_profile identityID familyName givenName middleName now =
     (if identityID = uuid_nil
      then Inl (Fresh ''create identity profile: identity identifier is required'')
      else case normalizeNames familyName givenName middleName of
        Inl err \<Rightarrow> Inl (Wrap ''create identity profile: '' err '''')
      | Inr (familyName, givenName, middleName) \<Rightarrow>
          if is_zero now then Inl (Fresh ''create identity profile: time is invalid'')
          else Inr \<lparr>pr_IdentityID = identityID, pr_FamilyName = familyName, pr_GivenName = givenName,
                    pr_MiddleName = middleName, pr_Source = SourceSelfDeclared,
                    pr_AssuranceLevel = AssuranceLevelSelfDeclared, pr_Version = InitialVersion,
                    pr_CreatedAt = now, pr_UpdatedAt = now\<rparr>)"

definition pr_ensureChangeAllowed :: "gotime \<Rightarrow> profile \<Rightarrow> ierror option" where
  "pr_ensureChangeAllowed now p =
     (if is_zero now \<or> \<not> after now (pr_UpdatedAt p)
      then Some (Fresh ''validate identity profile for change: time is invalid'') else None)"

definition ApplyVerifiedNames ::
  "string \<Rightarrow> string \<Rightarrow> string option \<Rightarrow> gotime \<Rightarrow> profile \<Rightarrow> ierror option \<times> profile" where
  "ApplyVerifiedNames familyName givenName middleName now p =
     (case pr_ensureChangeAllowed now p of
        Some err \<Rightarrow> refuse ''apply verified identity profile names: '' err p
      | None \<Rightarrow>
          if pr_Source p = SourceProvisioned
          then refuse ''apply verified identity profile names: '' (Sentinel (S_pro Pro_ErrExternallyManaged)) p
          else case normalizeNames familyName givenName middleName of
            Inl err \<Rightarrow> refuse ''apply verified identity profile names: '' err p
          | Inr (familyName, givenName, middleName) \<Rightarrow>
              if pr_FamilyName p = familyName \<and> pr_GivenName p = givenName \<and>
                 EqualOptionalText (pr_MiddleName p) middleName \<and> pr_Source p = SourceVerified \<and>
                 pr_AssuranceLevel p = AssuranceLevelIdentityVerified
              then (None, p)
              else (None, p\<lparr>pr_FamilyName := familyName, pr_GivenName := givenName,
                            pr_MiddleName := middleName, pr_Source := SourceVerified,
                            pr_AssuranceLevel := AssuranceLevelIdentityVerified,
                            pr_Version := pr_Version p + 1, pr_UpdatedAt := now\<rparr>))"

text \<open>Applying the same names again changes nothing; a provisioned profile is left alone.\<close>

lemma normalizeNames_ok:
  "normalizeNames f g m = Inr (f', g', m') \<longleftrightarrow>
     f' = trim_space f \<and> g' = trim_space g \<and> m' = NormalizeOptionalText m \<and> f' \<noteq> '''' \<and> g' \<noteq> ''''"
  by (auto simp: normalizeNames_def NormalizeRequiredText_def Let_def)

lemma ApplyVerifiedNames_ok:
  assumes "ApplyVerifiedNames f g m now p = (None, p')"
  shows "pr_Source p \<noteq> SourceProvisioned" and "pr_Source p' = SourceVerified"
    and "pr_AssuranceLevel p' = AssuranceLevelIdentityVerified"
    and "pr_FamilyName p' = trim_space f" and "pr_GivenName p' = trim_space g"
    and "pr_MiddleName p' = NormalizeOptionalText m" and "pr_IdentityID p' = pr_IdentityID p"
  using assms by (auto simp: ApplyVerifiedNames_def normalizeNames_ok refuse_def
      split: option.splits if_splits sum.splits prod.splits)

lemma ApplyVerifiedNames_idem:
  assumes "ApplyVerifiedNames f g m now p = (None, p')"
    and "ApplyVerifiedNames f g m now' p' = (r, p'')"
  shows "p'' = p'"
  using ApplyVerifiedNames_ok [OF assms(1)] assms(2)
  by (auto simp: ApplyVerifiedNames_def normalizeNames_ok refuse_def
      split: option.splits if_splits sum.splits prod.splits)

end
