(* ===== verification/Go_Strings.thy ===== *)
theory Go_Strings
  imports Prelude
begin

text \<open>\<open>strings.Split\<close> and \<open>strings.Join\<close> with a separator of one byte.\<close>

fun split_on :: "char \<Rightarrow> string \<Rightarrow> string list" where
  "split_on sep [] = [[]]"
| "split_on sep (c # cs) =
     (if c = sep then [] # split_on sep cs
      else case split_on sep cs of [] \<Rightarrow> [[c]] | w # ws \<Rightarrow> (c # w) # ws)"

fun join_with :: "char \<Rightarrow> string list \<Rightarrow> string" where
  "join_with sep [] = []"
| "join_with sep [w] = w"
| "join_with sep (w # ws) = w @ sep # join_with sep ws"

lemma split_on_nonempty [simp]: "split_on sep s \<noteq> []"
  by (induction s) (auto split: list.splits)

text \<open>Each undoes the other, the first on words without the separator.\<close>

lemma join_split: "join_with sep (split_on sep s) = s"
proof (induction s)
  case (Cons c cs)
  show ?case
  proof (cases "c = sep")
    case True
    obtain w ws where "split_on sep cs = w # ws" by (cases "split_on sep cs") auto
    with True Cons show ?thesis by simp
  next
    case False
    obtain w ws where "split_on sep cs = w # ws" by (cases "split_on sep cs") auto
    with False Cons show ?thesis by (cases ws) auto
  qed
qed simp

lemma split_word: "sep \<notin> set w \<Longrightarrow> split_on sep w = [w]"
  by (induction w) auto

lemma split_word_append: "sep \<notin> set w \<Longrightarrow> split_on sep (w @ sep # s) = w # split_on sep s"
  by (induction w) auto

lemma split_join: "ws \<noteq> [] \<Longrightarrow> \<forall>w \<in> set ws. sep \<notin> set w \<Longrightarrow> split_on sep (join_with sep ws) = ws"
proof (induction sep ws rule: join_with.induct)
  case (3 sep w v vs)
  then show ?case by (simp add: split_word_append)
qed (simp_all add: split_word)

lemma split_words: "w \<in> set (split_on sep s) \<Longrightarrow> sep \<notin> set w"
  by (induction s arbitrary: w) (auto split: if_splits list.splits)

text \<open>
  \<open>utf8.RuneCountInString\<close> on the bytes of a string: a well-formed encoding of one to four bytes is one
  rune, and a byte that begins none is one rune too.
\<close>

definition byte_of :: "char \<Rightarrow> nat" where
  "byte_of c = of_char c"

definition in_range :: "nat \<Rightarrow> nat \<Rightarrow> nat \<Rightarrow> bool" where
  "in_range lo hi b \<longleftrightarrow> lo \<le> b \<and> b \<le> hi"

text \<open>The bounds of the second byte after a first byte that begins three or four bytes.\<close>

definition second_range :: "nat \<Rightarrow> nat \<times> nat" where
  "second_range b0 =
     (if b0 = 0xE0 then (0xA0, 0xBF) else if b0 = 0xED then (0x80, 0x9F)
      else if b0 = 0xF0 then (0x90, 0xBF) else if b0 = 0xF4 then (0x80, 0x8F) else (0x80, 0xBF))"

definition rune_size :: "nat list \<Rightarrow> nat" where
  "rune_size bs =
     (case bs of
        b0 # b1 # rest \<Rightarrow>
          (if in_range 0xC2 0xDF b0 then if in_range 0x80 0xBF b1 then 2 else 1
           else if \<not> in_range (fst (second_range b0)) (snd (second_range b0)) b1 then 1
           else case rest of
             b2 # rest \<Rightarrow>
               (if \<not> in_range 0x80 0xBF b2 then 1
                else if in_range 0xE0 0xEF b0 then 3
                else if in_range 0xF0 0xF4 b0
                then (case rest of b3 # _ \<Rightarrow> if in_range 0x80 0xBF b3 then 4 else 1 | [] \<Rightarrow> 1)
                else 1)
           | [] \<Rightarrow> 1)
      | _ \<Rightarrow> 1)"

function rune_count :: "nat list \<Rightarrow> nat" where
  "rune_count [] = 0"
| "rune_count (b # bs) = Suc (rune_count (drop (rune_size (b # bs) - 1) bs))"
  by pat_completeness auto
termination by (relation "measure length") auto

definition RuneCountInString :: "string \<Rightarrow> nat" where
  "RuneCountInString s = rune_count (map byte_of s)"

end
