(* ===== verification/OAuth_Ports.thy ===== *)
theory OAuth_Ports
  imports Identity_Tokens Identity_Calls Identity_Account Identity_Profile Identity_Refresh
    Identity_Session Identity_Transaction Go_Strings
begin

text \<open>
  The OAuth service, \<open>internal/usecase/oauth\<close>: its configuration, the ports it is built from, its errors
  and its security events (\<open>config.go\<close>, \<open>service.go\<close>, \<open>errors.go\<close>, \<open>events.go\<close>), and the authentication
  of a client (\<open>authenticate_client.go\<close>).
\<close>

section \<open>Configuration\<close>

record oauth_config =
  of_AuthorizationLifetime :: duration
  of_CodeLifetime :: duration
  of_SessionIdleLifetime :: duration
  of_SessionLifetime :: duration
  of_RefreshTokenLifetime :: duration
  of_RefreshFamilyLifetime :: duration

definition oauth_config_Validate :: "oauth_config \<Rightarrow> ierror option" where
  "oauth_config_Validate c =
     (if of_AuthorizationLifetime c \<le> 0 then Some (Fresh ''authorization lifetime must be greater than 0'')
      else if of_CodeLifetime c \<le> 0 then Some (Fresh ''code lifetime must be greater than 0'')
      else if of_SessionIdleLifetime c \<le> 0 \<or> of_SessionIdleLifetime c > of_SessionLifetime c
      then Some (Fresh ''session idle lifetime is invalid'')
      else if of_SessionLifetime c \<le> 0 then Some (Fresh ''session lifetime must be greater than 0'')
      else if of_RefreshTokenLifetime c \<le> 0 \<or> of_RefreshTokenLifetime c > of_RefreshFamilyLifetime c
      then Some (Fresh ''refresh token lifetime is invalid'')
      else if of_RefreshFamilyLifetime c \<le> 0 \<or> of_RefreshFamilyLifetime c > of_SessionLifetime c
      then Some (Fresh ''refresh token family lifetime is invalid'')
      else None)"


section \<open>Ports\<close>

datatype meta = M_string string | M_bool bool | M_strings "string list"

type_synonym metadata = "(string \<times> meta) list"

text \<open>
  A port that reads or writes takes the world; hashing, comparing secrets, building a URL and encoding
  JSON do not. The transaction manager is the one of \<open>packages/go/txmanager\<close>, over the driver \<open>tx_driver\<close>.
\<close>

record ('w, 'tx) oauth_ports =
  of_cfg :: oauth_config
  clients_GetByClientID :: "string \<Rightarrow> 'w \<Rightarrow> ('w, id_sentinel, oauth_client) result"
  clients_Update :: "oauth_client \<Rightarrow> 'w \<Rightarrow> ('w, id_sentinel, unit) result"
  txns_Create :: "transaction \<Rightarrow> 'w \<Rightarrow> ('w, id_sentinel, unit) result"
  txns_Update :: "transaction \<Rightarrow> 'w \<Rightarrow> ('w, id_sentinel, unit) result"
  txns_Get :: "uuid \<Rightarrow> 'w \<Rightarrow> ('w, id_sentinel, transaction) result"
  BuildAuthorizationRedirect :: "uuid \<Rightarrow> ierror + string"
  tokens_New :: "'w \<Rightarrow> ('w, id_sentinel, string \<times> string) result"
  tokens_Hash :: "string \<Rightarrow> string"
  codes_Create :: "authorization_code \<Rightarrow> 'w \<Rightarrow> ('w, id_sentinel, unit) result"
  codes_Consume :: "string \<Rightarrow> 'w \<Rightarrow> ('w, id_sentinel, authorization_code) result"
  secrets_Verify :: "string \<Rightarrow> string \<Rightarrow> ierror + bool"
  sessions_Create :: "session \<Rightarrow> 'w \<Rightarrow> ('w, id_sentinel, unit) result"
  sessions_Get :: "uuid \<Rightarrow> 'w \<Rightarrow> ('w, id_sentinel, session) result"
  sessions_Update :: "session \<Rightarrow> 'w \<Rightarrow> ('w, id_sentinel, unit) result"
  families_Create :: "refresh_token_family \<Rightarrow> 'w \<Rightarrow> ('w, id_sentinel, unit) result"
  families_GetByTokenHash :: "string \<Rightarrow> 'w \<Rightarrow> ('w, id_sentinel, refresh_token_family) result"
  families_Update :: "refresh_token_family \<Rightarrow> 'w \<Rightarrow> ('w, id_sentinel, unit) result"
  access_Issue :: "access_issue_input \<Rightarrow> 'w \<Rightarrow> ('w, id_sentinel, issued_token) result"
  access_Verify :: "string \<Rightarrow> 'w \<Rightarrow> ('w, id_sentinel, verified_token) result"
  idtoken_Issue :: "idtoken_issue_input \<Rightarrow> 'w \<Rightarrow> ('w, id_sentinel, issued_idtoken) result"
  identities_Get :: "uuid \<Rightarrow> 'w \<Rightarrow> ('w, id_sentinel, identity) result"
  profiles_Get :: "uuid \<Rightarrow> 'w \<Rightarrow> ('w, id_sentinel, profile) result"
  outbox_Create :: "imessage \<Rightarrow> 'w \<Rightarrow> ('w, id_sentinel, unit) result"
  events_Create :: "security_event \<Rightarrow> 'w \<Rightarrow> ('w, id_sentinel, unit) result"
  tx_driver :: "('w, id_sentinel, 'tx) tx_ops"
  ids_New :: "'w \<Rightarrow> uuid \<times> 'w"
  now_Clock :: "'w \<Rightarrow> gotime \<times> 'w"
  payload_Marshal :: "id_payload \<Rightarrow> ierror + string"
  metadata_Marshal :: "metadata \<Rightarrow> ierror + string"
  object_Unmarshal :: "string \<Rightarrow> ierror + bool"
  uuid_ToString :: "uuid \<Rightarrow> string"
  url_WithQuery :: "string \<Rightarrow> (string \<times> string) list \<Rightarrow> ierror + string"
  url_Redirect :: "string \<Rightarrow> ierror + string"


section \<open>Errors\<close>

definition invalidTokenRequest :: "ierror \<Rightarrow> ierror" where
  "invalidTokenRequest cause =
     iapp_New TypeInvalidArgument ''oauth_invalid_request'' ''OAuth token request is invalid'' (Some cause)"

definition invalidRevocationRequest :: "ierror \<Rightarrow> ierror" where
  "invalidRevocationRequest cause =
     iapp_New TypeInvalidArgument ''oauth_invalid_request'' ''OAuth token revocation request is invalid''
       (Some cause)"

definition invalidClient :: "ierror \<Rightarrow> ierror" where
  "invalidClient cause =
     iapp_New TypeUnauthorized ''oauth_invalid_client'' ''OAuth client authentication failed'' (Some cause)"

definition invalidGrant :: "ierror \<Rightarrow> ierror" where
  "invalidGrant cause =
     iapp_New TypeInvalidArgument ''oauth_invalid_grant'' ''OAuth grant is invalid'' (Some cause)"

definition invalidAccessToken :: "ierror \<Rightarrow> ierror" where
  "invalidAccessToken cause =
     iapp_New TypeUnauthorized ''oauth_invalid_token'' ''access token is invalid'' (Some cause)"

definition insufficientScope :: "ierror \<Rightarrow> ierror" where
  "insufficientScope cause =
     iapp_New TypeForbidden ''oauth_insufficient_scope'' ''access token has insufficient scope'' (Some cause)"

definition clientGrantError :: "ierror \<Rightarrow> ierror" where
  "clientGrantError cause =
     (if errors_is cause (S_cli Cli_ErrInvalidStatus) then invalidClient cause
      else iapp_New TypeForbidden ''oauth_unauthorized_client''
             ''OAuth client is not allowed to use this grant type'' (Some cause))"


section \<open>Security events\<close>

record security_event_input =
  sei_Type :: string
  sei_Result :: sec_result
  sei_Actor :: actor
  sei_SessionID :: "uuid option"
  sei_OAuthClientID :: "uuid option"
  sei_Metadata :: metadata
  sei_OccurredAt :: gotime

definition securityFailureReason :: "ierror \<Rightarrow> string" where
  "securityFailureReason err =
     (case errors_as_app err of Some (App t c m u) \<Rightarrow> c | _ \<Rightarrow> ''operation_failed'')"

definition isOAuthFailure :: "ierror \<Rightarrow> bool" where
  "isOAuthFailure err =
     (case errors_as_app err of Some (App t c m u) \<Rightarrow> c \<noteq> ''internal_error'' | _ \<Rightarrow> False)"

definition saveSecurityEvent ::
  "('w, 'tx, 'z) oauth_ports_scheme \<Rightarrow> security_event_input \<Rightarrow> 'w \<Rightarrow> ('w, id_sentinel, unit) result" where
  "saveSecurityEvent P input w =
     attempt (metadata_Marshal P (sei_Metadata input), w)
       (wrap (''marshal '' @ sei_Type input @ '' security event metadata'')) (\<lambda>metadata w.
     attempt (NewMetadata (object_Unmarshal P) metadata, w)
       (wrap (''create '' @ sei_Type input @ '' security event metadata'')) (\<lambda>parsedMetadata w.
     draw (ids_New P w) (\<lambda>k w.
     attempt (New_security_event k (sei_Type input) (sei_Result input) (sei_Actor input)
                (sei_SessionID input) (sei_OAuthClientID input) '''' None None None parsedMetadata
                (sei_OccurredAt input), w)
       (wrap (''create '' @ sei_Type input @ '' security event'')) (\<lambda>event w.
     attempt (events_Create P event w)
       (wrap (''save '' @ sei_Type input @ '' security event'')) (\<lambda>_ w. (Inr (), w))))))"

text \<open>\<open>actor, _ = NewIdentityActor(id)\<close>: the error is dropped.\<close>

definition identity_actor :: "uuid \<Rightarrow> actor" where
  "identity_actor k = (case NewIdentityActor k of Inl _ \<Rightarrow> zero_actor | Inr a \<Rightarrow> a)"

text \<open>
  \<open>s.events.Create\<close> followed by \<open>s.outbox.Create\<close>, with the texts of the two errors.
\<close>

definition factory_event ::
  "('w, 'tx, 'z) oauth_ports_scheme \<Rightarrow> string \<Rightarrow> string \<Rightarrow> uuid \<Rightarrow> id_payload \<Rightarrow> gotime \<Rightarrow> 'w
     \<Rightarrow> ('w, id_sentinel, imessage) result" where
  "factory_event P eventType aggregateType aggregateID payload now w =
     Factory_Create (ids_New P) (payload_Marshal P) (uuid_ToString P) eventType aggregateType aggregateID
       None payload now w"

definition emit ::
  "('w, 'tx, 'z) oauth_ports_scheme \<Rightarrow> string \<Rightarrow> string \<Rightarrow> string \<Rightarrow> uuid \<Rightarrow> id_payload \<Rightarrow> gotime \<Rightarrow> 'w
     \<Rightarrow> ('w, id_sentinel, unit) result" where
  "emit P what eventType aggregateType aggregateID payload now w =
     attempt (factory_event P eventType aggregateType aggregateID payload now w)
       (wrap (''create '' @ what @ '' event'')) (\<lambda>message w.
     attempt (outbox_Create P message w)
       (wrap (''save '' @ what @ '' event to outbox'')) (\<lambda>_ w. (Inr (), w)))"


section \<open>Authentication of a client\<close>

definition client_load_error :: "ierror \<Rightarrow> ierror" where
  "client_load_error err =
     (if errors_is err (S_cli Cli_ErrNotFound) then invalidClient err
      else wrap ''get OAuth client for token endpoint'' err)"

text \<open>The loop over the credentials: the last usable one the secret matches.\<close>

fun matching_credential ::
  "(string \<Rightarrow> string \<Rightarrow> ierror + bool) \<Rightarrow> string \<Rightarrow> gotime \<Rightarrow> credential list \<Rightarrow> uuid option
     \<Rightarrow> ierror + uuid option" where
  "matching_credential verify secret now [] found = Inr found"
| "matching_credential verify secret now (c # cs) found =
     (if \<not> cr_IsUsable now c then matching_credential verify secret now cs found
      else case verify secret (cr_SecretHash c) of
        Inl err \<Rightarrow> Inl (wrap ''verify OAuth client secret'' err)
      | Inr matches \<Rightarrow>
          matching_credential verify secret now cs (if matches then Some (cr_ID c) else found))"

text \<open>What \<open>getAndAuthenticateClient\<close> does with the client it loaded.\<close>

definition authenticate_loaded ::
  "('w, 'tx, 'z) oauth_ports_scheme \<Rightarrow> string option \<Rightarrow> gotime \<Rightarrow> oauth_client \<Rightarrow> 'w
     \<Rightarrow> ('w, id_sentinel, oauth_client) result" where
  "authenticate_loaded P clientSecret now client w =
     (case oc_AuthMethod client of
        AuthMethodNone \<Rightarrow>
          if clientSecret \<noteq> None
          then raise (invalidClient (Fresh ''public OAuth client must not use client secret authentication'')) w
          else (Inr client, w)
      | AuthMethodClientSecretBasic \<Rightarrow>
          if clientSecret = None \<or> clientSecret = Some ''''
          then raise (invalidClient (Fresh ''OAuth client secret is required'')) w
          else attempt (matching_credential (secrets_Verify P) (the clientSecret) now
                          (oc_Credentials client) None, w) same (\<lambda>credentialID w.
            case credentialID of
              None \<Rightarrow> raise (invalidClient (Fresh ''OAuth client credentials are invalid'')) w
            | Some k \<Rightarrow>
                attempt (change (RecordCredentialUsed k now client) w) invalidClient (\<lambda>client w.
                attempt (clients_Update P client w) (wrap ''record OAuth client credential use'')
                  (\<lambda>_ w. (Inr client, w))))
      | OtherAuthMethod _ \<Rightarrow>
          raise (invalidClient (Fresh ''OAuth client authentication method is unsupported'')) w)"

definition getAndAuthenticateClient ::
  "('w, 'tx, 'z) oauth_ports_scheme \<Rightarrow> string \<Rightarrow> string option \<Rightarrow> gotime \<Rightarrow> 'w
     \<Rightarrow> ('w, id_sentinel, oauth_client) result" where
  "getAndAuthenticateClient P clientID clientSecret now w =
     attempt (clients_GetByClientID P clientID w) client_load_error (authenticate_loaded P clientSecret now)"

end
