(* ===== verification/OAuth_Authorize.thy ===== *)
theory OAuth_Authorize
  imports OAuth_Ports
begin

text \<open>
  The start and the end of an authorization: \<open>start_authorization.go\<close> and \<open>continue_authorization.go\<close>
  of \<open>internal/usecase/oauth\<close>. The only variable their transactions capture is \<open>output\<close>.
\<close>

section \<open>StartAuthorization\<close>

record start_input =
  sa_ResponseType :: string
  sa_ClientID :: string
  sa_RedirectURI :: string
  sa_Scope :: string
  sa_State :: "string option"
  sa_Nonce :: "string option"
  sa_CodeChallenge :: "string option"
  sa_CodeChallengeMethod :: "string option"

record start_output =
  so_RedirectURI :: string
  so_AuthorizationTransactionID :: uuid
  so_ExpiresAt :: gotime

record start_command =
  sc_clientID :: string
  sc_redirectURI :: string
  sc_scopes :: "string list"
  sc_state :: "string option"
  sc_nonce :: "string option"
  sc_pkce :: "pkce option"

definition openIDScope :: string where
  "openIDScope = ''openid''"

text \<open>The loop over the words of the scope parameter, with the scopes seen before and \<open>hasOpenID\<close>.\<close>

fun scopes_loop :: "string list \<Rightarrow> string set \<Rightarrow> bool \<Rightarrow> ierror + string list \<times> bool" where
  "scopes_loop [] seen hasOpenID = Inr ([], hasOpenID)"
| "scopes_loop (value # values) seen hasOpenID =
     (case NewScope value of
        Inl err \<Rightarrow> Inl (wrap ''create OAuth scope'' err)
      | Inr scope \<Rightarrow>
          if scope \<in> seen then Inl (Fresh ''OAuth scope is duplicated'')
          else case scopes_loop values (insert scope seen) (hasOpenID \<or> scope = openIDScope) of
            Inl err \<Rightarrow> Inl err
          | Inr (scopes, b) \<Rightarrow> Inr (scope # scopes, b))"

definition requestedScopes :: "string \<Rightarrow> ierror + string list" where
  "requestedScopes scope =
     (if scope = '''' then Inl (Fresh ''OAuth scope is required'')
      else case scopes_loop (split_on (CHR '' '') scope) {} False of
        Inl err \<Rightarrow> Inl err
      | Inr (scopes, hasOpenID) \<Rightarrow>
          if \<not> hasOpenID then Inl (Fresh ''OpenID Connect scope openid is required'') else Inr scopes)"

definition optional_value ::
  "string \<Rightarrow> (string \<Rightarrow> ierror + string) \<Rightarrow> string option \<Rightarrow> ierror + string option" where
  "optional_value what new v =
     (case v of
        None \<Rightarrow> Inr None
      | Some x \<Rightarrow> (case new x of Inl err \<Rightarrow> Inl (wrap what err) | Inr y \<Rightarrow> Inr (Some y)))"

definition prepareStartAuthorization ::
  "('w, 'tx, 'z) oauth_ports_scheme \<Rightarrow> start_input \<Rightarrow> ierror + start_command" where
  "prepareStartAuthorization P input =
     (if sa_ResponseType input \<noteq> ''code'' then Inl (Fresh ''only response_type=code is supported'')
      else case NewClientID (sa_ClientID input) of
        Inl err \<Rightarrow> Inl (wrap ''create OAuth client identifier'' err)
      | Inr clientID \<Rightarrow>
      case url_Redirect P (sa_RedirectURI input) of
        Inl err \<Rightarrow> Inl (wrap ''create OAuth redirect URI'' err)
      | Inr redirectURI \<Rightarrow>
      case requestedScopes (sa_Scope input) of
        Inl err \<Rightarrow> Inl err
      | Inr scopes \<Rightarrow>
      case optional_value ''create OAuth state'' NewState (sa_State input) of
        Inl err \<Rightarrow> Inl err
      | Inr state \<Rightarrow>
      case optional_value ''create OpenID Connect nonce'' NewNonce (sa_Nonce input) of
        Inl err \<Rightarrow> Inl err
      | Inr nonce \<Rightarrow>
      case NewPKCE (sa_CodeChallenge input) (sa_CodeChallengeMethod input) of
        Inl err \<Rightarrow> Inl (wrap ''create OAuth PKCE parameters'' err)
      | Inr p \<Rightarrow>
          Inr \<lparr>sc_clientID = clientID, sc_redirectURI = redirectURI, sc_scopes = scopes, sc_state = state,
               sc_nonce = nonce, sc_pkce = p\<rparr>)"

definition start_client_error :: "ierror \<Rightarrow> ierror" where
  "start_client_error err =
     (if errors_is err (S_cli Cli_ErrNotFound)
      then iapp_New TypeNotFound ''oauth_client_not_found'' ''OAuth client not found'' (Some err)
      else wrap ''get OAuth client for authorization'' err)"

definition start_redirect_error :: "ierror \<Rightarrow> ierror" where
  "start_redirect_error err =
     (if errors_is err (S_cli Cli_ErrRedirectURINotFound)
      then iapp_New TypeInvalidArgument ''oauth_redirect_uri_invalid''
             ''OAuth redirect URI is not registered for the client'' (Some err)
      else wrap ''validate OAuth authorization redirect URI'' err)"

definition start_flow_error :: "ierror \<Rightarrow> ierror" where
  "start_flow_error err =
     (if errors_is err (S_cli Cli_ErrInvalidStatus) \<or>
         errors_is err (S_cli Cli_ErrAuthorizationCodeFlowNotAllowed)
      then iapp_New TypeForbidden ''oauth_client_unauthorized''
             ''OAuth client is not allowed to use authorization code flow'' (Some err)
      else if errors_is err (S_cli Cli_ErrScopeNotFound)
      then iapp_New TypeInvalidArgument ''oauth_scope_not_allowed'' ''OAuth scope is not allowed'' (Some err)
      else wrap ''validate OAuth authorization code flow'' err)"

definition start_entity_error :: "ierror \<Rightarrow> ierror" where
  "start_entity_error err =
     (if errors_is err (S_tra Tra_ErrPKCERequired)
      then iapp_New TypeInvalidArgument ''oauth_pkce_required'' ''OAuth PKCE parameters are required'' (Some err)
      else wrap ''create authorization transaction entity'' err)"

definition start_output0 :: start_output where
  "start_output0 = \<lparr>so_RedirectURI = '''', so_AuthorizationTransactionID = uuid_nil, so_ExpiresAt = 0\<rparr>"

definition start_body ::
  "('w, 'tx, 'z) oauth_ports_scheme \<Rightarrow> start_command \<Rightarrow> gotime \<Rightarrow> 'w \<times> start_output
     \<Rightarrow> ('w \<times> start_output, id_sentinel, unit) result" where
  "start_body P request now w =
     attempt (io (clients_GetByClientID P (sc_clientID request)) w) start_client_error (\<lambda>client w.
     attempt (check (ValidateAuthorizationRedirectURI (sc_redirectURI request) client) w)
       start_redirect_error (\<lambda>_ w.
     attempt (check (ValidateAuthorizationCodeFlow (sc_scopes request) now client) w)
       start_flow_error (\<lambda>_ w.
     draw (io (ids_New P) w) (\<lambda>txnID w.
     attempt (New_transaction txnID (oc_ID client) (sc_redirectURI request) (sc_scopes request)
                (sc_state request) (sc_nonce request) (oc_RequirePKCE client) (sc_pkce request)
                (now + of_AuthorizationLifetime (of_cfg P)) now, w) start_entity_error (\<lambda>txn w.
     attempt (BuildAuthorizationRedirect P (at_ID txn), w) (wrap ''build authentication redirect'')
       (\<lambda>authenticationRedirect w.
     attempt (io (txns_Create P txn) w) (wrap ''save authorization transaction'') (\<lambda>_ w.
       (Inr (), assign (\<lambda>_. \<lparr>so_RedirectURI = authenticationRedirect,
                             so_AuthorizationTransactionID = at_ID txn,
                             so_ExpiresAt = at_ExpiresAt txn\<rparr>) w))))))))"

definition StartAuthorization ::
  "('w, 'tx, 'z) oauth_ports_scheme \<Rightarrow> start_input \<Rightarrow> 'w \<Rightarrow> ('w, id_sentinel, start_output) result" where
  "StartAuthorization P input w =
     (case prepareStartAuthorization P input of
        Inl err \<Rightarrow>
          (Inl (iapp_New TypeInvalidArgument ''oauth_authorization_invalid_input''
                  ''OAuth authorization request is invalid'' (Some err)), w)
      | Inr request \<Rightarrow>
          draw (now_Clock P w) (\<lambda>now w.
            case do_tx (tx_driver P) start_output0 (start_body P request now) w of
              (Inl err, (w, l)) \<Rightarrow> (Inl err, w)
            | (Inr _, (w, l)) \<Rightarrow> (Inr l, w)))"


section \<open>ContinueAuthorization\<close>

definition txn_load_error :: "ierror \<Rightarrow> ierror" where
  "txn_load_error err =
     (if errors_is err (S_tra Tra_ErrNotFound)
      then iapp_New TypeNotFound ''authorization_transaction_not_found'' ''authorization transaction not found''
             (Some err)
      else wrap ''get authorization transaction'' err)"

definition txn_complete_error :: "ierror \<Rightarrow> ierror" where
  "txn_complete_error err =
     iapp_New TypeConflict ''authorization_transaction_not_ready'' ''authorization transaction is not ready''
       (Some err)"

definition code_store_error :: "ierror \<Rightarrow> ierror" where
  "code_store_error err =
     (if errors_is err (S_code Code_ErrAlreadyExists)
      then iapp_New TypeInternal ''oauth_authorization_code_collision'' ''cannot issue authorization code''
             (Some err)
      else wrap ''store authorization code'' err)"

text \<open>
  \<open>url.Parse\<close>, \<open>Query\<close>, \<open>Set\<close> and \<open>Encode\<close> are the port \<open>url_WithQuery\<close>: the URI with its query
  parameters set to the given ones.
\<close>

definition authorizedRedirect ::
  "('w, 'tx, 'z) oauth_ports_scheme \<Rightarrow> transaction \<Rightarrow> string \<Rightarrow> ierror + string" where
  "authorizedRedirect P txn code =
     url_WithQuery P (at_RedirectURI txn)
       ((''code'', code) # (case at_State txn of None \<Rightarrow> [] | Some s \<Rightarrow> [(''state'', s)]))"

definition continue_body ::
  "('w, 'tx, 'z) oauth_ports_scheme \<Rightarrow> uuid \<Rightarrow> gotime \<Rightarrow> 'w \<times> string
     \<Rightarrow> ('w \<times> string, id_sentinel, unit) result" where
  "continue_body P txnID now w =
     attempt (io (txns_Get P txnID) w) txn_load_error (\<lambda>txn w.
     attempt (change (txn_Complete now txn) w) txn_complete_error (\<lambda>txn w.
     attempt (io (tokens_New P) w) (wrap ''generate authorization code'') (\<lambda>(code, hash) w.
     attempt (New_code hash (at_OAuthClientID txn) (at_RedirectURI txn) (the (at_IdentityID txn))
                (the (at_AuthenticationLevel txn)) (at_AuthenticatedMethods txn) (at_GrantedScopes txn)
                (at_Nonce txn) (at_PKCE txn) (the (at_AuthenticatedAt txn))
                (now + of_CodeLifetime (of_cfg P)) now, w)
       (wrap ''create authorization code'') (\<lambda>authorizationCode w.
     attempt (io (codes_Create P authorizationCode) w) code_store_error (\<lambda>_ w.
     attempt (io (txns_Update P txn) w) (wrap ''update authorization transaction'') (\<lambda>_ w.
     attempt (authorizedRedirect P txn code, w) (wrap ''build authorization redirect'') (\<lambda>redirectURI w.
       (Inr (), assign (\<lambda>_. redirectURI) w))))))))"

definition ContinueAuthorization ::
  "('w, 'tx, 'z) oauth_ports_scheme \<Rightarrow> uuid \<Rightarrow> 'w \<Rightarrow> ('w, id_sentinel, string) result" where
  "ContinueAuthorization P txnID w =
     (if txnID = uuid_nil
      then (Inl (iapp_New TypeInvalidArgument ''oauth_continue_authorization_invalid_input''
                   ''authorization transaction identifier is required'' None), w)
      else draw (now_Clock P w) (\<lambda>now w.
        case do_tx (tx_driver P) '''' (continue_body P txnID now) w of
          (Inl err, (w, l)) \<Rightarrow> (Inl err, w)
        | (Inr _, (w, l)) \<Rightarrow> (Inr l, w)))"


section \<open>The scopes of a request\<close>

lemma scopes_loop_ok:
  "scopes_loop vs seen b = Inr (ss, b') \<Longrightarrow>
     distinct ss \<and> set ss \<inter> seen = {} \<and> b' = (b \<or> openIDScope \<in> set ss)"
proof (induction vs arbitrary: seen b ss b')
  case Nil
  then show ?case by simp
next
  case (Cons v vs)
  from Cons.prems obtain x ss2 where "x \<notin> seen" "ss = x # ss2"
    and rest: "scopes_loop vs (insert x seen) (b \<or> x = openIDScope) = Inr (ss2, b')"
    by (simp split: sum.split_asm if_split_asm prod.split_asm) blast
  with Cons.IH [OF rest] show ?case by auto
qed

text \<open>The scopes of a request are distinct and contain \<open>openid\<close>.\<close>

lemma requestedScopes_ok:
  "requestedScopes v = Inr ss \<Longrightarrow> distinct ss \<and> openIDScope \<in> set ss"
  by (auto simp: requestedScopes_def split: sum.split_asm if_split_asm prod.split_asm dest!: scopes_loop_ok)

lemma prepareStart_scopes:
  "prepareStartAuthorization P input = Inr c \<Longrightarrow> requestedScopes (sa_Scope input) = Inr (sc_scopes c)"
  by (auto simp: prepareStartAuthorization_def split: if_split_asm sum.split_asm)

end
