(* ===== verification/OAuth_Token.thy ===== *)
theory OAuth_Token
  imports OAuth_Ports
begin

text \<open>
  The refresh and the revocation of tokens: \<open>refresh_access_token.go\<close> and \<open>revoke_token.go\<close> of
  \<open>internal/usecase/oauth\<close>. A use case runs its closure in a transaction and, when it fails with an
  application error, audits the failure outside of it. The variables the closure captures are a
  record; \<open>io\<close> is a call of a port and \<open>assign\<close> an assignment of captured variables.
\<close>

section \<open>RefreshAccessToken\<close>

record refresh_input =
  ri_ClientID :: string
  ri_ClientSecret :: "string option"
  ri_RefreshToken :: string

record refresh_output =
  ro_AccessToken :: string
  ro_TokenType :: string
  ro_ExpiresIn :: "32 word"
  ro_RefreshToken :: string
  ro_Scope :: string

definition prepareRefreshAccessToken :: "refresh_input \<Rightarrow> ierror + refresh_input" where
  "prepareRefreshAccessToken input =
     (case NewClientID (ri_ClientID input) of
        Inl err \<Rightarrow> Inl err
      | Inr clientID \<Rightarrow>
          if ri_RefreshToken input = '''' then Inl (Fresh ''refresh token is required'')
          else Inr (input\<lparr>ri_ClientID := clientID\<rparr>))"

record refresh_locals =
  rl_output :: refresh_output
  rl_committedError :: "ierror option"
  rl_auditClientID :: "uuid option"
  rl_auditIdentityID :: "uuid option"
  rl_auditSessionID :: "uuid option"

definition refresh_locals0 :: refresh_locals where
  "refresh_locals0 =
     \<lparr>rl_output = \<lparr>ro_AccessToken = '''', ro_TokenType = '''', ro_ExpiresIn = 0, ro_RefreshToken = '''',
                   ro_Scope = ''''\<rparr>,
      rl_committedError = None, rl_auditClientID = None, rl_auditIdentityID = None,
      rl_auditSessionID = None\<rparr>"

text \<open>
  \<open>uint32(expiresAt.Sub(issuedAt).Seconds())\<close>: the seconds of the difference, rounded towards zero;
  the lifetime of a token is a whole number of seconds, for which the \<open>float64\<close> is exact.
\<close>

definition seconds_between :: "gotime \<Rightarrow> gotime \<Rightarrow> 32 word" where
  "seconds_between issuedAt expiresAt =
     (let d = expiresAt - issuedAt
      in word_of_int (if 0 \<le> d then d div second else - ((- d) div second)))"

definition family_load_error :: "ierror \<Rightarrow> ierror" where
  "family_load_error err =
     (if errors_is err (S_ref Ref_ErrTokenNotFound) \<or> errors_is err (S_ref Ref_ErrNotFound)
      then invalidGrant err else wrap ''get refresh token family'' err)"

definition session_load_error :: "ierror \<Rightarrow> ierror" where
  "session_load_error err =
     (if errors_is err (S_ses Ses_ErrNotFound) then invalidGrant err else wrap ''get OAuth session'' err)"

text \<open>The branch of a presented token that was rotated before: it commits, and reports an error.\<close>

definition refresh_reused ::
  "('w, 'tx, 'z) oauth_ports_scheme \<Rightarrow> oauth_client \<Rightarrow> refresh_token_family \<Rightarrow> session \<Rightarrow> uuid \<Rightarrow> gotime
     \<Rightarrow> 'w \<times> refresh_locals \<Rightarrow> ('w \<times> refresh_locals, id_sentinel, unit) result" where
  "refresh_reused P client family session presentedTokenID now w =
     attempt (change (session_Revoke ''refresh_token_reuse_detected'' now session) w)
       (wrap ''revoke reused refresh token session'') (\<lambda>session w.
     attempt (io (families_Update P family) w) (wrap ''save reused refresh token family'') (\<lambda>_ w.
     attempt (io (sessions_Update P session) w) (wrap ''save revoked OAuth session'') (\<lambda>_ w.
     attempt (io (emit P ''refresh token reuse detected'' EventTypeReuseDetected AggregateTypeFamily
                (rf_ID family)
                (P_family (Family_ReuseDetected (rf_ID family) (rf_SessionID family) presentedTokenID now
                   (the (rf_RevokedAt family)))) now) w) same (\<lambda>_ w.
     attempt (io (emit P ''session revoked'' EventTypeSessionRevoked AggregateTypeSession (se_ID session)
                (P_session (Session_Revoked (se_ID session) (se_IdentityID session)
                   (se_OAuthClientID session) (the (se_RevokeReason session)) (the (se_RevokedAt session))))
                now) w) same (\<lambda>_ w.
     attempt (NewIdentityActor (se_IdentityID session), w) (wrap ''create refresh token reuse actor'')
       (\<lambda>actor w.
     attempt (io (saveSecurityEvent P
                \<lparr>sei_Type = EventTypeRefreshTokenExchange, sei_Result = ResultBlocked, sei_Actor = actor,
                 sei_SessionID = Some (se_ID session), sei_OAuthClientID = Some (oc_ID client),
                 sei_Metadata = [(''grant_type'', M_string ''refresh_token''),
                                 (''reason'', M_string ''refresh_token_reuse_detected'')],
                 sei_OccurredAt = now\<rparr>) w) same (\<lambda>_ w.
       (Inr (), assign (rl_committedError_update
                  (\<lambda>_. Some (invalidGrant (Fresh ''refresh token reuse detected'')))) w))))))))"

definition refresh_rotated ::
  "('w, 'tx, 'z) oauth_ports_scheme \<Rightarrow> oauth_client \<Rightarrow> refresh_token_family \<Rightarrow> session \<Rightarrow> uuid \<Rightarrow> uuid
     \<Rightarrow> string \<Rightarrow> gotime \<Rightarrow> 'w \<times> refresh_locals \<Rightarrow> ('w \<times> refresh_locals, id_sentinel, unit) result" where
  "refresh_rotated P client family session presentedTokenID nextTokenID raw now w =
     attempt (change (RecordActivity now
                (MinimumTime (now + of_SessionIdleLifetime (of_cfg P)) (se_AbsoluteExpiresAt session))
                session) w) invalidGrant (\<lambda>session w.
     attempt (io (access_Issue P
                \<lparr>ati_IdentityID = se_IdentityID session, ati_SessionID = se_ID session,
                 ati_ClientID = oc_ClientID client, ati_GrantedScopes = se_Scopes session,
                 ati_AuthenticationLevel = se_AuthenticationLevel session,
                 ati_AuthenticatedMethods = se_AuthenticatedMethods session,
                 ati_AuthenticatedAt = se_AuthenticatedAt session\<rparr>) w)
       (wrap ''issue OAuth access token'') (\<lambda>accessToken w.
     attempt (io (families_Update P family) w) (wrap ''save rotated refresh token family'') (\<lambda>_ w.
     attempt (io (sessions_Update P session) w) (wrap ''save OAuth session activity'') (\<lambda>_ w.
     let scopes = se_Scopes session; newToken = last (rf_Tokens family)
     in attempt (io (emit P ''refresh token rotated'' EventTypeTokenRotated AggregateTypeFamily (rf_ID family)
                (P_family (Family_TokenRotated (rf_ID family) (rf_SessionID family) presentedTokenID
                   nextTokenID (rt_ExpiresAt newToken) (rt_CreatedFromIP newToken)
                   (rt_CreatedUserAgent newToken) now)) now) w) same (\<lambda>_ w.
     attempt (NewIdentityActor (se_IdentityID session), w) (wrap ''create refresh token exchange actor'')
       (\<lambda>actor w.
     attempt (io (saveSecurityEvent P
                \<lparr>sei_Type = EventTypeRefreshTokenExchange, sei_Result = ResultSuccess, sei_Actor = actor,
                 sei_SessionID = Some (se_ID session), sei_OAuthClientID = Some (oc_ID client),
                 sei_Metadata = [(''grant_type'', M_string ''refresh_token''), (''scopes'', M_strings scopes)],
                 sei_OccurredAt = now\<rparr>) w) same (\<lambda>_ w.
       (Inr (), assign (rl_output_update (\<lambda>_.
                  \<lparr>ro_AccessToken = it_Value accessToken, ro_TokenType = ''Bearer'',
                   ro_ExpiresIn = seconds_between (it_IssuedAt accessToken) (it_ExpiresAt accessToken),
                   ro_RefreshToken = raw, ro_Scope = join_with (CHR '' '') scopes\<rparr>)) w))))))))"

definition rotate_result ::
  "(ierror + rotation_outcome) \<times> refresh_token_family \<Rightarrow> 'w
     \<Rightarrow> ('w, id_sentinel, rotation_outcome \<times> refresh_token_family) result" where
  "rotate_result p w =
     (case p of (Inl err, f) \<Rightarrow> (Inl err, w) | (Inr oc, f) \<Rightarrow> (Inr (oc, f), w))"

definition refresh_body ::
  "('w, 'tx, 'z) oauth_ports_scheme \<Rightarrow> refresh_input \<Rightarrow> 'w \<times> refresh_locals
     \<Rightarrow> ('w \<times> refresh_locals, id_sentinel, unit) result" where
  "refresh_body P command w =
     draw (io (now_Clock P) w) (\<lambda>now w.
     attempt (io (getAndAuthenticateClient P (ri_ClientID command) (ri_ClientSecret command) now) w) same
       (\<lambda>client w. let w = assign (rl_auditClientID_update (\<lambda>_. Some (oc_ID client))) w in
     attempt (check (ValidateTokenExchange GrantTypeRefreshToken now client) w) clientGrantError (\<lambda>_ w.
     let presentedHash = tokens_Hash P (ri_RefreshToken command) in
     attempt (io (families_GetByTokenHash P presentedHash) w) family_load_error (\<lambda>family w.
     attempt (TokenIDByHash presentedHash (rf_Tokens family), w) invalidGrant (\<lambda>presentedTokenID w.
     attempt (io (sessions_Get P (rf_SessionID family)) w) session_load_error (\<lambda>session w.
       if se_OAuthClientID session \<noteq> oc_ID client
       then raise (invalidGrant (Fresh ''refresh token belongs to another OAuth client'')) w
       else attempt (check (Identity_Session.ValidateForUse now session) w) invalidGrant (\<lambda>_ w.
         let w = assign (\<lambda>l. l\<lparr>rl_auditIdentityID := Some (se_IdentityID session),
                               rl_auditSessionID := Some (se_ID session)\<rparr>) w in
         attempt (io (tokens_New P) w) (wrap ''generate refresh token'') (\<lambda>(raw, nextHash) w.
         draw (io (ids_New P) w) (\<lambda>nextTokenID w.
         attempt (rotate_result (Rotate presentedTokenID nextTokenID nextHash
                    (MinimumTime (now + of_RefreshTokenLifetime (of_cfg P)) (rf_AbsoluteExpiresAt family))
                    None None now family) w) invalidGrant (\<lambda>(oc, family) w.
           if oc = RotationOutcomeReuseDetected
           then refresh_reused P client family session presentedTokenID now w
           else refresh_rotated P client family session presentedTokenID nextTokenID raw now w))))))))))"

text \<open>The audit of a failure, outside the transaction.\<close>

definition audit_failure ::
  "('w, 'tx, 'z) oauth_ports_scheme \<Rightarrow> ierror \<Rightarrow> (gotime \<Rightarrow> security_event_input) \<Rightarrow> 'w
     \<Rightarrow> ('w, id_sentinel, 'a) result" where
  "audit_failure P err event w =
     (if \<not> isOAuthFailure err then (Inl err, w)
      else draw (now_Clock P w) (\<lambda>now w.
        case saveSecurityEvent P (event now) w of
          (Inl auditErr, w) \<Rightarrow> (Inl (Join [err, auditErr]), w)
        | (Inr _, w) \<Rightarrow> (Inl err, w)))"

definition refresh_failure :: "ierror \<Rightarrow> refresh_locals \<Rightarrow> gotime \<Rightarrow> security_event_input" where
  "refresh_failure err l now =
     \<lparr>sei_Type = EventTypeRefreshTokenExchange, sei_Result = ResultFailure,
      sei_Actor = (case rl_auditIdentityID l of None \<Rightarrow> NewAnonymousActor | Some k \<Rightarrow> identity_actor k),
      sei_SessionID = rl_auditSessionID l, sei_OAuthClientID = rl_auditClientID l,
      sei_Metadata = [(''grant_type'', M_string ''refresh_token''),
                      (''reason'', M_string (securityFailureReason err))],
      sei_OccurredAt = now\<rparr>"

definition RefreshAccessToken ::
  "('w, 'tx, 'z) oauth_ports_scheme \<Rightarrow> refresh_input \<Rightarrow> 'w \<Rightarrow> ('w, id_sentinel, refresh_output) result" where
  "RefreshAccessToken P input w =
     (case prepareRefreshAccessToken input of
        Inl err \<Rightarrow> (Inl (invalidTokenRequest err), w)
      | Inr command \<Rightarrow>
          (case do_tx (tx_driver P) refresh_locals0 (refresh_body P command) w of
             (Inl err, (w, l)) \<Rightarrow> audit_failure P err (refresh_failure err l) w
           | (Inr _, (w, l)) \<Rightarrow>
               (case rl_committedError l of
                  Some err \<Rightarrow> (Inl err, w)
                | None \<Rightarrow> (Inr (rl_output l), w))))"


section \<open>RevokeToken\<close>

record revoke_input =
  rv_ClientID :: string
  rv_ClientSecret :: "string option"
  rv_Token :: string
  rv_TokenTypeHint :: "string option"

definition tokenRevokedReason :: string where
  "tokenRevokedReason = ''oauth_token_revoked''"

definition prepareRevokeToken :: "revoke_input \<Rightarrow> ierror + revoke_input" where
  "prepareRevokeToken input =
     (case NewClientID (rv_ClientID input) of
        Inl err \<Rightarrow> Inl err
      | Inr clientID \<Rightarrow>
          if rv_Token input = '''' then Inl (Fresh ''token is required'')
          else Inr (input\<lparr>rv_ClientID := clientID\<rparr>))"

record token_revocation =
  tr_recognized :: bool
  tr_owned :: bool
  tr_changed :: bool
  tr_identityID :: "uuid option"
  tr_sessionID :: "uuid option"

definition no_revocation :: token_revocation where
  "no_revocation = \<lparr>tr_recognized = False, tr_owned = False, tr_changed = False, tr_identityID = None,
                    tr_sessionID = None\<rparr>"

definition owned_revocation :: "session \<Rightarrow> token_revocation" where
  "owned_revocation s = \<lparr>tr_recognized = True, tr_owned = True, tr_changed = False,
                         tr_identityID = Some (se_IdentityID s), tr_sessionID = Some (se_ID s)\<rparr>"

text \<open>
  The two functions also return a revocation together with an error, which their caller drops; here
  an error is returned alone. What each does once it has loaded the token's session is a definition
  of its own.
\<close>

definition revoke_family ::
  "('w, 'tx, 'z) oauth_ports_scheme \<Rightarrow> oauth_client \<Rightarrow> refresh_token_family \<Rightarrow> session \<Rightarrow> gotime \<Rightarrow> 'w
     \<Rightarrow> ('w, id_sentinel, token_revocation) result" where
  "revoke_family P client family session now w =
     (if se_OAuthClientID session \<noteq> oc_ID client then (Inr (no_revocation\<lparr>tr_recognized := True\<rparr>), w)
      else if rf_RevokedAt family \<noteq> None then (Inr (owned_revocation session), w)
      else attempt (change (family_Revoke tokenRevokedReason now family) w)
             (wrap ''revoke refresh token family'') (\<lambda>family w.
           attempt (families_Update P family w) (wrap ''save revoked refresh token family'') (\<lambda>_ w.
           attempt (emit P ''refresh token family revoked'' EventTypeFamilyRevoked AggregateTypeFamily
                      (rf_ID family)
                      (P_family (Family_Revoked (rf_ID family) (rf_SessionID family)
                         (the (rf_RevokeReason family)) (the (rf_RevokedAt family)))) now w) same (\<lambda>_ w.
             (Inr ((owned_revocation session)\<lparr>tr_changed := True\<rparr>), w)))))"

definition revokeRefreshToken ::
  "('w, 'tx, 'z) oauth_ports_scheme \<Rightarrow> oauth_client \<Rightarrow> string \<Rightarrow> gotime \<Rightarrow> 'w
     \<Rightarrow> ('w, id_sentinel, token_revocation) result" where
  "revokeRefreshToken P client rawToken now w =
     (case families_GetByTokenHash P (tokens_Hash P rawToken) w of
        (Inl err, w) \<Rightarrow>
          if errors_is err (S_ref Ref_ErrTokenNotFound) \<or> errors_is err (S_ref Ref_ErrNotFound)
          then (Inr no_revocation, w)
          else (Inl (wrap ''find refresh token for revocation'' err), w)
      | (Inr family, w) \<Rightarrow>
          attempt (sessions_Get P (rf_SessionID family) w)
            (wrap ''get refresh token session for revocation'')
            (\<lambda>session w. revoke_family P client family session now w))"

definition revoke_session ::
  "('w, 'tx, 'z) oauth_ports_scheme \<Rightarrow> session \<Rightarrow> gotime \<Rightarrow> 'w
     \<Rightarrow> ('w, id_sentinel, token_revocation) result" where
  "revoke_session P session now w =
     (if se_RevokedAt session \<noteq> None then (Inr (owned_revocation session), w)
      else attempt (change (session_Revoke tokenRevokedReason now session) w)
             (wrap ''revoke access token session'') (\<lambda>session w.
           attempt (sessions_Update P session w) (wrap ''save revoked access token session'') (\<lambda>_ w.
           attempt (emit P ''session revoked'' EventTypeSessionRevoked AggregateTypeSession
                      (se_ID session)
                      (P_session (Session_Revoked (se_ID session) (se_IdentityID session)
                         (se_OAuthClientID session) (the (se_RevokeReason session))
                         (the (se_RevokedAt session)))) now w) same (\<lambda>_ w.
             (Inr ((owned_revocation session)\<lparr>tr_changed := True\<rparr>), w)))))"

definition revokeAccessToken ::
  "('w, 'tx, 'z) oauth_ports_scheme \<Rightarrow> oauth_client \<Rightarrow> string \<Rightarrow> gotime \<Rightarrow> 'w
     \<Rightarrow> ('w, id_sentinel, token_revocation) result" where
  "revokeAccessToken P client rawToken now w =
     (case access_Verify P rawToken w of
        (Inl err, w) \<Rightarrow>
          if errors_is err (S_tok Tok_ErrInvalidToken) then (Inr no_revocation, w)
          else (Inl (wrap ''verify access token for revocation'' err), w)
      | (Inr token, w) \<Rightarrow>
          if vt_ClientID token \<noteq> oc_ClientID client then (Inr (no_revocation\<lparr>tr_recognized := True\<rparr>), w)
          else case sessions_Get P (vt_SessionID token) w of
            (Inl err, w) \<Rightarrow>
              if errors_is err (S_ses Ses_ErrNotFound) then (Inr (no_revocation\<lparr>tr_recognized := True\<rparr>), w)
              else (Inl (wrap ''get access token session for revocation'' err), w)
          | (Inr session, w) \<Rightarrow>
              if se_IdentityID session \<noteq> vt_IdentityID token \<or> se_OAuthClientID session \<noteq> oc_ID client
              then (Inr (no_revocation\<lparr>tr_recognized := True\<rparr>), w)
              else revoke_session P session now w)"

text \<open>The switch over the hint: the kind it names first, the other when it does not recognize the token.\<close>

definition revoke_either ::
  "('w, 'tx, 'z) oauth_ports_scheme \<Rightarrow> string \<Rightarrow> oauth_client \<Rightarrow> string \<Rightarrow> gotime \<Rightarrow> 'w
     \<Rightarrow> ('w, id_sentinel, token_revocation) result" where
  "revoke_either P hint client token now w =
     (if hint = ''access_token''
      then attempt (revokeAccessToken P client token now w) same (\<lambda>revocation w.
             if \<not> tr_recognized revocation then revokeRefreshToken P client token now w
             else (Inr revocation, w))
      else attempt (revokeRefreshToken P client token now w) same (\<lambda>revocation w.
             if \<not> tr_recognized revocation then revokeAccessToken P client token now w
             else (Inr revocation, w)))"

definition revoke_event :: "oauth_client \<Rightarrow> string \<Rightarrow> token_revocation \<Rightarrow> gotime \<Rightarrow> security_event_input" where
  "revoke_event client hint r now =
     \<lparr>sei_Type = EventTypeTokenRevocation,
      sei_Result = (if tr_owned r then ResultSuccess else ResultFailure),
      sei_Actor = (case tr_identityID r of None \<Rightarrow> NewAnonymousActor | Some k \<Rightarrow> identity_actor k),
      sei_SessionID = tr_sessionID r, sei_OAuthClientID = Some (oc_ID client),
      sei_Metadata = [(''token_type_hint'', M_string hint), (''recognized'', M_bool (tr_recognized r)),
                      (''owned'', M_bool (tr_owned r)), (''changed'', M_bool (tr_changed r))],
      sei_OccurredAt = now\<rparr>"

text \<open>The only captured variable is \<open>auditClientID\<close>.\<close>

definition revoke_body ::
  "('w, 'tx, 'z) oauth_ports_scheme \<Rightarrow> revoke_input \<Rightarrow> 'w \<times> uuid option
     \<Rightarrow> ('w \<times> uuid option, id_sentinel, unit) result" where
  "revoke_body P command w =
     draw (io (now_Clock P) w) (\<lambda>now w.
     attempt (io (getAndAuthenticateClient P (rv_ClientID command) (rv_ClientSecret command) now) w) same
       (\<lambda>client w. let w = assign (\<lambda>_. Some (oc_ID client)) w;
                      hint = (case rv_TokenTypeHint command of None \<Rightarrow> '''' | Some h \<Rightarrow> h) in
     attempt (io (revoke_either P hint client (rv_Token command) now) w) same (\<lambda>revocation w.
       io (saveSecurityEvent P (revoke_event client hint revocation now)) w)))"

definition revoke_failure :: "ierror \<Rightarrow> uuid option \<Rightarrow> gotime \<Rightarrow> security_event_input" where
  "revoke_failure err auditClientID now =
     \<lparr>sei_Type = EventTypeTokenRevocation, sei_Result = ResultFailure, sei_Actor = NewAnonymousActor,
      sei_SessionID = None, sei_OAuthClientID = auditClientID,
      sei_Metadata = [(''reason'', M_string (securityFailureReason err))], sei_OccurredAt = now\<rparr>"

definition RevokeToken ::
  "('w, 'tx, 'z) oauth_ports_scheme \<Rightarrow> revoke_input \<Rightarrow> 'w \<Rightarrow> ('w, id_sentinel, unit) result" where
  "RevokeToken P input w =
     (case prepareRevokeToken input of
        Inl err \<Rightarrow> (Inl (invalidRevocationRequest err), w)
      | Inr command \<Rightarrow>
          (case do_tx (tx_driver P) None (revoke_body P command) w of
             (Inl err, (w, l)) \<Rightarrow> audit_failure P err (revoke_failure err l) w
           | (Inr _, (w, l)) \<Rightarrow> (Inr (), w)))"

end
