(* ===== verification/OAuth_Exchange.thy ===== *)
theory OAuth_Exchange
  imports OAuth_Token
begin

text \<open>
  The exchange of an authorization code for tokens and the reading of the claims of an account:
  \<open>exchange_authorization_code.go\<close> and \<open>get_user_info.go\<close> of \<open>internal/usecase/oauth\<close>.
\<close>

section \<open>The claims the scopes give access to\<close>

record user_info =
  ui_Subject :: uuid
  ui_Email :: "string option"
  ui_EmailVerified :: "bool option"
  ui_PhoneNumber :: "string option"
  ui_PhoneNumberVerified :: "bool option"
  ui_Name :: "string option"
  ui_FamilyName :: "string option"
  ui_GivenName :: "string option"
  ui_MiddleName :: "string option"
  ui_UpdatedAt :: "gotime option"

definition user_info0 :: user_info where
  "user_info0 =
     \<lparr>ui_Subject = uuid_nil, ui_Email = None, ui_EmailVerified = None, ui_PhoneNumber = None,
      ui_PhoneNumberVerified = None, ui_Name = None, ui_FamilyName = None, ui_GivenName = None,
      ui_MiddleName = None, ui_UpdatedAt = None\<rparr>"

definition scopesBelongToSession :: "string list \<Rightarrow> string list \<Rightarrow> bool" where
  "scopesBelongToSession tokenScopes sessionScopes \<longleftrightarrow> list_all (\<lambda>s. s \<in> set sessionScopes) tokenScopes"

definition setUserInfoEmail :: "identity \<Rightarrow> user_info \<Rightarrow> user_info" where
  "setUserInfoEmail i output =
     (case find contact_IsMain (idn_Emails i) of
        None \<Rightarrow> output
      | Some e \<Rightarrow> output\<lparr>ui_Email := Some (ct_Value e), ui_EmailVerified := Some (ct_VerifiedAt e \<noteq> None)\<rparr>)"

definition setUserInfoPhone :: "identity \<Rightarrow> user_info \<Rightarrow> user_info" where
  "setUserInfoPhone i output =
     (case find contact_IsMain (idn_Phones i) of
        None \<Rightarrow> output
      | Some p \<Rightarrow> output\<lparr>ui_PhoneNumber := Some (ct_Value p),
                         ui_PhoneNumberVerified := Some (ct_VerifiedAt p \<noteq> None)\<rparr>)"

definition setUserInfoProfile ::
  "('w, 'tx, 'z) oauth_ports_scheme \<Rightarrow> identity \<Rightarrow> user_info \<Rightarrow> 'w \<Rightarrow> ('w, id_sentinel, user_info) result" where
  "setUserInfoProfile P i output w =
     (let output = output\<lparr>ui_UpdatedAt := Some (idn_UpdatedAt i)\<rparr>
      in case profiles_Get P (idn_ID i) w of
        (Inl err, w) \<Rightarrow>
          if errors_is err (S_pro Pro_ErrNotFound) then (Inr output, w)
          else (Inl (wrap ''get UserInfo profile'' err), w)
      | (Inr p, w) \<Rightarrow>
          (Inr (output\<lparr>ui_UpdatedAt := Some (if after (pr_UpdatedAt p) (idn_UpdatedAt i) then pr_UpdatedAt p
                                            else idn_UpdatedAt i),
                       ui_FamilyName := Some (pr_FamilyName p), ui_GivenName := Some (pr_GivenName p),
                       ui_MiddleName := (case pr_MiddleName p of None \<Rightarrow> ui_MiddleName output | m \<Rightarrow> m),
                       ui_Name := Some (join_with (CHR '' '')
                         ([pr_GivenName p] @ (case pr_MiddleName p of None \<Rightarrow> [] | Some m \<Rightarrow> [m]) @
                          [pr_FamilyName p]))\<rparr>), w))"

definition scopedIdentityClaims ::
  "('w, 'tx, 'z) oauth_ports_scheme \<Rightarrow> uuid \<Rightarrow> string list \<Rightarrow> 'w \<Rightarrow> ('w, id_sentinel, user_info) result" where
  "scopedIdentityClaims P identityID scopes w =
     attempt (identities_Get P identityID w) (wrap ''get scoped identity claims'') (\<lambda>i w.
       if idn_Status i \<noteq> Identity_Active then (Inl (Sentinel (S_idn Idn_ErrInvalidStatus)), w)
       else
         let output = user_info0\<lparr>ui_Subject := idn_ID i\<rparr>;
             output = (if ''email'' \<in> set scopes then setUserInfoEmail i output else output);
             output = (if ''phone'' \<in> set scopes then setUserInfoPhone i output else output)
         in if ''profile'' \<in> set scopes then setUserInfoProfile P i output w else (Inr output, w))"

definition toIDTokenIdentityClaims :: "user_info \<Rightarrow> identity_claims" where
  "toIDTokenIdentityClaims u =
     \<lparr>ic_Email = ui_Email u, ic_EmailVerified = ui_EmailVerified u, ic_PhoneNumber = ui_PhoneNumber u,
      ic_PhoneNumberVerified = ui_PhoneNumberVerified u, ic_Name = ui_Name u,
      ic_FamilyName = ui_FamilyName u, ic_GivenName = ui_GivenName u, ic_MiddleName = ui_MiddleName u,
      ic_UpdatedAt = ui_UpdatedAt u\<rparr>"


section \<open>ExchangeAuthorizationCode\<close>

record exchange_input =
  xi_ClientID :: string
  xi_ClientSecret :: "string option"
  xi_Code :: string
  xi_RedirectURI :: string
  xi_CodeVerifier :: "string option"

record exchange_output =
  xo_AccessToken :: string
  xo_TokenType :: string
  xo_ExpiresIn :: "32 word"
  xo_RefreshToken :: "string option"
  xo_IDToken :: string
  xo_Scope :: string

definition prepareExchangeAuthorizationCode ::
  "('w, 'tx, 'z) oauth_ports_scheme \<Rightarrow> exchange_input \<Rightarrow> ierror + exchange_input" where
  "prepareExchangeAuthorizationCode P input =
     (case NewClientID (xi_ClientID input) of
        Inl err \<Rightarrow> Inl err
      | Inr clientID \<Rightarrow>
      if xi_Code input = '''' then Inl (Fresh ''authorization code is required'')
      else case url_Redirect P (xi_RedirectURI input) of
        Inl err \<Rightarrow> Inl err
      | Inr redirectURI \<Rightarrow>
          let command = input\<lparr>xi_ClientID := clientID, xi_RedirectURI := redirectURI\<rparr>
          in case xi_CodeVerifier input of
               None \<Rightarrow> Inr command
             | Some v \<Rightarrow>
                 (case NewCodeVerifier v of
                    Inl err \<Rightarrow> Inl err
                  | Inr verifier \<Rightarrow> Inr (command\<lparr>xi_CodeVerifier := Some verifier\<rparr>)))"

record exchange_locals =
  xl_output :: exchange_output
  xl_auditClientID :: "uuid option"
  xl_auditIdentityID :: "uuid option"

definition exchange_locals0 :: exchange_locals where
  "exchange_locals0 =
     \<lparr>xl_output = \<lparr>xo_AccessToken = '''', xo_TokenType = '''', xo_ExpiresIn = 0, xo_RefreshToken = None,
                   xo_IDToken = '''', xo_Scope = ''''\<rparr>,
      xl_auditClientID = None, xl_auditIdentityID = None\<rparr>"

text \<open>The refresh token and its family, when the client may refresh.\<close>

definition new_refresh ::
  "('w, 'tx, 'z) oauth_ports_scheme \<Rightarrow> oauth_client \<Rightarrow> session \<Rightarrow> gotime \<Rightarrow> 'w
     \<Rightarrow> ('w, id_sentinel, (string \<times> refresh_token_family) option) result" where
  "new_refresh P client session now w =
     (if \<not> AllowsGrantType GrantTypeRefreshToken client then (Inr None, w)
      else
        attempt (tokens_New P w) (wrap ''generate refresh token'') (\<lambda>(raw, hash) w.
        draw (ids_New P w) (\<lambda>familyID w.
        draw (ids_New P w) (\<lambda>tokenID w.
        let familyExpiresAt = now + of_RefreshFamilyLifetime (of_cfg P)
        in attempt (New_family familyID (se_ID session) tokenID hash
                      (MinimumTime (now + of_RefreshTokenLifetime (of_cfg P)) familyExpiresAt)
                      familyExpiresAt None None now, w) (wrap ''create refresh token family'')
             (\<lambda>family w. (Inr (Some (raw, family)), w))))))"

definition family_created_event :: "refresh_token_family \<Rightarrow> family_event" where
  "family_created_event f =
     (let t = hd (rf_Tokens f)
      in Family_Created (rf_ID f) (rf_SessionID f) (rt_ID t) (rt_ExpiresAt t) (rf_AbsoluteExpiresAt f)
           (rt_CreatedFromIP t) (rt_CreatedUserAgent t) (rf_CreatedAt f))"

definition session_created_event :: "session \<Rightarrow> session_event" where
  "session_created_event s =
     Session_Created (se_ID s) (se_IdentityID s) (se_OAuthClientID s) (se_AuthenticationLevel s)
       (se_AuthenticatedMethods s) (se_Scopes s) (se_IPAddress s) (se_UserAgent s) (se_DeviceName s)
       (se_AuthenticatedAt s) (se_IdleExpiresAt s) (se_AbsoluteExpiresAt s) (se_CreatedAt s)"

text \<open>The writes of the exchange: the session, the family, their events, and the audit.\<close>

definition exchange_store ::
  "('w, 'tx, 'z) oauth_ports_scheme \<Rightarrow> oauth_client \<Rightarrow> session \<Rightarrow> refresh_token_family option \<Rightarrow> gotime
     \<Rightarrow> 'w \<Rightarrow> ('w, id_sentinel, unit) result" where
  "exchange_store P client session family now w =
     attempt (sessions_Create P session w) (wrap ''save OAuth session'') (\<lambda>_ w.
     attempt (case family of None \<Rightarrow> (Inr (), w) | Some f \<Rightarrow> families_Create P f w)
       (wrap ''save refresh token family'') (\<lambda>_ w.
     attempt (emit P ''session created'' EventTypeSessionCreated AggregateTypeSession (se_ID session)
                (P_session (session_created_event session)) now w) same (\<lambda>_ w.
     attempt (case family of
                None \<Rightarrow> (Inr (), w)
              | Some f \<Rightarrow> emit P ''refresh token family created'' EventTypeFamilyCreated AggregateTypeFamily
                            (rf_ID f) (P_family (family_created_event f)) now w) same (\<lambda>_ w.
     attempt (NewIdentityActor (se_IdentityID session), w)
       (wrap ''create authorization code exchange actor'') (\<lambda>actor w.
       saveSecurityEvent P
         \<lparr>sei_Type = EventTypeAuthorizationCodeExchange, sei_Result = ResultSuccess, sei_Actor = actor,
          sei_SessionID = Some (se_ID session), sei_OAuthClientID = Some (oc_ID client),
          sei_Metadata = [(''grant_type'', M_string ''authorization_code''),
                          (''scopes'', M_strings (se_Scopes session))],
          sei_OccurredAt = now\<rparr> w)))))"

definition code_load_error :: "ierror \<Rightarrow> ierror" where
  "code_load_error err =
     (if errors_is err (S_code Code_ErrNotFound) then invalidGrant err
      else wrap ''consume authorization code'' err)"

definition exchange_body ::
  "('w, 'tx, 'z) oauth_ports_scheme \<Rightarrow> exchange_input \<Rightarrow> 'w \<times> exchange_locals
     \<Rightarrow> ('w \<times> exchange_locals, id_sentinel, unit) result" where
  "exchange_body P command w =
     draw (io (now_Clock P) w) (\<lambda>now w.
     attempt (io (getAndAuthenticateClient P (xi_ClientID command) (xi_ClientSecret command) now) w) same
       (\<lambda>client w. let w = assign (xl_auditClientID_update (\<lambda>_. Some (oc_ID client))) w in
     attempt (check (ValidateTokenExchange GrantTypeAuthorizationCode now client) w) clientGrantError (\<lambda>_ w.
     attempt (io (codes_Consume P (tokens_Hash P (xi_Code command))) w) code_load_error (\<lambda>code w.
     attempt (check (ValidateForExchange (oc_ID client) (xi_RedirectURI command) (xi_CodeVerifier command)
                       now code) w) invalidGrant (\<lambda>_ w.
     let w = assign (xl_auditIdentityID_update (\<lambda>_. Some (ac_IdentityID code))) w in
     draw (io (ids_New P) w) (\<lambda>sessionID w.
     attempt (New_session sessionID (ac_IdentityID code) (oc_ID client) (ac_AuthenticationLevel code)
                (ac_AuthenticatedMethods code) (ac_Scopes code) None None None (ac_AuthenticatedAt code)
                (now + of_SessionIdleLifetime (of_cfg P)) (now + of_SessionLifetime (of_cfg P)) now, w)
       (wrap ''create OAuth session'') (\<lambda>session w.
     attempt (io (new_refresh P client session now) w) same (\<lambda>refresh w.
     attempt (io (access_Issue P
                \<lparr>ati_IdentityID = se_IdentityID session, ati_SessionID = se_ID session,
                 ati_ClientID = oc_ClientID client, ati_GrantedScopes = se_Scopes session,
                 ati_AuthenticationLevel = se_AuthenticationLevel session,
                 ati_AuthenticatedMethods = se_AuthenticatedMethods session,
                 ati_AuthenticatedAt = se_AuthenticatedAt session\<rparr>) w)
       (wrap ''issue OAuth access token'') (\<lambda>accessToken w.
     attempt (io (scopedIdentityClaims P (ac_IdentityID code) (ac_Scopes code)) w)
       (wrap ''build OpenID Connect ID token claims'') (\<lambda>identityClaims w.
     attempt (io (idtoken_Issue P
                \<lparr>iti_IdentityID = ac_IdentityID code, iti_ClientID = oc_ClientID client,
                 iti_Nonce = ac_Nonce code, iti_Identity = toIDTokenIdentityClaims identityClaims,
                 iti_AuthenticationLevel = ac_AuthenticationLevel code,
                 iti_AuthenticatedMethods = ac_AuthenticatedMethods code,
                 iti_AuthenticatedAt = ac_AuthenticatedAt code\<rparr>) w)
       (wrap ''issue OpenID Connect ID token'') (\<lambda>idToken w.
     attempt (io (exchange_store P client session (map_option snd refresh) now) w) same (\<lambda>_ w.
       (Inr (), assign (xl_output_update (\<lambda>_.
                  \<lparr>xo_AccessToken = it_Value accessToken, xo_TokenType = ''Bearer'',
                   xo_ExpiresIn = seconds_between (it_IssuedAt accessToken) (it_ExpiresAt accessToken),
                   xo_RefreshToken = map_option fst refresh, xo_IDToken = iit_Value idToken,
                   xo_Scope = join_with (CHR '' '') (se_Scopes session)\<rparr>)) w)))))))))))))"

definition exchange_failure :: "ierror \<Rightarrow> exchange_locals \<Rightarrow> gotime \<Rightarrow> security_event_input" where
  "exchange_failure err l now =
     \<lparr>sei_Type = EventTypeAuthorizationCodeExchange, sei_Result = ResultFailure,
      sei_Actor = (case xl_auditIdentityID l of None \<Rightarrow> NewAnonymousActor | Some k \<Rightarrow> identity_actor k),
      sei_SessionID = None, sei_OAuthClientID = xl_auditClientID l,
      sei_Metadata = [(''grant_type'', M_string ''authorization_code''),
                      (''reason'', M_string (securityFailureReason err))],
      sei_OccurredAt = now\<rparr>"

definition ExchangeAuthorizationCode ::
  "('w, 'tx, 'z) oauth_ports_scheme \<Rightarrow> exchange_input \<Rightarrow> 'w \<Rightarrow> ('w, id_sentinel, exchange_output) result" where
  "ExchangeAuthorizationCode P input w =
     (case prepareExchangeAuthorizationCode P input of
        Inl err \<Rightarrow> (Inl (invalidTokenRequest err), w)
      | Inr command \<Rightarrow>
          (case do_tx (tx_driver P) exchange_locals0 (exchange_body P command) w of
             (Inl err, (w, l)) \<Rightarrow> audit_failure P err (exchange_failure err l) w
           | (Inr _, (w, l)) \<Rightarrow> (Inr (xl_output l), w)))"


section \<open>GetUserInfo\<close>

record user_info_locals =
  ul_output :: user_info
  ul_auditClientID :: "uuid option"

definition claims_error :: "ierror \<Rightarrow> ierror" where
  "claims_error err =
     (if errors_is err (S_idn Idn_ErrNotFound) \<or> errors_is err (S_idn Idn_ErrInvalidStatus)
      then invalidAccessToken err else err)"

definition userinfo_session_error :: "ierror \<Rightarrow> ierror" where
  "userinfo_session_error err =
     (if errors_is err (S_ses Ses_ErrNotFound) then invalidAccessToken err
      else wrap ''get UserInfo session'' err)"

definition user_info_body ::
  "('w, 'tx, 'z) oauth_ports_scheme \<Rightarrow> verified_token \<Rightarrow> gotime \<Rightarrow> 'w \<times> user_info_locals
     \<Rightarrow> ('w \<times> user_info_locals, id_sentinel, unit) result" where
  "user_info_body P token now w =
     attempt (io (sessions_Get P (vt_SessionID token)) w) userinfo_session_error (\<lambda>session w.
     let w = assign (ul_auditClientID_update (\<lambda>_. Some (se_OAuthClientID session))) w in
     if se_IdentityID session \<noteq> vt_IdentityID token \<or>
        \<not> scopesBelongToSession (vt_Scopes token) (se_Scopes session)
     then raise (invalidAccessToken (Fresh ''access token claims do not match session'')) w
     else attempt (check (Identity_Session.ValidateForUse now session) w) invalidAccessToken (\<lambda>_ w.
     if ''openid'' \<notin> set (vt_Scopes token)
     then raise (insufficientScope (Fresh ''openid scope is required'')) w
     else attempt (io (scopedIdentityClaims P (vt_IdentityID token) (vt_Scopes token)) w) claims_error
       (\<lambda>output w. let w = assign (ul_output_update (\<lambda>_. output)) w in
     attempt (NewIdentityActor (vt_IdentityID token), w) (wrap ''create UserInfo actor'') (\<lambda>actor w.
       io (saveSecurityEvent P
         \<lparr>sei_Type = EventTypeUserInfoAccess, sei_Result = ResultSuccess, sei_Actor = actor,
          sei_SessionID = Some (se_ID session), sei_OAuthClientID = Some (se_OAuthClientID session),
          sei_Metadata = [(''scopes'', M_strings (vt_Scopes token))], sei_OccurredAt = now\<rparr>) w))))"

text \<open>\<open>output\<close> is also overwritten with the empty value when the claims fail; an error drops it.\<close>

definition user_info_failure ::
  "ierror \<Rightarrow> verified_token \<Rightarrow> actor \<Rightarrow> user_info_locals \<Rightarrow> gotime \<Rightarrow> security_event_input" where
  "user_info_failure err token actor l now =
     \<lparr>sei_Type = EventTypeUserInfoAccess, sei_Result = ResultFailure, sei_Actor = actor,
      sei_SessionID = Some (vt_SessionID token), sei_OAuthClientID = ul_auditClientID l,
      sei_Metadata = [(''reason'', M_string (securityFailureReason err))], sei_OccurredAt = now\<rparr>"

definition GetUserInfo ::
  "('w, 'tx, 'z) oauth_ports_scheme \<Rightarrow> string \<Rightarrow> 'w \<Rightarrow> ('w, id_sentinel, user_info) result" where
  "GetUserInfo P accessToken w =
     (if accessToken = ''''
      then (Inl (invalidAccessToken (Fresh ''access token is required'')), w)
      else case access_Verify P accessToken w of
        (Inl err, w) \<Rightarrow>
          if errors_is err (S_tok Tok_ErrInvalidToken) then (Inl (invalidAccessToken err), w)
          else (Inl (wrap ''verify UserInfo access token'' err), w)
      | (Inr token, w) \<Rightarrow>
          draw (now_Clock P w) (\<lambda>now w.
          case do_tx (tx_driver P) \<lparr>ul_output = user_info0, ul_auditClientID = None\<rparr>
                 (user_info_body P token now) w of
            (Inl err, (w, l)) \<Rightarrow>
              if \<not> isOAuthFailure err then (Inl err, w)
              else (case NewIdentityActor (vt_IdentityID token) of
                      Inl actorErr \<Rightarrow> (Inl (Join [err, actorErr]), w)
                    | Inr actor \<Rightarrow> audit_failure P err (user_info_failure err token actor l) w)
          | (Inr _, (w, l)) \<Rightarrow> (Inr (ul_output l), w)))"

end
