(* ===== verification/OAuth_Contract.thy ===== *)
theory OAuth_Contract
  imports OAuth_Authorize OAuth_Exchange
begin

text \<open>
  What the OAuth use cases rely on in their ports, as a locale: a database of clients, sessions, token
  families, outbox messages and security events whose transactions are all or nothing, and
  repositories that find what was saved. Authorization transactions and codes live in Redis, outside
  of the database. The client lemmas say what each use case leaves in the database; the interpretation
  on ports in memory is in \<open>OAuth_Memory\<close>.
\<close>

section \<open>The durable state\<close>

record ostore =
  os_clients :: "uuid \<rightharpoonup> oauth_client"
  os_sessions :: "uuid \<rightharpoonup> session"
  os_families :: "uuid \<rightharpoonup> refresh_token_family"
  os_outbox :: "imessage list"
  os_events :: "security_event list"

definition put_client :: "oauth_client \<Rightarrow> ostore \<Rightarrow> ostore" where
  "put_client c s = s\<lparr>os_clients := (os_clients s)(oc_ID c \<mapsto> c)\<rparr>"

definition put_session :: "session \<Rightarrow> ostore \<Rightarrow> ostore" where
  "put_session x s = s\<lparr>os_sessions := (os_sessions s)(se_ID x \<mapsto> x)\<rparr>"

definition put_family :: "refresh_token_family \<Rightarrow> ostore \<Rightarrow> ostore" where
  "put_family f s = s\<lparr>os_families := (os_families s)(rf_ID f \<mapsto> f)\<rparr>"

definition put_imsg :: "imessage \<Rightarrow> ostore \<Rightarrow> ostore" where
  "put_imsg m s = s\<lparr>os_outbox := os_outbox s @ [m]\<rparr>"

definition put_event :: "security_event \<Rightarrow> ostore \<Rightarrow> ostore" where
  "put_event e s = s\<lparr>os_events := os_events s @ [e]\<rparr>"

lemmas oput_defs = put_client_def put_session_def put_family_def put_imsg_def put_event_def

lemma put_client_fields [simp]:
  "os_clients (put_client c s) = (os_clients s)(oc_ID c \<mapsto> c)" "os_sessions (put_client c s) = os_sessions s"
  "os_families (put_client c s) = os_families s" "os_outbox (put_client c s) = os_outbox s"
  "os_events (put_client c s) = os_events s"
  by (simp_all add: put_client_def)

lemma put_session_fields [simp]:
  "os_clients (put_session x s) = os_clients s" "os_sessions (put_session x s) = (os_sessions s)(se_ID x \<mapsto> x)"
  "os_families (put_session x s) = os_families s" "os_outbox (put_session x s) = os_outbox s"
  "os_events (put_session x s) = os_events s"
  by (simp_all add: put_session_def)

lemma put_family_fields [simp]:
  "os_clients (put_family f s) = os_clients s" "os_sessions (put_family f s) = os_sessions s"
  "os_families (put_family f s) = (os_families s)(rf_ID f \<mapsto> f)" "os_outbox (put_family f s) = os_outbox s"
  "os_events (put_family f s) = os_events s"
  by (simp_all add: put_family_def)

lemma put_imsg_fields [simp]:
  "os_clients (put_imsg m s) = os_clients s" "os_sessions (put_imsg m s) = os_sessions s"
  "os_families (put_imsg m s) = os_families s" "os_outbox (put_imsg m s) = os_outbox s @ [m]"
  "os_events (put_imsg m s) = os_events s"
  by (simp_all add: put_imsg_def)

lemma put_event_fields [simp]:
  "os_clients (put_event e s) = os_clients s" "os_sessions (put_event e s) = os_sessions s"
  "os_families (put_event e s) = os_families s" "os_outbox (put_event e s) = os_outbox s"
  "os_events (put_event e s) = os_events s @ [e]"
  by (simp_all add: put_event_def)

text \<open>The message an operation owes to the outbox, and the security event it owes to the audit.\<close>

definition idescribes ::
  "('w, 'tx, 'z) oauth_ports_scheme \<Rightarrow> string \<Rightarrow> string \<Rightarrow> uuid \<Rightarrow> id_payload \<Rightarrow> gotime \<Rightarrow> imessage \<Rightarrow> bool" where
  "idescribes P eventType aggregateType k payload now m \<longleftrightarrow>
     im_EventType m = eventType \<and> im_AggregateType m = aggregateType \<and> im_AggregateID m = k \<and>
     payload_Marshal P payload = Inr (im_Payload m) \<and> im_OccurredAt m = now \<and>
     im_PartitionKey m = Some (uuid_ToString P k)"

lemma NewMessage_describes:
  "NewMessage (payload_Marshal P) (uuid_ToString P) mid eid et at k v pl now = Inr m \<Longrightarrow>
     idescribes P et at k pl now m"
  by (auto simp: NewMessage_def idescribes_def Let_def split: sum.splits)

definition audits :: "security_event_input \<Rightarrow> security_event \<Rightarrow> bool" where
  "audits input e \<longleftrightarrow>
     sv_Type e = sei_Type input \<and> sv_Result e = sei_Result input \<and> sv_Actor e = sei_Actor input \<and>
     sv_SessionID e = sei_SessionID input \<and> sv_OAuthClientID e = sei_OAuthClientID input \<and>
     sv_OccurredAt e = sei_OccurredAt input"

definition audited :: "(gotime \<Rightarrow> security_event_input) \<Rightarrow> ostore \<Rightarrow> ostore \<Rightarrow> bool" where
  "audited input s s' \<longleftrightarrow> s' = s \<or> (\<exists>now e. audits (input now) e \<and> s' = put_event e s)"

text \<open>
  A client that authenticated at the token endpoint: a public one sends no secret, a confidential one
  the secret of a usable credential, whose use is recorded.
\<close>

inductive authenticated ::
  "('w, 'tx, 'z) oauth_ports_scheme \<Rightarrow> string \<Rightarrow> string option \<Rightarrow> gotime \<Rightarrow> ostore \<Rightarrow> oauth_client
     \<Rightarrow> ostore \<Rightarrow> bool"
  for P :: "('w, 'tx, 'z) oauth_ports_scheme" and k :: string and secret :: "string option"
    and now :: gotime and s :: ostore where
  public: "os_clients s (oc_ID c) = Some c \<Longrightarrow> oc_ClientID c = k \<Longrightarrow> oc_AuthMethod c = AuthMethodNone \<Longrightarrow>
     secret = None \<Longrightarrow> authenticated P k secret now s c s"
| confidential: "os_clients s (oc_ID c0) = Some c0 \<Longrightarrow> oc_ClientID c0 = k \<Longrightarrow>
     oc_AuthMethod c0 = AuthMethodClientSecretBasic \<Longrightarrow> secret = Some x \<Longrightarrow> x \<noteq> '''' \<Longrightarrow>
     cr \<in> set (oc_Credentials c0) \<Longrightarrow> cr_IsUsable now cr \<Longrightarrow> secrets_Verify P x (cr_SecretHash cr) = Inr True \<Longrightarrow>
     RecordCredentialUsed (cr_ID cr) now c0 = (None, c) \<Longrightarrow>
     authenticated P k secret now s c (put_client c s)"

inductive_cases authenticatedE: "authenticated P k secret now s c s'"

lemma matching_credential_ok:
  "matching_credential verify x now cs found = Inr r \<Longrightarrow>
     r = found \<or> (\<exists>cr \<in> set cs. r = Some (cr_ID cr) \<and> cr_IsUsable now cr \<and> verify x (cr_SecretHash cr) = Inr True)"
  by (induction verify x now cs found rule: matching_credential.induct)
     (auto split: if_splits sum.splits)

text \<open>Recording a use changes neither what a client is nor what it may do.\<close>

lemma RecordCredentialUsed_fields:
  "RecordCredentialUsed k now c = (None, d) \<Longrightarrow>
     oc_ID d = oc_ID c \<and> oc_ClientID d = oc_ClientID c \<and> oc_Status d = oc_Status c \<and>
     oc_AuthMethod d = oc_AuthMethod c \<and> oc_GrantTypes d = oc_GrantTypes c"
  by (auto simp: RecordCredentialUsed_def refuse_def touch_def split: option.splits prod.splits)

lemma authenticated_fields:
  "authenticated P k secret now s c s' \<Longrightarrow>
     oc_ClientID c = k \<and> os_sessions s' = os_sessions s \<and> os_families s' = os_families s \<and>
     os_outbox s' = os_outbox s \<and> os_events s' = os_events s \<and>
     os_clients s' = (os_clients s)(oc_ID c \<mapsto> c) \<and>
     (\<exists>c0. os_clients s (oc_ID c) = Some c0 \<and> oc_ClientID c0 = k \<and> oc_Status c = oc_Status c0)"
  by (erule authenticatedE) (auto simp: fun_upd_idem dest!: RecordCredentialUsed_fields)


section \<open>Calls and what they give\<close>

lemma rotate_result_eq: "rotate_result p w = (Inr (oc, f), w') \<longleftrightarrow> p = (Inr oc, f) \<and> w' = w"
  by (auto simp: rotate_result_def split: sum.splits prod.splits)

lemmas body_inv = call_inv rotate_result_eq

declare io_simps [simp del]


text \<open>A token that was exchanged, as the first one of its family with this hash.\<close>

definition token_spent :: "string \<Rightarrow> refresh_token_family \<Rightarrow> bool" where
  "token_spent h f \<longleftrightarrow>
     (\<exists>k i. TokenIDByHash h (rf_Tokens f) = Inr k \<and> tokenIndex k (rf_Tokens f) = Some i \<and>
        rt_RotatedAt (rf_Tokens f ! i) \<noteq> None)"

definition unique_hashes :: "ostore \<Rightarrow> bool" where
  "unique_hashes s \<longleftrightarrow>
     (\<forall>f g. os_families s (rf_ID f) = Some f \<longrightarrow> os_families s (rf_ID g) = Some g \<longrightarrow>
        rt_Hash ` set (rf_Tokens f) \<inter> rt_Hash ` set (rf_Tokens g) \<noteq> {} \<longrightarrow> f = g)"

lemma tokenIndex_append: "tokenIndex k ts = Some j \<Longrightarrow> tokenIndex k (ts @ us) = Some j"
  by (induction k ts arbitrary: j rule: tokenIndex.induct) (auto split: if_splits)

lemma TokenIDByHash_append: "TokenIDByHash h ts = Inr k \<Longrightarrow> TokenIDByHash h (ts @ us) = Inr k"
  by (induction h ts rule: TokenIDByHash.induct) (auto split: if_splits)

lemma token_spent_hash: "token_spent h f \<Longrightarrow> h \<in> rt_Hash ` set (rf_Tokens f)"
  by (auto simp: token_spent_def dest!: TokenIDByHash_ok)

lemma tokenIndex_update:
  "i < length ts \<Longrightarrow> rt_ID t = rt_ID (ts ! i) \<Longrightarrow> tokenIndex k ts = Some j \<Longrightarrow>
     tokenIndex k (ts[i := t] @ us) = Some j"
  by (induction k ts arbitrary: i j rule: tokenIndex.induct) (auto split: nat.splits if_splits intro: tokenIndex_append)

lemma TokenIDByHash_update:
  "i < length ts \<Longrightarrow> rt_ID t = rt_ID (ts ! i) \<Longrightarrow> rt_Hash t = rt_Hash (ts ! i) \<Longrightarrow>
     TokenIDByHash h ts = Inr k \<Longrightarrow> TokenIDByHash h (ts[i := t] @ us) = Inr k"
  by (induction h ts arbitrary: i rule: TokenIDByHash.induct) (auto split: nat.splits if_splits intro: TokenIDByHash_append)

lemma MarkRotated_fields:
  "MarkRotated now t = (None, t') \<Longrightarrow>
     rt_ID t' = rt_ID t \<and> rt_Hash t' = rt_Hash t \<and> rt_RotatedAt t = None \<and> rt_RotatedAt t' = Some now"
  by (auto simp: MarkRotated_def ValidateForRotation_def split: option.splits if_splits)

lemma Rotate_spends:
  assumes "Rotate k k1 h e ip ua now f = (Inr RotationOutcomeRotated, f')"
    and "TokenIDByHash h0 (rf_Tokens f) = Inr k"
  shows "rf_ID f' = rf_ID f \<and> token_spent h0 f' \<and> \<not> token_spent h0 f"
proof -
  from assms(1) obtain i t t' where i: "tokenIndex k (rf_Tokens f) = Some i"
    and t: "MarkRotated now (rf_Tokens f ! i) = (None, t)"
    and f': "f' = f\<lparr>rf_Tokens := (rf_Tokens f)[i := t] @ [t'], rf_LastRotatedAt := Some now\<rparr>"
    by (auto simp: Rotate_def rotate_next_def rotate_reused_def
        split: option.splits if_splits sum.splits prod.splits)
  note l = tokenIndex_Some [OF i] and m = MarkRotated_fields [OF t]
  have "TokenIDByHash h0 (rf_Tokens f') = Inr k" "tokenIndex k (rf_Tokens f') = Some i"
    using f' l m i assms(2) by (auto intro: TokenIDByHash_update tokenIndex_update)
  then have "token_spent h0 f'" using f' l m by (auto simp: token_spent_def nth_append)
  moreover have "\<not> token_spent h0 f" using i assms(2) m by (auto simp: token_spent_def)
  ultimately show ?thesis using f' by simp
qed

lemma Rotate_spent:
  assumes "token_spent h0 f" and "TokenIDByHash h0 (rf_Tokens f) = Inr k"
  shows "Rotate k k1 h e ip ua now f \<noteq> (Inr RotationOutcomeRotated, f')"
  using Rotate_spends [OF _ assms(2)] assms(1) by blast

text \<open>
  What a refresh finds before it rotates: the client authenticated and may refresh, the token is in a
  stored family, whose session is the client's and in use.
\<close>

definition refresh_ready ::
  "('w, 'tx, 'z) oauth_ports_scheme \<Rightarrow> refresh_input \<Rightarrow> gotime \<Rightarrow> ostore \<Rightarrow> oauth_client \<Rightarrow> ostore
     \<Rightarrow> refresh_token_family \<Rightarrow> session \<Rightarrow> uuid \<Rightarrow> bool" where
  "refresh_ready P command now s client s1 family session k \<longleftrightarrow>
     authenticated P (ri_ClientID command) (ri_ClientSecret command) now s client s1 \<and>
     ValidateTokenExchange GrantTypeRefreshToken now client = None \<and>
     os_families s (rf_ID family) = Some family \<and>
     TokenIDByHash (tokens_Hash P (ri_RefreshToken command)) (rf_Tokens family) = Inr k \<and>
     os_sessions s (rf_SessionID family) = Some session \<and> se_ID session = rf_SessionID family \<and>
     se_OAuthClientID session = oc_ID client \<and> ValidateForUse now session = None"

definition rotated_event :: "refresh_token_family \<Rightarrow> uuid \<Rightarrow> uuid \<Rightarrow> gotime \<Rightarrow> family_event" where
  "rotated_event family k k1 now =
     (let t = last (rf_Tokens family)
      in Family_TokenRotated (rf_ID family) (rf_SessionID family) k k1 (rt_ExpiresAt t) (rt_CreatedFromIP t)
           (rt_CreatedUserAgent t) now)"

text \<open>The two outcomes that commit: the token is exchanged, or its reuse locks the session out.\<close>

definition rotated_commit ::
  "('w, 'tx, 'z) oauth_ports_scheme \<Rightarrow> ostore \<Rightarrow> refresh_input \<Rightarrow> refresh_output \<Rightarrow> ostore \<Rightarrow> bool" where
  "rotated_commit P s command out s' \<longleftrightarrow>
     (\<exists>now client s1 family session k k1 h family' x m e.
        refresh_ready P command now s client s1 family session k \<and>
        Rotate k k1 h (MinimumTime (now + of_RefreshTokenLifetime (of_cfg P)) (rf_AbsoluteExpiresAt family))
          None None now family = (Inr RotationOutcomeRotated, family') \<and>
        RecordActivity now
          (MinimumTime (now + of_SessionIdleLifetime (of_cfg P)) (se_AbsoluteExpiresAt session)) session =
          (None, x) \<and>
        idescribes P EventTypeTokenRotated AggregateTypeFamily (rf_ID family')
          (P_family (rotated_event family' k k1 now)) now m \<and>
        sv_Result e = ResultSuccess \<and> sv_SessionID e = Some (se_ID x) \<and>
        sv_OAuthClientID e = Some (oc_ID client) \<and>
        s' = put_event e (put_imsg m (put_session x (put_family family' s1))) \<and>
        ro_TokenType out = ''Bearer'' \<and> ro_Scope out = join_with (CHR '' '') (se_Scopes session))"

definition reuse_commit ::
  "('w, 'tx, 'z) oauth_ports_scheme \<Rightarrow> ostore \<Rightarrow> refresh_input \<Rightarrow> ostore \<Rightarrow> bool" where
  "reuse_commit P s command s' \<longleftrightarrow>
     (\<exists>now client s1 family session k k1 h h1 family' x m1 m2 e.
        refresh_ready P command now s client s1 family session k \<and>
        Rotate k k1 h h1 None None now family = (Inr RotationOutcomeReuseDetected, family') \<and>
        session_Revoke ''refresh_token_reuse_detected'' now session = (None, x) \<and>
        idescribes P EventTypeReuseDetected AggregateTypeFamily (rf_ID family')
          (P_family (Family_ReuseDetected (rf_ID family') (rf_SessionID family') k now
             (the (rf_RevokedAt family')))) now m1 \<and>
        idescribes P EventTypeSessionRevoked AggregateTypeSession (se_ID x)
          (P_session (Session_Revoked (se_ID x) (se_IdentityID x) (se_OAuthClientID x)
             (the (se_RevokeReason x)) (the (se_RevokedAt x)))) now m2 \<and>
        sv_Result e = ResultBlocked \<and> sv_SessionID e = Some (se_ID x) \<and>
        sv_OAuthClientID e = Some (oc_ID client) \<and>
        s' = put_event e (put_imsg m2 (put_imsg m1 (put_session x (put_family family' s1)))))"

definition refresh_commit ::
  "('w, 'tx, 'z) oauth_ports_scheme \<Rightarrow> ostore \<Rightarrow> refresh_input \<Rightarrow> refresh_locals \<Rightarrow> ostore \<Rightarrow> bool" where
  "refresh_commit P s command l s' \<longleftrightarrow>
     (if rl_committedError l = None then rotated_commit P s command (rl_output l) s'
      else reuse_commit P s command s')"


section \<open>The contract\<close>

locale oauth_env = transactional "tx_driver P" stored snapshot
  for P :: "('w, 'tx, 'z) oauth_ports_scheme" and stored :: "'w \<Rightarrow> ostore" and snapshot :: "'tx \<Rightarrow> ostore" +
  assumes GetByClientID_keeps: "clients_GetByClientID P k w = (r, w') \<Longrightarrow> stored w' = stored w"
    and GetByClientID: "clients_GetByClientID P k w = (Inr c, w') \<Longrightarrow>
      os_clients (stored w) (oc_ID c) = Some c \<and> oc_ClientID c = k"
    and client_Update: "clients_Update P c w = (Inr u, w') \<Longrightarrow> stored w' = put_client c (stored w)"
    and txns_Create_keeps: "txns_Create P t w = (r1, w') \<Longrightarrow> stored w' = stored w"
    and txns_Update_keeps: "txns_Update P t w = (r1, w') \<Longrightarrow> stored w' = stored w"
    and txns_Get_keeps: "txns_Get P k1 w = (r2, w') \<Longrightarrow> stored w' = stored w"
    and codes_Create_keeps: "codes_Create P c1 w = (r1, w') \<Longrightarrow> stored w' = stored w"
    and codes_Consume_keeps: "codes_Consume P h w = (r3, w') \<Longrightarrow> stored w' = stored w"
    and codes_Consume: "codes_Consume P h w = (Inr c1, w') \<Longrightarrow> ac_Hash c1 = h"
    and tokens_New_keeps: "tokens_New P w = (r4, w') \<Longrightarrow> stored w' = stored w"
    and session_Get_keeps: "sessions_Get P k1 w = (r5, w') \<Longrightarrow> stored w' = stored w"
    and session_Get: "sessions_Get P k1 w = (Inr x, w') \<Longrightarrow> os_sessions (stored w) k1 = Some x \<and> se_ID x = k1"
    and session_Create: "sessions_Create P x w = (Inr u, w') \<Longrightarrow> stored w' = put_session x (stored w)"
    and session_Update: "sessions_Update P x w = (Inr u, w') \<Longrightarrow> stored w' = put_session x (stored w)"
    and family_Get_keeps: "families_GetByTokenHash P h w = (r6, w') \<Longrightarrow> stored w' = stored w"
    and family_Get: "families_GetByTokenHash P h w = (Inr f, w') \<Longrightarrow>
      os_families (stored w) (rf_ID f) = Some f \<and> h \<in> rt_Hash ` set (rf_Tokens f)"
    and family_Create: "families_Create P f w = (Inr u, w') \<Longrightarrow> stored w' = put_family f (stored w)"
    and family_Update: "families_Update P f w = (Inr u, w') \<Longrightarrow> stored w' = put_family f (stored w)"
    and access_Issue_keeps: "access_Issue P a w = (r7, w') \<Longrightarrow> stored w' = stored w"
    and access_Verify_keeps: "access_Verify P v w = (r8, w') \<Longrightarrow> stored w' = stored w"
    and idtoken_Issue_keeps: "idtoken_Issue P a1 w = (r9, w') \<Longrightarrow> stored w' = stored w"
    and identity_Get_keeps: "identities_Get P k1 w = (r10, w') \<Longrightarrow> stored w' = stored w"
    and profile_Get_keeps: "profiles_Get P k1 w = (r11, w') \<Longrightarrow> stored w' = stored w"
    and outbox_Create: "outbox_Create P m1 w = (Inr u, w') \<Longrightarrow> stored w' = put_imsg m1 (stored w)"
    and event_Create: "events_Create P e w = (Inr u, w') \<Longrightarrow> stored w' = put_event e (stored w)"
    and event_Create_err: "events_Create P e w = (Inl err, w') \<Longrightarrow> stored w' = stored w"
    and ids_New_keeps: "ids_New P w = (k1, w') \<Longrightarrow> stored w' = stored w"
    and now_Clock_keeps: "now_Clock P w = (now, w') \<Longrightarrow> stored w' = stored w"
begin

lemmas reads = GetByClientID_keeps txns_Create_keeps txns_Update_keeps txns_Get_keeps codes_Create_keeps
  codes_Consume_keeps tokens_New_keeps session_Get_keeps family_Get_keeps access_Issue_keeps
  access_Verify_keeps idtoken_Issue_keeps identity_Get_keeps profile_Get_keeps ids_New_keeps
  now_Clock_keeps

lemmas writes = client_Update session_Create session_Update family_Create family_Update outbox_Create
  event_Create

subsection \<open>Events and authentication\<close>

lemma emit_ok:
  assumes "emit P what et at k pl now w = (Inr u, w')"
  shows "\<exists>m. idescribes P et at k pl now m \<and> stored w' = put_imsg m (stored w)"
proof -
  from assms obtain m messageID eventID w1 w2 where
    "ids_New P w = (messageID, w1)" "ids_New P w1 = (eventID, w2)"
    and m: "NewMessage (payload_Marshal P) (uuid_ToString P) messageID eventID et at k None pl now = Inr m"
    and "outbox_Create P m w2 = (Inr u, w')"
    by (auto simp: emit_def factory_event_def Factory_Create_def body_inv)
  then have "stored w' = put_imsg m (stored w)" by (auto dest!: reads writes)
  with NewMessage_describes [OF m] show ?thesis by blast
qed

lemma New_security_event_audits:
  "New_security_event k (sei_Type i) (sei_Result i) (sei_Actor i) (sei_SessionID i) (sei_OAuthClientID i)
     h ip ua cid md (sei_OccurredAt i) = Inr e \<Longrightarrow> audits i e"
  by (auto simp: New_security_event_def audits_def split: if_splits)

lemma saveSecurityEvent_ok:
  "saveSecurityEvent P input w = (Inr u, w') \<Longrightarrow> \<exists>e. audits input e \<and> stored w' = put_event e (stored w)"
  by (auto simp: saveSecurityEvent_def body_inv dest!: reads writes New_security_event_audits)

lemma saveSecurityEvent_err: "saveSecurityEvent P input w = (Inl err, w') \<Longrightarrow> stored w' = stored w"
  by (auto simp: saveSecurityEvent_def attempt_inv dest!: reads event_Create_err)

lemma audit_failure_audited:
  assumes "audit_failure P err input w = (r, w')"
  shows "(\<exists>e. r = Inl e) \<and> audited input (stored w) (stored w')"
proof (cases "isOAuthFailure err")
  case False
  with assms show ?thesis by (auto simp: audit_failure_def audited_def)
next
  case True
  obtain now w1 where now: "now_Clock P w = (now, w1)" by fastforce
  obtain q w2 where q: "saveSecurityEvent P (input now) w1 = (q, w2)" by fastforce
  have w1: "stored w1 = stored w" using now by (rule now_Clock_keeps)
  show ?thesis
  proof (cases q)
    case (Inl e)
    with assms True now q have "w' = w2" "\<exists>e. r = Inl e" by (auto simp: audit_failure_def)
    with saveSecurityEvent_err [OF q [unfolded Inl]] w1 show ?thesis by (simp add: audited_def)
  next
    case (Inr u)
    with assms True now q have "w' = w2" "\<exists>e. r = Inl e" by (auto simp: audit_failure_def)
    with saveSecurityEvent_ok [OF q [unfolded Inr]] w1 show ?thesis by (auto simp: audited_def)
  qed
qed

lemma GetByClientID_ok:
  "clients_GetByClientID P k w = (Inr c, w') \<Longrightarrow>
     os_clients (stored w) (oc_ID c) = Some c \<and> oc_ClientID c = k \<and> stored w' = stored w"
  using GetByClientID GetByClientID_keeps by blast

lemma authenticate_ok:
  assumes "getAndAuthenticateClient P k secret now w = (Inr c, w')"
  shows "authenticated P k secret now (stored w) c (stored w')"
proof -
  from assms obtain c0 w1 where get: "clients_GetByClientID P k w = (Inr c0, w1)"
    and rest: "authenticate_loaded P secret now c0 w1 = (Inr c, w')"
    unfolding getAndAuthenticateClient_def attempt_eq_Inr by blast
  note found = GetByClientID_ok [OF get]
  show ?thesis
  proof (cases "oc_AuthMethod c0")
    case AuthMethodNone
    with rest have "secret = None" "c = c0" "w' = w1"
      by (simp_all add: authenticate_loaded_def raise_def split: if_split_asm)
    with found AuthMethodNone show ?thesis by (auto intro: authenticated.public)
  next
    case AuthMethodClientSecretBasic
    with rest obtain x k0 where x: "secret = Some x" "x \<noteq> ''''"
      and match: "matching_credential (secrets_Verify P) x now (oc_Credentials c0) None = Inr (Some k0)"
      and used: "RecordCredentialUsed k0 now c0 = (None, c)"
      and update: "clients_Update P c w1 = (Inr (), w')"
      by (auto simp: authenticate_loaded_def body_inv split: if_split_asm option.split_asm)
    from matching_credential_ok [OF match] used client_Update [OF update] found x AuthMethodClientSecretBasic
    show ?thesis by (auto intro: authenticated.confidential)
  next
    case (OtherAuthMethod s)
    with rest show ?thesis by (simp add: authenticate_loaded_def raise_def)
  qed
qed

subsection \<open>The refresh of an access token\<close>

lemma session_Get_ok:
  "sessions_Get P k w = (Inr x, w') \<Longrightarrow> os_sessions (stored w) k = Some x \<and> se_ID x = k \<and> stored w' = stored w"
  using session_Get session_Get_keeps by blast

lemma family_Get_ok:
  "families_GetByTokenHash P h w = (Inr f, w') \<Longrightarrow>
     os_families (stored w) (rf_ID f) = Some f \<and> h \<in> rt_Hash ` set (rf_Tokens f) \<and> stored w' = stored w"
  using family_Get family_Get_keeps by blast

lemma refresh_reused_ok:
  assumes "refresh_reused P client family session k now (w, l) = (Inr u, (w', l'))"
  shows "\<exists>x m1 m2 e. session_Revoke ''refresh_token_reuse_detected'' now session = (None, x) \<and>
     idescribes P EventTypeReuseDetected AggregateTypeFamily (rf_ID family)
       (P_family (Family_ReuseDetected (rf_ID family) (rf_SessionID family) k now (the (rf_RevokedAt family))))
       now m1 \<and>
     idescribes P EventTypeSessionRevoked AggregateTypeSession (se_ID x)
       (P_session (Session_Revoked (se_ID x) (se_IdentityID x) (se_OAuthClientID x)
          (the (se_RevokeReason x)) (the (se_RevokedAt x)))) now m2 \<and>
     sv_Result e = ResultBlocked \<and> sv_SessionID e = Some (se_ID x) \<and>
     sv_OAuthClientID e = Some (oc_ID client) \<and>
     stored w' = put_event e (put_imsg m2 (put_imsg m1 (put_session x (put_family family (stored w))))) \<and>
     rl_committedError l' \<noteq> None"
proof -
  from assms obtain x w1 w2 w3 w4 actor w5 md where
    x: "session_Revoke ''refresh_token_reuse_detected'' now session = (None, x)"
    and s: "families_Update P family w = (Inr (), w1)" "sessions_Update P x w1 = (Inr (), w2)"
    and m1: "emit P ''refresh token reuse detected'' EventTypeReuseDetected AggregateTypeFamily
       (rf_ID family) (P_family (Family_ReuseDetected (rf_ID family) (rf_SessionID family) k now
          (the (rf_RevokedAt family)))) now w2 = (Inr (), w3)"
    and m2: "emit P ''session revoked'' EventTypeSessionRevoked AggregateTypeSession (se_ID x)
       (P_session (Session_Revoked (se_ID x) (se_IdentityID x) (se_OAuthClientID x)
          (the (se_RevokeReason x)) (the (se_RevokedAt x)))) now w3 = (Inr (), w4)"
    and e: "saveSecurityEvent P
       \<lparr>sei_Type = EventTypeRefreshTokenExchange, sei_Result = ResultBlocked, sei_Actor = actor,
        sei_SessionID = Some (se_ID x), sei_OAuthClientID = Some (oc_ID client), sei_Metadata = md,
        sei_OccurredAt = now\<rparr> w4 = (Inr (), w5)"
    and "w' = w5" "rl_committedError l' \<noteq> None"
    by (auto simp: refresh_reused_def body_inv)
  from family_Update [OF s(1)] session_Update [OF s(2)] emit_ok [OF m1] emit_ok [OF m2]
    saveSecurityEvent_ok [OF e] x \<open>w' = w5\<close> \<open>rl_committedError l' \<noteq> None\<close>
  show ?thesis by (fastforce simp: audits_def)
qed

lemma refresh_rotated_ok:
  assumes "refresh_rotated P client family session k k1 raw now (w, l) = (Inr u, (w', l'))"
  shows "\<exists>x m e. RecordActivity now
       (MinimumTime (now + of_SessionIdleLifetime (of_cfg P)) (se_AbsoluteExpiresAt session)) session =
       (None, x) \<and>
     idescribes P EventTypeTokenRotated AggregateTypeFamily (rf_ID family)
       (P_family (rotated_event family k k1 now)) now m \<and>
     sv_Result e = ResultSuccess \<and> sv_SessionID e = Some (se_ID x) \<and>
     sv_OAuthClientID e = Some (oc_ID client) \<and>
     stored w' = put_event e (put_imsg m (put_session x (put_family family (stored w)))) \<and>
     rl_committedError l' = rl_committedError l \<and> ro_TokenType (rl_output l') = ''Bearer'' \<and>
     ro_RefreshToken (rl_output l') = raw \<and> ro_Scope (rl_output l') = join_with (CHR '' '') (se_Scopes x)"
proof -
  from assms obtain x w1 w2 w3 w4 a t w5 md actor where
    x: "RecordActivity now
       (MinimumTime (now + of_SessionIdleLifetime (of_cfg P)) (se_AbsoluteExpiresAt session)) session =
       (None, x)"
    and t: "access_Issue P a w = (Inr t, w1)"
    and s: "families_Update P family w1 = (Inr (), w2)" "sessions_Update P x w2 = (Inr (), w3)"
    and m: "emit P ''refresh token rotated'' EventTypeTokenRotated AggregateTypeFamily
       (rf_ID family) (P_family (rotated_event family k k1 now)) now w3 = (Inr (), w4)"
    and e: "saveSecurityEvent P
       \<lparr>sei_Type = EventTypeRefreshTokenExchange, sei_Result = ResultSuccess, sei_Actor = actor,
        sei_SessionID = Some (se_ID x), sei_OAuthClientID = Some (oc_ID client), sei_Metadata = md,
        sei_OccurredAt = now\<rparr> w4 = (Inr (), w5)"
    and out: "w' = w5" "rl_committedError l' = rl_committedError l"
      "ro_TokenType (rl_output l') = ''Bearer''" "ro_RefreshToken (rl_output l') = raw"
      "ro_Scope (rl_output l') = join_with (CHR '' '') (se_Scopes x)"
    by (auto simp: refresh_rotated_def body_inv rotated_event_def)
  from saveSecurityEvent_ok [OF e] access_Issue_keeps [OF t] family_Update [OF s(1)]
    session_Update [OF s(2)] emit_ok [OF m] x out
  show ?thesis by (fastforce simp: audits_def)
qed

lemma RecordActivity_fields:
  "RecordActivity now t x = (None, y) \<Longrightarrow> se_ID y = se_ID x \<and> se_Scopes y = se_Scopes x"
  by (auto simp: RecordActivity_def refuse_def split: option.splits if_splits)

lemma refresh_body_ok:
  assumes "refresh_body P command (w, refresh_locals0) = (Inr u, (w', l'))"
  shows "refresh_commit P (stored w) command l' (stored w')"
proof -
  from assms obtain now w1 client w2 family w3 k session w4 raw h w5 k1 w6 oc family' l1 where
    "now_Clock P w = (now, w1)"
    and auth: "getAndAuthenticateClient P (ri_ClientID command) (ri_ClientSecret command) now w1 = (Inr client, w2)"
    and may: "ValidateTokenExchange GrantTypeRefreshToken now client = None"
    and f: "families_GetByTokenHash P (tokens_Hash P (ri_RefreshToken command)) w2 = (Inr family, w3)"
    and k: "TokenIDByHash (tokens_Hash P (ri_RefreshToken command)) (rf_Tokens family) = Inr k"
    and x: "sessions_Get P (rf_SessionID family) w3 = (Inr session, w4)"
    and use: "se_OAuthClientID session = oc_ID client" "ValidateForUse now session = None"
    and "tokens_New P w4 = (Inr (raw, h), w5)" "ids_New P w5 = (k1, w6)"
    and r: "Rotate k k1 h (MinimumTime (now + of_RefreshTokenLifetime (of_cfg P)) (rf_AbsoluteExpiresAt family))
       None None now family = (Inr oc, family')"
    and rest: "(if oc = RotationOutcomeReuseDetected then refresh_reused P client family' session k now (w6, l1)
       else refresh_rotated P client family' session k k1 raw now (w6, l1)) = (Inr u, (w', l'))"
    and l1: "rl_committedError l1 = None"
    by (auto simp: refresh_body_def body_inv refresh_locals0_def split: if_split_asm)
  from \<open>now_Clock P w = (now, w1)\<close> have w1: "stored w1 = stored w" by (rule now_Clock_keeps)
  note a = authenticate_ok [OF auth, unfolded w1]
  from \<open>tokens_New P w4 = (Inr (raw, h), w5)\<close> \<open>ids_New P w5 = (k1, w6)\<close>
  have w6: "stored w6 = stored w2" using family_Get_ok [OF f] session_Get_ok [OF x] by (auto dest!: reads)
  have ready: "refresh_ready P command now (stored w) client (stored w2) family session k"
    using a authenticated_fields [OF a] may family_Get_ok [OF f] session_Get_ok [OF x] use k
    by (simp add: refresh_ready_def)
  show ?thesis
  proof (cases oc)
    case RotationOutcomeReuseDetected
    with rest have "refresh_reused P client family' session k now (w6, l1) = (Inr u, (w', l'))" by simp
    from refresh_reused_ok [OF this] ready r [unfolded RotationOutcomeReuseDetected] w6
    show ?thesis unfolding refresh_commit_def reuse_commit_def by fastforce
  next
    case RotationOutcomeRotated
    with rest have "refresh_rotated P client family' session k k1 raw now (w6, l1) = (Inr u, (w', l'))" by simp
    from refresh_rotated_ok [OF this] obtain x m e where
      "RecordActivity now
         (MinimumTime (now + of_SessionIdleLifetime (of_cfg P)) (se_AbsoluteExpiresAt session)) session = (None, x)"
      "idescribes P EventTypeTokenRotated AggregateTypeFamily (rf_ID family')
         (P_family (rotated_event family' k k1 now)) now m"
      "sv_Result e = ResultSuccess" "sv_SessionID e = Some (se_ID x)" "sv_OAuthClientID e = Some (oc_ID client)"
      "stored w' = put_event e (put_imsg m (put_session x (put_family family' (stored w2))))"
      "rl_committedError l' = None" "ro_TokenType (rl_output l') = ''Bearer''"
      "ro_Scope (rl_output l') = join_with (CHR '' '') (se_Scopes x)"
      unfolding w6 l1 by blast
    moreover from this(1) have "se_Scopes x = se_Scopes session" by (simp add: RecordActivity_fields)
    ultimately show ?thesis
      using ready r [unfolded RotationOutcomeRotated]
      unfolding refresh_commit_def rotated_commit_def by (simp, blast)
  qed
qed

text \<open>
  Every refresh is refused, leaving the database as it was but for one audit entry, or locks a reused
  token's session out, or exchanges the token.
\<close>

lemma RefreshAccessToken_outcome:
  assumes "RefreshAccessToken P input w = (r, w')"
  shows "(\<exists>e err l. r = Inl e \<and> audited (refresh_failure err l) (stored w) (stored w')) \<or>
    (\<exists>e command. r = Inl e \<and> prepareRefreshAccessToken input = Inr command \<and>
       reuse_commit P (stored w) command (stored w')) \<or>
    (\<exists>out command. r = Inr out \<and> prepareRefreshAccessToken input = Inr command \<and>
       rotated_commit P (stored w) command out (stored w'))"
proof (cases "prepareRefreshAccessToken input")
  case (Inl err)
  with assms show ?thesis by (auto simp: RefreshAccessToken_def audited_def)
next
  case (Inr command)
  obtain q w1 l where tx: "do_tx (tx_driver P) refresh_locals0 (refresh_body P command) w = (q, (w1, l))"
    by (metis prod.collapse)
  show ?thesis
  proof (cases q)
    case (Inl err)
    with assms tx \<open>prepareRefreshAccessToken input = Inr command\<close>
    have "audit_failure P err (refresh_failure err l) w1 = (r, w')" by (simp add: RefreshAccessToken_def)
    from audit_failure_audited [OF this] do_tx_err [OF tx [unfolded Inl]] show ?thesis by auto
  next
    case (Inr u)
    obtain w2 w3 where "stored w2 = stored w" "stored w1 = stored w3"
      and "refresh_body P command (w2, refresh_locals0) = (Inr (), (w3, l))"
      by (rule do_tx_ok [OF tx [unfolded Inr]]) auto
    with refresh_body_ok have "refresh_commit P (stored w) command l (stored w1)" by metis
    with assms tx Inr \<open>prepareRefreshAccessToken input = Inr command\<close> show ?thesis
      by (auto simp: RefreshAccessToken_def refresh_commit_def split: option.splits)
  qed
qed

text \<open>A token is exchanged at most once.\<close>

lemma prepareRefresh_token:
  "prepareRefreshAccessToken input = Inr command \<Longrightarrow> ri_RefreshToken command = ri_RefreshToken input"
  by (auto simp: prepareRefreshAccessToken_def split: sum.splits if_splits)

lemma refresh_spends:
  assumes "RefreshAccessToken P input w = (Inr out, w')"
  shows "\<exists>f f'. os_families (stored w) (rf_ID f) = Some f \<and> rf_ID f' = rf_ID f \<and>
     os_families (stored w') (rf_ID f') = Some f' \<and>
     tokens_Hash P (ri_RefreshToken input) \<in> rt_Hash ` set (rf_Tokens f) \<and>
     \<not> token_spent (tokens_Hash P (ri_RefreshToken input)) f \<and>
     token_spent (tokens_Hash P (ri_RefreshToken input)) f'"
proof -
  from RefreshAccessToken_outcome [OF assms] obtain command where
    c: "prepareRefreshAccessToken input = Inr command" and "rotated_commit P (stored w) command out (stored w')"
    by auto
  then obtain now client s1 family session k k1 h e family' x m ev where
    ready: "refresh_ready P command now (stored w) client s1 family session k"
    and r: "Rotate k k1 h e None None now family = (Inr RotationOutcomeRotated, family')"
    and s': "stored w' = put_event ev (put_imsg m (put_session x (put_family family' s1)))"
    by (auto simp: rotated_commit_def)
  from ready prepareRefresh_token [OF c]
  have "TokenIDByHash (tokens_Hash P (ri_RefreshToken input)) (rf_Tokens family) = Inr k"
    "os_families (stored w) (rf_ID family) = Some family"
    by (auto simp: refresh_ready_def)
  moreover from TokenIDByHash_ok [OF this(1)]
  have "tokens_Hash P (ri_RefreshToken input) \<in> rt_Hash ` set (rf_Tokens family)" by force
  ultimately show ?thesis using Rotate_spends [OF r] s'
    by (intro exI [of _ family] exI [of _ family']) simp
qed

lemma refresh_refuses_spent:
  assumes "RefreshAccessToken P input w = (r, w')"
    and "os_families (stored w) (rf_ID f) = Some f" and "unique_hashes (stored w)"
    and spent: "token_spent (tokens_Hash P (ri_RefreshToken input)) f"
  shows "\<exists>e. r = Inl e"
proof (rule ccontr)
  assume "\<nexists>e. r = Inl e"
  then obtain out where "r = Inr out" by (cases r) auto
  with refresh_spends assms(1) obtain g where g: "os_families (stored w) (rf_ID g) = Some g"
    and h: "\<not> token_spent (tokens_Hash P (ri_RefreshToken input)) g"
      "tokens_Hash P (ri_RefreshToken input) \<in> rt_Hash ` set (rf_Tokens g)"
    by metis
  from assms(2,3) g h(2) token_spent_hash [OF spent] have "f = g"
    unfolding unique_hashes_def by blast
  with spent h(1) show False by simp
qed

end

end
