(* ===== verification/OAuth_Commits.thy ===== *)
theory OAuth_Commits
  imports OAuth_Contract
begin

text \<open>
  What the other OAuth use cases leave in the database, under the contract of \<open>OAuth_Contract\<close>: the
  revocation of a token, the exchange of an authorization code, the claims of an account, and the
  start and end of an authorization.
\<close>

section \<open>What they commit\<close>

text \<open>A revocation changes nothing, or revokes one family or one session of the calling client.\<close>

inductive revoke_effect ::
  "('w, 'tx, 'z) oauth_ports_scheme \<Rightarrow> oauth_client \<Rightarrow> gotime \<Rightarrow> ostore \<Rightarrow> ostore \<Rightarrow> bool"
  for P :: "('w, 'tx, 'z) oauth_ports_scheme" and client :: oauth_client and now :: gotime and s :: ostore where
  nothing: "revoke_effect P client now s s"
| family: "os_families s (rf_ID f) = Some f \<Longrightarrow> os_sessions s (rf_SessionID f) = Some x \<Longrightarrow>
     se_OAuthClientID x = oc_ID client \<Longrightarrow> rf_RevokedAt f = None \<Longrightarrow>
     family_Revoke tokenRevokedReason now f = (None, f') \<Longrightarrow> rf_ID f' = rf_ID f \<Longrightarrow>
     idescribes P EventTypeFamilyRevoked AggregateTypeFamily (rf_ID f')
       (P_family (Family_Revoked (rf_ID f') (rf_SessionID f') (the (rf_RevokeReason f'))
          (the (rf_RevokedAt f')))) now m \<Longrightarrow>
     revoke_effect P client now s (put_imsg m (put_family f' s))"
| session: "os_sessions s (se_ID x) = Some x \<Longrightarrow> se_OAuthClientID x = oc_ID client \<Longrightarrow>
     se_RevokedAt x = None \<Longrightarrow> session_Revoke tokenRevokedReason now x = (None, x') \<Longrightarrow>
     se_ID x' = se_ID x \<Longrightarrow>
     idescribes P EventTypeSessionRevoked AggregateTypeSession (se_ID x')
       (P_session (Session_Revoked (se_ID x') (se_IdentityID x') (se_OAuthClientID x')
          (the (se_RevokeReason x')) (the (se_RevokedAt x')))) now m \<Longrightarrow>
     revoke_effect P client now s (put_imsg m (put_session x' s))"

inductive_cases revoke_effectE: "revoke_effect P client now s s'"

definition revoke_commit ::
  "('w, 'tx, 'z) oauth_ports_scheme \<Rightarrow> ostore \<Rightarrow> revoke_input \<Rightarrow> ostore \<Rightarrow> bool" where
  "revoke_commit P s command s' \<longleftrightarrow>
     (\<exists>now client s1 s2 e.
        authenticated P (rv_ClientID command) (rv_ClientSecret command) now s client s1 \<and>
        revoke_effect P client now s1 s2 \<and> sv_OAuthClientID e = Some (oc_ID client) \<and>
        s' = put_event e s2)"

lemma family_Revoke_fields:
  "family_Revoke reason now f = (None, f') \<Longrightarrow> rf_ID f' = rf_ID f \<and> rf_SessionID f' = rf_SessionID f"
  by (auto simp: family_Revoke_def family_revoke_def Let_def split: option.splits prod.splits if_splits)

lemma family_Revoke_revokes: "family_Revoke reason now f = (None, f') \<Longrightarrow> rf_RevokedAt f' \<noteq> None"
  by (auto simp: family_Revoke_def family_revoke_def Let_def split: option.splits prod.splits if_splits)

lemma session_Revoke_revokes: "session_Revoke reason now x = (None, x') \<Longrightarrow> se_RevokedAt x' \<noteq> None"
  by (auto simp: session_Revoke_def split: prod.splits if_splits)

lemma session_Revoke_fields:
  "session_Revoke reason now x = (None, x') \<Longrightarrow>
     se_ID x' = se_ID x \<and> se_OAuthClientID x' = se_OAuthClientID x \<and> se_IdentityID x' = se_IdentityID x"
  by (auto simp: session_Revoke_def split: prod.splits if_splits)

text \<open>
  What an exchange finds: the client authenticated and may exchange codes, the code is its own and
  valid for the request, and belongs to an active account; the session is the one the code describes.
\<close>

definition exchange_ready ::
  "('w, 'tx, 'z) oauth_ports_scheme \<Rightarrow> exchange_input \<Rightarrow> gotime \<Rightarrow> ostore \<Rightarrow> oauth_client \<Rightarrow> ostore
     \<Rightarrow> authorization_code \<Rightarrow> session \<Rightarrow> bool" where
  "exchange_ready P command now s client s1 code x \<longleftrightarrow>
     authenticated P (xi_ClientID command) (xi_ClientSecret command) now s client s1 \<and>
     ValidateTokenExchange GrantTypeAuthorizationCode now client = None \<and>
     ac_Hash code = tokens_Hash P (xi_Code command) \<and>
     ValidateForExchange (oc_ID client) (xi_RedirectURI command) (xi_CodeVerifier command) now code = None \<and>
     (\<exists>k. New_session k (ac_IdentityID code) (oc_ID client) (ac_AuthenticationLevel code)
        (ac_AuthenticatedMethods code) (ac_Scopes code) None None None (ac_AuthenticatedAt code)
        (now + of_SessionIdleLifetime (of_cfg P)) (now + of_SessionLifetime (of_cfg P)) now = Inr x) \<and>
     (\<exists>w i w'. identities_Get P (ac_IdentityID code) w = (Inr i, w') \<and> idn_Status i = Identity_Active)"

inductive exchange_commit ::
  "('w, 'tx, 'z) oauth_ports_scheme \<Rightarrow> ostore \<Rightarrow> exchange_input \<Rightarrow> exchange_output \<Rightarrow> ostore \<Rightarrow> bool"
  for P :: "('w, 'tx, 'z) oauth_ports_scheme" and s :: ostore and command :: exchange_input
    and out :: exchange_output where
  no_refresh: "exchange_ready P command now s client s1 code x \<Longrightarrow>
     \<not> AllowsGrantType GrantTypeRefreshToken client \<Longrightarrow> xo_RefreshToken out = None \<Longrightarrow>
     idescribes P EventTypeSessionCreated AggregateTypeSession (se_ID x) (P_session (session_created_event x))
       now m \<Longrightarrow>
     sv_Result e = ResultSuccess \<Longrightarrow> sv_SessionID e = Some (se_ID x) \<Longrightarrow>
     xo_Scope out = join_with (CHR '' '') (ac_Scopes code) \<Longrightarrow>
     exchange_commit P s command out (put_event e (put_imsg m (put_session x s1)))"
| refresh: "exchange_ready P command now s client s1 code x \<Longrightarrow>
     AllowsGrantType GrantTypeRefreshToken client \<Longrightarrow> xo_RefreshToken out = Some raw \<Longrightarrow>
     New_family fk (se_ID x) tk h
       (MinimumTime (now + of_RefreshTokenLifetime (of_cfg P)) (now + of_RefreshFamilyLifetime (of_cfg P)))
       (now + of_RefreshFamilyLifetime (of_cfg P)) None None now = Inr f \<Longrightarrow>
     idescribes P EventTypeSessionCreated AggregateTypeSession (se_ID x) (P_session (session_created_event x))
       now m \<Longrightarrow>
     idescribes P EventTypeFamilyCreated AggregateTypeFamily (rf_ID f) (P_family (family_created_event f))
       now m1 \<Longrightarrow>
     sv_Result e = ResultSuccess \<Longrightarrow> sv_SessionID e = Some (se_ID x) \<Longrightarrow>
     xo_Scope out = join_with (CHR '' '') (ac_Scopes code) \<Longrightarrow>
     exchange_commit P s command out
       (put_event e (put_imsg m1 (put_imsg m (put_family f (put_session x s1)))))"

lemma NewCodeVerifier_same: "NewCodeVerifier v = Inr u \<Longrightarrow> u = v"
  by (simp add: NewCodeVerifier_def split: if_split_asm)

lemma prepareExchange_fields:
  assumes "prepareExchangeAuthorizationCode P input = Inr command"
  shows "NewClientID (xi_ClientID input) = Inr (xi_ClientID command) \<and> xi_Code command = xi_Code input \<and>
    url_Redirect P (xi_RedirectURI input) = Inr (xi_RedirectURI command) \<and>
    xi_CodeVerifier command = xi_CodeVerifier input"
  using assms
  by (auto simp: prepareExchangeAuthorizationCode_def Let_def dest!: NewCodeVerifier_same
      split: sum.split_asm if_split_asm option.split_asm)

inductive_cases exchange_commitE: "exchange_commit P s command out s'"

lemma New_session_fields:
  "New_session k i c l ms ss ip ua d a t1 t2 now = Inr x \<Longrightarrow>
     se_ID x = k \<and> se_IdentityID x = i \<and> se_OAuthClientID x = c \<and> se_Scopes x = ss \<and> se_RevokedAt x = None \<and>
     se_AuthenticationLevel x = l \<and> se_AuthenticatedMethods x = ms"
  by (auto simp: New_session_def split: sum.splits if_splits)

text \<open>Claims the scopes do not give access to stay empty.\<close>

definition scoped :: "string list \<Rightarrow> user_info \<Rightarrow> bool" where
  "scoped ss u \<longleftrightarrow>
     (''email'' \<notin> set ss \<longrightarrow> ui_Email u = None \<and> ui_EmailVerified u = None) \<and>
     (''phone'' \<notin> set ss \<longrightarrow> ui_PhoneNumber u = None \<and> ui_PhoneNumberVerified u = None) \<and>
     (''profile'' \<notin> set ss \<longrightarrow>
        ui_Name u = None \<and> ui_FamilyName u = None \<and> ui_GivenName u = None \<and> ui_MiddleName u = None \<and>
        ui_UpdatedAt u = None)"

lemma setUserInfo_fields [simp]:
  "ui_PhoneNumber (setUserInfoEmail i u) = ui_PhoneNumber u"
  "ui_PhoneNumberVerified (setUserInfoEmail i u) = ui_PhoneNumberVerified u"
  "ui_Name (setUserInfoEmail i u) = ui_Name u" "ui_FamilyName (setUserInfoEmail i u) = ui_FamilyName u"
  "ui_GivenName (setUserInfoEmail i u) = ui_GivenName u" "ui_MiddleName (setUserInfoEmail i u) = ui_MiddleName u"
  "ui_UpdatedAt (setUserInfoEmail i u) = ui_UpdatedAt u" "ui_Subject (setUserInfoEmail i u) = ui_Subject u"
  "ui_Email (setUserInfoPhone i u) = ui_Email u" "ui_EmailVerified (setUserInfoPhone i u) = ui_EmailVerified u"
  "ui_Name (setUserInfoPhone i u) = ui_Name u" "ui_FamilyName (setUserInfoPhone i u) = ui_FamilyName u"
  "ui_GivenName (setUserInfoPhone i u) = ui_GivenName u" "ui_MiddleName (setUserInfoPhone i u) = ui_MiddleName u"
  "ui_UpdatedAt (setUserInfoPhone i u) = ui_UpdatedAt u" "ui_Subject (setUserInfoPhone i u) = ui_Subject u"
  by (simp_all add: setUserInfoEmail_def setUserInfoPhone_def split: option.splits)

lemma setUserInfoProfile_fields:
  "setUserInfoProfile P i u w = (Inr v, w') \<Longrightarrow>
     ui_Email v = ui_Email u \<and> ui_EmailVerified v = ui_EmailVerified u \<and>
     ui_PhoneNumber v = ui_PhoneNumber u \<and> ui_PhoneNumberVerified v = ui_PhoneNumberVerified u \<and>
     ui_Subject v = ui_Subject u"
  by (auto simp: setUserInfoProfile_def Let_def split: prod.split_asm sum.split_asm if_split_asm)

lemma scopedIdentityClaims_scoped:
  assumes "scopedIdentityClaims P k ss w = (Inr u, w')"
  shows "scoped ss u"
proof -
  from assms obtain i w1 where
    rest: "(let output = user_info0\<lparr>ui_Subject := idn_ID i\<rparr>;
             output = (if ''email'' \<in> set ss then setUserInfoEmail i output else output);
             output = (if ''phone'' \<in> set ss then setUserInfoPhone i output else output)
         in if ''profile'' \<in> set ss then setUserInfoProfile P i output w1 else (Inr output, w1)) = (Inr u, w')"
    unfolding scopedIdentityClaims_def attempt_eq_Inr by (auto split: if_split_asm simp del: Let_def)
  then show ?thesis
    by (auto simp: scoped_def Let_def user_info0_def split: if_split_asm dest!: setUserInfoProfile_fields)
qed

definition user_info_commit ::
  "('w, 'tx, 'z) oauth_ports_scheme \<Rightarrow> ostore \<Rightarrow> verified_token \<Rightarrow> user_info \<Rightarrow> ostore \<Rightarrow> bool" where
  "user_info_commit P s token u s' \<longleftrightarrow>
     (\<exists>now x e. os_sessions s (vt_SessionID token) = Some x \<and> se_IdentityID x = vt_IdentityID token \<and>
        set (vt_Scopes token) \<subseteq> set (se_Scopes x) \<and> ValidateForUse now x = None \<and>
        ''openid'' \<in> set (vt_Scopes token) \<and> scoped (vt_Scopes token) u \<and>
        sv_Result e = ResultSuccess \<and> sv_SessionID e = Some (se_ID x) \<and> s' = put_event e s)"


section \<open>RevokeToken\<close>

context oauth_env
begin

lemma revoke_family_ok:
  assumes "revoke_family P client f x now w = (Inr r, w')"
    and "os_families (stored w) (rf_ID f) = Some f" and "os_sessions (stored w) (rf_SessionID f) = Some x"
  shows "revoke_effect P client now (stored w) (stored w') \<and> tr_recognized r"
proof -
  from assms(1) consider "w' = w" "tr_recognized r" | f' w1 where "se_OAuthClientID x = oc_ID client"
      "rf_RevokedAt f = None" "family_Revoke tokenRevokedReason now f = (None, f')"
      "families_Update P f' w = (Inr (), w1)" "tr_recognized r"
      "emit P ''refresh token family revoked'' EventTypeFamilyRevoked AggregateTypeFamily (rf_ID f')
         (P_family (Family_Revoked (rf_ID f') (rf_SessionID f') (the (rf_RevokeReason f'))
            (the (rf_RevokedAt f')))) now w1 = (Inr (), w')"
    by (auto simp: revoke_family_def body_inv no_revocation_def owned_revocation_def split: if_split_asm)
  then show ?thesis
  proof cases
    case 1
    then show ?thesis by (simp add: revoke_effect.nothing)
  next
    case (2 f' w1)
    from emit_ok [OF this(6)] obtain m where
      "idescribes P EventTypeFamilyRevoked AggregateTypeFamily (rf_ID f')
         (P_family (Family_Revoked (rf_ID f') (rf_SessionID f') (the (rf_RevokeReason f'))
            (the (rf_RevokedAt f')))) now m" "stored w' = put_imsg m (stored w1)" by blast
    with revoke_effect.family [OF assms(2,3) 2(1,2,3)] family_Update [OF 2(4)] family_Revoke_fields [OF 2(3)]
    show ?thesis using 2(5) by simp
  qed
qed

lemma revoke_session_ok:
  assumes "revoke_session P x now w = (Inr r, w')"
    and "os_sessions (stored w) (se_ID x) = Some x" and "se_OAuthClientID x = oc_ID client"
  shows "revoke_effect P client now (stored w) (stored w')"
proof -
  from assms(1) consider "w' = w" | x' w1 where
      "se_RevokedAt x = None" "session_Revoke tokenRevokedReason now x = (None, x')"
      "sessions_Update P x' w = (Inr (), w1)"
      "emit P ''session revoked'' EventTypeSessionRevoked AggregateTypeSession (se_ID x')
         (P_session (Session_Revoked (se_ID x') (se_IdentityID x') (se_OAuthClientID x')
            (the (se_RevokeReason x')) (the (se_RevokedAt x')))) now w1 = (Inr (), w')"
    by (auto simp: revoke_session_def body_inv split: if_split_asm)
  then show ?thesis
  proof cases
    case 1
    then show ?thesis by (simp add: revoke_effect.nothing)
  next
    case (2 x' w1)
    from emit_ok [OF this(4)] obtain m where
      "idescribes P EventTypeSessionRevoked AggregateTypeSession (se_ID x')
         (P_session (Session_Revoked (se_ID x') (se_IdentityID x') (se_OAuthClientID x')
            (the (se_RevokeReason x')) (the (se_RevokedAt x')))) now m"
      "stored w' = put_imsg m (stored w1)" by blast
    with revoke_effect.session [OF assms(2,3) 2(1,2)] session_Update [OF 2(3)] session_Revoke_fields [OF 2(2)]
    show ?thesis by simp
  qed
qed

lemma revokeRefreshToken_ok:
  assumes "revokeRefreshToken P client token now w = (Inr r, w')"
  shows "revoke_effect P client now (stored w) (stored w') \<and> (\<not> tr_recognized r \<longrightarrow> stored w' = stored w)"
proof -
  obtain q w1 where get: "families_GetByTokenHash P (tokens_Hash P token) w = (q, w1)" by fastforce
  show ?thesis
  proof (cases q)
    case (Inl err)
    with assms get family_Get_keeps [OF get] show ?thesis
      by (auto simp: revokeRefreshToken_def split: if_split_asm intro: revoke_effect.nothing)
  next
    case (Inr f)
    from assms get [unfolded Inr] obtain x w2 where
      x: "sessions_Get P (rf_SessionID f) w1 = (Inr x, w2)"
      and rest: "revoke_family P client f x now w2 = (Inr r, w')"
      by (auto simp: revokeRefreshToken_def attempt_eq_Inr)
    from family_Get_ok [OF get [unfolded Inr]] session_Get_ok [OF x] revoke_family_ok [OF rest]
    show ?thesis by simp
  qed
qed

lemma revokeAccessToken_ok:
  assumes "revokeAccessToken P client token now w = (Inr r, w')"
  shows "revoke_effect P client now (stored w) (stored w') \<and> (\<not> tr_recognized r \<longrightarrow> stored w' = stored w)"
proof -
  obtain q w1 where v: "access_Verify P token w = (q, w1)" by fastforce
  note w1 = access_Verify_keeps [OF v]
  show ?thesis
  proof (cases q)
    case (Inl err)
    with assms v w1 show ?thesis
      by (auto simp: revokeAccessToken_def split: if_split_asm intro: revoke_effect.nothing)
  next
    case (Inr t)
    obtain p w2 where get: "sessions_Get P (vt_SessionID t) w1 = (p, w2)" by fastforce
    note w2 = session_Get_keeps [OF get]
    show ?thesis
    proof (cases p)
      case (Inl err)
      with assms v get \<open>q = Inr t\<close> w1 w2 show ?thesis
        by (auto simp: revokeAccessToken_def no_revocation_def split: if_split_asm
            intro: revoke_effect.nothing)
    next
      case (Inr x)
      from session_Get_ok [OF get [unfolded Inr]] have x: "os_sessions (stored w2) (se_ID x) = Some x"
        using w2 by auto
      from assms v get \<open>q = Inr t\<close> Inr consider "stored w' = stored w"
        | "se_OAuthClientID x = oc_ID client" "revoke_session P x now w2 = (Inr r, w')"
        using w1 w2 by (auto simp: revokeAccessToken_def split: if_split_asm)
      then show ?thesis
      proof cases
        case 1
        then show ?thesis by (simp add: revoke_effect.nothing)
      next
        case 2
        moreover from this(2) have "tr_recognized r"
          by (auto simp: revoke_session_def body_inv owned_revocation_def split: if_split_asm)
        ultimately show ?thesis using revoke_session_ok [OF 2(2) x 2(1)] w1 w2 by simp
      qed
    qed
  qed
qed

lemma revoke_either_ok:
  assumes "revoke_either P hint client token now w = (Inr r, w')"
  shows "revoke_effect P client now (stored w) (stored w')"
proof -
  from assms consider
      "revokeRefreshToken P client token now w = (Inr r, w')"
    | "revokeAccessToken P client token now w = (Inr r, w')"
    | r1 w1 where "revokeAccessToken P client token now w = (Inr r1, w1)" "\<not> tr_recognized r1"
        "revokeRefreshToken P client token now w1 = (Inr r, w')"
    | r1 w1 where "revokeRefreshToken P client token now w = (Inr r1, w1)" "\<not> tr_recognized r1"
        "revokeAccessToken P client token now w1 = (Inr r, w')"
    by (auto simp: revoke_either_def attempt_eq_Inr split: if_split_asm)
  then show ?thesis
    by cases (use revokeRefreshToken_ok revokeAccessToken_ok in metis)+
qed

text \<open>Every revocation is refused, or ends with what it found to revoke for the calling client revoked.\<close>

lemma RevokeToken_outcome:
  assumes "RevokeToken P input w = (r, w')"
  shows "(\<exists>e err l. r = Inl e \<and> audited (revoke_failure err l) (stored w) (stored w')) \<or>
    (\<exists>command. r = Inr () \<and> prepareRevokeToken input = Inr command \<and>
       revoke_commit P (stored w) command (stored w'))"
proof (cases "prepareRevokeToken input")
  case (Inl err)
  with assms show ?thesis by (auto simp: RevokeToken_def audited_def)
next
  case (Inr command)
  obtain q w1 l where tx: "do_tx (tx_driver P) None (revoke_body P command) w = (q, (w1, l))"
    by (metis prod.collapse)
  show ?thesis
  proof (cases q)
    case (Inl err)
    with assms tx \<open>prepareRevokeToken input = Inr command\<close>
    have "audit_failure P err (revoke_failure err l) w1 = (r, w')" by (simp add: RevokeToken_def)
    from audit_failure_audited [OF this] do_tx_err [OF tx [unfolded Inl]] show ?thesis by auto
  next
    case (Inr u)
    obtain w2 w3 where same: "stored w2 = stored w" "stored w1 = stored w3"
      and "revoke_body P command (w2, None) = (Inr (), (w3, l))"
      by (rule do_tx_ok [OF tx [unfolded Inr]]) auto
    then obtain now w4 client w5 rv w6 where
      "now_Clock P w2 = (now, w4)"
      and auth: "getAndAuthenticateClient P (rv_ClientID command) (rv_ClientSecret command) now w4 = (Inr client, w5)"
      and rv: "revoke_either P (case rv_TokenTypeHint command of None \<Rightarrow> '''' | Some h \<Rightarrow> h) client
         (rv_Token command) now w5 = (Inr rv, w6)"
      and ev: "saveSecurityEvent P (revoke_event client
         (case rv_TokenTypeHint command of None \<Rightarrow> '''' | Some h \<Rightarrow> h) rv now) w6 = (Inr (), w3)"
      by (auto simp: revoke_body_def body_inv)
    from now_Clock_keeps [OF \<open>now_Clock P w2 = (now, w4)\<close>] same(1) have w4: "stored w4 = stored w" by simp
    from authenticate_ok [OF auth] revoke_either_ok [OF rv] saveSecurityEvent_ok [OF ev] same(2) w4
    have "revoke_commit P (stored w) command (stored w1)"
      unfolding revoke_commit_def by (fastforce simp: audits_def revoke_event_def)
    with assms tx Inr \<open>prepareRevokeToken input = Inr command\<close> show ?thesis
      by (simp add: RevokeToken_def)
  qed
qed


subsection \<open>The exchange of an authorization code\<close>

lemma new_refresh_ok:
  assumes "new_refresh P client x now w = (Inr r, w')"
  shows "stored w' = stored w \<and>
    (if AllowsGrantType GrantTypeRefreshToken client
     then \<exists>raw f fk tk h. r = Some (raw, f) \<and> New_family fk (se_ID x) tk h
       (MinimumTime (now + of_RefreshTokenLifetime (of_cfg P)) (now + of_RefreshFamilyLifetime (of_cfg P)))
       (now + of_RefreshFamilyLifetime (of_cfg P)) None None now = Inr f
     else r = None)"
  using assms by (auto simp: new_refresh_def body_inv split: if_split_asm dest!: reads) blast

lemma setUserInfoProfile_keeps: "setUserInfoProfile P i u w = (r, w') \<Longrightarrow> stored w' = stored w"
  by (cases "profiles_Get P (idn_ID i) w"; cases "fst (profiles_Get P (idn_ID i) w)")
     (auto simp: setUserInfoProfile_def Let_def split: if_split_asm dest!: reads)

lemma scopedIdentityClaims_ok:
  assumes "scopedIdentityClaims P k ss w = (Inr u, w')"
  shows "stored w' = stored w \<and>
    (\<exists>i w1. identities_Get P k w = (Inr i, w1) \<and> idn_Status i = Identity_Active)"
proof -
  from assms obtain i w1 where i: "identities_Get P k w = (Inr i, w1)"
    and active: "idn_Status i = Identity_Active"
    and rest: "(\<exists>v. setUserInfoProfile P i v w1 = (Inr u, w')) \<or> w' = w1"
    unfolding scopedIdentityClaims_def attempt_eq_Inr by (auto simp: Let_def split: if_split_asm)
  from rest have "stored w' = stored w1" by (auto dest: setUserInfoProfile_keeps)
  with i active identity_Get_keeps [OF i] show ?thesis by auto
qed

lemma exchange_store_ok:
  assumes "exchange_store P client x family now w = (Inr u, w')"
  shows "\<exists>m e. idescribes P EventTypeSessionCreated AggregateTypeSession (se_ID x)
       (P_session (session_created_event x)) now m \<and>
     sv_Result e = ResultSuccess \<and> sv_SessionID e = Some (se_ID x) \<and>
     (case family of
        None \<Rightarrow> stored w' = put_event e (put_imsg m (put_session x (stored w)))
      | Some f \<Rightarrow> \<exists>m1. idescribes P EventTypeFamilyCreated AggregateTypeFamily (rf_ID f)
           (P_family (family_created_event f)) now m1 \<and>
          stored w' = put_event e (put_imsg m1 (put_imsg m (put_family f (put_session x (stored w))))))"
proof -
  from assms obtain w1 w2 w3 w4 actor md where
    x: "sessions_Create P x w = (Inr (), w1)"
    and f: "(case family of None \<Rightarrow> (Inr (), w1) | Some f \<Rightarrow> families_Create P f w1) = (Inr (), w2)"
    and m: "emit P ''session created'' EventTypeSessionCreated AggregateTypeSession (se_ID x)
       (P_session (session_created_event x)) now w2 = (Inr (), w3)"
    and m1: "(case family of None \<Rightarrow> (Inr (), w3)
       | Some f \<Rightarrow> emit P ''refresh token family created'' EventTypeFamilyCreated AggregateTypeFamily
           (rf_ID f) (P_family (family_created_event f)) now w3) = (Inr (), w4)"
    and e: "saveSecurityEvent P
         \<lparr>sei_Type = EventTypeAuthorizationCodeExchange, sei_Result = ResultSuccess, sei_Actor = actor,
          sei_SessionID = Some (se_ID x), sei_OAuthClientID = Some (oc_ID client), sei_Metadata = md,
          sei_OccurredAt = now\<rparr> w4 = (Inr u, w')"
    by (auto simp: exchange_store_def body_inv)
  note common = session_Create [OF x] emit_ok [OF m] saveSecurityEvent_ok [OF e]
  show ?thesis
  proof (cases family)
    case None
    with f m1 common show ?thesis by (fastforce simp: audits_def)
  next
    case (Some g)
    with f m1 have "families_Create P g w1 = (Inr (), w2)"
      and m1: "emit P ''refresh token family created'' EventTypeFamilyCreated AggregateTypeFamily
           (rf_ID g) (P_family (family_created_event g)) now w3 = (Inr (), w4)" by simp_all
    from family_Create [OF this(1)] emit_ok [OF m1] common Some show ?thesis
      by (fastforce simp: audits_def)
  qed
qed

lemma exchange_body_ok:
  assumes "exchange_body P command (w, exchange_locals0) = (Inr u, (w', l'))"
  shows "exchange_commit P (stored w) command (xl_output l') (stored w')"
proof -
  from assms obtain now w1 client w2 code w3 k w4 x refresh w5 t w6 claims w7 t1 w8 a1 a2 where
    "now_Clock P w = (now, w1)"
    and auth: "getAndAuthenticateClient P (xi_ClientID command) (xi_ClientSecret command) now w1 = (Inr client, w2)"
    and may: "ValidateTokenExchange GrantTypeAuthorizationCode now client = None"
    and code: "codes_Consume P (tokens_Hash P (xi_Code command)) w2 = (Inr code, w3)"
    and valid: "ValidateForExchange (oc_ID client) (xi_RedirectURI command) (xi_CodeVerifier command) now code = None"
    and "ids_New P w3 = (k, w4)"
    and x: "New_session k (ac_IdentityID code) (oc_ID client) (ac_AuthenticationLevel code)
        (ac_AuthenticatedMethods code) (ac_Scopes code) None None None (ac_AuthenticatedAt code)
        (now + of_SessionIdleLifetime (of_cfg P)) (now + of_SessionLifetime (of_cfg P)) now = Inr x"
    and r: "new_refresh P client x now w4 = (Inr refresh, w5)"
    and "access_Issue P a1 w5 = (Inr t, w6)"
    and claims: "scopedIdentityClaims P (ac_IdentityID code) (ac_Scopes code) w6 = (Inr claims, w7)"
    and "idtoken_Issue P a2 w7 = (Inr t1, w8)"
    and st: "exchange_store P client x (map_option snd refresh) now w8 = (Inr (), w')"
    and out: "xo_RefreshToken (xl_output l') = map_option fst refresh"
      "xo_Scope (xl_output l') = join_with (CHR '' '') (se_Scopes x)"
    by (auto simp: exchange_body_def body_inv exchange_locals0_def)
  have w1: "stored w1 = stored w" using \<open>now_Clock P w = (now, w1)\<close> by (rule now_Clock_keeps)
  have w8: "stored w8 = stored w2"
    using codes_Consume_keeps [OF code] ids_New_keeps [OF \<open>ids_New P w3 = (k, w4)\<close>] new_refresh_ok [OF r]
      access_Issue_keeps [OF \<open>access_Issue P a1 w5 = (Inr t, w6)\<close>] scopedIdentityClaims_ok [OF claims]
      idtoken_Issue_keeps [OF \<open>idtoken_Issue P a2 w7 = (Inr t1, w8)\<close>] by simp
  have ready: "exchange_ready P command now (stored w) client (stored w2) code x"
    unfolding exchange_ready_def
    using authenticate_ok [OF auth, unfolded w1] may codes_Consume [OF code] valid x
      scopedIdentityClaims_ok [OF claims] by blast
  have scope: "xo_Scope (xl_output l') = join_with (CHR '' '') (ac_Scopes code)"
    using out(2) New_session_fields [OF x] by simp
  from exchange_store_ok [OF st] obtain m e where
    m: "idescribes P EventTypeSessionCreated AggregateTypeSession (se_ID x)
       (P_session (session_created_event x)) now m"
    and e: "sv_Result e = ResultSuccess" "sv_SessionID e = Some (se_ID x)"
    and s': "case map_option snd refresh of
        None \<Rightarrow> stored w' = put_event e (put_imsg m (put_session x (stored w8)))
      | Some f \<Rightarrow> \<exists>m1. idescribes P EventTypeFamilyCreated AggregateTypeFamily (rf_ID f)
           (P_family (family_created_event f)) now m1 \<and>
          stored w' = put_event e (put_imsg m1 (put_imsg m (put_family f (put_session x (stored w8)))))"
    by blast
  show ?thesis
  proof (cases "AllowsGrantType GrantTypeRefreshToken client")
    case False
    with new_refresh_ok [OF r] have "refresh = None" by simp
    with exchange_commit.no_refresh [OF ready False _ m e scope] s' out(1) w8 show ?thesis by simp
  next
    case True
    with new_refresh_ok [OF r] obtain raw f fk tk h where rf: "refresh = Some (raw, f)"
      and f: "New_family fk (se_ID x) tk h
       (MinimumTime (now + of_RefreshTokenLifetime (of_cfg P)) (now + of_RefreshFamilyLifetime (of_cfg P)))
       (now + of_RefreshFamilyLifetime (of_cfg P)) None None now = Inr f" by auto
    with s' w8 obtain m1 where
      "idescribes P EventTypeFamilyCreated AggregateTypeFamily (rf_ID f) (P_family (family_created_event f)) now m1"
      "stored w' = put_event e (put_imsg m1 (put_imsg m (put_family f (put_session x (stored w2)))))"
      by auto
    with exchange_commit.refresh [OF ready True _ f m _ e scope] rf out(1) show ?thesis by simp
  qed
qed

lemma ExchangeAuthorizationCode_outcome:
  assumes "ExchangeAuthorizationCode P input w = (r, w')"
  shows "(\<exists>e err l. r = Inl e \<and> audited (exchange_failure err l) (stored w) (stored w')) \<or>
    (\<exists>out command. r = Inr out \<and> prepareExchangeAuthorizationCode P input = Inr command \<and>
       exchange_commit P (stored w) command out (stored w'))"
proof (cases "prepareExchangeAuthorizationCode P input")
  case (Inl err)
  with assms show ?thesis by (auto simp: ExchangeAuthorizationCode_def audited_def)
next
  case (Inr command)
  obtain q w1 l where tx: "do_tx (tx_driver P) exchange_locals0 (exchange_body P command) w = (q, (w1, l))"
    by (metis prod.collapse)
  show ?thesis
  proof (cases q)
    case (Inl err)
    with assms tx \<open>prepareExchangeAuthorizationCode P input = Inr command\<close>
    have "audit_failure P err (exchange_failure err l) w1 = (r, w')"
      by (simp add: ExchangeAuthorizationCode_def)
    from audit_failure_audited [OF this] do_tx_err [OF tx [unfolded Inl]] show ?thesis by auto
  next
    case (Inr u)
    obtain w2 w3 where "stored w2 = stored w" "stored w1 = stored w3"
      and "exchange_body P command (w2, exchange_locals0) = (Inr (), (w3, l))"
      by (rule do_tx_ok [OF tx [unfolded Inr]]) auto
    with exchange_body_ok have "exchange_commit P (stored w) command (xl_output l) (stored w1)" by metis
    with assms tx Inr \<open>prepareExchangeAuthorizationCode P input = Inr command\<close> show ?thesis
      by (auto simp: ExchangeAuthorizationCode_def)
  qed
qed


subsection \<open>The claims of an account\<close>

lemma user_info_body_ok:
  assumes "user_info_body P token now (w, l) = (Inr u, (w', l'))"
  shows "user_info_commit P (stored w) token (ul_output l') (stored w')"
proof -
  from assms obtain x w1 claims w2 actor md where
    x: "sessions_Get P (vt_SessionID token) w = (Inr x, w1)"
    and ok: "se_IdentityID x = vt_IdentityID token" "scopesBelongToSession (vt_Scopes token) (se_Scopes x)"
      "ValidateForUse now x = None" "''openid'' \<in> set (vt_Scopes token)"
    and claims: "scopedIdentityClaims P (vt_IdentityID token) (vt_Scopes token) w1 = (Inr claims, w2)"
    and ev: "saveSecurityEvent P
         \<lparr>sei_Type = EventTypeUserInfoAccess, sei_Result = ResultSuccess, sei_Actor = actor,
          sei_SessionID = Some (se_ID x), sei_OAuthClientID = Some (se_OAuthClientID x),
          sei_Metadata = md, sei_OccurredAt = now\<rparr> w2 = (Inr u, w')"
    and out: "ul_output l' = claims"
    by (auto simp: user_info_body_def body_inv split: if_split_asm)
  from ok(2) have "set (vt_Scopes token) \<subseteq> set (se_Scopes x)"
    by (auto simp: scopesBelongToSession_def list_all_iff)
  with session_Get_ok [OF x] ok scopedIdentityClaims_ok [OF claims] scopedIdentityClaims_scoped [OF claims]
    saveSecurityEvent_ok [OF ev] out
  show ?thesis unfolding user_info_commit_def by (fastforce simp: audits_def)
qed

lemma GetUserInfo_outcome:
  assumes "GetUserInfo P t w = (r, w')"
  shows "(\<exists>e err token actor l. r = Inl e \<and>
       audited (user_info_failure err token actor l) (stored w) (stored w')) \<or>
    (\<exists>u token w1. r = Inr u \<and> access_Verify P t w = (Inr token, w1) \<and>
       user_info_commit P (stored w) token u (stored w'))"
proof (cases "t = ''''")
  case True
  with assms show ?thesis by (auto simp: GetUserInfo_def audited_def)
next
  case t: False
  obtain q w1 where v: "access_Verify P t w = (q, w1)" by fastforce
  note w1 = access_Verify_keeps [OF v]
  show ?thesis
  proof (cases q)
    case (Inl err)
    with assms t v w1 show ?thesis by (auto simp: GetUserInfo_def audited_def split: if_split_asm)
  next
    case (Inr token)
    let ?l = "\<lparr>ul_output = user_info0, ul_auditClientID = None\<rparr>"
    obtain now w2 where now: "now_Clock P w1 = (now, w2)" by fastforce
    obtain p w3 l where tx: "do_tx (tx_driver P) ?l (user_info_body P token now) w2 = (p, (w3, l))"
      by (metis prod.collapse)
    have w2: "stored w2 = stored w" using now_Clock_keeps [OF now] w1 by simp
    note run = assms [unfolded GetUserInfo_def] v [unfolded Inr] now tx
    show ?thesis
    proof (cases p)
      case (Inl err)
      from do_tx_err [OF tx [unfolded Inl]] w2 have w3: "stored w3 = stored w" by simp
      from run t Inl consider "w' = w3" "\<exists>e. r = Inl e"
        | actor where "audit_failure P err (user_info_failure err token actor l) w3 = (r, w')"
        by (auto split: if_split_asm sum.split_asm)
      then show ?thesis
      proof cases
        case 1
        with w3 show ?thesis by (auto simp: audited_def)
      next
        case 2
        from audit_failure_audited [OF this] w3 show ?thesis by auto
      qed
    next
      case (Inr u)
      obtain w4 w5 where "stored w4 = stored w2" "stored w3 = stored w5"
        and "user_info_body P token now (w4, ?l) = (Inr (), (w5, l))"
        by (rule do_tx_ok [OF tx [unfolded Inr]]) auto
      with user_info_body_ok have "user_info_commit P (stored w2) token (ul_output l) (stored w3)" by metis
      with run t Inr w2 v \<open>q = Inr token\<close> show ?thesis by auto
    qed
  qed
qed


subsection \<open>The start and the end of an authorization\<close>

lemma StartAuthorization_outcome:
  assumes "StartAuthorization P input w = (r, w')"
  shows "stored w' = stored w \<and>
    (\<forall>out. r = Inr out \<longrightarrow> (\<exists>request client now t w1 w2.
       prepareStartAuthorization P input = Inr request \<and>
       os_clients (stored w) (oc_ID client) = Some client \<and> oc_ClientID client = sc_clientID request \<and>
       ValidateAuthorizationRedirectURI (sc_redirectURI request) client = None \<and>
       ValidateAuthorizationCodeFlow (sc_scopes request) now client = None \<and>
       New_transaction (so_AuthorizationTransactionID out) (oc_ID client) (sc_redirectURI request)
         (sc_scopes request) (sc_state request) (sc_nonce request) (oc_RequirePKCE client) (sc_pkce request)
         (now + of_AuthorizationLifetime (of_cfg P)) now = Inr t \<and>
       txns_Create P t w1 = (Inr (), w2)))"
proof (cases "prepareStartAuthorization P input")
  case (Inl err)
  with assms show ?thesis by (auto simp: StartAuthorization_def)
next
  case (Inr request)
  obtain now w1 where now: "now_Clock P w = (now, w1)" by fastforce
  obtain q w2 l where tx: "do_tx (tx_driver P) start_output0 (start_body P request now) w1 = (q, (w2, l))"
    by (metis prod.collapse)
  note run = assms [unfolded StartAuthorization_def] Inr now tx
  have w1: "stored w1 = stored w" using now by (rule now_Clock_keeps)
  show ?thesis
  proof (cases q)
    case (Inl err)
    with run do_tx_err [OF tx [unfolded Inl]] w1 show ?thesis by auto
  next
    case (Inr u)
    obtain w3 w4 where same: "stored w3 = stored w1" "stored w2 = stored w4"
      and "start_body P request now (w3, start_output0) = (Inr (), (w4, l))"
      by (rule do_tx_ok [OF tx [unfolded Inr]]) auto
    then obtain client w5 k w6 t where
      c: "clients_GetByClientID P (sc_clientID request) w3 = (Inr client, w5)"
      and ok: "ValidateAuthorizationRedirectURI (sc_redirectURI request) client = None"
        "ValidateAuthorizationCodeFlow (sc_scopes request) now client = None"
      and "ids_New P w5 = (k, w6)"
      and t: "New_transaction k (oc_ID client) (sc_redirectURI request) (sc_scopes request)
         (sc_state request) (sc_nonce request) (oc_RequirePKCE client) (sc_pkce request)
         (now + of_AuthorizationLifetime (of_cfg P)) now = Inr t"
      and create: "txns_Create P t w6 = (Inr (), w4)"
      and l: "so_AuthorizationTransactionID l = at_ID t"
      by (auto simp: start_body_def body_inv)
    have "at_ID t = k" using t by (auto simp: New_transaction_def split: if_split_asm)
    moreover have "stored w4 = stored w3"
      using GetByClientID_ok [OF c] ids_New_keeps [OF \<open>ids_New P w5 = (k, w6)\<close>] txns_Create_keeps [OF create]
      by simp
    ultimately show ?thesis
      using run Inr GetByClientID_ok [OF c] ok t create l same w1 by auto blast
  qed
qed

lemma ContinueAuthorization_outcome:
  assumes "ContinueAuthorization P k w = (r, w')"
  shows "stored w' = stored w \<and>
    (\<forall>uri. r = Inr uri \<longrightarrow> (\<exists>now t0 t code h ac w1 w2 w3 w4.
       txns_Get P k w1 = (Inr t0, w2) \<and> txn_Complete now t0 = (None, t) \<and>
       New_code h (at_OAuthClientID t) (at_RedirectURI t) (the (at_IdentityID t))
         (the (at_AuthenticationLevel t)) (at_AuthenticatedMethods t) (at_GrantedScopes t) (at_Nonce t)
         (at_PKCE t) (the (at_AuthenticatedAt t)) (now + of_CodeLifetime (of_cfg P)) now = Inr ac \<and>
       codes_Create P ac w3 = (Inr (), w4) \<and> authorizedRedirect P t code = Inr uri))"
proof (cases "k = uuid_nil")
  case True
  with assms show ?thesis by (auto simp: ContinueAuthorization_def)
next
  case False
  obtain now w1 where now: "now_Clock P w = (now, w1)" by fastforce
  obtain q w2 l where tx: "do_tx (tx_driver P) '''' (continue_body P k now) w1 = (q, (w2, l))"
    by (metis prod.collapse)
  note run = assms [unfolded ContinueAuthorization_def] False now tx
  have w1: "stored w1 = stored w" using now by (rule now_Clock_keeps)
  show ?thesis
  proof (cases q)
    case (Inl err)
    with run do_tx_err [OF tx [unfolded Inl]] w1 show ?thesis by auto
  next
    case (Inr u)
    obtain w3 w4 where same: "stored w3 = stored w1" "stored w2 = stored w4"
      and "continue_body P k now (w3, '''') = (Inr (), (w4, l))"
      by (rule do_tx_ok [OF tx [unfolded Inr]]) auto
    then obtain t0 w5 t code h w6 ac w7 where
      t0: "txns_Get P k w3 = (Inr t0, w5)" and t: "txn_Complete now t0 = (None, t)"
      and tok: "tokens_New P w5 = (Inr (code, h), w6)"
      and ac: "New_code h (at_OAuthClientID t) (at_RedirectURI t) (the (at_IdentityID t))
         (the (at_AuthenticationLevel t)) (at_AuthenticatedMethods t) (at_GrantedScopes t) (at_Nonce t)
         (at_PKCE t) (the (at_AuthenticatedAt t)) (now + of_CodeLifetime (of_cfg P)) now = Inr ac"
      and create: "codes_Create P ac w6 = (Inr (), w7)" and upd: "txns_Update P t w7 = (Inr (), w4)"
      and l: "authorizedRedirect P t code = Inr l"
      by (auto simp: continue_body_def body_inv)
    have "stored w4 = stored w"
      using txns_Get_keeps [OF t0] tokens_New_keeps [OF tok] codes_Create_keeps [OF create]
        txns_Update_keeps [OF upd] same w1 by simp
    with run Inr t0 t ac create l same show ?thesis by auto blast
  qed
qed

end

end
