(* ===== verification/OAuth_Memory.thy ===== *)
theory OAuth_Memory
  imports OAuth_Commits Tables
begin

text \<open>
  The ports of the OAuth service in memory, after the mocks of \<open>internal/usecase/oauth/*_test.go\<close>: a
  database of tables whose rollback leaves Redis (authorization transactions and codes) alone, a fixed
  clock, a counter for identifiers and tokens, hashes that mark what they hash, and access tokens
  remembered when they are issued. The contract of \<open>OAuth_Contract\<close> is interpreted on them.
\<close>

section \<open>The world and its ports\<close>

record omem =
  om_clients :: "oauth_client list"
  om_sessions :: "session list"
  om_families :: "refresh_token_family list"
  om_outbox :: "imessage list"
  om_events :: "security_event list"
  om_identities :: "identity list"
  om_profiles :: "profile list"
  om_txns :: "transaction list"
  om_codes :: "authorization_code list"
  om_issued :: "(string \<times> verified_token) list"
  om_now :: gotime
  om_next :: nat

definition om_stored :: "omem \<Rightarrow> ostore" where
  "om_stored w =
     \<lparr>os_clients = lookup_row oc_ID (om_clients w), os_sessions = lookup_row se_ID (om_sessions w),
      os_families = lookup_row rf_ID (om_families w), os_outbox = om_outbox w, os_events = om_events w\<rparr>"

type_synonym 'a omem_result = "(omem, id_sentinel, 'a) result"

definition om_find :: "id_sentinel \<Rightarrow> 'a option \<Rightarrow> omem \<Rightarrow> 'a omem_result" where
  "om_find missing r w = (case r of None \<Rightarrow> (Inl (Sentinel missing), w) | Some x \<Rightarrow> (Inr x, w))"

definition om_fresh :: "omem \<Rightarrow> uuid \<times> omem" where
  "om_fresh w = (of_nat (om_next w), w\<lparr>om_next := om_next w + 1\<rparr>)"

definition om_token :: "omem \<Rightarrow> (string \<times> string) omem_result" where
  "om_token w =
     (let raw = ''token-'' @ show_nat (om_next w)
      in (Inr (raw, ''hash:'' @ raw), w\<lparr>om_next := om_next w + 1\<rparr>))"

definition om_save_client :: "oauth_client \<Rightarrow> omem \<Rightarrow> unit omem_result" where
  "om_save_client c w = (Inr (), w\<lparr>om_clients := save_row oc_ID c (om_clients w)\<rparr>)"

definition om_save_session :: "session \<Rightarrow> omem \<Rightarrow> unit omem_result" where
  "om_save_session x w = (Inr (), w\<lparr>om_sessions := save_row se_ID x (om_sessions w)\<rparr>)"

definition om_save_family :: "refresh_token_family \<Rightarrow> omem \<Rightarrow> unit omem_result" where
  "om_save_family f w = (Inr (), w\<lparr>om_families := save_row rf_ID f (om_families w)\<rparr>)"

definition om_save_txn :: "transaction \<Rightarrow> omem \<Rightarrow> unit omem_result" where
  "om_save_txn t w = (Inr (), w\<lparr>om_txns := save_row at_ID t (om_txns w)\<rparr>)"

definition om_consume :: "string \<Rightarrow> omem \<Rightarrow> authorization_code omem_result" where
  "om_consume h w =
     (case find (\<lambda>c. ac_Hash c = h) (om_codes w) of
        None \<Rightarrow> (Inl (Sentinel (S_code Code_ErrNotFound)), w)
      | Some c \<Rightarrow> (Inr c, w\<lparr>om_codes := filter (\<lambda>c. ac_Hash c \<noteq> h) (om_codes w)\<rparr>))"

definition om_save_code :: "authorization_code \<Rightarrow> omem \<Rightarrow> unit omem_result" where
  "om_save_code c w =
     (if list_ex (\<lambda>d. ac_Hash d = ac_Hash c) (om_codes w)
      then (Inl (Sentinel (S_code Code_ErrAlreadyExists)), w)
      else (Inr (), w\<lparr>om_codes := c # om_codes w\<rparr>))"

definition om_issue :: "access_issue_input \<Rightarrow> omem \<Rightarrow> issued_token omem_result" where
  "om_issue a w =
     (let k = of_nat (om_next w); v = ''access-'' @ show_nat (om_next w);
          t = \<lparr>vt_ID = k, vt_IdentityID = ati_IdentityID a, vt_SessionID = ati_SessionID a,
               vt_ClientID = ati_ClientID a, vt_Scopes = ati_GrantedScopes a\<rparr>
      in (Inr \<lparr>it_Value = v, it_ID = k, it_IssuedAt = om_now w, it_ExpiresAt = om_now w + 300 * second\<rparr>,
          w\<lparr>om_issued := (v, t) # om_issued w, om_next := om_next w + 1\<rparr>))"

definition om_verify :: "string \<Rightarrow> omem \<Rightarrow> verified_token omem_result" where
  "om_verify v w = om_find (S_tok Tok_ErrInvalidToken) (map_of (om_issued w) v) w"

definition om_issue_id :: "idtoken_issue_input \<Rightarrow> omem \<Rightarrow> issued_idtoken omem_result" where
  "om_issue_id a w =
     (Inr \<lparr>iit_Value = ''id-token'', iit_IssuedAt = om_now w, iit_ExpiresAt = om_now w + 300 * second\<rparr>, w)"

text \<open>A transaction is a copy of the tables; a rollback copies back what the database holds.\<close>

definition om_tx :: "(omem, id_sentinel, omem) tx_ops" where
  "om_tx =
     \<lparr>Begin = (\<lambda>w. (Inr w, w)), Commit = (\<lambda>tx w. (None, w)),
      Rollback = (\<lambda>tx w. (None, w\<lparr>om_clients := om_clients tx, om_sessions := om_sessions tx,
        om_families := om_families tx, om_outbox := om_outbox tx, om_events := om_events tx\<rparr>))\<rparr>"

definition om_config :: oauth_config where
  "om_config = \<lparr>of_AuthorizationLifetime = 600 * second, of_CodeLifetime = 60 * second,
                of_SessionIdleLifetime = 3600 * second, of_SessionLifetime = 86400 * second,
                of_RefreshTokenLifetime = 1800 * second, of_RefreshFamilyLifetime = 86400 * second\<rparr>"

definition om_ports :: "(omem, omem) oauth_ports" where
  "om_ports =
     \<lparr>of_cfg = om_config,
      clients_GetByClientID = (\<lambda>k w. om_find (S_cli Cli_ErrNotFound)
        (search_row oc_ID (\<lambda>c. oc_ClientID c = k) (om_clients w)) w),
      clients_Update = om_save_client, txns_Create = om_save_txn, txns_Update = om_save_txn,
      txns_Get = (\<lambda>k w. om_find (S_tra Tra_ErrNotFound) (lookup_row at_ID (om_txns w) k) w),
      BuildAuthorizationRedirect = (\<lambda>k. Inr (''/authenticate?transaction='' @ show_nat (unat k))),
      tokens_New = om_token, tokens_Hash = (\<lambda>raw. ''hash:'' @ raw), codes_Create = om_save_code,
      codes_Consume = om_consume, secrets_Verify = (\<lambda>secret h. Inr (h = ''hash:'' @ secret)),
      sessions_Create = om_save_session,
      sessions_Get = (\<lambda>k w. om_find (S_ses Ses_ErrNotFound) (lookup_row se_ID (om_sessions w) k) w),
      sessions_Update = om_save_session, families_Create = om_save_family,
      families_GetByTokenHash = (\<lambda>h w. om_find (S_ref Ref_ErrTokenNotFound)
        (search_row rf_ID (\<lambda>f. h \<in> rt_Hash ` set (rf_Tokens f)) (om_families w)) w),
      families_Update = om_save_family, access_Issue = om_issue, access_Verify = om_verify,
      idtoken_Issue = om_issue_id,
      identities_Get = (\<lambda>k w. om_find (S_idn Idn_ErrNotFound) (lookup_row idn_ID (om_identities w) k) w),
      profiles_Get = (\<lambda>k w. om_find (S_pro Pro_ErrNotFound) (lookup_row pr_IdentityID (om_profiles w) k) w),
      outbox_Create = (\<lambda>m w. (Inr (), w\<lparr>om_outbox := om_outbox w @ [m]\<rparr>)),
      events_Create = (\<lambda>e w. (Inr (), w\<lparr>om_events := om_events w @ [e]\<rparr>)),
      tx_driver = om_tx, ids_New = om_fresh, now_Clock = (\<lambda>w. (om_now w, w)),
      payload_Marshal = (\<lambda>p. Inr ''{...}''), metadata_Marshal = (\<lambda>m. Inr ''{...}''),
      object_Unmarshal = (\<lambda>s. Inr True), uuid_ToString = (\<lambda>k. show_nat (unat k)),
      url_WithQuery = (\<lambda>u q. Inr (u @ ''?'' @
        join_with (CHR ''&'') (map (\<lambda>(k, v). k @ ''='' @ v) q))),
      url_Redirect = Inr\<rparr>"

lemmas om_ops_defs = om_find_def om_fresh_def om_token_def om_save_client_def om_save_session_def
  om_save_family_def om_save_txn_def om_consume_def om_save_code_def om_issue_def om_verify_def om_issue_id_def


section \<open>The contract holds in memory\<close>

lemma om_stored_simps [simp]:
  "om_stored (w\<lparr>om_next := n\<rparr>) = om_stored w"
  "om_stored (w\<lparr>om_codes := cs\<rparr>) = om_stored w"
  "om_stored (w\<lparr>om_txns := ts\<rparr>) = om_stored w"
  "om_stored (w\<lparr>om_issued := vs\<rparr>) = om_stored w"
  "om_stored (w\<lparr>om_clients := save_row oc_ID c (om_clients w)\<rparr>) = put_client c (om_stored w)"
  "om_stored (w\<lparr>om_sessions := save_row se_ID x (om_sessions w)\<rparr>) = put_session x (om_stored w)"
  "om_stored (w\<lparr>om_families := save_row rf_ID f (om_families w)\<rparr>) = put_family f (om_stored w)"
  "om_stored (w\<lparr>om_outbox := om_outbox w @ [m]\<rparr>) = put_imsg m (om_stored w)"
  "om_stored (w\<lparr>om_events := om_events w @ [e]\<rparr>) = put_event e (om_stored w)"
  "os_clients (om_stored w) = lookup_row oc_ID (om_clients w)"
  "os_sessions (om_stored w) = lookup_row se_ID (om_sessions w)"
  "os_families (om_stored w) = lookup_row rf_ID (om_families w)"
  by (simp_all add: om_stored_def oput_defs lookup_save)

lemma om_find_ok [simp]: "om_find e r w = (Inr x, w') \<longleftrightarrow> r = Some x \<and> w' = w"
  by (auto simp: om_find_def split: option.splits)

lemma om_find_keeps: "om_find e r w = (q, w') \<Longrightarrow> om_stored w' = om_stored w"
  by (auto simp: om_find_def split: option.splits)

interpretation om_db: transactional om_tx om_stored om_stored
  by unfold_locales (auto simp: om_tx_def om_stored_def)

lemma om_consume_hash: "om_consume h w = (Inr c, w') \<Longrightarrow> ac_Hash c = h"
  by (auto simp: om_consume_def find_Some_iff split: option.splits)

lemma om_keeps:
  "om_fresh w = (k, w') \<Longrightarrow> om_stored w' = om_stored w"
  "om_token w = (q, w') \<Longrightarrow> om_stored w' = om_stored w"
  "om_consume h w = (q1, w') \<Longrightarrow> om_stored w' = om_stored w"
  "om_save_code c w = (q2, w') \<Longrightarrow> om_stored w' = om_stored w"
  "om_save_txn t w = (q2, w') \<Longrightarrow> om_stored w' = om_stored w"
  "om_issue a w = (q3, w') \<Longrightarrow> om_stored w' = om_stored w"
  "om_verify v w = (q4, w') \<Longrightarrow> om_stored w' = om_stored w"
  "om_issue_id b w = (q5, w') \<Longrightarrow> om_stored w' = om_stored w"
  by (auto simp: om_ops_defs Let_def split: option.splits if_splits)

lemma om_saves:
  "om_save_client c w = (Inr u, w') \<Longrightarrow> om_stored w' = put_client c (om_stored w)"
  "om_save_session x w = (Inr u, w') \<Longrightarrow> om_stored w' = put_session x (om_stored w)"
  "om_save_family f w = (Inr u, w') \<Longrightarrow> om_stored w' = put_family f (om_stored w)"
  by (auto simp: om_ops_defs)

lemma om_tx_driver [simp]: "tx_driver om_ports = om_tx"
  by (simp add: om_ports_def)

interpretation om: oauth_env om_ports om_stored om_stored
  by (intro oauth_env.intro oauth_env_axioms.intro, simp_all only: om_tx_driver om_db.transactional_axioms)
     (auto simp: om_ports_def om_consume_hash om_find_keeps om_keeps om_saves dest: search_row_Some lookup_row_key)


section \<open>A worked authorization\<close>

text \<open>A confidential client, an active account with a verified e-mail address, and a code for them.\<close>

definition demo_client :: oauth_client where
  "demo_client =
     \<lparr>oc_ID = 1001, oc_ClientID = ''web'', oc_ClientType = ClientTypeConfidential,
      oc_AuthMethod = AuthMethodClientSecretBasic, oc_Name = ''Web'', oc_Description = None,
      oc_RequirePKCE = False, oc_ConsentMode = ConsentModeTrusted, oc_Status = Client_Active,
      oc_CreatedByIdentityID = None,
      oc_RedirectURIs = [\<lparr>ru_ID = 1002, ru_URI = ''https://app'', ru_CreatedAt = 1\<rparr>],
      oc_PostLogoutRedirectURIs = [],
      oc_GrantTypes = [\<lparr>gr_GrantType = GrantTypeAuthorizationCode, gr_CreatedAt = 1\<rparr>,
                       \<lparr>gr_GrantType = GrantTypeRefreshToken, gr_CreatedAt = 1\<rparr>],
      oc_Scopes = [\<lparr>sr_Scope = ''openid'', sr_CreatedAt = 1\<rparr>, \<lparr>sr_Scope = ''email'', sr_CreatedAt = 1\<rparr>],
      oc_Credentials = [\<lparr>cr_ID = 1003, cr_SecretHash = ''hash:s3cret'', cr_Name = None,
        cr_CreatedByIdentityID = None, cr_CreatedAt = 1, cr_UpdatedAt = 1, cr_ExpiresAt = None,
        cr_RevokedAt = None, cr_RevokeReason = None, cr_LastUsedAt = None\<rparr>],
      oc_CreatedAt = 1, oc_UpdatedAt = 1, oc_DisabledAt = None, oc_DeletedAt = None\<rparr>"

definition demo_identity :: identity where
  "demo_identity =
     \<lparr>idn_ID = 2001, idn_Status = Identity_Active,
      idn_Emails = [\<lparr>ct_ID = 2002, ct_Value = ''ann@example.org'', ct_IsPrimary = True, ct_CreatedAt = 1,
        ct_UpdatedAt = 2, ct_VerifiedAt = Some 2, ct_DeletedAt = None\<rparr>],
      idn_Phones = [], idn_ExternalAccounts = [], idn_CreatedAt = 1, idn_UpdatedAt = 2,
      idn_DeletedAt = None\<rparr>"

definition demo_code :: authorization_code where
  "demo_code =
     \<lparr>ac_Hash = ''hash:code'', ac_OAuthClientID = 1001, ac_IdentityID = 2001,
      ac_RedirectURI = ''https://app'', ac_Scopes = [''openid'', ''email''], ac_Nonce = None,
      ac_PKCE = None, ac_AuthenticationLevel = LevelSingleFactor,
      ac_AuthenticatedMethods = [MethodPassword], ac_AuthenticatedAt = 900, ac_IssuedAt = 950,
      ac_ExpiresAt = 2000\<rparr>"

definition om0 :: omem where
  "om0 =
     \<lparr>om_clients = [demo_client], om_sessions = [], om_families = [], om_outbox = [], om_events = [],
      om_identities = [demo_identity], om_profiles = [], om_txns = [], om_codes = [demo_code],
      om_issued = [], om_now = 1000, om_next = 1\<rparr>"

definition demo_exchange :: exchange_input where
  "demo_exchange =
     \<lparr>xi_ClientID = ''web'', xi_ClientSecret = Some ''s3cret'', xi_Code = ''code'',
      xi_RedirectURI = ''https://app'', xi_CodeVerifier = None\<rparr>"

definition demo_refresh :: "string \<Rightarrow> refresh_input" where
  "demo_refresh t = \<lparr>ri_ClientID = ''web'', ri_ClientSecret = Some ''s3cret'', ri_RefreshToken = t\<rparr>"

definition demo_revoke :: "string \<Rightarrow> revoke_input" where
  "demo_revoke t = \<lparr>rv_ClientID = ''web'', rv_ClientSecret = Some ''s3cret'', rv_Token = t,
                    rv_TokenTypeHint = None\<rparr>"

text \<open>A session and its token family, as the exchange of the code leaves them.\<close>

definition demo_session :: session where
  "demo_session =
     \<lparr>se_ID = 1, se_IdentityID = 2001, se_OAuthClientID = 1001, se_AuthenticationLevel = LevelSingleFactor,
      se_AuthenticatedMethods = [MethodPassword], se_Scopes = [''openid'', ''email''], se_IPAddress = None,
      se_UserAgent = None, se_DeviceName = None, se_CreatedAt = 1000, se_AuthenticatedAt = 900,
      se_LastSeenAt = None, se_IdleExpiresAt = 3600000001000, se_AbsoluteExpiresAt = 86400000001000,
      se_RevokedAt = None, se_RevokeReason = None\<rparr>"

definition demo_family :: refresh_token_family where
  "demo_family =
     \<lparr>rf_ID = 3, rf_SessionID = 1,
      rf_Tokens = [\<lparr>rt_ID = 4, rt_ParentTokenID = None, rt_Hash = ''hash:token-2'', rt_CreatedFromIP = None,
        rt_CreatedUserAgent = None, rt_IssuedAt = 1000, rt_ExpiresAt = 1800000001000, rt_RotatedAt = None,
        rt_RevokedAt = None, rt_RevokeReason = None, rt_ReuseDetectedAt = None\<rparr>],
      rf_CreatedAt = 1000, rf_LastRotatedAt = None, rf_AbsoluteExpiresAt = 86400000001000,
      rf_ReuseDetectedAt = None, rf_RevokedAt = None, rf_RevokeReason = None\<rparr>"

definition om1 :: omem where
  "om1 =
     om0\<lparr>om_sessions := [demo_session], om_families := [demo_family], om_codes := [], om_next := 11,
         om_issued := [(''access-5'', \<lparr>vt_ID = 5, vt_IdentityID = 2001, vt_SessionID = 1,
           vt_ClientID = ''web'', vt_Scopes = [''openid'', ''email'']\<rparr>)]\<rparr>"

lemma demo_exchange_leaves:
  "case ExchangeAuthorizationCode om_ports demo_exchange om0 of
     (Inr out, w) \<Rightarrow> xo_RefreshToken out = Some ''token-2'' \<and> xo_Scope out = ''openid email'' \<and>
       om_sessions w = [demo_session] \<and> om_families w = [demo_family] \<and> om_codes w = [] \<and> om_next w = 11
   | (Inl e, w) \<Rightarrow> False"
  by code_simp

end
