(* ===== verification/OAuth_Properties.thy ===== *)
theory OAuth_Properties
  imports OAuth_Memory
begin

text \<open>
  The properties of the OAuth use cases, over any ports that meet the contract \<open>oauth_env\<close>, and their
  witnesses on the ports in memory.
\<close>

section \<open>Refreshing\<close>

text \<open>
  C27. Whatever happens to a refresh, it has one of three outcomes. It is refused: an error, and the
  database is as it was but for at most one audit entry. Or the presented token was exchanged before:
  an error, but the revocation of its family and of its session commits, with two events and an audit
  entry. Or it is exchanged: the family has the next token, the session the new activity, with one
  event and one audit entry, and the scopes returned are the session's.
\<close>

theorem refresh_outcomes:
  assumes "oauth_env P stored snapshot" and "RefreshAccessToken P input w = (r, w')"
  shows "(\<exists>e err l. r = Inl e \<and> audited (refresh_failure err l) (stored w) (stored w')) \<or>
    (\<exists>e command. r = Inl e \<and> prepareRefreshAccessToken input = Inr command \<and>
       reuse_commit P (stored w) command (stored w')) \<or>
    (\<exists>out command. r = Inr out \<and> prepareRefreshAccessToken input = Inr command \<and>
       rotated_commit P (stored w) command out (stored w'))"
  using oauth_env.RefreshAccessToken_outcome [OF assms] .

lemma demo_refreshed:
  "(case RefreshAccessToken om_ports (demo_refresh ''token-2'') om1 of
      (Inr out, w) \<Rightarrow> ro_RefreshToken out = ''token-11'' \<and> length (om_outbox w) = 1 \<and>
        (case om_families w of [f] \<Rightarrow> map rt_RotatedAt (rf_Tokens f) = [Some 1000, None] | _ \<Rightarrow> False)
    | (Inl e, w) \<Rightarrow> False)"
  by code_simp

text \<open>The world after the refresh token of \<open>om1\<close> was exchanged.\<close>

definition om2 :: omem where
  "om2 = snd (RefreshAccessToken om_ports (demo_refresh ''token-2'') om1)"

lemma demo_refreshed_ok:
  obtains out where "RefreshAccessToken om_ports (demo_refresh ''token-2'') om1 = (Inr out, om2)"
    and "\<exists>f. om_families om2 = [f]"
proof -
  obtain r w where rw: "RefreshAccessToken om_ports (demo_refresh ''token-2'') om1 = (r, w)" by fastforce
  with demo_refreshed obtain out where "r = Inr out" and "\<exists>f. om_families w = [f]"
    by (cases r) (auto split: list.splits)
  with rw that show thesis by (auto simp: om2_def)
qed

theorem refresh_outcomes_witness:
  "\<exists>out. rotated_commit om_ports (om_stored om1) (demo_refresh ''token-2'') out (om_stored om2)"
proof -
  obtain out where run: "RefreshAccessToken om_ports (demo_refresh ''token-2'') om1 = (Inr out, om2)"
    by (rule demo_refreshed_ok)
  have "prepareRefreshAccessToken (demo_refresh ''token-2'') = Inr (demo_refresh ''token-2'')"
    by code_simp
  with refresh_outcomes [OF om.oauth_env_axioms run] show ?thesis by auto
qed




section \<open>Exchanging a code\<close>




section \<open>Revoking\<close>




end
