(* ===== verification/Identity_Password.thy ===== *)
theory Identity_Password
  imports Identity_Common
begin

text \<open>
  The password of an identity, \<open>internal/domain/password\<close>: the credential, and the authentication
  state that counts failed attempts and locks the password for a while when there are too many.

  \<open>FailedAttempts\<close> and \<open>MaxAttempts\<close> are Go \<open>int\<close>s of 64 bits, here integers: a state that is not
  locked has fewer failed attempts than the bound of the policy that was last applied, so the
  increment does not overflow (\<open>auth_state_wf\<close>).
\<close>

section \<open>Types\<close>

definition NewHash :: "string \<Rightarrow> ierror + string" where
  "NewHash value = (if \<not> HasText value then Inl (Fresh ''password hash is required'') else Inr value)"

definition LockReasonFailedAttempts :: string where
  "LockReasonFailedAttempts = ''failed_attempts''"

definition NewLockReason :: "string \<Rightarrow> ierror + string" where
  "NewLockReason value =
     (case NormalizeRequiredText value of (value, ok) \<Rightarrow>
        if \<not> ok then Inl (Fresh ''password lock reason is required'') else Inr value)"

record failure_policy =
  MaxAttempts :: int
  LockDuration :: duration

definition policy_Validate :: "failure_policy \<Rightarrow> ierror option" where
  "policy_Validate p =
     (if MaxAttempts p \<le> 0 then Some (Fresh ''max attempts must be positive'')
      else if LockDuration p \<le> 0 then Some (Fresh ''lock duration must be positive'')
      else None)"


section \<open>The credential\<close>

record pw_credential =
  pc_Hash :: string
  pc_MustChange :: bool
  pc_PasswordUpdatedAt :: gotime
  pc_ExpiresAt :: "gotime option"
  pc_CompromisedAt :: "gotime option"
  pc_CreatedAt :: gotime
  pc_UpdatedAt :: gotime

definition pc_new :: "string \<Rightarrow> bool \<Rightarrow> gotime option \<Rightarrow> gotime \<Rightarrow> ierror + pw_credential" where
  "pc_new hash mustChange expiresAt now =
     (if is_zero now then Inl (Fresh ''time is invalid'')
      else if expiresAt \<noteq> None \<and> \<not> after (the expiresAt) now
      then Inl (Fresh ''expiration must follow creation'')
      else Inr \<lparr>pc_Hash = hash, pc_MustChange = mustChange, pc_PasswordUpdatedAt = now,
                pc_ExpiresAt = expiresAt, pc_CompromisedAt = None, pc_CreatedAt = now, pc_UpdatedAt = now\<rparr>)"

definition pc_ensureChangeAllowed :: "gotime \<Rightarrow> pw_credential \<Rightarrow> ierror option" where
  "pc_ensureChangeAllowed now c =
     (if is_zero now \<or> before now (pc_UpdatedAt c)
      then Some (Fresh ''password credential change time is invalid'') else None)"

definition pc_Change ::
  "string \<Rightarrow> bool \<Rightarrow> gotime option \<Rightarrow> gotime \<Rightarrow> pw_credential \<Rightarrow> ierror option \<times> pw_credential" where
  "pc_Change hash mustChange expiresAt now c =
     (case pc_ensureChangeAllowed now c of
        Some err \<Rightarrow> (Some err, c)
      | None \<Rightarrow>
          if expiresAt \<noteq> None \<and> \<not> after (the expiresAt) now
          then (Some (Fresh ''expiration must follow password update''), c)
          else (None, c\<lparr>pc_Hash := hash, pc_MustChange := mustChange, pc_PasswordUpdatedAt := now,
                         pc_ExpiresAt := expiresAt, pc_CompromisedAt := None, pc_UpdatedAt := now\<rparr>))"

definition pc_RequireChange :: "gotime \<Rightarrow> pw_credential \<Rightarrow> (ierror + bool) \<times> pw_credential" where
  "pc_RequireChange now c =
     (case pc_ensureChangeAllowed now c of
        Some err \<Rightarrow> (Inl err, c)
      | None \<Rightarrow>
          if pc_MustChange c then (Inr False, c)
          else (Inr True, c\<lparr>pc_MustChange := True, pc_UpdatedAt := now\<rparr>))"

definition pc_MarkCompromised :: "gotime \<Rightarrow> pw_credential \<Rightarrow> (ierror + bool) \<times> pw_credential" where
  "pc_MarkCompromised now c =
     (case pc_ensureChangeAllowed now c of
        Some err \<Rightarrow> (Inl err, c)
      | None \<Rightarrow>
          if pc_CompromisedAt c \<noteq> None then (Inr False, c)
          else (Inr True, c\<lparr>pc_MustChange := True, pc_CompromisedAt := Some now, pc_UpdatedAt := now\<rparr>))"

definition pc_Validate :: "gotime \<Rightarrow> pw_credential \<Rightarrow> ierror option" where
  "pc_Validate now c =
     (if is_zero now \<or> before now (pc_UpdatedAt c)
      then Some (Fresh ''password credential use time is invalid'')
      else if pc_CompromisedAt c \<noteq> None then Some (Sentinel (S_pwd Pwd_ErrCompromised))
      else if pc_ExpiresAt c \<noteq> None \<and> \<not> before now (the (pc_ExpiresAt c))
      then Some (Sentinel (S_pwd Pwd_ErrExpired))
      else None)"


section \<open>The authentication state\<close>

record auth_state =
  as_FailedAttempts :: int
  as_LastFailedAt :: "gotime option"
  as_LockedUntil :: "gotime option"
  as_LockReason :: "string option"
  as_UpdatedAt :: gotime

text \<open>\<open>Reset\<close> overwrites the state with the fresh one \<open>newAuthState\<close> also makes.\<close>

definition as_Reset :: "gotime \<Rightarrow> auth_state" where
  "as_Reset now = \<lparr>as_FailedAttempts = 0, as_LastFailedAt = None, as_LockedUntil = None,
                   as_LockReason = None, as_UpdatedAt = now\<rparr>"

definition newAuthState :: "gotime \<Rightarrow> ierror + auth_state" where
  "newAuthState now =
     (if is_zero now then Inl (Fresh ''time is invalid'')
      else Inr \<lparr>as_FailedAttempts = 0, as_LastFailedAt = None, as_LockedUntil = None,
                as_LockReason = None, as_UpdatedAt = now\<rparr>)"

definition as_Validate :: "gotime \<Rightarrow> auth_state \<Rightarrow> ierror option" where
  "as_Validate now s =
     (if is_zero now \<or> before now (as_UpdatedAt s)
      then Some (Fresh ''password authentication state use time is invalid'')
      else if as_LockedUntil s \<noteq> None \<and> before now (the (as_LockedUntil s))
      then Some (Sentinel (S_pwd Pwd_ErrLocked))
      else None)"

definition as_RecordFailedAttempt ::
  "failure_policy \<Rightarrow> gotime \<Rightarrow> auth_state \<Rightarrow> (ierror + bool) \<times> auth_state" where
  "as_RecordFailedAttempt policy now s =
     (case policy_Validate policy of
        Some err \<Rightarrow> (Inl err, s)
      | None \<Rightarrow>
     case as_Validate now s of
        Some err \<Rightarrow> (Inl err, s)
      | None \<Rightarrow>
          (let s = (if as_LockedUntil s \<noteq> None then as_Reset now else s);
               s = s\<lparr>as_FailedAttempts := as_FailedAttempts s + 1, as_LastFailedAt := Some now,
                      as_UpdatedAt := now\<rparr>;
               locked = (as_FailedAttempts s \<ge> MaxAttempts policy)
           in (Inr locked,
               if locked
               then s\<lparr>as_LockedUntil := Some (now + LockDuration policy),
                       as_LockReason := Some LockReasonFailedAttempts\<rparr>
               else s)))"

definition as_Unlock :: "gotime \<Rightarrow> auth_state \<Rightarrow> ierror option \<times> auth_state" where
  "as_Unlock now s =
     (if is_zero now \<or> before now (as_UpdatedAt s)
      then (Some (Fresh ''password authentication state change time is invalid''), s)
      else if as_LockedUntil s = None then (Some (Fresh ''password is not locked''), s)
      else (None, as_Reset now))"


section \<open>The password\<close>

record password =
  pw_IdentityID :: uuid
  pw_Credential :: pw_credential
  pw_AuthState :: auth_state

definition New_password ::
  "uuid \<Rightarrow> string \<Rightarrow> bool \<Rightarrow> gotime option \<Rightarrow> gotime \<Rightarrow> ierror + password" where
  "New_password identityID hash mustChange expiresAt now =
     (if identityID = uuid_nil then Inl (Fresh ''create password: identity identifier is invalid'')
      else case pc_new hash mustChange expiresAt now of
        Inl err \<Rightarrow> Inl (Wrap ''create password: '' err '''')
      | Inr credential \<Rightarrow>
          (case newAuthState now of
             Inl err \<Rightarrow> Inl (Wrap ''create password: '' err '''')
           | Inr authState \<Rightarrow>
               Inr \<lparr>pw_IdentityID = identityID, pw_Credential = credential, pw_AuthState = authState\<rparr>))"

definition latestUpdatedAt :: "password \<Rightarrow> gotime" where
  "latestUpdatedAt p =
     (if after (as_UpdatedAt (pw_AuthState p)) (pc_UpdatedAt (pw_Credential p))
      then as_UpdatedAt (pw_AuthState p) else pc_UpdatedAt (pw_Credential p))"

definition pw_ensureChangeAllowed :: "gotime \<Rightarrow> password \<Rightarrow> ierror option" where
  "pw_ensureChangeAllowed now p =
     (if is_zero now \<or> before now (latestUpdatedAt p)
      then Some (Fresh ''password change time is invalid'') else None)"

definition ensureAuthenticationAllowed :: "gotime \<Rightarrow> password \<Rightarrow> ierror option" where
  "ensureAuthenticationAllowed now p =
     (if is_zero now \<or> before now (latestUpdatedAt p)
      then Some (Fresh ''validate password for authentication: time is invalid'')
      else case as_Validate now (pw_AuthState p) of
        Some err \<Rightarrow> Some (Wrap ''validate password for authentication: '' err '''')
      | None \<Rightarrow>
          map_option (\<lambda>err. Wrap ''validate password for authentication: '' err '''')
            (pc_Validate now (pw_Credential p)))"

definition pw_Change ::
  "string \<Rightarrow> bool \<Rightarrow> gotime option \<Rightarrow> gotime \<Rightarrow> password \<Rightarrow> ierror option \<times> password" where
  "pw_Change hash mustChange expiresAt now p =
     (case pw_ensureChangeAllowed now p of
        Some err \<Rightarrow> refuse ''change password: '' err p
      | None \<Rightarrow>
          (case pc_Change hash mustChange expiresAt now (pw_Credential p) of
             (Some err, c) \<Rightarrow> refuse ''change password: '' err (p\<lparr>pw_Credential := c\<rparr>)
           | (None, c) \<Rightarrow> (None, p\<lparr>pw_Credential := c, pw_AuthState := as_Reset now\<rparr>)))"

definition pw_RequireChange :: "gotime \<Rightarrow> password \<Rightarrow> ierror option \<times> password" where
  "pw_RequireChange now p =
     (case pw_ensureChangeAllowed now p of
        Some err \<Rightarrow> refuse ''require password change: '' err p
      | None \<Rightarrow>
          (case pc_RequireChange now (pw_Credential p) of
             (Inl err, c) \<Rightarrow> refuse ''require password change: '' err (p\<lparr>pw_Credential := c\<rparr>)
           | (Inr _, c) \<Rightarrow> (None, p\<lparr>pw_Credential := c\<rparr>)))"

definition pw_MarkCompromised :: "gotime \<Rightarrow> password \<Rightarrow> ierror option \<times> password" where
  "pw_MarkCompromised now p =
     (case pw_ensureChangeAllowed now p of
        Some err \<Rightarrow> refuse ''mark password compromised: '' err p
      | None \<Rightarrow>
          (case pc_MarkCompromised now (pw_Credential p) of
             (Inl err, c) \<Rightarrow> refuse ''mark password compromised: '' err (p\<lparr>pw_Credential := c\<rparr>)
           | (Inr _, c) \<Rightarrow> (None, p\<lparr>pw_Credential := c\<rparr>)))"

definition pw_RecordFailedAttempt ::
  "failure_policy \<Rightarrow> gotime \<Rightarrow> password \<Rightarrow> (ierror + bool) \<times> password" where
  "pw_RecordFailedAttempt policy now p =
     (case pw_ensureChangeAllowed now p of
        Some err \<Rightarrow> (Inl (Wrap ''record failed password attempt: '' err ''''), p)
      | None \<Rightarrow>
     case policy_Validate policy of
        Some err \<Rightarrow> (Inl (Wrap ''record failed password attempt: '' err ''''), p)
      | None \<Rightarrow>
     case ensureAuthenticationAllowed now p of
        Some err \<Rightarrow> (Inl (Wrap ''record failed password attempt: '' err ''''), p)
      | None \<Rightarrow>
     case as_RecordFailedAttempt policy now (pw_AuthState p) of
        (Inl err, s) \<Rightarrow> (Inl (Wrap ''record failed password attempt: '' err ''''), p\<lparr>pw_AuthState := s\<rparr>)
      | (Inr locked, s) \<Rightarrow> (Inr locked, p\<lparr>pw_AuthState := s\<rparr>))"

definition RecordSuccessfulAuthentication :: "gotime \<Rightarrow> password \<Rightarrow> ierror option \<times> password" where
  "RecordSuccessfulAuthentication now p =
     (case pw_ensureChangeAllowed now p of
        Some err \<Rightarrow> refuse ''record successful password authentication: '' err p
      | None \<Rightarrow>
     case ensureAuthenticationAllowed now p of
        Some err \<Rightarrow> refuse ''record successful password authentication: '' err p
      | None \<Rightarrow> (None, p\<lparr>pw_AuthState := as_Reset now\<rparr>))"

definition pw_Unlock :: "gotime \<Rightarrow> password \<Rightarrow> ierror option \<times> password" where
  "pw_Unlock now p =
     (case pw_ensureChangeAllowed now p of
        Some err \<Rightarrow> refuse ''unlock password authentication: '' err p
      | None \<Rightarrow>
          (case as_Unlock now (pw_AuthState p) of
             (Some err, s) \<Rightarrow> refuse ''unlock password authentication: '' err (p\<lparr>pw_AuthState := s\<rparr>)
           | (None, s) \<Rightarrow> (None, p\<lparr>pw_AuthState := s\<rparr>)))"

section \<open>What an attempt needs, and what it leaves\<close>

text \<open>
  The count a further failed attempt adds to: a lock that has run out starts a new count.
\<close>

definition failures :: "auth_state \<Rightarrow> int" where
  "failures s = (if as_LockedUntil s = None then as_FailedAttempts s else 0)"

lemma ensureAuthenticationAllowed_ok:
  "ensureAuthenticationAllowed now p = None \<longleftrightarrow>
     now \<noteq> 0 \<and> latestUpdatedAt p \<le> now \<and>
     (\<forall>u. as_LockedUntil (pw_AuthState p) = Some u \<longrightarrow> u \<le> now) \<and>
     pc_CompromisedAt (pw_Credential p) = None \<and>
     (\<forall>x. pc_ExpiresAt (pw_Credential p) = Some x \<longrightarrow> now < x)"
  by (auto simp: ensureAuthenticationAllowed_def as_Validate_def pc_Validate_def latestUpdatedAt_def
      split: option.splits if_splits)

lemma pw_RecordFailedAttempt_cases:
  assumes "pw_RecordFailedAttempt policy now p = (r, p')"
  obtains (refused) err where "r = Inl err" and "p' = p"
  | (counted) "policy_Validate policy = None" and "ensureAuthenticationAllowed now p = None"
      and "r = Inr (MaxAttempts policy \<le> failures (pw_AuthState p) + 1)"
      and "p' = p\<lparr>pw_AuthState :=
             \<lparr>as_FailedAttempts = failures (pw_AuthState p) + 1, as_LastFailedAt = Some now,
              as_LockedUntil = (if MaxAttempts policy \<le> failures (pw_AuthState p) + 1
                                then Some (now + LockDuration policy) else None),
              as_LockReason = (if MaxAttempts policy \<le> failures (pw_AuthState p) + 1
                               then Some LockReasonFailedAttempts
                               else if as_LockedUntil (pw_AuthState p) = None
                               then as_LockReason (pw_AuthState p) else None),
              as_UpdatedAt = now\<rparr>\<rparr>"
proof (cases "pw_ensureChangeAllowed now p = None \<and> policy_Validate policy = None \<and>
    ensureAuthenticationAllowed now p = None")
  case False
  with assms have "\<exists>err. r = Inl err \<and> p' = p"
    by (auto simp: pw_RecordFailedAttempt_def split: option.splits)
  then show thesis using refused by blast
next
  case True
  then have ok: "pw_ensureChangeAllowed now p = None" "policy_Validate policy = None"
    "ensureAuthenticationAllowed now p = None" by auto
  have "as_Validate now (pw_AuthState p) = None"
    using ok(3) by (simp add: ensureAuthenticationAllowed_def split: if_splits option.splits)
  with ok assms show thesis
    by (intro counted) (auto simp: pw_RecordFailedAttempt_def as_RecordFailedAttempt_def Let_def
        failures_def as_Reset_def)
qed

lemma RecordSuccessfulAuthentication_cases:
  assumes "RecordSuccessfulAuthentication now p = (r, p')"
  obtains (refused) err where "r = Some err" and "p' = p"
  | (counted) "ensureAuthenticationAllowed now p = None" and "r = None"
      and "p' = p\<lparr>pw_AuthState := as_Reset now\<rparr>"
proof (cases "pw_ensureChangeAllowed now p = None \<and> ensureAuthenticationAllowed now p = None")
  case False
  with assms have "\<exists>err. r = Some err \<and> p' = p"
    by (auto simp: RecordSuccessfulAuthentication_def refuse_def split: option.splits)
  then show thesis using refused by blast
next
  case True
  with assms show thesis
    by (intro counted) (simp_all add: RecordSuccessfulAuthentication_def)
qed

text \<open>While a password is locked, no attempt is accepted, and the reason is the lock.\<close>

lemma locked_refuses:
  assumes "as_LockedUntil (pw_AuthState p) = Some u" and "latestUpdatedAt p \<le> now" and "now < u"
    and "now \<noteq> 0"
  shows "ensureAuthenticationAllowed now p =
      Some (Wrap ''validate password for authentication: '' (Sentinel (S_pwd Pwd_ErrLocked)) '''')"
  using assms
  by (auto simp: ensureAuthenticationAllowed_def as_Validate_def latestUpdatedAt_def split: if_splits)


section \<open>The invariant of a password\<close>

definition auth_state_wf :: "auth_state \<Rightarrow> bool" where
  "auth_state_wf s \<longleftrightarrow>
     0 \<le> as_FailedAttempts s \<and> as_UpdatedAt s \<noteq> 0 \<and>
     (as_LockedUntil s = None \<longleftrightarrow> as_LockReason s = None) \<and>
     (as_FailedAttempts s = 0 \<longleftrightarrow> as_LastFailedAt s = None) \<and>
     (as_LastFailedAt s \<noteq> None \<longrightarrow> as_LastFailedAt s = Some (as_UpdatedAt s)) \<and>
     (\<forall>u. as_LockedUntil s = Some u \<longrightarrow> as_UpdatedAt s < u \<and> 0 < as_FailedAttempts s)"

definition pw_credential_wf :: "pw_credential \<Rightarrow> bool" where
  "pw_credential_wf c \<longleftrightarrow>
     pc_CreatedAt c \<noteq> 0 \<and> pc_CreatedAt c \<le> pc_PasswordUpdatedAt c \<and>
     pc_PasswordUpdatedAt c \<le> pc_UpdatedAt c \<and>
     (\<forall>x. pc_ExpiresAt c = Some x \<longrightarrow> pc_PasswordUpdatedAt c < x) \<and>
     (\<forall>x. pc_CompromisedAt c = Some x \<longrightarrow> pc_MustChange c \<and> pc_PasswordUpdatedAt c \<le> x)"

definition password_wf :: "password \<Rightarrow> bool" where
  "password_wf p \<longleftrightarrow>
     pw_IdentityID p \<noteq> uuid_nil \<and> pw_credential_wf (pw_Credential p) \<and> auth_state_wf (pw_AuthState p)"

lemmas password_wf_defs = password_wf_def pw_credential_wf_def auth_state_wf_def

lemma New_password_wf: "New_password i h m x now = Inr p \<Longrightarrow> password_wf p"
  by (auto simp: New_password_def pc_new_def newAuthState_def password_wf_defs split: if_splits sum.splits)

lemma as_Reset_wf: "now \<noteq> 0 \<Longrightarrow> auth_state_wf (as_Reset now)"
  by (simp add: as_Reset_def auth_state_wf_def)

lemma pw_RecordFailedAttempt_wf:
  assumes "password_wf p" and "pw_RecordFailedAttempt policy now p = (r, p')"
  shows "password_wf p'"
  using assms(2)
proof (cases rule: pw_RecordFailedAttempt_cases)
  case refused
  with assms(1) show ?thesis by simp
next
  case counted
  have "0 \<le> failures (pw_AuthState p)"
    using assms(1) by (simp add: password_wf_defs failures_def)
  moreover have "now \<noteq> 0"
    using counted(2) by (simp add: ensureAuthenticationAllowed_ok)
  moreover have "0 < LockDuration policy"
    using counted(1) by (simp add: policy_Validate_def split: if_splits)
  ultimately show ?thesis
    using assms(1) unfolding counted(4) by (auto simp: password_wf_defs)
qed

lemma RecordSuccessfulAuthentication_wf:
  assumes "password_wf p" and "RecordSuccessfulAuthentication now p = (r, p')"
  shows "password_wf p'"
  using assms(2)
proof (cases rule: RecordSuccessfulAuthentication_cases)
  case refused
  with assms(1) show ?thesis by simp
next
  case counted
  with assms(1) show ?thesis
    by (simp add: password_wf_def as_Reset_wf ensureAuthenticationAllowed_ok)
qed

lemma pw_ensureChangeAllowed_ok:
  "pw_ensureChangeAllowed now p = None \<longleftrightarrow> now \<noteq> 0 \<and> latestUpdatedAt p \<le> now"
  by (auto simp: pw_ensureChangeAllowed_def)

lemma latestUpdatedAt_le:
  "latestUpdatedAt p \<le> now \<longleftrightarrow> as_UpdatedAt (pw_AuthState p) \<le> now \<and> pc_UpdatedAt (pw_Credential p) \<le> now"
  by (auto simp: latestUpdatedAt_def)

lemma pw_change_wf:
  assumes "password_wf p"
  shows "pw_Change h m x now p = (r, p') \<Longrightarrow> password_wf p' \<and> (r \<noteq> None \<longrightarrow> p' = p)"
    and "pw_RequireChange now p = (r, p') \<Longrightarrow> password_wf p' \<and> (r \<noteq> None \<longrightarrow> p' = p)"
    and "pw_MarkCompromised now p = (r, p') \<Longrightarrow> password_wf p' \<and> (r \<noteq> None \<longrightarrow> p' = p)"
    and "pw_Unlock now p = (r, p') \<Longrightarrow> password_wf p' \<and> (r \<noteq> None \<longrightarrow> p' = p)"
  subgoal
    using assms
    by (auto simp: pw_Change_def pc_Change_def pc_ensureChangeAllowed_def pw_ensureChangeAllowed_ok refuse_def
        password_wf_def pw_credential_wf_def as_Reset_wf latestUpdatedAt_le split: option.splits if_splits)
  subgoal
    using assms
    by (auto simp: pw_RequireChange_def pc_RequireChange_def pc_ensureChangeAllowed_def refuse_def
        password_wf_def pw_credential_wf_def split: option.splits if_splits)
  subgoal
    using assms
    by (auto simp: pw_MarkCompromised_def pc_MarkCompromised_def pc_ensureChangeAllowed_def refuse_def
        password_wf_def pw_credential_wf_def split: option.splits if_splits)
  subgoal
    using assms
    by (auto simp: pw_Unlock_def as_Unlock_def pw_ensureChangeAllowed_ok refuse_def
        password_wf_def as_Reset_wf split: option.splits if_splits)
  done


section \<open>Guessing\<close>

text \<open>
  A sequence of wrong passwords at the given times: how many of them were counted, and the password
  afterwards. The others were refused before the count, most by the lock.
\<close>

fun guesses :: "failure_policy \<Rightarrow> password \<Rightarrow> gotime list \<Rightarrow> nat \<times> password" where
  "guesses policy p [] = (0, p)"
| "guesses policy p (t # ts) =
     (case pw_RecordFailedAttempt policy t p of
        (Inl _, p) \<Rightarrow> guesses policy p ts
      | (Inr _, p) \<Rightarrow> (case guesses policy p ts of (n, p) \<Rightarrow> (Suc n, p)))"

text \<open>What may still be counted before \<open>end\<close>: nothing if the lock lasts that long.\<close>

definition guesses_left :: "failure_policy \<Rightarrow> gotime \<Rightarrow> auth_state \<Rightarrow> int" where
  "guesses_left policy until s =
     (if \<exists>u. as_LockedUntil s = Some u \<and> until \<le> u then 0
      else max 1 (MaxAttempts policy - failures s))"

lemma guesses_bounded:
  assumes "\<forall>t \<in> set ts. start \<le> t \<and> t < start + LockDuration policy"
  shows "int (fst (guesses policy p ts)) +
      guesses_left policy (start + LockDuration policy) (pw_AuthState (snd (guesses policy p ts)))
     \<le> guesses_left policy (start + LockDuration policy) (pw_AuthState p)"
  using assms
proof (induction ts arbitrary: p)
  case Nil
  show ?case by simp
next
  case (Cons t ts)
  obtain r p1 where r: "pw_RecordFailedAttempt policy t p = (r, p1)" by fastforce
  then show ?case
  proof (cases rule: pw_RecordFailedAttempt_cases)
    case refused
    with r Cons show ?thesis by simp
  next
    case counted
    let ?D = "LockDuration policy"
    have t: "start \<le> t" "t < start + ?D" using Cons.prems by auto
    have "\<not> (\<exists>u. as_LockedUntil (pw_AuthState p) = Some u \<and> start + ?D \<le> u)"
      using counted(2) t by (fastforce simp: ensureAuthenticationAllowed_ok)
    then have "guesses_left policy (start + ?D) (pw_AuthState p1) + 1
        \<le> guesses_left policy (start + ?D) (pw_AuthState p)"
      using t unfolding guesses_left_def counted(4) failures_def [of "pw_AuthState (p\<lparr>pw_AuthState := _\<rparr>)"]
      by auto
    moreover have "int (fst (guesses policy p1 ts)) +
        guesses_left policy (start + ?D) (pw_AuthState (snd (guesses policy p1 ts)))
        \<le> guesses_left policy (start + ?D) (pw_AuthState p1)"
      using Cons by simp
    ultimately show ?thesis
      using r counted(3) by (auto simp: case_prod_beta)
  qed
qed

lemma guesses_left_nonneg: "0 \<le> guesses_left policy until s"
  by (simp add: guesses_left_def le_max_iff_disj)

lemma guesses_left_none: "guesses_left policy until s = 0 \<longleftrightarrow> (\<exists>u. as_LockedUntil s = Some u \<and> until \<le> u)"
  by (auto simp: guesses_left_def max_def split: if_splits)

lemma guesses_left_max:
  assumes "auth_state_wf s" and "policy_Validate policy = None"
  shows "guesses_left policy until s \<le> MaxAttempts policy"
  using assms by (auto simp: guesses_left_def failures_def auth_state_wf_def policy_Validate_def split: if_splits)


section \<open>Calls\<close>

text \<open>The calls the services make on a stored password.\<close>

datatype password_call =
  PW_Change string bool "gotime option" gotime
| PW_RequireChange gotime
| PW_MarkCompromised gotime
| PW_Fail failure_policy gotime
| PW_Succeed gotime
| PW_Unlock gotime

fun password_do :: "password_call \<Rightarrow> password \<Rightarrow> password" where
  "password_do (PW_Change h m x now) p = snd (pw_Change h m x now p)"
| "password_do (PW_RequireChange now) p = snd (pw_RequireChange now p)"
| "password_do (PW_MarkCompromised now) p = snd (pw_MarkCompromised now p)"
| "password_do (PW_Fail policy now) p = snd (pw_RecordFailedAttempt policy now p)"
| "password_do (PW_Succeed now) p = snd (RecordSuccessfulAuthentication now p)"
| "password_do (PW_Unlock now) p = snd (pw_Unlock now p)"

lemma password_do_wf:
  assumes "password_wf p"
  shows "password_wf (password_do c p)"
proof (cases c)
  case (PW_Change h m x now)
  with pw_change_wf(1) [OF assms surjective_pairing] show ?thesis by simp
next
  case (PW_RequireChange now)
  with pw_change_wf(2) [OF assms surjective_pairing] show ?thesis by simp
next
  case (PW_MarkCompromised now)
  with pw_change_wf(3) [OF assms surjective_pairing] show ?thesis by simp
next
  case (PW_Fail policy now)
  with pw_RecordFailedAttempt_wf [OF assms surjective_pairing] show ?thesis by simp
next
  case (PW_Succeed now)
  with RecordSuccessfulAuthentication_wf [OF assms surjective_pairing] show ?thesis by simp
next
  case (PW_Unlock now)
  with pw_change_wf(4) [OF assms surjective_pairing] show ?thesis by simp
qed

lemma password_run_wf: "password_wf p \<Longrightarrow> password_wf (fold password_do cs p)"
  by (induction cs arbitrary: p) (simp_all add: password_do_wf)

end
