(* ===== verification/Identity_Challenge.thy ===== *)
theory Identity_Challenge
  imports Identity_Common
begin

text \<open>
  The challenges that prove control of an e-mail address, of a phone number, or reset a password:
  \<open>internal/domain/emailverificationchallenge\<close>, \<open>phoneverificationchallenge\<close> and
  \<open>passwordresetchallenge\<close>. The three packages are the same up to the name in their texts and the
  identifier of what they verify, so one record and one definition per method take the package as
  \<open>challenge_kind\<close>; \<open>ch_SubjectID\<close> is \<open>EmailID\<close>, \<open>PhoneID\<close> or \<open>IdentityID\<close>.

  \<open>Attempts\<close> is a Go \<open>int\<close>, here an integer: it is incremented only below \<open>MaxAttempts\<close>, another
  \<open>int\<close>, so it does not overflow (\<open>challenge_wf\<close>).
\<close>

section \<open>Types\<close>

fun challenge_name :: "challenge_kind \<Rightarrow> string" where
  "challenge_name EmailChallenge = ''email verification''"
| "challenge_name PhoneChallenge = ''phone verification''"
| "challenge_name ResetChallenge = ''password reset''"

fun subject_text :: "challenge_kind \<Rightarrow> string" where
  "subject_text EmailChallenge = ''email''"
| "subject_text PhoneChallenge = ''phone''"
| "subject_text ResetChallenge = ''identity''"

definition ch_NewTokenHash :: "challenge_kind \<Rightarrow> string \<Rightarrow> ierror + string" where
  "ch_NewTokenHash kind value =
     (if \<not> HasText value then Inl (Fresh (challenge_name kind @ '' token hash is required'')) else Inr value)"

datatype attempt_outcome = AttemptOutcomeRecorded | AttemptOutcomeExhausted

record challenge =
  ch_ID :: uuid
  ch_SubjectID :: uuid
  ch_TokenHash :: string
  ch_Attempts :: int
  ch_MaxAttempts :: int
  ch_RequestedFromIP :: "string option"
  ch_ConsumedFromIP :: "string option"
  ch_CreatedAt :: gotime
  ch_ExpiresAt :: gotime
  ch_LastAttemptAt :: "gotime option"
  ch_ConsumedAt :: "gotime option"
  ch_RevokedAt :: "gotime option"

abbreviation (input) chal :: "challenge_kind \<Rightarrow> challenge_sentinel \<Rightarrow> ierror" where
  "chal kind s \<equiv> Sentinel (S_chal kind s)"


section \<open>Methods\<close>

definition New_challenge ::
  "challenge_kind \<Rightarrow> uuid \<Rightarrow> uuid \<Rightarrow> string \<Rightarrow> int \<Rightarrow> gotime \<Rightarrow> string option \<Rightarrow> gotime \<Rightarrow> ierror + challenge" where
  "New_challenge kind challengeID subjectID tokenHash maxAttempts expiresAt requestedFromIP now =
     (let msg = ''create '' @ challenge_name kind @ '' challenge: ''
      in if challengeID = uuid_nil then Inl (Fresh (msg @ ''identifier is required''))
         else if subjectID = uuid_nil
         then Inl (Fresh (msg @ subject_text kind @ '' identifier is invalid''))
         else if maxAttempts \<le> 0 then Inl (Fresh (msg @ ''max attempts must be positive''))
         else if is_zero now \<or> \<not> after expiresAt now then Inl (Fresh (msg @ ''expiration is invalid''))
         else Inr \<lparr>ch_ID = challengeID, ch_SubjectID = subjectID, ch_TokenHash = tokenHash,
                   ch_Attempts = 0, ch_MaxAttempts = maxAttempts, ch_RequestedFromIP = requestedFromIP,
                   ch_ConsumedFromIP = None, ch_CreatedAt = now, ch_ExpiresAt = expiresAt,
                   ch_LastAttemptAt = None, ch_ConsumedAt = None, ch_RevokedAt = None\<rparr>)"

definition latestAttemptAt :: "challenge \<Rightarrow> gotime" where
  "latestAttemptAt c =
     (if ch_LastAttemptAt c \<noteq> None \<and> after (the (ch_LastAttemptAt c)) (ch_CreatedAt c)
      then the (ch_LastAttemptAt c) else ch_CreatedAt c)"

definition ch_latestChangedAt :: "challenge \<Rightarrow> gotime" where
  "ch_latestChangedAt c = latest (latestAttemptAt c) [ch_ConsumedAt c, ch_RevokedAt c]"

definition ensureAttemptAllowed :: "challenge_kind \<Rightarrow> gotime \<Rightarrow> challenge \<Rightarrow> ierror option" where
  "ensureAttemptAllowed kind now c =
     (let msg = ''validate '' @ challenge_name kind @ '' challenge for attempt: ''
      in if is_zero now \<or> before now (ch_latestChangedAt c) then Some (Fresh (msg @ ''time is invalid''))
         else if ch_ConsumedAt c \<noteq> None then Some (Wrap msg (chal kind Cha_ErrConsumed) '''')
         else if ch_RevokedAt c \<noteq> None then Some (Wrap msg (chal kind Cha_ErrRevoked) '''')
         else if \<not> before now (ch_ExpiresAt c) then Some (Wrap msg (chal kind Cha_ErrExpired) '''')
         else if ch_Attempts c \<ge> ch_MaxAttempts c
         then Some (Wrap msg (chal kind Cha_ErrAttemptsExhausted) '''')
         else None)"

definition ch_RecordFailedAttempt ::
  "challenge_kind \<Rightarrow> gotime \<Rightarrow> challenge \<Rightarrow> (ierror + attempt_outcome) \<times> challenge" where
  "ch_RecordFailedAttempt kind now c =
     (case ensureAttemptAllowed kind now c of
        Some err \<Rightarrow> (Inl (Wrap (''record failed '' @ challenge_name kind @ '' attempt: '') err ''''), c)
      | None \<Rightarrow>
          (let c = c\<lparr>ch_Attempts := ch_Attempts c + 1, ch_LastAttemptAt := Some now\<rparr>
           in if ch_Attempts c = ch_MaxAttempts c then (Inr AttemptOutcomeExhausted, c)
              else (Inr AttemptOutcomeRecorded, c)))"

definition Consume ::
  "challenge_kind \<Rightarrow> string option \<Rightarrow> gotime \<Rightarrow> challenge \<Rightarrow> ierror option \<times> challenge" where
  "Consume kind consumedFromIP now c =
     (case ensureAttemptAllowed kind now c of
        Some err \<Rightarrow> refuse (''consume '' @ challenge_name kind @ '' challenge: '') err c
      | None \<Rightarrow>
          (None, c\<lparr>ch_Attempts := ch_Attempts c + 1, ch_LastAttemptAt := Some now,
                   ch_ConsumedAt := Some now, ch_ConsumedFromIP := consumedFromIP\<rparr>))"

definition ch_Revoke :: "challenge_kind \<Rightarrow> gotime \<Rightarrow> challenge \<Rightarrow> ierror option \<times> challenge" where
  "ch_Revoke kind now c =
     (let msg = ''revoke '' @ challenge_name kind @ '' challenge: ''
      in if ch_RevokedAt c \<noteq> None then (None, c)
         else if ch_ConsumedAt c \<noteq> None then refuse msg (chal kind Cha_ErrConsumed) c
         else if is_zero now \<or> before now (ch_latestChangedAt c)
         then (Some (Fresh (msg @ ''time is invalid'')), c)
         else (None, c\<lparr>ch_RevokedAt := Some now\<rparr>))"

text \<open>The packages, one instance of the methods each.\<close>

definition email_New ::
  "uuid \<Rightarrow> uuid \<Rightarrow> string \<Rightarrow> int \<Rightarrow> gotime \<Rightarrow> string option \<Rightarrow> gotime \<Rightarrow> ierror + challenge" where
  "email_New = New_challenge EmailChallenge"

definition email_RecordFailedAttempt :: "gotime \<Rightarrow> challenge \<Rightarrow> (ierror + attempt_outcome) \<times> challenge" where
  "email_RecordFailedAttempt = ch_RecordFailedAttempt EmailChallenge"

definition email_Consume :: "string option \<Rightarrow> gotime \<Rightarrow> challenge \<Rightarrow> ierror option \<times> challenge" where
  "email_Consume = Consume EmailChallenge"

definition email_Revoke :: "gotime \<Rightarrow> challenge \<Rightarrow> ierror option \<times> challenge" where
  "email_Revoke = ch_Revoke EmailChallenge"

definition phone_New ::
  "uuid \<Rightarrow> uuid \<Rightarrow> string \<Rightarrow> int \<Rightarrow> gotime \<Rightarrow> string option \<Rightarrow> gotime \<Rightarrow> ierror + challenge" where
  "phone_New = New_challenge PhoneChallenge"

definition phone_RecordFailedAttempt :: "gotime \<Rightarrow> challenge \<Rightarrow> (ierror + attempt_outcome) \<times> challenge" where
  "phone_RecordFailedAttempt = ch_RecordFailedAttempt PhoneChallenge"

definition phone_Consume :: "string option \<Rightarrow> gotime \<Rightarrow> challenge \<Rightarrow> ierror option \<times> challenge" where
  "phone_Consume = Consume PhoneChallenge"

definition phone_Revoke :: "gotime \<Rightarrow> challenge \<Rightarrow> ierror option \<times> challenge" where
  "phone_Revoke = ch_Revoke PhoneChallenge"


section \<open>The invariant\<close>

text \<open>\<open>ch_live\<close>: an attempt may still succeed, at a time before the expiration.\<close>

definition challenge_wf :: "challenge \<Rightarrow> bool" where
  "challenge_wf c \<longleftrightarrow>
     ch_ID c \<noteq> uuid_nil \<and> ch_SubjectID c \<noteq> uuid_nil \<and>
     0 \<le> ch_Attempts c \<and> ch_Attempts c \<le> ch_MaxAttempts c \<and> 0 < ch_MaxAttempts c \<and>
     ch_CreatedAt c < ch_ExpiresAt c \<and>
     (ch_Attempts c = 0 \<longleftrightarrow> ch_LastAttemptAt c = None) \<and>
     (\<forall>t. ch_LastAttemptAt c = Some t \<longrightarrow> ch_CreatedAt c \<le> t \<and> t < ch_ExpiresAt c) \<and>
     (ch_ConsumedAt c \<noteq> None \<longrightarrow> ch_ConsumedAt c = ch_LastAttemptAt c \<and> ch_RevokedAt c = None)"

definition ch_live :: "challenge \<Rightarrow> bool" where
  "ch_live c \<longleftrightarrow> ch_ConsumedAt c = None \<and> ch_RevokedAt c = None \<and> ch_Attempts c < ch_MaxAttempts c"

lemma New_challenge_wf:
  "New_challenge kind i s h m x ip now = Inr c \<Longrightarrow> challenge_wf c \<and> ch_live c \<and> ch_Attempts c = 0"
  by (auto simp: New_challenge_def Let_def challenge_wf_def ch_live_def split: if_splits)

lemma ensureAttemptAllowed_ok:
  "ensureAttemptAllowed kind now c = None \<longleftrightarrow>
     now \<noteq> 0 \<and> ch_latestChangedAt c \<le> now \<and> now < ch_ExpiresAt c \<and> ch_live c"
  by (auto simp: ensureAttemptAllowed_def Let_def ch_live_def)

lemma latestAttemptAt_le:
  "latestAttemptAt c \<le> n \<longleftrightarrow> ch_CreatedAt c \<le> n \<and> (\<forall>t. ch_LastAttemptAt c = Some t \<longrightarrow> t \<le> n)"
  by (auto simp: latestAttemptAt_def)

lemma ch_latestChangedAt_le:
  "ch_latestChangedAt c \<le> n \<longleftrightarrow>
     ch_CreatedAt c \<le> n \<and> (\<forall>t. ch_LastAttemptAt c = Some t \<or> ch_ConsumedAt c = Some t \<or>
       ch_RevokedAt c = Some t \<longrightarrow> t \<le> n)"
  unfolding ch_latestChangedAt_def latest_le_iff latestAttemptAt_le by auto

lemma ch_RecordFailedAttempt_eq:
  "ch_RecordFailedAttempt kind now c =
     (case ensureAttemptAllowed kind now c of
        Some err \<Rightarrow> (Inl (Wrap (''record failed '' @ challenge_name kind @ '' attempt: '') err ''''), c)
      | None \<Rightarrow>
          (Inr (if ch_Attempts c + 1 = ch_MaxAttempts c then AttemptOutcomeExhausted else AttemptOutcomeRecorded),
           c\<lparr>ch_Attempts := ch_Attempts c + 1, ch_LastAttemptAt := Some now\<rparr>))"
  by (simp add: ch_RecordFailedAttempt_def Let_def split: option.splits)


section \<open>Runs of attempts\<close>

text \<open>The calls a service makes on a stored challenge, with the instants of its clock.\<close>

datatype challenge_call =
  FailedAttempt gotime
| Consumption "string option" gotime
| Revocation gotime

text \<open>What a call did: nothing, a counted attempt, the consumption, or the revocation.\<close>

datatype challenge_effect = Refused ierror | Counted attempt_outcome | Consumed | Withdrawn

fun challenge_step :: "challenge_kind \<Rightarrow> challenge_call \<Rightarrow> challenge \<Rightarrow> challenge_effect \<times> challenge" where
  "challenge_step kind (FailedAttempt now) c =
     (case ch_RecordFailedAttempt kind now c of
        (Inl err, c) \<Rightarrow> (Refused err, c) | (Inr x, c) \<Rightarrow> (Counted x, c))"
| "challenge_step kind (Consumption ip now) c =
     (case Consume kind ip now c of (Some err, c) \<Rightarrow> (Refused err, c) | (None, c) \<Rightarrow> (Consumed, c))"
| "challenge_step kind (Revocation now) c =
     (case ch_Revoke kind now c of (Some err, c) \<Rightarrow> (Refused err, c) | (None, c) \<Rightarrow> (Withdrawn, c))"

fun challenge_run ::
  "challenge_kind \<Rightarrow> challenge_call list \<Rightarrow> challenge \<Rightarrow> challenge_effect list \<times> challenge" where
  "challenge_run kind [] c = ([], c)"
| "challenge_run kind (k # ks) c =
     (case challenge_step kind k c of
        (e, c) \<Rightarrow> (case challenge_run kind ks c of (es, c) \<Rightarrow> (e # es, c)))"

definition is_attempt :: "challenge_effect \<Rightarrow> bool" where
  "is_attempt e = (case e of Counted _ \<Rightarrow> True | Consumed \<Rightarrow> True | _ \<Rightarrow> False)"

lemma challenge_step_cases:
  assumes "challenge_step kind k c = (e, c')"
  obtains (refused) err where "e = Refused err" and "c' = c"
  | (counted) now x where "k = FailedAttempt now" and "e = Counted x" and "ensureAttemptAllowed kind now c = None"
      and "c' = c\<lparr>ch_Attempts := ch_Attempts c + 1, ch_LastAttemptAt := Some now\<rparr>"
  | (consumed) ip now where "k = Consumption ip now" and "e = Consumed"
      and "ensureAttemptAllowed kind now c = None"
      and "c' = c\<lparr>ch_Attempts := ch_Attempts c + 1, ch_LastAttemptAt := Some now,
                  ch_ConsumedAt := Some now, ch_ConsumedFromIP := ip\<rparr>"
  | (revoked) now where "k = Revocation now" and "e = Withdrawn" and "ch_RevokedAt c \<noteq> None" and "c' = c"
  | (withdrawn) now where "k = Revocation now" and "e = Withdrawn" and "ch_RevokedAt c = None"
      and "ch_ConsumedAt c = None" and "c' = c\<lparr>ch_RevokedAt := Some now\<rparr>"
proof (cases k)
  case (FailedAttempt now)
  show thesis
  proof (cases "ensureAttemptAllowed kind now c")
    case None
    with FailedAttempt assms show thesis
      by (intro counted [OF FailedAttempt _ None, of "if ch_Attempts c + 1 = ch_MaxAttempts c
            then AttemptOutcomeExhausted else AttemptOutcomeRecorded"])
         (simp_all add: ch_RecordFailedAttempt_eq)
  next
    case (Some err)
    with FailedAttempt assms have "\<exists>err. e = Refused err \<and> c' = c"
      by (auto simp: ch_RecordFailedAttempt_eq)
    then show thesis using refused by blast
  qed
next
  case (Consumption ip now)
  show thesis
  proof (cases "ensureAttemptAllowed kind now c")
    case None
    with Consumption assms show thesis
      by (intro consumed [OF Consumption]) (simp_all add: Consume_def)
  next
    case (Some err)
    with Consumption assms have "\<exists>err. e = Refused err \<and> c' = c"
      by (auto simp: Consume_def refuse_def)
    then show thesis using refused by blast
  qed
next
  case (Revocation now)
  show thesis
  proof (cases "ch_RevokedAt c = None")
    case False
    with Revocation assms show thesis by (intro revoked [OF Revocation]) (simp_all add: ch_Revoke_def)
  next
    case None: True
    show thesis
    proof (cases "ch_ConsumedAt c = None \<and> now \<noteq> 0 \<and> ch_latestChangedAt c \<le> now")
      case True
      with None Revocation assms show thesis
        by (intro withdrawn [OF Revocation]) (simp_all add: ch_Revoke_def)
    next
      case False
      with None Revocation assms have "\<exists>err. e = Refused err \<and> c' = c"
        by (auto simp: ch_Revoke_def Let_def refuse_def split: if_splits)
      then show thesis using refused by blast
    qed
  qed
qed

lemma challenge_step_wf:
  assumes "challenge_wf c" and "challenge_step kind k c = (e, c')"
  shows "challenge_wf c'"
  using assms(2)
proof (cases rule: challenge_step_cases)
  case counted
  with assms(1) show ?thesis
    by (auto simp: challenge_wf_def ensureAttemptAllowed_ok ch_latestChangedAt_le ch_live_def)
next
  case consumed
  with assms(1) show ?thesis
    by (auto simp: challenge_wf_def ensureAttemptAllowed_ok ch_latestChangedAt_le ch_live_def)
qed (use assms(1) in \<open>auto simp: challenge_wf_def\<close>)

text \<open>The attempts of a run are what the counter gained, and a dead challenge stays dead.\<close>

lemma challenge_run_attempts:
  assumes "challenge_wf c" and "challenge_run kind ks c = (es, c')"
  shows "challenge_wf c' \<and> ch_MaxAttempts c' = ch_MaxAttempts c \<and>
     ch_Attempts c' = ch_Attempts c + int (length (filter is_attempt es))"
  using assms
proof (induction ks arbitrary: c es)
  case Nil
  then show ?case by simp
next
  case (Cons k ks)
  obtain e c1 where s: "challenge_step kind k c = (e, c1)" by fastforce
  then obtain es' where r: "challenge_run kind ks c1 = (es', c')" and es: "es = e # es'"
    using Cons.prems(2) by (auto split: prod.splits)
  have "ch_MaxAttempts c1 = ch_MaxAttempts c \<and>
      ch_Attempts c1 = ch_Attempts c + (if is_attempt e then 1 else 0)"
    using s by (cases rule: challenge_step_cases) (simp_all add: is_attempt_def)
  with Cons.IH [OF challenge_step_wf [OF Cons.prems(1) s] r] es show ?case by simp
qed

lemma dead_step:
  assumes "\<not> ch_live c" and "challenge_step kind k c = (e, c')"
  shows "\<not> ch_live c' \<and> \<not> is_attempt e"
  using assms(2)
proof (cases rule: challenge_step_cases)
  case counted
  with assms(1) show ?thesis by (simp add: ensureAttemptAllowed_ok)
next
  case consumed
  with assms(1) show ?thesis by (simp add: ensureAttemptAllowed_ok)
qed (use assms(1) in \<open>auto simp: is_attempt_def ch_live_def\<close>)

lemma dead_run:
  "\<not> ch_live c \<Longrightarrow> challenge_run kind ks c = (es, c') \<Longrightarrow> filter is_attempt es = [] \<and> \<not> ch_live c'"
proof (induction ks arbitrary: c es)
  case (Cons k ks)
  obtain e c1 where s: "challenge_step kind k c = (e, c1)" by fastforce
  with Cons.prems(2) obtain es' where "challenge_run kind ks c1 = (es', c')" "es = e # es'"
    by (auto split: prod.splits)
  with Cons.IH [of c1 es'] dead_step [OF Cons.prems(1) s] show ?case by simp
qed simp

text \<open>The effects that end a challenge: its consumption, its last attempt, its revocation.\<close>

lemma final_effect:
  assumes "challenge_wf c" and "challenge_step kind k c = (e, c')"
    and "e \<in> {Consumed, Counted AttemptOutcomeExhausted, Withdrawn}"
  shows "\<not> ch_live c'"
proof -
  have "ch_Attempts c + 1 = ch_MaxAttempts c" if "e = Counted AttemptOutcomeExhausted"
    using assms(2) that
    by (cases k) (auto simp: ch_RecordFailedAttempt_eq Consume_def ch_Revoke_def Let_def refuse_def
        split: option.splits if_splits)
  with assms(2,3) show ?thesis
    by (cases rule: challenge_step_cases) (auto simp: ch_live_def)
qed

lemma challenge_final:
  assumes "challenge_wf c" and "challenge_run kind ks c = (es, c')" and "es = as @ e # bs"
    and "e \<in> {Consumed, Counted AttemptOutcomeExhausted, Withdrawn}"
  shows "filter is_attempt bs = []"
  using assms(1-3)
proof (induction ks arbitrary: c es as)
  case Nil
  then show ?case by simp
next
  case (Cons k ks)
  obtain d c1 where s: "challenge_step kind k c = (d, c1)" by fastforce
  then obtain ds where r: "challenge_run kind ks c1 = (ds, c')" and es: "es = d # ds"
    using Cons.prems(2) by (auto split: prod.splits)
  show ?case
  proof (cases as)
    case Nil
    with es Cons.prems(3) have "d = e" "ds = bs" by simp_all
    with final_effect [OF Cons.prems(1) s] assms(4) dead_run [OF _ r] show ?thesis by simp
  next
    case (Cons a as')
    with es Cons.prems(3) have "ds = as' @ e # bs" by simp
    with Cons.IH [OF challenge_step_wf [OF Cons.prems(1) s] r] show ?thesis by simp
  qed
qed

end
