(* ===== verification/Identity_Recovery.thy ===== *)
theory Identity_Recovery
  imports Identity_Common
begin

text \<open>
  The recovery codes of an identity, \<open>internal/domain/recoverycodeset\<close>: a set of one-time codes that
  is disabled when the last code is used.
\<close>

section \<open>Codes\<close>

definition NewCodeHash :: "string \<Rightarrow> ierror + string" where
  "NewCodeHash value = (if \<not> HasText value then Inl (Fresh ''recovery code hash is required'') else Inr value)"

record code_definition =
  cd_ID :: uuid
  cd_Hash :: string

datatype use_outcome = UseOutcomeUsed | UseOutcomeExhausted

record recovery_code =
  rc_ID :: uuid
  rc_Hash :: string
  rc_CreatedAt :: gotime
  rc_UsedAt :: "gotime option"

definition newRecoveryCode :: "uuid \<Rightarrow> string \<Rightarrow> gotime \<Rightarrow> ierror + recovery_code" where
  "newRecoveryCode codeID hash now =
     (if codeID = uuid_nil then Inl (Fresh ''code identifier is invalid'')
      else if is_zero now then Inl (Fresh ''code creation time is invalid'')
      else Inr \<lparr>rc_ID = codeID, rc_Hash = hash, rc_CreatedAt = now, rc_UsedAt = None\<rparr>)"

definition rc_ChangedAt :: "recovery_code \<Rightarrow> gotime" where
  "rc_ChangedAt c =
     (if rc_UsedAt c \<noteq> None \<and> after (the (rc_UsedAt c)) (rc_CreatedAt c)
      then the (rc_UsedAt c) else rc_CreatedAt c)"

definition rc_Use :: "gotime \<Rightarrow> recovery_code \<Rightarrow> ierror option \<times> recovery_code" where
  "rc_Use now c =
     (if is_zero now \<or> before now (rc_ChangedAt c)
      then (Some (Fresh ''recovery code use time is invalid''), c)
      else if rc_UsedAt c \<noteq> None then (Some (Sentinel (S_rec Rec_ErrCodeUsed)), c)
      else (None, c\<lparr>rc_UsedAt := Some now\<rparr>))"

definition IsUsed :: "recovery_code \<Rightarrow> bool" where
  "IsUsed c \<longleftrightarrow> rc_UsedAt c \<noteq> None"


section \<open>The set\<close>

record recovery_code_set =
  rs_ID :: uuid
  rs_IdentityID :: uuid
  rs_Codes :: "recovery_code list"
  rs_CreatedAt :: gotime
  rs_ExpiresAt :: "gotime option"
  rs_DisabledAt :: "gotime option"

text \<open>The loop of \<open>New\<close>, with the identifiers and the hashes seen.\<close>

fun new_codes ::
  "uuid set \<Rightarrow> string set \<Rightarrow> gotime \<Rightarrow> code_definition list \<Rightarrow> ierror + recovery_code list" where
  "new_codes ids hashes now [] = Inr []"
| "new_codes ids hashes now (d # ds) =
     (case newRecoveryCode (cd_ID d) (cd_Hash d) now of
        Inl err \<Rightarrow> Inl (Wrap ''create recovery code set: '' err '''')
      | Inr code \<Rightarrow>
          if rc_ID code \<in> ids
          then Inl (Fresh ''create recovery code set: code identifier is duplicated'')
          else if rc_Hash code \<in> hashes
          then Inl (Fresh ''create recovery code set: code hash is duplicated'')
          else case new_codes (insert (rc_ID code) ids) (insert (rc_Hash code) hashes) now ds of
            Inl err \<Rightarrow> Inl err
          | Inr codes \<Rightarrow> Inr (code # codes))"

definition New_code_set ::
  "uuid \<Rightarrow> uuid \<Rightarrow> code_definition list \<Rightarrow> gotime option \<Rightarrow> gotime \<Rightarrow> ierror + recovery_code_set" where
  "New_code_set setID identityID definitions expiresAt now =
     (if setID = uuid_nil then Inl (Fresh ''create recovery code set: identifier is required'')
      else if identityID = uuid_nil
      then Inl (Fresh ''create recovery code set: identity identifier is invalid'')
      else if is_zero now then Inl (Fresh ''create recovery code set: time is invalid'')
      else if expiresAt \<noteq> None \<and> \<not> after (the expiresAt) now
      then Inl (Fresh ''create recovery code set: expiration must follow creation'')
      else if length definitions = 0
      then Inl (Fresh ''create recovery code set: at least one code is required'')
      else case new_codes {} {} now definitions of
        Inl err \<Rightarrow> Inl err
      | Inr codes \<Rightarrow>
          Inr \<lparr>rs_ID = setID, rs_IdentityID = identityID, rs_Codes = codes, rs_CreatedAt = now,
               rs_ExpiresAt = expiresAt, rs_DisabledAt = None\<rparr>)"

fun latest_use :: "gotime \<Rightarrow> recovery_code list \<Rightarrow> gotime" where
  "latest_use l [] = l"
| "latest_use l (c # cs) = latest_use (if after (rc_ChangedAt c) l then rc_ChangedAt c else l) cs"

definition latestCodeUseAt :: "recovery_code_set \<Rightarrow> gotime" where
  "latestCodeUseAt s = latest_use (rs_CreatedAt s) (rs_Codes s)"

definition rs_latestChangedAt :: "recovery_code_set \<Rightarrow> gotime" where
  "rs_latestChangedAt s =
     (if rs_DisabledAt s \<noteq> None \<and> after (the (rs_DisabledAt s)) (latestCodeUseAt s)
      then the (rs_DisabledAt s) else latestCodeUseAt s)"

definition codeIndex :: "uuid \<Rightarrow> recovery_code_set \<Rightarrow> nat option" where
  "codeIndex k s = index_by (\<lambda>c. rc_ID c = k) (rs_Codes s)"

definition unusedCodeCount :: "recovery_code_set \<Rightarrow> nat" where
  "unusedCodeCount s = length (filter (\<lambda>c. \<not> IsUsed c) (rs_Codes s))"

definition rs_Disable :: "gotime \<Rightarrow> recovery_code_set \<Rightarrow> ierror option \<times> recovery_code_set" where
  "rs_Disable now s =
     (if rs_DisabledAt s \<noteq> None then (None, s)
      else if is_zero now \<or> before now (rs_latestChangedAt s)
      then (Some (Fresh ''disable recovery code set: time is invalid''), s)
      else (None, s\<lparr>rs_DisabledAt := Some now\<rparr>))"

definition UseCode ::
  "uuid \<Rightarrow> gotime \<Rightarrow> recovery_code_set \<Rightarrow> (ierror + use_outcome) \<times> recovery_code_set" where
  "UseCode k now s =
     (if is_zero now \<or> before now (rs_latestChangedAt s)
      then (Inl (Fresh ''use recovery code: time is invalid''), s)
      else if rs_DisabledAt s \<noteq> None
      then (Inl (Wrap ''use recovery code: '' (Sentinel (S_rec Rec_ErrDisabled)) ''''), s)
      else if rs_ExpiresAt s \<noteq> None \<and> \<not> before now (the (rs_ExpiresAt s))
      then (Inl (Wrap ''use recovery code: '' (Sentinel (S_rec Rec_ErrExpired)) ''''), s)
      else case codeIndex k s of
        None \<Rightarrow> (Inl (Wrap ''use recovery code: '' (Sentinel (S_rec Rec_ErrCodeNotFound)) ''''), s)
      | Some i \<Rightarrow>
          (case rc_Use now (rs_Codes s ! i) of
             (Some err, c) \<Rightarrow>
               (Inl (Wrap ''use recovery code: '' err ''''), s\<lparr>rs_Codes := (rs_Codes s)[i := c]\<rparr>)
           | (None, c) \<Rightarrow>
               (let s = s\<lparr>rs_Codes := (rs_Codes s)[i := c]\<rparr>
                in if unusedCodeCount s = 0
                   then (Inr UseOutcomeExhausted, s\<lparr>rs_DisabledAt := Some now\<rparr>)
                   else (Inr UseOutcomeUsed, s))))"


section \<open>The invariant\<close>

text \<open>
  Identifiers and hashes are distinct; a set whose codes are all used is disabled; no code was used
  outside the life of the set.
\<close>

definition code_set_wf :: "recovery_code_set \<Rightarrow> bool" where
  "code_set_wf s \<longleftrightarrow>
     rs_Codes s \<noteq> [] \<and> distinct (map rc_ID (rs_Codes s)) \<and> distinct (map rc_Hash (rs_Codes s)) \<and>
     (unusedCodeCount s = 0 \<longrightarrow> rs_DisabledAt s \<noteq> None) \<and>
     (\<forall>c \<in> set (rs_Codes s). rc_CreatedAt c = rs_CreatedAt s \<and>
        (\<forall>t. rc_UsedAt c = Some t \<longrightarrow> rs_CreatedAt s \<le> t \<and> (\<forall>x. rs_ExpiresAt s = Some x \<longrightarrow> t < x)))"

lemma new_codes_ok:
  "new_codes ids hashes now ds = Inr cs \<Longrightarrow>
     map rc_ID cs = map cd_ID ds \<and> map rc_Hash cs = map cd_Hash ds \<and>
     distinct (map cd_ID ds) \<and> distinct (map cd_Hash ds) \<and>
     cd_ID ` set ds \<inter> ids = {} \<and> cd_Hash ` set ds \<inter> hashes = {} \<and>
     (\<forall>c \<in> set cs. rc_UsedAt c = None \<and> rc_CreatedAt c = now)"
proof (induction ids hashes now ds arbitrary: cs rule: new_codes.induct)
  case (2 ids hashes now d ds)
  from "2.prems" obtain c cs' where c: "newRecoveryCode (cd_ID d) (cd_Hash d) now = Inr c"
    and new: "rc_ID c \<notin> ids" "rc_Hash c \<notin> hashes" and cs: "cs = c # cs'"
    and r: "new_codes (insert (rc_ID c) ids) (insert (rc_Hash c) hashes) now ds = Inr cs'"
    by (auto split: sum.splits if_splits)
  have "rc_ID c = cd_ID d \<and> rc_Hash c = cd_Hash d \<and> rc_UsedAt c = None \<and> rc_CreatedAt c = now"
    using c by (auto simp: newRecoveryCode_def split: if_splits)
  with "2.IH" [OF c new r] new cs show ?case by auto
qed simp

lemma unused_pos: "(\<exists>c \<in> set (rs_Codes s). rc_UsedAt c = None) \<longleftrightarrow> unusedCodeCount s \<noteq> 0"
  by (auto simp: unusedCodeCount_def IsUsed_def filter_empty_conv)

lemma New_code_set_wf:
  assumes "New_code_set i d ds x now = Inr s"
  shows "code_set_wf s \<and> rs_DisabledAt s = None \<and> map rc_ID (rs_Codes s) = map cd_ID ds \<and>
     unusedCodeCount s = length ds"
proof -
  obtain cs where n: "new_codes {} {} now ds = Inr cs" and ds: "ds \<noteq> []"
    and s: "rs_Codes s = cs" "rs_CreatedAt s = now" "rs_DisabledAt s = None"
    using assms by (auto simp: New_code_set_def split: if_splits sum.splits)
  note ok = new_codes_ok [OF n]
  then have len: "length cs = length ds" by (metis length_map)
  have "filter (\<lambda>c. \<not> IsUsed c) cs = cs"
    using ok by (simp add: IsUsed_def)
  with ok len ds s show ?thesis
    by (auto simp: code_set_wf_def unusedCodeCount_def)
qed

lemma new_code_set_unused:
  "New_code_set i d ds x now = Inr s \<Longrightarrow> \<forall>c \<in> set (rs_Codes s). rc_UsedAt c = None"
  by (auto simp: New_code_set_def dest!: new_codes_ok split: if_splits sum.splits)

lemma latest_use_le: "latest_use l cs \<le> n \<longleftrightarrow> l \<le> n \<and> (\<forall>c \<in> set cs. rc_ChangedAt c \<le> n)"
  by (induction l cs rule: latest_use.induct) auto

lemma rs_latestChangedAt_le:
  "rs_latestChangedAt s \<le> n \<Longrightarrow> rs_CreatedAt s \<le> n \<and> (\<forall>c \<in> set (rs_Codes s). rc_ChangedAt c \<le> n)"
proof -
  have "latest_use (rs_CreatedAt s) (rs_Codes s) \<le> rs_latestChangedAt s"
    by (auto simp: rs_latestChangedAt_def latestCodeUseAt_def)
  then show "rs_latestChangedAt s \<le> n \<Longrightarrow> rs_CreatedAt s \<le> n \<and> (\<forall>c \<in> set (rs_Codes s). rc_ChangedAt c \<le> n)"
    using latest_use_le [of "rs_CreatedAt s" "rs_Codes s" n] by simp
qed

lemma ball_update: "\<forall>y \<in> set xs. P y \<Longrightarrow> P x \<Longrightarrow> \<forall>y \<in> set (xs[i := x]). P y"
  using set_update_subset_insert [of xs i x] by blast

text \<open>A code that is accepted was not used and is used now; nothing else changes.\<close>

lemma UseCode_cases:
  assumes "UseCode k now s = (r, s')"
  obtains (refused) err where "r = Inl err" and "s' = s"
  | (used) i where "codeIndex k s = Some i" and "rc_UsedAt (rs_Codes s ! i) = None"
      and "now \<noteq> 0" and "rs_latestChangedAt s \<le> now" and "rs_DisabledAt s = None"
      and "\<forall>x. rs_ExpiresAt s = Some x \<longrightarrow> now < x"
      and "rs_Codes s' = (rs_Codes s)[i := (rs_Codes s ! i)\<lparr>rc_UsedAt := Some now\<rparr>]"
      and "r = Inr (if unusedCodeCount s' = 0 then UseOutcomeExhausted else UseOutcomeUsed)"
      and "rs_DisabledAt s' = (if unusedCodeCount s' = 0 then Some now else None)"
      and "rs_CreatedAt s' = rs_CreatedAt s" and "rs_ExpiresAt s' = rs_ExpiresAt s"
proof (cases "now \<noteq> 0 \<and> rs_latestChangedAt s \<le> now \<and> rs_DisabledAt s = None \<and>
    (\<forall>x. rs_ExpiresAt s = Some x \<longrightarrow> now < x)")
  case False
  with assms have "\<exists>err. r = Inl err \<and> s' = s"
    by (auto simp: UseCode_def split: if_splits)
  then show thesis using refused by blast
next
  case ok: True
  show thesis
  proof (cases "codeIndex k s")
    case None
    with assms ok have "\<exists>err. r = Inl err \<and> s' = s"
      by (auto simp: UseCode_def split: if_splits)
    then show thesis using refused by blast
  next
    case (Some i)
    have i: "i < length (rs_Codes s)"
      using Some by (auto simp: codeIndex_def dest: index_by_Some)
    then have t: "rc_ChangedAt (rs_Codes s ! i) \<le> now"
      using ok rs_latestChangedAt_le by auto
    show thesis
    proof (cases "rc_UsedAt (rs_Codes s ! i)")
      case None
      with assms ok Some t show thesis
        by (intro used [OF Some None])
           (auto simp: UseCode_def rc_Use_def Let_def unusedCodeCount_def split: if_splits)
    next
      case used': (Some u)
      with assms ok Some t i have "\<exists>err. r = Inl err \<and> s' = s"
        by (auto simp: UseCode_def rc_Use_def split: if_splits)
      then show thesis using refused by blast
    qed
  qed
qed

lemma UseCode_wf:
  assumes "code_set_wf s" and "UseCode k now s = (r, s')"
  shows "code_set_wf s' \<and> map rc_ID (rs_Codes s') = map rc_ID (rs_Codes s)"
  using assms(2)
proof (cases rule: UseCode_cases)
  case refused
  with assms(1) show ?thesis by simp
next
  case (used i)
  let ?c = "(rs_Codes s ! i)\<lparr>rc_UsedAt := Some now\<rparr>"
  have i: "i < length (rs_Codes s)"
    using used(1) by (auto simp: codeIndex_def dest: index_by_Some)
  have ids: "map rc_ID (rs_Codes s') = map rc_ID (rs_Codes s)"
    "map rc_Hash (rs_Codes s') = map rc_Hash (rs_Codes s)"
    using i by (simp_all add: used(7) map_update list_update_same_conv)
  have fields: "rs_CreatedAt s' = rs_CreatedAt s" "rs_ExpiresAt s' = rs_ExpiresAt s"
    "unusedCodeCount s' = 0 \<longrightarrow> rs_DisabledAt s' \<noteq> None"
    using used by simp_all
  let ?ok = "\<lambda>c. rc_CreatedAt c = rs_CreatedAt s \<and>
        (\<forall>t. rc_UsedAt c = Some t \<longrightarrow> rs_CreatedAt s \<le> t \<and> (\<forall>x. rs_ExpiresAt s = Some x \<longrightarrow> t < x))"
  have old: "\<forall>c \<in> set (rs_Codes s). ?ok c"
    using assms(1) unfolding code_set_wf_def by blast
  then have "rc_CreatedAt (rs_Codes s ! i) = rs_CreatedAt s"
    using i by simp
  then have "?ok ?c"
    using used(6) rs_latestChangedAt_le [OF used(4)] by simp
  with old have "\<forall>c \<in> set (rs_Codes s'). ?ok c"
    unfolding used(7) by (rule ball_update)
  moreover have "rs_Codes s' \<noteq> []"
    unfolding used(7) list_update_nonempty using i by (cases "rs_Codes s") auto
  ultimately show ?thesis
    using assms(1) ids fields unfolding code_set_wf_def by simp
qed

lemma rs_Disable_wf:
  "code_set_wf s \<Longrightarrow> rs_Disable now s = (r, s') \<Longrightarrow> code_set_wf s' \<and> rs_Codes s' = rs_Codes s"
  by (auto simp: rs_Disable_def code_set_wf_def unusedCodeCount_def split: if_splits)


section \<open>Runs\<close>

datatype recovery_call = UseIt uuid gotime | DisableIt gotime

fun recovery_step :: "recovery_call \<Rightarrow> recovery_code_set \<Rightarrow> uuid list \<times> recovery_code_set" where
  "recovery_step (UseIt k now) s =
     (case UseCode k now s of (Inl _, s) \<Rightarrow> ([], s) | (Inr _, s) \<Rightarrow> ([k], s))"
| "recovery_step (DisableIt now) s = ([], snd (rs_Disable now s))"

text \<open>The codes a run of calls accepted, in order.\<close>

fun accepted :: "recovery_call list \<Rightarrow> recovery_code_set \<Rightarrow> uuid list \<times> recovery_code_set" where
  "accepted [] s = ([], s)"
| "accepted (c # cs) s =
     (case recovery_step c s of (ks, s) \<Rightarrow> (case accepted cs s of (ks', s) \<Rightarrow> (ks @ ks', s)))"

definition unused_ids :: "recovery_code_set \<Rightarrow> uuid set" where
  "unused_ids s = rc_ID ` {c \<in> set (rs_Codes s). rc_UsedAt c = None}"

lemma UseCode_unused:
  assumes "code_set_wf s" and "UseCode k now s = (Inr x, s')"
  shows "k \<in> unused_ids s \<and> unused_ids s' = unused_ids s - {k}"
  using assms(2)
proof (cases rule: UseCode_cases)
  case (used i)
  have i: "i < length (rs_Codes s)" "rc_ID (rs_Codes s ! i) = k"
    using used(1) by (auto simp: codeIndex_def dest: index_by_Some)
  have only: "c = rs_Codes s ! i" if "c \<in> set (rs_Codes s)" "rc_ID c = k" for c
    using that i assms(1) by (auto simp: code_set_wf_def distinct_map dest: inj_onD)
  have d: "distinct (rs_Codes s)"
    using assms(1) by (auto simp: code_set_wf_def distinct_map)
  have "set (rs_Codes s') = insert ((rs_Codes s ! i)\<lparr>rc_UsedAt := Some now\<rparr>) (set (rs_Codes s) - {rs_Codes s ! i})"
    using used(7) set_update_distinct [OF d i(1)] by simp
  then have "unused_ids s' = rc_ID ` ({c \<in> set (rs_Codes s). rc_UsedAt c = None} - {rs_Codes s ! i})"
    unfolding unused_ids_def by auto
  moreover have "k \<in> unused_ids s"
    using i used(2) unfolding unused_ids_def by (auto intro!: image_eqI [of _ _ "rs_Codes s ! i"])
  ultimately show ?thesis
    using only i by (auto simp: unused_ids_def)
qed simp

lemma rs_Disable_unused: "unused_ids (snd (rs_Disable now s)) = unused_ids s"
  by (simp add: rs_Disable_def unused_ids_def)

lemma recovery_step_wf: "code_set_wf s \<Longrightarrow> recovery_step c s = (ks, s') \<Longrightarrow> code_set_wf s'"
proof (cases c)
  case (UseIt k now)
  moreover obtain r t where "UseCode k now s = (r, t)" by fastforce
  ultimately show "code_set_wf s \<Longrightarrow> recovery_step c s = (ks, s') \<Longrightarrow> code_set_wf s'"
    using UseCode_wf by (auto split: sum.splits)
next
  case (DisableIt now)
  then show "code_set_wf s \<Longrightarrow> recovery_step c s = (ks, s') \<Longrightarrow> code_set_wf s'"
    using rs_Disable_wf by (metis recovery_step.simps(2) prod.collapse prod.inject)
qed

lemma accepted_once:
  "code_set_wf s \<Longrightarrow> accepted cs s = (ks, s') \<Longrightarrow>
     code_set_wf s' \<and> distinct ks \<and> set ks \<subseteq> unused_ids s \<and> unused_ids s' = unused_ids s - set ks"
proof (induction cs arbitrary: s ks)
  case (Cons c cs)
  obtain k1 s1 where s1: "recovery_step c s = (k1, s1)" by fastforce
  then obtain k2 where r: "accepted cs s1 = (k2, s')" and ks: "ks = k1 @ k2"
    using Cons.prems(2) by (auto split: prod.splits)
  have one: "distinct k1 \<and> set k1 \<subseteq> unused_ids s \<and> unused_ids s1 = unused_ids s - set k1"
    using s1 Cons.prems(1) UseCode_unused rs_Disable_unused
  proof (cases c)
    case (UseIt k now)
    obtain x s2 where u: "UseCode k now s = (x, s2)" by fastforce
    show ?thesis
    proof (cases x)
      case (Inl err)
      with u have "s2 = s" by (cases rule: UseCode_cases) auto
      with Inl u UseIt s1 show ?thesis by simp
    next
      case (Inr y)
      with u UseIt s1 UseCode_unused [OF Cons.prems(1)] show ?thesis by auto
    qed
  qed auto
  from Cons.IH [OF recovery_step_wf [OF Cons.prems(1) s1] r] one ks show ?case
    by auto
qed simp

end
