(* ===== verification/Identity_Mfa.thy ===== *)
theory Identity_Mfa
  imports Identity_Common
begin

text \<open>
  The second factors of an identity, \<open>internal/domain/mfa\<close>: TOTP generators and WebAuthn credentials,
  of which one may be primary.

  Byte slices are byte strings; \<open>bytes.Clone\<close> and \<open>slices.Clone\<close> copy, so they are the identity on
  values. \<open>timeStep\<close> and \<open>signCount\<close> are \<open>int64\<close>s, compared as signed numbers; \<open>digits\<close> and
  \<open>periodSeconds\<close> are Go \<open>int\<close>s the code only compares, here integers.
\<close>

section \<open>Types\<close>

datatype factor_type = FactorTypeTOTP | FactorTypeWebAuthn | OtherFactorType string

definition ParseFactorType :: "string \<Rightarrow> ierror + factor_type" where
  "ParseFactorType value =
     (if value = ''totp'' then Inr FactorTypeTOTP
      else if value = ''webauthn'' then Inr FactorTypeWebAuthn
      else Inl (Fresh ''unknown MFA factor type''))"

datatype totp_algorithm = TOTPAlgorithmSHA1 | TOTPAlgorithmSHA256 | TOTPAlgorithmSHA512 | OtherTOTPAlgorithm string

definition ParseTOTPAlgorithm :: "string \<Rightarrow> ierror + totp_algorithm" where
  "ParseTOTPAlgorithm value =
     (if value = ''sha1'' then Inr TOTPAlgorithmSHA1
      else if value = ''sha256'' then Inr TOTPAlgorithmSHA256
      else if value = ''sha512'' then Inr TOTPAlgorithmSHA512
      else Inl (Fresh ''unknown TOTP algorithm''))"

definition NewEncryptedSecret :: "string \<Rightarrow> ierror + string" where
  "NewEncryptedSecret value =
     (if length value = 0 then Inl (Fresh ''encrypted TOTP secret is required'') else Inr value)"

definition NewEncryptionKeyRef :: "string \<Rightarrow> ierror + string" where
  "NewEncryptionKeyRef value =
     (case NormalizeRequiredText value of (value, ok) \<Rightarrow>
        if \<not> ok then Inl (Fresh ''TOTP encryption key reference is required'') else Inr value)"

definition NewCredentialID :: "string \<Rightarrow> ierror + string" where
  "NewCredentialID value =
     (if length value = 0 then Inl (Fresh ''WebAuthn credential identifier is required'') else Inr value)"

definition NewPublicKey :: "string \<Rightarrow> ierror + string" where
  "NewPublicKey value =
     (if length value = 0 then Inl (Fresh ''WebAuthn public key is required'') else Inr value)"


section \<open>TOTP and WebAuthn\<close>

record totp =
  tp_SecretEncrypted :: string
  tp_EncryptionKeyRef :: string
  tp_Algorithm :: totp_algorithm
  tp_Digits :: int
  tp_PeriodSeconds :: int
  tp_LastUsedTimeStep :: "int64 option"
  tp_UpdatedAt :: gotime

definition newTOTP :: "string \<Rightarrow> string \<Rightarrow> totp_algorithm \<Rightarrow> int \<Rightarrow> int \<Rightarrow> gotime \<Rightarrow> ierror + totp" where
  "newTOTP secret keyRef alg digits periodSeconds now =
     (if digits \<noteq> 6 \<and> digits \<noteq> 8 then Inl (Fresh ''digits must be 6 or 8'')
      else if periodSeconds \<le> 0 then Inl (Fresh ''period must be positive'')
      else if is_zero now then Inl (Fresh ''creation time is invalid'')
      else Inr \<lparr>tp_SecretEncrypted = secret, tp_EncryptionKeyRef = keyRef, tp_Algorithm = alg,
                tp_Digits = digits, tp_PeriodSeconds = periodSeconds, tp_LastUsedTimeStep = None,
                tp_UpdatedAt = now\<rparr>)"

definition tp_RecordUse :: "int64 \<Rightarrow> gotime \<Rightarrow> totp \<Rightarrow> ierror option \<times> totp" where
  "tp_RecordUse timeStep now t =
     (if is_zero now \<or> before now (tp_UpdatedAt t) then (Some (Fresh ''TOTP use time is invalid''), t)
      else if sint timeStep < 0 then (Some (Fresh ''time step is invalid''), t)
      else if tp_LastUsedTimeStep t \<noteq> None \<and> sint timeStep \<le> sint (the (tp_LastUsedTimeStep t))
      then (Some (Sentinel (S_mfa Mfa_ErrTOTPReplay)), t)
      else (None, t\<lparr>tp_LastUsedTimeStep := Some timeStep, tp_UpdatedAt := now\<rparr>))"

record webauthn_credential =
  wc_CredentialID :: string
  wc_PublicKey :: string
  wc_AAGUID :: "uuid option"
  wc_Transports :: "string list"
  wc_SignCount :: int64
  wc_BackupEligible :: bool
  wc_BackupState :: bool
  wc_CreatedAt :: gotime
  wc_LastUsedAt :: "gotime option"

definition newWebAuthnCredential ::
  "string \<Rightarrow> string \<Rightarrow> int64 \<Rightarrow> uuid option \<Rightarrow> string list \<Rightarrow> bool \<Rightarrow> bool \<Rightarrow> gotime
     \<Rightarrow> ierror + webauthn_credential" where
  "newWebAuthnCredential credentialID publicKey signCount aaguid transports backupEligible backupState now =
     (if sint signCount < 0 then Inl (Fresh ''signature counter is invalid'')
      else if aaguid = Some uuid_nil then Inl (Fresh ''AAGUID is invalid'')
      else if HasDuplicates transports then Inl (Fresh ''transport is duplicated'')
      else if backupState \<and> \<not> backupEligible
      then Inl (Fresh ''backup state requires backup eligibility'')
      else if is_zero now then Inl (Fresh ''creation time is invalid'')
      else Inr \<lparr>wc_CredentialID = credentialID, wc_PublicKey = publicKey, wc_AAGUID = aaguid,
                wc_Transports = transports, wc_SignCount = signCount, wc_BackupEligible = backupEligible,
                wc_BackupState = backupState, wc_CreatedAt = now, wc_LastUsedAt = None\<rparr>)"

definition wc_latestChangedAt :: "webauthn_credential \<Rightarrow> gotime" where
  "wc_latestChangedAt c =
     (if wc_LastUsedAt c \<noteq> None \<and> after (the (wc_LastUsedAt c)) (wc_CreatedAt c)
      then the (wc_LastUsedAt c) else wc_CreatedAt c)"

definition wc_RecordUse ::
  "int64 \<Rightarrow> bool \<Rightarrow> gotime \<Rightarrow> webauthn_credential \<Rightarrow> ierror option \<times> webauthn_credential" where
  "wc_RecordUse signCount backupState now c =
     (if is_zero now \<or> before now (wc_latestChangedAt c)
      then (Some (Fresh ''WebAuthn credential use time is invalid''), c)
      else if sint signCount < 0 then (Some (Fresh ''signature counter is invalid''), c)
      else if sint (wc_SignCount c) > 0 \<and> sint signCount \<le> sint (wc_SignCount c)
      then (Some (Sentinel (S_mfa Mfa_ErrWebAuthnCounterRollback)), c)
      else if backupState \<and> \<not> wc_BackupEligible c then (Some (Fresh ''backup state is invalid''), c)
      else (None,
        (if sint signCount > sint (wc_SignCount c) then c\<lparr>wc_SignCount := signCount\<rparr> else c)
          \<lparr>wc_BackupState := backupState, wc_LastUsedAt := Some now\<rparr>))"

definition wc_HasID :: "string \<Rightarrow> webauthn_credential \<Rightarrow> bool" where
  "wc_HasID k c \<longleftrightarrow> wc_CredentialID c = k"


section \<open>Factors\<close>

record factor =
  fa_ID :: uuid
  fa_Type :: factor_type
  fa_Name :: "string option"
  fa_IsPrimary :: bool
  fa_TOTP :: "totp option"
  fa_WebAuthn :: "webauthn_credential option"
  fa_CreatedAt :: gotime
  fa_UpdatedAt :: gotime
  fa_ConfirmedAt :: "gotime option"
  fa_LastUsedAt :: "gotime option"
  fa_DisabledAt :: "gotime option"

definition newFactor :: "uuid \<Rightarrow> factor_type \<Rightarrow> string option \<Rightarrow> gotime \<Rightarrow> ierror + factor" where
  "newFactor factorID factorType name now =
     (if factorID = uuid_nil then Inl (Fresh ''factor identifier is required'')
      else if is_zero now then Inl (Fresh ''factor creation time is invalid'')
      else Inr \<lparr>fa_ID = factorID, fa_Type = factorType, fa_Name = NormalizeOptionalText name,
                fa_IsPrimary = False, fa_TOTP = None, fa_WebAuthn = None, fa_CreatedAt = now,
                fa_UpdatedAt = now, fa_ConfirmedAt = None, fa_LastUsedAt = None, fa_DisabledAt = None\<rparr>)"

definition newTOTPFactor ::
  "uuid \<Rightarrow> string option \<Rightarrow> string \<Rightarrow> string \<Rightarrow> totp_algorithm \<Rightarrow> int \<Rightarrow> int \<Rightarrow> gotime \<Rightarrow> ierror + factor" where
  "newTOTPFactor factorID name secret keyRef alg digits periodSeconds now =
     (case newFactor factorID FactorTypeTOTP name now of
        Inl err \<Rightarrow> Inl err
      | Inr f \<Rightarrow>
          (case newTOTP secret keyRef alg digits periodSeconds now of
             Inl err \<Rightarrow> Inl err
           | Inr t \<Rightarrow> Inr (f\<lparr>fa_TOTP := Some t\<rparr>)))"

definition newWebAuthnFactor ::
  "uuid \<Rightarrow> string option \<Rightarrow> string \<Rightarrow> string \<Rightarrow> int64 \<Rightarrow> uuid option \<Rightarrow> string list \<Rightarrow> bool \<Rightarrow> bool \<Rightarrow> gotime
     \<Rightarrow> ierror + factor" where
  "newWebAuthnFactor factorID name credentialID publicKey signCount aaguid transports backupEligible
     backupState now =
     (case newFactor factorID FactorTypeWebAuthn name now of
        Inl err \<Rightarrow> Inl err
      | Inr f \<Rightarrow>
          (case newWebAuthnCredential credentialID publicKey signCount aaguid transports backupEligible
                  backupState now of
             Inl err \<Rightarrow> Inl err
           | Inr c \<Rightarrow> Inr (f\<lparr>fa_WebAuthn := Some c\<rparr>)))"

definition fa_IsEnabled :: "factor \<Rightarrow> bool" where
  "fa_IsEnabled f \<longleftrightarrow> fa_DisabledAt f = None"

definition fa_IsConfirmed :: "factor \<Rightarrow> bool" where
  "fa_IsConfirmed f \<longleftrightarrow> fa_ConfirmedAt f \<noteq> None"

definition fa_IsTOTP :: "factor \<Rightarrow> bool" where
  "fa_IsTOTP f \<longleftrightarrow> fa_Type f = FactorTypeTOTP \<and> fa_TOTP f \<noteq> None"

definition fa_IsWebAuthn :: "factor \<Rightarrow> bool" where
  "fa_IsWebAuthn f \<longleftrightarrow> fa_Type f = FactorTypeWebAuthn \<and> fa_WebAuthn f \<noteq> None"

definition fa_HasID :: "uuid \<Rightarrow> factor \<Rightarrow> bool" where
  "fa_HasID k f \<longleftrightarrow> fa_ID f = k"

definition fa_HasCredentialID :: "string \<Rightarrow> factor \<Rightarrow> bool" where
  "fa_HasCredentialID k f \<longleftrightarrow> fa_IsWebAuthn f \<and> wc_HasID k (the (fa_WebAuthn f))"

definition fa_ensureChangeAllowed :: "gotime \<Rightarrow> factor \<Rightarrow> ierror option" where
  "fa_ensureChangeAllowed now f =
     (if is_zero now \<or> before now (fa_UpdatedAt f)
      then Some (Fresh ''MFA factor change time is invalid'') else None)"

definition fa_Rename :: "string option \<Rightarrow> gotime \<Rightarrow> factor \<Rightarrow> (ierror + bool) \<times> factor" where
  "fa_Rename name now f =
     (case fa_ensureChangeAllowed now f of
        Some err \<Rightarrow> (Inl err, f)
      | None \<Rightarrow>
          (let normalizedName = NormalizeOptionalText name
           in if EqualOptionalText (fa_Name f) normalizedName then (Inr False, f)
              else (Inr True, f\<lparr>fa_Name := normalizedName, fa_UpdatedAt := now\<rparr>)))"

abbreviation (input) mfa_error :: "mfa_sentinel \<Rightarrow> ierror" where
  "mfa_error s \<equiv> Sentinel (S_mfa s)"

definition fa_Confirm :: "bool \<Rightarrow> gotime \<Rightarrow> factor \<Rightarrow> ierror option \<times> factor" where
  "fa_Confirm primary now f =
     (case fa_ensureChangeAllowed now f of
        Some err \<Rightarrow> (Some err, f)
      | None \<Rightarrow>
          if \<not> fa_IsEnabled f then (Some (mfa_error Mfa_ErrFactorDisabled), f)
          else if fa_IsConfirmed f then (None, f)
          else (None, f\<lparr>fa_ConfirmedAt := Some now, fa_IsPrimary := primary, fa_UpdatedAt := now\<rparr>))"

definition fa_Promote :: "gotime \<Rightarrow> factor \<Rightarrow> (ierror + bool) \<times> factor" where
  "fa_Promote now f =
     (case fa_ensureChangeAllowed now f of
        Some err \<Rightarrow> (Inl err, f)
      | None \<Rightarrow>
          if \<not> fa_IsEnabled f then (Inl (mfa_error Mfa_ErrFactorDisabled), f)
          else if \<not> fa_IsConfirmed f then (Inl (mfa_error Mfa_ErrFactorNotConfirmed), f)
          else if fa_IsPrimary f then (Inr False, f)
          else (Inr True, f\<lparr>fa_IsPrimary := True, fa_UpdatedAt := now\<rparr>))"

definition fa_Demote :: "gotime \<Rightarrow> factor \<Rightarrow> ierror option \<times> factor" where
  "fa_Demote now f =
     (if \<not> fa_IsPrimary f then (None, f)
      else case fa_ensureChangeAllowed now f of
        Some err \<Rightarrow> (Some err, f)
      | None \<Rightarrow> (None, f\<lparr>fa_IsPrimary := False, fa_UpdatedAt := now\<rparr>))"

definition fa_Disable :: "gotime \<Rightarrow> factor \<Rightarrow> ierror option \<times> factor" where
  "fa_Disable now f =
     (case fa_ensureChangeAllowed now f of
        Some err \<Rightarrow> (Some err, f)
      | None \<Rightarrow>
          if \<not> fa_IsEnabled f then (Some (mfa_error Mfa_ErrFactorDisabled), f)
          else (None, f\<lparr>fa_IsPrimary := False, fa_DisabledAt := Some now, fa_UpdatedAt := now\<rparr>))"

definition fa_Enable :: "gotime \<Rightarrow> factor \<Rightarrow> ierror option \<times> factor" where
  "fa_Enable now f =
     (case fa_ensureChangeAllowed now f of
        Some err \<Rightarrow> (Some err, f)
      | None \<Rightarrow>
          if fa_IsEnabled f then (None, f)
          else (None, f\<lparr>fa_DisabledAt := None, fa_UpdatedAt := now\<rparr>))"

definition fa_RecordTOTPUse :: "int64 \<Rightarrow> gotime \<Rightarrow> factor \<Rightarrow> ierror option \<times> factor" where
  "fa_RecordTOTPUse timeStep now f =
     (case fa_ensureChangeAllowed now f of
        Some err \<Rightarrow> (Some err, f)
      | None \<Rightarrow>
          if \<not> fa_IsTOTP f then (Some (Fresh ''factor type is invalid''), f)
          else if \<not> fa_IsEnabled f then (Some (mfa_error Mfa_ErrFactorDisabled), f)
          else if \<not> fa_IsConfirmed f then (Some (mfa_error Mfa_ErrFactorNotConfirmed), f)
          else case tp_RecordUse timeStep now (the (fa_TOTP f)) of
            (Some err, t) \<Rightarrow> (Some err, f\<lparr>fa_TOTP := Some t\<rparr>)
          | (None, t) \<Rightarrow> (None, f\<lparr>fa_TOTP := Some t, fa_LastUsedAt := Some now, fa_UpdatedAt := now\<rparr>))"

definition fa_RecordWebAuthnUse :: "int64 \<Rightarrow> bool \<Rightarrow> gotime \<Rightarrow> factor \<Rightarrow> ierror option \<times> factor" where
  "fa_RecordWebAuthnUse signCount backupState now f =
     (case fa_ensureChangeAllowed now f of
        Some err \<Rightarrow> (Some err, f)
      | None \<Rightarrow>
          if \<not> fa_IsWebAuthn f then (Some (Fresh ''factor type is invalid''), f)
          else if \<not> fa_IsEnabled f then (Some (mfa_error Mfa_ErrFactorDisabled), f)
          else if \<not> fa_IsConfirmed f then (Some (mfa_error Mfa_ErrFactorNotConfirmed), f)
          else case wc_RecordUse signCount backupState now (the (fa_WebAuthn f)) of
            (Some err, c) \<Rightarrow> (Some err, f\<lparr>fa_WebAuthn := Some c\<rparr>)
          | (None, c) \<Rightarrow>
              (None, f\<lparr>fa_WebAuthn := Some c, fa_LastUsedAt := Some now, fa_UpdatedAt := now\<rparr>))"


section \<open>The configuration\<close>

record mfa =
  mf_IdentityID :: uuid
  mf_Factors :: "factor list"

definition New_mfa :: "uuid \<Rightarrow> ierror + mfa" where
  "New_mfa identityID =
     (if identityID = uuid_nil
      then Inl (Fresh ''create MFA configuration: identity identifier is invalid'')
      else Inr \<lparr>mf_IdentityID = identityID, mf_Factors = []\<rparr>)"

fun latest_updated :: "gotime \<Rightarrow> factor list \<Rightarrow> gotime" where
  "latest_updated l [] = l"
| "latest_updated l (f # fs) = latest_updated (if after (fa_UpdatedAt f) l then fa_UpdatedAt f else l) fs"

definition mfa_latestUpdatedAt :: "mfa \<Rightarrow> gotime" where
  "mfa_latestUpdatedAt m = latest_updated 0 (mf_Factors m)"

definition mfa_ensureChangeAllowed :: "gotime \<Rightarrow> mfa \<Rightarrow> ierror option" where
  "mfa_ensureChangeAllowed now m =
     (if is_zero now \<or> before now (mfa_latestUpdatedAt m)
      then Some (Fresh ''MFA change time is invalid'') else None)"

definition factorIndex :: "uuid \<Rightarrow> mfa \<Rightarrow> nat option" where
  "factorIndex k m = index_by (fa_HasID k) (mf_Factors m)"

definition primaryFactorIndex :: "mfa \<Rightarrow> nat option" where
  "primaryFactorIndex m = index_by fa_IsPrimary (mf_Factors m)"

definition enabledTOTPIndex :: "mfa \<Rightarrow> nat option" where
  "enabledTOTPIndex m = index_by (\<lambda>f. fa_IsTOTP f \<and> fa_IsEnabled f) (mf_Factors m)"

definition hasCredentialID :: "string \<Rightarrow> mfa \<Rightarrow> bool" where
  "hasCredentialID k m = list_ex (fa_HasCredentialID k) (mf_Factors m)"

text \<open>
  \<open>on_factor msg k now m step\<close> is the shape of the methods that change one factor: the check of the
  time, the index, and a change whose error is wrapped in the method's text.
\<close>

definition on_factor ::
  "string \<Rightarrow> uuid \<Rightarrow> gotime \<Rightarrow> mfa \<Rightarrow> (factor \<Rightarrow> ierror option \<times> factor) \<Rightarrow> ierror option \<times> mfa" where
  "on_factor msg k now m step =
     (case mfa_ensureChangeAllowed now m of
        Some err \<Rightarrow> refuse msg err m
      | None \<Rightarrow>
     case factorIndex k m of
        None \<Rightarrow> refuse msg (mfa_error Mfa_ErrFactorNotFound) m
      | Some i \<Rightarrow>
     case step (mf_Factors m ! i) of
        (Some err, f) \<Rightarrow> refuse msg err (m\<lparr>mf_Factors := (mf_Factors m)[i := f]\<rparr>)
      | (None, f) \<Rightarrow> (None, m\<lparr>mf_Factors := (mf_Factors m)[i := f]\<rparr>))"

definition RenameFactor :: "uuid \<Rightarrow> string option \<Rightarrow> gotime \<Rightarrow> mfa \<Rightarrow> ierror option \<times> mfa" where
  "RenameFactor k name now m =
     on_factor ''rename MFA factor: '' k now m
       (\<lambda>f. case fa_Rename name now f of (Inl err, f) \<Rightarrow> (Some err, f) | (Inr _, f) \<Rightarrow> (None, f))"

definition ConfirmFactor :: "uuid \<Rightarrow> gotime \<Rightarrow> mfa \<Rightarrow> ierror option \<times> mfa" where
  "ConfirmFactor k now m =
     on_factor ''confirm MFA factor: '' k now m (fa_Confirm (primaryFactorIndex m = None) now)"

fun demote_others :: "nat \<Rightarrow> gotime \<Rightarrow> nat \<Rightarrow> factor list \<Rightarrow> ierror option \<times> factor list" where
  "demote_others keep now i [] = (None, [])"
| "demote_others keep now i (f # fs) =
     (case (if i \<noteq> keep then fa_Demote now f else (None, f)) of
        (Some err, f) \<Rightarrow> (Some err, f # fs)
      | (None, f) \<Rightarrow> (case demote_others keep now (i + 1) fs of (r, fs) \<Rightarrow> (r, f # fs)))"

definition SetPrimaryFactor :: "uuid \<Rightarrow> gotime \<Rightarrow> mfa \<Rightarrow> ierror option \<times> mfa" where
  "SetPrimaryFactor k now m =
     (case mfa_ensureChangeAllowed now m of
        Some err \<Rightarrow> refuse ''set primary MFA factor: '' err m
      | None \<Rightarrow>
     case factorIndex k m of
        None \<Rightarrow> refuse ''set primary MFA factor: '' (mfa_error Mfa_ErrFactorNotFound) m
      | Some i \<Rightarrow>
     case fa_Promote now (mf_Factors m ! i) of
        (Inl err, f) \<Rightarrow> refuse ''set primary MFA factor: '' err (m\<lparr>mf_Factors := (mf_Factors m)[i := f]\<rparr>)
      | (Inr changed, f) \<Rightarrow>
          (let m = m\<lparr>mf_Factors := (mf_Factors m)[i := f]\<rparr>
           in if \<not> changed then (None, m)
              else case demote_others i now 0 (mf_Factors m) of
                (Some err, fs) \<Rightarrow> refuse ''set primary MFA factor: '' err (m\<lparr>mf_Factors := fs\<rparr>)
              | (None, fs) \<Rightarrow> (None, m\<lparr>mf_Factors := fs\<rparr>)))"

definition DisableFactor :: "uuid \<Rightarrow> gotime \<Rightarrow> mfa \<Rightarrow> ierror option \<times> mfa" where
  "DisableFactor k now m = on_factor ''disable MFA factor: '' k now m (fa_Disable now)"

definition EnableFactor :: "uuid \<Rightarrow> gotime \<Rightarrow> mfa \<Rightarrow> ierror option \<times> mfa" where
  "EnableFactor k now m =
     on_factor ''enable MFA factor: '' k now m
       (\<lambda>f. if fa_IsEnabled f then (None, f)
            else if fa_IsTOTP f \<and> enabledTOTPIndex m \<noteq> None
            then (Some (mfa_error Mfa_ErrEnabledTOTPAlreadyExists), f)
            else fa_Enable now f)"

definition EnrollTOTP ::
  "uuid \<Rightarrow> string option \<Rightarrow> string \<Rightarrow> string \<Rightarrow> totp_algorithm \<Rightarrow> int \<Rightarrow> int \<Rightarrow> gotime \<Rightarrow> mfa
     \<Rightarrow> ierror option \<times> mfa" where
  "EnrollTOTP k name secret keyRef alg digits periodSeconds now m =
     (case mfa_ensureChangeAllowed now m of
        Some err \<Rightarrow> refuse ''enroll TOTP factor: '' err m
      | None \<Rightarrow>
     case newTOTPFactor k name secret keyRef alg digits periodSeconds now of
        Inl err \<Rightarrow> refuse ''enroll TOTP factor: '' err m
      | Inr f \<Rightarrow>
          if factorIndex (fa_ID f) m \<noteq> None
          then refuse ''enroll TOTP factor: '' (mfa_error Mfa_ErrFactorAlreadyExists) m
          else if enabledTOTPIndex m \<noteq> None
          then refuse ''enroll TOTP factor: '' (mfa_error Mfa_ErrEnabledTOTPAlreadyExists) m
          else (None, m\<lparr>mf_Factors := mf_Factors m @ [f]\<rparr>))"

definition RecordTOTPUse :: "uuid \<Rightarrow> int64 \<Rightarrow> gotime \<Rightarrow> mfa \<Rightarrow> ierror option \<times> mfa" where
  "RecordTOTPUse k timeStep now m =
     on_factor ''record TOTP factor use: '' k now m (fa_RecordTOTPUse timeStep now)"

definition EnrollWebAuthn ::
  "uuid \<Rightarrow> string option \<Rightarrow> string \<Rightarrow> string \<Rightarrow> int64 \<Rightarrow> uuid option \<Rightarrow> string list \<Rightarrow> bool \<Rightarrow> bool \<Rightarrow> gotime
     \<Rightarrow> mfa \<Rightarrow> ierror option \<times> mfa" where
  "EnrollWebAuthn k name credentialID publicKey signCount aaguid transports backupEligible backupState now m =
     (case mfa_ensureChangeAllowed now m of
        Some err \<Rightarrow> refuse ''enroll WebAuthn credential: '' err m
      | None \<Rightarrow>
     case newWebAuthnFactor k name credentialID publicKey signCount aaguid transports backupEligible
            backupState now of
        Inl err \<Rightarrow> refuse ''enroll WebAuthn credential: '' err m
      | Inr f \<Rightarrow>
          if factorIndex (fa_ID f) m \<noteq> None
          then refuse ''enroll WebAuthn credential: '' (mfa_error Mfa_ErrFactorAlreadyExists) m
          else if hasCredentialID credentialID m
          then refuse ''enroll WebAuthn credential: '' (mfa_error Mfa_ErrCredentialAlreadyExists) m
          else (None, m\<lparr>mf_Factors := mf_Factors m @ [f]\<rparr>))"

definition RecordWebAuthnUse :: "uuid \<Rightarrow> int64 \<Rightarrow> bool \<Rightarrow> gotime \<Rightarrow> mfa \<Rightarrow> ierror option \<times> mfa" where
  "RecordWebAuthnUse k signCount backupState now m =
     on_factor ''record WebAuthn credential use: '' k now m (fa_RecordWebAuthnUse signCount backupState now)"

end
