(* ===== verification/Identity_Mfa_Invariant.thy ===== *)
theory Identity_Mfa_Invariant
  imports Identity_Mfa
begin

text \<open>
  The invariant of the second factors, that every call keeps it and changes nothing when it fails, and
  that the time steps a TOTP factor accepts only grow.
\<close>

section \<open>At most one\<close>

definition unique :: "('a \<Rightarrow> bool) \<Rightarrow> 'a list \<Rightarrow> bool" where
  "unique P xs \<longleftrightarrow> (\<forall>i < length xs. \<forall>j < length xs. P (xs ! i) \<longrightarrow> P (xs ! j) \<longrightarrow> i = j)"

lemma unique_Nil [simp]: "unique P []"
  by (simp add: unique_def)

lemma unique_update:
  assumes "unique P xs" and "i < length xs"
    and "P x \<Longrightarrow> P (xs ! i) \<or> (\<forall>y \<in> set xs. \<not> P y)"
  shows "unique P (xs[i := x])"
  unfolding unique_def
proof (intro allI impI)
  fix j k
  assume j: "j < length (xs[i := x])" "P (xs[i := x] ! j)" and k: "k < length (xs[i := x])" "P (xs[i := x] ! k)"
  have same: "a = b" if "a < length xs" "b < length xs" "P (xs ! a)" "P (xs ! b)" for a b
    using assms(1) that unfolding unique_def by blast
  have other: "a = i" if "P x" "a < length xs" "P (xs ! a)" for a
    using assms(3) [OF that(1)]
  proof
    assume "P (xs ! i)"
    with same that(2,3) assms(2) show ?thesis by simp
  next
    assume "\<forall>y \<in> set xs. \<not> P y"
    with that(2,3) show ?thesis by simp
  qed
  consider "j = i" "k = i" | "j = i" "k \<noteq> i" | "j \<noteq> i" "k = i" | "j \<noteq> i" "k \<noteq> i" by blast
  then show "j = k"
    using j k assms(2) by cases (simp_all add: same other)
qed

lemma unique_append:
  "unique P xs \<Longrightarrow> (P x \<Longrightarrow> \<forall>y \<in> set xs. \<not> P y) \<Longrightarrow> unique P (xs @ [x])"
  unfolding unique_def by (auto simp: nth_append all_set_conv_all_nth less_Suc_eq)


section \<open>The invariant\<close>

text \<open>
  A factor is of the type whose data it has; only an enabled and confirmed factor is primary; the last
  time step of a TOTP factor is not negative. Over the list: identifiers are distinct, at most one
  factor is primary, at most one enabled factor is TOTP, and no WebAuthn credential is enrolled twice.
\<close>

definition factor_wf :: "factor \<Rightarrow> bool" where
  "factor_wf f \<longleftrightarrow>
     fa_ID f \<noteq> uuid_nil \<and>
     (fa_Type f = FactorTypeTOTP \<and> fa_TOTP f \<noteq> None \<and> fa_WebAuthn f = None \<or>
      fa_Type f = FactorTypeWebAuthn \<and> fa_WebAuthn f \<noteq> None \<and> fa_TOTP f = None) \<and>
     (fa_IsPrimary f \<longrightarrow> fa_IsEnabled f \<and> fa_IsConfirmed f) \<and>
     (\<forall>t s. fa_TOTP f = Some t \<longrightarrow> tp_LastUsedTimeStep t = Some s \<longrightarrow> 0 \<le> sint s)"

abbreviation enabled_totp :: "factor \<Rightarrow> bool" where
  "enabled_totp f \<equiv> fa_IsTOTP f \<and> fa_IsEnabled f"

definition mfa_wf :: "mfa \<Rightarrow> bool" where
  "mfa_wf m \<longleftrightarrow>
     (\<forall>f \<in> set (mf_Factors m). factor_wf f) \<and> distinct (map fa_ID (mf_Factors m)) \<and>
     unique fa_IsPrimary (mf_Factors m) \<and> unique enabled_totp (mf_Factors m) \<and>
     (\<forall>k. unique (fa_HasCredentialID k) (mf_Factors m))"

lemmas factor_tests = fa_IsEnabled_def fa_IsConfirmed_def fa_IsTOTP_def fa_IsWebAuthn_def
  fa_HasID_def fa_HasCredentialID_def wc_HasID_def

lemma New_mfa_wf: "New_mfa i = Inr m \<Longrightarrow> mfa_wf m"
  by (auto simp: New_mfa_def mfa_wf_def split: if_splits)

lemma factorIndex_Some: "factorIndex k m = Some i \<Longrightarrow> i < length (mf_Factors m) \<and> fa_ID (mf_Factors m ! i) = k"
  by (auto simp: factorIndex_def fa_HasID_def dest: index_by_Some)

lemma latest_updated_le: "latest_updated l fs \<le> n \<longleftrightarrow> l \<le> n \<and> (\<forall>f \<in> set fs. fa_UpdatedAt f \<le> n)"
  by (induction l fs rule: latest_updated.induct) auto

lemma mfa_ensureChangeAllowed_ok:
  "mfa_ensureChangeAllowed now m = None \<longleftrightarrow> 0 < now \<and> (\<forall>f \<in> set (mf_Factors m). fa_UpdatedAt f \<le> now)"
  using latest_updated_le [of 0 "mf_Factors m" now]
  by (auto simp: mfa_ensureChangeAllowed_def mfa_latestUpdatedAt_def)

text \<open>
  What a change of one factor may do to keep the invariant: it keeps the identifier, the type of the
  data and the credential, and becomes primary or an enabled TOTP factor only if it was or none is.
\<close>

definition safe_change :: "mfa \<Rightarrow> factor \<Rightarrow> factor \<Rightarrow> bool" where
  "safe_change m f f' \<longleftrightarrow>
     factor_wf f' \<and> fa_ID f' = fa_ID f \<and>
     (fa_IsPrimary f' \<longrightarrow> fa_IsPrimary f \<or> (\<forall>g \<in> set (mf_Factors m). \<not> fa_IsPrimary g)) \<and>
     (enabled_totp f' \<longrightarrow> enabled_totp f \<or> (\<forall>g \<in> set (mf_Factors m). \<not> enabled_totp g)) \<and>
     (\<forall>k. fa_HasCredentialID k f' \<longrightarrow> fa_HasCredentialID k f)"

lemma safe_change_wf:
  assumes "mfa_wf m" and "i < length (mf_Factors m)" and "safe_change m (mf_Factors m ! i) f'"
  shows "mfa_wf (m\<lparr>mf_Factors := (mf_Factors m)[i := f']\<rparr>)"
proof -
  have "\<forall>f \<in> set ((mf_Factors m)[i := f']). factor_wf f"
    using assms set_update_subset_insert [of "mf_Factors m" i f']
    by (auto simp: mfa_wf_def safe_change_def)
  moreover have "map fa_ID ((mf_Factors m)[i := f']) = map fa_ID (mf_Factors m)"
    using assms(2,3) by (simp add: map_update list_update_same_conv safe_change_def)
  ultimately show ?thesis
    using assms by (simp add: mfa_wf_def safe_change_def unique_update)
qed

lemma on_factor_cases:
  assumes "on_factor msg k now m step = (r, m')"
  obtains (refused) err where "r = Some err" and "m' = m"
  | (failed) i err f where "factorIndex k m = Some i" and "step (mf_Factors m ! i) = (Some err, f)"
      and "r = Some (Wrap msg err '''')" and "m' = m\<lparr>mf_Factors := (mf_Factors m)[i := f]\<rparr>"
  | (changed) i f where "mfa_ensureChangeAllowed now m = None" and "factorIndex k m = Some i"
      and "step (mf_Factors m ! i) = (None, f)" and "r = None"
      and "m' = m\<lparr>mf_Factors := (mf_Factors m)[i := f]\<rparr>"
proof (cases "mfa_ensureChangeAllowed now m")
  case (Some err)
  with assms have "r = Some (Wrap msg err '''') \<and> m' = m" by (simp add: on_factor_def refuse_def)
  with refused show thesis by blast
next
  case allowed: None
  show thesis
  proof (cases "factorIndex k m")
    case None
    with assms allowed have "r = Some (Wrap msg (mfa_error Mfa_ErrFactorNotFound) '''') \<and> m' = m"
      by (simp add: on_factor_def refuse_def)
    with refused show thesis by blast
  next
    case (Some i)
    obtain e f where s: "step (mf_Factors m ! i) = (e, f)" by fastforce
    show thesis
    proof (cases e)
      case None
      with assms allowed Some s show thesis
        by (intro changed [OF allowed Some]) (auto simp: on_factor_def)
    next
      case (Some err)
      with assms allowed \<open>factorIndex k m = Some i\<close> s show thesis
        by (intro failed) (auto simp: on_factor_def refuse_def)
    qed
  qed
qed

text \<open>A method of this shape keeps the invariant if its step fails cleanly and is safe.\<close>

lemma on_factor_wf:
  assumes "mfa_wf m" and "on_factor msg k now m step = (r, m')"
    and "\<And>f err f'. f \<in> set (mf_Factors m) \<Longrightarrow> step f = (Some err, f') \<Longrightarrow> f' = f"
    and "\<And>f f'. f \<in> set (mf_Factors m) \<Longrightarrow> factor_wf f \<Longrightarrow> step f = (None, f') \<Longrightarrow> safe_change m f f'"
  shows "mfa_wf m' \<and> (r \<noteq> None \<longrightarrow> m' = m)"
  using assms(2)
proof (cases rule: on_factor_cases)
  case refused
  with assms(1) show ?thesis by simp
next
  case (failed i err f)
  have "i < length (mf_Factors m)" using factorIndex_Some [OF failed(1)] by simp
  with assms(3) failed(2) have "f = mf_Factors m ! i" by simp
  with failed(4) assms(1) show ?thesis by simp
next
  case (changed i f)
  have i: "i < length (mf_Factors m)" using factorIndex_Some [OF changed(2)] by simp
  then have "factor_wf (mf_Factors m ! i)" using assms(1) by (simp add: mfa_wf_def)
  with assms(4) i changed(3) have "safe_change m (mf_Factors m ! i) f" by simp
  with safe_change_wf [OF assms(1) i] changed(4,5) show ?thesis by simp
qed


section \<open>The calls keep it\<close>

lemma RenameFactor_wf:
  assumes "mfa_wf m" and "RenameFactor k name now m = (r, m')"
  shows "mfa_wf m' \<and> (r \<noteq> None \<longrightarrow> m' = m)"
  using assms(1) assms(2) [unfolded RenameFactor_def]
  by (rule on_factor_wf)
     (auto simp: fa_Rename_def Let_def safe_change_def factor_wf_def factor_tests
       split: option.splits if_splits)

lemma ConfirmFactor_wf:
  assumes "mfa_wf m" and "ConfirmFactor k now m = (r, m')"
  shows "mfa_wf m' \<and> (r \<noteq> None \<longrightarrow> m' = m)"
proof -
  have none: "\<forall>g \<in> set (mf_Factors m). \<not> fa_IsPrimary g" if "primaryFactorIndex m = None"
    using that by (simp add: primaryFactorIndex_def index_by_None)
  show ?thesis
    using assms(1) assms(2) [unfolded ConfirmFactor_def]
    by (rule on_factor_wf)
       (use none in \<open>auto simp: fa_Confirm_def safe_change_def factor_wf_def factor_tests
         split: option.splits if_splits\<close>)
qed

lemma DisableFactor_wf:
  assumes "mfa_wf m" and "DisableFactor k now m = (r, m')"
  shows "mfa_wf m' \<and> (r \<noteq> None \<longrightarrow> m' = m)"
  using assms(1) assms(2) [unfolded DisableFactor_def]
  by (rule on_factor_wf)
     (auto simp: fa_Disable_def safe_change_def factor_wf_def factor_tests split: option.splits if_splits)

lemma EnableFactor_wf:
  assumes "mfa_wf m" and "EnableFactor k now m = (r, m')"
  shows "mfa_wf m' \<and> (r \<noteq> None \<longrightarrow> m' = m)"
proof -
  have none: "\<forall>g \<in> set (mf_Factors m). \<not> enabled_totp g" if "enabledTOTPIndex m = None"
    using that by (auto simp: enabledTOTPIndex_def index_by_None)
  show ?thesis
    using assms(1) assms(2) [unfolded EnableFactor_def]
  proof (rule on_factor_wf, goal_cases)
    case (1 f err f')
    then show ?case by (auto simp: fa_Enable_def split: option.splits if_splits)
  next
    case (2 f f')
    with none show ?case
      by (cases "fa_IsTOTP f \<and> \<not> fa_IsEnabled f")
         (auto simp: fa_Enable_def safe_change_def factor_wf_def factor_tests
           split: option.splits if_splits)
  qed
qed

lemma tp_RecordUse_ok:
  "tp_RecordUse s now t = (r, t') \<Longrightarrow>
     (r \<noteq> None \<longrightarrow> t' = t) \<and>
     (r = None \<longrightarrow> 0 \<le> sint s \<and> (\<forall>l. tp_LastUsedTimeStep t = Some l \<longrightarrow> sint l < sint s) \<and>
        tp_LastUsedTimeStep t' = Some s)"
  by (auto simp: tp_RecordUse_def split: if_splits)

lemma fa_RecordTOTPUse_cases:
  assumes "fa_RecordTOTPUse s now f = (r, f')"
  obtains (refused) err where "r = Some err" and "f' = f"
  | (used) t t' where "r = None" and "enabled_totp f" and "fa_IsConfirmed f" and "fa_TOTP f = Some t"
      and "tp_RecordUse s now t = (None, t')"
      and "f' = f\<lparr>fa_TOTP := Some t', fa_LastUsedAt := Some now, fa_UpdatedAt := now\<rparr>"
proof (cases "fa_ensureChangeAllowed now f = None \<and> enabled_totp f \<and> fa_IsConfirmed f")
  case False
  have "\<exists>err. r = Some err \<and> f' = f"
  proof (cases "fa_ensureChangeAllowed now f")
    case None
    with False assms show ?thesis
      by (cases "fa_IsTOTP f"; cases "fa_IsEnabled f"; cases "fa_IsConfirmed f")
         (auto simp: fa_RecordTOTPUse_def)
  next
    case (Some err)
    with assms have "(Some err, f) = (r, f')" by (simp add: fa_RecordTOTPUse_def)
    then show ?thesis by auto
  qed
  then show thesis using refused by blast
next
  case True
  then obtain t where t: "fa_TOTP f = Some t" by (auto simp: fa_IsTOTP_def)
  obtain e t' where u: "tp_RecordUse s now t = (e, t')" by fastforce
  show thesis
  proof (cases e)
    case None
    with True t u assms show thesis
      by (intro used [of t t']) (simp_all add: fa_RecordTOTPUse_def)
  next
    case (Some err)
    with u tp_RecordUse_ok [OF u] have "t' = t" by simp
    with Some True t u assms have "r = Some err \<and> f' = f"
      by (auto simp: fa_RecordTOTPUse_def)
    then show thesis using refused by blast
  qed
qed

lemma RecordTOTPUse_wf:
  assumes "mfa_wf m" and "RecordTOTPUse k s now m = (r, m')"
  shows "mfa_wf m' \<and> (r \<noteq> None \<longrightarrow> m' = m)"
  using assms(1) assms(2) [unfolded RecordTOTPUse_def]
proof (rule on_factor_wf, goal_cases)
  case (1 f err f')
  from "1"(2) show ?case by (cases rule: fa_RecordTOTPUse_cases) simp_all
next
  case (2 f f')
  from "2"(3) show ?case
  proof (cases rule: fa_RecordTOTPUse_cases)
    case (used t t')
    with "2"(2) tp_RecordUse_ok [OF used(5)] show ?thesis
      by (auto simp: safe_change_def factor_wf_def factor_tests)
  qed simp
qed

lemma wc_RecordUse_ok:
  "wc_RecordUse n b now c = (r, c') \<Longrightarrow>
     (r \<noteq> None \<longrightarrow> c' = c) \<and> wc_CredentialID c' = wc_CredentialID c \<and>
     (r = None \<longrightarrow> 0 \<le> sint n \<and> (0 < sint (wc_SignCount c) \<longrightarrow> sint (wc_SignCount c) < sint n) \<and>
        sint (wc_SignCount c') = max (sint (wc_SignCount c)) (sint n))"
  by (auto simp: wc_RecordUse_def max_def split: if_splits)

lemma RecordWebAuthnUse_wf:
  assumes "mfa_wf m" and "RecordWebAuthnUse k n b now m = (r, m')"
  shows "mfa_wf m' \<and> (r \<noteq> None \<longrightarrow> m' = m)"
  using assms(1) assms(2) [unfolded RecordWebAuthnUse_def]
proof (rule on_factor_wf, goal_cases)
  case (1 f err f')
  then show ?case
    by (auto simp: fa_RecordWebAuthnUse_def fa_IsWebAuthn_def dest!: wc_RecordUse_ok
        split: option.splits if_splits prod.splits)
next
  case (2 f f')
  then show ?case
    by (auto simp: fa_RecordWebAuthnUse_def safe_change_def factor_wf_def factor_tests
        dest!: wc_RecordUse_ok split: option.splits if_splits prod.splits)
qed

text \<open>The new primary factor: all others are demoted, and no demotion can fail.\<close>

definition demoted :: "gotime \<Rightarrow> factor \<Rightarrow> factor" where
  "demoted now f = (if fa_IsPrimary f then f\<lparr>fa_IsPrimary := False, fa_UpdatedAt := now\<rparr> else f)"

lemma demote_others_all:
  assumes "now \<noteq> 0" and "\<forall>f \<in> set fs. fa_UpdatedAt f \<le> now"
  shows "\<exists>gs. demote_others keep now i fs = (None, gs) \<and> length gs = length fs \<and>
     (\<forall>j < length fs. gs ! j = (if i + j = keep then fs ! j else demoted now (fs ! j)))"
  using assms(2)
proof (induction fs arbitrary: i)
  case Nil
  then show ?case by simp
next
  case (Cons f fs)
  then obtain gs where gs: "demote_others keep now (i + 1) fs = (None, gs)" "length gs = length fs"
    "\<forall>j < length fs. gs ! j = (if i + 1 + j = keep then fs ! j else demoted now (fs ! j))"
    by (metis list.set_intros(2))
  have "fa_Demote now f = (None, demoted now f)"
    using assms(1) Cons.prems by (auto simp: fa_Demote_def demoted_def fa_ensureChangeAllowed_def)
  with gs have "demote_others keep now i (f # fs) = (None, (if i \<noteq> keep then demoted now f else f) # gs)"
    by (cases "i = keep") simp_all
  with gs(2,3) show ?case
    by (auto simp: nth_Cons split: nat.splits)
qed

lemma SetPrimaryFactor_cases:
  assumes "mfa_wf m" and "SetPrimaryFactor k now m = (r, m')"
  obtains (refused) err where "r = Some err" and "m' = m"
  | (same) i where "factorIndex k m = Some i" and "fa_IsPrimary (mf_Factors m ! i)" and "r = None" and "m' = m"
  | (switched) i gs where "factorIndex k m = Some i" and "fa_IsEnabled (mf_Factors m ! i)"
      and "fa_IsConfirmed (mf_Factors m ! i)" and "r = None" and "m' = m\<lparr>mf_Factors := gs\<rparr>"
      and "length gs = length (mf_Factors m)"
      and "\<And>j. j < length gs \<Longrightarrow> gs ! j =
         (if j = i then (mf_Factors m ! i)\<lparr>fa_IsPrimary := True, fa_UpdatedAt := now\<rparr>
          else demoted now (mf_Factors m ! j))"
proof (cases "mfa_ensureChangeAllowed now m")
  case (Some err)
  with assms(2) have "\<exists>e. r = Some e \<and> m' = m" by (auto simp: SetPrimaryFactor_def refuse_def)
  with refused show thesis by blast
next
  case allowed: None
  then have now: "now \<noteq> 0" "\<forall>f \<in> set (mf_Factors m). fa_UpdatedAt f \<le> now"
    by (auto simp: mfa_ensureChangeAllowed_ok)
  show thesis
  proof (cases "factorIndex k m")
    case None
    with assms(2) allowed have "\<exists>e. r = Some e \<and> m' = m" by (auto simp: SetPrimaryFactor_def refuse_def)
    with refused show thesis by blast
  next
    case (Some i)
    let ?f = "mf_Factors m ! i"
    have i: "i < length (mf_Factors m)" using factorIndex_Some [OF Some] by simp
    then have f: "fa_ensureChangeAllowed now ?f = None"
      using now(1) bspec [OF now(2) nth_mem] by (simp add: fa_ensureChangeAllowed_def not_less)
    show thesis
    proof (cases "fa_IsEnabled ?f \<and> fa_IsConfirmed ?f")
      case False
      with assms(2) allowed Some f have "\<exists>err. r = Some err \<and> m' = m"
        by (auto simp: SetPrimaryFactor_def fa_Promote_def refuse_def split: if_splits)
      then show thesis using refused by blast
    next
      case ok: True
      show thesis
      proof (cases "fa_IsPrimary ?f")
        case True
        with assms(2) allowed Some f ok show thesis
          by (intro same [OF Some]) (simp_all add: SetPrimaryFactor_def fa_Promote_def)
      next
        case False
        let ?g = "?f\<lparr>fa_IsPrimary := True, fa_UpdatedAt := now\<rparr>"
        have "\<forall>f \<in> set ((mf_Factors m)[i := ?g]). fa_UpdatedAt f \<le> now"
          using now(2) set_update_subset_insert [of "mf_Factors m" i ?g] by fastforce
        from demote_others_all [OF now(1) this, of i 0] obtain gs
          where gs: "demote_others i now 0 ((mf_Factors m)[i := ?g]) = (None, gs)"
            "length gs = length (mf_Factors m)"
            "\<forall>j < length (mf_Factors m). gs ! j =
               (if j = i then (mf_Factors m)[i := ?g] ! j else demoted now ((mf_Factors m)[i := ?g] ! j))"
          by auto
        with assms(2) allowed Some f ok False i show thesis
          by (intro switched [OF Some, of gs]) (simp_all add: SetPrimaryFactor_def fa_Promote_def)
      qed
    qed
  qed
qed

lemma demoted_fields [simp]:
  "fa_ID (demoted now f) = fa_ID f" "fa_IsPrimary (demoted now f) = False"
  "fa_TOTP (demoted now f) = fa_TOTP f" "enabled_totp (demoted now f) = enabled_totp f"
  "fa_HasCredentialID k (demoted now f) = fa_HasCredentialID k f"
  "factor_wf f \<Longrightarrow> factor_wf (demoted now f)"
  by (simp_all add: demoted_def factor_tests factor_wf_def)

lemma unique_pointwise:
  "unique P xs \<Longrightarrow> length ys = length xs \<Longrightarrow> (\<And>j. j < length xs \<Longrightarrow> P (ys ! j) \<Longrightarrow> P (xs ! j)) \<Longrightarrow> unique P ys"
  unfolding unique_def by auto

lemma SetPrimaryFactor_wf:
  assumes "mfa_wf m" and "SetPrimaryFactor k now m = (r, m')"
  shows "mfa_wf m' \<and> (r \<noteq> None \<longrightarrow> m' = m)"
  using assms
proof (cases rule: SetPrimaryFactor_cases)
  case (switched i gs)
  let ?fs = "mf_Factors m"
  have i: "i < length ?fs" using factorIndex_Some [OF switched(1)] by simp
  have wf: "factor_wf (?fs ! j)" if "j < length ?fs" for j
    using assms(1) that by (simp add: mfa_wf_def)
  have "factor_wf ((?fs ! i)\<lparr>fa_IsPrimary := True, fa_UpdatedAt := now\<rparr>)"
    using switched(2,3) wf [OF i] by (simp add: factor_wf_def factor_tests)
  then have "factor_wf (gs ! j)" if "j < length gs" for j
    using switched(7) [OF that] that wf [of j] switched(6) by (cases "j = i") simp_all
  then have 1: "\<forall>f \<in> set gs. factor_wf f" by (simp add: all_set_conv_all_nth)
  have 2: "map fa_ID gs = map fa_ID ?fs"
    by (rule nth_equalityI) (use switched(6,7) in auto)
  have 3: "unique fa_IsPrimary gs"
    unfolding unique_def using switched(7) by (metis demoted_fields(2))
  have tests: "enabled_totp (gs ! j) = enabled_totp (?fs ! j)"
    "fa_HasCredentialID c (gs ! j) = fa_HasCredentialID c (?fs ! j)" if "j < length ?fs" for j c
    using switched(7) [of j] that switched(6) by (auto simp: factor_tests demoted_def)
  have 4: "unique enabled_totp gs" and 5: "\<forall>c. unique (fa_HasCredentialID c) gs"
    using assms(1) tests switched(6) unfolding mfa_wf_def
    by (auto intro: unique_pointwise [of _ ?fs gs])
  from 1 2 3 4 5 assms(1) show ?thesis
    unfolding switched(4,5) by (simp add: mfa_wf_def)
qed (use assms(1) in simp_all)

text \<open>The enrolments: the new factor is confirmed by nobody yet, so it is not primary.\<close>

lemma enrolled_wf:
  assumes "mfa_wf m" and "factor_wf f" and "factorIndex (fa_ID f) m = None" and "\<not> fa_IsPrimary f"
    and "enabled_totp f \<Longrightarrow> enabledTOTPIndex m = None"
    and "\<And>k. fa_HasCredentialID k f \<Longrightarrow> \<not> hasCredentialID k m"
  shows "mfa_wf (m\<lparr>mf_Factors := mf_Factors m @ [f]\<rparr>)"
proof -
  have "fa_ID f \<notin> fa_ID ` set (mf_Factors m)"
    using assms(3) by (auto simp: factorIndex_def index_by_None fa_HasID_def)
  moreover have "\<forall>g \<in> set (mf_Factors m). \<not> enabled_totp g" if "enabled_totp f"
    using assms(5) [OF that] by (auto simp: enabledTOTPIndex_def index_by_None)
  moreover have "\<forall>g \<in> set (mf_Factors m). \<not> fa_HasCredentialID k g" if "fa_HasCredentialID k f" for k
    using assms(6) [OF that] by (auto simp: hasCredentialID_def list_ex_iff)
  ultimately have "unique fa_IsPrimary (mf_Factors m @ [f])" "unique enabled_totp (mf_Factors m @ [f])"
    "\<forall>k. unique (fa_HasCredentialID k) (mf_Factors m @ [f])" "distinct (map fa_ID (mf_Factors m @ [f]))"
    using assms(1,4) unfolding mfa_wf_def by (blast intro: unique_append, blast intro: unique_append,
        blast intro: unique_append, simp)
  with assms(1,2) show ?thesis by (simp add: mfa_wf_def)
qed

lemma EnrollTOTP_wf:
  assumes "mfa_wf m" and "EnrollTOTP k n s ref a d p now m = (r, m')"
  shows "mfa_wf m' \<and> (r \<noteq> None \<longrightarrow> m' = m)"
proof (cases "r = None")
  case True
  then obtain f where f: "newTOTPFactor k n s ref a d p now = Inr f" and "factorIndex (fa_ID f) m = None"
    and "enabledTOTPIndex m = None" and m': "m' = m\<lparr>mf_Factors := mf_Factors m @ [f]\<rparr>"
    using assms(2) by (auto simp: EnrollTOTP_def split: option.splits sum.splits if_splits)
  moreover have "factor_wf f \<and> \<not> fa_IsPrimary f \<and> (\<forall>c. \<not> fa_HasCredentialID c f)"
    using f by (auto simp: newTOTPFactor_def newFactor_def newTOTP_def factor_wf_def factor_tests
        split: sum.splits if_splits)
  ultimately show ?thesis using assms(1) True enrolled_wf [of m f] by simp
next
  case False
  with assms show ?thesis
    by (auto simp: EnrollTOTP_def refuse_def split: option.splits sum.splits if_splits)
qed

lemma EnrollWebAuthn_wf:
  assumes "mfa_wf m" and "EnrollWebAuthn k n c pk sc aa ts be bs now m = (r, m')"
  shows "mfa_wf m' \<and> (r \<noteq> None \<longrightarrow> m' = m)"
proof (cases "r = None")
  case True
  then obtain f where f: "newWebAuthnFactor k n c pk sc aa ts be bs now = Inr f"
    and "factorIndex (fa_ID f) m = None" and "\<not> hasCredentialID c m"
    and m': "m' = m\<lparr>mf_Factors := mf_Factors m @ [f]\<rparr>"
    using assms(2) by (auto simp: EnrollWebAuthn_def split: option.splits sum.splits if_splits)
  moreover have "factor_wf f \<and> \<not> fa_IsPrimary f \<and> \<not> enabled_totp f \<and> (\<forall>i. fa_HasCredentialID i f \<longrightarrow> i = c)"
    using f by (auto simp: newWebAuthnFactor_def newFactor_def newWebAuthnCredential_def factor_wf_def
        factor_tests split: sum.splits if_splits)
  ultimately show ?thesis using assms(1) True by (auto intro!: enrolled_wf)
next
  case False
  with assms show ?thesis
    by (auto simp: EnrollWebAuthn_def refuse_def split: option.splits sum.splits if_splits)
qed

end
