(* ===== verification/Identity_Mfa_Life.thy ===== *)
theory Identity_Mfa_Life
  imports Identity_Mfa_Invariant
begin

text \<open>
  Runs of calls on the second factors of an identity: the invariant holds throughout, and the time
  steps accepted from one TOTP factor strictly increase, so no one-time code is accepted twice.
\<close>

section \<open>Calls\<close>

datatype mfa_call =
  MF_Rename uuid "string option" gotime
| MF_Confirm uuid gotime
| MF_SetPrimary uuid gotime
| MF_Disable uuid gotime
| MF_Enable uuid gotime
| MF_EnrollTOTP uuid "string option" string string totp_algorithm int int gotime
| MF_UseTOTP uuid int64 gotime
| MF_EnrollWebAuthn uuid "string option" string string int64 "uuid option" "string list" bool bool gotime
| MF_UseWebAuthn uuid int64 bool gotime

fun mfa_do :: "mfa_call \<Rightarrow> mfa \<Rightarrow> ierror option \<times> mfa" where
  "mfa_do (MF_Rename k n now) = RenameFactor k n now"
| "mfa_do (MF_Confirm k now) = ConfirmFactor k now"
| "mfa_do (MF_SetPrimary k now) = SetPrimaryFactor k now"
| "mfa_do (MF_Disable k now) = DisableFactor k now"
| "mfa_do (MF_Enable k now) = EnableFactor k now"
| "mfa_do (MF_EnrollTOTP k n s ref a d p now) = EnrollTOTP k n s ref a d p now"
| "mfa_do (MF_UseTOTP k s now) = RecordTOTPUse k s now"
| "mfa_do (MF_EnrollWebAuthn k n c pk sc aa ts be bs now) = EnrollWebAuthn k n c pk sc aa ts be bs now"
| "mfa_do (MF_UseWebAuthn k n b now) = RecordWebAuthnUse k n b now"

text \<open>The one-time codes a run accepted: the factor and the time step of each, in order.\<close>

fun accepted_code :: "mfa_call \<Rightarrow> ierror option \<Rightarrow> (uuid \<times> int) list" where
  "accepted_code (MF_UseTOTP k s now) None = [(k, sint s)]"
| "accepted_code _ _ = []"

fun mfa_run :: "mfa_call list \<Rightarrow> mfa \<Rightarrow> (uuid \<times> int) list \<times> mfa" where
  "mfa_run [] m = ([], m)"
| "mfa_run (c # cs) m =
     (case mfa_do c m of (r, m) \<Rightarrow> (case mfa_run cs m of (us, m) \<Rightarrow> (accepted_code c r @ us, m)))"

lemma mfa_do_wf:
  assumes "mfa_wf m" and "mfa_do c m = (r, m')"
  shows "mfa_wf m' \<and> (r \<noteq> None \<longrightarrow> m' = m)"
proof (cases c)
  case (MF_Rename k n now)
  from assms(2) [unfolded this mfa_do.simps] show ?thesis by (rule RenameFactor_wf [OF assms(1)])
next
  case (MF_Confirm k now)
  from assms(2) [unfolded this mfa_do.simps] show ?thesis by (rule ConfirmFactor_wf [OF assms(1)])
next
  case (MF_SetPrimary k now)
  from assms(2) [unfolded this mfa_do.simps] show ?thesis by (rule SetPrimaryFactor_wf [OF assms(1)])
next
  case (MF_Disable k now)
  from assms(2) [unfolded this mfa_do.simps] show ?thesis by (rule DisableFactor_wf [OF assms(1)])
next
  case (MF_Enable k now)
  from assms(2) [unfolded this mfa_do.simps] show ?thesis by (rule EnableFactor_wf [OF assms(1)])
next
  case (MF_EnrollTOTP k n s ref a d p now)
  from assms(2) [unfolded this mfa_do.simps] show ?thesis by (rule EnrollTOTP_wf [OF assms(1)])
next
  case (MF_UseTOTP k s now)
  from assms(2) [unfolded this mfa_do.simps] show ?thesis by (rule RecordTOTPUse_wf [OF assms(1)])
next
  case (MF_EnrollWebAuthn k n cid pk sc aa ts be bs now)
  from assms(2) [unfolded this mfa_do.simps] show ?thesis by (rule EnrollWebAuthn_wf [OF assms(1)])
next
  case (MF_UseWebAuthn k n b now)
  from assms(2) [unfolded this mfa_do.simps] show ?thesis by (rule RecordWebAuthnUse_wf [OF assms(1)])
qed

lemma mfa_run_wf: "mfa_wf m \<Longrightarrow> mfa_run cs m = (us, m') \<Longrightarrow> mfa_wf m'"
proof (induction cs arbitrary: m us)
  case (Cons c cs)
  obtain r m1 where d: "mfa_do c m = (r, m1)" by fastforce
  then obtain vs where "mfa_run cs m1 = (vs, m')"
    using Cons.prems(2) by (auto split: prod.splits)
  with Cons.IH mfa_do_wf [OF Cons.prems(1) d] show ?case by blast
qed simp


section \<open>Time steps grow\<close>

text \<open>
  \<open>steps_from n f\<close>: the factor has accepted a time step, the last not below \<open>n\<close>. A call changes a
  factor only so that this still holds, and removes none.
\<close>

definition steps_from :: "int \<Rightarrow> factor \<Rightarrow> bool" where
  "steps_from n f \<longleftrightarrow> (\<exists>t l. fa_TOTP f = Some t \<and> tp_LastUsedTimeStep t = Some l \<and> n \<le> sint l)"

definition grown :: "factor \<Rightarrow> factor \<Rightarrow> bool" where
  "grown f f' \<longleftrightarrow> fa_ID f' = fa_ID f \<and> (\<forall>n. steps_from n f \<longrightarrow> steps_from n f')"

definition mfa_grown :: "mfa \<Rightarrow> mfa \<Rightarrow> bool" where
  "mfa_grown m m' \<longleftrightarrow> length (mf_Factors m) \<le> length (mf_Factors m') \<and>
     (\<forall>j < length (mf_Factors m). grown (mf_Factors m ! j) (mf_Factors m' ! j))"

definition seen :: "uuid \<Rightarrow> int \<Rightarrow> mfa \<Rightarrow> bool" where
  "seen k n m \<longleftrightarrow> (\<exists>f \<in> set (mf_Factors m). fa_ID f = k \<and> steps_from n f)"

lemma grown_refl [simp]: "grown f f"
  by (simp add: grown_def)

lemma mfa_grown_refl [simp]: "mfa_grown m m"
  by (simp add: mfa_grown_def)

lemma same_totp_grown: "fa_ID f' = fa_ID f \<Longrightarrow> fa_TOTP f' = fa_TOTP f \<Longrightarrow> grown f f'"
  by (simp add: grown_def steps_from_def)

lemma seen_grown: "seen k n m \<Longrightarrow> mfa_grown m m' \<Longrightarrow> seen k n m'"
  unfolding seen_def mfa_grown_def grown_def by (metis in_set_conv_nth order_less_le_trans)

lemma on_factor_grown:
  assumes "on_factor msg k now m step = (r, m')"
    and "\<And>f e f'. step f = (e, f') \<Longrightarrow> grown f f'"
  shows "mfa_grown m m'"
  using assms(1)
proof (cases rule: on_factor_cases)
  case (failed i err f)
  have "grown (mf_Factors m ! i) f" using assms(2) failed(2) .
  with failed(4) factorIndex_Some [OF failed(1)] show ?thesis by (simp add: mfa_grown_def nth_list_update)
next
  case (changed i f)
  have "grown (mf_Factors m ! i) f" using assms(2) changed(3) .
  with changed(5) factorIndex_Some [OF changed(2)] show ?thesis by (simp add: mfa_grown_def nth_list_update)
qed simp

lemma fa_RecordTOTPUse_grown:
  assumes "fa_RecordTOTPUse s now f = (e, f')"
  shows "grown f f'"
  using assms
proof (cases rule: fa_RecordTOTPUse_cases)
  case (used t t')
  with tp_RecordUse_ok [OF used(5)] show ?thesis
    by (auto simp: grown_def steps_from_def)
qed simp_all

lemma mfa_do_grown:
  assumes "mfa_wf m" and "mfa_do c m = (r, m')"
  shows "mfa_grown m m'"
proof (cases c)
  case (MF_Rename k n now)
  with assms(2) have "on_factor ''rename MFA factor: '' k now m
      (\<lambda>f. case fa_Rename n now f of (Inl err, f) \<Rightarrow> (Some err, f) | (Inr _, f) \<Rightarrow> (None, f)) = (r, m')"
    by (simp add: RenameFactor_def)
  then show ?thesis
    by (rule on_factor_grown)
       (auto simp: fa_Rename_def Let_def intro!: same_totp_grown split: option.splits if_splits)
next
  case (MF_Confirm k now)
  with assms(2) show ?thesis
    by (auto simp: ConfirmFactor_def fa_Confirm_def intro!: same_totp_grown elim!: on_factor_grown
        split: option.splits if_splits)
next
  case (MF_SetPrimary k now)
  from assms(2) have "SetPrimaryFactor k now m = (r, m')" by (simp add: MF_SetPrimary)
  from assms(1) this show ?thesis
  proof (cases rule: SetPrimaryFactor_cases)
    case (switched i gs)
    then show ?thesis
      by (auto simp: mfa_grown_def demoted_def intro!: same_totp_grown)
  qed simp_all
next
  case (MF_Disable k now)
  with assms(2) show ?thesis
    by (auto simp: DisableFactor_def fa_Disable_def intro!: same_totp_grown elim!: on_factor_grown
        split: option.splits if_splits)
next
  case (MF_Enable k now)
  with assms(2) show ?thesis
    by (auto simp: EnableFactor_def fa_Enable_def intro!: same_totp_grown elim!: on_factor_grown
        split: option.splits if_splits)
next
  case (MF_UseTOTP k s now)
  with assms(2) show ?thesis
    by (auto simp: RecordTOTPUse_def elim!: on_factor_grown dest: fa_RecordTOTPUse_grown)
next
  case (MF_UseWebAuthn k n b now)
  with assms(2) show ?thesis
    by (auto simp: RecordWebAuthnUse_def fa_RecordWebAuthnUse_def intro!: same_totp_grown
        elim!: on_factor_grown split: option.splits if_splits prod.splits)
next
  case (MF_EnrollTOTP k n s ref a d p now)
  with assms(2) show ?thesis
    by (auto simp: EnrollTOTP_def refuse_def mfa_grown_def nth_append split: option.splits sum.splits if_splits)
next
  case (MF_EnrollWebAuthn k n c pk sc aa ts be bs now)
  with assms(2) show ?thesis
    by (auto simp: EnrollWebAuthn_def refuse_def mfa_grown_def nth_append
        split: option.splits sum.splits if_splits)
qed

text \<open>A time step that is accepted is above every one accepted before.\<close>

lemma accepted_use:
  assumes "mfa_wf m" and "RecordTOTPUse k s now m = (None, m')"
  shows "(seen k n m \<longrightarrow> n < sint s) \<and> seen k (sint s) m'"
  using assms(2) [unfolded RecordTOTPUse_def]
proof (cases rule: on_factor_cases)
  case (changed i f)
  have i: "i < length (mf_Factors m)" "fa_ID (mf_Factors m ! i) = k"
    using factorIndex_Some [OF changed(2)] by simp_all
  from changed(3) obtain t t' where t: "fa_TOTP (mf_Factors m ! i) = Some t"
    and u: "tp_RecordUse s now t = (None, t')"
    and f: "f = (mf_Factors m ! i)\<lparr>fa_TOTP := Some t', fa_LastUsedAt := Some now, fa_UpdatedAt := now\<rparr>"
    by (cases rule: fa_RecordTOTPUse_cases) auto
  note ok = tp_RecordUse_ok [OF u]
  have "n < sint s" if "seen k n m"
  proof -
    obtain g where g: "g \<in> set (mf_Factors m)" "fa_ID g = k" "steps_from n g"
      using \<open>seen k n m\<close> by (auto simp: seen_def)
    have "inj_on fa_ID (set (mf_Factors m))"
      using assms(1) by (simp add: mfa_wf_def distinct_map)
    then have "g = mf_Factors m ! i"
      using g(1,2) i by (auto dest: inj_onD)
    with g(3) t ok show ?thesis by (auto simp: steps_from_def)
  qed
  moreover have "seen k (sint s) m'"
    unfolding seen_def changed(5)
    using i ok f by (intro bexI [of _ f]) (auto simp: steps_from_def set_update_memI)
  ultimately show ?thesis by blast
qed simp_all

lemma mfa_run_above:
  "mfa_wf m \<Longrightarrow> seen k n m \<Longrightarrow> mfa_run cs m = (us, m') \<Longrightarrow> (k, s) \<in> set us \<Longrightarrow> n < s"
proof (induction cs arbitrary: m us)
  case (Cons c cs)
  obtain r m1 where d: "mfa_do c m = (r, m1)" by fastforce
  then obtain vs where v: "mfa_run cs m1 = (vs, m')" and us: "us = accepted_code c r @ vs"
    using Cons.prems(3) by (auto split: prod.splits)
  have next_ok: "mfa_wf m1" "seen k n m1"
    using mfa_do_wf [OF Cons.prems(1) d] mfa_do_grown [OF Cons.prems(1) d] seen_grown Cons.prems(2) by blast+
  show ?case
  proof (cases "(k, s) \<in> set vs")
    case True
    with Cons.IH [OF next_ok v] show ?thesis .
  next
    case False
    with Cons.prems(4) us have "(k, s) \<in> set (accepted_code c r)" by simp
    then obtain w now where "c = MF_UseTOTP k w now" "r = None" "s = sint w"
      by (cases c; cases r) auto
    with d accepted_use [OF Cons.prems(1), of k w now m1 n] Cons.prems(2) show ?thesis by simp
  qed
qed simp

lemma mfa_run_increasing:
  "mfa_wf m \<Longrightarrow> mfa_run cs m = (us, m') \<Longrightarrow> sorted_wrt (\<lambda>(k, s) (k', s'). k = k' \<longrightarrow> s < s') us"
proof (induction cs arbitrary: m us)
  case (Cons c cs)
  obtain r m1 where d: "mfa_do c m = (r, m1)" by fastforce
  then obtain vs where v: "mfa_run cs m1 = (vs, m')" and us: "us = accepted_code c r @ vs"
    using Cons.prems(2) by (auto split: prod.splits)
  have wf: "mfa_wf m1" using mfa_do_wf [OF Cons.prems(1) d] by blast
  show ?case
  proof (cases "\<exists>k w now. c = MF_UseTOTP k w now \<and> r = None")
    case True
    then obtain k w now where c: "c = MF_UseTOTP k w now" "r = None" by blast
    then have "seen k (sint w) m1"
      using accepted_use [OF Cons.prems(1)] d by simp
    then have "\<forall>s. (k, s) \<in> set vs \<longrightarrow> sint w < s"
      using mfa_run_above [OF wf _ v] by blast
    with Cons.IH [OF wf v] us c show ?thesis by auto
  next
    case False
    then have "accepted_code c r = []" by (cases c; cases r) auto
    with Cons.IH [OF wf v] us show ?thesis by simp
  qed
qed simp

end
