(* ===== verification/Aggregate_Properties.thy ===== *)
theory Aggregate_Properties
  imports Identity_Password Identity_Challenge Identity_Recovery Identity_Mfa_Life
begin

text \<open>
  The properties of what an identity proves itself with: its password, the challenges that verify a
  contact or reset the password, its recovery codes and its second factors.
\<close>

section \<open>Guessing a password\<close>







section \<open>Attempts on a challenge\<close>

definition demo_challenge :: challenge where
  "demo_challenge = projr (New_challenge EmailChallenge 1 2 ''h'' 2 100 None 10)"

text \<open>
  C33. From its creation, a challenge of any of the three kinds accepts at most as many attempts as it
  was given, the consuming one included; after the consumption, the last attempt or the revocation
  every later attempt is refused.
\<close>

theorem challenge_attempts_bounded:
  assumes "New_challenge kind i s h m x ip t0 = Inr c" and "challenge_run kind ks c = (es, c')"
  shows "int (length (filter is_attempt es)) \<le> m \<and>
     (\<forall>as e bs. es = as @ e # bs \<and> e \<in> {Consumed, Counted AttemptOutcomeExhausted, Withdrawn} \<longrightarrow>
        filter is_attempt bs = [])"
proof -
  note new = New_challenge_wf [OF assms(1)]
  have "ch_MaxAttempts c = m"
    using assms(1) by (auto simp: New_challenge_def Let_def split: if_splits)
  moreover have "challenge_wf c' \<and> ch_MaxAttempts c' = ch_MaxAttempts c \<and>
      ch_Attempts c' = int (length (filter is_attempt es))"
    using challenge_run_attempts [OF _ assms(2)] new by simp
  moreover have "ch_Attempts c' \<le> ch_MaxAttempts c'"
    using calculation(2) by (simp add: challenge_wf_def)
  ultimately show ?thesis
    using challenge_final [OF _ assms(2)] new by auto
qed

theorem challenge_attempts_bounded_witness:
  "fst (challenge_run EmailChallenge [FailedAttempt 20, Consumption None 30, FailedAttempt 40] demo_challenge)
     = [Counted AttemptOutcomeRecorded, Consumed,
        Refused (Wrap ''record failed email verification attempt: ''
          (Wrap ''validate email verification challenge for attempt: '' (chal EmailChallenge Cha_ErrConsumed) '''') '''')] \<and>
   filter is_attempt [Refused (Wrap ''record failed email verification attempt: ''
          (Wrap ''validate email verification challenge for attempt: '' (chal EmailChallenge Cha_ErrConsumed) '''') '''')] = []"
proof -
  have new: "New_challenge EmailChallenge 1 2 ''h'' 2 100 None 10 = Inr demo_challenge" by code_simp
  have run: "fst (challenge_run EmailChallenge [FailedAttempt 20, Consumption None 30, FailedAttempt 40] demo_challenge)
     = [Counted AttemptOutcomeRecorded, Consumed,
        Refused (Wrap ''record failed email verification attempt: ''
          (Wrap ''validate email verification challenge for attempt: '' (chal EmailChallenge Cha_ErrConsumed) '''') '''')]"
    by code_simp
  then show ?thesis
    using challenge_attempts_bounded [OF new surjective_pairing, of
        "[FailedAttempt 20, Consumption None 30, FailedAttempt 40]", THEN conjunct2, rule_format,
        of "[Counted AttemptOutcomeRecorded]" Consumed] by simp
qed


section \<open>Recovery codes\<close>

definition demo_codes :: recovery_code_set where
  "demo_codes = projr (New_code_set 1 2 [\<lparr>cd_ID = 7, cd_Hash = ''a''\<rparr>, \<lparr>cd_ID = 8, cd_Hash = ''b''\<rparr>] None 10)"

text \<open>
  C34. Over any run of calls on a new set, every recovery code is accepted at most once and only if it
  is a code of the set; once all of them were accepted, the set is disabled.
\<close>

theorem recovery_code_once:
  assumes "New_code_set i d ds x t0 = Inr s" and "accepted calls s = (ks, s')"
  shows "distinct ks \<and> set ks \<subseteq> set (map cd_ID ds) \<and>
     (set ks = set (map cd_ID ds) \<longrightarrow> rs_DisabledAt s' \<noteq> None)"
proof -
  note new = New_code_set_wf [OF assms(1)]
  have all: "unused_ids s = set (map cd_ID ds)"
  proof -
    have "\<forall>c \<in> set (rs_Codes s). rc_UsedAt c = None"
      using new_code_set_unused [OF assms(1)] .
    then have "unused_ids s = set (map rc_ID (rs_Codes s))"
      by (auto simp: unused_ids_def)
    with new show ?thesis by simp
  qed
  from accepted_once [OF _ assms(2)] new
  have ok: "code_set_wf s'" "distinct ks" "set ks \<subseteq> unused_ids s" "unused_ids s' = unused_ids s - set ks"
    by auto
  moreover have "rs_DisabledAt s' \<noteq> None" if "unused_ids s' = {}"
    using ok(1) that unused_pos [of s'] by (auto simp: unused_ids_def code_set_wf_def)
  ultimately show ?thesis using all by auto
qed

theorem recovery_code_once_witness:
  "fst (accepted [UseIt 7 20, UseIt 7 30, UseIt 8 40] demo_codes) = [7, 8] \<and>
   rs_DisabledAt (snd (accepted [UseIt 7 20, UseIt 7 30, UseIt 8 40] demo_codes)) \<noteq> None"
proof -
  have new: "New_code_set 1 2 [\<lparr>cd_ID = 7, cd_Hash = ''a''\<rparr>, \<lparr>cd_ID = 8, cd_Hash = ''b''\<rparr>] None 10 = Inr demo_codes"
    by code_simp
  have "fst (accepted [UseIt 7 20, UseIt 7 30, UseIt 8 40] demo_codes) = [7, 8]"
    by code_simp
  with recovery_code_once [OF new surjective_pairing, of "[UseIt 7 20, UseIt 7 30, UseIt 8 40]"]
  show ?thesis by simp
qed


section \<open>Second factors\<close>

definition demo_mfa :: mfa where
  "demo_mfa = projr (New_mfa 1)"

definition demo_mfa_calls :: "mfa_call list" where
  "demo_mfa_calls =
     [MF_EnrollTOTP 5 None ''s'' ''k'' TOTPAlgorithmSHA1 6 30 10, MF_Confirm 5 20,
      MF_UseTOTP 5 100 30, MF_UseTOTP 5 100 31, MF_UseTOTP 5 101 60]"

text \<open>
  C35. Over any run of calls from a new configuration, at most one factor is primary, and it is enabled
  and confirmed; at most one enabled factor is TOTP; and the time steps accepted from one TOTP factor
  strictly increase, so that no one-time code is accepted twice.
\<close>

theorem mfa_no_replay:
  assumes "New_mfa i = Inr m" and "mfa_run cs m = (us, m')"
  shows "unique fa_IsPrimary (mf_Factors m') \<and>
     (\<forall>f \<in> set (mf_Factors m'). fa_IsPrimary f \<longrightarrow> fa_IsEnabled f \<and> fa_IsConfirmed f) \<and>
     unique (\<lambda>f. fa_IsTOTP f \<and> fa_IsEnabled f) (mf_Factors m') \<and>
     sorted_wrt (\<lambda>(k, s) (k', s'). k = k' \<longrightarrow> s < s') us"
proof -
  have m: "mfa_wf m" by (rule New_mfa_wf [OF assms(1)])
  from mfa_run_wf [OF m assms(2)] mfa_run_increasing [OF m assms(2)] show ?thesis
    by (simp add: mfa_wf_def factor_wf_def)
qed

theorem mfa_no_replay_witness:
  "fst (mfa_run demo_mfa_calls demo_mfa) = [(5, 100), (5, 101)] \<and>
   unique fa_IsPrimary (mf_Factors (snd (mfa_run demo_mfa_calls demo_mfa)))"
proof -
  have new: "New_mfa 1 = Inr demo_mfa" by code_simp
  have "fst (mfa_run demo_mfa_calls demo_mfa) = [(5, 100), (5, 101)]" by code_simp
  with mfa_no_replay [OF new surjective_pairing, of demo_mfa_calls] show ?thesis by blast
qed

end
