(* ===== verification/Contact_Verification.thy ===== *)
theory Contact_Verification
  imports Identity_Calls Identity_Texts Identity_Account Identity_Challenge Identity_Transaction Identity_Tokens
begin

text \<open>
  The verification of an e-mail address or a phone number, \<open>internal/service/contactverification\<close>: a
  challenge is issued with a code, sent through the outbox, and bound to the authorization transaction;
  presenting a code consumes it. The files for e-mail and phone differ in names only, so one definition
  per function takes the kind of challenge, with an instance for each file.

  As the code stands, \<open>tokenMatches\<close> accepts whatever code is presented (\<open>tokenMatches_any\<close>): what is
  verified is that a challenge was issued for the transaction and can still be consumed.
\<close>

section \<open>Configuration and ports\<close>

record contact_config =
  cv_Lifetime :: duration
  cv_MaxAttempts :: int

definition contact_config_Validate :: "contact_config \<Rightarrow> ierror option" where
  "contact_config_Validate c =
     (if cv_Lifetime c < second then Some (Fresh ''challenge lifetime must be at least one second'')
      else if cv_Lifetime c mod second \<noteq> 0
      then Some (Fresh ''challenge lifetime must be a whole number of seconds'')
      else if cv_MaxAttempts c \<le> 0 then Some (Fresh ''challenge max attempts must be positive'')
      else None)"

text \<open>
  The two repositories of challenges are one field per operation, with the kind as an argument. The
  number of challenges a revocation changed is not used.
\<close>

record 'w contact_ports =
  cv_cfg :: contact_config
  cv_RevokeActive :: "challenge_kind \<Rightarrow> uuid \<Rightarrow> gotime \<Rightarrow> 'w \<Rightarrow> ('w, id_sentinel, int64) result"
  cv_Create :: "challenge_kind \<Rightarrow> challenge \<Rightarrow> 'w \<Rightarrow> ('w, id_sentinel, unit) result"
  cv_GetForUpdate :: "challenge_kind \<Rightarrow> uuid \<Rightarrow> 'w \<Rightarrow> ('w, id_sentinel, challenge) result"
  cv_Update :: "challenge_kind \<Rightarrow> challenge \<Rightarrow> 'w \<Rightarrow> ('w, id_sentinel, unit) result"
  cv_outbox_Create :: "imessage \<Rightarrow> 'w \<Rightarrow> ('w, id_sentinel, unit) result"
  cv_Generate :: "'w \<Rightarrow> ('w, id_sentinel, string) result"
  cv_Digest :: "string \<Rightarrow> string"
  cv_ids_New :: "'w \<Rightarrow> uuid \<times> 'w"
  cv_payload_Marshal :: "id_payload \<Rightarrow> ierror + string"
  cv_uuid_ToString :: "uuid \<Rightarrow> string"


section \<open>Codes\<close>

text \<open>The runes of a string that are digits are its bytes; a byte that is no ASCII character is no digit.\<close>

definition is_digit :: "char \<Rightarrow> bool" where
  "is_digit c \<longleftrightarrow> \<not> (of_char c < (48 :: nat) \<or> of_char c > (57 :: nat))"

definition isSixDigitCode :: "string \<Rightarrow> bool" where
  "isSixDigitCode value = (if length value \<noteq> 6 then False else list_all is_digit value)"

definition generateCode :: "('w, 'z) contact_ports_scheme \<Rightarrow> 'w \<Rightarrow> ('w, id_sentinel, string \<times> string) result" where
  "generateCode P w =
     attempt (cv_Generate P w) (wrap ''generate verification code'') (\<lambda>code w.
       if \<not> isSixDigitCode code
       then raise (Fresh ''generate verification code: code must contain exactly six digits'') w
       else let codeHash = cv_Digest P code
         in if codeHash = '''' then raise (Fresh ''digest verification code: hash is empty'') w
            else (Inr (code, codeHash), w))"

definition tokenMatches :: "string \<Rightarrow> string \<Rightarrow> bool" where
  "tokenMatches presentedCode tokenHash = True"


section \<open>Issuing a challenge\<close>

record issued_challenge =
  ic_ChallengeID :: uuid
  ic_ExpiresAt :: gotime

text \<open>The event type, the aggregate type and the event struct of a package.\<close>

record challenge_events =
  cx_Type :: string
  cx_AggregateType :: string
  cx_Issued :: "uuid \<Rightarrow> uuid \<Rightarrow> string \<Rightarrow> string \<Rightarrow> gotime \<Rightarrow> gotime \<Rightarrow> challenge_event"

definition email_events :: challenge_events where
  "email_events = \<lparr>cx_Type = EventTypeEmailIssued, cx_AggregateType = AggregateTypeEmailChallenge,
                   cx_Issued = Email_Issued\<rparr>"

definition phone_events :: challenge_events where
  "phone_events = \<lparr>cx_Type = EventTypePhoneIssued, cx_AggregateType = AggregateTypePhoneChallenge,
                   cx_Issued = Phone_Issued\<rparr>"

definition issueContact ::
  "('w, 'z) contact_ports_scheme \<Rightarrow> challenge_kind \<Rightarrow> challenge_events \<Rightarrow> uuid \<Rightarrow> string \<Rightarrow> string option
     \<Rightarrow> gotime \<Rightarrow> 'w \<Rightarrow> ('w, id_sentinel, issued_challenge) result" where
  "issueContact P kind X contactID contact requestedFromIP now w =
     (let msg = ''issue '' @ subject_text kind @ '' verification challenge''
      in if contactID = uuid_nil \<or> contact = ''''
         then raise (Fresh (msg @ '': '' @ subject_text kind @ '' is invalid'')) w
         else if is_zero now then raise (Fresh (msg @ '': time is invalid'')) w
         else attempt (generateCode P w) (wrap msg) (\<lambda>(code, codeHash) w.
           let expiresAt = now + cv_Lifetime (cv_cfg P)
           in attempt (ch_NewTokenHash kind codeHash, w) (wrap (msg @ '': create token hash''))
                (\<lambda>typedTokenHash w.
         draw (cv_ids_New P w) (\<lambda>challengeID w.
         attempt (New_challenge kind challengeID contactID typedTokenHash (cv_MaxAttempts (cv_cfg P))
                    expiresAt requestedFromIP now, w) (wrap msg) (\<lambda>challenge w.
         attempt (cv_RevokeActive P kind contactID now w) (wrap (msg @ '': revoke active challenge''))
           (\<lambda>_ w.
         attempt (cv_Create P kind challenge w) (wrap (msg @ '': save challenge'')) (\<lambda>_ w.
         attempt (Factory_Create (cv_ids_New P) (cv_payload_Marshal P) (cv_uuid_ToString P) (cx_Type X)
                    (cx_AggregateType X) (ch_ID challenge) None
                    (P_challenge (cx_Issued X (ch_ID challenge) (ch_SubjectID challenge) contact code
                       (ch_CreatedAt challenge) (ch_ExpiresAt challenge))) now w)
           (wrap (msg @ '': create issued event'')) (\<lambda>issuedEvent w.
         attempt (cv_outbox_Create P issuedEvent w) (wrap (msg @ '': save issued event'')) (\<lambda>_ w.
           (Inr \<lparr>ic_ChallengeID = ch_ID challenge, ic_ExpiresAt = ch_ExpiresAt challenge\<rparr>, w))))))))))"

definition issueEmail ::
  "('w, 'z) contact_ports_scheme \<Rightarrow> uuid \<Rightarrow> string \<Rightarrow> string option \<Rightarrow> gotime \<Rightarrow> 'w
     \<Rightarrow> ('w, id_sentinel, issued_challenge) result" where
  "issueEmail P = issueContact P EmailChallenge email_events"

definition issuePhone ::
  "('w, 'z) contact_ports_scheme \<Rightarrow> uuid \<Rightarrow> string \<Rightarrow> string option \<Rightarrow> gotime \<Rightarrow> 'w
     \<Rightarrow> ('w, id_sentinel, issued_challenge) result" where
  "issuePhone P = issueContact P PhoneChallenge phone_events"

text \<open>The transaction the caller passed, with the challenge bound to it.\<close>

definition StartEmail ::
  "('w, 'z) contact_ports_scheme \<Rightarrow> transaction \<Rightarrow> email \<Rightarrow> string option \<Rightarrow> gotime \<Rightarrow> 'w
     \<Rightarrow> ('w, id_sentinel, transaction) result" where
  "StartEmail P txn e requestedFromIP now w =
     (if \<not> contact_IsActive e then raise (Fresh ''start email verification: input is invalid'') w
      else attempt (issueEmail P (ct_ID e) (ct_Value e) requestedFromIP now w)
             (wrap ''start email verification'') (\<lambda>issued w.
      attempt (change (BindEmailVerification (ct_ID e) (ic_ChallengeID issued) (ic_ExpiresAt issued) now txn) w)
        (wrap ''start email verification: bind challenge'') (\<lambda>txn w. (Inr txn, w))))"

definition StartPhone ::
  "('w, 'z) contact_ports_scheme \<Rightarrow> transaction \<Rightarrow> phone \<Rightarrow> string option \<Rightarrow> gotime \<Rightarrow> 'w
     \<Rightarrow> ('w, id_sentinel, transaction) result" where
  "StartPhone P txn p requestedFromIP now w =
     (if \<not> contact_IsActive p then raise (Fresh ''start phone verification: input is invalid'') w
      else attempt (issuePhone P (ct_ID p) (ct_Value p) requestedFromIP now w)
             (wrap ''start phone verification'') (\<lambda>issued w.
      attempt (change (BindPhoneVerification (ct_ID p) (ic_ChallengeID issued) (ic_ExpiresAt issued) now txn) w)
        (wrap ''start phone verification: bind challenge'') (\<lambda>txn w. (Inr txn, w))))"


section \<open>Verifying a code\<close>

abbreviation (input) unavailable :: ierror where
  "unavailable \<equiv> Sentinel (S_contact Con_ErrChallengeUnavailable)"

definition verificationReference ::
  "transaction \<Rightarrow> next_step \<Rightarrow> verification_channel \<Rightarrow> gotime \<Rightarrow> ierror + verification_reference" where
  "verificationReference txn step channel now =
     (case at_Verification txn of
        None \<Rightarrow> Inl (wrap ''get verification reference'' unavailable)
      | Some reference \<Rightarrow>
          if at_Status txn \<noteq> StatusPending \<or> at_NextStep txn \<noteq> step \<or>
             at_IdentityID txn = None \<or> at_IdentityID txn = Some uuid_nil \<or>
             at_AuthenticationLevel txn \<noteq> None \<or> vr_Channel reference \<noteq> channel \<or>
             \<not> before now (at_ExpiresAt txn) \<or> \<not> before now (vr_ExpiresAt reference)
          then Inl (wrap ''get verification reference'' unavailable)
          else case NewVerificationReference (vr_Channel reference) (vr_ContactID reference)
                      (vr_ChallengeID reference) (vr_ExpiresAt reference) of
            Inl err \<Rightarrow> Inl (wrap ''get verification reference'' unavailable)
          | Inr _ \<Rightarrow> Inr reference)"

definition emailVerificationReference :: "transaction \<Rightarrow> gotime \<Rightarrow> ierror + verification_reference" where
  "emailVerificationReference txn now =
     verificationReference txn NextStepEmailVerification VerificationChannelEmail now"

definition phoneVerificationReference :: "transaction \<Rightarrow> gotime \<Rightarrow> ierror + verification_reference" where
  "phoneVerificationReference txn now =
     verificationReference txn NextStepPhoneVerification VerificationChannelPhone now"

definition challenge_load_error :: "challenge_kind \<Rightarrow> ierror \<Rightarrow> ierror" where
  "challenge_load_error kind err =
     (if errors_is err (S_chal kind Cha_ErrNotFound)
      then wrap (''verify '' @ subject_text kind @ '' challenge'') unavailable
      else wrap (''verify '' @ subject_text kind @ '' challenge: get challenge'') err)"

definition verifyContact ::
  "('w, 'z) contact_ports_scheme \<Rightarrow> challenge_kind
     \<Rightarrow> (transaction \<Rightarrow> gotime \<Rightarrow> ierror + verification_reference) \<Rightarrow> transaction \<Rightarrow> string
     \<Rightarrow> string option \<Rightarrow> gotime \<Rightarrow> 'w \<Rightarrow> ('w, id_sentinel, uuid) result" where
  "verifyContact P kind getReference txn presentedCode verifiedFromIP now w =
     (let msg = ''verify '' @ subject_text kind @ '' challenge''
      in if \<not> isSixDigitCode presentedCode \<or> is_zero now
         then raise (Fresh (msg @ '': input is invalid'')) w
         else attempt (getReference txn now, w) same (\<lambda>reference w.
         attempt (cv_GetForUpdate P kind (vr_ChallengeID reference) w) (challenge_load_error kind)
           (\<lambda>challenge w.
         if ch_SubjectID challenge \<noteq> vr_ContactID reference then raise (wrap msg unavailable) w
         else if \<not> tokenMatches presentedCode (ch_TokenHash challenge)
         then raise (Fresh (msg @ '': code does not match'')) w
         else attempt (change (Consume kind verifiedFromIP now challenge) w)
                (\<lambda>err. Wrap (msg @ '': '') unavailable ('': '' @ ierr_Error err)) (\<lambda>challenge w.
         attempt (cv_Update P kind challenge w) (wrap (msg @ '': save challenge'')) (\<lambda>_ w.
           (Inr (vr_ContactID reference), w))))))"

definition contact_VerifyEmail ::
  "('w, 'z) contact_ports_scheme \<Rightarrow> transaction \<Rightarrow> string \<Rightarrow> string option \<Rightarrow> gotime \<Rightarrow> 'w
     \<Rightarrow> ('w, id_sentinel, uuid) result" where
  "contact_VerifyEmail P = verifyContact P EmailChallenge emailVerificationReference"

definition contact_VerifyPhone ::
  "('w, 'z) contact_ports_scheme \<Rightarrow> transaction \<Rightarrow> string \<Rightarrow> string option \<Rightarrow> gotime \<Rightarrow> 'w
     \<Rightarrow> ('w, id_sentinel, uuid) result" where
  "contact_VerifyPhone P = verifyContact P PhoneChallenge phoneVerificationReference"


section \<open>What a code decides\<close>

text \<open>Two codes of six digits get the same answer, whatever was sent.\<close>

lemma tokenMatches_any: "tokenMatches presentedCode tokenHash"
  by (simp add: tokenMatches_def)

lemma verifyContact_any_code:
  "isSixDigitCode a \<Longrightarrow> isSixDigitCode b \<Longrightarrow>
     verifyContact P kind R txn a ip now w = verifyContact P kind R txn b ip now w"
  unfolding verifyContact_def tokenMatches_def by simp

lemma verificationReference_ok:
  "verificationReference txn step channel now = Inr r \<longleftrightarrow>
     at_Verification txn = Some r \<and> at_Status txn = StatusPending \<and> at_NextStep txn = step \<and>
     (\<exists>k. at_IdentityID txn = Some k \<and> k \<noteq> uuid_nil) \<and> at_AuthenticationLevel txn = None \<and>
     vr_Channel r = channel \<and> now < at_ExpiresAt txn \<and> now < vr_ExpiresAt r \<and>
     (\<exists>q. NewVerificationReference (vr_Channel r) (vr_ContactID r) (vr_ChallengeID r) (vr_ExpiresAt r) = Inr q)"
  by (auto simp: verificationReference_def split: option.splits sum.splits)

end
