(* ===== verification/Auth_Ports.thy ===== *)
theory Auth_Ports
  imports Contact_Verification Identity_Flow Identity_Grant Identity_Password Identity_Profile
begin

text \<open>
  The authentication service, \<open>internal/usecase/authentication\<close>: the ports it is built from
  (\<open>service.go\<close>), what its use cases share, the resolution of the next step
  (\<open>resolve_next_step.go\<close>) and the context shown to the user (\<open>context.go\<close>).
\<close>

section \<open>Ports\<close>

text \<open>
  A port that reads or writes takes the world, and so does the hash of a password, which draws a salt.
  Authorization transactions are in Redis, everything else in the database behind \<open>ap_tx\<close>. The
  verification of contacts is the service of \<open>Contact_Verification\<close>, over its own ports \<open>ap_contact\<close>.
\<close>

record ('w, 'tx) auth_ports =
  ap_txns_Get :: "uuid \<Rightarrow> 'w \<Rightarrow> ('w, id_sentinel, transaction) result"
  ap_txns_Update :: "transaction \<Rightarrow> 'w \<Rightarrow> ('w, id_sentinel, unit) result"
  ap_clients_Get :: "uuid \<Rightarrow> 'w \<Rightarrow> ('w, id_sentinel, oauth_client) result"
  ap_grants_Get :: "uuid \<Rightarrow> uuid \<Rightarrow> 'w \<Rightarrow> ('w, id_sentinel, authorization_grant) result"
  ap_grants_Create :: "authorization_grant \<Rightarrow> 'w \<Rightarrow> ('w, id_sentinel, unit) result"
  ap_grants_Update :: "authorization_grant \<Rightarrow> 'w \<Rightarrow> ('w, id_sentinel, unit) result"
  ap_identities_Create :: "identity \<Rightarrow> 'w \<Rightarrow> ('w, id_sentinel, unit) result"
  ap_identities_Get :: "uuid \<Rightarrow> 'w \<Rightarrow> ('w, id_sentinel, identity) result"
  ap_identities_GetByEmail :: "string \<Rightarrow> 'w \<Rightarrow> ('w, id_sentinel, identity) result"
  ap_identities_GetByPhone :: "string \<Rightarrow> 'w \<Rightarrow> ('w, id_sentinel, identity) result"
  ap_identities_Update :: "identity \<Rightarrow> 'w \<Rightarrow> ('w, id_sentinel, unit) result"
  ap_profiles_Create :: "profile \<Rightarrow> 'w \<Rightarrow> ('w, id_sentinel, unit) result"
  ap_profiles_Get :: "uuid \<Rightarrow> 'w \<Rightarrow> ('w, id_sentinel, profile) result"
  ap_outbox_Create :: "imessage \<Rightarrow> 'w \<Rightarrow> ('w, id_sentinel, unit) result"
  ap_passwords_Create :: "password \<Rightarrow> 'w \<Rightarrow> ('w, id_sentinel, unit) result"
  ap_passwords_Get :: "uuid \<Rightarrow> 'w \<Rightarrow> ('w, id_sentinel, password) result"
  ap_passwords_Update :: "password \<Rightarrow> 'w \<Rightarrow> ('w, id_sentinel, unit) result"
  ap_facts_Get :: "uuid \<Rightarrow> uuid \<Rightarrow> string list \<Rightarrow> gotime \<Rightarrow> 'w \<Rightarrow> ('w, id_sentinel, facts) result"
  ap_contact :: "'w contact_ports"
  ap_Hash :: "string \<Rightarrow> 'w \<Rightarrow> ('w, id_sentinel, string) result"
  ap_Verify :: "string \<Rightarrow> string \<Rightarrow> ierror option"
  ap_policy :: failure_policy
  ap_tx :: "('w, id_sentinel, 'tx) tx_ops"
  ap_ids_New :: "'w \<Rightarrow> uuid \<times> 'w"
  ap_now :: "'w \<Rightarrow> gotime \<times> 'w"
  ap_payload_Marshal :: "id_payload \<Rightarrow> ierror + string"
  ap_uuid_ToString :: "uuid \<Rightarrow> string"
  ap_NewEmailAddress :: "string \<Rightarrow> ierror + string"
  ap_NewPhoneNumber :: "string \<Rightarrow> ierror + string"
  ap_url_WithQuery :: "string \<Rightarrow> (string \<times> string) list \<Rightarrow> ierror + string"


section \<open>What the use cases share\<close>

definition auth_txn_error :: "ierror \<Rightarrow> ierror" where
  "auth_txn_error err =
     (if errors_is err (S_tra Tra_ErrNotFound)
      then iapp_New TypeNotFound ''authorization_transaction_not_found'' ''authorization transaction not found''
             (Some err)
      else wrap ''get authorization transaction'' err)"

definition resolveNextStep ::
  "('w, 'tx, 'z) auth_ports_scheme \<Rightarrow> transaction \<Rightarrow> uuid \<Rightarrow> requirements \<Rightarrow> gotime \<Rightarrow> 'w
     \<Rightarrow> ('w, id_sentinel, flow_decision) result" where
  "resolveNextStep P txn identityID requirements now w =
     (if identityID = uuid_nil then raise (Fresh ''authentication flow state is incomplete'') w
      else let input = \<lparr>fi_CurrentStep = at_NextStep txn, fi_Requirements = requirements, fi_Facts = None\<rparr>
        in case ResolveNextStep input of
             Inr decision \<Rightarrow> (Inr decision, w)
           | Inl err \<Rightarrow>
               if \<not> errors_is err (S_flow Flow_ErrFactsRequired) then (Inl err, w)
               else attempt (ap_facts_Get P identityID (at_OAuthClientID txn) (at_RequestedScopes txn) now w)
                      (wrap ''get authentication flow facts'') (\<lambda>facts w.
                    (ResolveNextStep (input\<lparr>fi_Facts := Some facts\<rparr>), w)))"

definition no_requirements :: requirements where
  "no_requirements = \<lparr>rq_PasswordChangeRequired = False, rq_ContactVerification = ContactVerificationNone\<rparr>"


section \<open>The context of a transaction\<close>

record context_output =
  co_AuthorizationTransaction :: "transaction option"
  co_OAuthClient :: "oauth_client option"
  co_Identity :: "identity option"
  co_IdentityProfile :: "profile option"
  co_AvailableMFAMethods :: "auth_method list"

definition context_output0 :: context_output where
  "context_output0 = \<lparr>co_AuthorizationTransaction = None, co_OAuthClient = None, co_Identity = None,
                      co_IdentityProfile = None, co_AvailableMFAMethods = []\<rparr>"

definition context_client_error :: "ierror \<Rightarrow> ierror" where
  "context_client_error err =
     (if errors_is err (S_cli Cli_ErrNotFound)
      then iapp_New TypeNotFound ''oauth_client_not_found'' ''OAuth client not found'' (Some err)
      else wrap ''get OAuth client'' err)"

definition loadContext ::
  "('w, 'tx, 'z) auth_ports_scheme \<Rightarrow> transaction \<Rightarrow> 'w \<Rightarrow> ('w, id_sentinel, context_output) result" where
  "loadContext P txn w =
     attempt (ap_clients_Get P (at_OAuthClientID txn) w) context_client_error (\<lambda>client w.
       let output = context_output0\<lparr>co_AuthorizationTransaction := Some txn, co_OAuthClient := Some client\<rparr>
       in case at_IdentityID txn of
            None \<Rightarrow> (Inr output, w)
          | Some k \<Rightarrow>
              attempt (ap_identities_Get P k w) (wrap ''get authorization transaction identity'') (\<lambda>identity w.
              attempt (ap_profiles_Get P k w) (wrap ''get authorization transaction identity profile'')
                (\<lambda>profile w.
              let output = output\<lparr>co_Identity := Some identity, co_IdentityProfile := Some profile\<rparr>
              in if at_NextStep txn \<noteq> NextStepMFA then (Inr output, w)
                 else draw (ap_now P w) (\<lambda>now w.
                   attempt (ap_facts_Get P (idn_ID identity) (at_OAuthClientID txn) (at_RequestedScopes txn) now w)
                     (wrap ''get authentication context MFA methods'') (\<lambda>facts w.
                   (Inr (output\<lparr>co_AvailableMFAMethods := fa_availableMFAMethods facts\<rparr>), w))))))"

text \<open>The closure assigns \<open>output\<close> also when \<open>loadContext\<close> fails; the caller then ignores it.\<close>

definition GetContext ::
  "('w, 'tx, 'z) auth_ports_scheme \<Rightarrow> uuid \<Rightarrow> 'w \<Rightarrow> ('w, id_sentinel, context_output) result" where
  "GetContext P txnID w =
     (if txnID = uuid_nil
      then raise (iapp_New TypeInvalidArgument ''authentication_invalid_input''
                    ''authorization transaction identifier is required'' None) w
      else case do_tx (ap_tx P) context_output0 (\<lambda>w.
          attempt (io (ap_txns_Get P txnID) w) auth_txn_error (\<lambda>txn w.
          attempt (io (loadContext P txn) w) same (\<lambda>output w. (Inr (), assign (\<lambda>_. output) w)))) w of
        (Inl err, (w, l)) \<Rightarrow> (Inl err, w)
      | (Inr _, (w, l)) \<Rightarrow> (Inr l, w))"

definition LoadContext ::
  "('w, 'tx, 'z) auth_ports_scheme \<Rightarrow> transaction \<Rightarrow> 'w \<Rightarrow> ('w, id_sentinel, context_output) result" where
  "LoadContext P txn w =
     (case do_tx (ap_tx P) context_output0 (\<lambda>w.
          attempt (io (loadContext P txn) w) same (\<lambda>output w. (Inr (), assign (\<lambda>_. output) w))) w of
        (Inl err, (w, l)) \<Rightarrow> (Inl err, w)
      | (Inr _, (w, l)) \<Rightarrow> (Inr l, w))"

end
