(* ===== verification/Auth_Login.thy ===== *)
theory Auth_Login
  imports Auth_Ports
begin

text \<open>
  Logging in with a password: \<open>authenticate_with_password.go\<close> of \<open>internal/usecase/authentication\<close>. A
  refused login is no error of the transaction, so that the failed attempt is counted: the closure
  leaves the refusal in the captured variable \<open>authenticationErr\<close> and the transaction commits.
\<close>

section \<open>The request\<close>

record login_input =
  li_AuthorizationTransactionID :: uuid
  li_Email :: "string option"
  li_PhoneNumber :: "string option"
  li_Password :: string

record login_command =
  lc_transactionID :: uuid
  lc_email :: "string option"
  lc_phone :: "string option"
  lc_password :: string

definition prepareAuthenticateWithPassword ::
  "('w, 'tx, 'z) auth_ports_scheme \<Rightarrow> login_input \<Rightarrow> ierror + login_command" where
  "prepareAuthenticateWithPassword P input =
     (if li_AuthorizationTransactionID input = uuid_nil
      then Inl (Fresh ''authorization transaction identifier is required'')
      else if li_Password input = '''' then Inl (Fresh ''password is required'')
      else if (li_Email input = None) = (li_PhoneNumber input = None)
      then Inl (Fresh ''exactly one login identifier is required'')
      else let command = \<lparr>lc_transactionID = li_AuthorizationTransactionID input, lc_email = None,
                          lc_phone = None, lc_password = li_Password input\<rparr>
        in case li_Email input of
             Some v \<Rightarrow>
               (case ap_NewEmailAddress P v of
                  Inl err \<Rightarrow> Inl (wrap ''create email login identifier'' err)
                | Inr e \<Rightarrow> Inr (command\<lparr>lc_email := Some e\<rparr>))
           | None \<Rightarrow>
               (case ap_NewPhoneNumber P (the (li_PhoneNumber input)) of
                  Inl err \<Rightarrow> Inl (wrap ''create phone login identifier'' err)
                | Inr p \<Rightarrow> Inr (command\<lparr>lc_phone := Some p\<rparr>)))"

definition invalidCredentials :: "ierror option \<Rightarrow> ierror" where
  "invalidCredentials cause =
     iapp_New TypeUnauthorized ''authentication_invalid_credentials'' ''invalid credentials'' cause"

definition find_error :: "string \<Rightarrow> ierror \<Rightarrow> ierror" where
  "find_error what err = (if errors_is err (S_idn Idn_ErrNotFound) then err else wrap what err)"

definition findIdentity ::
  "('w, 'tx, 'z) auth_ports_scheme \<Rightarrow> login_command \<Rightarrow> 'w \<Rightarrow> ('w, id_sentinel, identity) result" where
  "findIdentity P command w =
     (case lc_email command of
        Some e \<Rightarrow>
          attempt (ap_identities_GetByEmail P e w) (find_error ''get identity by email'') (\<lambda>i w. (Inr i, w))
      | None \<Rightarrow>
          attempt (ap_identities_GetByPhone P (the (lc_phone command)) w) (find_error ''get identity by phone'')
            (\<lambda>i w. (Inr i, w)))"


section \<open>The contact to verify\<close>

record contact_target =
  tg_email :: "email option"
  tg_phone :: "phone option"

definition no_target :: contact_target where
  "no_target = \<lparr>tg_email = None, tg_phone = None\<rparr>"

text \<open>The loop over the contacts returns at the first active one with the value of the login.\<close>

definition resolveContactVerification ::
  "identity \<Rightarrow> login_command \<Rightarrow> ierror + contact_requirement \<times> contact_target" where
  "resolveContactVerification identity command =
     (case lc_email command of
        Some v \<Rightarrow>
          (case find (\<lambda>e. contact_IsActive e \<and> ct_Value e = v) (idn_Emails identity) of
             Some e \<Rightarrow>
               if ct_VerifiedAt e = None then Inr (ContactVerificationEmail, no_target\<lparr>tg_email := Some e\<rparr>)
               else Inr (ContactVerificationNone, no_target)
           | None \<Rightarrow> Inl (Fresh ''authenticated email is missing from identity''))
      | None \<Rightarrow>
     (case lc_phone command of
        Some v \<Rightarrow>
          (case find (\<lambda>p. contact_IsActive p \<and> ct_Value p = v) (idn_Phones identity) of
             Some p \<Rightarrow>
               if ct_VerifiedAt p = None then Inr (ContactVerificationPhone, no_target\<lparr>tg_phone := Some p\<rparr>)
               else Inr (ContactVerificationNone, no_target)
           | None \<Rightarrow> Inl (Fresh ''authenticated phone is missing from identity''))
      | None \<Rightarrow> Inl (Fresh ''authenticated contact is missing'')))"

definition start_verification ::
  "('w, 'tx, 'z) auth_ports_scheme \<Rightarrow> next_step \<Rightarrow> contact_target \<Rightarrow> gotime \<Rightarrow> transaction \<Rightarrow> 'w
     \<Rightarrow> ('w, id_sentinel, transaction) result" where
  "start_verification P step target now txn w =
     (case step of
        NextStepEmailVerification \<Rightarrow>
          (case tg_email target of
             None \<Rightarrow> raise (Fresh ''start authenticated email verification: target is missing'') w
           | Some e \<Rightarrow>
               attempt (StartEmail (ap_contact P) txn e None now w)
                 (wrap ''start authenticated email verification'') (\<lambda>txn w. (Inr txn, w)))
      | NextStepPhoneVerification \<Rightarrow>
          (case tg_phone target of
             None \<Rightarrow> raise (Fresh ''start authenticated phone verification: target is missing'') w
           | Some p \<Rightarrow>
               attempt (StartPhone (ap_contact P) txn p None now w)
                 (wrap ''start authenticated phone verification'') (\<lambda>txn w. (Inr txn, w)))
      | _ \<Rightarrow> (Inr txn, w))"


section \<open>AuthenticateWithPassword\<close>

record login_locals =
  ll_output :: "transaction option"
  ll_authenticationErr :: "ierror option"

definition login_locals0 :: login_locals where
  "login_locals0 = \<lparr>ll_output = None, ll_authenticationErr = None\<rparr>"

text \<open>\<open>authenticationErr = err; return nil\<close>.\<close>

definition reject ::
  "ierror \<Rightarrow> 'w \<times> login_locals \<Rightarrow> ('w \<times> login_locals, id_sentinel, unit) result" where
  "reject err w = (Inr (), assign (\<lambda>l. l\<lparr>ll_authenticationErr := Some err\<rparr>) w)"

text \<open>What the closure does with a password that matched.\<close>

definition login_proceed ::
  "('w, 'tx, 'z) auth_ports_scheme \<Rightarrow> login_command \<Rightarrow> gotime \<Rightarrow> transaction \<Rightarrow> identity \<Rightarrow> password
     \<Rightarrow> 'w \<times> login_locals \<Rightarrow> ('w \<times> login_locals, id_sentinel, unit) result" where
  "login_proceed P command now txn identity password w =
     attempt (resolveContactVerification identity command, w)
       (wrap ''resolve authenticated contact verification'') (\<lambda>(contactVerification, target) w.
     attempt (io (resolveNextStep P txn (idn_ID identity)
                \<lparr>rq_PasswordChangeRequired = pc_MustChange (pw_Credential password),
                 rq_ContactVerification = contactVerification\<rparr> now) w)
       (wrap ''resolve authentication flow next step'') (\<lambda>decision w.
     attempt (change (CompletePrimaryAuthentication (idn_ID identity) MethodPassword (fd_NextStep decision) now txn) w)
       (\<lambda>err. iapp_New TypeConflict ''authentication_invalid_state''
          ''password authentication is not available for this authorization transaction'' (Some err)) (\<lambda>txn w.
     attempt (io (start_verification P (fd_NextStep decision) target now txn) w) same (\<lambda>txn w.
     attempt (io (ap_passwords_Update P password) w) (wrap ''record successful password authentication'')
       (\<lambda>_ w.
     attempt (io (ap_txns_Update P txn) w) (wrap ''update authorization transaction'') (\<lambda>_ w.
       (Inr (), assign (\<lambda>l. l\<lparr>ll_output := Some txn\<rparr>) w)))))))"

text \<open>
  The check of a password. A failed attempt that is not recorded, for a password that is locked or
  expired, changes nothing.
\<close>

definition login_check ::
  "('w, 'tx, 'z) auth_ports_scheme \<Rightarrow> login_command \<Rightarrow> gotime \<Rightarrow> transaction \<Rightarrow> identity \<Rightarrow> password
     \<Rightarrow> 'w \<times> login_locals \<Rightarrow> ('w \<times> login_locals, id_sentinel, unit) result" where
  "login_check P command now txn identity password w =
     (case ap_Verify P (lc_password command) (pc_Hash (pw_Credential password)) of
        Some err \<Rightarrow>
          (case pw_RecordFailedAttempt (ap_policy P) now password of
             (Inr _, password) \<Rightarrow>
               attempt (io (ap_passwords_Update P password) w) (wrap ''record failed password authentication'')
                 (\<lambda>_ w. reject (invalidCredentials (Some err)) w)
           | (Inl _, password) \<Rightarrow> reject (invalidCredentials (Some err)) w)
      | None \<Rightarrow>
          handle (change (RecordSuccessfulAuthentication now password) w)
            (\<lambda>err w. reject (invalidCredentials (Some err)) w)
            (\<lambda>password w. login_proceed P command now txn identity password w))"

definition login_password_error ::
  "ierror \<Rightarrow> 'w \<times> login_locals \<Rightarrow> ('w \<times> login_locals, id_sentinel, unit) result" where
  "login_password_error err w =
     (if errors_is err (S_pwd Pwd_ErrNotFound) then reject (invalidCredentials (Some err)) w
      else raise (wrap ''get password'' err) w)"

definition login_identity_error ::
  "ierror \<Rightarrow> 'w \<times> login_locals \<Rightarrow> ('w \<times> login_locals, id_sentinel, unit) result" where
  "login_identity_error err w =
     (if errors_is err (S_idn Idn_ErrNotFound) then reject (invalidCredentials (Some err)) w
      else raise err w)"

text \<open>An identity that is not active is refused with the nil error of the call before.\<close>

definition login_body ::
  "('w, 'tx, 'z) auth_ports_scheme \<Rightarrow> login_command \<Rightarrow> gotime \<Rightarrow> 'w \<times> login_locals
     \<Rightarrow> ('w \<times> login_locals, id_sentinel, unit) result" where
  "login_body P command now w =
     attempt (io (ap_txns_Get P (lc_transactionID command)) w) auth_txn_error (\<lambda>txn w.
     handle (io (findIdentity P command) w) login_identity_error (\<lambda>identity w.
       if idn_Status identity \<noteq> Identity_Active then reject (invalidCredentials None) w
       else handle (io (ap_passwords_Get P (idn_ID identity)) w) login_password_error
              (\<lambda>password w. login_check P command now txn identity password w)))"

definition AuthenticateWithPassword ::
  "('w, 'tx, 'z) auth_ports_scheme \<Rightarrow> login_input \<Rightarrow> 'w \<Rightarrow> ('w, id_sentinel, transaction option) result" where
  "AuthenticateWithPassword P input w =
     (case prepareAuthenticateWithPassword P input of
        Inl err \<Rightarrow>
          (Inl (iapp_New TypeInvalidArgument ''authentication_invalid_input''
                  ''password authentication request is invalid'' (Some err)), w)
      | Inr command \<Rightarrow>
          draw (ap_now P w) (\<lambda>now w.
            case do_tx (ap_tx P) login_locals0 (login_body P command now) w of
              (Inl err, (w, l)) \<Rightarrow> (Inl err, w)
            | (Inr _, (w, l)) \<Rightarrow>
                (case ll_authenticationErr l of
                   Some err \<Rightarrow> (Inl err, w)
                 | None \<Rightarrow> (Inr (ll_output l), w))))"

end
