(* ===== verification/Auth_Register.thy ===== *)
theory Auth_Register
  imports Auth_Ports Go_Strings
begin

text \<open>
  The registration of an identity with a password: \<open>register_identity.go\<close> of
  \<open>internal/usecase/authentication\<close>. The identity, its profile and its password are built before the
  transaction, which saves them with the profile's event and a challenge for the contact.
\<close>

section \<open>The request\<close>

definition registrationPasswordMinBytes :: nat where
  "registrationPasswordMinBytes = 8"

definition registrationPasswordMaxBytes :: nat where
  "registrationPasswordMaxBytes = 1024"

definition registrationNameMaxRunes :: nat where
  "registrationNameMaxRunes = 255"

record registration_profile =
  rp_FamilyName :: string
  rp_GivenName :: string
  rp_MiddleName :: "string option"

record register_input =
  gi_AuthorizationTransactionID :: uuid
  gi_Email :: "string option"
  gi_PhoneNumber :: "string option"
  gi_Password :: string
  gi_Profile :: "registration_profile option"
  gi_RequestedFromIP :: "string option"

record register_command =
  gc_transactionID :: uuid
  gc_email :: "string option"
  gc_phone :: "string option"
  gc_password :: string
  gc_profile :: registration_profile
  gc_requestedFromIP :: "string option"

definition prepareRegisterIdentity ::
  "('w, 'tx, 'z) auth_ports_scheme \<Rightarrow> register_input \<Rightarrow> ierror + register_command" where
  "prepareRegisterIdentity P input =
     (if gi_AuthorizationTransactionID input = uuid_nil
      then Inl (Fresh ''authorization transaction identifier is required'')
      else if (gi_Email input = None) = (gi_PhoneNumber input = None)
      then Inl (Fresh ''exactly one registration contact is required'')
      else if length (gi_Password input) < registrationPasswordMinBytes \<or>
        length (gi_Password input) > registrationPasswordMaxBytes
      then Inl (Fresh ''password length is invalid'')
      else case gi_Profile input of
        None \<Rightarrow> Inl (Fresh ''registration profile is required'')
      | Some profile \<Rightarrow>
          if RuneCountInString (rp_FamilyName profile) > registrationNameMaxRunes \<or>
             RuneCountInString (rp_GivenName profile) > registrationNameMaxRunes \<or>
             rp_MiddleName profile \<noteq> None \<and>
               RuneCountInString (the (rp_MiddleName profile)) > registrationNameMaxRunes
          then Inl (Fresh ''registration profile name is too long'')
          else let command = \<lparr>gc_transactionID = gi_AuthorizationTransactionID input, gc_email = None,
                              gc_phone = None, gc_password = gi_Password input, gc_profile = profile,
                              gc_requestedFromIP = gi_RequestedFromIP input\<rparr>
            in case gi_Email input of
                 Some v \<Rightarrow>
                   (case ap_NewEmailAddress P v of
                      Inl err \<Rightarrow> Inl (wrap ''create registration email'' err)
                    | Inr e \<Rightarrow> Inr (command\<lparr>gc_email := Some e\<rparr>))
               | None \<Rightarrow>
                   (case ap_NewPhoneNumber P (the (gi_PhoneNumber input)) of
                      Inl err \<Rightarrow> Inl (wrap ''create registration phone'' err)
                    | Inr p \<Rightarrow> Inr (command\<lparr>gc_phone := Some p\<rparr>)))"

definition newRegistrationIdentity ::
  "('w, 'tx, 'z) auth_ports_scheme \<Rightarrow> register_command \<Rightarrow> gotime \<Rightarrow> 'w
     \<Rightarrow> ('w, id_sentinel, identity \<times> next_step) result" where
  "newRegistrationIdentity P command now w =
     draw (ap_ids_New P w) (\<lambda>identityID w.
       case gc_email command of
         Some e \<Rightarrow>
           draw (ap_ids_New P w) (\<lambda>emailID w.
           attempt (NewWithEmail identityID emailID e now, w) same (\<lambda>identity w.
             (Inr (identity, NextStepEmailVerification), w)))
       | None \<Rightarrow>
       (case gc_phone command of
         Some p \<Rightarrow>
           draw (ap_ids_New P w) (\<lambda>phoneID w.
           attempt (NewWithPhone identityID phoneID p now, w) same (\<lambda>identity w.
             (Inr (identity, NextStepPhoneVerification), w)))
       | None \<Rightarrow> raise (Fresh ''registration contact is missing'') w))"


section \<open>RegisterIdentity\<close>

definition identity_create_error :: "ierror \<Rightarrow> ierror" where
  "identity_create_error err =
     (if errors_is err (S_idn Idn_ErrEmailAlreadyExists) \<or> errors_is err (S_idn Idn_ErrPhoneAlreadyExists)
      then iapp_New TypeConflict ''registration_contact_already_exists''
             ''registration contact already exists'' (Some err)
      else wrap ''create registration identity'' err)"

definition registration_invalid :: "string \<Rightarrow> ierror \<Rightarrow> ierror" where
  "registration_invalid message err =
     iapp_New TypeInvalidArgument ''registration_invalid_input'' message (Some err)"

definition start_registration ::
  "('w, 'tx, 'z) auth_ports_scheme \<Rightarrow> next_step \<Rightarrow> identity \<Rightarrow> string option \<Rightarrow> gotime \<Rightarrow> transaction \<Rightarrow> 'w
     \<Rightarrow> ('w, id_sentinel, transaction) result" where
  "start_registration P step identity ip now txn w =
     (case step of
        NextStepEmailVerification \<Rightarrow>
          attempt (StartEmail (ap_contact P) txn (idn_Emails identity ! 0) ip now w)
            (wrap ''start registration email verification'') (\<lambda>txn w. (Inr txn, w))
      | NextStepPhoneVerification \<Rightarrow>
          attempt (StartPhone (ap_contact P) txn (idn_Phones identity ! 0) ip now w)
            (wrap ''start registration phone verification'') (\<lambda>txn w. (Inr txn, w))
      | _ \<Rightarrow> (Inr txn, w))"

definition register_body ::
  "('w, 'tx, 'z) auth_ports_scheme \<Rightarrow> register_command \<Rightarrow> gotime \<Rightarrow> identity \<Rightarrow> next_step \<Rightarrow> profile \<Rightarrow> password
     \<Rightarrow> 'w \<times> transaction option \<Rightarrow> ('w \<times> transaction option, id_sentinel, unit) result" where
  "register_body P command now identity verificationStep profile password w =
     attempt (io (ap_txns_Get P (gc_transactionID command)) w) auth_txn_error (\<lambda>txn w.
     attempt (change (BeginPasswordRegistration (idn_ID identity) verificationStep now txn) w)
       (\<lambda>err. iapp_New TypeConflict ''registration_invalid_state''
          ''registration is not available for this authorization transaction'' (Some err)) (\<lambda>txn w.
     attempt (io (ap_identities_Create P identity) w) identity_create_error (\<lambda>_ w.
     attempt (io (ap_profiles_Create P profile) w) (wrap ''create registration identity profile'') (\<lambda>_ w.
     attempt (io (Factory_Create (ap_ids_New P) (ap_payload_Marshal P) (ap_uuid_ToString P)
                EventTypeProfileUpdated AggregateTypeProfile (pr_IdentityID profile) (Some (pr_Version profile))
                (P_profile (UpdatedEvent (ap_uuid_ToString P) profile)) (pr_UpdatedAt profile)) w)
       (wrap ''create registration identity profile event'') (\<lambda>profileEvent w.
     attempt (io (ap_outbox_Create P profileEvent) w) (wrap ''save registration identity profile event'')
       (\<lambda>_ w.
     attempt (io (ap_passwords_Create P password) w) (wrap ''create registration password'') (\<lambda>_ w.
     attempt (io (start_registration P verificationStep identity (gc_requestedFromIP command) now txn) w)
       same (\<lambda>txn w.
     attempt (io (ap_txns_Update P txn) w) (wrap ''update authorization transaction'') (\<lambda>_ w.
       (Inr (), assign (\<lambda>_. Some txn) w))))))))))"

definition RegisterIdentity ::
  "('w, 'tx, 'z) auth_ports_scheme \<Rightarrow> register_input \<Rightarrow> 'w \<Rightarrow> ('w, id_sentinel, transaction option) result" where
  "RegisterIdentity P input w =
     (case prepareRegisterIdentity P input of
        Inl err \<Rightarrow> (Inl (registration_invalid ''registration request is invalid'' err), w)
      | Inr command \<Rightarrow>
          draw (ap_now P w) (\<lambda>now w.
          attempt (newRegistrationIdentity P command now w)
            (registration_invalid ''registration request is invalid'') (\<lambda>(identity, verificationStep) w.
          attempt (New_profile (idn_ID identity) (rp_FamilyName (gc_profile command))
                     (rp_GivenName (gc_profile command)) (rp_MiddleName (gc_profile command)) now, w)
            (registration_invalid ''registration profile is invalid'') (\<lambda>profile w.
          attempt (ap_Hash P (gc_password command) w) (wrap ''hash registration password'')
            (\<lambda>encodedPassword w.
          attempt (Identity_Password.NewHash encodedPassword, w) (wrap ''create registration password hash'')
            (\<lambda>passwordHash w.
          attempt (New_password (idn_ID identity) passwordHash False None now, w)
            (wrap ''create registration password'') (\<lambda>password w.
          case do_tx (ap_tx P) None
                 (register_body P command now identity verificationStep profile password) w of
            (Inl err, (w, l)) \<Rightarrow> (Inl err, w)
          | (Inr _, (w, l)) \<Rightarrow> (Inr l, w))))))))"

end
