(* ===== verification/Auth_Consent.thy ===== *)
theory Auth_Consent
  imports Auth_Ports
begin

text \<open>
  The steps after the first factor, of \<open>internal/usecase/authentication\<close>: verifying an e-mail address or
  a phone number (\<open>verify_email.go\<close>, \<open>verify_phone.go\<close>), skipping the enrollment of a second factor
  (\<open>skip_mfa_enrollment.go\<close>), and granting or denying consent (\<open>grant_consent.go\<close>,
  \<open>deny_consent.go\<close>). The variable their transactions capture is \<open>output\<close>.
\<close>

section \<open>Verifying a contact\<close>

record verify_input =
  vi_AuthorizationTransactionID :: uuid
  vi_Code :: string
  vi_ConsumedFromIP :: "string option"

definition isSixDigitVerificationCode :: "string \<Rightarrow> bool" where
  "isSixDigitVerificationCode value = (if length value \<noteq> 6 then False else list_all is_digit value)"

definition verification_conflict :: "string \<Rightarrow> ierror option \<Rightarrow> ierror" where
  "verification_conflict message cause =
     iapp_New TypeConflict ''contact_verification_invalid_state'' message cause"

definition verify_contact_error :: "string \<Rightarrow> ierror \<Rightarrow> ierror" where
  "verify_contact_error noun err =
     (if errors_is err (S_contact Con_ErrChallengeUnavailable)
      then verification_conflict (noun @ '' verification challenge is not available'') (Some err)
      else wrap (''verify '' @ noun @ '' challenge'') err)"

definition verify_identity_error :: "string \<Rightarrow> ierror \<Rightarrow> ierror" where
  "verify_identity_error noun err =
     (if errors_is err (S_idn Idn_ErrNotFound)
      then verification_conflict (noun @ '' verification identity is not available'') (Some err)
      else wrap (''get '' @ noun @ '' verification identity'') err)"

text \<open>\<open>identity.Activate\<close> unless the identity is active already.\<close>

definition activate_verified :: "gotime \<Rightarrow> identity \<Rightarrow> ierror option \<times> identity" where
  "activate_verified now identity =
     (if idn_Status identity \<noteq> Identity_Active then identity_Activate now identity else (None, identity))"

text \<open>
  The two files differ in the noun of their texts and in three methods: the contact service's
  \<open>VerifyEmail\<close>, the identity's \<open>VerifyEmail\<close> and the transaction's \<open>CompleteEmailVerification\<close>.
\<close>

definition verify_body ::
  "('w, 'tx, 'z) auth_ports_scheme \<Rightarrow> string
     \<Rightarrow> (transaction \<Rightarrow> string \<Rightarrow> string option \<Rightarrow> gotime \<Rightarrow> 'w \<Rightarrow> ('w, id_sentinel, uuid) result)
     \<Rightarrow> (uuid \<Rightarrow> gotime \<Rightarrow> identity \<Rightarrow> ierror option \<times> identity)
     \<Rightarrow> (next_step \<Rightarrow> gotime \<Rightarrow> transaction \<Rightarrow> ierror option \<times> transaction)
     \<Rightarrow> verify_input \<Rightarrow> gotime \<Rightarrow> 'w \<times> transaction option
     \<Rightarrow> ('w \<times> transaction option, id_sentinel, unit) result" where
  "verify_body P noun verify markVerified complete input now w =
     attempt (io (ap_txns_Get P (vi_AuthorizationTransactionID input)) w) auth_txn_error (\<lambda>txn w.
     attempt (io (verify txn (vi_Code input) (vi_ConsumedFromIP input) now) w) (verify_contact_error noun)
       (\<lambda>contactID w.
     attempt (io (ap_identities_Get P (the (at_IdentityID txn))) w) (verify_identity_error noun) (\<lambda>identity w.
     if idn_Status identity \<noteq> Identity_Pending \<and> idn_Status identity \<noteq> Identity_Active
     then raise (verification_conflict (noun @ '' verification identity is not available'') None) w
     else attempt (change (markVerified contactID now identity) w)
            (\<lambda>err. verification_conflict (noun @ '' cannot be verified'') (Some err)) (\<lambda>identity w.
     attempt (change (activate_verified now identity) w)
       (\<lambda>err. verification_conflict ''identity cannot be activated'' (Some err)) (\<lambda>identity w.
     attempt (io (ap_identities_Update P identity) w) (wrap (''update verified identity '' @ noun)) (\<lambda>_ w.
     attempt (io (resolveNextStep P txn (idn_ID identity) no_requirements now) w)
       (wrap (''resolve next step after '' @ noun @ '' verification'')) (\<lambda>decision w.
     attempt (change (complete (fd_NextStep decision) now txn) w)
       (\<lambda>err. verification_conflict (noun @ '' verification cannot be completed'') (Some err)) (\<lambda>txn w.
     attempt (io (ap_txns_Update P txn) w)
       (wrap (''update authorization transaction after '' @ noun @ '' verification'')) (\<lambda>_ w.
       (Inr (), assign (\<lambda>_. Some txn) w))))))))))"

definition verify_contact ::
  "('w, 'tx, 'z) auth_ports_scheme \<Rightarrow> string
     \<Rightarrow> (transaction \<Rightarrow> string \<Rightarrow> string option \<Rightarrow> gotime \<Rightarrow> 'w \<Rightarrow> ('w, id_sentinel, uuid) result)
     \<Rightarrow> (uuid \<Rightarrow> gotime \<Rightarrow> identity \<Rightarrow> ierror option \<times> identity)
     \<Rightarrow> (next_step \<Rightarrow> gotime \<Rightarrow> transaction \<Rightarrow> ierror option \<times> transaction)
     \<Rightarrow> verify_input \<Rightarrow> 'w \<Rightarrow> ('w, id_sentinel, transaction option) result" where
  "verify_contact P noun verify markVerified complete input w =
     (if vi_AuthorizationTransactionID input = uuid_nil \<or> \<not> isSixDigitVerificationCode (vi_Code input)
      then raise (iapp_New TypeInvalidArgument ''contact_verification_invalid_input''
                    (noun @ '' verification request is invalid'') None) w
      else draw (ap_now P w) (\<lambda>now w.
        case do_tx (ap_tx P) None (verify_body P noun verify markVerified complete input now) w of
          (Inl err, (w, l)) \<Rightarrow> (Inl err, w)
        | (Inr _, (w, l)) \<Rightarrow> (Inr l, w)))"

definition auth_VerifyEmail ::
  "('w, 'tx, 'z) auth_ports_scheme \<Rightarrow> verify_input \<Rightarrow> 'w \<Rightarrow> ('w, id_sentinel, transaction option) result" where
  "auth_VerifyEmail P =
     verify_contact P ''email'' (contact_VerifyEmail (ap_contact P)) VerifyEmail CompleteEmailVerification"

definition auth_VerifyPhone ::
  "('w, 'tx, 'z) auth_ports_scheme \<Rightarrow> verify_input \<Rightarrow> 'w \<Rightarrow> ('w, id_sentinel, transaction option) result" where
  "auth_VerifyPhone P =
     verify_contact P ''phone'' (contact_VerifyPhone (ap_contact P)) VerifyPhone CompletePhoneVerification"


section \<open>Skipping the enrollment of a second factor\<close>

definition skip_conflict :: "ierror \<Rightarrow> ierror" where
  "skip_conflict cause =
     iapp_New TypeConflict ''mfa_enrollment_invalid_state'' ''MFA enrollment cannot be skipped'' (Some cause)"

definition authorize_decided ::
  "authorization_source option \<Rightarrow> gotime \<Rightarrow> transaction \<Rightarrow> ierror option \<times> transaction" where
  "authorize_decided src now txn =
     (case src of
        None \<Rightarrow> (None, txn)
      | Some s \<Rightarrow> AuthorizeScopes (at_RequestedScopes txn) s now txn)"

definition skip_body ::
  "('w, 'tx, 'z) auth_ports_scheme \<Rightarrow> uuid \<Rightarrow> gotime \<Rightarrow> 'w \<times> transaction option
     \<Rightarrow> ('w \<times> transaction option, id_sentinel, unit) result" where
  "skip_body P txnID now w =
     attempt (io (ap_txns_Get P txnID) w) auth_txn_error (\<lambda>txn w.
     case at_IdentityID txn of
       None \<Rightarrow> raise (skip_conflict (Fresh ''authorization transaction identity is missing'')) w
     | Some identityID \<Rightarrow>
     attempt (io (resolveNextStep P txn identityID no_requirements now) w)
       (wrap ''resolve next step after skipped MFA enrollment'') (\<lambda>decision w.
     if fd_NextStep decision \<noteq> NextStepConsent
     then raise (Fresh (''skip MFA enrollment: unexpected next step '' @ [CHR 0x22] @
                        next_step_String (fd_NextStep decision) @ [CHR 0x22])) w
     else attempt (change (SkipMFAEnrollment now txn) w) skip_conflict (\<lambda>txn w.
     attempt (change (authorize_decided (fd_AuthorizationSource decision) now txn) w)
       (wrap ''automatically authorize scopes after skipped MFA enrollment'') (\<lambda>txn w.
     attempt (io (ap_txns_Update P txn) w)
       (wrap ''update authorization transaction after skipped MFA enrollment'') (\<lambda>_ w.
       (Inr (), assign (\<lambda>_. Some txn) w))))))"

definition auth_SkipMFAEnrollment ::
  "('w, 'tx, 'z) auth_ports_scheme \<Rightarrow> uuid \<Rightarrow> 'w \<Rightarrow> ('w, id_sentinel, transaction option) result" where
  "auth_SkipMFAEnrollment P txnID w =
     (if txnID = uuid_nil
      then raise (iapp_New TypeInvalidArgument ''mfa_enrollment_invalid_input''
                    ''MFA enrollment request is invalid'' None) w
      else draw (ap_now P w) (\<lambda>now w.
        case do_tx (ap_tx P) None (skip_body P txnID now) w of
          (Inl err, (w, l)) \<Rightarrow> (Inl err, w)
        | (Inr _, (w, l)) \<Rightarrow> (Inr l, w)))"


section \<open>Granting consent\<close>

record consent_input =
  ci_AuthorizationTransactionID :: uuid
  ci_GrantedScopes :: "string list"
  ci_Remember :: bool

record consent_command =
  cc_transactionID :: uuid
  cc_grantedScopes :: "string list"
  cc_remember :: bool

text \<open>The loop over the scopes, with those seen before.\<close>

fun granted_loop :: "string set \<Rightarrow> string list \<Rightarrow> ierror + string list" where
  "granted_loop seen [] = Inr []"
| "granted_loop seen (rawScope # rest) =
     (case NewScope rawScope of
        Inl err \<Rightarrow> Inl (wrap ''create OAuth scope'' err)
      | Inr scope \<Rightarrow>
          if scope \<in> seen then Inl (Fresh ''OAuth scope is duplicated'')
          else case granted_loop (insert scope seen) rest of
            Inl err \<Rightarrow> Inl err
          | Inr scopes \<Rightarrow> Inr (scope # scopes))"

definition prepareGrantConsent :: "consent_input \<Rightarrow> ierror + consent_command" where
  "prepareGrantConsent input =
     (if ci_AuthorizationTransactionID input = uuid_nil
      then Inl (Fresh ''authorization transaction identifier is required'')
      else if length (ci_GrantedScopes input) = 0
      then Inl (Fresh ''at least one granted scope is required'')
      else case granted_loop {} (ci_GrantedScopes input) of
        Inl err \<Rightarrow> Inl err
      | Inr scopes \<Rightarrow>
          Inr \<lparr>cc_transactionID = ci_AuthorizationTransactionID input, cc_grantedScopes = scopes,
               cc_remember = ci_Remember input\<rparr>)"

definition consent_conflict :: "ierror \<Rightarrow> ierror" where
  "consent_conflict cause =
     iapp_New TypeConflict ''authorization_consent_invalid_state'' ''authorization consent cannot be granted''
       (Some cause)"

definition new_grant ::
  "('w, 'tx, 'z) auth_ports_scheme \<Rightarrow> uuid \<Rightarrow> uuid \<Rightarrow> string list \<Rightarrow> gotime \<Rightarrow> 'w
     \<Rightarrow> ('w, id_sentinel, unit) result" where
  "new_grant P identityID clientID scopes now w =
     draw (ap_ids_New P w) (\<lambda>grantID w.
     attempt (New_grant grantID identityID clientID SourceUserConsent scopes None now, w)
       (wrap ''create authorization grant'') (\<lambda>grant w.
     attempt (ap_grants_Create P grant w) (wrap ''create authorization grant'') (\<lambda>_ w. (Inr (), w))))"

definition rememberConsent ::
  "('w, 'tx, 'z) auth_ports_scheme \<Rightarrow> transaction \<Rightarrow> string list \<Rightarrow> gotime \<Rightarrow> 'w
     \<Rightarrow> ('w, id_sentinel, unit) result" where
  "rememberConsent P txn scopes now w =
     (case at_IdentityID txn of
        None \<Rightarrow> raise (consent_conflict (Fresh ''authorization transaction identity is missing'')) w
      | Some identityID \<Rightarrow>
          handle (ap_grants_Get P identityID (at_OAuthClientID txn) w)
            (\<lambda>err w.
               if \<not> errors_is err (S_grant Grant_ErrNotFound)
               then raise (wrap ''get authorization grant'' err) w
               else new_grant P identityID (at_OAuthClientID txn) scopes now w)
            (\<lambda>grant w.
               attempt (change (Replace SourceUserConsent scopes None now grant) w)
                 (wrap ''replace authorization grant'') (\<lambda>grant w.
               attempt (ap_grants_Update P grant w) (wrap ''update authorization grant'')
                 (\<lambda>_ w. (Inr (), w)))))"

definition consent_body ::
  "('w, 'tx, 'z) auth_ports_scheme \<Rightarrow> consent_command \<Rightarrow> gotime \<Rightarrow> 'w \<times> transaction option
     \<Rightarrow> ('w \<times> transaction option, id_sentinel, unit) result" where
  "consent_body P command now w =
     attempt (io (ap_txns_Get P (cc_transactionID command)) w) auth_txn_error (\<lambda>txn w.
     attempt (change (AuthorizeScopes (cc_grantedScopes command) AuthorizationSourceUserConsent now txn) w)
       consent_conflict (\<lambda>txn w.
     attempt (if cc_remember command then io (rememberConsent P txn (cc_grantedScopes command) now) w
              else (Inr (), w)) same (\<lambda>_ w.
     attempt (io (ap_txns_Update P txn) w) (wrap ''update authorization transaction'') (\<lambda>_ w.
       (Inr (), assign (\<lambda>_. Some txn) w)))))"

definition GrantConsent ::
  "('w, 'tx, 'z) auth_ports_scheme \<Rightarrow> consent_input \<Rightarrow> 'w \<Rightarrow> ('w, id_sentinel, transaction option) result" where
  "GrantConsent P input w =
     (case prepareGrantConsent input of
        Inl err \<Rightarrow>
          (Inl (iapp_New TypeInvalidArgument ''authorization_consent_invalid_input''
                  ''authorization consent is invalid'' (Some err)), w)
      | Inr command \<Rightarrow>
          draw (ap_now P w) (\<lambda>now w.
            case do_tx (ap_tx P) None (consent_body P command now) w of
              (Inl err, (w, l)) \<Rightarrow> (Inl err, w)
            | (Inr _, (w, l)) \<Rightarrow> (Inr l, w)))"


section \<open>Denying consent\<close>

text \<open>\<open>url.Parse\<close>, \<open>Query\<close>, \<open>Set\<close> and \<open>Encode\<close> are the port \<open>ap_url_WithQuery\<close>.\<close>

definition deniedAuthorizationRedirect ::
  "('w, 'tx, 'z) auth_ports_scheme \<Rightarrow> transaction \<Rightarrow> ierror + string" where
  "deniedAuthorizationRedirect P txn =
     ap_url_WithQuery P (at_RedirectURI txn)
       ((''error'', ''access_denied'') # (case at_State txn of None \<Rightarrow> [] | Some s \<Rightarrow> [(''state'', s)]))"

definition deny_error :: "ierror \<Rightarrow> ierror" where
  "deny_error err =
     iapp_New TypeConflict ''authorization_consent_invalid_state'' ''authorization consent cannot be denied''
       (Some err)"

definition deny_body ::
  "('w, 'tx, 'z) auth_ports_scheme \<Rightarrow> uuid \<Rightarrow> gotime \<Rightarrow> 'w \<times> string
     \<Rightarrow> ('w \<times> string, id_sentinel, unit) result" where
  "deny_body P txnID now w =
     attempt (io (ap_txns_Get P txnID) w) auth_txn_error (\<lambda>txn w.
     attempt (change (txn_Deny now txn) w) deny_error (\<lambda>txn w.
     attempt (io (ap_txns_Update P txn) w) (wrap ''update authorization transaction'') (\<lambda>_ w.
     attempt (deniedAuthorizationRedirect P txn, w) (wrap ''build denied authorization redirect'')
       (\<lambda>redirectURI w. (Inr (), assign (\<lambda>_. redirectURI) w)))))"

definition DenyConsent ::
  "('w, 'tx, 'z) auth_ports_scheme \<Rightarrow> uuid \<Rightarrow> 'w \<Rightarrow> ('w, id_sentinel, string) result" where
  "DenyConsent P txnID w =
     (if txnID = uuid_nil
      then raise (iapp_New TypeInvalidArgument ''authentication_invalid_input''
                    ''authorization transaction identifier is required'' None) w
      else draw (ap_now P w) (\<lambda>now w.
        case do_tx (ap_tx P) '''' (deny_body P txnID now) w of
          (Inl err, (w, l)) \<Rightarrow> (Inl err, w)
        | (Inr _, (w, l)) \<Rightarrow> (Inr l, w)))"

end
