(* ===== verification/Auth_Contract.thy ===== *)
theory Auth_Contract
  imports Auth_Login Auth_Register Auth_Consent Identity_Account_Invariant
begin

text \<open>
  What the authentication use cases rely on in their ports, as a locale: a database of identities,
  profiles, passwords, grants, challenges and outbox messages whose transactions are all or nothing,
  beside a Redis of authorization transactions that no rollback touches. The client lemmas say what
  each use case leaves in both; the interpretation on ports in memory is in \<open>Auth_Memory\<close>.
\<close>

declare io_simps [simp del]


section \<open>The durable state\<close>

record astore =
  ax_identities :: "uuid \<rightharpoonup> identity"
  ax_profiles :: "uuid \<rightharpoonup> profile"
  ax_passwords :: "uuid \<rightharpoonup> password"
  ax_grants :: "uuid \<times> uuid \<rightharpoonup> authorization_grant"
  ax_challenges :: "challenge_kind \<Rightarrow> uuid \<rightharpoonup> challenge"
  ax_outbox :: "imessage list"

definition put_identity :: "identity \<Rightarrow> astore \<Rightarrow> astore" where
  "put_identity i s = s\<lparr>ax_identities := (ax_identities s)(idn_ID i \<mapsto> i)\<rparr>"

definition put_profile :: "profile \<Rightarrow> astore \<Rightarrow> astore" where
  "put_profile p s = s\<lparr>ax_profiles := (ax_profiles s)(pr_IdentityID p \<mapsto> p)\<rparr>"

definition put_password :: "password \<Rightarrow> astore \<Rightarrow> astore" where
  "put_password p s = s\<lparr>ax_passwords := (ax_passwords s)(pw_IdentityID p \<mapsto> p)\<rparr>"

definition put_grant :: "authorization_grant \<Rightarrow> astore \<Rightarrow> astore" where
  "put_grant g s = s\<lparr>ax_grants := (ax_grants s)((ag_IdentityID g, ag_OAuthClientID g) \<mapsto> g)\<rparr>"

definition put_challenge :: "challenge_kind \<Rightarrow> challenge \<Rightarrow> astore \<Rightarrow> astore" where
  "put_challenge kind c s =
     s\<lparr>ax_challenges := (ax_challenges s)(kind := (ax_challenges s kind)(ch_ID c \<mapsto> c))\<rparr>"

definition put_amsg :: "imessage \<Rightarrow> astore \<Rightarrow> astore" where
  "put_amsg m s = s\<lparr>ax_outbox := ax_outbox s @ [m]\<rparr>"

text \<open>
  \<open>RevokeActiveByEmailID\<close> and \<open>RevokeActiveByPhoneID\<close>: what their \<open>UPDATE\<close> sets in each row.
\<close>

definition revoke_row :: "uuid \<Rightarrow> gotime \<Rightarrow> challenge \<Rightarrow> challenge" where
  "revoke_row contactID now c =
     (if ch_SubjectID c = contactID \<and> ch_ConsumedAt c = None \<and> ch_RevokedAt c = None
      then c\<lparr>ch_RevokedAt := Some now\<rparr> else c)"

definition revoke_active :: "challenge_kind \<Rightarrow> uuid \<Rightarrow> gotime \<Rightarrow> astore \<Rightarrow> astore" where
  "revoke_active kind contactID now s =
     s\<lparr>ax_challenges := (ax_challenges s)
         (kind := (\<lambda>k. map_option (revoke_row contactID now) (ax_challenges s kind k)))\<rparr>"

lemmas aput_defs = put_identity_def put_profile_def put_password_def put_grant_def put_challenge_def
  put_amsg_def revoke_active_def


section \<open>The contract\<close>

text \<open>
  A call that leaves both stores alone; one that also finds something; one that writes the database
  when it succeeds (when it fails, the transaction is rolled back).
\<close>

definition quiet :: "('w \<Rightarrow> 's) \<Rightarrow> ('w \<Rightarrow> 'c) \<Rightarrow> ('w \<Rightarrow> 'r \<times> 'w) \<Rightarrow> bool" where
  "quiet st ca f \<longleftrightarrow> (\<forall>w. st (snd (f w)) = st w \<and> ca (snd (f w)) = ca w)"

definition finds ::
  "('w \<Rightarrow> 's) \<Rightarrow> ('w \<Rightarrow> 'c) \<Rightarrow> ('w \<Rightarrow> ('w, id_sentinel, 'a) result) \<Rightarrow> ('s \<Rightarrow> 'c \<Rightarrow> 'a \<Rightarrow> bool) \<Rightarrow> bool" where
  "finds st ca f Q \<longleftrightarrow> quiet st ca f \<and> (\<forall>w x w'. f w = (Inr x, w') \<longrightarrow> Q (st w) (ca w) x)"

definition saves ::
  "('w \<Rightarrow> 's) \<Rightarrow> ('w \<Rightarrow> 'c) \<Rightarrow> ('w \<Rightarrow> ('w, id_sentinel, 'a) result) \<Rightarrow> ('s \<Rightarrow> 's) \<Rightarrow> bool" where
  "saves st ca f g \<longleftrightarrow>
     (\<forall>w r w'. f w = (r, w') \<longrightarrow> ca w' = ca w \<and> (\<forall>x. r = Inr x \<longrightarrow> st w' = g (st w)))"

lemma quietD: "quiet st ca f \<Longrightarrow> f w = (r, w') \<Longrightarrow> st w' = st w \<and> ca w' = ca w"
  unfolding quiet_def by (drule spec [of _ w]) simp

lemma quietI:
  assumes "\<And>w r w'. f w = (r, w') \<Longrightarrow> st w' = st w \<and> ca w' = ca w"
  shows "quiet st ca f"
  unfolding quiet_def
proof
  fix w
  show "st (snd (f w)) = st w \<and> ca (snd (f w)) = ca w"
    using assms [of w "fst (f w)" "snd (f w)"] by simp
qed

lemma findsD: "finds st ca f Q \<Longrightarrow> f w = (Inr x, w') \<Longrightarrow> Q (st w) (ca w) x \<and> st w' = st w \<and> ca w' = ca w"
  unfolding finds_def by (auto dest: quietD)

lemma finds_quietD: "finds st ca f Q \<Longrightarrow> f w = (r, w') \<Longrightarrow> st w' = st w \<and> ca w' = ca w"
  unfolding finds_def by (auto dest: quietD)

lemma savesD: "saves st ca f g \<Longrightarrow> f w = (Inr x, w') \<Longrightarrow> st w' = g (st w) \<and> ca w' = ca w"
  by (auto simp: saves_def)

lemma saves_keepsD: "saves st ca f g \<Longrightarrow> f w = (r, w') \<Longrightarrow> ca w' = ca w"
  by (auto simp: saves_def)

locale auth_env = transactional "ap_tx P" stored snapshot
  for P :: "('w, 'tx, 'z) auth_ports_scheme" and stored :: "'w \<Rightarrow> astore" and snapshot :: "'tx \<Rightarrow> astore" +
  fixes cached :: "'w \<Rightarrow> (uuid \<rightharpoonup> transaction)"
  assumes Begin_cached: "Begin (ap_tx P) w = (b, w') \<Longrightarrow> cached w' = cached w"
    and Commit_cached: "Commit (ap_tx P) tx w = (e, w') \<Longrightarrow> cached w' = cached w"
    and Rollback_cached: "Rollback (ap_tx P) tx w = (e, w') \<Longrightarrow> cached w' = cached w"
    and txns_Get: "finds stored cached (ap_txns_Get P k) (\<lambda>s c t. c k = Some t \<and> at_ID t = k)"
    and txns_Update: "ap_txns_Update P t w = (Inr u, w') \<Longrightarrow>
      stored w' = stored w \<and> cached w' = (cached w)(at_ID t \<mapsto> t)"
    and clients_Get: "quiet stored cached (ap_clients_Get P k)"
    and grants_Get: "finds stored cached (ap_grants_Get P k k2)
      (\<lambda>s c g. ax_grants s (k, k2) = Some g \<and> ag_IdentityID g = k \<and> ag_OAuthClientID g = k2)"
    and grants_Create: "saves stored cached (ap_grants_Create P g) (put_grant g)"
    and grants_Update: "saves stored cached (ap_grants_Update P g) (put_grant g)"
    and identities_Create: "saves stored cached (ap_identities_Create P i) (put_identity i)"
    and identities_Update: "saves stored cached (ap_identities_Update P i) (put_identity i)"
    and identities_Get: "finds stored cached (ap_identities_Get P k)
      (\<lambda>s c i. ax_identities s k = Some i \<and> idn_ID i = k)"
    and identities_GetByEmail: "finds stored cached (ap_identities_GetByEmail P v)
      (\<lambda>s c i. ax_identities s (idn_ID i) = Some i \<and> v \<in> ct_Value ` set (idn_Emails i))"
    and identities_GetByPhone: "finds stored cached (ap_identities_GetByPhone P v)
      (\<lambda>s c i. ax_identities s (idn_ID i) = Some i \<and> v \<in> ct_Value ` set (idn_Phones i))"
    and profiles_Create: "saves stored cached (ap_profiles_Create P p) (put_profile p)"
    and profiles_Get: "quiet stored cached (ap_profiles_Get P k)"
    and outbox_Create: "saves stored cached (ap_outbox_Create P m) (put_amsg m)"
    and passwords_Create: "saves stored cached (ap_passwords_Create P pw) (put_password pw)"
    and passwords_Update: "saves stored cached (ap_passwords_Update P pw) (put_password pw)"
    and passwords_Get: "finds stored cached (ap_passwords_Get P k)
      (\<lambda>s c pw. ax_passwords s k = Some pw \<and> pw_IdentityID pw = k)"
    and facts_Get: "quiet stored cached (ap_facts_Get P k k2 ss now)"
    and Hash_quiet: "quiet stored cached (ap_Hash P v)"
    and ids_New: "quiet stored cached (ap_ids_New P)"
    and now_Clock: "quiet stored cached (ap_now P)"
    and contact_RevokeActive: "saves stored cached (cv_RevokeActive (ap_contact P) kind k now)
      (revoke_active kind k now)"
    and contact_Create: "saves stored cached (cv_Create (ap_contact P) kind ch) (put_challenge kind ch)"
    and contact_Update: "saves stored cached (cv_Update (ap_contact P) kind ch) (put_challenge kind ch)"
    and contact_GetForUpdate: "finds stored cached (cv_GetForUpdate (ap_contact P) kind k)
      (\<lambda>s c ch. ax_challenges s kind k = Some ch \<and> ch_ID ch = k)"
    and contact_outbox: "saves stored cached (cv_outbox_Create (ap_contact P) m) (put_amsg m)"
    and contact_Generate: "quiet stored cached (cv_Generate (ap_contact P))"
    and contact_ids: "quiet stored cached (cv_ids_New (ap_contact P))"
begin

lemmas found = txns_Get [THEN findsD] grants_Get [THEN findsD] identities_Get [THEN findsD]
  identities_GetByEmail [THEN findsD] identities_GetByPhone [THEN findsD] passwords_Get [THEN findsD]
  contact_GetForUpdate [THEN findsD]

lemmas kept = clients_Get [THEN quietD] profiles_Get [THEN quietD] facts_Get [THEN quietD]
  Hash_quiet [THEN quietD] ids_New [THEN quietD] now_Clock [THEN quietD] contact_Generate [THEN quietD]
  contact_ids [THEN quietD]

lemmas missed = txns_Get [THEN finds_quietD] grants_Get [THEN finds_quietD]
  identities_Get [THEN finds_quietD] identities_GetByEmail [THEN finds_quietD]
  identities_GetByPhone [THEN finds_quietD] passwords_Get [THEN finds_quietD]
  contact_GetForUpdate [THEN finds_quietD]

lemmas saved = txns_Update grants_Create [THEN savesD] grants_Update [THEN savesD]
  identities_Create [THEN savesD] identities_Update [THEN savesD] profiles_Create [THEN savesD]
  outbox_Create [THEN savesD] passwords_Create [THEN savesD] passwords_Update [THEN savesD]
  contact_RevokeActive [THEN savesD] contact_Create [THEN savesD] contact_Update [THEN savesD]
  contact_outbox [THEN savesD]

lemmas save_cached = grants_Create [THEN saves_keepsD] grants_Update [THEN saves_keepsD]
  identities_Create [THEN saves_keepsD] identities_Update [THEN saves_keepsD]
  profiles_Create [THEN saves_keepsD] outbox_Create [THEN saves_keepsD] passwords_Create [THEN saves_keepsD]
  passwords_Update [THEN saves_keepsD] contact_RevokeActive [THEN saves_keepsD]
  contact_Create [THEN saves_keepsD] contact_Update [THEN saves_keepsD] contact_outbox [THEN saves_keepsD]

text \<open>What a transaction of the service commits in both stores, and what one that fails leaves in Redis.\<close>

lemma do_tx_both:
  assumes "do_tx (ap_tx P) l f w = (Inr u, (w', l'))"
  obtains w1 w2 where "stored w1 = stored w" and "cached w1 = cached w"
    and "f (w1, l) = (Inr (), (w2, l'))" and "stored w' = stored w2" and "cached w' = cached w2"
  using assms by (rule do_tx_run) (metis that Begin_ok Commit_ok Begin_cached Commit_cached)

lemma finish_cached:
  "finish (with_locals (ap_tx P)) tx r (w, l) = (q, (w', l')) \<Longrightarrow> cached w' = cached w"
  by (auto simp: finish_def with_locals_def split: flow.splits option.splits prod.splits
      dest: Commit_cached Rollback_cached)

lemma do_tx_failed:
  assumes "do_tx (ap_tx P) l f w = (Inl e, (w', l'))"
  obtains (unchanged) "cached w' = cached w"
  | (ran) w1 q w2 where "stored w1 = stored w" and "cached w1 = cached w" and "f (w1, l) = (q, (w2, l'))"
      and "cached w' = cached w2"
proof -
  from assms obtain r where d:
    "tx_manager_Do (with_locals (ap_tx P)) None (\<lambda>_ w. as_flow (f w)) (w, l) = (r, (w', l'))"
    by (auto simp: do_tx_def run_tx_def as_result_def split: prod.splits option.splits flow.splits)
  obtain b w1 where B: "Begin (ap_tx P) w = (b, w1)" by fastforce
  note k = Begin_cached [OF B]
  show thesis
  proof (cases b)
    case (Inl err)
    with B d k have "cached w' = cached w" by (simp add: tx_manager_Do_def with_locals_def)
    then show thesis by (rule unchanged)
  next
    case (Inr tx)
    obtain q w2 l2 where f: "f (w1, l) = (q, (w2, l2))" by (metis prod.collapse)
    then obtain r2 where "as_flow (f (w1, l)) = (r2, (w2, l2))"
      by (cases q) (simp_all add: as_flow_def)
    with B d Inr have fin: "finish (with_locals (ap_tx P)) tx r2 (w2, l2) = (r, (w', l'))"
      by (simp add: tx_manager_Do_def with_locals_def)
    then have "l' = l2" using finish_locals [of tx r2 w2 l2] by simp
    with f finish_cached [OF fin] B Inr Begin_ok k show thesis by (intro ran) auto
  qed
qed

end

end
