(* ===== verification/Auth_Commits.thy ===== *)
theory Auth_Commits
  imports Auth_Contract
begin

text \<open>What the use cases of authentication leave in the database and in Redis, under \<open>auth_env\<close>.\<close>

section \<open>A verification that was started\<close>

text \<open>
  The challenges of the contact that were active are revoked, a new one is saved and bound to the
  transaction, and the outbox has the message with its code.
\<close>

definition issued_message ::
  "'w contact_ports \<Rightarrow> challenge_events \<Rightarrow> challenge \<Rightarrow> string \<Rightarrow> string \<Rightarrow> gotime \<Rightarrow> imessage \<Rightarrow> bool" where
  "issued_message C X ch contact code now m \<longleftrightarrow>
     im_EventType m = cx_Type X \<and> im_AggregateType m = cx_AggregateType X \<and> im_AggregateID m = ch_ID ch \<and>
     cv_payload_Marshal C (P_challenge (cx_Issued X (ch_ID ch) (ch_SubjectID ch) contact code
       (ch_CreatedAt ch) (ch_ExpiresAt ch))) = Inr (im_Payload m) \<and> im_OccurredAt m = now"

definition challenge_issued ::
  "'w contact_ports \<Rightarrow> challenge_kind \<Rightarrow> challenge_events \<Rightarrow> contact \<Rightarrow> gotime \<Rightarrow> challenge \<Rightarrow> astore \<Rightarrow> astore
     \<Rightarrow> bool" where
  "challenge_issued C kind X contact now ch s s' \<longleftrightarrow>
     challenge_wf ch \<and> ch_live ch \<and> ch_SubjectID ch = ct_ID contact \<and> ch_Attempts ch = 0 \<and>
     ch_MaxAttempts ch = cv_MaxAttempts (cv_cfg C) \<and> ch_CreatedAt ch = now \<and>
     ch_ExpiresAt ch = now + cv_Lifetime (cv_cfg C) \<and>
     (\<exists>code m. isSixDigitCode code \<and> ch_TokenHash ch = cv_Digest C code \<and>
        issued_message C X ch (ct_Value contact) code now m \<and>
        s' = put_amsg m (put_challenge kind ch (revoke_active kind (ct_ID contact) now s)))"

definition verification_started ::
  "'w contact_ports \<Rightarrow> challenge_kind \<Rightarrow> challenge_events \<Rightarrow> verification_channel \<Rightarrow> contact \<Rightarrow> gotime
     \<Rightarrow> transaction \<Rightarrow> astore \<Rightarrow> transaction \<Rightarrow> astore \<Rightarrow> bool" where
  "verification_started C kind X channel contact now txn s txn' s' \<longleftrightarrow>
     contact_IsActive contact \<and>
     (\<exists>ch. challenge_issued C kind X contact now ch s s' \<and>
        txn' = txn\<lparr>at_Verification := Some \<lparr>vr_Channel = channel, vr_ContactID = ct_ID contact,
          vr_ChallengeID = ch_ID ch, vr_ExpiresAt = ch_ExpiresAt ch\<rparr>\<rparr>)"

abbreviation (input) email_started where
  "email_started C \<equiv> verification_started C EmailChallenge email_events VerificationChannelEmail"

abbreviation (input) phone_started where
  "phone_started C \<equiv> verification_started C PhoneChallenge phone_events VerificationChannelPhone"

lemma New_challenge_fields:
  "New_challenge kind i s h m x ip now = Inr c \<Longrightarrow>
     challenge_wf c \<and> ch_live c \<and> ch_ID c = i \<and> ch_SubjectID c = s \<and> ch_TokenHash c = h \<and> ch_Attempts c = 0 \<and>
     ch_MaxAttempts c = m \<and> ch_CreatedAt c = now \<and> ch_ExpiresAt c = x"
  using New_challenge_wf [of kind i s h m x ip now c] by (auto simp: New_challenge_def Let_def split: if_splits)

lemma ch_NewTokenHash_eq: "ch_NewTokenHash kind v = Inr h \<Longrightarrow> h = v"
  by (auto simp: ch_NewTokenHash_def split: if_splits)

lemma Factory_Create_eq:
  "Factory_Create ids mar us et at k v pl now w = (r, w') \<longleftrightarrow>
     (\<exists>mid eid w1. ids w = (mid, w1) \<and> ids w1 = (eid, w') \<and> NewMessage mar us mid eid et at k v pl now = r)"
  by (auto simp: Factory_Create_def draw_eq)

lemma NewMessage_issued:
  "NewMessage (cv_payload_Marshal C) us mid eid (cx_Type X) (cx_AggregateType X) (ch_ID ch) None
     (P_challenge (cx_Issued X (ch_ID ch) (ch_SubjectID ch) contact code (ch_CreatedAt ch) (ch_ExpiresAt ch)))
     now = Inr m \<Longrightarrow> issued_message C X ch contact code now m"
  by (auto simp: NewMessage_def issued_message_def Let_def split: sum.splits)

lemma generateCode_eq:
  "generateCode C w = (Inr (code, h), w') \<longleftrightarrow>
     cv_Generate C w = (Inr code, w') \<and> isSixDigitCode code \<and> h = cv_Digest C code \<and> h \<noteq> ''''"
  by (auto simp: generateCode_def attempt_eq_Inr raise_eq Let_def split: if_splits)

lemma bindVerification_fields:
  "bindVerification step channel k q x now t = (None, u) \<Longrightarrow>
     u = t\<lparr>at_Verification := Some \<lparr>vr_Channel = channel, vr_ContactID = k, vr_ChallengeID = q, vr_ExpiresAt = x\<rparr>\<rparr>"
  by (auto simp: bindVerification_def NewVerificationReference_def refuse_def
      split: option.splits sum.splits if_splits)

context auth_env
begin

lemma issueContact_ok:
  assumes "issueContact (ap_contact P) kind X (ct_ID c) (ct_Value c) ip now w = (Inr i, w')"
  shows "\<exists>ch. challenge_issued (ap_contact P) kind X c now ch (stored w) (stored w') \<and>
     cached w' = cached w \<and> i = \<lparr>ic_ChallengeID = ch_ID ch, ic_ExpiresAt = ch_ExpiresAt ch\<rparr>"
proof -
  from assms obtain code w1 k w2 ch n w3 w4 m w5 where
    g: "cv_Generate (ap_contact P) w = (Inr code, w1)" "isSixDigitCode code"
    and k: "cv_ids_New (ap_contact P) w1 = (k, w2)"
    and ch: "New_challenge kind k (ct_ID c) (cv_Digest (ap_contact P) code)
       (cv_MaxAttempts (cv_cfg (ap_contact P))) (now + cv_Lifetime (cv_cfg (ap_contact P))) ip now = Inr ch"
    and r: "cv_RevokeActive (ap_contact P) kind (ct_ID c) now w2 = (Inr n, w3)"
    and s: "cv_Create (ap_contact P) kind ch w3 = (Inr (), w4)"
    and m: "Factory_Create (cv_ids_New (ap_contact P)) (cv_payload_Marshal (ap_contact P))
       (cv_uuid_ToString (ap_contact P)) (cx_Type X) (cx_AggregateType X) (ch_ID ch) None
       (P_challenge (cx_Issued X (ch_ID ch) (ch_SubjectID ch) (ct_Value c) code (ch_CreatedAt ch)
          (ch_ExpiresAt ch))) now w4 = (Inr m, w5)"
    and o: "cv_outbox_Create (ap_contact P) m w5 = (Inr (), w')"
    and i: "i = \<lparr>ic_ChallengeID = ch_ID ch, ic_ExpiresAt = ch_ExpiresAt ch\<rparr>"
    by (auto simp: issueContact_def call_inv generateCode_eq split: if_splits dest!: ch_NewTokenHash_eq)
  from m obtain mid eid w6 where ids: "cv_ids_New (ap_contact P) w4 = (mid, w6)"
      "cv_ids_New (ap_contact P) w6 = (eid, w5)"
    and msg: "issued_message (ap_contact P) X ch (ct_Value c) code now m"
    by (auto simp: Factory_Create_eq dest: NewMessage_issued)
  have "stored w' = put_amsg m (put_challenge kind ch (revoke_active kind (ct_ID c) now (stored w)))"
    "cached w' = cached w"
    using g(1) k r s ids o by (auto dest!: kept saved)
  with New_challenge_fields [OF ch] msg g(2) i show ?thesis
    unfolding challenge_issued_def by blast
qed

lemma StartEmail_ok:
  assumes "StartEmail (ap_contact P) txn e ip now w = (Inr txn', w')"
  shows "email_started (ap_contact P) e now txn (stored w) txn' (stored w') \<and> cached w' = cached w"
proof -
  from assms obtain i where "contact_IsActive e" and
    i: "issueContact (ap_contact P) EmailChallenge email_events (ct_ID e) (ct_Value e) ip now w = (Inr i, w')"
    and "BindEmailVerification (ct_ID e) (ic_ChallengeID i) (ic_ExpiresAt i) now txn = (None, txn')"
    by (auto simp: StartEmail_def issueEmail_def call_inv split: if_splits)
  with issueContact_ok [OF i] show ?thesis
    by (auto simp: verification_started_def BindEmailVerification_def dest!: bindVerification_fields)
qed

lemma StartPhone_ok:
  assumes "StartPhone (ap_contact P) txn p ip now w = (Inr txn', w')"
  shows "phone_started (ap_contact P) p now txn (stored w) txn' (stored w') \<and> cached w' = cached w"
proof -
  from assms obtain i where "contact_IsActive p" and
    i: "issueContact (ap_contact P) PhoneChallenge phone_events (ct_ID p) (ct_Value p) ip now w = (Inr i, w')"
    and "BindPhoneVerification (ct_ID p) (ic_ChallengeID i) (ic_ExpiresAt i) now txn = (None, txn')"
    by (auto simp: StartPhone_def issuePhone_def call_inv split: if_splits)
  with issueContact_ok [OF i] show ?thesis
    by (auto simp: verification_started_def BindPhoneVerification_def dest!: bindVerification_fields)
qed

end


section \<open>Logging in\<close>

text \<open>Whose login it is; that the password presented is the stored one; that a wrong one was counted.\<close>

definition login_owner :: "login_command \<Rightarrow> identity \<Rightarrow> bool" where
  "login_owner command i \<longleftrightarrow>
     (case lc_email command of
        Some v \<Rightarrow> v \<in> ct_Value ` set (idn_Emails i)
      | None \<Rightarrow> the (lc_phone command) \<in> ct_Value ` set (idn_Phones i))"

definition login_candidate :: "login_command \<Rightarrow> astore \<Rightarrow> identity \<Rightarrow> password \<Rightarrow> bool" where
  "login_candidate command s i p \<longleftrightarrow>
     ax_identities s (idn_ID i) = Some i \<and> login_owner command i \<and> idn_Status i = Identity_Active \<and>
     ax_passwords s (idn_ID i) = Some p"

definition login_verified ::
  "('w, 'tx, 'z) auth_ports_scheme \<Rightarrow> login_command \<Rightarrow> astore \<Rightarrow> bool" where
  "login_verified P command s \<longleftrightarrow>
     (\<exists>i p. login_candidate command s i p \<and> ap_Verify P (lc_password command) (pc_Hash (pw_Credential p)) = None)"

definition login_counted ::
  "('w, 'tx, 'z) auth_ports_scheme \<Rightarrow> login_command \<Rightarrow> gotime \<Rightarrow> astore \<Rightarrow> astore \<Rightarrow> bool" where
  "login_counted P command now s s' \<longleftrightarrow>
     (\<exists>i p p' locked. login_candidate command s i p \<and>
        ap_Verify P (lc_password command) (pc_Hash (pw_Credential p)) \<noteq> None \<and>
        pw_RecordFailedAttempt (ap_policy P) now p = (Inr locked, p') \<and> s' = put_password p' s)"

text \<open>The verification of the contact of the login, where the next step asks for it.\<close>

definition login_step ::
  "'w contact_ports \<Rightarrow> next_step \<Rightarrow> identity \<Rightarrow> gotime \<Rightarrow> transaction \<Rightarrow> astore \<Rightarrow> transaction \<Rightarrow> astore \<Rightarrow> bool" where
  "login_step C n i now txn s txn' s' \<longleftrightarrow>
     (if n = NextStepEmailVerification
      then \<exists>e \<in> set (idn_Emails i). ct_VerifiedAt e = None \<and> email_started C e now txn s txn' s'
      else if n = NextStepPhoneVerification
      then \<exists>e \<in> set (idn_Phones i). ct_VerifiedAt e = None \<and> phone_started C e now txn s txn' s'
      else txn' = txn \<and> s' = s)"

definition login_commit ::
  "('w, 'tx, 'z) auth_ports_scheme \<Rightarrow> login_command \<Rightarrow> gotime \<Rightarrow> astore \<Rightarrow> (uuid \<rightharpoonup> transaction)
     \<Rightarrow> transaction \<Rightarrow> astore \<Rightarrow> (uuid \<rightharpoonup> transaction) \<Rightarrow> bool" where
  "login_commit P command now s c txn' s' c' \<longleftrightarrow>
     (\<exists>i p p' txn n txn1 s1.
        login_candidate command s i p \<and>
        ap_Verify P (lc_password command) (pc_Hash (pw_Credential p)) = None \<and>
        RecordSuccessfulAuthentication now p = (None, p') \<and>
        c (lc_transactionID command) = Some txn \<and>
        CompletePrimaryAuthentication (idn_ID i) MethodPassword n now txn = (None, txn1) \<and>
        n \<in> {NextStepPasswordChange, NextStepEmailVerification, NextStepPhoneVerification,
             NextStepMFAEnrollment, NextStepMFA} \<and>
        (pc_MustChange (pw_Credential p) \<longrightarrow> n = NextStepPasswordChange) \<and>
        login_step (ap_contact P) n i now txn1 s txn' s1 \<and>
        s' = put_password p' s1 \<and> c' = c(at_ID txn' \<mapsto> txn'))"

lemma find_set: "find Q xs = Some x \<Longrightarrow> x \<in> set xs \<and> Q x"
  by (auto simp: find_Some_iff)

lemma resolveContactVerification_ok:
  assumes "resolveContactVerification i command = Inr (r, t)"
  shows "(\<forall>e. tg_email t = Some e \<longrightarrow> e \<in> set (idn_Emails i) \<and> ct_VerifiedAt e = None) \<and>
    (\<forall>e. tg_phone t = Some e \<longrightarrow> e \<in> set (idn_Phones i) \<and> ct_VerifiedAt e = None)"
  using assms
  by (auto simp: resolveContactVerification_def no_target_def split: option.splits if_splits dest: find_set)

text \<open>A step chosen for a transaction whose method is still to be chosen is no consent.\<close>

lemma first_step:
  assumes "ResolveNextStep input = Inr d" and "fi_CurrentStep input = NextStepChooseAuthenticationMethod"
  shows "fd_NextStep d \<in> {NextStepPasswordChange, NextStepEmailVerification, NextStepPhoneVerification,
      NextStepMFAEnrollment, NextStepMFA}"
    and "rq_PasswordChangeRequired (fi_Requirements input) \<Longrightarrow> fd_NextStep d = NextStepPasswordChange"
proof -
  show "fd_NextStep d \<in> {NextStepPasswordChange, NextStepEmailVerification, NextStepPhoneVerification,
      NextStepMFAEnrollment, NextStepMFA}"
    using ResolveNextStep_ok(1,2) [OF assms(1)] assms(2)
    by (cases "fd_NextStep d") (auto simp: CanTransitionTo_def)
  show "rq_PasswordChangeRequired (fi_Requirements input) \<Longrightarrow> fd_NextStep d = NextStepPasswordChange"
    using assms by (auto simp: ResolveNextStep_def CanTransitionTo_def split: option.splits)
qed

lemma CompletePrimary_from:
  "CompletePrimaryAuthentication k m n now txn = (None, u) \<Longrightarrow>
     at_NextStep txn = NextStepChooseAuthenticationMethod \<and> at_ID u = at_ID txn"
  by (auto simp: CompletePrimaryAuthentication_def applyAuthentication_def transitionTo_def
      completeAuthentication_def resolveAuthenticationCompletion_def refuse_def Let_def
      split: option.splits if_splits prod.splits sum.splits)

context auth_env
begin

lemma resolveNextStep_ok:
  assumes "resolveNextStep P txn k rq now w = (Inr d, w')"
  shows "stored w' = stored w \<and> cached w' = cached w \<and>
     (\<exists>f. ResolveNextStep \<lparr>fi_CurrentStep = at_NextStep txn, fi_Requirements = rq, fi_Facts = f\<rparr> = Inr d)"
  using assms
  by (auto simp: resolveNextStep_def call_inv split: if_splits sum.splits dest!: kept)

lemma findIdentity_ok:
  assumes "findIdentity P command w = (Inr i, w')"
  shows "ax_identities (stored w) (idn_ID i) = Some i \<and> login_owner command i \<and>
     stored w' = stored w \<and> cached w' = cached w"
  using assms
  by (auto simp: findIdentity_def login_owner_def call_inv split: option.splits dest!: found)

lemma findIdentity_err:
  "findIdentity P command w = (r, w') \<Longrightarrow> stored w' = stored w \<and> cached w' = cached w"
  by (cases r) (auto simp: findIdentity_def attempt_inv split: option.splits dest!: missed found)

lemma start_verification_ok:
  assumes "start_verification P n t now txn w = (Inr txn', w')"
    and "\<forall>e. tg_email t = Some e \<longrightarrow> e \<in> set (idn_Emails i) \<and> ct_VerifiedAt e = None"
    and "\<forall>e. tg_phone t = Some e \<longrightarrow> e \<in> set (idn_Phones i) \<and> ct_VerifiedAt e = None"
  shows "login_step (ap_contact P) n i now txn (stored w) txn' (stored w') \<and> cached w' = cached w"
proof (cases "n = NextStepEmailVerification \<or> n = NextStepPhoneVerification")
  case False
  with assms(1) show ?thesis by (cases n) (auto simp: start_verification_def login_step_def)
next
  case True
  then show ?thesis
  proof
    assume n: "n = NextStepEmailVerification"
    with assms(1) obtain e where e: "tg_email t = Some e"
      and "StartEmail (ap_contact P) txn e None now w = (Inr txn', w')"
      by (auto simp: start_verification_def call_inv split: option.splits)
    from StartEmail_ok [OF this(2)] e n assms(2) show ?thesis by (auto simp: login_step_def)
  next
    assume n: "n = NextStepPhoneVerification"
    with assms(1) obtain e where e: "tg_phone t = Some e"
      and "StartPhone (ap_contact P) txn e None now w = (Inr txn', w')"
      by (auto simp: start_verification_def call_inv split: option.splits)
    from StartPhone_ok [OF this(2)] e n assms(3) show ?thesis by (auto simp: login_step_def)
  qed
qed

text \<open>A wrong password, or one that cannot be used now, leaves the refusal and at most the count.\<close>

lemma login_proceed_ok:
  assumes "login_proceed P command now txn i p' (w, l) = (Inr u, (w', l'))"
    and cand: "login_candidate command (stored w) i p"
    and pw: "ap_Verify P (lc_password command) (pc_Hash (pw_Credential p)) = None"
      "RecordSuccessfulAuthentication now p = (None, p')"
    and txn: "cached w (lc_transactionID command) = Some txn"
  shows "\<exists>txn'. l' = l\<lparr>ll_output := Some txn'\<rparr> \<and>
     login_commit P command now (stored w) (cached w) txn' (stored w') (cached w')"
proof -
  from assms(1) obtain r t d w1 txn1 txn2 w2 w3 w4 where
    r: "resolveContactVerification i command = Inr (r, t)" and
    d: "resolveNextStep P txn (idn_ID i) \<lparr>rq_PasswordChangeRequired = pc_MustChange (pw_Credential p'),
         rq_ContactVerification = r\<rparr> now w = (Inr d, w1)" and
    txn1: "CompletePrimaryAuthentication (idn_ID i) MethodPassword (fd_NextStep d) now txn = (None, txn1)" and
    s: "start_verification P (fd_NextStep d) t now txn1 w1 = (Inr txn2, w2)" and
    u: "ap_passwords_Update P p' w2 = (Inr (), w3)" "ap_txns_Update P txn2 w3 = (Inr (), w4)" and
    out: "w' = w4" "l' = l\<lparr>ll_output := Some txn2\<rparr>"
    by (auto simp: login_proceed_def call_inv)
  from resolveNextStep_ok [OF d] obtain f where w1: "stored w1 = stored w" "cached w1 = cached w" and
    f: "ResolveNextStep \<lparr>fi_CurrentStep = at_NextStep txn, fi_Requirements =
         \<lparr>rq_PasswordChangeRequired = pc_MustChange (pw_Credential p'), rq_ContactVerification = r\<rparr>,
         fi_Facts = f\<rparr> = Inr d" by blast
  have "pw_Credential p' = pw_Credential p"
    using pw(2) by (auto simp: RecordSuccessfulAuthentication_def refuse_def split: option.splits)
  with first_step [OF f] CompletePrimary_from [OF txn1]
  have n: "fd_NextStep d \<in> {NextStepPasswordChange, NextStepEmailVerification, NextStepPhoneVerification,
      NextStepMFAEnrollment, NextStepMFA}"
    "pc_MustChange (pw_Credential p) \<longrightarrow> fd_NextStep d = NextStepPasswordChange" by auto
  from resolveContactVerification_ok [OF r] start_verification_ok [OF s] w1
  have "login_step (ap_contact P) (fd_NextStep d) i now txn1 (stored w) txn2 (stored w2)"
    "cached w2 = cached w" by auto
  moreover have "stored w' = put_password p' (stored w2)" "cached w' = (cached w2)(at_ID txn2 \<mapsto> txn2)"
    using u out(1) by (auto dest!: saved)
  ultimately have "login_commit P command now (stored w) (cached w) txn2 (stored w') (cached w')"
    unfolding login_commit_def using cand pw txn txn1 n
    by (intro exI [of _ i] exI [of _ p] exI [of _ p'] exI [of _ txn] exI [of _ "fd_NextStep d"]
        exI [of _ txn1] exI [of _ "stored w2"] conjI) simp_all
  with out(2) show ?thesis by blast
qed

lemma login_check_outcome:
  assumes "login_check P command now txn i p (w, l) = (q, (w', l'))"
    and "login_candidate command (stored w) i p" and "cached w (lc_transactionID command) = Some txn"
    and l: "ll_authenticationErr l = None"
  shows "(\<exists>u. q = Inr u) \<and> (\<exists>c. ll_authenticationErr l' = Some (invalidCredentials (Some c))) \<and>
       cached w' = cached w \<and> (stored w' = stored w \<or> login_counted P command now (stored w) (stored w')) \<or>
     (\<exists>u txn'. q = Inr u \<and> ll_authenticationErr l' = None \<and> ll_output l' = Some txn' \<and>
       login_commit P command now (stored w) (cached w) txn' (stored w') (cached w')) \<or>
     (\<exists>e. q = Inl e) \<and> (cached w' = cached w \<or> login_verified P command (stored w))"
proof (cases "ap_Verify P (lc_password command) (pc_Hash (pw_Credential p))")
  case None
  obtain e p' where rec: "RecordSuccessfulAuthentication now p = (e, p')" by fastforce
  show ?thesis
  proof (cases e)
    case (Some err)
    with assms(1) None rec show ?thesis
      by (auto simp: login_check_def handle_def change_def reject_def)
  next
    case None': None
    with assms(1) None rec have run: "login_proceed P command now txn i p' (w, l) = (q, (w', l'))"
      by (simp add: login_check_def handle_def change_def)
    show ?thesis
    proof (cases q)
      case (Inl err)
      with None assms(2) show ?thesis by (auto simp: login_verified_def)
    next
      case (Inr u)
      from login_proceed_ok [OF run [unfolded Inr] assms(2) None rec [unfolded None'] assms(3)] Inr l
      show ?thesis by auto
    qed
  qed
next
  case (Some err)
  obtain e p' where rec: "pw_RecordFailedAttempt (ap_policy P) now p = (e, p')" by fastforce
  show ?thesis
  proof (cases e)
    case (Inl err2)
    with assms(1) Some rec show ?thesis by (auto simp: login_check_def reject_def)
  next
    case (Inr locked)
    obtain q1 w1 where u: "ap_passwords_Update P p' w = (q1, w1)" by fastforce
    then have c: "cached w1 = cached w" by (rule save_cached)
    show ?thesis
    proof (cases q1)
      case (Inl err2)
      with assms(1) Some rec Inr u c show ?thesis by (auto simp: login_check_def io_def attempt_def)
    next
      case (Inr u1)
      with u have "stored w1 = put_password p' (stored w)" by (auto dest!: saved)
      with Some rec \<open>e = Inr locked\<close> assms(2) have "login_counted P command now (stored w) (stored w1)"
        by (auto simp: login_counted_def)
      with assms(1) Some rec Inr \<open>e = Inr locked\<close> u c show ?thesis
        by (auto simp: login_check_def io_def attempt_def reject_def assign_def)
    qed
  qed
qed

lemma login_body_outcome:
  assumes "login_body P command now (w, login_locals0) = (q, (w', l'))"
  shows "(\<exists>u. q = Inr u) \<and> (\<exists>c. ll_authenticationErr l' = Some (invalidCredentials c)) \<and>
       cached w' = cached w \<and> (stored w' = stored w \<or> login_counted P command now (stored w) (stored w')) \<or>
     (\<exists>u txn'. q = Inr u \<and> ll_authenticationErr l' = None \<and> ll_output l' = Some txn' \<and>
       login_commit P command now (stored w) (cached w) txn' (stored w') (cached w')) \<or>
     (\<exists>e. q = Inl e) \<and> (cached w' = cached w \<or> login_verified P command (stored w))"
proof -
  obtain r1 w1 where t: "ap_txns_Get P (lc_transactionID command) w = (r1, w1)" by fastforce
  obtain r2 w2 where i: "findIdentity P command w1 = (r2, w2)" by fastforce
  have w1: "stored w1 = stored w" "cached w1 = cached w" using missed(1) [OF t] by auto
  have w2: "stored w2 = stored w" "cached w2 = cached w" using findIdentity_err [OF i] w1 by auto
  show ?thesis
  proof (cases r1)
    case (Inl err)
    with assms t w1 show ?thesis by (auto simp: login_body_def io_def)
  next
    case (Inr txn)
    note txn = this
    have c: "cached w (lc_transactionID command) = Some txn" using t Inr by (auto dest!: found)
    show ?thesis
    proof (cases r2)
      case (Inl err)
      with assms t i txn w2 show ?thesis
        by (auto simp: login_body_def io_def handle_def login_identity_error_def reject_def raise_def
            assign_def split: if_splits)
    next
      case (Inr idn)
      with i have idn: "ax_identities (stored w1) (idn_ID idn) = Some idn" "login_owner command idn"
        by (auto dest: findIdentity_ok)
      obtain r3 w3 where p: "ap_passwords_Get P (idn_ID idn) w2 = (r3, w3)" by fastforce
      have w3: "stored w3 = stored w" "cached w3 = cached w" using missed(6) [OF p] w2 by auto
      show ?thesis
      proof (cases "idn_Status idn = Identity_Active")
        case False
        with assms t i txn Inr w2 show ?thesis
          by (auto simp: login_body_def io_def handle_def reject_def assign_def)
      next
        case True
        show ?thesis
        proof (cases r3)
          case (Inl err)
          with assms t i txn Inr True p w3 show ?thesis
            by (auto simp: login_body_def io_def handle_def login_password_error_def reject_def raise_def
                assign_def split: if_splits)
        next
          case (Inr pw)
          with assms t i txn \<open>r2 = Inr idn\<close> True p
          have run: "login_check P command now txn idn pw (w3, login_locals0) = (q, (w', l'))"
            by (simp add: login_body_def io_def handle_def)
          have "ax_passwords (stored w2) (idn_ID idn) = Some pw" using p Inr by (auto dest!: found)
          with idn True w1 w2 w3 have "login_candidate command (stored w3) idn pw"
            by (simp add: login_candidate_def)
          from login_check_outcome [OF run this] c w3 show ?thesis
            by (auto simp: login_locals0_def)
        qed
      qed
    qed
  qed
qed

text \<open>
  A login is refused or fails, without a trace in the database; or it is refused and counted; or it
  commits. Without the stored password of the account, Redis stays as it was.
\<close>

lemma login_outcome:
  assumes "AuthenticateWithPassword P input w = (r, w')"
  shows "(\<exists>e. r = Inl e) \<and> stored w' = stored w \<and>
       (cached w' = cached w \<or>
        (\<exists>command. prepareAuthenticateWithPassword P input = Inr command \<and> login_verified P command (stored w))) \<or>
     (\<exists>e command now. r = Inl (invalidCredentials e) \<and> prepareAuthenticateWithPassword P input = Inr command \<and>
        cached w' = cached w \<and> login_counted P command now (stored w) (stored w')) \<or>
     (\<exists>txn' command now. r = Inr (Some txn') \<and> prepareAuthenticateWithPassword P input = Inr command \<and>
        login_commit P command now (stored w) (cached w) txn' (stored w') (cached w'))"
proof (cases "prepareAuthenticateWithPassword P input")
  case (Inl err)
  with assms show ?thesis by (auto simp: AuthenticateWithPassword_def)
next
  case (Inr command)
  obtain now w0 where now: "ap_now P w = (now, w0)" by fastforce
  have w0: "stored w0 = stored w" "cached w0 = cached w" using kept(6) [OF now] by auto
  obtain q w1 l where tx: "do_tx (ap_tx P) login_locals0 (login_body P command now) w0 = (q, (w1, l))"
    by (metis prod.collapse)
  show ?thesis
  proof (cases q)
    case (Inl err)
    with assms Inr now tx have r: "r = Inl err" "w' = w1" by (auto simp: AuthenticateWithPassword_def)
    have "stored w1 = stored w" using do_tx_err [OF tx [unfolded Inl]] w0 by simp
    moreover have "cached w1 = cached w \<or> login_verified P command (stored w)"
      using tx [unfolded Inl]
    proof (cases rule: do_tx_failed)
      case unchanged
      with w0 show ?thesis by simp
    next
      case (ran w2 q2 w3)
      from login_body_outcome [OF ran(3)] ran w0 show ?thesis
        by (auto simp: login_commit_def login_verified_def)
    qed
    ultimately show ?thesis using r Inr by auto
  next
    case ok: (Inr u)
    obtain w2 w3 where b: "login_body P command now (w2, login_locals0) = (Inr (), (w3, l))"
      and w2: "stored w2 = stored w0" "cached w2 = cached w0" and w3: "stored w1 = stored w3" "cached w1 = cached w3"
      by (rule do_tx_both [OF tx [unfolded ok]])
    from assms Inr now tx ok have r: "w' = w1"
      "r = (case ll_authenticationErr l of Some err \<Rightarrow> Inl err | None \<Rightarrow> Inr (ll_output l))"
      by (auto simp: AuthenticateWithPassword_def split: option.splits)
    from login_body_outcome [OF b] w0 w2 w3 r Inr show ?thesis by auto
  qed
qed

end


section \<open>Consent\<close>

text \<open>The grant that is remembered: exactly the scopes consented to, with no expiration.\<close>

definition remembered ::
  "transaction \<Rightarrow> string list \<Rightarrow> gotime \<Rightarrow> authorization_grant \<Rightarrow> bool" where
  "remembered txn scopes now g \<longleftrightarrow>
     at_IdentityID txn = Some (ag_IdentityID g) \<and> ag_OAuthClientID g = at_OAuthClientID txn \<and>
     ag_Source g = SourceUserConsent \<and> ag_Scopes g = scopes \<and> ag_GrantedAt g = now \<and>
     ag_ExpiresAt g = None \<and> ag_RevokedAt g = None"

definition consent_commit ::
  "consent_command \<Rightarrow> gotime \<Rightarrow> astore \<Rightarrow> (uuid \<rightharpoonup> transaction) \<Rightarrow> transaction \<Rightarrow> astore
     \<Rightarrow> (uuid \<rightharpoonup> transaction) \<Rightarrow> bool" where
  "consent_commit command now s c txn' s' c' \<longleftrightarrow>
     (\<exists>txn. c (cc_transactionID command) = Some txn \<and>
        AuthorizeScopes (cc_grantedScopes command) AuthorizationSourceUserConsent now txn = (None, txn') \<and>
        (if cc_remember command
         then \<exists>g. remembered txn' (cc_grantedScopes command) now g \<and> s' = put_grant g s else s' = s) \<and>
        c' = c(at_ID txn' \<mapsto> txn'))"

lemma Replace_fields:
  "Replace src ss x now g = (None, g') \<Longrightarrow>
     ag_ID g' = ag_ID g \<and> ag_IdentityID g' = ag_IdentityID g \<and> ag_OAuthClientID g' = ag_OAuthClientID g \<and>
     ag_Source g' = src \<and> ag_Scopes g' = ss \<and> ag_GrantedAt g' = now \<and> ag_ExpiresAt g' = x \<and> ag_RevokedAt g' = None"
  by (auto simp: Replace_def refuse_def split: sum.splits option.splits if_splits)

lemma New_grant_fields:
  "New_grant i k k2 src ss x now = Inr g \<Longrightarrow>
     ag_ID g = i \<and> ag_IdentityID g = k \<and> ag_OAuthClientID g = k2 \<and>
     ag_Source g = src \<and> ag_Scopes g = ss \<and> ag_GrantedAt g = now \<and> ag_ExpiresAt g = x \<and> ag_RevokedAt g = None"
  by (auto simp: New_grant_def split: sum.splits option.splits if_splits)

context auth_env
begin

lemma new_grant_ok:
  assumes "new_grant P k k2 ss now w = (Inr u, w')"
  shows "\<exists>i g. New_grant i k k2 SourceUserConsent ss None now = Inr g \<and>
     stored w' = put_grant g (stored w) \<and> cached w' = cached w"
proof -
  from assms obtain i w1 g where "ap_ids_New P w = (i, w1)"
    and g: "New_grant i k k2 SourceUserConsent ss None now = Inr g" and "ap_grants_Create P g w1 = (Inr (), w')"
    by (auto simp: new_grant_def call_inv)
  then have "stored w' = put_grant g (stored w)" "cached w' = cached w" by (auto dest!: kept saved)
  with g show ?thesis by blast
qed

lemma rememberConsent_ok:
  assumes "rememberConsent P txn ss now w = (Inr u, w')"
  shows "\<exists>g. remembered txn ss now g \<and> stored w' = put_grant g (stored w) \<and> cached w' = cached w"
proof (cases "at_IdentityID txn")
  case None
  with assms show ?thesis by (simp add: rememberConsent_def raise_eq)
next
  case (Some k)
  obtain r w1 where g: "ap_grants_Get P k (at_OAuthClientID txn) w = (r, w1)" by fastforce
  have w1: "stored w1 = stored w" "cached w1 = cached w" using missed(2) [OF g] by auto
  show ?thesis
  proof (cases r)
    case (Inl err)
    with assms Some g have "new_grant P k (at_OAuthClientID txn) ss now w1 = (Inr u, w')"
      by (auto simp: rememberConsent_def handle_def raise_eq split: if_splits)
    from new_grant_ok [OF this] w1 Some show ?thesis
      by (auto simp: remembered_def dest!: New_grant_fields)
  next
    case (Inr g0)
    with assms Some g obtain g1 where "Replace SourceUserConsent ss None now g0 = (None, g1)"
      and u: "ap_grants_Update P g1 w1 = (Inr (), w')"
      by (auto simp: rememberConsent_def handle_def call_inv)
    moreover have "ag_IdentityID g0 = k" "ag_OAuthClientID g0 = at_OAuthClientID txn"
      using g Inr by (auto dest!: found)
    ultimately show ?thesis using w1 Some saved(3) [OF u]
      by (intro exI [of _ g1]) (auto simp: remembered_def dest!: Replace_fields)
  qed
qed

lemma consent_body_ok:
  assumes "consent_body P command now (w, l) = (Inr u, (w', l'))"
  shows "\<exists>txn'. l' = Some txn' \<and>
     consent_commit command now (stored w) (cached w) txn' (stored w') (cached w')"
proof -
  from assms obtain txn w1 txn' w2 l2 w3 where t: "ap_txns_Get P (cc_transactionID command) w = (Inr txn, w1)"
    and a: "AuthorizeScopes (cc_grantedScopes command) AuthorizationSourceUserConsent now txn = (None, txn')"
    and r: "(if cc_remember command then io (rememberConsent P txn' (cc_grantedScopes command) now) (w1, l)
       else (Inr (), (w1, l))) = (Inr (), (w2, l2))"
    and u: "ap_txns_Update P txn' w2 = (Inr (), w3)" and out: "w' = w3" "l' = Some txn'"
    by (auto simp: consent_body_def call_inv)
  have w1: "stored w1 = stored w" "cached w1 = cached w" "cached w (cc_transactionID command) = Some txn"
    using t by (auto dest!: found)
  have "cached w2 = cached w \<and> (if cc_remember command
      then \<exists>g. remembered txn' (cc_grantedScopes command) now g \<and> stored w2 = put_grant g (stored w)
      else stored w2 = stored w)"
    using r w1 by (auto simp: io_eq dest!: rememberConsent_ok split: if_splits)
  with a u out w1 show ?thesis unfolding consent_commit_def by (auto dest!: saved split: if_splits)
qed

text \<open>A use case that is one transaction with one captured variable.\<close>

lemma do_tx_outcome:
  assumes tx: "do_tx (ap_tx P) l f w0 = (q, (w', l'))" and now: "ap_now P w = (now, w0)"
    and body: "\<And>w1 w2. f (w1, l) = (Inr (), (w2, l')) \<Longrightarrow> Q (stored w1) (cached w1) (stored w2) (cached w2)"
  shows "(\<exists>e. q = Inl e) \<and> stored w' = stored w \<or>
     q = Inr () \<and> Q (stored w) (cached w) (stored w') (cached w')"
proof (cases q)
  case (Inl e)
  with do_tx_err [OF tx [unfolded Inl]] kept(6) [OF now] show ?thesis by simp
next
  case (Inr u)
  obtain w1 w2 where run: "f (w1, l) = (Inr (), (w2, l'))" and "stored w1 = stored w0" "cached w1 = cached w0"
    "stored w' = stored w2" "cached w' = cached w2"
    by (rule do_tx_both [OF tx [unfolded Inr]])
  with body [OF run] kept(6) [OF now] Inr show ?thesis by simp
qed

lemma GrantConsent_outcome:
  assumes "GrantConsent P input w = (r, w')"
  shows "(\<exists>e. r = Inl e) \<and> stored w' = stored w \<or>
     (\<exists>txn' command now. r = Inr (Some txn') \<and> prepareGrantConsent input = Inr command \<and>
        consent_commit command now (stored w) (cached w) txn' (stored w') (cached w'))"
proof (cases "prepareGrantConsent input")
  case (Inl err)
  with assms show ?thesis by (auto simp: GrantConsent_def)
next
  case (Inr command)
  obtain now w0 where now: "ap_now P w = (now, w0)" by fastforce
  obtain q w1 l where tx: "do_tx (ap_tx P) None (consent_body P command now) w0 = (q, (w1, l))"
    by (metis prod.collapse)
  from assms Inr now tx have r: "w' = w1" "r = map_sum id (\<lambda>_. l) q"
    by (auto simp: GrantConsent_def split: sum.splits)
  have "(\<exists>e. q = Inl e) \<and> stored w1 = stored w \<or>
      q = Inr () \<and> (\<exists>txn'. l = Some txn' \<and>
        consent_commit command now (stored w) (cached w) txn' (stored w1) (cached w1))"
    by (rule do_tx_outcome [OF tx now]) (rule consent_body_ok)
  with r Inr show ?thesis by auto
qed

end

end
