(* ===== verification/Auth_Steps.thy ===== *)
theory Auth_Steps
  imports Auth_Commits
begin

text \<open>
  What the other use cases of authentication leave in the database and in Redis, under \<open>auth_env\<close>:
  the registration, the verification of a contact, the skipped enrollment and the denied consent.
\<close>

section \<open>Verifying a contact\<close>

definition verify_commit ::
  "challenge_kind \<Rightarrow> (transaction \<Rightarrow> gotime \<Rightarrow> ierror + verification_reference)
     \<Rightarrow> (uuid \<Rightarrow> gotime \<Rightarrow> identity \<Rightarrow> ierror option \<times> identity)
     \<Rightarrow> (next_step \<Rightarrow> gotime \<Rightarrow> transaction \<Rightarrow> ierror option \<times> transaction)
     \<Rightarrow> verify_input \<Rightarrow> gotime \<Rightarrow> astore \<Rightarrow> (uuid \<rightharpoonup> transaction) \<Rightarrow> transaction \<Rightarrow> astore
     \<Rightarrow> (uuid \<rightharpoonup> transaction) \<Rightarrow> bool" where
  "verify_commit kind getReference markVerified complete input now s c txn' s' c' \<longleftrightarrow>
     (\<exists>txn r ch ch' i i1 i2 n.
        c (vi_AuthorizationTransactionID input) = Some txn \<and> getReference txn now = Inr r \<and>
        ax_challenges s kind (vr_ChallengeID r) = Some ch \<and> ch_SubjectID ch = vr_ContactID r \<and>
        Consume kind (vi_ConsumedFromIP input) now ch = (None, ch') \<and>
        ax_identities s (the (at_IdentityID txn)) = Some i \<and>
        idn_Status i \<in> {Identity_Pending, Identity_Active} \<and>
        markVerified (vr_ContactID r) now i = (None, i1) \<and> activate_verified now i1 = (None, i2) \<and>
        n \<in> {NextStepMFAEnrollment, NextStepMFA} \<and> complete n now txn = (None, txn') \<and>
        s' = put_identity i2 (put_challenge kind ch' s) \<and> c' = c(at_ID txn' \<mapsto> txn'))"

text \<open>Without requirements, the step after a verification is the second factor or its enrollment.\<close>

lemma step_after_verification:
  assumes "ResolveNextStep \<lparr>fi_CurrentStep = n, fi_Requirements = no_requirements, fi_Facts = f\<rparr> = Inr d"
    and "n = NextStepEmailVerification \<or> n = NextStepPhoneVerification"
  shows "fd_NextStep d \<in> {NextStepMFAEnrollment, NextStepMFA}"
  using assms
  by (auto simp: ResolveNextStep_def no_requirements_def verificationNextStep_def CanTransitionTo_def
      requirements_Validate_def requirement_IsValid_def Let_def split: option.splits if_splits)

context auth_env
begin

lemma verifyContact_ok:
  assumes "verifyContact (ap_contact P) kind R txn code ip now w = (Inr k, w')"
  shows "\<exists>r ch ch'. R txn now = Inr r \<and> k = vr_ContactID r \<and>
     ax_challenges (stored w) kind (vr_ChallengeID r) = Some ch \<and> ch_SubjectID ch = vr_ContactID r \<and>
     Consume kind ip now ch = (None, ch') \<and> stored w' = put_challenge kind ch' (stored w) \<and>
     cached w' = cached w"
proof -
  from assms obtain r ch w1 ch' where "R txn now = Inr r"
    and g: "cv_GetForUpdate (ap_contact P) kind (vr_ChallengeID r) w = (Inr ch, w1)"
    and "ch_SubjectID ch = vr_ContactID r" "Consume kind ip now ch = (None, ch')"
    and u: "cv_Update (ap_contact P) kind ch' w1 = (Inr (), w')" and "k = vr_ContactID r"
    by (auto simp: verifyContact_def call_inv split: if_splits)
  moreover have "ax_challenges (stored w) kind (vr_ChallengeID r) = Some ch"
    "stored w' = put_challenge kind ch' (stored w)" "cached w' = cached w"
    using g u by (auto dest!: found saved)
  ultimately show ?thesis by blast
qed

lemma verify_body_ok:
  assumes "verify_body P noun (verifyContact (ap_contact P) kind R) mark complete input now (w, l) =
      (Inr u, (w', l'))"
    and step: "\<And>txn r. R txn now = Inr r \<Longrightarrow>
      at_NextStep txn = NextStepEmailVerification \<or> at_NextStep txn = NextStepPhoneVerification"
  shows "\<exists>txn'. l' = Some txn' \<and>
     verify_commit kind R mark complete input now (stored w) (cached w) txn' (stored w') (cached w')"
proof -
  from assms(1) obtain txn w1 k w2 i w3 i1 i2 w4 d w5 txn' w6 where
    t: "ap_txns_Get P (vi_AuthorizationTransactionID input) w = (Inr txn, w1)" and
    v: "verifyContact (ap_contact P) kind R txn (vi_Code input) (vi_ConsumedFromIP input) now w1 = (Inr k, w2)" and
    i: "ap_identities_Get P (the (at_IdentityID txn)) w2 = (Inr i, w3)"
      "idn_Status i \<in> {Identity_Pending, Identity_Active}"
      "mark k now i = (None, i1)" "activate_verified now i1 = (None, i2)" and
    u: "ap_identities_Update P i2 w3 = (Inr (), w4)" and
    d: "resolveNextStep P txn (idn_ID i2) no_requirements now w4 = (Inr d, w5)" and
    c: "complete (fd_NextStep d) now txn = (None, txn')" and
    z: "ap_txns_Update P txn' w5 = (Inr (), w6)" "w' = w6" "l' = Some txn'"
    by (auto simp: verify_body_def call_inv split: if_splits)
  have w1: "stored w1 = stored w" "cached w1 = cached w"
    "cached w (vi_AuthorizationTransactionID input) = Some txn"
    using t by (auto dest!: found)
  from verifyContact_ok [OF v] w1 obtain r ch ch' where r: "R txn now = Inr r" "k = vr_ContactID r"
    "ax_challenges (stored w) kind (vr_ChallengeID r) = Some ch" "ch_SubjectID ch = vr_ContactID r"
    "Consume kind (vi_ConsumedFromIP input) now ch = (None, ch')"
    and w2: "stored w2 = put_challenge kind ch' (stored w)" "cached w2 = cached w" by auto
  have w3: "stored w3 = stored w2" "cached w3 = cached w2"
    "ax_identities (stored w2) (the (at_IdentityID txn)) = Some i"
    using i(1) by (auto dest!: found)
  then have "ax_identities (stored w) (the (at_IdentityID txn)) = Some i"
    using w2 by (simp add: put_challenge_def)
  moreover have "stored w' = put_identity i2 (put_challenge kind ch' (stored w))"
    "cached w' = (cached w)(at_ID txn' \<mapsto> txn')"
    using resolveNextStep_ok [OF d] saved(5) [OF u] z w2 w3 by (auto dest!: saved(1))
  moreover have "fd_NextStep d \<in> {NextStepMFAEnrollment, NextStepMFA}"
    using resolveNextStep_ok [OF d] step_after_verification step [OF r(1)] by blast
  ultimately have "verify_commit kind R mark complete input now (stored w) (cached w) txn' (stored w') (cached w')"
    unfolding verify_commit_def using w1 r i c
    by (intro exI [of _ txn] exI [of _ r] exI [of _ ch] exI [of _ ch'] exI [of _ i] exI [of _ i1]
        exI [of _ i2] exI [of _ "fd_NextStep d"] conjI) simp_all
  with z(3) show ?thesis by blast
qed

lemma verify_contact_outcome:
  assumes "verify_contact P noun (verifyContact (ap_contact P) kind R) mark complete input w = (r, w')"
    and step: "\<And>txn now r. R txn now = Inr r \<Longrightarrow>
      at_NextStep txn = NextStepEmailVerification \<or> at_NextStep txn = NextStepPhoneVerification"
  shows "(\<exists>e. r = Inl e) \<and> stored w' = stored w \<or>
     (\<exists>txn' now. r = Inr (Some txn') \<and>
        verify_commit kind R mark complete input now (stored w) (cached w) txn' (stored w') (cached w'))"
proof (cases "vi_AuthorizationTransactionID input = uuid_nil \<or> \<not> isSixDigitVerificationCode (vi_Code input)")
  case True
  with assms(1) show ?thesis by (auto simp: verify_contact_def raise_def)
next
  case False
  obtain now w0 where now: "ap_now P w = (now, w0)" by fastforce
  obtain q w1 l where tx: "do_tx (ap_tx P) None
      (verify_body P noun (verifyContact (ap_contact P) kind R) mark complete input now) w0 = (q, (w1, l))"
    by (metis prod.collapse)
  from assms(1) False now tx have r: "w' = w1" "r = map_sum id (\<lambda>_. l) q"
    by (auto simp: verify_contact_def split: sum.splits)
  have "(\<exists>e. q = Inl e) \<and> stored w1 = stored w \<or>
      q = Inr () \<and> (\<exists>txn'. l = Some txn' \<and>
        verify_commit kind R mark complete input now (stored w) (cached w) txn' (stored w1) (cached w1))"
    by (rule do_tx_outcome [OF tx now]) (rule verify_body_ok [OF _ step])
  with r show ?thesis by auto
qed

lemma VerifyEmail_outcome:
  assumes "auth_VerifyEmail P input w = (r, w')"
  shows "(\<exists>e. r = Inl e) \<and> stored w' = stored w \<or>
     (\<exists>txn' now. r = Inr (Some txn') \<and>
        verify_commit EmailChallenge emailVerificationReference VerifyEmail CompleteEmailVerification input now
          (stored w) (cached w) txn' (stored w') (cached w'))"
  using assms unfolding auth_VerifyEmail_def contact_VerifyEmail_def
  by (rule verify_contact_outcome) (auto simp: emailVerificationReference_def verificationReference_ok)

lemma VerifyPhone_outcome:
  assumes "auth_VerifyPhone P input w = (r, w')"
  shows "(\<exists>e. r = Inl e) \<and> stored w' = stored w \<or>
     (\<exists>txn' now. r = Inr (Some txn') \<and>
        verify_commit PhoneChallenge phoneVerificationReference VerifyPhone CompletePhoneVerification input now
          (stored w) (cached w) txn' (stored w') (cached w'))"
  using assms unfolding auth_VerifyPhone_def contact_VerifyPhone_def
  by (rule verify_contact_outcome) (auto simp: phoneVerificationReference_def verificationReference_ok)

end


section \<open>Registration\<close>

definition registers ::
  "register_command \<Rightarrow> gotime \<Rightarrow> identity \<Rightarrow> next_step \<Rightarrow> bool" where
  "registers command now i step \<longleftrightarrow>
     (case gc_email command of
        Some v \<Rightarrow> step = NextStepEmailVerification \<and> (\<exists>k k2. NewWithEmail k k2 v now = Inr i)
      | None \<Rightarrow>
          step = NextStepPhoneVerification \<and>
          (\<exists>k k2 v. gc_phone command = Some v \<and> NewWithPhone k k2 v now = Inr i))"

definition register_saves ::
  "('w, 'tx, 'z) auth_ports_scheme \<Rightarrow> identity \<Rightarrow> profile \<Rightarrow> password \<Rightarrow> astore \<Rightarrow> astore \<Rightarrow> bool" where
  "register_saves P i p pw s s' \<longleftrightarrow>
     (\<exists>m. im_EventType m = EventTypeProfileUpdated \<and> im_AggregateID m = idn_ID i \<and>
        im_AggregateVersion m = Some (pr_Version p) \<and>
        ap_payload_Marshal P (P_profile (UpdatedEvent (ap_uuid_ToString P) p)) = Inr (im_Payload m) \<and>
        s' = put_password pw (put_amsg m (put_profile p (put_identity i s))))"

definition register_starts ::
  "'w contact_ports \<Rightarrow> identity \<Rightarrow> next_step \<Rightarrow> gotime \<Rightarrow> transaction \<Rightarrow> astore \<Rightarrow> transaction \<Rightarrow> astore \<Rightarrow> bool" where
  "register_starts C i step now txn s txn' s' \<longleftrightarrow>
     (if step = NextStepEmailVerification then email_started C (idn_Emails i ! 0) now txn s txn' s'
      else phone_started C (idn_Phones i ! 0) now txn s txn' s')"

definition register_commit ::
  "('w, 'tx, 'z) auth_ports_scheme \<Rightarrow> register_command \<Rightarrow> gotime \<Rightarrow> astore \<Rightarrow> (uuid \<rightharpoonup> transaction)
     \<Rightarrow> transaction \<Rightarrow> astore \<Rightarrow> (uuid \<rightharpoonup> transaction) \<Rightarrow> bool" where
  "register_commit P command now s c txn' s' c' \<longleftrightarrow>
     (\<exists>i step p h pw txn txn1 s1 wh wh'.
        registers command now i step \<and> idn_ID i \<noteq> uuid_nil \<and>
        New_profile (idn_ID i) (rp_FamilyName (gc_profile command)) (rp_GivenName (gc_profile command))
          (rp_MiddleName (gc_profile command)) now = Inr p \<and>
        ap_Hash P (gc_password command) wh = (Inr h, wh') \<and> New_password (idn_ID i) h False None now = Inr pw \<and>
        c (gc_transactionID command) = Some txn \<and>
        BeginPasswordRegistration (idn_ID i) step now txn = (None, txn1) \<and>
        register_saves P i p pw s s1 \<and> register_starts (ap_contact P) i step now txn1 s1 txn' s' \<and>
        c' = c(at_ID txn' \<mapsto> txn'))"

lemma NewMessage_fields:
  "NewMessage mar us mid eid et at k v pl now = Inr m \<Longrightarrow>
     im_EventType m = et \<and> im_AggregateType m = at \<and> im_AggregateID m = k \<and> im_AggregateVersion m = v \<and>
     mar pl = Inr (im_Payload m)"
  by (auto simp: NewMessage_def Let_def split: sum.splits)

lemma New_profile_id: "New_profile k f g m now = Inr p \<Longrightarrow> pr_IdentityID p = k \<and> k \<noteq> uuid_nil"
  by (auto simp: New_profile_def split: sum.splits if_splits)

lemma NewHash_eq: "Identity_Password.NewHash v = Inr h \<Longrightarrow> h = v"
  by (auto simp: Identity_Password.NewHash_def split: if_splits)

lemma registers_step:
  "registers command now i step \<Longrightarrow> step = NextStepEmailVerification \<or> step = NextStepPhoneVerification"
  by (auto simp: registers_def split: option.splits)

context auth_env
begin

lemma newRegistrationIdentity_ok:
  assumes "newRegistrationIdentity P command now w = (Inr (i, step), w')"
  shows "registers command now i step \<and> stored w' = stored w \<and> cached w' = cached w"
  using assms
  by (auto simp: newRegistrationIdentity_def registers_def call_inv split: option.splits dest!: kept; blast)

lemma newRegistrationIdentity_kept:
  "newRegistrationIdentity P command now w = (r, w') \<Longrightarrow> stored w' = stored w \<and> cached w' = cached w"
  by (cases r) (auto simp: newRegistrationIdentity_def attempt_inv raise_def split: option.splits dest!: kept)

lemma start_registration_ok:
  assumes "start_registration P step i ip now txn w = (Inr txn', w')"
    and "step = NextStepEmailVerification \<or> step = NextStepPhoneVerification"
  shows "register_starts (ap_contact P) i step now txn (stored w) txn' (stored w') \<and> cached w' = cached w"
  using assms(2)
proof
  assume s: "step = NextStepEmailVerification"
  with assms(1) have "StartEmail (ap_contact P) txn (idn_Emails i ! 0) ip now w = (Inr txn', w')"
    by (auto simp: start_registration_def call_inv)
  from StartEmail_ok [OF this] s show ?thesis by (simp add: register_starts_def)
next
  assume s: "step = NextStepPhoneVerification"
  with assms(1) have "StartPhone (ap_contact P) txn (idn_Phones i ! 0) ip now w = (Inr txn', w')"
    by (auto simp: start_registration_def call_inv)
  from StartPhone_ok [OF this] s show ?thesis by (simp add: register_starts_def)
qed

lemma register_body_ok:
  assumes "register_body P command now i step p pw (w, l) = (Inr u, (w', l'))"
    and "step = NextStepEmailVerification \<or> step = NextStepPhoneVerification"
    and "pr_IdentityID p = idn_ID i"
  shows "\<exists>txn txn1 s1 txn'. l' = Some txn' \<and> cached w (gc_transactionID command) = Some txn \<and>
     BeginPasswordRegistration (idn_ID i) step now txn = (None, txn1) \<and> register_saves P i p pw (stored w) s1 \<and>
     register_starts (ap_contact P) i step now txn1 s1 txn' (stored w') \<and>
     cached w' = (cached w)(at_ID txn' \<mapsto> txn')"
proof -
  from assms(1) obtain txn w1 txn1 w2 w3 m w4 w5 w6 txn' w7 where
    t: "ap_txns_Get P (gc_transactionID command) w = (Inr txn, w1)" and
    b: "BeginPasswordRegistration (idn_ID i) step now txn = (None, txn1)" and
    u: "ap_identities_Create P i w1 = (Inr (), w2)" "ap_profiles_Create P p w2 = (Inr (), w3)" and
    m: "Factory_Create (ap_ids_New P) (ap_payload_Marshal P) (ap_uuid_ToString P) EventTypeProfileUpdated
       AggregateTypeProfile (pr_IdentityID p) (Some (pr_Version p))
       (P_profile (UpdatedEvent (ap_uuid_ToString P) p)) (pr_UpdatedAt p) w3 = (Inr m, w4)" and
    o: "ap_outbox_Create P m w4 = (Inr (), w5)" "ap_passwords_Create P pw w5 = (Inr (), w6)" and
    s: "start_registration P step i (gc_requestedFromIP command) now txn1 w6 = (Inr txn', w7)" and
    z: "ap_txns_Update P txn' w7 = (Inr (), w')" "l' = Some txn'"
    by (auto simp: register_body_def call_inv)
  have w1: "stored w1 = stored w" "cached w1 = cached w" "cached w (gc_transactionID command) = Some txn"
    using t by (auto dest!: found)
  have w4: "stored w4 = stored w3" "cached w4 = cached w3"
    "im_EventType m = EventTypeProfileUpdated" "im_AggregateID m = pr_IdentityID p"
    "im_AggregateVersion m = Some (pr_Version p)"
    "ap_payload_Marshal P (P_profile (UpdatedEvent (ap_uuid_ToString P) p)) = Inr (im_Payload m)"
    using m by (auto simp: Factory_Create_eq dest!: kept NewMessage_fields)
  have "stored w6 = put_password pw (put_amsg m (put_profile p (put_identity i (stored w))))"
    "cached w6 = cached w"
    using u o w1 w4 by (auto dest!: saved)
  moreover from this have "register_saves P i p pw (stored w) (stored w6)"
    using w4 assms(3) by (auto simp: register_saves_def)
  ultimately show ?thesis
    using start_registration_ok [OF s assms(2)] saved(1) [OF z(1)] w1 b z(2) by auto
qed

lemma RegisterIdentity_outcome:
  assumes "RegisterIdentity P input w = (r, w')"
  shows "(\<exists>e. r = Inl e) \<and> stored w' = stored w \<or>
     (\<exists>txn' command now. r = Inr (Some txn') \<and> prepareRegisterIdentity P input = Inr command \<and>
        register_commit P command now (stored w) (cached w) txn' (stored w') (cached w'))"
proof (cases "prepareRegisterIdentity P input")
  case (Inl err)
  with assms show ?thesis by (auto simp: RegisterIdentity_def)
next
  case (Inr command)
  obtain now w0 where now: "ap_now P w = (now, w0)" by fastforce
  note w0 = kept(6) [OF now]
  obtain r1 w1 where i: "newRegistrationIdentity P command now w0 = (r1, w1)" by fastforce
  note w1 = newRegistrationIdentity_kept [OF i]
  obtain r2 w2 where h: "ap_Hash P (gc_password command) w1 = (r2, w2)" by fastforce
  note w2 = kept(4) [OF h]
  show ?thesis
  proof (cases "\<exists>e. r = Inl e \<and> (w' = w1 \<or> w' = w2)")
    case True
    with w0 w1 w2 show ?thesis by auto
  next
    case False
    with assms Inr now i h obtain idn step p hash h2 pw where ok: "r1 = Inr (idn, step)" "r2 = Inr hash"
      and p: "New_profile (idn_ID idn) (rp_FamilyName (gc_profile command)) (rp_GivenName (gc_profile command))
         (rp_MiddleName (gc_profile command)) now = Inr p"
      and h2: "Identity_Password.NewHash hash = Inr h2" and pw2: "New_password (idn_ID idn) h2 False None now = Inr pw"
      by (auto simp: RegisterIdentity_def attempt_def split: sum.splits prod.splits)
    have pw: "New_password (idn_ID idn) hash False None now = Inr pw"
      using pw2 NewHash_eq [OF h2] by simp
    have run: "(case do_tx (ap_tx P) None (register_body P command now idn step p pw) w2 of
       (Inl err, (w, l)) \<Rightarrow> (Inl err, w) | (Inr _, (w, l)) \<Rightarrow> (Inr l, w)) = (r, w')"
      using assms Inr now i h ok p h2 pw2 by (simp add: RegisterIdentity_def)
    obtain q w3 l where tx: "do_tx (ap_tx P) None (register_body P command now idn step p pw) w2 = (q, (w3, l))"
      by (metis prod.collapse)
    from newRegistrationIdentity_ok i ok(1) have reg: "registers command now idn step" by blast
    show ?thesis
    proof (cases q)
      case (Inl err)
      with run tx do_tx_err [OF tx [unfolded Inl]] w0 w1 w2 show ?thesis by auto
    next
      case ok2: (Inr u)
      obtain v1 v2 where b: "register_body P command now idn step p pw (v1, None) = (Inr (), (v2, l))"
        and v: "stored v1 = stored w2" "cached v1 = cached w2" "stored w3 = stored v2" "cached w3 = cached v2"
        by (rule do_tx_both [OF tx [unfolded ok2]])
      from run tx ok2 have r: "r = Inr l" "w' = w3" by auto
      note pid = New_profile_id [OF p]
      from register_body_ok [OF b registers_step [OF reg] conjunct1 [OF pid]] v w0 w1 w2 obtain txn txn1 s1 txn'
        where "l = Some txn'" "cached w (gc_transactionID command) = Some txn"
          "BeginPasswordRegistration (idn_ID idn) step now txn = (None, txn1)"
          "register_saves P idn p pw (stored w) s1"
          "register_starts (ap_contact P) idn step now txn1 s1 txn' (stored w3)"
          "cached w3 = (cached w)(at_ID txn' \<mapsto> txn')"
        by auto
      moreover from this have "register_commit P command now (stored w) (cached w) txn' (stored w3) (cached w3)"
        unfolding register_commit_def using reg pid p pw h ok(2)
        by (intro exI [of _ idn] exI [of _ step] exI [of _ p] exI [of _ hash] exI [of _ pw] exI [of _ txn]
            exI [of _ txn1] exI [of _ s1] exI [of _ w1] exI [of _ w2] conjI) simp_all
      ultimately show ?thesis using r Inr by auto
    qed
  qed
qed

end


section \<open>Skipping the enrollment and denying consent\<close>

definition skip_commit ::
  "uuid \<Rightarrow> gotime \<Rightarrow> astore \<Rightarrow> (uuid \<rightharpoonup> transaction) \<Rightarrow> transaction \<Rightarrow> astore \<Rightarrow> (uuid \<rightharpoonup> transaction) \<Rightarrow> bool" where
  "skip_commit k now s c txn' s' c' \<longleftrightarrow>
     (\<exists>txn txn1 src (f :: facts). c k = Some txn \<and> at_IdentityID txn \<noteq> None \<and> SkipMFAEnrollment now txn = (None, txn1) \<and>
        authorize_decided src now txn1 = (None, txn') \<and>
        (\<forall>a. src = Some a \<longrightarrow>
           fa_consentMode f = ConsentModeTrusted \<and> a = AuthorizationSourceTrustedClient \<or>
           fa_consentMode f = ConsentModeRemember \<and> fa_rememberedGrantCovers f \<and>
           a = AuthorizationSourceRememberedGrant) \<and>
        s' = s \<and> c' = c(at_ID txn' \<mapsto> txn'))"

definition deny_commit ::
  "('w, 'tx, 'z) auth_ports_scheme \<Rightarrow> uuid \<Rightarrow> gotime \<Rightarrow> astore \<Rightarrow> (uuid \<rightharpoonup> transaction) \<Rightarrow> string \<Rightarrow> astore
     \<Rightarrow> (uuid \<rightharpoonup> transaction) \<Rightarrow> bool" where
  "deny_commit P k now s c uri s' c' \<longleftrightarrow>
     (\<exists>txn txn'. c k = Some txn \<and> txn_Deny now txn = (None, txn') \<and>
        deniedAuthorizationRedirect P txn' = Inr uri \<and> s' = s \<and> c' = c(at_ID txn' \<mapsto> txn'))"

context auth_env
begin

lemma skip_body_ok:
  assumes "skip_body P k now (w, l) = (Inr u, (w', l'))"
  shows "\<exists>txn'. l' = Some txn' \<and> skip_commit k now (stored w) (cached w) txn' (stored w') (cached w')"
proof -
  from assms obtain txn w1 i d w2 txn1 txn' where t: "ap_txns_Get P k w = (Inr txn, w1)"
    and i: "at_IdentityID txn = Some i"
    and d: "resolveNextStep P txn i no_requirements now w1 = (Inr d, w2)"
    and s: "SkipMFAEnrollment now txn = (None, txn1)"
      "authorize_decided (fd_AuthorizationSource d) now txn1 = (None, txn')"
    and u: "ap_txns_Update P txn' w2 = (Inr (), w')" "l' = Some txn'"
    by (auto simp: skip_body_def call_inv split: option.splits if_splits)
  have w1: "stored w1 = stored w" "cached w1 = cached w" "cached w k = Some txn"
    using t by (auto dest!: found)
  from resolveNextStep_ok [OF d] obtain f where w2: "stored w2 = stored w1" "cached w2 = cached w1" and
    f: "ResolveNextStep \<lparr>fi_CurrentStep = at_NextStep txn, fi_Requirements = no_requirements, fi_Facts = f\<rparr> = Inr d"
    by blast
  have src: "\<forall>a. fd_AuthorizationSource d = Some a \<longrightarrow>
      fa_consentMode (the f) = ConsentModeTrusted \<and> a = AuthorizationSourceTrustedClient \<or>
      fa_consentMode (the f) = ConsentModeRemember \<and> fa_rememberedGrantCovers (the f) \<and>
      a = AuthorizationSourceRememberedGrant"
    using ResolveNextStep_ok(3) [OF f] by fastforce
  have "skip_commit k now (stored w) (cached w) txn' (stored w') (cached w')"
    unfolding skip_commit_def using w1 w2 i s saved(1) [OF u(1)] src
    by (intro exI [of _ txn] exI [of _ txn1] exI [of _ "fd_AuthorizationSource d"] exI [of _ "the f"] conjI) simp_all
  with u(2) show ?thesis by blast
qed

lemma SkipMFAEnrollment_outcome:
  assumes "auth_SkipMFAEnrollment P k w = (r, w')"
  shows "(\<exists>e. r = Inl e) \<and> stored w' = stored w \<or>
     (\<exists>txn' now. r = Inr (Some txn') \<and> skip_commit k now (stored w) (cached w) txn' (stored w') (cached w'))"
proof (cases "k = uuid_nil")
  case True
  with assms show ?thesis by (auto simp: auth_SkipMFAEnrollment_def raise_def)
next
  case False
  obtain now w0 where now: "ap_now P w = (now, w0)" by fastforce
  obtain q w1 l where tx: "do_tx (ap_tx P) None (skip_body P k now) w0 = (q, (w1, l))"
    by (metis prod.collapse)
  from assms False now tx have r: "w' = w1" "r = map_sum id (\<lambda>_. l) q"
    by (auto simp: auth_SkipMFAEnrollment_def split: sum.splits)
  have "(\<exists>e. q = Inl e) \<and> stored w1 = stored w \<or>
      q = Inr () \<and> (\<exists>txn'. l = Some txn' \<and>
        skip_commit k now (stored w) (cached w) txn' (stored w1) (cached w1))"
    by (rule do_tx_outcome [OF tx now]) (rule skip_body_ok)
  with r show ?thesis by auto
qed

lemma deny_body_ok:
  assumes "deny_body P k now (w, l) = (Inr u, (w', l'))"
  shows "deny_commit P k now (stored w) (cached w) l' (stored w') (cached w')"
proof -
  from assms obtain txn w1 txn' where t: "ap_txns_Get P k w = (Inr txn, w1)"
    and s: "txn_Deny now txn = (None, txn')" "ap_txns_Update P txn' w1 = (Inr (), w')"
      "deniedAuthorizationRedirect P txn' = Inr l'"
    by (auto simp: deny_body_def call_inv)
  have "stored w1 = stored w" "cached w1 = cached w" "cached w k = Some txn"
    using t by (auto dest!: found)
  with s saved(1) [OF s(2)] show ?thesis unfolding deny_commit_def by auto
qed

lemma DenyConsent_outcome:
  assumes "DenyConsent P k w = (r, w')"
  shows "(\<exists>e. r = Inl e) \<and> stored w' = stored w \<or>
     (\<exists>uri now. r = Inr uri \<and> deny_commit P k now (stored w) (cached w) uri (stored w') (cached w'))"
proof (cases "k = uuid_nil")
  case True
  with assms show ?thesis by (auto simp: DenyConsent_def raise_def)
next
  case False
  obtain now w0 where now: "ap_now P w = (now, w0)" by fastforce
  obtain q w1 l where tx: "do_tx (ap_tx P) '''' (deny_body P k now) w0 = (q, (w1, l))"
    by (metis prod.collapse)
  from assms False now tx have r: "w' = w1" "r = map_sum id (\<lambda>_. l) q"
    by (auto simp: DenyConsent_def split: sum.splits)
  have "(\<exists>e. q = Inl e) \<and> stored w1 = stored w \<or>
      q = Inr () \<and> deny_commit P k now (stored w) (cached w) l (stored w1) (cached w1)"
    by (rule do_tx_outcome [OF tx now]) (rule deny_body_ok)
  with r show ?thesis by auto
qed

end

end
