(* ===== verification/Auth_Memory.thy ===== *)
theory Auth_Memory
  imports Auth_Steps Tables
begin

text \<open>
  The ports of the authentication service in memory, after the mocks of
  \<open>internal/usecase/authentication/*_test.go\<close> and \<open>internal/service/contactverification/*_test.go\<close>: a
  database of tables whose rollback leaves Redis (authorization transactions) alone, a fixed clock, a
  counter for identifiers, hashes that mark what they hash, and one code. The contract of
  \<open>Auth_Contract\<close> is interpreted on them.
\<close>

section \<open>The world and its ports\<close>

record amem =
  am_identities :: "identity list"
  am_profiles :: "profile list"
  am_passwords :: "password list"
  am_grants :: "authorization_grant list"
  am_chals :: "(challenge_kind \<times> challenge) list"
  am_outbox :: "imessage list"
  am_txns :: "transaction list"
  am_clients :: "oauth_client list"
  am_facts :: facts
  am_now :: gotime
  am_next :: nat

definition grant_key :: "authorization_grant \<Rightarrow> uuid \<times> uuid" where
  "grant_key g = (ag_IdentityID g, ag_OAuthClientID g)"

definition chal_key :: "challenge_kind \<times> challenge \<Rightarrow> challenge_kind \<times> uuid" where
  "chal_key kc = (fst kc, ch_ID (snd kc))"

definition am_stored :: "amem \<Rightarrow> astore" where
  "am_stored w =
     \<lparr>ax_identities = lookup_row idn_ID (am_identities w), ax_profiles = lookup_row pr_IdentityID (am_profiles w),
      ax_passwords = lookup_row pw_IdentityID (am_passwords w), ax_grants = lookup_row grant_key (am_grants w),
      ax_challenges = (\<lambda>kind k. map_option snd (lookup_row chal_key (am_chals w) (kind, k))),
      ax_outbox = am_outbox w\<rparr>"

definition am_cached :: "amem \<Rightarrow> (uuid \<rightharpoonup> transaction)" where
  "am_cached w = lookup_row at_ID (am_txns w)"

type_synonym 'a amem_result = "(amem, id_sentinel, 'a) result"

definition am_find :: "id_sentinel \<Rightarrow> (amem \<Rightarrow> 'a option) \<Rightarrow> amem \<Rightarrow> 'a amem_result" where
  "am_find missing f w = (case f w of None \<Rightarrow> (Inl (Sentinel missing), w) | Some x \<Rightarrow> (Inr x, w))"

definition am_put :: "(amem \<Rightarrow> amem) \<Rightarrow> amem \<Rightarrow> unit amem_result" where
  "am_put f w = (Inr (), f w)"

definition am_fresh :: "amem \<Rightarrow> uuid \<times> amem" where
  "am_fresh w = (of_nat (am_next w), w\<lparr>am_next := am_next w + 1\<rparr>)"

definition am_save_identity :: "identity \<Rightarrow> amem \<Rightarrow> amem" where
  "am_save_identity i w = w\<lparr>am_identities := save_row idn_ID i (am_identities w)\<rparr>"

definition am_save_profile :: "profile \<Rightarrow> amem \<Rightarrow> amem" where
  "am_save_profile p w = w\<lparr>am_profiles := save_row pr_IdentityID p (am_profiles w)\<rparr>"

definition am_save_password :: "password \<Rightarrow> amem \<Rightarrow> amem" where
  "am_save_password p w = w\<lparr>am_passwords := save_row pw_IdentityID p (am_passwords w)\<rparr>"

definition am_save_grant :: "authorization_grant \<Rightarrow> amem \<Rightarrow> amem" where
  "am_save_grant g w = w\<lparr>am_grants := save_row grant_key g (am_grants w)\<rparr>"

definition am_save_chal :: "challenge_kind \<Rightarrow> challenge \<Rightarrow> amem \<Rightarrow> amem" where
  "am_save_chal kind c w = w\<lparr>am_chals := save_row chal_key (kind, c) (am_chals w)\<rparr>"

definition am_save_msg :: "imessage \<Rightarrow> amem \<Rightarrow> amem" where
  "am_save_msg m w = w\<lparr>am_outbox := am_outbox w @ [m]\<rparr>"

definition am_save_txn :: "transaction \<Rightarrow> amem \<Rightarrow> amem" where
  "am_save_txn t w = w\<lparr>am_txns := save_row at_ID t (am_txns w)\<rparr>"

definition am_revoke :: "challenge_kind \<Rightarrow> uuid \<Rightarrow> gotime \<Rightarrow> amem \<Rightarrow> int64 amem_result" where
  "am_revoke kind k now w =
     (Inr 0, w\<lparr>am_chals := map (\<lambda>(kd, c). (kd, if kd = kind then revoke_row k now c else c)) (am_chals w)\<rparr>)"

definition am_tx :: "(amem, id_sentinel, amem) tx_ops" where
  "am_tx =
     \<lparr>Begin = (\<lambda>w. (Inr w, w)), Commit = (\<lambda>tx w. (None, w)),
      Rollback = (\<lambda>tx w. (None, w\<lparr>am_identities := am_identities tx, am_profiles := am_profiles tx,
        am_passwords := am_passwords tx, am_grants := am_grants tx, am_chals := am_chals tx,
        am_outbox := am_outbox tx\<rparr>))\<rparr>"

definition am_contact :: "amem contact_ports" where
  "am_contact =
     \<lparr>cv_cfg = \<lparr>cv_Lifetime = 600 * second, cv_MaxAttempts = 3\<rparr>, cv_RevokeActive = am_revoke,
      cv_Create = (\<lambda>kind c. am_put (am_save_chal kind c)),
      cv_GetForUpdate = (\<lambda>kind k. am_find (S_chal kind Cha_ErrNotFound)
        (\<lambda>w. map_option snd (lookup_row chal_key (am_chals w) (kind, k)))),
      cv_Update = (\<lambda>kind c. am_put (am_save_chal kind c)),
      cv_outbox_Create = (\<lambda>m. am_put (am_save_msg m)), cv_Generate = (\<lambda>w. (Inr ''123456'', w)),
      cv_Digest = (\<lambda>c. ''hash:'' @ c), cv_ids_New = am_fresh, cv_payload_Marshal = (\<lambda>p. Inr ''{...}''),
      cv_uuid_ToString = (\<lambda>k. show_nat (unat k))\<rparr>"

definition am_ports :: "(amem, amem) auth_ports" where
  "am_ports =
     \<lparr>ap_txns_Get = (\<lambda>k. am_find (S_tra Tra_ErrNotFound) (\<lambda>w. lookup_row at_ID (am_txns w) k)),
      ap_txns_Update = (\<lambda>t. am_put (am_save_txn t)),
      ap_clients_Get = (\<lambda>k. am_find (S_cli Cli_ErrNotFound) (\<lambda>w. lookup_row oc_ID (am_clients w) k)),
      ap_grants_Get = (\<lambda>k k2. am_find (S_grant Grant_ErrNotFound) (\<lambda>w. lookup_row grant_key (am_grants w) (k, k2))),
      ap_grants_Create = (\<lambda>g. am_put (am_save_grant g)), ap_grants_Update = (\<lambda>g. am_put (am_save_grant g)),
      ap_identities_Create = (\<lambda>i. am_put (am_save_identity i)),
      ap_identities_Get = (\<lambda>k. am_find (S_idn Idn_ErrNotFound) (\<lambda>w. lookup_row idn_ID (am_identities w) k)),
      ap_identities_GetByEmail = (\<lambda>v. am_find (S_idn Idn_ErrNotFound)
        (\<lambda>w. search_row idn_ID (\<lambda>i. v \<in> ct_Value ` set (idn_Emails i)) (am_identities w))),
      ap_identities_GetByPhone = (\<lambda>v. am_find (S_idn Idn_ErrNotFound)
        (\<lambda>w. search_row idn_ID (\<lambda>i. v \<in> ct_Value ` set (idn_Phones i)) (am_identities w))),
      ap_identities_Update = (\<lambda>i. am_put (am_save_identity i)),
      ap_profiles_Create = (\<lambda>p. am_put (am_save_profile p)),
      ap_profiles_Get = (\<lambda>k. am_find (S_pro Pro_ErrNotFound) (\<lambda>w. lookup_row pr_IdentityID (am_profiles w) k)),
      ap_outbox_Create = (\<lambda>m. am_put (am_save_msg m)),
      ap_passwords_Create = (\<lambda>p. am_put (am_save_password p)),
      ap_passwords_Get = (\<lambda>k. am_find (S_pwd Pwd_ErrNotFound) (\<lambda>w. lookup_row pw_IdentityID (am_passwords w) k)),
      ap_passwords_Update = (\<lambda>p. am_put (am_save_password p)),
      ap_facts_Get = (\<lambda>k k2 ss now w. (Inr (am_facts w), w)), ap_contact = am_contact,
      ap_Hash = (\<lambda>p w. (Inr (''hash:'' @ p), w)),
      ap_Verify = (\<lambda>p h. if h = ''hash:'' @ p then None else Some (Fresh ''password does not match'')),
      ap_policy = \<lparr>MaxAttempts = 3, LockDuration = 600 * second\<rparr>, ap_tx = am_tx, ap_ids_New = am_fresh,
      ap_now = (\<lambda>w. (am_now w, w)), ap_payload_Marshal = (\<lambda>p. Inr ''{...}''),
      ap_uuid_ToString = (\<lambda>k. show_nat (unat k)), ap_NewEmailAddress = Inr, ap_NewPhoneNumber = Inr,
      ap_url_WithQuery = (\<lambda>u q. Inr (u @ ''?'' @ join_with (CHR ''&'') (map (\<lambda>(k, v). k @ ''='' @ v) q)))\<rparr>"


section \<open>The contract holds in memory\<close>

lemma am_find_finds:
  "(\<And>w x. f w = Some x \<Longrightarrow> Q (am_stored w) (am_cached w) x) \<Longrightarrow> finds am_stored am_cached (am_find e f) Q"
  by (auto simp: finds_def am_find_def intro!: quietI split: option.splits)

lemma am_find_quiet: "quiet am_stored am_cached (am_find e f)"
  by (auto simp: am_find_def intro!: quietI split: option.splits)

lemma am_put_saves:
  "(\<And>w. am_stored (f w) = g (am_stored w)) \<Longrightarrow> (\<And>w. am_cached (f w) = am_cached w) \<Longrightarrow>
     saves am_stored am_cached (am_put f) g"
  by (auto simp: saves_def am_put_def)

lemma am_stored_saves:
  "am_stored (am_save_identity i w) = put_identity i (am_stored w)"
  "am_stored (am_save_profile p w) = put_profile p (am_stored w)"
  "am_stored (am_save_password pw w) = put_password pw (am_stored w)"
  "am_stored (am_save_grant g w) = put_grant g (am_stored w)"
  "am_stored (am_save_msg m w) = put_amsg m (am_stored w)"
  "am_stored (am_save_txn t w) = am_stored w"
  by (simp_all add: am_stored_def aput_defs am_save_identity_def am_save_profile_def am_save_password_def
      am_save_grant_def am_save_msg_def am_save_txn_def lookup_save grant_key_def)

lemma am_stored_chal: "am_stored (am_save_chal kind c w) = put_challenge kind c (am_stored w)"
  by (auto simp: am_stored_def put_challenge_def am_save_chal_def lookup_save chal_key_def fun_eq_iff)

lemma am_cached_saves:
  "am_cached (am_save_identity i w) = am_cached w"
  "am_cached (am_save_profile p w) = am_cached w"
  "am_cached (am_save_password pw w) = am_cached w"
  "am_cached (am_save_grant g w) = am_cached w"
  "am_cached (am_save_chal kind c w) = am_cached w"
  "am_cached (am_save_msg m w) = am_cached w"
  "am_cached (am_save_txn t w) = (am_cached w)(at_ID t \<mapsto> t)"
  by (simp_all add: am_cached_def am_save_identity_def am_save_profile_def am_save_password_def
      am_save_grant_def am_save_chal_def am_save_msg_def am_save_txn_def lookup_save)

lemma revoke_row_id [simp]: "ch_ID (revoke_row k now c) = ch_ID c"
  by (simp add: revoke_row_def)

lemma lookup_revoke:
  "lookup_row chal_key (map (\<lambda>(kd, c). (kd, if kd = kind then revoke_row k now c else c)) rows) (kd, j) =
   map_option (\<lambda>(kd, c). (kd, if kd = kind then revoke_row k now c else c)) (lookup_row chal_key rows (kd, j))"
  by (induction rows) (auto simp: lookup_row_def chal_key_def)

lemma am_revoke_saves: "saves am_stored am_cached (am_revoke kind k now) (revoke_active kind k now)"
proof -
  have "map_option snd (lookup_row chal_key (map (\<lambda>(kd, c). (kd, if kd = kind then revoke_row k now c else c)) rows)
      (kd, j)) =
    (if kd = kind then map_option (revoke_row k now) (map_option snd (lookup_row chal_key rows (kd, j)))
     else map_option snd (lookup_row chal_key rows (kd, j)))" for rows kd j
  proof (cases "lookup_row chal_key rows (kd, j)")
    case (Some kc)
    with lookup_row_key [OF Some] show ?thesis by (cases kc) (auto simp: lookup_revoke chal_key_def)
  qed (auto simp: lookup_revoke)
  then show ?thesis
    by (auto simp: saves_def am_revoke_def am_stored_def am_cached_def revoke_active_def fun_eq_iff)
qed

lemma am_fresh_quiet: "quiet am_stored am_cached am_fresh"
  by (auto simp: am_fresh_def am_stored_def am_cached_def intro!: quietI)

interpretation am_db: transactional am_tx am_stored am_stored
  by unfold_locales (auto simp: am_tx_def am_stored_def)

lemma am_tx_driver [simp]: "ap_tx am_ports = am_tx"
  by (simp add: am_ports_def)

lemma am_tx_cached:
  "Begin am_tx w = (b, w') \<Longrightarrow> am_cached w' = am_cached w"
  "Commit am_tx tx w = (e, w') \<Longrightarrow> am_cached w' = am_cached w"
  "Rollback am_tx tx w = (e, w') \<Longrightarrow> am_cached w' = am_cached w"
  by (auto simp: am_tx_def am_cached_def)

lemma am_finds:
  "finds am_stored am_cached (am_find e (\<lambda>w. lookup_row at_ID (am_txns w) k)) (\<lambda>s c t. c k = Some t \<and> at_ID t = k)"
  "finds am_stored am_cached (am_find e (\<lambda>w. lookup_row grant_key (am_grants w) (k, k2)))
     (\<lambda>s c g. ax_grants s (k, k2) = Some g \<and> ag_IdentityID g = k \<and> ag_OAuthClientID g = k2)"
  "finds am_stored am_cached (am_find e (\<lambda>w. lookup_row idn_ID (am_identities w) k))
     (\<lambda>s c i. ax_identities s k = Some i \<and> idn_ID i = k)"
  "finds am_stored am_cached
     (am_find e (\<lambda>w. search_row idn_ID (\<lambda>i. v \<in> ct_Value ` set (idn_Emails i)) (am_identities w)))
     (\<lambda>s c i. ax_identities s (idn_ID i) = Some i \<and> v \<in> ct_Value ` set (idn_Emails i))"
  "finds am_stored am_cached
     (am_find e (\<lambda>w. search_row idn_ID (\<lambda>i. v \<in> ct_Value ` set (idn_Phones i)) (am_identities w)))
     (\<lambda>s c i. ax_identities s (idn_ID i) = Some i \<and> v \<in> ct_Value ` set (idn_Phones i))"
  "finds am_stored am_cached (am_find e (\<lambda>w. lookup_row pw_IdentityID (am_passwords w) k))
     (\<lambda>s c p. ax_passwords s k = Some p \<and> pw_IdentityID p = k)"
  "finds am_stored am_cached (am_find e (\<lambda>w. map_option snd (lookup_row chal_key (am_chals w) (kind, k))))
     (\<lambda>s c ch. ax_challenges s kind k = Some ch \<and> ch_ID ch = k)"
  by (rule am_find_finds; force simp: am_stored_def am_cached_def grant_key_def chal_key_def
      dest: lookup_row_key search_row_Some)+

lemma am_put_txn:
  "am_put (am_save_txn t) w = (Inr u, w') \<Longrightarrow>
     am_stored w' = am_stored w \<and> am_cached w' = (am_cached w)(at_ID t \<mapsto> t)"
  by (auto simp: am_put_def am_stored_saves am_cached_saves)

lemma am_const_quiet: "quiet am_stored am_cached (\<lambda>w. (f w, w))"
  by (auto intro: quietI)

interpretation am: auth_env am_ports am_stored am_stored am_cached
proof (intro auth_env.intro auth_env_axioms.intro, simp_all only: am_tx_driver am_db.transactional_axioms am_tx_cached)
qed (simp_all add: am_ports_def am_contact_def am_finds am_put_txn am_const_quiet am_find_quiet am_fresh_quiet
    am_put_saves am_stored_saves am_stored_chal am_cached_saves am_revoke_saves)


section \<open>A worked login and a worked registration\<close>

text \<open>An active account with a verified e-mail address and a password, and a transaction that awaits a login.\<close>

definition demo_account :: identity where
  "demo_account =
     \<lparr>idn_ID = 2001, idn_Status = Identity_Active,
      idn_Emails = [\<lparr>ct_ID = 2002, ct_Value = ''ann@example.org'', ct_IsPrimary = True, ct_CreatedAt = 1,
        ct_UpdatedAt = 2, ct_VerifiedAt = Some 2, ct_DeletedAt = None\<rparr>],
      idn_Phones = [], idn_ExternalAccounts = [], idn_CreatedAt = 1, idn_UpdatedAt = 2,
      idn_DeletedAt = None\<rparr>"

definition demo_password :: password where
  "demo_password =
     \<lparr>pw_IdentityID = 2001,
      pw_Credential = \<lparr>pc_Hash = ''hash:open sesame'', pc_MustChange = False, pc_PasswordUpdatedAt = 2,
        pc_ExpiresAt = None, pc_CompromisedAt = None, pc_CreatedAt = 2, pc_UpdatedAt = 2\<rparr>,
      pw_AuthState = as_Reset 2\<rparr>"

definition login_txn :: transaction where
  "login_txn =
     \<lparr>at_ID = 3001, at_OAuthClientID = 1001, at_RedirectURI = ''https://app'',
      at_RequestedScopes = [''openid'', ''email''], at_State = None, at_Nonce = None, at_PKCE = None,
      at_Status = StatusPending, at_NextStep = NextStepChooseAuthenticationMethod, at_IdentityID = None,
      at_AuthenticationLevel = None, at_AuthenticatedMethods = [], at_GrantedScopes = [],
      at_AuthorizationSource = None, at_Verification = None, at_AuthenticatedAt = None,
      at_ExpiresAt = 600000001000\<rparr>"

text \<open>The same transaction once a second factor was given.\<close>

definition consent_txn :: transaction where
  "consent_txn =
     login_txn\<lparr>at_ID := 3002, at_NextStep := NextStepConsent, at_IdentityID := Some 2001,
       at_AuthenticationLevel := Some LevelMultiFactor, at_AuthenticatedMethods := [MethodPassword, MethodTOTP],
       at_AuthenticatedAt := Some 950\<rparr>"

definition am0 :: amem where
  "am0 =
     \<lparr>am_identities = [demo_account], am_profiles = [], am_passwords = [demo_password], am_grants = [],
      am_chals = [], am_outbox = [], am_txns = [login_txn, consent_txn], am_clients = [],
      am_facts = \<lparr>fa_availableMFAMethods = [MethodTOTP], fa_consentMode = ConsentModeRequired,
                  fa_rememberedGrantCovers = False\<rparr>,
      am_now = 1000, am_next = 1\<rparr>"

definition demo_login :: "string \<Rightarrow> login_input" where
  "demo_login p = \<lparr>li_AuthorizationTransactionID = 3001, li_Email = Some ''ann@example.org'',
                   li_PhoneNumber = None, li_Password = p\<rparr>"

definition demo_consent :: consent_input where
  "demo_consent = \<lparr>ci_AuthorizationTransactionID = 3002, ci_GrantedScopes = [''openid''], ci_Remember = True\<rparr>"

definition demo_register :: register_input where
  "demo_register =
     \<lparr>gi_AuthorizationTransactionID = 3001, gi_Email = Some ''bob@example.org'', gi_PhoneNumber = None,
      gi_Password = ''correct horse'',
      gi_Profile = Some \<lparr>rp_FamilyName = ''Bell'', rp_GivenName = ''Bob'', rp_MiddleName = None\<rparr>,
      gi_RequestedFromIP = None\<rparr>"

definition demo_verify :: "string \<Rightarrow> verify_input" where
  "demo_verify code = \<lparr>vi_AuthorizationTransactionID = 3001, vi_Code = code, vi_ConsumedFromIP = None\<rparr>"

text \<open>The world after Bob registered.\<close>

definition am1 :: amem where
  "am1 = snd (RegisterIdentity am_ports demo_register am0)"

end
