(* ===== verification/Auth_Properties.thy ===== *)
theory Auth_Properties
  imports Auth_Memory
begin

text \<open>
  The properties of the authentication use cases, over any ports that meet the contract \<open>auth_env\<close>, and
  their witnesses on the ports in memory.
\<close>

section \<open>Logging in\<close>





section \<open>Registering\<close>




lemma revoke_row_subject [simp]: "ch_SubjectID (revoke_row k now c) = ch_SubjectID c"
  by (simp add: revoke_row_def)






section \<open>Verifying a contact\<close>










section \<open>Consent\<close>




end
