(* ===== verification/Spec2Isabelle.thy ===== *)
theory Spec2Isabelle
  imports Hiring_Properties Package_Properties Identity_Properties Account_Properties Identity_Key OAuth_Properties Aggregate_Properties
    Auth_Properties
begin

text \<open>
  A verification library of careeria, the Go back end of a hiring platform.

  \<^bold>\<open>The program.\<close> The hiring service (\<open>services/hiring\<close>) keeps job applications, interviews and job
  offers. Its aggregates (\<open>internal/domain\<close>) guard their own life cycle; its use cases
  (\<open>internal/usecase\<close>) load aggregates, check rights and policies, and store the new state together
  with an event in one transaction. The identity service (\<open>services/identity\<close>) is the OAuth 2.0
  authorization server of the platform: a client starts an authorization transaction, the user
  authenticates in it step by step, an authorization code is bound to the client and to a PKCE
  challenge, and refresh tokens rotate in families under a session. The shared packages (\<open>packages/go\<close>) give it transactions, an
  outbox worker that publishes the events, an inbox that deduplicates incoming ones, retries, and
  the orderly start and stop of a process.

  \<^bold>\<open>The theories.\<close>

    \<^item> \<open>Prelude\<close>: UUIDs, instants, error chains, the early return, and locales for life cycles.
    \<^item> \<open>Txmanager\<close>: \<open>packages/go/txmanager\<close>; the locale \<open>transactional\<close> says what a database promises,
      \<open>tx_port\<close> what \<open>Do\<close> then promises to a use case.
    \<^item> \<open>Hiring_Application\<close>, \<open>Hiring_Interview\<close>, \<open>Hiring_Offer\<close>: the aggregates and the offer
      eligibility policy, one function per method, with their step relations and invariants.
    \<^item> \<open>Hiring_Event\<close>: \<open>internal/domain/event\<close>, \<open>apperr\<close>, and the codes a caller sees.
    \<^item> \<open>Hiring_Usecases\<close>, \<open>Hiring_Offer_Usecases\<close>, \<open>Hiring_Room\<close>, \<open>Hiring_Interview_Usecases\<close>: the use
      cases, over records of ports for the repositories, the authorization, the outbox, the clock and
      the conference service.
    \<^item> \<open>Hiring_Contract\<close>: what the ports promise, as locales, and what each use case then leaves in the
      store; \<open>Hiring_Service\<close>: the abstract machine of the store, its invariant, and the refinement
      of whole runs of calls; \<open>Hiring_Memory\<close>: an in-memory implementation of every port, on which
      the locales are interpreted and the witnesses evaluated.
    \<^item> \<open>Retry\<close>, \<open>Inbox\<close>, \<open>Outbox\<close>, \<open>Lifecycle\<close>: the packages of these names, and \<open>closer\<close>, \<open>shutdown\<close>,
      \<open>runtime\<close>, \<open>idgen\<close>, \<open>clock\<close> in the last.
    \<^item> \<open>Identity_Common\<close>: the value objects of the identity domain that several aggregates share
      (identifiers, levels and methods of authentication, scopes of a client).
    \<^item> \<open>Identity_Refresh\<close>: \<open>domain/refreshtokenfamily\<close>, the rotation of refresh tokens and its families;
      \<open>Identity_Session\<close>: \<open>domain/session\<close>; \<open>Identity_Grant\<close>: \<open>domain/authorizationgrant\<close>.
    \<^item> \<open>Identity_Client\<close>, \<open>Identity_Client_Invariant\<close>: \<open>domain/oauthclient\<close>, the registered clients,
      their credentials and what every sequence of calls keeps of them.
    \<^item> \<open>Go_Crypto\<close>: SHA-256 and base64url of the Go library, bit by bit; \<open>Identity_OAuth\<close>: scopes, PKCE,
      nonce and authorization codes of \<open>domain/oauth\<close> over it.
    \<^item> \<open>Identity_Transaction\<close>, \<open>Identity_Transaction_Life\<close>: \<open>domain/authorizationtransaction\<close>, the state machine
      of an authorization transaction, its invariant and its rank; \<open>Identity_Flow\<close>: \<open>domain/authenticationflow\<close>,
      the policy that picks the next step.
    \<^item> \<open>Hiring_Properties\<close>, \<open>Package_Properties\<close>, \<open>Identity_Properties\<close>: the properties, each with a
      witness.

  \<^bold>\<open>Conventions.\<close> A method that changes its receiver is a function from the old to the new value; an
  error is \<open>Inl\<close>; a use case is a function of the ports, its input and the world, and returns the
  world it leaves. Durations in \<open>Retry\<close> are 64-bit words, elsewhere integers.

  \<^bold>\<open>Bounds.\<close> The retry loop ends because a round goes on only below the last attempt. The loop of the
  outbox worker may run forever and is a partial function; that it returns over a live broker is a
  property of its own. An authorization transaction takes at most fourteen successful calls: each
  raises its rank, which is bounded by the order of the steps.

  \<^bold>\<open>Not modelled.\<close> SQL, gRPC, HTTP, Kafka, JWT and configuration code, which call libraries;
  generated code; goroutines and mutexes; the floating-point jitter of \<open>retry\<close>; the parsing of
  redirect URIs by \<open>net/url\<close> and of addresses by \<open>net/netip\<close>; of the identity service the aggregates
  of accounts and factors (identity, profile, password, one-time codes, passkeys, challenges,
  signing keys), its use cases, repositories and transports; the API gateway.
\<close>

end
